(* ===== verification/Prelude.thy ===== *)
theory Prelude
  imports Main "HOL-Library.AList" "HOL-Library.Char_ord" "HOL-Library.List_Lexorder"
    "HOL-Library.Multiset" "HOL-Library.Signed_Division"
begin

text \<open>
  Shared vocabulary of the development: the parts of Go and of its standard library that the
  modelled code uses, and the generic lemmas the components share.

  \<^item> \<open>int64\<close> values are \<open>int\<close> with the wrap-around of every addition, subtraction and
    multiplication written out (\<open>wrap64\<close>); division truncates towards zero (\<open>sdiv\<close>, \<open>smod\<close>).
  \<^item> A Go map is an association list (\<open>gomap\<close>): the order of the list is the order in which one
    \<open>range\<close> loop happens to visit the entries. Go leaves that order open, so a statement over an
    arbitrary list is a statement over every order. A nil map reads like an empty one and is \<open>[]\<close>;
    where the code tells nil from empty the model uses an \<open>option\<close>.
  \<^item> A pointer that may be nil is an \<open>option\<close>; a pair \<open>(value, error)\<close> is a sum \<open>error + value\<close>.
  \<^item> Strings are byte lists. \<open>TrimSpace\<close>, \<open>ToLower\<close> and \<open>EqualFold\<close> follow Go on ASCII input.
\<close>

section \<open>Collections of facts\<close>

named_theorems int64_simps \<open>rules that remove the wrap-around of 64-bit arithmetic\<close>
named_theorems gomap_simps \<open>lookup and domain of updated Go maps\<close>

section \<open>64-bit integers\<close>

type_synonym int64 = int

definition wrap64 :: "int \<Rightarrow> int64" where
  "wrap64 x = (x + 2 ^ 63) mod 2 ^ 64 - 2 ^ 63"

definition in64 :: "int \<Rightarrow> bool" where
  "in64 x \<longleftrightarrow> - (2 ^ 63) \<le> x \<and> x < 2 ^ 63"

definition add64 :: "int64 \<Rightarrow> int64 \<Rightarrow> int64" where
  "add64 a b = wrap64 (a + b)"

definition sub64 :: "int64 \<Rightarrow> int64 \<Rightarrow> int64" where
  "sub64 a b = wrap64 (a - b)"

definition mul64 :: "int64 \<Rightarrow> int64 \<Rightarrow> int64" where
  "mul64 a b = wrap64 (a * b)"

lemma wrap64_id [int64_simps]: "in64 x \<Longrightarrow> wrap64 x = x"
  by (simp add: wrap64_def in64_def)

lemma in64_wrap64 [simp]: "in64 (wrap64 x)"
proof -
  have "0 \<le> (x + 2 ^ 63) mod 2 ^ 64" and "(x + 2 ^ 63) mod 2 ^ 64 < 2 ^ 64"
    by simp_all
  then show ?thesis
    unfolding wrap64_def in64_def by simp
qed

lemma add64_exact [int64_simps]: "in64 (a + b) \<Longrightarrow> add64 a b = a + b"
  by (simp add: add64_def wrap64_id)

lemma sub64_exact [int64_simps]: "in64 (a - b) \<Longrightarrow> sub64 a b = a - b"
  by (simp add: sub64_def wrap64_id)

lemma mul64_exact [int64_simps]: "in64 (a * b) \<Longrightarrow> mul64 a b = a * b"
  by (simp add: mul64_def wrap64_id)

lemma sdiv_mult_cancel: "b \<noteq> 0 \<Longrightarrow> (a * b) sdiv b = (a :: int)"
  by (simp add: signed_divide_int_def sgn_mult abs_mult sgn_mult_abs mult.assoc)

lemma smod_nonneg: "0 \<le> a \<Longrightarrow> 0 < b \<Longrightarrow> a smod b = (a mod b :: int)"
  by (cases "a = 0")
     (simp_all add: signed_modulo_int_def signed_divide_int_def minus_div_mult_eq_mod)

lemma sdiv_nonneg: "0 \<le> a \<Longrightarrow> 0 < b \<Longrightarrow> a sdiv b = (a div b :: int)"
  by (cases "a = 0") (simp_all add: signed_divide_int_def)

section \<open>Go maps\<close>

type_synonym ('k, 'v) gomap = "('k \<times> 'v) list"

abbreviation mget :: "('k, 'v) gomap \<Rightarrow> 'k \<Rightarrow> 'v option" where
  "mget m k \<equiv> map_of m k"

abbreviation mput :: "'k \<Rightarrow> 'v \<Rightarrow> ('k, 'v) gomap \<Rightarrow> ('k, 'v) gomap" where
  "mput k v m \<equiv> AList.update k v m"

abbreviation mdel :: "'k \<Rightarrow> ('k, 'v) gomap \<Rightarrow> ('k, 'v) gomap" where
  "mdel k m \<equiv> AList.delete k m"

abbreviation mkeys :: "('k, 'v) gomap \<Rightarrow> 'k list" where
  "mkeys m \<equiv> map fst m"

abbreviation mwf :: "('k, 'v) gomap \<Rightarrow> bool" where
  "mwf m \<equiv> distinct (mkeys m)"

declare map_of_eq_Some_iff [simp del] Some_eq_map_of_iff [simp del]

lemma mget_mput [simp, gomap_simps]:
  "mget (mput k v m) k' = (if k' = k then Some v else mget m k')"
  by (simp add: update_conv')

lemma mget_mdel [simp, gomap_simps]:
  "mget (mdel k m) k' = (if k' = k then None else mget m k')"
  by (simp add: delete_conv')

lemma mwf_mput [simp]: "mwf m \<Longrightarrow> mwf (mput k v m)"
  by (rule distinct_update)

lemma mkeys_mput [gomap_simps]: "set (mkeys (mput k v m)) = insert k (set (mkeys m))"
  by (induction m) auto

lemma fst_set_mput [gomap_simps]: "fst ` set (mput k v m) = insert k (fst ` set m)"
  using mkeys_mput[of k v m] by simp

lemma mget_in: "mget m k = Some v \<Longrightarrow> (k, v) \<in> set m"
  by (rule map_of_SomeD)

lemma mget_eq_in: "mwf m \<Longrightarrow> mget m k = Some v \<longleftrightarrow> (k, v) \<in> set m"
  by (rule map_of_eq_Some_iff)

lemma mget_mapval: "mget (map (\<lambda>(k, v). (k, f k v)) m) k = map_option (f k) (mget m k)"
  by (induction m) auto

lemma mkeys_mapval [simp]: "mkeys (map (\<lambda>(k, v). (k, f k v)) m) = mkeys m"
  by (induction m) auto

lemma fst_mapval [simp]:
  "fst \<circ> (\<lambda>(k, v). (k, f k v)) = fst" "(\<lambda>x. fst (case x of (k, v) \<Rightarrow> (k, f k v))) = fst"
  by (auto simp: fun_eq_iff)

lemma mapval_ident [simp]: "map (\<lambda>(k, v). (k, v)) m = m"
  by (induction m) auto

section \<open>Loops over lists that may stop with an error\<close>

text \<open>
  \<open>fold_res f xs s\<close> is \<open>for _, x := range xs { s, err = f(x, s); if err != nil { return err } }\<close>.
\<close>

fun fold_res :: "('a \<Rightarrow> 's \<Rightarrow> 'e + 's) \<Rightarrow> 'a list \<Rightarrow> 's \<Rightarrow> 'e + 's" where
  "fold_res f [] s = Inr s"
| "fold_res f (x # xs) s =
     (case f x s of Inl e \<Rightarrow> Inl e | Inr s' \<Rightarrow> fold_res f xs s')"

lemma fold_res_append:
  "fold_res f (xs @ ys) s =
     (case fold_res f xs s of Inl e \<Rightarrow> Inl e | Inr s' \<Rightarrow> fold_res f ys s')"
  by (induction xs arbitrary: s) (auto split: sum.splits)

lemma fold_res_invariant:
  assumes "fold_res f xs s = Inr s'" and "I s"
    and "\<And>x t t'. x \<in> set xs \<Longrightarrow> I t \<Longrightarrow> f x t = Inr t' \<Longrightarrow> I t'"
  shows "I s'"
  using assms
proof (induction xs arbitrary: s)
  case (Cons x xs)
  from Cons.prems(1) obtain t where t: "f x s = Inr t" "fold_res f xs t = Inr s'"
    by (auto split: sum.splits)
  from Cons.prems(2,3) t(1) have "I t" by (meson list.set_intros(1))
  with t(2) show ?case
    by (rule Cons.IH) (use Cons.prems(3) in auto)
qed simp

fun map_res :: "('a \<Rightarrow> 'e + 'b) \<Rightarrow> 'a list \<Rightarrow> 'e + 'b list" where
  "map_res f [] = Inr []"
| "map_res f (x # xs) =
     (case f x of Inl e \<Rightarrow> Inl e
      | Inr y \<Rightarrow> (case map_res f xs of Inl e \<Rightarrow> Inl e | Inr ys \<Rightarrow> Inr (y # ys)))"

lemma map_res_list_all2:
  "map_res f xs = Inr ys \<Longrightarrow> list_all2 (\<lambda>x y. f x = Inr y) xs ys"
  by (induction xs arbitrary: ys) (auto split: sum.splits)

lemma list_all2_right:
  "list_all2 P xs ys \<Longrightarrow> y \<in> set ys \<Longrightarrow> \<exists>x \<in> set xs. P x y"
  by (induction rule: list_all2_induct) auto

lemma map_res_length: "map_res f xs = Inr ys \<Longrightarrow> length ys = length xs"
  by (metis map_res_list_all2 list_all2_lengthD)

lemma map_res_total:
  "(\<And>x. x \<in> set xs \<Longrightarrow> f x = Inr (g x)) \<Longrightarrow> map_res f xs = Inr (map g xs)"
  by (induction xs) auto

section \<open>Strings\<close>

definition is_space :: "char \<Rightarrow> bool" where
  "is_space c \<longleftrightarrow> of_char c \<in> {9, 10, 11, 12, 13, 32 :: nat}"

definition TrimLeft :: "(char \<Rightarrow> bool) \<Rightarrow> string \<Rightarrow> string" where
  "TrimLeft p s = dropWhile p s"

definition TrimBoth :: "(char \<Rightarrow> bool) \<Rightarrow> string \<Rightarrow> string" where
  "TrimBoth p s = rev (dropWhile p (rev (dropWhile p s)))"

definition TrimSpace :: "string \<Rightarrow> string" where
  "TrimSpace s = TrimBoth is_space s"

definition lower_char :: "char \<Rightarrow> char" where
  "lower_char c =
     (if of_char c \<ge> (65 :: nat) \<and> of_char c \<le> (90 :: nat) then char_of (of_char c + 32 :: nat) else c)"

definition ToLower :: "string \<Rightarrow> string" where
  "ToLower s = map lower_char s"

definition EqualFold :: "string \<Rightarrow> string \<Rightarrow> bool" where
  "EqualFold s t \<longleftrightarrow> ToLower s = ToLower t"

definition HasPrefix :: "string \<Rightarrow> string \<Rightarrow> bool" where
  "HasPrefix s p \<longleftrightarrow> take (length p) s = p"

text \<open>
  \<open>strings.SplitN(s, sep, 2)\<close>: the text before and after the first occurrence of a non-empty
  separator, or \<open>None\<close> where Go returns a single part.
\<close>

fun SplitN2 :: "string \<Rightarrow> string \<Rightarrow> (string \<times> string) option" where
  "SplitN2 [] sep = (if sep = [] then Some ([], []) else None)"
| "SplitN2 (c # s) sep =
     (if HasPrefix (c # s) sep then Some ([], drop (length sep) (c # s))
      else map_option (\<lambda>(a, b). (c # a, b)) (SplitN2 s sep))"

lemma dropWhile_eq_if_hd: "xs = [] \<or> \<not> p (hd xs) \<Longrightarrow> dropWhile p xs = xs"
  by (cases xs) auto

lemma TrimBoth_id:
  assumes "s = [] \<or> (\<not> p (hd s) \<and> \<not> p (last s))"
  shows "TrimBoth p s = s"
proof -
  have "dropWhile p s = s" and "dropWhile p (rev s) = rev s"
    using assms by (auto intro!: dropWhile_eq_if_hd simp: hd_rev)
  then show ?thesis by (simp add: TrimBoth_def)
qed

lemma TrimBoth_ends:
  "TrimBoth p s = [] \<or> (\<not> p (hd (TrimBoth p s)) \<and> \<not> p (last (TrimBoth p s)))"
proof -
  define t where "t = dropWhile p s"
  define u where "u = dropWhile p (rev t)"
  have u: "u = [] \<or> \<not> p (hd u)"
    unfolding u_def by (metis hd_dropWhile)
  have t: "t = [] \<or> \<not> p (hd t)"
    unfolding t_def by (metis hd_dropWhile)
  obtain v where v: "rev t = v @ u"
    unfolding u_def by (metis takeWhile_dropWhile_id)
  then have tu: "t = rev u @ rev v"
    by (metis rev_append rev_rev_ident)
  have "u = [] \<or> \<not> p (last u)"
    using t tu by (cases u rule: rev_cases) auto
  with u show ?thesis
    unfolding TrimBoth_def t_def[symmetric] u_def[symmetric]
    by (cases "u = []") (auto simp: hd_rev last_rev)
qed

lemma TrimBoth_idem [simp]: "TrimBoth p (TrimBoth p s) = TrimBoth p s"
  by (rule TrimBoth_id) (rule TrimBoth_ends)

lemma TrimSpace_idem [simp]: "TrimSpace (TrimSpace s) = TrimSpace s"
  by (simp add: TrimSpace_def)

lemma TrimBoth_nonempty:
  assumes "c \<in> set s" and "\<not> p c"
  shows "TrimBoth p s \<noteq> []"
proof -
  have d: "dropWhile p s \<noteq> []"
    using assms by (auto simp: dropWhile_eq_Nil_conv)
  then have "hd (dropWhile p s) \<in> set (rev (dropWhile p s))" and "\<not> p (hd (dropWhile p s))"
    by (simp, metis hd_dropWhile)
  then have "dropWhile p (rev (dropWhile p s)) \<noteq> []"
    by (metis dropWhile_eq_Nil_conv)
  then show ?thesis by (simp add: TrimBoth_def)
qed

lemma set_TrimBoth: "set (TrimBoth p s) \<subseteq> set s"
  unfolding TrimBoth_def by (metis set_dropWhileD set_rev subsetI)

lemma length_TrimBoth: "length (TrimBoth p s) \<le> length s"
  unfolding TrimBoth_def by (metis length_dropWhile_le length_rev order_trans)

end
