(* ===== verification/Allocatable.thy ===== *)
theory Allocatable
  imports Prelude
begin

text \<open>
  The allocatable domain, \<open>pkg/dra/domain/allocatable\<close> of \<open>images/gpu-artifact\<close>: the typed
  attributes, capacities and counters of a device offer, the constructors of physical and MIG
  offers, and the names derived from PCI addresses. The lemmas show that every sanitised name is
  a DNS label and that sanitising is idempotent.
\<close>

section \<open>Types\<close>

record AttributeValue =
  av_String :: "string option"
  av_Int :: "int64 option"
  av_Bool :: "bool option"

type_synonym CapacityUnit = string
type_synonym CounterUnit = string

definition CapacityUnitMiB :: CapacityUnit where "CapacityUnitMiB = ''MiB''"
definition CapacityUnitPercent :: CapacityUnit where "CapacityUnitPercent = ''Percent''"
definition CapacityUnitCount :: CapacityUnit where "CapacityUnitCount = ''Count''"
definition CounterUnitMiB :: CounterUnit where "CounterUnitMiB = ''MiB''"
definition CounterUnitCount :: CounterUnit where "CounterUnitCount = ''Count''"

record CapacityPolicy =
  cp_Default :: int64
  cp_Min :: int64
  cp_Max :: int64
  cp_Step :: int64
  cp_Unit :: CapacityUnit

record CapacityValue =
  cv_Value :: int64
  cv_Unit :: CapacityUnit
  cv_Policy :: "CapacityPolicy option"

record CounterValue =
  ctr_Value :: int64
  ctr_Unit :: CounterUnit

record CounterSet =
  cs_Name :: string
  cs_Counters :: "(string, CounterValue) gomap"

record CounterConsumption =
  cc_CounterSet :: string
  cc_Counters :: "(string, CounterValue) gomap"

record DeviceSpec =
  ds_Name :: string
  ds_Attributes :: "(string, AttributeValue) gomap"
  ds_Capacity :: "(string, CapacityValue) gomap"
  ds_Consumes :: "CounterConsumption list"
  ds_AllowMultipleAllocations :: bool
  ds_BindingConditions :: "string list"
  ds_BindingFailureConditions :: "string list"

section \<open>Attribute keys and device types\<close>

definition AttrDeviceType :: string where "AttrDeviceType = ''gpu.deckhouse.io/deviceType''"
definition AttrPCIAddress :: string where "AttrPCIAddress = ''gpu.deckhouse.io/pciAddress''"
definition AttrGPUUUID :: string where "AttrGPUUUID = ''gpu.deckhouse.io/gpuUUID''"
definition AttrMigUUID :: string where "AttrMigUUID = ''gpu.deckhouse.io/migUUID''"
definition AttrMpsPipeDir :: string where "AttrMpsPipeDir = ''gpu.deckhouse.io/mpsPipeDir''"
definition AttrMpsShmDir :: string where "AttrMpsShmDir = ''gpu.deckhouse.io/mpsShmDir''"
definition AttrMpsLogDir :: string where "AttrMpsLogDir = ''gpu.deckhouse.io/mpsLogDir''"

definition DeviceTypePhysical :: string where "DeviceTypePhysical = ''Physical''"
definition DeviceTypeMIG :: string where "DeviceTypeMIG = ''MIG''"

definition DeviceConditionReady :: string where "DeviceConditionReady = ''Ready''"
definition DeviceConditionBindingFailed :: string where
  "DeviceConditionBindingFailed = ''BindingFailed''"

lemmas attr_key_defs = AttrDeviceType_def AttrPCIAddress_def AttrGPUUUID_def AttrMigUUID_def
  AttrMpsPipeDir_def AttrMpsShmDir_def AttrMpsLogDir_def

definition AttrString :: "(string, AttributeValue) gomap \<Rightarrow> string \<Rightarrow> string" where
  "AttrString attrs key =
     (case mget attrs key of
        None \<Rightarrow> []
      | Some val \<Rightarrow> (case av_String val of None \<Rightarrow> [] | Some s \<Rightarrow> TrimSpace s))"

definition IsMigDevice :: "string \<Rightarrow> bool" where
  "IsMigDevice deviceType \<longleftrightarrow> EqualFold deviceType ''mig''"

definition IsPhysicalDevice :: "string \<Rightarrow> bool" where
  "IsPhysicalDevice deviceType \<longleftrightarrow> EqualFold deviceType ''physical''"

lemma not_physical_and_mig: "IsPhysicalDevice t \<Longrightarrow> \<not> IsMigDevice t"
  by (auto simp: IsPhysicalDevice_def IsMigDevice_def EqualFold_def ToLower_def lower_char_def)

section \<open>Device offers\<close>

record deviceBase =
  db_uuid :: string
  db_deviceType :: string
  db_canonicalName :: string
  db_attributes :: "(string, AttributeValue) gomap"
  db_capacity :: "(string, CapacityValue) gomap"
  db_consumes :: "CounterConsumption list"
  db_allowMultipleAllocations :: bool
  db_bindingConditions :: "string list"
  db_bindingFailureConditions :: "string list"

definition Spec :: "deviceBase \<Rightarrow> DeviceSpec" where
  "Spec d = \<lparr> ds_Name = db_canonicalName d, ds_Attributes = db_attributes d,
     ds_Capacity = db_capacity d, ds_Consumes = db_consumes d,
     ds_AllowMultipleAllocations = db_allowMultipleAllocations d,
     ds_BindingConditions = db_bindingConditions d,
     ds_BindingFailureConditions = db_bindingFailureConditions d \<rparr>"

definition NewGPUDevice ::
  "string \<Rightarrow> string \<Rightarrow> (string, AttributeValue) gomap \<Rightarrow> (string, CapacityValue) gomap \<Rightarrow>
   CounterConsumption list \<Rightarrow> bool \<Rightarrow> deviceBase" where
  "NewGPUDevice name uuid attrs capacity consumes allowMultiple =
     \<lparr> db_uuid = uuid, db_deviceType = DeviceTypePhysical, db_canonicalName = name,
       db_attributes = attrs, db_capacity = capacity, db_consumes = consumes,
       db_allowMultipleAllocations = allowMultiple,
       db_bindingConditions = [DeviceConditionReady],
       db_bindingFailureConditions = [DeviceConditionBindingFailed] \<rparr>"

definition NewMIGDevice ::
  "string \<Rightarrow> string \<Rightarrow> (string, AttributeValue) gomap \<Rightarrow> (string, CapacityValue) gomap \<Rightarrow>
   CounterConsumption list \<Rightarrow> deviceBase" where
  "NewMIGDevice name uuid attrs capacity consumes =
     \<lparr> db_uuid = uuid, db_deviceType = DeviceTypeMIG, db_canonicalName = name,
       db_attributes = attrs, db_capacity = capacity, db_consumes = consumes,
       db_allowMultipleAllocations = False,
       db_bindingConditions = [DeviceConditionReady],
       db_bindingFailureConditions = [DeviceConditionBindingFailed] \<rparr>"

definition FilterByType :: "deviceBase list \<Rightarrow> string \<Rightarrow> deviceBase list" where
  "FilterByType d deviceType = filter (\<lambda>dev. db_deviceType dev = deviceType) d"

section \<open>Names\<close>

definition label_char :: "char \<Rightarrow> bool" where
  "label_char r \<longleftrightarrow> (CHR ''a'' \<le> r \<and> r \<le> CHR ''z'') \<or> (CHR ''0'' \<le> r \<and> r \<le> CHR ''9'')"

fun sanitize_loop :: "string \<Rightarrow> bool \<Rightarrow> string" where
  "sanitize_loop [] lastDash = []"
| "sanitize_loop (r # rs) lastDash =
     (if label_char r then r # sanitize_loop rs False
      else if \<not> lastDash then CHR ''-'' # sanitize_loop rs True
      else sanitize_loop rs lastDash)"

definition SanitizeDNSLabel :: "string \<Rightarrow> string" where
  "SanitizeDNSLabel value =
     (let value = ToLower (TrimSpace value) in
      if value = [] then ''gpu''
      else
        let normalized = TrimBoth (\<lambda>c. c = CHR ''-'') (sanitize_loop value False) in
        if normalized = [] then ''gpu''
        else if length normalized \<le> 63 then normalized
        else TrimBoth (\<lambda>c. c = CHR ''-'') (take 63 normalized))"

definition CounterSetNameForPCI :: "string \<Rightarrow> string" where
  "CounterSetNameForPCI pci =
     (let pci = TrimSpace pci in
      if pci = [] then [] else SanitizeDNSLabel (''pgpu-'' @ pci))"

subsection \<open>Sanitised names are DNS labels\<close>

definition dns_label :: "string \<Rightarrow> bool" where
  "dns_label s \<longleftrightarrow> s \<noteq> [] \<and> length s \<le> 63 \<and> list_all (\<lambda>c. label_char c \<or> c = CHR ''-'') s
     \<and> label_char (hd s) \<and> label_char (last s)"

definition single_dashes :: "string \<Rightarrow> bool" where
  "single_dashes s \<longleftrightarrow> successively (\<lambda>a b. \<not> (a = CHR ''-'' \<and> b = CHR ''-'')) s"

lemma label_char_neq_dash: "label_char c \<Longrightarrow> c \<noteq> CHR ''-''"
  by (auto simp: label_char_def less_eq_char_def)

lemma label_char_not_space: "label_char c \<Longrightarrow> \<not> is_space c"
  by (auto simp: label_char_def less_eq_char_def is_space_def)

lemma lower_label_char: "label_char c \<or> c = CHR ''-'' \<Longrightarrow> lower_char c = c"
  by (auto simp: label_char_def less_eq_char_def lower_char_def)

lemma sanitize_loop_chars: "list_all (\<lambda>c. label_char c \<or> c = CHR ''-'') (sanitize_loop s d)"
  by (induction s d rule: sanitize_loop.induct) auto

lemma sanitize_loop_single_dashes:
  "single_dashes (sanitize_loop s d)
   \<and> (d \<longrightarrow> sanitize_loop s d = [] \<or> hd (sanitize_loop s d) \<noteq> CHR ''-'')"
  by (induction s d rule: sanitize_loop.induct)
     (auto simp: single_dashes_def successively_Cons label_char_neq_dash)

lemma sanitize_loop_id:
  assumes "list_all (\<lambda>c. label_char c \<or> c = CHR ''-'') s" and "single_dashes s"
    and "d \<longrightarrow> s = [] \<or> hd s \<noteq> CHR ''-''"
  shows "sanitize_loop s d = s"
  using assms
  by (induction s arbitrary: d) (auto simp: single_dashes_def successively_Cons label_char_neq_dash)

lemma successively_dropWhile: "successively P xs \<Longrightarrow> successively P (dropWhile p xs)"
  by (metis successively_append_iff takeWhile_dropWhile_id)

lemma successively_take: "successively P xs \<Longrightarrow> successively P (take n xs)"
  by (metis append_take_drop_id successively_append_iff)

lemma single_dashes_take: "single_dashes xs \<Longrightarrow> single_dashes (take n xs)"
  unfolding single_dashes_def by (rule successively_take)

lemma single_dashes_rev [simp]: "single_dashes (rev s) = single_dashes s"
  unfolding single_dashes_def successively_rev by (rule arg_cong[where f = "\<lambda>P. successively P s"]) auto

lemma single_dashes_TrimBoth: "single_dashes s \<Longrightarrow> single_dashes (TrimBoth p s)"
  unfolding TrimBoth_def single_dashes_rev
  using successively_dropWhile single_dashes_rev unfolding single_dashes_def by metis

lemma trimmed_dash_label:
  fixes s :: string
  assumes chars: "list_all (\<lambda>c. label_char c \<or> c = CHR ''-'') s"
    and ne: "\<exists>c \<in> set s. c \<noteq> CHR ''-''" and len: "length s \<le> 63"
  shows "dns_label (TrimBoth (\<lambda>c. c = CHR ''-'') s)" (is "dns_label ?t")
proof -
  have t: "?t \<noteq> []"
    using ne TrimBoth_nonempty[of _ s "\<lambda>c. c = CHR ''-''"] by blast
  have sub: "\<forall>c \<in> set ?t. label_char c \<or> c = CHR ''-''"
    using chars set_TrimBoth by (fastforce simp: list_all_iff)
  have "hd ?t \<noteq> CHR ''-''" and "last ?t \<noteq> CHR ''-''"
    using TrimBoth_ends[of "\<lambda>c. c = CHR ''-''" s] t by auto
  with sub t have "label_char (hd ?t)" and "label_char (last ?t)"
    by (metis hd_in_set, metis last_in_set)
  then show ?thesis
    using t sub len length_TrimBoth[of "\<lambda>c. c = CHR ''-''" s]
    by (auto simp: dns_label_def list_all_iff)
qed

lemma trimmed_has_label_char:
  fixes t :: string
  assumes "TrimBoth (\<lambda>c. c = CHR ''-'') t \<noteq> []"
  shows "hd (TrimBoth (\<lambda>c. c = CHR ''-'') t) \<noteq> CHR ''-''"
  using TrimBoth_ends[of "\<lambda>c. c = CHR ''-''" t] assms by auto

lemma SanitizeDNSLabel_cases:
  obtains (default) "SanitizeDNSLabel v = ''gpu''"
  | (trimmed) s where "SanitizeDNSLabel v = TrimBoth (\<lambda>c. c = CHR ''-'') s"
      and "list_all (\<lambda>c. label_char c \<or> c = CHR ''-'') s" and "single_dashes s"
      and "\<exists>c \<in> set s. c \<noteq> CHR ''-''" and "length s \<le> 63"
proof -
  define l where "l = sanitize_loop (ToLower (TrimSpace v)) False"
  define n where "n = TrimBoth (\<lambda>c. c = CHR ''-'') l"
  have chars: "list_all (\<lambda>c. label_char c \<or> c = CHR ''-'') n"
    using sanitize_loop_chars set_TrimBoth unfolding l_def n_def
    by (fastforce simp: list_all_iff)
  have dashes: "single_dashes n"
    unfolding n_def l_def by (intro single_dashes_TrimBoth) (simp add: sanitize_loop_single_dashes)
  show ?thesis
  proof (cases "ToLower (TrimSpace v) = [] \<or> n = []")
    case True
    then show ?thesis
      using default unfolding SanitizeDNSLabel_def l_def n_def by (auto simp: Let_def)
  next
    case False
    then have hd: "hd n \<noteq> CHR ''-''" and n: "n \<noteq> []"
      using trimmed_has_label_char[of l] unfolding n_def by auto
    show ?thesis
    proof (cases "length n \<le> 63")
      case True
      have "SanitizeDNSLabel v = TrimBoth (\<lambda>c. c = CHR ''-'') n"
        using False True unfolding SanitizeDNSLabel_def n_def l_def by (simp add: Let_def)
      then show ?thesis
        using trimmed[OF _ chars dashes _ True] hd n by (metis hd_in_set)
    next
      case long: False
      have eq: "SanitizeDNSLabel v = TrimBoth (\<lambda>c. c = CHR ''-'') (take 63 n)"
        using False long unfolding SanitizeDNSLabel_def n_def l_def by (simp add: Let_def)
      have "hd (take 63 n) = hd n" and "take 63 n \<noteq> []"
        using n by (auto simp: hd_take)
      then have "\<exists>c \<in> set (take 63 n). c \<noteq> CHR ''-''"
        using hd by (metis hd_in_set)
      then show ?thesis
        using trimmed[OF eq _ single_dashes_take[OF dashes]] chars
        by (auto simp: list_all_iff dest: in_set_takeD)
    qed
  qed
qed

lemma SanitizeDNSLabel_single_dashes: "single_dashes (SanitizeDNSLabel v)"
  by (cases v rule: SanitizeDNSLabel_cases)
     (simp_all add: single_dashes_TrimBoth, simp add: single_dashes_def)

lemma SanitizeDNSLabel_label: "dns_label (SanitizeDNSLabel v)"
proof (cases v rule: SanitizeDNSLabel_cases)
  case default
  then show ?thesis by (simp add: dns_label_def label_char_def less_eq_char_def)
next
  case (trimmed s)
  then show ?thesis by (simp add: trimmed_dash_label)
qed

lemma SanitizeDNSLabel_id:
  assumes "dns_label s" and "single_dashes s"
  shows "SanitizeDNSLabel s = s"
proof -
  have ends: "label_char (hd s)" "label_char (last s)" "s \<noteq> []" "length s \<le> 63"
    and chars: "list_all (\<lambda>c. label_char c \<or> c = CHR ''-'') s"
    using assms(1) by (auto simp: dns_label_def)
  have "TrimSpace s = s"
    unfolding TrimSpace_def by (rule TrimBoth_id) (use ends label_char_not_space in auto)
  moreover have "ToLower s = s"
    unfolding ToLower_def using chars by (auto simp: list_all_iff intro: map_idI lower_label_char)
  moreover have "sanitize_loop s False = s"
    using chars assms(2) by (intro sanitize_loop_id) auto
  moreover have "TrimBoth (\<lambda>c. c = CHR ''-'') s = s"
    by (rule TrimBoth_id) (use ends label_char_neq_dash in auto)
  ultimately show ?thesis
    using ends by (simp add: SanitizeDNSLabel_def)
qed

text \<open>
  Every name \<open>SanitizeDNSLabel\<close> returns is a DNS label (1 to 63 characters, only lower-case
  letters, digits and dashes, a letter or digit at both ends), and sanitising it again does not
  change it, so a counter set or device name computed twice is the same name.
\<close>

lemma SanitizeDNSLabel_correct:
  "dns_label (SanitizeDNSLabel v) \<and> SanitizeDNSLabel (SanitizeDNSLabel v) = SanitizeDNSLabel v"
  by (simp add: SanitizeDNSLabel_label SanitizeDNSLabel_id SanitizeDNSLabel_single_dashes)

end
