(* ===== verification/Ledger.thy ===== *)
theory Ledger
  imports Prelude
begin

text \<open>
  The contract between the allocator and the resources it hands out. A ledger is charged for one
  demand at a time; a charge either fails or adds exactly the demand to what is used, and what is
  used never exceeds the limit. The allocator is proved against this contract once; the counter
  ledger and the capacity ledger of the code are its two interpretations.
\<close>

fun charge_all :: "('d \<Rightarrow> 'l \<Rightarrow> 'l option) \<Rightarrow> 'd list \<Rightarrow> 'l \<Rightarrow> 'l option" where
  "charge_all charge [] l = Some l"
| "charge_all charge (d # ds) l =
     (case charge d l of None \<Rightarrow> None | Some l' \<Rightarrow> charge_all charge ds l')"

lemma charge_all_append:
  "charge_all charge (ds @ es) l =
     (case charge_all charge ds l of None \<Rightarrow> None | Some l' \<Rightarrow> charge_all charge es l')"
  by (induction ds arbitrary: l) (auto split: option.splits)

lemma charge_all_snoc:
  "charge_all charge ds l = Some l' \<Longrightarrow> charge d l' = Some l'' \<Longrightarrow>
   charge_all charge (ds @ [d]) l = Some l''"
  by (simp add: charge_all_append)

locale resource_ledger =
  fixes charge :: "'d \<Rightarrow> 'l \<Rightarrow> 'l option"
    and inv :: "'l \<Rightarrow> bool"
    and ok :: "'l \<Rightarrow> 'd \<Rightarrow> bool"
    and used :: "'l \<Rightarrow> 'i \<Rightarrow> int"
    and demand :: "'l \<Rightarrow> 'd \<Rightarrow> 'i \<Rightarrow> int"
    and limit :: "'l \<Rightarrow> 'i \<Rightarrow> int"
  assumes charge_inv: "inv l \<Longrightarrow> ok l d \<Longrightarrow> charge d l = Some l' \<Longrightarrow> inv l'"
    and charge_used: "inv l \<Longrightarrow> ok l d \<Longrightarrow> charge d l = Some l' \<Longrightarrow> used l' i = used l i + demand l d i"
    and charge_limit: "charge d l = Some l' \<Longrightarrow> limit l' = limit l"
    and charge_ok: "charge d l = Some l' \<Longrightarrow> ok l' = ok l"
    and charge_demand: "charge d l = Some l' \<Longrightarrow> demand l' = demand l"
    and used_le_limit: "inv l \<Longrightarrow> used l i \<le> limit l i"
begin

lemma charge_all_inv:
  assumes "charge_all charge ds l = Some l'" and "inv l" and "\<And>d. d \<in> set ds \<Longrightarrow> ok l d"
  shows "inv l'"
  using assms
proof (induction ds arbitrary: l)
  case (Cons d ds)
  then obtain m where m: "charge d l = Some m" "charge_all charge ds m = Some l'"
    by (auto split: option.splits)
  have "inv m" using charge_inv[OF _ _ m(1)] Cons.prems by simp
  then show ?case
    using Cons.IH[OF m(2)] Cons.prems(3) charge_ok[OF m(1)] by simp
qed simp

lemma charge_all_used:
  assumes "charge_all charge ds l = Some l'" and "inv l" and "\<And>d. d \<in> set ds \<Longrightarrow> ok l d"
  shows "used l' i = used l i + (\<Sum>d\<leftarrow>ds. demand l d i)"
  using assms
proof (induction ds arbitrary: l)
  case (Cons d ds)
  then obtain m where m: "charge d l = Some m" "charge_all charge ds m = Some l'"
    by (auto split: option.splits)
  have "inv m" and "used m i = used l i + demand l d i"
    using charge_inv[OF _ _ m(1)] charge_used[OF _ _ m(1)] Cons.prems by simp_all
  then show ?case
    using Cons.IH[OF m(2)] Cons.prems(3) charge_ok[OF m(1)] charge_demand[OF m(1)] by simp
qed simp

lemma charge_all_limit: "charge_all charge ds l = Some l' \<Longrightarrow> limit l' = limit l"
  by (induction ds arbitrary: l) (auto split: option.splits dest: charge_limit)

text \<open>Whatever was used before plus every demand charged since stays within the limit.\<close>

lemma charge_all_within:
  assumes "charge_all charge ds l = Some l'" and "inv l" and "\<And>d. d \<in> set ds \<Longrightarrow> ok l d"
  shows "used l i + (\<Sum>d\<leftarrow>ds. demand l d i) \<le> limit l i"
  using charge_all_used[OF assms, of i] charge_all_limit[OF assms(1)]
    used_le_limit[OF charge_all_inv[OF assms], of i] by simp

end

end
