(* ===== verification/Capacity.thy ===== *)
theory Capacity
  imports Allocatable Ledger
begin

text \<open>
  Capacity arithmetic of the allocator, \<open>pkg/dra/services/allocator/capacity*.go\<close>: converting a
  \<open>resource.Quantity\<close> to a typed value and back, rounding a requested value to a policy's grid,
  computing what one allocation consumes, and the check and update of a device's running totals.

  \<open>resource.Quantity\<close> is a type of \<open>k8s.io/apimachinery\<close>, which is not part of the repository. It
  is a type parameter \<open>'q\<close> with its operations in the record \<open>quantity_api\<close>; what the code relies
  on (documented in that package) is the hypothesis \<open>quantity_ok\<close>. \<open>DeepCopy\<close> is the identity on
  the immutable values of the model.
\<close>

section \<open>The quantity interface\<close>

datatype qformat = BinarySI | DecimalSI | DecimalExponent

record 'q quantity_api =
  q_Value :: "'q \<Rightarrow> int64"
  q_New :: "int64 \<Rightarrow> qformat \<Rightarrow> 'q"
  q_Format :: "'q \<Rightarrow> qformat"
  q_Add :: "'q \<Rightarrow> 'q \<Rightarrow> 'q"
  q_zero :: 'q

definition quantity_ok :: "'q quantity_api \<Rightarrow> bool" where
  "quantity_ok Q \<longleftrightarrow>
     (\<forall>v f. in64 v \<longrightarrow> q_Value Q (q_New Q v f) = v) \<and>
     (\<forall>v f. q_Format Q (q_New Q v f) = f) \<and>
     q_Value Q (q_zero Q) = 0 \<and>
     (\<forall>q. in64 (q_Value Q q))"

lemma quantity_okD:
  assumes "quantity_ok Q"
  shows "in64 v \<Longrightarrow> q_Value Q (q_New Q v f) = v" and "q_Format Q (q_New Q v f) = f"
    and "q_Value Q (q_zero Q) = 0" and "in64 (q_Value Q q)"
  using assms by (auto simp: quantity_ok_def)

text \<open>A concrete instance for closed examples: an integer with its format.\<close>

definition int_quantity :: "(int64 \<times> qformat) quantity_api" where
  "int_quantity = \<lparr> q_Value = (\<lambda>q. wrap64 (fst q)), q_New = Pair, q_Format = snd,
     q_Add = (\<lambda>a b. (fst a + fst b, snd a)), q_zero = (0, DecimalSI) \<rparr>"

lemma int_quantity_ok: "quantity_ok int_quantity"
  by (simp add: quantity_ok_def int_quantity_def wrap64_id) (simp add: wrap64_def)

section \<open>Values and quantities\<close>

definition quantityValue :: "'q quantity_api \<Rightarrow> 'q \<Rightarrow> CapacityUnit \<Rightarrow> int64" where
  "quantityValue Q qty unit =
     (if unit = CapacityUnitMiB then q_Value Q qty sdiv (1024 * 1024) else q_Value Q qty)"

definition quantityFromValue :: "'q quantity_api \<Rightarrow> int64 \<Rightarrow> CapacityUnit \<Rightarrow> 'q" where
  "quantityFromValue Q value unit =
     (if unit = CapacityUnitMiB then q_New Q (mul64 (mul64 value 1024) 1024) BinarySI
      else q_New Q value DecimalSI)"

text \<open>The values a quantity of the given unit can carry without wrap-around.\<close>

definition unit_range :: "CapacityUnit \<Rightarrow> int64 \<Rightarrow> bool" where
  "unit_range unit v \<longleftrightarrow>
     (if unit = CapacityUnitMiB then - (2 ^ 43) \<le> v \<and> v < 2 ^ 43 else in64 v)"

lemma quantity_value_roundtrip:
  assumes "quantity_ok Q" and "unit_range unit v"
  shows "quantityValue Q (quantityFromValue Q v unit) unit = v"
proof (cases "unit = CapacityUnitMiB")
  case True
  then have v: "- (2 ^ 43) \<le> v" "v < 2 ^ 43"
    using assms(2) by (simp_all add: unit_range_def)
  have k: "in64 (v * 1024)" and b: "in64 (v * 1024 * 1024)"
    using v by (auto simp: in64_def)
  have "mul64 (mul64 v 1024) 1024 = v * (1024 * 1024)"
    by (simp add: mul64_exact[OF k] mul64_exact[OF b])
  moreover have "in64 (v * (1024 * 1024))"
    using b by (simp add: mult.assoc)
  ultimately show ?thesis
    using True assms(1) sdiv_mult_cancel[of "1024 * 1024" v]
    by (simp add: quantityValue_def quantityFromValue_def quantity_okD)
next
  case False
  then show ?thesis
    using assms by (simp add: quantityValue_def quantityFromValue_def quantity_okD unit_range_def)
qed

lemma quantityValue_zero: "quantity_ok Q \<Longrightarrow> quantityValue Q (q_zero Q) unit = 0"
  by (simp add: quantityValue_def quantity_okD)

section \<open>Consumption of one allocation\<close>

definition round_to_step :: "int64 \<Rightarrow> int64 \<Rightarrow> int64 \<Rightarrow> int64" where
  "round_to_step consumed minimum step =
     (if step > 0 then
        let diff = sub64 consumed minimum;
            diff = (if diff < 0 then 0 else diff);
            remainder = diff smod step
        in if remainder \<noteq> 0 then add64 consumed (sub64 step remainder) else consumed
      else consumed)"

definition calculateConsumedValue ::
  "'q quantity_api \<Rightarrow> 'q option \<Rightarrow> CapacityValue \<Rightarrow> int64 option" where
  "calculateConsumedValue Q requested capacity =
     (case requested of
        None \<Rightarrow>
          (case cv_Policy capacity of
             Some policy \<Rightarrow> Some (cp_Default policy)
           | None \<Rightarrow> Some (cv_Value capacity))
      | Some req \<Rightarrow>
          let requestedValue = quantityValue Q req (cv_Unit capacity) in
          (case cv_Policy capacity of
             None \<Rightarrow> Some requestedValue
           | Some policy \<Rightarrow>
               if cp_Max policy > 0 \<and> requestedValue > cp_Max policy then None
               else
                 let consumed = (if requestedValue < cp_Min policy then cp_Min policy
                                 else requestedValue);
                     consumed = round_to_step consumed (cp_Min policy) (cp_Step policy)
                 in if cp_Max policy > 0 \<and> consumed > cp_Max policy then None
                    else Some consumed))"

record 'q CapacityRequirements =
  cr_Requests :: "(string, 'q) gomap"

fun consumed_loop ::
  "'q quantity_api \<Rightarrow> 'q CapacityRequirements option \<Rightarrow> (string, CapacityValue) gomap \<Rightarrow>
   (string, 'q) gomap \<Rightarrow> (string, 'q) gomap option" where
  "consumed_loop Q req [] consumed = Some consumed"
| "consumed_loop Q req ((name, cap) # rest) consumed =
     (let requested = (case req of None \<Rightarrow> None | Some r \<Rightarrow> mget (cr_Requests r) name) in
      case calculateConsumedValue Q requested cap of
        None \<Rightarrow> None
      | Some consumedValue \<Rightarrow>
          if consumedValue > cv_Value cap then None
          else consumed_loop Q req rest
                 (mput name (quantityFromValue Q consumedValue (cv_Unit cap)) consumed))"

definition computeConsumedCapacity ::
  "'q quantity_api \<Rightarrow> 'q CapacityRequirements option \<Rightarrow> (string, CapacityValue) gomap \<Rightarrow>
   (string, 'q) gomap option" where
  "computeConsumedCapacity Q req capacity =
     (if capacity = [] then
        (case req of None \<Rightarrow> Some []
         | Some r \<Rightarrow> if cr_Requests r = [] then Some [] else None)
      else if (case req of None \<Rightarrow> False
               | Some r \<Rightarrow> \<exists>name \<in> set (mkeys (cr_Requests r)). mget capacity name = None)
      then None
      else consumed_loop Q req capacity [])"

section \<open>Running totals of a shared device\<close>

definition capacity_total ::
  "'q quantity_api \<Rightarrow> (string, 'q) gomap \<Rightarrow> (string, 'q) gomap \<Rightarrow> string \<Rightarrow> CapacityValue \<Rightarrow> int64" where
  "capacity_total Q existing add name cap =
     (let total = quantityValue Q (case mget add name of None \<Rightarrow> q_zero Q | Some q \<Rightarrow> q) (cv_Unit cap) in
      case mget existing name of
        None \<Rightarrow> total
      | Some current \<Rightarrow> add64 total (quantityValue Q current (cv_Unit cap)))"

definition fitsCapacity ::
  "'q quantity_api \<Rightarrow> (string, 'q) gomap \<Rightarrow> (string, 'q) gomap \<Rightarrow> (string, CapacityValue) gomap \<Rightarrow> bool" where
  "fitsCapacity Q existing add capacity =
     list_all (\<lambda>(name, cap). \<not> capacity_total Q existing add name cap > cv_Value cap) capacity"

fun addConsumed ::
  "'q quantity_api \<Rightarrow> (string, 'q) gomap \<Rightarrow> (string, 'q) gomap \<Rightarrow> (string, CapacityValue) gomap \<Rightarrow>
   (string, 'q) gomap" where
  "addConsumed Q existing add [] = existing"
| "addConsumed Q existing add ((name, cap) # rest) =
     addConsumed Q
       (mput name (quantityFromValue Q (capacity_total Q existing add name cap) (cv_Unit cap)) existing)
       add rest"

definition cloneQuantities :: "(string, 'q) gomap \<Rightarrow> (string, 'q) gomap" where
  "cloneQuantities m = (if m = [] then [] else map (\<lambda>(key, val). (key, val)) m)"

lemma cloneQuantities_id [simp]: "cloneQuantities m = m"
  by (simp add: cloneQuantities_def)

section \<open>Rounding to the policy's grid\<close>

text \<open>The values a policy admits: its minimum plus a multiple of its step.\<close>

definition policy_grid :: "CapacityPolicy \<Rightarrow> int64 \<Rightarrow> bool" where
  "policy_grid p w \<longleftrightarrow> cp_Min p \<le> w \<and> cp_Step p dvd (w - cp_Min p)"

definition policy_sane :: "CapacityPolicy \<Rightarrow> bool" where
  "policy_sane p \<longleftrightarrow> 0 \<le> cp_Default p \<and> 0 \<le> cp_Min p \<and> cp_Min p < 2 ^ 62 \<and> cp_Step p < 2 ^ 62"

lemma round_to_step_exact:
  assumes "0 < step" and "0 \<le> m" and "m \<le> c" and "c < 2 ^ 62" and "step < 2 ^ 62"
  shows "round_to_step c m step =
    (if (c - m) mod step = 0 then c else c + (step - (c - m) mod step))"
proof -
  define r where "r = (c - m) mod step"
  have r: "0 \<le> r" "r < step"
    using assms(1) by (simp_all add: r_def)
  have "in64 (c - m)" and "in64 (step - r)" and "in64 (c + (step - r))"
    using assms r by (auto simp: in64_def)
  then show ?thesis
    using assms r by (simp add: round_to_step_def int64_simps smod_nonneg r_def[symmetric])
qed

lemma round_up_least:
  fixes c m step w :: int
  assumes "0 < step" and "step dvd w - m" and "c \<le> w"
  shows "c + (step - (c - m) mod step) mod step \<le> w"
proof -
  have "(w - c) mod step = ((w - m) - (c - m)) mod step" by simp
  also have "\<dots> = (step - (c - m) mod step) mod step"
    using assms(2) by (metis mod_diff_eq mod_eq_0_iff_dvd diff_0 minus_mod_self2 mod_diff_left_eq mod_minus_eq mod_self)
  finally have "(w - c) mod step = (step - (c - m) mod step) mod step" .
  moreover have "(w - c) mod step \<le> w - c"
    using assms by (simp add: zmod_le_nonneg_dividend)
  ultimately show ?thesis by simp
qed

lemma round_to_step_grid:
  assumes "0 < step" and "0 \<le> m" and "m \<le> c" and "c < 2 ^ 62" and "step < 2 ^ 62"
  shows "c \<le> round_to_step c m step" and "step dvd round_to_step c m step - m"
    and "\<And>w. step dvd w - m \<Longrightarrow> c \<le> w \<Longrightarrow> round_to_step c m step \<le> w"
proof -
  define r where "r = (c - m) mod step"
  have r: "0 \<le> r" "r < step" "(c - m) = step * ((c - m) div step) + r"
    using assms(1) by (simp_all add: r_def)
  have eq: "round_to_step c m step = (if r = 0 then c else c + (step - r))"
    using round_to_step_exact[OF assms] by (simp add: r_def)
  show "c \<le> round_to_step c m step"
    using eq r by simp
  have "c - m + (step - r) = step * ((c - m) div step + 1)"
    using r(3) by (simp add: algebra_simps)
  then have "step dvd c + (step - r) - m"
    by (metis add_diff_eq diff_add_eq dvd_triv_left)
  then show "step dvd round_to_step c m step - m"
    using eq r_def by (auto simp: mod_eq_0_iff_dvd)
  fix w assume w: "step dvd w - m" "c \<le> w"
  have "(step - r) mod step = (if r = 0 then 0 else step - r)"
    using r mod_pos_pos_trivial[of "step - r" step] by (cases "r = 0") simp_all
  then show "round_to_step c m step \<le> w"
    using round_up_least[OF assms(1) w] eq by (auto simp: r_def split: if_splits)
qed

text \<open>
  For a request against a capacity with a policy, \<open>calculateConsumedValue\<close> returns the least
  value of the policy's grid (minimum plus a multiple of the step) that covers the request, and it
  refuses exactly when every such value exceeds the policy's maximum.
\<close>

theorem calculateConsumedValue_least:
  assumes "cv_Policy cap = Some p" and "policy_sane p" and "0 < cp_Step p"
    and "quantityValue Q q (cv_Unit cap) < 2 ^ 62"
  shows "case calculateConsumedValue Q (Some q) cap of
      Some v \<Rightarrow> policy_grid p v \<and> quantityValue Q q (cv_Unit cap) \<le> v
        \<and> (cp_Max p > 0 \<longrightarrow> v \<le> cp_Max p)
        \<and> (\<forall>w. policy_grid p w \<and> quantityValue Q q (cv_Unit cap) \<le> w \<longrightarrow> v \<le> w)
    | None \<Rightarrow> cp_Max p > 0
        \<and> (\<forall>w. policy_grid p w \<and> quantityValue Q q (cv_Unit cap) \<le> w \<longrightarrow> cp_Max p < w)"
proof -
  define rv where "rv = quantityValue Q q (cv_Unit cap)"
  define c where "c = (if rv < cp_Min p then cp_Min p else rv)"
  have b: "0 \<le> cp_Min p" "cp_Min p \<le> c" "c < 2 ^ 62" "cp_Step p < 2 ^ 62"
    using assms by (auto simp: policy_sane_def c_def rv_def)
  note g = round_to_step_grid[OF assms(3) b]
  have least: "\<And>w. policy_grid p w \<Longrightarrow> rv \<le> w \<Longrightarrow> round_to_step c (cp_Min p) (cp_Step p) \<le> w"
    using g(3) by (auto simp: policy_grid_def c_def)
  have "rv \<le> c" by (simp add: c_def)
  then show ?thesis
    using g(1,2) least assms(1) b(2)
    by (auto simp: calculateConsumedValue_def rv_def[symmetric] c_def[symmetric] Let_def policy_grid_def
        split: option.splits if_splits) (force+)
qed

theorem calculateConsumedValue_least_witness:
  "calculateConsumedValue int_quantity (Some (25, DecimalSI))
     \<lparr> cv_Value = 100, cv_Unit = CapacityUnitPercent,
       cv_Policy = Some \<lparr> cp_Default = 10, cp_Min = 10, cp_Max = 100, cp_Step = 10,
                           cp_Unit = CapacityUnitPercent \<rparr> \<rparr> = Some 30
   \<and> policy_grid \<lparr> cp_Default = 10, cp_Min = 10, cp_Max = 100, cp_Step = 10,
                    cp_Unit = CapacityUnitPercent \<rparr> 30"
proof -
  let ?p = "\<lparr> cp_Default = 10, cp_Min = 10, cp_Max = 100, cp_Step = 10,
              cp_Unit = CapacityUnitPercent \<rparr> :: CapacityPolicy"
  let ?cap = "\<lparr> cv_Value = 100, cv_Unit = CapacityUnitPercent, cv_Policy = Some ?p \<rparr>"
  have rv: "quantityValue int_quantity (25, DecimalSI) (cv_Unit ?cap) = 25"
    by (simp add: quantityValue_def int_quantity_def CapacityUnitPercent_def CapacityUnitMiB_def
        wrap64_def)
  have v: "calculateConsumedValue int_quantity (Some (25, DecimalSI)) ?cap = Some 30"
    using rv by (simp add: calculateConsumedValue_def round_to_step_def sub64_def add64_def
        wrap64_def signed_modulo_int_def signed_divide_int_def)
  have "policy_grid ?p 30"
    using calculateConsumedValue_least[of ?cap ?p int_quantity "(25, DecimalSI)"] rv v
    by (simp add: policy_sane_def)
  with v show ?thesis by simp
qed

section \<open>Totals never exceed the capacity\<close>

definition used_capacity :: "'q quantity_api \<Rightarrow> (string, 'q) gomap \<Rightarrow> string \<Rightarrow> CapacityUnit \<Rightarrow> int64" where
  "used_capacity Q m name unit =
     (case mget m name of None \<Rightarrow> 0 | Some q \<Rightarrow> quantityValue Q q unit)"

text \<open>
  Capacities for which the 64-bit sums of the allocator cannot wrap: at most \<open>2 ^ 42\<close> MiB (4 EiB), or
  \<open>2 ^ 62\<close> of any other unit.
\<close>

definition capacity_sane :: "(string, CapacityValue) gomap \<Rightarrow> bool" where
  "capacity_sane capacity \<longleftrightarrow> mwf capacity \<and>
     (\<forall>(name, cap) \<in> set capacity. 0 \<le> cv_Value cap
        \<and> cv_Value cap < (if cv_Unit cap = CapacityUnitMiB then 2 ^ 42 else 2 ^ 62)
        \<and> (case cv_Policy cap of None \<Rightarrow> True | Some p \<Rightarrow> policy_sane p))"

definition within_capacity ::
  "'q quantity_api \<Rightarrow> (string, 'q) gomap \<Rightarrow> (string, CapacityValue) gomap \<Rightarrow> bool" where
  "within_capacity Q totals capacity \<longleftrightarrow>
     (\<forall>(name, cap) \<in> set capacity.
        0 \<le> used_capacity Q totals name (cv_Unit cap)
        \<and> used_capacity Q totals name (cv_Unit cap) \<le> cv_Value cap)"

definition request_sane :: "'q quantity_api \<Rightarrow> 'q CapacityRequirements option \<Rightarrow> bool" where
  "request_sane Q req \<longleftrightarrow>
     (case req of None \<Rightarrow> True
      | Some r \<Rightarrow> \<forall>(name, q) \<in> set (cr_Requests r). 0 \<le> q_Value Q q \<and> q_Value Q q < 2 ^ 62)"

lemma within_capacity_empty [simp]:
  "capacity_sane capacity \<Longrightarrow> within_capacity Q [] capacity"
  by (auto simp: within_capacity_def capacity_sane_def used_capacity_def)

lemma capacity_total_eq:
  assumes "quantity_ok Q"
  shows "capacity_total Q existing add name cap =
    (case mget existing name of None \<Rightarrow> used_capacity Q add name (cv_Unit cap)
     | Some q \<Rightarrow> add64 (used_capacity Q add name (cv_Unit cap)) (quantityValue Q q (cv_Unit cap)))"
  using assms
  by (auto simp: capacity_total_def used_capacity_def quantityValue_zero Let_def split: option.splits)

lemma capacity_total_mput_other:
  "name \<noteq> n \<Longrightarrow> capacity_total Q (mput name v existing) add n cap = capacity_total Q existing add n cap"
  by (simp add: capacity_total_def)

lemma mget_addConsumed:
  assumes "mwf capacity"
  shows "mget (addConsumed Q existing add capacity) n =
    (case mget capacity n of None \<Rightarrow> mget existing n
     | Some cap \<Rightarrow> Some (quantityFromValue Q (capacity_total Q existing add n cap) (cv_Unit cap)))"
  using assms
proof (induction Q existing add capacity rule: addConsumed.induct)
  case (2 Q existing add name cap rest)
  then have "mget rest name = None"
    by (simp add: map_of_eq_None_iff)
  with 2 show ?case
    by (auto simp: capacity_total_mput_other split: option.splits)
qed simp

text \<open>
  One accepted allocation: if the totals and the addition are within the capacity and the check
  passes, the new totals are exactly the sums and still within the capacity.
\<close>

lemma addConsumed_used:
  assumes Q: "quantity_ok Q" and sane: "capacity_sane capacity"
    and ex: "within_capacity Q existing capacity" and add: "within_capacity Q add capacity"
    and fits: "fitsCapacity Q existing add capacity" and cap: "(name, cap) \<in> set capacity"
  shows "used_capacity Q (addConsumed Q existing add capacity) name (cv_Unit cap) =
      used_capacity Q existing name (cv_Unit cap) + used_capacity Q add name (cv_Unit cap)"
    and "used_capacity Q (addConsumed Q existing add capacity) name (cv_Unit cap) \<le> cv_Value cap"
proof -
  let ?u = "cv_Unit cap"
  let ?e = "used_capacity Q existing name ?u" and ?a = "used_capacity Q add name ?u"
  have wf: "mwf capacity" and bound: "0 \<le> cv_Value cap"
      "cv_Value cap < (if ?u = CapacityUnitMiB then 2 ^ 42 else 2 ^ 62)"
    using sane cap by (auto simp: capacity_sane_def)
  have e: "0 \<le> ?e" "?e \<le> cv_Value cap" and a: "0 \<le> ?a" "?a \<le> cv_Value cap"
    using ex add cap by (auto simp: within_capacity_def)
  have "in64 (?a + ?e)"
    using e a bound by (auto simp: in64_def split: if_splits)
  then have total: "capacity_total Q existing add name cap = ?e + ?a"
    using add64_exact[of ?a ?e]
    by (auto simp: capacity_total_eq[OF Q] used_capacity_def split: option.splits)
  moreover have le: "capacity_total Q existing add name cap \<le> cv_Value cap"
    using fits cap by (auto simp: fitsCapacity_def list_all_iff)
  ultimately have "unit_range ?u (?e + ?a)"
    using e a bound by (auto simp: unit_range_def in64_def split: if_splits)
  moreover have "mget capacity name = Some cap"
    using cap wf by (simp add: mget_eq_in)
  then have "mget (addConsumed Q existing add capacity) name =
      Some (quantityFromValue Q (?e + ?a) ?u)"
    using total by (simp only: mget_addConsumed[OF wf] option.case)
  ultimately show "used_capacity Q (addConsumed Q existing add capacity) name ?u = ?e + ?a"
    by (simp add: used_capacity_def quantity_value_roundtrip[OF Q])
  then show "used_capacity Q (addConsumed Q existing add capacity) name ?u \<le> cv_Value cap"
    using total le by simp
qed

lemma within_capacity_addConsumed:
  assumes "quantity_ok Q" and "capacity_sane capacity" and "within_capacity Q existing capacity"
    and "within_capacity Q add capacity" and "fitsCapacity Q existing add capacity"
  shows "within_capacity Q (addConsumed Q existing add capacity) capacity"
  using addConsumed_used[OF assms] assms(3,4)
  by (fastforce simp: within_capacity_def)

subsection \<open>What one allocation consumes\<close>

lemma quantityValue_sane:
  assumes "0 \<le> q_Value Q q" and "q_Value Q q < 2 ^ 62"
  shows "0 \<le> quantityValue Q q unit" and "quantityValue Q q unit < 2 ^ 62"
proof -
  have "q_Value Q q sdiv 1048576 = q_Value Q q div 1048576"
    using assms by (simp add: sdiv_nonneg)
  moreover have "q_Value Q q div 1048576 \<le> q_Value Q q"
    using assms(1) by linarith
  ultimately show "0 \<le> quantityValue Q q unit" and "quantityValue Q q unit < 2 ^ 62"
    using assms by (auto simp: quantityValue_def pos_imp_zdiv_nonneg_iff)
qed

lemma round_to_step_ge:
  assumes "0 \<le> m" and "m \<le> c" and "c < 2 ^ 62" and "step < 2 ^ 62"
  shows "c \<le> round_to_step c m step"
  using assms round_to_step_grid(1)[of step m c] by (cases "0 < step") (auto simp: round_to_step_def)

lemma calculateConsumedValue_nonneg:
  assumes "calculateConsumedValue Q requested cap = Some v" and "0 \<le> cv_Value cap"
    and "case cv_Policy cap of None \<Rightarrow> True | Some p \<Rightarrow> policy_sane p"
    and "\<And>q. requested = Some q \<Longrightarrow> 0 \<le> q_Value Q q \<and> q_Value Q q < 2 ^ 62"
  shows "0 \<le> v"
proof (cases requested)
  case None
  then show ?thesis
    using assms by (auto simp: calculateConsumedValue_def policy_sane_def split: option.splits)
next
  case (Some q)
  define rv where "rv = quantityValue Q q (cv_Unit cap)"
  have rv: "0 \<le> rv" "rv < 2 ^ 62"
    using assms(4)[OF Some] quantityValue_sane unfolding rv_def by auto
  show ?thesis
  proof (cases "cv_Policy cap")
    case None
    then show ?thesis
      using assms(1) Some rv by (simp add: calculateConsumedValue_def rv_def[symmetric])
  next
    case (Some p)
    define c where "c = (if rv < cp_Min p then cp_Min p else rv)"
    have "c \<le> round_to_step c (cp_Min p) (cp_Step p)" "0 \<le> c"
      using Some assms(3) rv by (auto simp: c_def policy_sane_def intro!: round_to_step_ge)
    then show ?thesis
      using assms(1) Some \<open>requested = Some q\<close>
      by (auto simp: calculateConsumedValue_def rv_def[symmetric] c_def[symmetric] Let_def
          split: if_splits)
  qed
qed

lemma consumed_loop_get:
  assumes "consumed_loop Q req capacity acc = Some consumed" and "mwf capacity"
  shows "mget consumed name =
    (case mget capacity name of None \<Rightarrow> mget acc name
     | Some cap \<Rightarrow> map_option (\<lambda>v. quantityFromValue Q v (cv_Unit cap))
         (calculateConsumedValue Q (case req of None \<Rightarrow> None | Some r \<Rightarrow> mget (cr_Requests r) name) cap))"
    and "mget capacity name = Some cap \<Longrightarrow>
      \<exists>v. calculateConsumedValue Q (case req of None \<Rightarrow> None | Some r \<Rightarrow> mget (cr_Requests r) name) cap
            = Some v \<and> v \<le> cv_Value cap"
proof -
  have "mget consumed name =
    (case mget capacity name of None \<Rightarrow> mget acc name
     | Some cap \<Rightarrow> map_option (\<lambda>v. quantityFromValue Q v (cv_Unit cap))
         (calculateConsumedValue Q (case req of None \<Rightarrow> None | Some r \<Rightarrow> mget (cr_Requests r) name) cap))
    \<and> (\<forall>cap. mget capacity name = Some cap \<longrightarrow>
      (\<exists>v. calculateConsumedValue Q (case req of None \<Rightarrow> None | Some r \<Rightarrow> mget (cr_Requests r) name) cap
            = Some v \<and> v \<le> cv_Value cap))"
    using assms
  proof (induction Q req capacity acc rule: consumed_loop.induct)
    case (2 Q req n cap rest acc)
    let ?calc = "calculateConsumedValue Q (case req of None \<Rightarrow> None | Some r \<Rightarrow> mget (cr_Requests r) n) cap"
    from "2.prems" obtain v where v: "?calc = Some v" "v \<le> cv_Value cap"
      and rest: "consumed_loop Q req rest (mput n (quantityFromValue Q v (cv_Unit cap)) acc) = Some consumed"
      by (auto simp: Let_def split: option.splits if_splits)
    have n: "mget rest n = None"
      using "2.prems"(2) by (simp add: map_of_eq_None_iff)
    have "\<not> cv_Value cap < v" using v(2) by simp
    from "2.IH"[OF refl v(1) this rest] "2.prems"(2) n v show ?case
      by (cases "name = n") (auto split: option.splits)
  qed simp
  then show "mget consumed name =
    (case mget capacity name of None \<Rightarrow> mget acc name
     | Some cap \<Rightarrow> map_option (\<lambda>v. quantityFromValue Q v (cv_Unit cap))
         (calculateConsumedValue Q (case req of None \<Rightarrow> None | Some r \<Rightarrow> mget (cr_Requests r) name) cap))"
    and "mget capacity name = Some cap \<Longrightarrow>
      \<exists>v. calculateConsumedValue Q (case req of None \<Rightarrow> None | Some r \<Rightarrow> mget (cr_Requests r) name) cap
            = Some v \<and> v \<le> cv_Value cap" by auto
qed

lemma computeConsumedCapacity_within:
  assumes Q: "quantity_ok Q" and sane: "capacity_sane capacity" and req: "request_sane Q req"
    and c: "computeConsumedCapacity Q req capacity = Some consumed"
  shows "within_capacity Q consumed capacity"
proof (cases "capacity = []")
  case True
  then show ?thesis by (simp add: within_capacity_def)
next
  case False
  with c have loop: "consumed_loop Q req capacity [] = Some consumed"
    by (auto simp: computeConsumedCapacity_def split: if_splits)
  have wf: "mwf capacity" using sane by (simp add: capacity_sane_def)
  have "0 \<le> used_capacity Q consumed name (cv_Unit cap)
      \<and> used_capacity Q consumed name (cv_Unit cap) \<le> cv_Value cap"
    if cap: "(name, cap) \<in> set capacity" for name cap
  proof -
    let ?r = "case req of None \<Rightarrow> None | Some r \<Rightarrow> mget (cr_Requests r) name"
    have get: "mget capacity name = Some cap"
      using cap wf by (simp add: mget_eq_in)
    obtain v where v: "calculateConsumedValue Q ?r cap = Some v" "v \<le> cv_Value cap"
      using consumed_loop_get(2)[OF loop wf get] by blast
    have s: "0 \<le> cv_Value cap" "case cv_Policy cap of None \<Rightarrow> True | Some p \<Rightarrow> policy_sane p"
        "cv_Value cap < (if cv_Unit cap = CapacityUnitMiB then 2 ^ 42 else 2 ^ 62)"
      using sane cap by (auto simp: capacity_sane_def)
    have "0 \<le> v"
      using v(1) s(1,2)
      by (rule calculateConsumedValue_nonneg)
         (use req in \<open>auto simp: request_sane_def split: option.splits dest!: map_of_SomeD\<close>)
    moreover from this have "unit_range (cv_Unit cap) v"
      using v(2) s(1,3) by (auto simp: unit_range_def in64_def split: if_splits)
    ultimately show ?thesis
      using consumed_loop_get(1)[OF loop wf, of name] get v
      by (simp add: used_capacity_def quantity_value_roundtrip[OF Q])
  qed
  then show ?thesis by (auto simp: within_capacity_def)
qed

section \<open>The capacity ledger\<close>

text \<open>A ledger is the capacity of one shared device together with its running totals.\<close>

type_synonym 'q capacity_ledger = "'q quantity_api \<times> (string, CapacityValue) gomap \<times> (string, 'q) gomap"

definition charge_capacity :: "(string, 'q) gomap \<Rightarrow> 'q capacity_ledger \<Rightarrow> 'q capacity_ledger option" where
  "charge_capacity add l = (case l of (Q, capacity, totals) \<Rightarrow>
     if fitsCapacity Q totals add capacity then Some (Q, capacity, addConsumed Q totals add capacity) else None)"

definition capacity_amount ::
  "'q quantity_api \<Rightarrow> (string, CapacityValue) gomap \<Rightarrow> (string, 'q) gomap \<Rightarrow> string \<Rightarrow> int64" where
  "capacity_amount Q capacity m name =
     (case mget capacity name of None \<Rightarrow> 0 | Some cap \<Rightarrow> used_capacity Q m name (cv_Unit cap))"

definition capacity_limit :: "(string, CapacityValue) gomap \<Rightarrow> string \<Rightarrow> int64" where
  "capacity_limit capacity name = (case mget capacity name of None \<Rightarrow> 0 | Some cap \<Rightarrow> cv_Value cap)"

definition capacity_ledger_inv :: "'q capacity_ledger \<Rightarrow> bool" where
  "capacity_ledger_inv l = (case l of (Q, capacity, totals) \<Rightarrow>
     quantity_ok Q \<and> capacity_sane capacity \<and> within_capacity Q totals capacity)"

lemma capacity_amount_add:
  assumes "capacity_ledger_inv (Q, capacity, totals)" and "within_capacity Q add capacity"
    and "fitsCapacity Q totals add capacity"
  shows "capacity_amount Q capacity (addConsumed Q totals add capacity) name =
    capacity_amount Q capacity totals name + capacity_amount Q capacity add name"
proof (cases "mget capacity name")
  case (Some cap)
  then show ?thesis
    using addConsumed_used(1)[of Q capacity totals add name cap] assms mget_in[OF Some]
    by (simp add: capacity_amount_def capacity_ledger_inv_def)
qed (simp add: capacity_amount_def)

interpretation capacities: resource_ledger charge_capacity capacity_ledger_inv
  "\<lambda>l add. within_capacity (fst l) add (fst (snd l))"
  "\<lambda>l. capacity_amount (fst l) (fst (snd l)) (snd (snd l))"
  "\<lambda>l. capacity_amount (fst l) (fst (snd l))" "\<lambda>l. capacity_limit (fst (snd l))"
proof unfold_locales
  fix l :: "'q capacity_ledger" and i
  assume "capacity_ledger_inv l"
  then show "capacity_amount (fst l) (fst (snd l)) (snd (snd l)) i \<le> capacity_limit (fst (snd l)) i"
    by (cases "mget (fst (snd l)) i")
       (auto simp: capacity_ledger_inv_def capacity_amount_def capacity_limit_def within_capacity_def dest!: mget_in)
qed (auto simp: charge_capacity_def capacity_ledger_inv_def capacity_amount_add
     within_capacity_addConsumed split: if_splits)

end
