(* ===== verification/Counters.thy ===== *)
theory Counters
  imports Allocatable Ledger
begin

text \<open>
  Shared counters of partitionable devices, \<open>pkg/dra/services/allocator/counters.go\<close>: blocking
  counter sets, checking whether a consumption fits, and charging it. \<open>consumeCounters\<close> updates its
  map in place and reports a boolean; the model returns the new map, or \<open>None\<close> for false (no
  branch that reports false has changed the map).
\<close>

type_synonym consumed_counters = "(string, (string, CounterValue) gomap) gomap"

definition counterSetBlocked :: "CounterConsumption list \<Rightarrow> string list \<Rightarrow> bool" where
  "counterSetBlocked consumes blocked =
     list_ex (\<lambda>consumption. cc_CounterSet consumption = [] \<or> cc_CounterSet consumption \<in> set blocked)
       consumes"

fun blockCounterSets :: "string list \<Rightarrow> CounterConsumption list \<Rightarrow> string list" where
  "blockCounterSets blocked [] = blocked"
| "blockCounterSets blocked (consumption # rest) =
     (if cc_CounterSet consumption = [] then blockCounterSets blocked rest
      else blockCounterSets (List.insert (cc_CounterSet consumption) blocked) rest)"

definition fits_counter ::
  "(string, CounterValue) gomap \<Rightarrow> (string, CounterValue) gomap \<Rightarrow> string \<Rightarrow> CounterValue \<Rightarrow> bool" where
  "fits_counter available current name addVal =
     (case mget available name of
        None \<Rightarrow> False
      | Some avail \<Rightarrow>
          if ctr_Unit addVal \<noteq> ctr_Unit avail then False
          else (case mget current name of
                  None \<Rightarrow> \<not> ctr_Value addVal > ctr_Value avail
                | Some currentVal \<Rightarrow>
                    if ctr_Unit currentVal \<noteq> ctr_Unit avail then False
                    else \<not> add64 (ctr_Value addVal) (ctr_Value currentVal) > ctr_Value avail))"

definition fitsCounters ::
  "(string, CounterValue) gomap \<Rightarrow> (string, CounterValue) gomap \<Rightarrow> (string, CounterValue) gomap \<Rightarrow> bool" where
  "fitsCounters available current add =
     (if add = [] then True
      else if available = [] then False
      else list_all (\<lambda>(name, addVal). fits_counter available current name addVal) add)"

fun addCounters ::
  "(string, CounterValue) gomap \<Rightarrow> (string, CounterValue) gomap \<Rightarrow> (string, CounterValue) gomap \<Rightarrow>
   (string, CounterValue) gomap" where
  "addCounters current [] available = current"
| "addCounters current ((name, addVal) # rest) available =
     (let availUnit = (case mget available name of None \<Rightarrow> [] | Some avail \<Rightarrow> ctr_Unit avail);
          total = (case mget current name of
                     None \<Rightarrow> ctr_Value addVal
                   | Some currentVal \<Rightarrow> add64 (ctr_Value addVal) (ctr_Value currentVal))
      in addCounters (mput name \<lparr> ctr_Value = total, ctr_Unit = availUnit \<rparr> current) rest available)"

definition consumed_of :: "consumed_counters \<Rightarrow> string \<Rightarrow> (string, CounterValue) gomap" where
  "consumed_of consumed name = (case mget consumed name of None \<Rightarrow> [] | Some m \<Rightarrow> m)"

definition counters_of :: "(string, CounterSet) gomap \<Rightarrow> string \<Rightarrow> (string, CounterValue) gomap" where
  "counters_of available name = (case mget available name of None \<Rightarrow> [] | Some s \<Rightarrow> cs_Counters s)"

fun add_consumptions ::
  "consumed_counters \<Rightarrow> (string, CounterSet) gomap \<Rightarrow> CounterConsumption list \<Rightarrow> consumed_counters" where
  "add_consumptions consumed available [] = consumed"
| "add_consumptions consumed available (consumption # rest) =
     add_consumptions
       (mput (cc_CounterSet consumption)
          (addCounters (consumed_of consumed (cc_CounterSet consumption)) (cc_Counters consumption)
             (counters_of available (cc_CounterSet consumption)))
          consumed)
       available rest"

definition consumeCounters ::
  "consumed_counters \<Rightarrow> (string, CounterSet) gomap \<Rightarrow> CounterConsumption list \<Rightarrow> consumed_counters option" where
  "consumeCounters consumed available consumes =
     (if consumes = [] then Some consumed
      else if list_all (\<lambda>consumption.
          cc_CounterSet consumption \<noteq> [] \<and>
          (case mget available (cc_CounterSet consumption) of
             None \<Rightarrow> False
           | Some s \<Rightarrow> fitsCounters (cs_Counters s) (consumed_of consumed (cc_CounterSet consumption))
                         (cc_Counters consumption))) consumes
      then Some (add_consumptions consumed available consumes)
      else None)"

section \<open>Blocking\<close>

lemma set_blockCounterSets:
  "set (blockCounterSets blocked consumes) =
     set blocked \<union> {s. s \<noteq> [] \<and> s \<in> cc_CounterSet ` set consumes}"
  by (induction blocked consumes rule: blockCounterSets.induct) auto

lemma counterSetBlocked_after_block:
  "consumes \<noteq> [] \<Longrightarrow> counterSetBlocked consumes (blockCounterSets blocked consumes)"
  by (cases consumes) (auto simp: counterSetBlocked_def set_blockCounterSets list_ex_iff)

section \<open>Charging is exact and stays within the available counters\<close>

definition counter_value :: "(string, CounterValue) gomap \<Rightarrow> string \<Rightarrow> int64" where
  "counter_value m c = (case mget m c of None \<Rightarrow> 0 | Some v \<Rightarrow> ctr_Value v)"

definition counter_used :: "consumed_counters \<Rightarrow> string \<times> string \<Rightarrow> int64" where
  "counter_used consumed i = counter_value (consumed_of consumed (fst i)) (snd i)"

definition counter_limit :: "(string, CounterSet) gomap \<Rightarrow> string \<times> string \<Rightarrow> int64" where
  "counter_limit available i = counter_value (counters_of available (fst i)) (snd i)"

definition counter_demand :: "CounterConsumption list \<Rightarrow> string \<times> string \<Rightarrow> int64" where
  "counter_demand consumes i =
     (\<Sum>k\<leftarrow>consumes. if cc_CounterSet k = fst i then counter_value (cc_Counters k) (snd i) else 0)"

text \<open>
  Well-formed inputs: counter values are not negative and below \<open>2 ^ 62\<close>, and a device draws on
  each counter set at most once.
\<close>

definition counters_sane :: "(string, CounterValue) gomap \<Rightarrow> bool" where
  "counters_sane m \<longleftrightarrow> mwf m \<and> (\<forall>(c, v) \<in> set m. 0 \<le> ctr_Value v \<and> ctr_Value v < 2 ^ 62)"

definition available_sane :: "(string, CounterSet) gomap \<Rightarrow> bool" where
  "available_sane available \<longleftrightarrow> (\<forall>(s, cs) \<in> set available. counters_sane (cs_Counters cs))"

definition consumes_sane :: "CounterConsumption list \<Rightarrow> bool" where
  "consumes_sane consumes \<longleftrightarrow> distinct (map cc_CounterSet consumes)
     \<and> (\<forall>k \<in> set consumes. counters_sane (cc_Counters k))"

definition counters_within ::
  "(string, CounterValue) gomap \<Rightarrow> (string, CounterValue) gomap \<Rightarrow> bool" where
  "counters_within available current \<longleftrightarrow>
     (\<forall>c v. mget current c = Some v \<longrightarrow>
        (\<exists>a. mget available c = Some a \<and> ctr_Unit v = ctr_Unit a
           \<and> 0 \<le> ctr_Value v \<and> ctr_Value v \<le> ctr_Value a))"

definition consumed_within :: "(string, CounterSet) gomap \<Rightarrow> consumed_counters \<Rightarrow> bool" where
  "consumed_within available consumed \<longleftrightarrow>
     (\<forall>s. counters_within (counters_of available s) (consumed_of consumed s))"

lemma counters_of_sane: "available_sane available \<Longrightarrow> counters_sane (counters_of available s)"
  by (auto simp: available_sane_def counters_of_def counters_sane_def split: option.splits
      dest!: map_of_SomeD)

lemma counter_value_nonneg: "counters_sane m \<Longrightarrow> 0 \<le> counter_value m c"
  by (auto simp: counters_sane_def counter_value_def split: option.splits dest!: map_of_SomeD)

lemma counter_value_le:
  "counters_within available current \<Longrightarrow> counters_sane available \<Longrightarrow>
   counter_value current c \<le> counter_value available c"
  using counter_value_nonneg[of available c]
  by (cases "mget current c") (fastforce simp: counters_within_def counter_value_def)+

lemma counters_within_empty [simp]: "counters_within available []"
  by (simp add: counters_within_def)

lemma addCounters_get:
  assumes "mwf add"
  shows "mget (addCounters current add available) c =
    (case mget add c of None \<Rightarrow> mget current c
     | Some v \<Rightarrow> Some \<lparr> ctr_Value = (case mget current c of None \<Rightarrow> ctr_Value v
                                    | Some w \<Rightarrow> add64 (ctr_Value v) (ctr_Value w)),
                        ctr_Unit = (case mget available c of None \<Rightarrow> [] | Some a \<Rightarrow> ctr_Unit a) \<rparr>)"
  using assms
proof (induction current add available rule: addCounters.induct)
  case (2 current name addVal rest available)
  then have "mget rest name = None" by (simp add: map_of_eq_None_iff)
  with 2 show ?case by (cases "c = name") (auto simp: Let_def split: option.splits)
qed simp

lemma fitsCounters_entry:
  "fitsCounters available current add \<Longrightarrow> (n, v) \<in> set add \<Longrightarrow> fits_counter available current n v"
  by (auto simp: fitsCounters_def list_all_iff split: if_splits)

text \<open>The charge of one counter set: exact, and within what is available.\<close>

lemma addCounters_within:
  assumes fits: "fitsCounters available current add" and add: "counters_sane add"
    and avail: "counters_sane available" and cur: "counters_within available current"
  shows "counters_within available (addCounters current add available)"
    and "counter_value (addCounters current add available) c =
      counter_value current c + counter_value add c"
proof -
  have wf: "mwf add" using add by (simp add: counters_sane_def)
  have step: "\<exists>a. mget available n = Some a \<and> ctr_Unit v = ctr_Unit a \<and> 0 \<le> ctr_Value v
      \<and> (case mget current n of None \<Rightarrow> ctr_Value v \<le> ctr_Value a
         | Some w \<Rightarrow> add64 (ctr_Value v) (ctr_Value w) = ctr_Value v + ctr_Value w \<and> 0 \<le> ctr_Value w
                     \<and> ctr_Value v + ctr_Value w \<le> ctr_Value a)"
    if v: "mget add n = Some v" for n v
  proof -
    have vin: "(n, v) \<in> set add"
      using v by (rule map_of_SomeD)
    have bnd: "0 \<le> ctr_Value v" "ctr_Value v < 2 ^ 62"
      using add vin by (auto simp: counters_sane_def)
    obtain a where a: "mget available n = Some a" "ctr_Unit v = ctr_Unit a"
      and le: "case mget current n of None \<Rightarrow> ctr_Value v \<le> ctr_Value a
               | Some w \<Rightarrow> add64 (ctr_Value v) (ctr_Value w) \<le> ctr_Value a"
      using fitsCounters_entry[OF fits vin]
      by (auto simp: fits_counter_def split: if_splits option.splits)
    have abnd: "ctr_Value a < 2 ^ 62"
      using avail map_of_SomeD[OF a(1)] by (auto simp: counters_sane_def)
    show ?thesis
    proof (cases "mget current n")
      case None
      then show ?thesis using a le bnd by auto
    next
      case (Some w)
      then have w: "0 \<le> ctr_Value w" "ctr_Value w \<le> ctr_Value a"
        using cur a by (fastforce simp: counters_within_def)+
      then have "in64 (ctr_Value v + ctr_Value w)"
        using bnd abnd by (auto simp: in64_def)
      then show ?thesis using Some a le bnd w by (auto simp: add64_exact)
    qed
  qed
  show "counters_within available (addCounters current add available)"
    unfolding counters_within_def
  proof (intro allI impI)
    fix n x
    assume x: "mget (addCounters current add available) n = Some x"
    show "\<exists>a. mget available n = Some a \<and> ctr_Unit x = ctr_Unit a \<and> 0 \<le> ctr_Value x
        \<and> ctr_Value x \<le> ctr_Value a"
    proof (cases "mget add n")
      case None
      then show ?thesis
        using x cur by (simp add: addCounters_get[OF wf] counters_within_def)
    next
      case (Some v)
      then show ?thesis
        using x step[OF Some] by (auto simp: addCounters_get[OF wf] split: option.splits)
    qed
  qed
  show "counter_value (addCounters current add available) c = counter_value current c + counter_value add c"
    using step[of c]
    by (cases "mget add c") (auto simp: counter_value_def addCounters_get[OF wf] split: option.splits)
qed

lemma consumed_of_mput [simp]:
  "consumed_of (mput s m consumed) t = (if t = s then m else consumed_of consumed t)"
  by (simp add: consumed_of_def)

lemma add_consumptions_other:
  "s \<notin> cc_CounterSet ` set consumes \<Longrightarrow>
   consumed_of (add_consumptions consumed available consumes) s = consumed_of consumed s"
  by (induction consumed available consumes rule: add_consumptions.induct) auto

lemma counter_demand_other:
  "s \<notin> cc_CounterSet ` set consumes \<Longrightarrow> counter_demand consumes (s, c) = 0"
  by (induction consumes) (auto simp: counter_demand_def)

lemma counter_demand_nonneg: "consumes_sane consumes \<Longrightarrow> 0 \<le> counter_demand consumes i"
  unfolding counter_demand_def consumes_sane_def
  by (intro sum_list_nonneg) (auto simp: counter_value_nonneg)

lemma add_consumptions_correct:
  assumes "consumes_sane consumes" and "available_sane available" and "consumed_within available consumed"
    and "\<And>k. k \<in> set consumes \<Longrightarrow>
      fitsCounters (counters_of available (cc_CounterSet k)) (consumed_of consumed (cc_CounterSet k)) (cc_Counters k)"
  shows "consumed_within available (add_consumptions consumed available consumes)
    \<and> counter_used (add_consumptions consumed available consumes) i =
        counter_used consumed i + counter_demand consumes i"
  using assms
proof (induction consumed available consumes rule: add_consumptions.induct)
  case (1 consumed available)
  then show ?case by (simp add: counter_demand_def)
next
  case (2 consumed available k rest)
  let ?s = "cc_CounterSet k"
  let ?m = "addCounters (consumed_of consumed ?s) (cc_Counters k) (counters_of available ?s)"
  let ?c = "mput ?s ?m consumed"
  have sane: "consumes_sane rest" "counters_sane (cc_Counters k)"
    and new: "?s \<notin> cc_CounterSet ` set rest"
    using "2.prems"(1) by (auto simp: consumes_sane_def)
  note add = addCounters_within[OF "2.prems"(4)[of k] sane(2) counters_of_sane[OF "2.prems"(2)]]
  have cur: "counters_within (counters_of available ?s) (consumed_of consumed ?s)"
    using "2.prems"(3) by (simp add: consumed_within_def)
  have within: "consumed_within available ?c"
    using "2.prems"(3) add(1)[OF _ cur] by (auto simp: consumed_within_def)
  have fits: "\<And>j. j \<in> set rest \<Longrightarrow> fitsCounters (counters_of available (cc_CounterSet j))
      (consumed_of ?c (cc_CounterSet j)) (cc_Counters j)"
    using "2.prems"(4) new by (auto simp: image_iff)
  have used: "counter_used ?c i = counter_used consumed i
      + (if ?s = fst i then counter_value (cc_Counters k) (snd i) else 0)"
    using add(2)[OF _ cur] by (auto simp: counter_used_def)
  from "2.IH"[OF sane(1) "2.prems"(2) within fits] used show ?case
    by (simp add: counter_demand_def)
qed

lemma consumeCounters_correct:
  assumes "consumeCounters consumed available consumes = Some consumed'"
    and "consumes_sane consumes" and "available_sane available" and "consumed_within available consumed"
  shows "consumed_within available consumed'"
    and "counter_used consumed' i = counter_used consumed i + counter_demand consumes i"
proof -
  have "consumed' = add_consumptions consumed available consumes"
    using assms(1) by (auto simp: consumeCounters_def split: if_splits)
  moreover have "\<And>k. k \<in> set consumes \<Longrightarrow> fitsCounters (counters_of available (cc_CounterSet k))
      (consumed_of consumed (cc_CounterSet k)) (cc_Counters k)"
    using assms(1)
    by (auto simp: consumeCounters_def list_all_iff counters_of_def split: if_splits option.splits dest!: bspec)
  ultimately show "consumed_within available consumed'"
    and "counter_used consumed' i = counter_used consumed i + counter_demand consumes i"
    using add_consumptions_correct[OF assms(2,3,4)] by blast+
qed

section \<open>The counter ledger\<close>

text \<open>A ledger is the available counters together with what is consumed of them.\<close>

type_synonym counter_ledger = "(string, CounterSet) gomap \<times> consumed_counters"

definition charge_counters :: "CounterConsumption list \<Rightarrow> counter_ledger \<Rightarrow> counter_ledger option" where
  "charge_counters consumes l =
     map_option (Pair (fst l)) (consumeCounters (snd l) (fst l) consumes)"

definition counter_ledger_inv :: "counter_ledger \<Rightarrow> bool" where
  "counter_ledger_inv l \<longleftrightarrow> available_sane (fst l) \<and> consumed_within (fst l) (snd l)"

interpretation counters: resource_ledger charge_counters counter_ledger_inv
  "\<lambda>_. consumes_sane" "\<lambda>l. counter_used (snd l)" "\<lambda>_. counter_demand" "\<lambda>l. counter_limit (fst l)"
proof unfold_locales
  fix l i
  assume "counter_ledger_inv l"
  then show "counter_used (snd l) i \<le> counter_limit (fst l) i"
    by (auto simp: counter_ledger_inv_def counter_used_def counter_limit_def consumed_within_def
        intro: counter_value_le counters_of_sane)
qed (auto simp: charge_counters_def counter_ledger_inv_def
     intro: consumeCounters_correct(1) consumeCounters_correct(2))

end
