(* ===== verification/AllocatorTypes.thy ===== *)
theory AllocatorTypes
  imports Capacity Counters
begin

text \<open>
  The types of the allocator (\<open>pkg/dra/services/allocator/types.go\<close>, \<open>grouping_types.go\<close>) and of
  its results (\<open>pkg/dra/domain/types.go\<close>), and the grouping of devices by physical GPU
  (\<open>grouping*.go\<close>): MIG partitions and the whole GPU they are cut from share a group, and the two
  kinds are never handed out side by side. A \<open>Selector\<close> is the interface the code declares: a
  function from driver and device to an error or a verdict.
\<close>

section \<open>Types\<close>

record DeviceKey =
  dk_Driver :: string
  dk_Pool :: string
  dk_Device :: string

type_synonym Selector = "string \<Rightarrow> DeviceSpec \<Rightarrow> string + bool"

record 'q Request =
  rq_Name :: string
  rq_Count :: int64
  rq_Selectors :: "Selector list"
  rq_Capacity :: "'q CapacityRequirements option"

record CandidateDevice =
  cd_Key :: DeviceKey
  cd_Driver :: string
  cd_Pool :: string
  cd_NodeName :: string
  cd_Spec :: DeviceSpec

record 'q AllocatedDeviceInfo =
  ai_Exclusive :: bool
  ai_ConsumedCapacity :: "(string, 'q) gomap"

type_synonym CounterSetInventory = "(string, (string, CounterSet) gomap) gomap"

record 'q Input =
  in_Requests :: "'q Request list"
  in_Candidates :: "CandidateDevice list"
  in_Allocated :: "(DeviceKey, 'q AllocatedDeviceInfo) gomap"
  in_CounterSets :: CounterSetInventory

record 'q AllocatedDevice =
  ad_Request :: string
  ad_Driver :: string
  ad_Pool :: string
  ad_Device :: string
  ad_ShareID :: string
  ad_ConsumedCapacity :: "(string, 'q) gomap"
  ad_BindingConditions :: "string list"
  ad_BindingFailureConditions :: "string list"

record 'q AllocationResult =
  ar_ClaimUID :: string
  ar_NodeName :: string
  ar_Devices :: "'q AllocatedDevice list"
  ar_NodeSelector :: "string option"

definition cloneStrings :: "string list \<Rightarrow> string list" where
  "cloneStrings inp = (if inp = [] then [] else map (\<lambda>s. s) inp)"

lemma cloneStrings_id [simp]: "cloneStrings xs = xs"
  by (simp add: cloneStrings_def)

section \<open>Grouping\<close>

datatype deviceKind = deviceKindUnknown | deviceKindPhysical | deviceKindMIG

record deviceMeta =
  dm_groupKey :: string
  dm_kind :: deviceKind

record groupState =
  gs_hasPhysical :: bool
  gs_hasMIG :: bool

definition deviceGroupKey :: "DeviceSpec \<Rightarrow> string" where
  "deviceGroupKey spec =
     (if ds_Consumes spec \<noteq> [] \<and> cc_CounterSet (hd (ds_Consumes spec)) \<noteq> []
      then cc_CounterSet (hd (ds_Consumes spec))
      else (case mget (ds_Attributes spec) AttrPCIAddress of
              None \<Rightarrow> []
            | Some attr \<Rightarrow> (case av_String attr of None \<Rightarrow> [] | Some s \<Rightarrow> CounterSetNameForPCI s)))"

definition deviceKindFromSpec :: "DeviceSpec \<Rightarrow> deviceKind" where
  "deviceKindFromSpec spec =
     (case mget (ds_Attributes spec) AttrDeviceType of
        None \<Rightarrow> deviceKindUnknown
      | Some attr \<Rightarrow>
          (case av_String attr of
             None \<Rightarrow> deviceKindUnknown
           | Some s \<Rightarrow> if s = DeviceTypeMIG then deviceKindMIG
                       else if s = DeviceTypePhysical then deviceKindPhysical
                       else deviceKindUnknown))"

definition deviceMetaFromSpec :: "DeviceSpec \<Rightarrow> deviceMeta" where
  "deviceMetaFromSpec spec =
     \<lparr> dm_groupKey = deviceGroupKey spec, dm_kind = deviceKindFromSpec spec \<rparr>"

fun buildDeviceMeta_loop ::
  "(DeviceKey, deviceMeta) gomap \<Rightarrow> CandidateDevice list \<Rightarrow> (DeviceKey, deviceMeta) gomap" where
  "buildDeviceMeta_loop meta [] = meta"
| "buildDeviceMeta_loop meta (dev # rest) =
     buildDeviceMeta_loop (mput (cd_Key dev) (deviceMetaFromSpec (cd_Spec dev)) meta) rest"

definition buildDeviceMeta :: "CandidateDevice list \<Rightarrow> (DeviceKey, deviceMeta) gomap" where
  "buildDeviceMeta devices = buildDeviceMeta_loop [] devices"

definition group_of :: "(string, groupState) gomap \<Rightarrow> string \<Rightarrow> groupState" where
  "group_of state key =
     (case mget state key of None \<Rightarrow> \<lparr> gs_hasPhysical = False, gs_hasMIG = False \<rparr> | Some st \<Rightarrow> st)"

definition markGroupState ::
  "deviceMeta \<Rightarrow> (string, groupState) gomap \<Rightarrow> (string, groupState) gomap" where
  "markGroupState meta state =
     (if dm_groupKey meta = [] \<or> dm_kind meta = deviceKindUnknown then state
      else
        let st = group_of state (dm_groupKey meta);
            st = (case dm_kind meta of
                    deviceKindMIG \<Rightarrow> st\<lparr>gs_hasMIG := True\<rparr>
                  | deviceKindPhysical \<Rightarrow> st\<lparr>gs_hasPhysical := True\<rparr>
                  | deviceKindUnknown \<Rightarrow> st)
        in mput (dm_groupKey meta) st state)"

text \<open>The body of the loop of \<open>buildGroupState\<close> is \<open>markGroupState\<close> on the device's metadata.\<close>

fun buildGroupState ::
  "(DeviceKey, deviceMeta) gomap \<Rightarrow> (DeviceKey, 'q AllocatedDeviceInfo) gomap \<Rightarrow>
   (string, groupState) gomap \<Rightarrow> (string, groupState) gomap" where
  "buildGroupState metaByKey [] state = state"
| "buildGroupState metaByKey ((key, info) # rest) state =
     (case mget metaByKey key of
        None \<Rightarrow> buildGroupState metaByKey rest state
      | Some meta \<Rightarrow> buildGroupState metaByKey rest (markGroupState meta state))"

definition conflictsWithGroup :: "deviceMeta \<Rightarrow> (string, groupState) gomap \<Rightarrow> bool" where
  "conflictsWithGroup meta state =
     (if dm_groupKey meta = [] \<or> dm_kind meta = deviceKindUnknown then False
      else
        let st = group_of state (dm_groupKey meta) in
        (case dm_kind meta of
           deviceKindMIG \<Rightarrow> gs_hasPhysical st
         | deviceKindPhysical \<Rightarrow> gs_hasMIG st
         | deviceKindUnknown \<Rightarrow> False))"

subsection \<open>What a group state records\<close>

definition group_records :: "(string, groupState) gomap \<Rightarrow> deviceMeta \<Rightarrow> bool" where
  "group_records state meta \<longleftrightarrow>
     (dm_groupKey meta \<noteq> [] \<longrightarrow>
        (dm_kind meta = deviceKindMIG \<longrightarrow> gs_hasMIG (group_of state (dm_groupKey meta))) \<and>
        (dm_kind meta = deviceKindPhysical \<longrightarrow> gs_hasPhysical (group_of state (dm_groupKey meta))))"

text \<open>Two devices that must not be handed out together: one GPU, one MIG and one whole.\<close>

definition meta_clash :: "deviceMeta \<Rightarrow> deviceMeta \<Rightarrow> bool" where
  "meta_clash a b \<longleftrightarrow> dm_groupKey a \<noteq> [] \<and> dm_groupKey a = dm_groupKey b
     \<and> (dm_kind a = deviceKindMIG \<and> dm_kind b = deviceKindPhysical
        \<or> dm_kind a = deviceKindPhysical \<and> dm_kind b = deviceKindMIG)"

lemma group_records_mark_self: "group_records (markGroupState meta state) meta"
  by (cases "dm_kind meta") (auto simp: group_records_def markGroupState_def group_of_def Let_def)

lemma group_records_mark_mono:
  "group_records state m \<Longrightarrow> group_records (markGroupState meta state) m"
  by (cases "dm_kind meta")
     (auto simp: group_records_def markGroupState_def group_of_def Let_def split: option.splits)

lemma conflicts_mark_self:
  "conflictsWithGroup meta (markGroupState meta state) = conflictsWithGroup meta state"
  by (cases "dm_kind meta")
     (auto simp: conflictsWithGroup_def markGroupState_def group_of_def Let_def)

lemma no_conflict_no_clash:
  "\<not> conflictsWithGroup a state \<Longrightarrow> group_records state b \<Longrightarrow> \<not> meta_clash a b"
  by (cases "dm_kind a"; cases "dm_kind b")
     (auto simp: conflictsWithGroup_def group_records_def meta_clash_def Let_def)

lemma meta_clash_sym: "meta_clash a b = meta_clash b a"
  by (auto simp: meta_clash_def)

lemma buildGroupState_mono:
  "group_records state m \<Longrightarrow> group_records (buildGroupState metaByKey allocated state) m"
  by (induction metaByKey allocated state rule: buildGroupState.induct)
     (simp_all add: group_records_mark_mono split: option.split)

lemma buildGroupState_records:
  assumes "(key, info) \<in> set allocated" and "mget metaByKey key = Some meta"
  shows "group_records (buildGroupState metaByKey allocated state) meta"
  using assms
proof (induction metaByKey allocated state rule: buildGroupState.induct)
  case (2 metaByKey k i rest state)
  then show ?case
    by (cases "key = k \<and> info = i")
       (simp_all add: buildGroupState_mono group_records_mark_self split: option.split)
qed simp

lemma buildDeviceMeta_loop_other:
  "key \<notin> cd_Key ` set devices \<Longrightarrow> mget (buildDeviceMeta_loop meta devices) key = mget meta key"
  by (induction meta devices rule: buildDeviceMeta_loop.induct) auto

lemma buildDeviceMeta_loop_get:
  "distinct (map cd_Key devices) \<Longrightarrow> dev \<in> set devices \<Longrightarrow>
   mget (buildDeviceMeta_loop meta devices) (cd_Key dev) = Some (deviceMetaFromSpec (cd_Spec dev))"
  by (induction meta devices rule: buildDeviceMeta_loop.induct) (auto simp: buildDeviceMeta_loop_other)

lemma buildDeviceMeta_get:
  "distinct (map cd_Key devices) \<Longrightarrow> dev \<in> set devices \<Longrightarrow>
   mget (buildDeviceMeta devices) (cd_Key dev) = Some (deviceMetaFromSpec (cd_Spec dev))"
  by (simp add: buildDeviceMeta_def buildDeviceMeta_loop_get)

end
