(* ===== verification/NodeAllocation.thy ===== *)
theory NodeAllocation
  imports AllocatorTypes
begin

text \<open>
  Allocation on one node: \<open>allocation_state.go\<close>, \<open>node_allocation.go\<close>, \<open>node_allocation_helpers.go\<close>,
  \<open>node_grouping.go\<close> and \<open>selector_match.go\<close> of \<open>pkg/dra/services/allocator\<close>. The mutable values the
  code shares between the nested loops (the running totals, the consumed counters, the used
  exclusive devices, the group state and the results) are one record that the loops pass on. A run of
  the loops is a sequence of single allocations, the steps \<open>alloc_step\<close>; the safety properties are
  invariants of these steps.
\<close>

section \<open>State\<close>

record 'q nodeAllocationState =
  na_allocated :: "(DeviceKey, 'q AllocatedDeviceInfo) gomap"
  na_counterSets :: "(string, CounterSet) gomap"
  na_consumedTotals :: "(DeviceKey, (string, 'q) gomap) gomap"
  na_consumedCounters :: consumed_counters
  na_usedExclusive :: "DeviceKey list"

record 'q node_run = "'q nodeAllocationState" +
  nr_groupState :: "(string, groupState) gomap"
  nr_results :: "'q AllocatedDevice list"

fun buildCapacityState ::
  "(DeviceKey, 'q AllocatedDeviceInfo) gomap \<Rightarrow> DeviceKey list \<times> (DeviceKey, (string, 'q) gomap) gomap \<Rightarrow>
   DeviceKey list \<times> (DeviceKey, (string, 'q) gomap) gomap" where
  "buildCapacityState [] acc = acc"
| "buildCapacityState ((key, info) # rest) (usedExclusive, consumedTotals) =
     buildCapacityState rest
       ((if ai_Exclusive info then List.insert key usedExclusive else usedExclusive),
        (if ai_ConsumedCapacity info \<noteq> [] then mput key (cloneQuantities (ai_ConsumedCapacity info)) consumedTotals
         else consumedTotals))"

fun buildCounterState ::
  "(DeviceKey, 'q AllocatedDeviceInfo) gomap \<Rightarrow> (DeviceKey, CandidateDevice) gomap \<Rightarrow>
   (string, CounterSet) gomap \<Rightarrow> consumed_counters \<times> string list \<Rightarrow> consumed_counters \<times> string list" where
  "buildCounterState [] deviceIndex counterSets acc = acc"
| "buildCounterState ((key, info) # rest) deviceIndex counterSets (consumedCounters, blocked) =
     (case mget deviceIndex key of
        None \<Rightarrow> buildCounterState rest deviceIndex counterSets (consumedCounters, blocked)
      | Some device \<Rightarrow>
          let consumes = ds_Consumes (cd_Spec device) in
          if consumes = [] then buildCounterState rest deviceIndex counterSets (consumedCounters, blocked)
          else if counterSets = [] then
            buildCounterState rest deviceIndex counterSets
              (consumedCounters, blockCounterSets blocked consumes)
          else (case consumeCounters consumedCounters counterSets consumes of
                  Some consumedCounters' \<Rightarrow>
                    buildCounterState rest deviceIndex counterSets (consumedCounters', blocked)
                | None \<Rightarrow>
                    buildCounterState rest deviceIndex counterSets
                      (consumedCounters, blockCounterSets blocked consumes)))"

fun indexDevices_loop ::
  "(DeviceKey, CandidateDevice) gomap \<Rightarrow> CandidateDevice list \<Rightarrow> (DeviceKey, CandidateDevice) gomap" where
  "indexDevices_loop index [] = index"
| "indexDevices_loop index (device # rest) = indexDevices_loop (mput (cd_Key device) device index) rest"

definition indexDevices :: "CandidateDevice list \<Rightarrow> (DeviceKey, CandidateDevice) gomap" where
  "indexDevices devices = indexDevices_loop [] devices"

section \<open>Selectors\<close>

fun matchesDevice :: "string \<Rightarrow> DeviceSpec \<Rightarrow> Selector list \<Rightarrow> string + bool" where
  "matchesDevice driver spec [] = Inr True"
| "matchesDevice driver spec (sel # rest) =
     (case sel driver spec of
        Inl err \<Rightarrow> Inl err
      | Inr False \<Rightarrow> Inr False
      | Inr True \<Rightarrow> matchesDevice driver spec rest)"

section \<open>Allocating one device\<close>

definition totals_of :: "(DeviceKey, (string, 'q) gomap) gomap \<Rightarrow> DeviceKey \<Rightarrow> (string, 'q) gomap" where
  "totals_of totals key = (case mget totals key of None \<Rightarrow> [] | Some m \<Rightarrow> m)"

definition draw_counters ::
  "consumed_counters \<Rightarrow> (string, CounterSet) gomap \<Rightarrow> CounterConsumption list \<Rightarrow> consumed_counters option" where
  "draw_counters consumedCounters counterSets consumes =
     (if consumes \<noteq> [] then
        if counterSets = [] then None else consumeCounters consumedCounters counterSets consumes
      else Some consumedCounters)"

definition new_result ::
  "'q Request \<Rightarrow> CandidateDevice \<Rightarrow> (string, 'q) gomap \<Rightarrow> 'q AllocatedDevice" where
  "new_result req dev consumed =
     \<lparr> ad_Request = rq_Name req, ad_Driver = cd_Driver dev, ad_Pool = cd_Pool dev,
       ad_Device = ds_Name (cd_Spec dev), ad_ShareID = [], ad_ConsumedCapacity = consumed,
       ad_BindingConditions = cloneStrings (ds_BindingConditions (cd_Spec dev)),
       ad_BindingFailureConditions = cloneStrings (ds_BindingFailureConditions (cd_Spec dev)) \<rparr>"

text \<open>One iteration of the loop of \<open>allocateShared\<close>; \<open>None\<close> is one of its \<open>break\<close>s.\<close>

definition shared_step ::
  "'q quantity_api \<Rightarrow> 'q Request \<Rightarrow> CandidateDevice \<Rightarrow> deviceMeta \<Rightarrow> 'q node_run \<Rightarrow> 'q node_run option" where
  "shared_step Q req dev meta s =
     (case computeConsumedCapacity Q (rq_Capacity req) (ds_Capacity (cd_Spec dev)) of
        None \<Rightarrow> None
      | Some consumed \<Rightarrow>
          if \<not> fitsCapacity Q (totals_of (na_consumedTotals s) (cd_Key dev)) consumed (ds_Capacity (cd_Spec dev))
          then None
          else (case draw_counters (na_consumedCounters s) (na_counterSets s) (ds_Consumes (cd_Spec dev)) of
                  None \<Rightarrow> None
                | Some consumedCounters \<Rightarrow>
                    Some (s\<lparr> na_consumedCounters := consumedCounters,
                             nr_results := nr_results s @ [new_result req dev consumed],
                             nr_groupState := markGroupState meta (nr_groupState s),
                             na_consumedTotals :=
                               mput (cd_Key dev)
                                 (addConsumed Q (totals_of (na_consumedTotals s) (cd_Key dev)) consumed
                                    (ds_Capacity (cd_Spec dev)))
                                 (na_consumedTotals s) \<rparr>)))"

fun shared_loop ::
  "'q quantity_api \<Rightarrow> 'q Request \<Rightarrow> CandidateDevice \<Rightarrow> deviceMeta \<Rightarrow> nat \<Rightarrow> 'q node_run \<Rightarrow> int64 \<times> 'q node_run" where
  "shared_loop Q req dev meta 0 s = (0, s)"
| "shared_loop Q req dev meta (Suc n) s =
     (case shared_step Q req dev meta s of
        None \<Rightarrow> (0, s)
      | Some s' \<Rightarrow> (let (k, s'') = shared_loop Q req dev meta n s' in (k + 1, s'')))"

definition allocateShared ::
  "'q quantity_api \<Rightarrow> 'q Request \<Rightarrow> CandidateDevice \<Rightarrow> deviceMeta \<Rightarrow> int64 \<Rightarrow> 'q node_run \<Rightarrow>
   int64 \<times> 'q node_run" where
  "allocateShared Q req dev meta remaining s =
     (if remaining \<le> 0 then (0, s)
      else if (case mget (na_allocated s) (cd_Key dev) of None \<Rightarrow> False | Some info \<Rightarrow> ai_Exclusive info)
      then (0, s)
      else shared_loop Q req dev meta (nat remaining) s)"

definition allocateExclusive ::
  "'q quantity_api \<Rightarrow> 'q Request \<Rightarrow> CandidateDevice \<Rightarrow> deviceMeta \<Rightarrow> 'q node_run \<Rightarrow> 'q node_run option" where
  "allocateExclusive Q req dev meta s =
     (if cd_Key dev \<in> set (na_usedExclusive s) then None
      else if mget (na_allocated s) (cd_Key dev) \<noteq> None then None
      else if rq_Capacity req \<noteq> None
           \<and> computeConsumedCapacity Q (rq_Capacity req) (ds_Capacity (cd_Spec dev)) = None then None
      else (case draw_counters (na_consumedCounters s) (na_counterSets s) (ds_Consumes (cd_Spec dev)) of
              None \<Rightarrow> None
            | Some consumedCounters \<Rightarrow>
                Some (s\<lparr> na_consumedCounters := consumedCounters,
                         nr_results := nr_results s @ [new_result req dev []],
                         nr_groupState := markGroupState meta (nr_groupState s),
                         na_usedExclusive := List.insert (cd_Key dev) (na_usedExclusive s) \<rparr>)))"

section \<open>The loops of \<open>allocateOnNode\<close>\<close>

definition meta_of :: "(DeviceKey, deviceMeta) gomap \<Rightarrow> DeviceKey \<Rightarrow> deviceMeta" where
  "meta_of metaByKey key =
     (case mget metaByKey key of None \<Rightarrow> \<lparr> dm_groupKey = [], dm_kind = deviceKindUnknown \<rparr> | Some m \<Rightarrow> m)"

definition allocate_device ::
  "'q quantity_api \<Rightarrow> (DeviceKey, deviceMeta) gomap \<Rightarrow> 'q Request \<Rightarrow> CandidateDevice \<Rightarrow> int64 \<Rightarrow> 'q node_run \<Rightarrow>
   int64 \<times> 'q node_run" where
  "allocate_device Q metaByKey req dev allocatedCount s =
     (let meta = meta_of metaByKey (cd_Key dev) in
      if ds_AllowMultipleAllocations (cd_Spec dev) then
        (let (k, s') = allocateShared Q req dev meta (sub64 (rq_Count req) allocatedCount) s in (add64 allocatedCount k, s'))
      else (case allocateExclusive Q req dev meta s of
              None \<Rightarrow> (allocatedCount, s)
            | Some s' \<Rightarrow> (add64 allocatedCount 1, s')))"

fun device_loop ::
  "'q quantity_api \<Rightarrow> (DeviceKey, deviceMeta) gomap \<Rightarrow> string list \<Rightarrow> 'q Request \<Rightarrow> CandidateDevice list \<Rightarrow>
   int64 \<Rightarrow> 'q node_run \<Rightarrow> string + (int64 \<times> 'q node_run)" where
  "device_loop Q metaByKey blocked req [] allocatedCount s = Inr (allocatedCount, s)"
| "device_loop Q metaByKey blocked req (dev # rest) allocatedCount s =
     (if counterSetBlocked (ds_Consumes (cd_Spec dev)) blocked then
        device_loop Q metaByKey blocked req rest allocatedCount s
      else if conflictsWithGroup (meta_of metaByKey (cd_Key dev)) (nr_groupState s) then
        device_loop Q metaByKey blocked req rest allocatedCount s
      else (case matchesDevice (cd_Driver dev) (cd_Spec dev) (rq_Selectors req) of
              Inl err \<Rightarrow> Inl err
            | Inr False \<Rightarrow> device_loop Q metaByKey blocked req rest allocatedCount s
            | Inr True \<Rightarrow>
                (let (allocatedCount', s') = allocate_device Q metaByKey req dev allocatedCount s in
                 if allocatedCount' \<ge> rq_Count req then Inr (allocatedCount', s')
                 else device_loop Q metaByKey blocked req rest allocatedCount' s')))"

fun request_loop ::
  "'q quantity_api \<Rightarrow> (DeviceKey, deviceMeta) gomap \<Rightarrow> string list \<Rightarrow> CandidateDevice list \<Rightarrow>
   'q Request list \<Rightarrow> 'q node_run \<Rightarrow> string + 'q node_run option" where
  "request_loop Q metaByKey blocked devices [] s = Inr (Some s)"
| "request_loop Q metaByKey blocked devices (req # rest) s =
     (case device_loop Q metaByKey blocked req devices 0 s of
        Inl err \<Rightarrow> Inl err
      | Inr (allocatedCount, s') \<Rightarrow>
          if allocatedCount < rq_Count req then Inr None
          else request_loop Q metaByKey blocked devices rest s')"

definition initial_run ::
  "CandidateDevice list \<Rightarrow> (DeviceKey, 'q AllocatedDeviceInfo) gomap \<Rightarrow> (string, CounterSet) gomap \<Rightarrow> 'q node_run" where
  "initial_run devices allocated counterSets =
     (let (usedExclusive, consumedTotals) = buildCapacityState allocated ([], []) in
      \<lparr> na_allocated = allocated, na_counterSets = counterSets, na_consumedTotals = consumedTotals,
        na_consumedCounters = fst (buildCounterState allocated (indexDevices devices) counterSets ([], [])),
        na_usedExclusive = usedExclusive,
        nr_groupState = buildGroupState (buildDeviceMeta devices) allocated [],
        nr_results = [] \<rparr>)"

definition initial_blocked ::
  "CandidateDevice list \<Rightarrow> (DeviceKey, 'q AllocatedDeviceInfo) gomap \<Rightarrow> (string, CounterSet) gomap \<Rightarrow> string list" where
  "initial_blocked devices allocated counterSets =
     snd (buildCounterState allocated (indexDevices devices) counterSets ([], []))"

definition allocateOnNode ::
  "'q quantity_api \<Rightarrow> string \<Rightarrow> CandidateDevice list \<Rightarrow> 'q Request list \<Rightarrow>
   (DeviceKey, 'q AllocatedDeviceInfo) gomap \<Rightarrow> (string, CounterSet) gomap \<Rightarrow>
   string + 'q AllocationResult option" where
  "allocateOnNode Q nodeName devices requests allocated counterSets =
     (if devices = [] then Inr None
      else (case request_loop Q (buildDeviceMeta devices) (initial_blocked devices allocated counterSets)
                   devices requests (initial_run devices allocated counterSets) of
              Inl err \<Rightarrow> Inl err
            | Inr None \<Rightarrow> Inr None
            | Inr (Some s) \<Rightarrow>
                Inr (Some \<lparr> ar_ClaimUID = [], ar_NodeName = nodeName, ar_Devices = nr_results s,
                            ar_NodeSelector = Some nodeName \<rparr>)))"

section \<open>Runs as sequences of single allocations\<close>

definition admissible ::
  "(DeviceKey, deviceMeta) gomap \<Rightarrow> string list \<Rightarrow> 'q Request \<Rightarrow> CandidateDevice \<Rightarrow> 'q node_run \<Rightarrow> bool" where
  "admissible metaByKey blocked req dev s \<longleftrightarrow>
     \<not> counterSetBlocked (ds_Consumes (cd_Spec dev)) blocked \<and>
     \<not> conflictsWithGroup (meta_of metaByKey (cd_Key dev)) (nr_groupState s) \<and>
     matchesDevice (cd_Driver dev) (cd_Spec dev) (rq_Selectors req) = Inr True"

inductive alloc_step ::
  "'q quantity_api \<Rightarrow> (DeviceKey, deviceMeta) gomap \<Rightarrow> string list \<Rightarrow> 'q Request \<times> CandidateDevice \<Rightarrow>
   'q node_run \<Rightarrow> 'q node_run \<Rightarrow> bool"
  for Q metaByKey blocked where
  shared: "admissible metaByKey blocked req dev s \<Longrightarrow> ds_AllowMultipleAllocations (cd_Spec dev) \<Longrightarrow>
     (case mget (na_allocated s) (cd_Key dev) of None \<Rightarrow> True | Some info \<Rightarrow> \<not> ai_Exclusive info) \<Longrightarrow>
     shared_step Q req dev (meta_of metaByKey (cd_Key dev)) s = Some s' \<Longrightarrow>
     alloc_step Q metaByKey blocked (req, dev) s s'"
| exclusive: "admissible metaByKey blocked req dev s \<Longrightarrow> \<not> ds_AllowMultipleAllocations (cd_Spec dev) \<Longrightarrow>
     allocateExclusive Q req dev (meta_of metaByKey (cd_Key dev)) s = Some s' \<Longrightarrow>
     alloc_step Q metaByKey blocked (req, dev) s s'"

inductive alloc_run ::
  "'q quantity_api \<Rightarrow> (DeviceKey, deviceMeta) gomap \<Rightarrow> string list \<Rightarrow> ('q Request \<times> CandidateDevice) list \<Rightarrow>
   'q node_run \<Rightarrow> 'q node_run \<Rightarrow> bool"
  for Q metaByKey blocked where
  run_nil: "alloc_run Q metaByKey blocked [] s s"
| run_snoc: "alloc_run Q metaByKey blocked tr s t \<Longrightarrow> alloc_step Q metaByKey blocked a t u \<Longrightarrow>
     alloc_run Q metaByKey blocked (tr @ [a]) s u"

inductive_cases alloc_stepE: "alloc_step Q metaByKey blocked (req, dev) s t"

inductive_simps alloc_run_Nil [simp]: "alloc_run Q metaByKey blocked [] s t"

lemma alloc_run_append:
  assumes "alloc_run Q M B tr2 t u" and "alloc_run Q M B tr1 s t"
  shows "alloc_run Q M B (tr1 @ tr2) s u"
  using assms
proof (induction rule: alloc_run.induct)
  case (run_snoc tr s' t' a u')
  then show ?case
    using alloc_run.run_snoc[of Q M B "tr1 @ tr" s t' a u'] by simp
qed simp

lemma alloc_run_single: "alloc_step Q M B a s t \<Longrightarrow> alloc_run Q M B [a] s t"
  using alloc_run.run_snoc[OF alloc_run.run_nil] by fastforce

lemma shared_step_frame:
  assumes "shared_step Q req dev meta s = Some s'"
  shows "na_allocated s' = na_allocated s" and "nr_groupState s' = markGroupState meta (nr_groupState s)"
    and "na_counterSets s' = na_counterSets s" and "na_usedExclusive s' = na_usedExclusive s"
  using assms by (auto simp: shared_step_def split: option.splits if_splits)

lemma allocateExclusive_frame:
  assumes "allocateExclusive Q req dev meta s = Some s'"
  shows "na_allocated s' = na_allocated s" and "nr_groupState s' = markGroupState meta (nr_groupState s)"
    and "na_counterSets s' = na_counterSets s" and "na_consumedTotals s' = na_consumedTotals s"
  using assms by (auto simp: allocateExclusive_def split: option.splits if_splits)

lemmas step_frames = shared_step_frame allocateExclusive_frame

lemma shared_loop_run:
  assumes "shared_loop Q req dev (meta_of M (cd_Key dev)) n s = (k, s')"
    and "admissible M B req dev s" and "ds_AllowMultipleAllocations (cd_Spec dev)"
    and "case mget (na_allocated s) (cd_Key dev) of None \<Rightarrow> True | Some info \<Rightarrow> \<not> ai_Exclusive info"
  shows "\<exists>m. m \<le> n \<and> k = int m \<and> alloc_run Q M B (replicate m (req, dev)) s s'"
  using assms
proof (induction n arbitrary: s k)
  case (Suc n)
  show ?case
  proof (cases "shared_step Q req dev (meta_of M (cd_Key dev)) s")
    case None
    then show ?thesis using Suc.prems(1) by auto
  next
    case (Some t)
    then obtain k' where loop: "shared_loop Q req dev (meta_of M (cd_Key dev)) n t = (k', s')" "k = k' + 1"
      using Suc.prems(1) by (auto split: prod.splits)
    have step: "alloc_step Q M B (req, dev) s t"
      using Suc.prems(2-4) Some by (rule alloc_step.shared)
    have "admissible M B req dev t"
      using Suc.prems(2) shared_step_frame(2)[OF Some] by (simp add: admissible_def conflicts_mark_self)
    then obtain m where m: "m \<le> n" "k' = int m" "alloc_run Q M B (replicate m (req, dev)) t s'"
      using Suc.IH[OF loop(1)] Suc.prems(3,4) shared_step_frame(1)[OF Some] by auto
    have "alloc_run Q M B ([(req, dev)] @ replicate m (req, dev)) s s'"
      using m(3) alloc_run_single[OF step] by (rule alloc_run_append)
    then show ?thesis
      using m loop(2) by (intro exI[of _ "Suc m"]) simp
  qed
qed simp

definition request_ok :: "'q Request \<Rightarrow> bool" where
  "request_ok req \<longleftrightarrow> 1 \<le> rq_Count req \<and> in64 (rq_Count req)"

lemma allocate_device_run:
  assumes "allocate_device Q M req dev c s = (c', s')" and "admissible M B req dev s"
  shows "\<exists>m. alloc_run Q M B (replicate m (req, dev)) s s' \<and>
    (request_ok req \<and> 0 \<le> c \<and> c < rq_Count req \<longrightarrow> c' = c + int m \<and> c' \<le> rq_Count req)"
proof (cases "ds_AllowMultipleAllocations (cd_Spec dev)")
  case True
  let ?meta = "meta_of M (cd_Key dev)"
  obtain k where k: "allocateShared Q req dev ?meta (sub64 (rq_Count req) c) s = (k, s')" "c' = add64 c k"
    using assms(1) True by (auto simp: allocate_device_def split: prod.splits)
  have "\<exists>m. alloc_run Q M B (replicate m (req, dev)) s s' \<and> k = int m \<and> m \<le> nat (sub64 (rq_Count req) c)"
  proof (cases "sub64 (rq_Count req) c \<le> 0 \<or>
      (case mget (na_allocated s) (cd_Key dev) of None \<Rightarrow> False | Some info \<Rightarrow> ai_Exclusive info)")
    case skip: True
    then have "k = 0" "s' = s"
      using k(1) by (auto simp: allocateShared_def split: if_splits)
    then show ?thesis by (intro exI[of _ 0]) simp
  next
    case False
    then have "shared_loop Q req dev ?meta (nat (sub64 (rq_Count req) c)) s = (k, s')"
      using k(1) by (simp add: allocateShared_def)
    moreover have "case mget (na_allocated s) (cd_Key dev) of None \<Rightarrow> True | Some info \<Rightarrow> \<not> ai_Exclusive info"
      using False by (simp split: option.splits)
    ultimately show ?thesis
      using shared_loop_run[OF _ assms(2) True] by blast
  qed
  then obtain m where m: "alloc_run Q M B (replicate m (req, dev)) s s'" "k = int m"
      "m \<le> nat (sub64 (rq_Count req) c)"
    by blast
  moreover have "c' = c + int m \<and> c' \<le> rq_Count req"
    if "request_ok req" "0 \<le> c" "c < rq_Count req"
  proof -
    have "sub64 (rq_Count req) c = rq_Count req - c"
      using that by (intro sub64_exact) (auto simp: request_ok_def in64_def)
    then have "int m \<le> rq_Count req - c"
      using m(3) that(3) by simp
    then show ?thesis
      using m(2) k(2) that by (simp add: add64_exact request_ok_def in64_def)
  qed
  ultimately show ?thesis by blast
next
  case False
  show ?thesis
  proof (cases "allocateExclusive Q req dev (meta_of M (cd_Key dev)) s")
    case None
    then show ?thesis
      using assms(1) False by (intro exI[of _ 0]) (auto simp: allocate_device_def)
  next
    case (Some t)
    then have "c' = add64 c 1" "s' = t"
      using assms(1) False by (auto simp: allocate_device_def)
    moreover have "alloc_run Q M B (replicate 1 (req, dev)) s t"
      using alloc_run_single[OF alloc_step.exclusive[OF assms(2) False Some]] by simp
    ultimately show ?thesis
      by (intro exI[of _ 1]) (auto simp: add64_exact request_ok_def in64_def)
  qed
qed

lemma device_loop_run:
  assumes "device_loop Q M B req devs c s = Inr (c', s')"
  shows "\<exists>ds. alloc_run Q M B (map (Pair req) ds) s s' \<and> set ds \<subseteq> set devs \<and>
    (request_ok req \<and> 0 \<le> c \<and> c < rq_Count req \<longrightarrow> c' = c + int (length ds) \<and> c' \<le> rq_Count req)"
  using assms
proof (induction devs arbitrary: c s)
  case Nil
  then show ?case by (intro exI[of _ "[]"]) auto
next
  case (Cons dev rest)
  show ?case
  proof (cases "admissible M B req dev s")
    case False
    then have "device_loop Q M B req rest c s = Inr (c', s')"
      using Cons.prems by (auto simp: admissible_def split: if_splits sum.splits bool.splits)
    then show ?thesis using Cons.IH by fastforce
  next
    case True
    obtain c1 t where t: "allocate_device Q M req dev c s = (c1, t)"
      by (cases "allocate_device Q M req dev c s") auto
    obtain m where m: "alloc_run Q M B (map (Pair req) (replicate m dev)) s t"
      "request_ok req \<and> 0 \<le> c \<and> c < rq_Count req \<longrightarrow> c1 = c + int m \<and> c1 \<le> rq_Count req"
      using allocate_device_run[OF t True] by auto
    have eq: "(if c1 \<ge> rq_Count req then Inr (c1, t) else device_loop Q M B req rest c1 t) = Inr (c', s')"
      using Cons.prems True t by (auto simp: admissible_def)
    show ?thesis
    proof (cases "c1 \<ge> rq_Count req")
      case True
      then show ?thesis
        using eq m by (intro exI[of _ "replicate m dev"]) auto
    next
      case False
      then obtain ds where ds: "alloc_run Q M B (map (Pair req) ds) t s'" "set ds \<subseteq> set rest"
        "request_ok req \<and> 0 \<le> c1 \<and> c1 < rq_Count req \<longrightarrow> c' = c1 + int (length ds) \<and> c' \<le> rq_Count req"
        using eq Cons.IH[of c1 t] by auto
      have "alloc_run Q M B (map (Pair req) (replicate m dev @ ds)) s s'"
        using alloc_run_append[OF ds(1) m(1)] by simp
      then show ?thesis
        using ds m(2) False by (intro exI[of _ "replicate m dev @ ds"]) auto
    qed
  qed
qed

lemma request_loop_run:
  assumes "request_loop Q M B devices reqs s = Inr (Some s')"
  shows "\<exists>tr. alloc_run Q M B tr s s' \<and> set tr \<subseteq> set reqs \<times> set devices \<and>
    ((\<forall>r \<in> set reqs. request_ok r) \<longrightarrow>
       map fst tr = concat (map (\<lambda>r. replicate (nat (rq_Count r)) r) reqs))"
  using assms
proof (induction reqs arbitrary: s)
  case (Cons req rest)
  obtain c t where t: "device_loop Q M B req devices 0 s = Inr (c, t)" "\<not> c < rq_Count req"
      "request_loop Q M B devices rest t = Inr (Some s')"
    using Cons.prems by (auto split: sum.splits if_splits)
  obtain ds where ds: "alloc_run Q M B (map (Pair req) ds) s t" "set ds \<subseteq> set devices"
      "request_ok req \<longrightarrow> c = int (length ds) \<and> c \<le> rq_Count req"
    using device_loop_run[OF t(1)] unfolding request_ok_def by force
  obtain tr where tr: "alloc_run Q M B tr t s'" "set tr \<subseteq> set rest \<times> set devices"
      "(\<forall>r \<in> set rest. request_ok r) \<longrightarrow>
         map fst tr = concat (map (\<lambda>r. replicate (nat (rq_Count r)) r) rest)"
    using Cons.IH[OF t(3)] by blast
  have "request_ok req \<longrightarrow> map fst (map (Pair req) ds) = replicate (nat (rq_Count req)) req"
    using ds(3) t(2) by (auto simp: comp_def map_replicate_const)
  then show ?case
    using alloc_run_append[OF tr(1) ds(1)] ds(2) tr(2,3)
    by (intro exI[of _ "map (Pair req) ds @ tr"]) auto
qed simp

lemma allocateOnNode_run:
  assumes "allocateOnNode Q nodeName devices requests allocated counterSets = Inr (Some alloc)"
  obtains tr s where
    "alloc_run Q (buildDeviceMeta devices) (initial_blocked devices allocated counterSets) tr
       (initial_run devices allocated counterSets) s"
    "ar_Devices alloc = nr_results s" "set tr \<subseteq> set requests \<times> set devices"
    "(\<forall>r \<in> set requests. request_ok r) \<longrightarrow>
       map fst tr = concat (map (\<lambda>r. replicate (nat (rq_Count r)) r) requests)"
proof -
  obtain s where s: "request_loop Q (buildDeviceMeta devices) (initial_blocked devices allocated counterSets)
      devices requests (initial_run devices allocated counterSets) = Inr (Some s)"
    and res: "ar_Devices alloc = nr_results s"
    using assms by (auto simp: allocateOnNode_def split: if_splits sum.splits option.splits)
  show ?thesis
    using request_loop_run[OF s] that[OF _ res] by blast
qed

end
