(* ===== verification/NodeSafety.thy ===== *)
theory NodeSafety
  imports NodeAllocation
begin

text \<open>
  Safety of the allocation on one node, as invariants of its runs: every request is answered with the
  devices it asks for, shared counters and capacities are not overcommitted, exclusive devices are
  handed out at most once, and a GPU is not handed out whole next to its MIG partitions.
\<close>

section \<open>Results\<close>

definition result_key :: "'q AllocatedDevice \<Rightarrow> DeviceKey" where
  "result_key r = \<lparr> dk_Driver = ad_Driver r, dk_Pool = ad_Pool r, dk_Device = ad_Device r \<rparr>"

text \<open>
  Well-formed candidates, as \<open>BuildCandidates\<close> produces them from valid resource slices: the key of
  a device is its driver, pool and name, and no two devices share a key.
\<close>

definition candidates_wf :: "CandidateDevice list \<Rightarrow> bool" where
  "candidates_wf devices \<longleftrightarrow> distinct (map cd_Key devices) \<and>
     (\<forall>d \<in> set devices. cd_Key d =
        \<lparr> dk_Driver = cd_Driver d, dk_Pool = cd_Pool d, dk_Device = ds_Name (cd_Spec d) \<rparr>)"

definition result_for :: "'q Request \<times> CandidateDevice \<Rightarrow> 'q AllocatedDevice \<Rightarrow> bool" where
  "result_for a r \<longleftrightarrow> ad_Request r = rq_Name (fst a) \<and> ad_Driver r = cd_Driver (snd a)
     \<and> ad_Pool r = cd_Pool (snd a) \<and> ad_Device r = ds_Name (cd_Spec (snd a))"

lemma alloc_step_results:
  assumes "alloc_step Q M B a s t"
  shows "\<exists>r. nr_results t = nr_results s @ [r] \<and> result_for a r"
  using assms
  by (cases rule: alloc_step.cases)
     (auto simp: shared_step_def allocateExclusive_def result_for_def new_result_def
       split: option.splits if_splits)

lemma alloc_run_results:
  assumes "alloc_run Q M B tr s t"
  shows "\<exists>rs. nr_results t = nr_results s @ rs \<and> list_all2 result_for tr rs"
  using assms
proof (induction rule: alloc_run.induct)
  case (run_snoc tr s t a u)
  then obtain rs where "nr_results t = nr_results s @ rs" "list_all2 result_for tr rs" by blast
  moreover obtain r where "nr_results u = nr_results t @ [r]" "result_for a r"
    using alloc_step_results[OF run_snoc.hyps(2)] by blast
  ultimately show ?case
    by (intro exI[of _ "rs @ [r]"]) (auto intro: list_all2_appendI)
qed simp

lemma alloc_step_admissible: "alloc_step Q M B a s t \<Longrightarrow> admissible M B (fst a) (snd a) s"
  by (cases rule: alloc_step.cases) auto

lemma alloc_run_selected:
  "alloc_run Q M B tr s t \<Longrightarrow> (req, dev) \<in> set tr \<Longrightarrow>
   \<not> counterSetBlocked (ds_Consumes (cd_Spec dev)) B \<and>
   matchesDevice (cd_Driver dev) (cd_Spec dev) (rq_Selectors req) = Inr True"
  by (induction rule: alloc_run.induct) (auto simp: admissible_def dest: alloc_step_admissible)

lemma initial_run_results [simp]: "nr_results (initial_run devices allocated counterSets) = []"
  by (simp add: initial_run_def split: prod.split)

lemma list_all2_result_requests:
  "list_all2 result_for tr rs \<Longrightarrow> map ad_Request rs = map (rq_Name \<circ> fst) tr"
  by (induction rule: list_all2_induct) (auto simp: result_for_def)

lemma allocateOnNode_NodeName:
  "allocateOnNode Q nodeName devices requests allocated counterSets = Inr (Some alloc) \<Longrightarrow>
   ar_NodeName alloc = nodeName \<and> ar_NodeSelector alloc = Some nodeName"
  by (auto simp: allocateOnNode_def split: if_splits sum.splits option.splits)

text \<open>
  \<^bold>\<open>C6.\<close> A successful allocation on a node answers every request in order with exactly as many devices
  as the request asks for, and each of these devices is a candidate of the node for which all the
  selectors of its request hold.
\<close>

theorem allocateOnNode_counts:
  assumes "allocateOnNode Q nodeName devices requests allocated counterSets = Inr (Some alloc)"
    and "list_all request_ok requests"
  shows "map ad_Request (ar_Devices alloc) =
      concat (map (\<lambda>r. replicate (nat (rq_Count r)) (rq_Name r)) requests)
    \<and> list_all (\<lambda>res. \<exists>req \<in> set requests. \<exists>dev \<in> set devices. result_for (req, dev) res
        \<and> matchesDevice (cd_Driver dev) (cd_Spec dev) (rq_Selectors req) = Inr True) (ar_Devices alloc)"
proof -
  obtain tr s where run: "alloc_run Q (buildDeviceMeta devices) (initial_blocked devices allocated counterSets) tr
       (initial_run devices allocated counterSets) s"
    and res: "ar_Devices alloc = nr_results s" and sub: "set tr \<subseteq> set requests \<times> set devices"
    and fsts: "map fst tr = concat (map (\<lambda>r. replicate (nat (rq_Count r)) r) requests)"
    using allocateOnNode_run[OF assms(1)] assms(2) by (auto simp: list_all_iff)
  obtain rs where rs: "nr_results s = rs" "list_all2 result_for tr rs"
    using alloc_run_results[OF run] by auto
  have "map ad_Request rs = map rq_Name (map fst tr)"
    using list_all2_result_requests[OF rs(2)] by (simp add: comp_def)
  then have "map ad_Request rs = concat (map (\<lambda>r. replicate (nat (rq_Count r)) (rq_Name r)) requests)"
    by (simp add: fsts map_concat comp_def)
  moreover have "\<exists>req \<in> set requests. \<exists>dev \<in> set devices. result_for (req, dev) r
      \<and> matchesDevice (cd_Driver dev) (cd_Spec dev) (rq_Selectors req) = Inr True" if r: "r \<in> set rs" for r
  proof -
    obtain a where a: "a \<in> set tr" "result_for a r"
      using list_all2_right[OF rs(2) r] by blast
    obtain req dev where eq: "a = (req, dev)" by (cases a)
    then have "req \<in> set requests" "dev \<in> set devices"
      using a(1) sub by auto
    then show ?thesis
      using a eq alloc_run_selected[OF run, of req dev] by blast
  qed
  ultimately show ?thesis by (simp add: res rs(1) list_all_iff)
qed

section \<open>Shared counters\<close>

definition demand_of :: "CandidateDevice list \<Rightarrow> DeviceKey \<Rightarrow> string \<times> string \<Rightarrow> int64" where
  "demand_of devices key i =
     (case mget (indexDevices devices) key of
        None \<Rightarrow> 0 | Some d \<Rightarrow> counter_demand (ds_Consumes (cd_Spec d)) i)"

lemma indexDevices_loop_other:
  "key \<notin> cd_Key ` set devices \<Longrightarrow> mget (indexDevices_loop index devices) key = mget index key"
  by (induction index devices rule: indexDevices_loop.induct) auto

lemma indexDevices_loop_get:
  "distinct (map cd_Key devices) \<Longrightarrow> dev \<in> set devices \<Longrightarrow>
   mget (indexDevices_loop index devices) (cd_Key dev) = Some dev"
  by (induction index devices rule: indexDevices_loop.induct) (auto simp: indexDevices_loop_other)

lemma indexDevices_get:
  "distinct (map cd_Key devices) \<Longrightarrow> dev \<in> set devices \<Longrightarrow> mget (indexDevices devices) (cd_Key dev) = Some dev"
  by (simp add: indexDevices_def indexDevices_loop_get)

lemma indexDevices_loop_in:
  "mget (indexDevices_loop index devices) key = Some d \<Longrightarrow> mget index key = Some d \<or> d \<in> set devices"
  by (induction index devices rule: indexDevices_loop.induct) (auto split: if_splits)

lemma indexDevices_in: "mget (indexDevices devices) key = Some d \<Longrightarrow> d \<in> set devices"
  using indexDevices_loop_in[of "[]"] by (auto simp: indexDevices_def)

lemma result_key_for:
  assumes "candidates_wf devices" and "snd a \<in> set devices" and "result_for a r"
  shows "result_key r = cd_Key (snd a)"
  using assms by (auto simp: candidates_wf_def result_for_def result_key_def)

subsection \<open>The counters consumed before the run\<close>

lemma buildCounterState_blocked_mono:
  "set blocked \<subseteq> set (snd (buildCounterState allocated index counterSets (cc, blocked)))"
proof (induction allocated arbitrary: cc blocked)
  case (Cons a rest)
  obtain key info where a: "a = (key, info)" by (cases a)
  have "set blocked \<subseteq> set (blockCounterSets blocked consumes)" for consumes
    by (auto simp: set_blockCounterSets)
  then show ?case
    using Cons a by (auto simp: Let_def split: option.splits) (meson subsetD)+
qed simp

lemma buildCounterState_used:
  assumes "buildCounterState allocated index counterSets (cc, blocked) = (cc', blocked')"
    and "available_sane counterSets" and "consumed_within counterSets cc"
    and "\<And>k d. mget index k = Some d \<Longrightarrow> consumes_sane (ds_Consumes (cd_Spec d))"
  shows "consumed_within counterSets cc' \<and>
    (s \<noteq> [] \<longrightarrow> s \<notin> set blocked' \<longrightarrow>
      counter_used cc' (s, c) = counter_used cc (s, c) +
        (\<Sum>a\<leftarrow>allocated. case mget index (fst a) of
            None \<Rightarrow> 0 | Some d \<Rightarrow> counter_demand (ds_Consumes (cd_Spec d)) (s, c)))"
  using assms(1,3)
proof (induction allocated arbitrary: cc blocked)
  case (Cons a rest)
  obtain key info where a: "a = (key, info)" by (cases a)
  show ?case
  proof (cases "mget index key")
    case None
    then show ?thesis using Cons a by simp
  next
    case (Some d)
    define consumes where "consumes = ds_Consumes (cd_Spec d)"
    have sane: "consumes_sane consumes"
      using assms(4)[OF Some] by (simp add: consumes_def)
    show ?thesis
    proof (cases "consumes = []")
      case True
      then show ?thesis
        using Cons a Some by (simp add: consumes_def counter_demand_def)
    next
      case ne: False
      show ?thesis
      proof (cases "if counterSets = [] then None else consumeCounters cc counterSets consumes")
        case None
        then have rest: "buildCounterState rest index counterSets (cc, blockCounterSets blocked consumes) = (cc', blocked')"
          using Cons.prems(1) a Some ne by (auto simp: consumes_def Let_def split: if_splits)
        then have "set (blockCounterSets blocked consumes) \<subseteq> set blocked'"
          using buildCounterState_blocked_mono[of "blockCounterSets blocked consumes" rest index counterSets cc] by simp
        then have "counter_demand consumes (s, c) = 0" if "s \<noteq> []" "s \<notin> set blocked'"
          using that by (intro counter_demand_other) (auto simp: set_blockCounterSets)
        then show ?thesis
          using Cons.IH[OF rest Cons.prems(2)] a Some by (simp add: consumes_def)
      next
        case step: (Some cc1)
        then have rest: "buildCounterState rest index counterSets (cc1, blocked) = (cc', blocked')"
          and consume: "consumeCounters cc counterSets consumes = Some cc1"
          using Cons.prems(1) a Some ne by (auto simp: consumes_def Let_def split: if_splits)
        note cc1 = consumeCounters_correct[OF consume sane assms(2) Cons.prems(2)]
        show ?thesis
          using Cons.IH[OF rest cc1(1)] cc1(2)[of "(s, c)"] a Some by (simp add: consumes_def)
      qed
    qed
  qed
qed simp

lemma initial_counters:
  assumes "available_sane counterSets" and "\<forall>d \<in> set devices. consumes_sane (ds_Consumes (cd_Spec d))"
  shows "consumed_within counterSets (na_consumedCounters (initial_run devices allocated counterSets))"
    and "s \<noteq> [] \<Longrightarrow> s \<notin> set (initial_blocked devices allocated counterSets) \<Longrightarrow>
      counter_used (na_consumedCounters (initial_run devices allocated counterSets)) (s, c) =
        (\<Sum>a\<leftarrow>allocated. demand_of devices (fst a) (s, c))"
proof -
  obtain cc blocked where st: "buildCounterState allocated (indexDevices devices) counterSets ([], []) = (cc, blocked)"
    by (cases "buildCounterState allocated (indexDevices devices) counterSets ([], [])")
  have emp: "consumed_within counterSets []"
    by (simp add: consumed_within_def consumed_of_def)
  have "\<And>k d. mget (indexDevices devices) k = Some d \<Longrightarrow> consumes_sane (ds_Consumes (cd_Spec d))"
    using assms(2) indexDevices_in by blast
  note used = buildCounterState_used[OF st assms(1) emp this]
  have cc: "na_consumedCounters (initial_run devices allocated counterSets) = cc"
    by (simp add: initial_run_def st split: prod.split)
  show "consumed_within counterSets (na_consumedCounters (initial_run devices allocated counterSets))"
    using used cc by simp
  show "s \<noteq> [] \<Longrightarrow> s \<notin> set (initial_blocked devices allocated counterSets) \<Longrightarrow>
      counter_used (na_consumedCounters (initial_run devices allocated counterSets)) (s, c) =
        (\<Sum>a\<leftarrow>allocated. demand_of devices (fst a) (s, c))"
    using used cc by (simp add: initial_blocked_def st demand_of_def counter_used_def consumed_of_def counter_value_def)
qed

subsection \<open>A run charges the counter ledger once per result\<close>

lemma draw_counters_charge:
  "draw_counters cc counterSets consumes = Some cc' \<Longrightarrow>
   charge_counters consumes (counterSets, cc) = Some (counterSets, cc')"
  by (auto simp: draw_counters_def charge_counters_def consumeCounters_def split: if_splits)

lemma alloc_step_charge:
  assumes "alloc_step Q M B a s t"
  shows "charge_counters (ds_Consumes (cd_Spec (snd a))) (na_counterSets s, na_consumedCounters s) =
    Some (na_counterSets t, na_consumedCounters t)"
  using assms
  by (cases rule: alloc_step.cases)
     (auto simp: shared_step_def allocateExclusive_def intro: draw_counters_charge
       split: option.splits if_splits)

lemma alloc_run_charge:
  assumes "alloc_run Q M B tr s t"
  shows "charge_all charge_counters (map (\<lambda>a. ds_Consumes (cd_Spec (snd a))) tr)
      (na_counterSets s, na_consumedCounters s) = Some (na_counterSets t, na_consumedCounters t)"
  using assms
proof (induction rule: alloc_run.induct)
  case (run_snoc tr s t a u)
  then show ?case
    by (simp add: charge_all_snoc alloc_step_charge)
qed simp

lemma sum_list_all2:
  "list_all2 P xs ys \<Longrightarrow> (\<And>x y. x \<in> set xs \<Longrightarrow> P x y \<Longrightarrow> f x = g y) \<Longrightarrow>
   (\<Sum>x\<leftarrow>xs. f x) = (\<Sum>y\<leftarrow>ys. (g y :: int))"
  by (induction rule: list_all2_induct) auto

lemma allocation_counters:
  assumes "allocateOnNode Q nodeName devices requests allocated counterSets = Inr (Some alloc)"
    and wf: "candidates_wf devices" and sane: "available_sane counterSets"
    and consumes: "\<forall>d \<in> set devices. consumes_sane (ds_Consumes (cd_Spec d))"
    and r: "r \<in> set (ar_Devices alloc)" and d: "mget (indexDevices devices) (result_key r) = Some d"
    and s: "s \<in> cc_CounterSet ` set (ds_Consumes (cd_Spec d))"
  shows "(\<Sum>a\<leftarrow>allocated. demand_of devices (fst a) (s, c))
      + (\<Sum>x\<leftarrow>ar_Devices alloc. demand_of devices (result_key x) (s, c)) \<le> counter_limit counterSets (s, c)"
proof -
  let ?s0 = "initial_run devices allocated counterSets"
  let ?B = "initial_blocked devices allocated counterSets"
  obtain tr t where run: "alloc_run Q (buildDeviceMeta devices) ?B tr ?s0 t"
    and res: "ar_Devices alloc = nr_results t" and sub: "set tr \<subseteq> set requests \<times> set devices"
    and "(\<forall>r \<in> set requests. request_ok r) \<longrightarrow>
       map fst tr = concat (map (\<lambda>r. replicate (nat (rq_Count r)) r) requests)"
    by (rule allocateOnNode_run[OF assms(1)])
  have rs: "list_all2 result_for tr (ar_Devices alloc)"
    using alloc_run_results[OF run] res by auto
  have dist: "distinct (map cd_Key devices)" using wf by (simp add: candidates_wf_def)
  have key: "mget (indexDevices devices) (result_key y) = Some (snd x)" if "x \<in> set tr" "result_for x y" for x y
    using that sub result_key_for[OF wf _ that(2)] indexDevices_get[OF dist] by fastforce
  obtain x where x: "x \<in> set tr" "result_for x r"
    using list_all2_right[OF rs r] by blast
  then have "\<not> counterSetBlocked (ds_Consumes (cd_Spec d)) ?B"
    using alloc_run_selected[OF run, of "fst x" "snd x"] key[OF x] d by simp
  then have free: "s \<noteq> []" "s \<notin> set ?B"
    using s by (auto simp: counterSetBlocked_def list_ex_iff)
  have cs: "na_counterSets ?s0 = counterSets"
    by (simp add: initial_run_def split: prod.split)
  have inv: "counter_ledger_inv (counterSets, na_consumedCounters ?s0)"
    using initial_counters(1)[OF sane consumes] sane by (simp add: counter_ledger_inv_def)
  have ok: "consumes_sane k" if "k \<in> set (map (\<lambda>a. ds_Consumes (cd_Spec (snd a))) tr)" for k
    using that sub consumes by auto
  have "counter_used (na_consumedCounters ?s0) (s, c)
      + (\<Sum>k\<leftarrow>map (\<lambda>a. ds_Consumes (cd_Spec (snd a))) tr. counter_demand k (s, c))
      \<le> counter_limit counterSets (s, c)"
    using counters.charge_all_within[OF alloc_run_charge[OF run] _ ok, of "(s, c)"] inv cs by simp
  moreover have "(\<Sum>x\<leftarrow>tr. counter_demand (ds_Consumes (cd_Spec (snd x))) (s, c)) =
      (\<Sum>y\<leftarrow>ar_Devices alloc. demand_of devices (result_key y) (s, c))"
    using rs by (rule sum_list_all2) (simp add: demand_of_def key)
  ultimately show ?thesis
    using initial_counters(2)[OF sane consumes free] by (simp add: comp_def)
qed

text \<open>
  \<^bold>\<open>C1.\<close> Shared counters are never overcommitted: if a successful allocation hands out a device that
  draws on a counter set, then for every counter of that set the demands of all devices allocated
  before and of all devices handed out now sum up to at most what the set offers.
\<close>

theorem allocateOnNode_counters:
  assumes "allocateOnNode Q nodeName devices requests allocated counterSets = Inr (Some alloc)"
    and wf: "candidates_wf devices" and sane: "available_sane counterSets"
    and consumes: "\<forall>d \<in> set devices. consumes_sane (ds_Consumes (cd_Spec d))"
    and r: "r \<in> set (ar_Devices alloc)" and d: "mget (indexDevices devices) (result_key r) = Some d"
    and s: "s \<in> cc_CounterSet ` set (ds_Consumes (cd_Spec d))"
  shows "(\<Sum>a\<leftarrow>allocated. demand_of devices (fst a) (s, c))
      + (\<Sum>x\<leftarrow>ar_Devices alloc. demand_of devices (result_key x) (s, c)) \<le> counter_limit counterSets (s, c)"
  by (rule allocation_counters[OF assms])

section \<open>Exclusive devices\<close>

definition exclusive_key :: "CandidateDevice list \<Rightarrow> DeviceKey \<Rightarrow> bool" where
  "exclusive_key devices key =
     (case mget (indexDevices devices) key of
        None \<Rightarrow> True | Some d \<Rightarrow> \<not> ds_AllowMultipleAllocations (cd_Spec d))"

lemma alloc_step_allocated: "alloc_step Q M B a s t \<Longrightarrow> na_allocated t = na_allocated s"
  by (cases rule: alloc_step.cases) (auto dest: step_frames)

lemma alloc_run_allocated: "alloc_run Q M B tr s t \<Longrightarrow> na_allocated t = na_allocated s"
  by (induction rule: alloc_run.induct) (auto dest: alloc_step_allocated)

lemma alloc_step_exclusive:
  assumes "alloc_step Q M B a s t"
  shows "set (na_usedExclusive s) \<subseteq> set (na_usedExclusive t)"
    and "\<not> ds_AllowMultipleAllocations (cd_Spec (snd a)) \<Longrightarrow>
      cd_Key (snd a) \<in> set (na_usedExclusive t) \<and> cd_Key (snd a) \<notin> set (na_usedExclusive s)
      \<and> mget (na_allocated s) (cd_Key (snd a)) = None"
    and "ds_AllowMultipleAllocations (cd_Spec (snd a)) \<Longrightarrow> mget (na_allocated s) (cd_Key (snd a)) = Some info \<Longrightarrow>
      \<not> ai_Exclusive info"
  using assms
  by (cases rule: alloc_step.cases;
      auto simp: shared_step_def allocateExclusive_def split: option.splits if_splits)+

definition exclusive_keys :: "('q Request \<times> CandidateDevice) list \<Rightarrow> DeviceKey list" where
  "exclusive_keys tr = map cd_Key (filter (\<lambda>d. \<not> ds_AllowMultipleAllocations (cd_Spec d)) (map snd tr))"

lemma exclusive_keys_simps [simp]:
  "exclusive_keys [] = []"
  "exclusive_keys (tr @ [a]) = exclusive_keys tr
     @ (if ds_AllowMultipleAllocations (cd_Spec (snd a)) then [] else [cd_Key (snd a)])"
  by (simp_all add: exclusive_keys_def)

lemma alloc_run_exclusive:
  assumes "alloc_run Q M B tr s t"
  shows "distinct (exclusive_keys tr) \<and> set (na_usedExclusive s) \<subseteq> set (na_usedExclusive t)
    \<and> set (exclusive_keys tr) \<subseteq> set (na_usedExclusive t)
    \<and> (\<forall>a \<in> set tr. case mget (na_allocated s) (cd_Key (snd a)) of
          None \<Rightarrow> True | Some info \<Rightarrow> ds_AllowMultipleAllocations (cd_Spec (snd a)) \<and> \<not> ai_Exclusive info)"
  using assms
proof (induction rule: alloc_run.induct)
  case (run_snoc tr s t a u)
  note e = alloc_step_exclusive[OF run_snoc.hyps(2)]
  have "case mget (na_allocated s) (cd_Key (snd a)) of
      None \<Rightarrow> True | Some info \<Rightarrow> ds_AllowMultipleAllocations (cd_Spec (snd a)) \<and> \<not> ai_Exclusive info"
    using e(2,3) alloc_run_allocated[OF run_snoc.hyps(1)]
    by (cases "ds_AllowMultipleAllocations (cd_Spec (snd a))") (auto split: option.split)
  moreover have "distinct (exclusive_keys (tr @ [a]))" "set (exclusive_keys (tr @ [a])) \<subseteq> set (na_usedExclusive u)"
    using run_snoc.IH e(1,2) by auto
  ultimately show ?case
    using run_snoc.IH e(1) by auto
qed simp

lemma result_keys:
  assumes "list_all2 result_for tr rs" and "candidates_wf devices" and "snd ` set tr \<subseteq> set devices"
  shows "map result_key rs = map (cd_Key \<circ> snd) tr"
  using assms
  by (induction rule: list_all2_induct) (auto simp: result_key_for)

lemma exclusive_key_iff:
  assumes "candidates_wf devices" and "d \<in> set devices"
  shows "exclusive_key devices (cd_Key d) \<longleftrightarrow> \<not> ds_AllowMultipleAllocations (cd_Spec d)"
proof -
  have "mget (indexDevices devices) (cd_Key d) = Some d"
    using assms by (intro indexDevices_get) (simp_all add: candidates_wf_def)
  then show ?thesis by (simp add: exclusive_key_def)
qed

lemma exclusive_keys_filter:
  assumes "candidates_wf devices" and "snd ` set tr \<subseteq> set devices"
  shows "filter (exclusive_key devices) (map (cd_Key \<circ> snd) tr) = exclusive_keys tr"
  using assms
  by (induction tr) (auto simp: exclusive_keys_def exclusive_key_iff)

lemma allocateOnNode_held:
  assumes "allocateOnNode Q nodeName devices requests allocated counterSets = Inr (Some alloc)"
    and wf: "candidates_wf devices"
  shows "filter (exclusive_key devices) (map result_key (ar_Devices alloc)) = xs \<Longrightarrow> distinct xs"
    and "r \<in> set (ar_Devices alloc) \<Longrightarrow> mget allocated (result_key r) = Some info \<Longrightarrow>
      \<not> exclusive_key devices (result_key r) \<and> \<not> ai_Exclusive info"
proof -
  let ?s0 = "initial_run devices allocated counterSets"
  let ?B = "initial_blocked devices allocated counterSets"
  obtain tr t where run: "alloc_run Q (buildDeviceMeta devices) ?B tr ?s0 t"
    and res: "ar_Devices alloc = nr_results t" and sub: "set tr \<subseteq> set requests \<times> set devices"
    and "(\<forall>r \<in> set requests. request_ok r) \<longrightarrow>
       map fst tr = concat (map (\<lambda>r. replicate (nat (rq_Count r)) r) requests)"
    by (rule allocateOnNode_run[OF assms(1)])
  have rs: "list_all2 result_for tr (ar_Devices alloc)"
    using alloc_run_results[OF run] res by auto
  have snd: "snd ` set tr \<subseteq> set devices" using sub by auto
  have al: "na_allocated ?s0 = allocated"
    by (simp add: initial_run_def split: prod.split)
  note ex = alloc_run_exclusive[OF run, unfolded al]
  have "filter (exclusive_key devices) (map result_key (ar_Devices alloc)) = exclusive_keys tr"
    by (simp only: result_keys[OF rs wf snd] exclusive_keys_filter[OF wf snd])
  then show "filter (exclusive_key devices) (map result_key (ar_Devices alloc)) = xs \<Longrightarrow> distinct xs"
    using ex by simp
  assume r: "r \<in> set (ar_Devices alloc)" and info: "mget allocated (result_key r) = Some info"
  obtain x where x: "x \<in> set tr" "result_for x r"
    using list_all2_right[OF rs r] by blast
  then have d: "snd x \<in> set devices" and k: "result_key r = cd_Key (snd x)"
    using snd result_key_for[OF wf _ x(2)] by auto
  then show "\<not> exclusive_key devices (result_key r) \<and> \<not> ai_Exclusive info"
    using ex x(1) info by (auto simp: exclusive_key_iff[OF wf d])
qed

text \<open>
  \<^bold>\<open>C3.\<close> Exclusive devices are handed out at most once: in a successful allocation no device that
  forbids multiple allocations occurs twice, none of them was allocated before, and a device that
  allows them is never handed out while it is held exclusively.
\<close>

theorem allocateOnNode_exclusive:
  assumes "allocateOnNode Q nodeName devices requests allocated counterSets = Inr (Some alloc)"
    and "candidates_wf devices"
  shows "distinct (filter (exclusive_key devices) (map result_key (ar_Devices alloc)))
    \<and> (\<forall>r \<in> set (ar_Devices alloc).
        case mget allocated (result_key r) of None \<Rightarrow> True
        | Some info \<Rightarrow> \<not> exclusive_key devices (result_key r) \<and> \<not> ai_Exclusive info)"
  using allocateOnNode_held[OF assms] by (auto split: option.split)

section \<open>Whole GPUs and MIG partitions\<close>

definition keys_clash :: "CandidateDevice list \<Rightarrow> DeviceKey \<Rightarrow> DeviceKey \<Rightarrow> bool" where
  "keys_clash devices k1 k2 \<longleftrightarrow>
     meta_clash (meta_of (buildDeviceMeta devices) k1) (meta_of (buildDeviceMeta devices) k2)"

lemma alloc_step_group:
  assumes "alloc_step Q M B a s t"
  shows "nr_groupState t = markGroupState (meta_of M (cd_Key (snd a))) (nr_groupState s)"
  using assms by (cases rule: alloc_step.cases) (auto dest: step_frames)

lemma alloc_run_group:
  assumes "alloc_run Q M B tr s t"
  shows "(\<forall>m. group_records (nr_groupState s) m \<longrightarrow> group_records (nr_groupState t) m
        \<and> (\<forall>a \<in> set tr. \<not> meta_clash (meta_of M (cd_Key (snd a))) m))
    \<and> (\<forall>a \<in> set tr. group_records (nr_groupState t) (meta_of M (cd_Key (snd a))))
    \<and> (\<forall>a \<in> set tr. \<forall>b \<in> set tr. \<not> meta_clash (meta_of M (cd_Key (snd a))) (meta_of M (cd_Key (snd b))))"
  using assms
proof (induction rule: alloc_run.induct)
  case (run_snoc tr s t a u)
  let ?m = "meta_of M (cd_Key (snd a))"
  have free: "\<not> conflictsWithGroup ?m (nr_groupState t)"
    using alloc_step_admissible[OF run_snoc.hyps(2)] by (simp add: admissible_def)
  then have new: "\<not> meta_clash ?m x" if "group_records (nr_groupState t) x" for x
    using that no_conflict_no_clash by blast
  have self: "\<not> meta_clash ?m ?m" by (auto simp: meta_clash_def)
  have u: "group_records (nr_groupState u) ?m"
      "group_records (nr_groupState t) x \<Longrightarrow> group_records (nr_groupState u) x" for x
    by (simp_all add: alloc_step_group[OF run_snoc.hyps(2)] group_records_mark_self group_records_mark_mono)
  have "\<not> meta_clash (meta_of M (cd_Key (snd x))) (meta_of M (cd_Key (snd y)))"
    if "x \<in> set (tr @ [a])" "y \<in> set (tr @ [a])" for x y
    using that run_snoc.IH new self meta_clash_sym[of ?m] by (metis rotate1.simps(2) set_ConsD set_rotate1)
  moreover have "group_records (nr_groupState u) (meta_of M (cd_Key (snd x)))" if "x \<in> set (tr @ [a])" for x
    using that run_snoc.IH u by (metis rotate1.simps(2) set_ConsD set_rotate1)
  moreover have "group_records (nr_groupState u) m" "x \<in> set (tr @ [a]) \<Longrightarrow> \<not> meta_clash (meta_of M (cd_Key (snd x))) m"
    if "group_records (nr_groupState s) m" for x m
    using that run_snoc.IH u(2) new by (blast, metis rotate1.simps(2) set_ConsD set_rotate1)
  ultimately show ?case by blast
qed auto

text \<open>
  \<^bold>\<open>C4.\<close> A GPU is never handed out whole next to its MIG partitions: no two devices of a successful
  allocation, and no such device and a device allocated before, are a whole GPU and a partition of the
  same physical GPU.
\<close>

theorem allocateOnNode_no_clash:
  assumes "allocateOnNode Q nodeName devices requests allocated counterSets = Inr (Some alloc)"
    and wf: "candidates_wf devices" and r: "r \<in> set (ar_Devices alloc)"
    and k: "k \<in> set (mkeys allocated) \<union> result_key ` set (ar_Devices alloc)"
  shows "\<not> keys_clash devices (result_key r) k"
proof -
  let ?M = "buildDeviceMeta devices"
  let ?s0 = "initial_run devices allocated counterSets"
  let ?B = "initial_blocked devices allocated counterSets"
  obtain tr t where run: "alloc_run Q ?M ?B tr ?s0 t"
    and res: "ar_Devices alloc = nr_results t" and sub: "set tr \<subseteq> set requests \<times> set devices"
    and "(\<forall>r \<in> set requests. request_ok r) \<longrightarrow>
       map fst tr = concat (map (\<lambda>r. replicate (nat (rq_Count r)) r) requests)"
    by (rule allocateOnNode_run[OF assms(1)])
  have rs: "list_all2 result_for tr (ar_Devices alloc)"
    using alloc_run_results[OF run] res by auto
  have snd: "snd ` set tr \<subseteq> set devices" using sub by auto
  have "set (map result_key (ar_Devices alloc)) = set (map (cd_Key \<circ> snd) tr)"
    by (simp only: result_keys[OF rs wf snd])
  then have keys: "result_key ` set (ar_Devices alloc) = cd_Key ` snd ` set tr"
    by (simp add: image_comp)
  then obtain a where a: "a \<in> set tr" "result_key r = cd_Key (snd a)"
    using r by blast
  note g = alloc_run_group[OF run]
  have grp: "nr_groupState ?s0 = buildGroupState ?M allocated []"
    by (simp add: initial_run_def split: prod.split)
  have "group_records (nr_groupState ?s0) (meta_of ?M k)" if "k \<in> set (mkeys allocated)"
  proof (cases "mget ?M k")
    case None
    then show ?thesis by (simp add: meta_of_def group_records_def)
  next
    case (Some m)
    then show ?thesis
      using that buildGroupState_records[of k _ allocated ?M m "[]"] by (auto simp: grp meta_of_def)
  qed
  then show ?thesis
    using g a k keys by (auto simp: keys_clash_def)
qed

section \<open>Capacity of shared devices\<close>

lemma buildCapacityState_totals:
  "mwf allocated \<Longrightarrow>
   totals_of (snd (buildCapacityState allocated (used, totals))) key =
     (case mget allocated key of None \<Rightarrow> totals_of totals key
      | Some info \<Rightarrow> if ai_ConsumedCapacity info = [] then totals_of totals key else ai_ConsumedCapacity info)"
proof (induction allocated arbitrary: used totals)
  case (Cons a rest)
  obtain k info where a: "a = (k, info)" by (cases a)
  have none: "mget rest k = None"
    using Cons.prems a by (simp add: map_of_eq_None_iff)
  show ?case
    using Cons.IH Cons.prems none by (auto simp: a totals_of_def split: option.splits)
qed simp

lemma initial_totals:
  "mwf allocated \<Longrightarrow>
   totals_of (na_consumedTotals (initial_run devices allocated counterSets)) key =
     (case mget allocated key of None \<Rightarrow> [] | Some info \<Rightarrow> ai_ConsumedCapacity info)"
  using buildCapacityState_totals[of allocated "[]" "[]" key]
  by (auto simp: initial_run_def totals_of_def split: prod.splits option.splits if_splits)

definition consumed_by :: "DeviceKey \<Rightarrow> 'q AllocatedDevice list \<Rightarrow> (string, 'q) gomap list" where
  "consumed_by key rs = map ad_ConsumedCapacity (filter (\<lambda>r. result_key r = key) rs)"

lemma consumed_by_snoc [simp]:
  "consumed_by key [] = []"
  "consumed_by key (rs @ [r]) =
     consumed_by key rs @ (if result_key r = key then [ad_ConsumedCapacity r] else [])"
  by (simp_all add: consumed_by_def)

text \<open>One step charges the device it hands out, and no other.\<close>

lemma alloc_step_capacity:
  assumes step: "alloc_step Q M B (req, dev) s t" and wf: "candidates_wf devices" and dev: "dev \<in> set devices"
    and d: "d \<in> set devices" "ds_AllowMultipleAllocations (cd_Spec d)"
  shows "\<exists>r. nr_results t = nr_results s @ [r] \<and>
    (if result_key r = cd_Key d
     then dev = d \<and> computeConsumedCapacity Q (rq_Capacity req) (ds_Capacity (cd_Spec d)) = Some (ad_ConsumedCapacity r)
       \<and> charge_capacity (ad_ConsumedCapacity r)
            (Q, ds_Capacity (cd_Spec d), totals_of (na_consumedTotals s) (cd_Key d)) =
          Some (Q, ds_Capacity (cd_Spec d), totals_of (na_consumedTotals t) (cd_Key d))
     else totals_of (na_consumedTotals t) (cd_Key d) = totals_of (na_consumedTotals s) (cd_Key d))"
proof -
  have same: "dev = d" if "cd_Key dev = cd_Key d"
    using that wf dev d(1) unfolding candidates_wf_def distinct_map by (metis inj_onD)
  have key: "result_key (new_result req dev c) = cd_Key dev" for c :: "(string, 'a) gomap"
    using wf dev by (simp add: candidates_wf_def result_key_def new_result_def)
  from step show ?thesis
  proof (cases rule: alloc_stepE[consumes 1, case_names sh ex])
    case sh
    from sh(4) obtain consumed cc where s:
      "computeConsumedCapacity Q (rq_Capacity req) (ds_Capacity (cd_Spec dev)) = Some consumed"
      "fitsCapacity Q (totals_of (na_consumedTotals s) (cd_Key dev)) consumed (ds_Capacity (cd_Spec dev))"
      "nr_results t = nr_results s @ [new_result req dev consumed]"
      "na_consumedTotals t = mput (cd_Key dev)
         (addConsumed Q (totals_of (na_consumedTotals s) (cd_Key dev)) consumed (ds_Capacity (cd_Spec dev)))
         (na_consumedTotals s)"
      by (auto simp: shared_step_def split: option.splits if_splits)
    have con: "ad_ConsumedCapacity (new_result req dev consumed) = consumed"
      by (simp add: new_result_def)
    show ?thesis
    proof (cases "cd_Key dev = cd_Key d")
      case True
      note s' = s[unfolded same[OF True]]
      have "totals_of (na_consumedTotals t) (cd_Key d) =
          addConsumed Q (totals_of (na_consumedTotals s) (cd_Key d)) consumed (ds_Capacity (cd_Spec d))"
        by (simp add: s'(4) totals_of_def)
      then show ?thesis
        using s'(1,2,3) con same[OF True] key
        by (intro exI[of _ "new_result req dev consumed"]) (simp add: charge_capacity_def)
    next
      case False
      then have "totals_of (na_consumedTotals t) (cd_Key d) = totals_of (na_consumedTotals s) (cd_Key d)"
        by (simp add: s(4) totals_of_def)
      then show ?thesis
        using s(3) False key by (intro exI[of _ "new_result req dev consumed"]) simp
    qed
  next
    case ex
    then have "dev \<noteq> d" using d(2) by auto
    then have "cd_Key dev \<noteq> cd_Key d" using same by blast
    moreover have "nr_results t = nr_results s @ [new_result req dev []]" "na_consumedTotals t = na_consumedTotals s"
      using ex(3) by (auto simp: allocateExclusive_def split: option.splits if_splits)
    ultimately show ?thesis
      using key by (intro exI[of _ "new_result req dev []"]) simp
  qed
qed

lemma alloc_run_capacity:
  assumes "alloc_run Q M B tr s t" and "snd ` set tr \<subseteq> set devices" and wf: "candidates_wf devices"
    and d: "d \<in> set devices" "ds_AllowMultipleAllocations (cd_Spec d)"
  shows "\<exists>rs. nr_results t = nr_results s @ rs \<and>
    charge_all charge_capacity (consumed_by (cd_Key d) rs)
      (Q, ds_Capacity (cd_Spec d), totals_of (na_consumedTotals s) (cd_Key d)) =
      Some (Q, ds_Capacity (cd_Spec d), totals_of (na_consumedTotals t) (cd_Key d)) \<and>
    (\<forall>c \<in> set (consumed_by (cd_Key d) rs). \<exists>a \<in> set tr.
      computeConsumedCapacity Q (rq_Capacity (fst a)) (ds_Capacity (cd_Spec d)) = Some c)"
  using assms(1,2)
proof (induction rule: alloc_run.induct)
  case (run_snoc tr s t a u)
  obtain req dev where a: "a = (req, dev)" by (cases a)
  obtain rs where rs: "nr_results t = nr_results s @ rs"
    "charge_all charge_capacity (consumed_by (cd_Key d) rs)
      (Q, ds_Capacity (cd_Spec d), totals_of (na_consumedTotals s) (cd_Key d)) =
      Some (Q, ds_Capacity (cd_Spec d), totals_of (na_consumedTotals t) (cd_Key d))"
    "\<forall>c \<in> set (consumed_by (cd_Key d) rs). \<exists>a \<in> set tr.
      computeConsumedCapacity Q (rq_Capacity (fst a)) (ds_Capacity (cd_Spec d)) = Some c"
    using run_snoc.IH run_snoc.prems by auto
  have dev: "dev \<in> set devices" using run_snoc.prems a by simp
  obtain r where r: "nr_results u = nr_results t @ [r]"
    "if result_key r = cd_Key d
     then dev = d \<and> computeConsumedCapacity Q (rq_Capacity req) (ds_Capacity (cd_Spec d)) = Some (ad_ConsumedCapacity r)
       \<and> charge_capacity (ad_ConsumedCapacity r)
            (Q, ds_Capacity (cd_Spec d), totals_of (na_consumedTotals t) (cd_Key d)) =
          Some (Q, ds_Capacity (cd_Spec d), totals_of (na_consumedTotals u) (cd_Key d))
     else totals_of (na_consumedTotals u) (cd_Key d) = totals_of (na_consumedTotals t) (cd_Key d)"
    using alloc_step_capacity[OF run_snoc.hyps(2)[unfolded a] wf dev d] by blast
  show ?case
  proof (intro exI[of _ "rs @ [r]"] conjI ballI)
    show "nr_results u = nr_results s @ rs @ [r]" using rs(1) r(1) by simp
    show "charge_all charge_capacity (consumed_by (cd_Key d) (rs @ [r]))
      (Q, ds_Capacity (cd_Spec d), totals_of (na_consumedTotals s) (cd_Key d)) =
      Some (Q, ds_Capacity (cd_Spec d), totals_of (na_consumedTotals u) (cd_Key d))"
      using rs(2) r(2) by (auto simp: charge_all_append split: if_splits)
    fix c assume "c \<in> set (consumed_by (cd_Key d) (rs @ [r]))"
    then show "\<exists>a \<in> set (tr @ [a]).
        computeConsumedCapacity Q (rq_Capacity (fst a)) (ds_Capacity (cd_Spec d)) = Some c"
      using rs(3) r(2) a by (auto split: if_splits)
  qed
qed (auto intro!: exI[of _ "[]"])

text \<open>
  \<^bold>\<open>C2.\<close> The capacity of a shared device is never overcommitted: what was consumed of it before plus
  what all the results of a successful allocation consume of it stays within the device's capacity.
\<close>

theorem allocateOnNode_capacity:
  assumes "allocateOnNode Q nodeName devices requests allocated counterSets = Inr (Some alloc)"
    and wf: "candidates_wf devices" and al: "mwf allocated" and Q: "quantity_ok Q"
    and d: "d \<in> set devices" "ds_AllowMultipleAllocations (cd_Spec d)"
    and sane: "capacity_sane (ds_Capacity (cd_Spec d))" "list_all (\<lambda>r. request_sane Q (rq_Capacity r)) requests"
    and before: "within_capacity Q
        (case mget allocated (cd_Key d) of None \<Rightarrow> [] | Some info \<Rightarrow> ai_ConsumedCapacity info)
        (ds_Capacity (cd_Spec d))"
  shows "capacity_amount Q (ds_Capacity (cd_Spec d))
        (case mget allocated (cd_Key d) of None \<Rightarrow> [] | Some info \<Rightarrow> ai_ConsumedCapacity info) name
      + (\<Sum>c\<leftarrow>consumed_by (cd_Key d) (ar_Devices alloc). capacity_amount Q (ds_Capacity (cd_Spec d)) c name)
    \<le> capacity_limit (ds_Capacity (cd_Spec d)) name"
proof -
  let ?s0 = "initial_run devices allocated counterSets"
  let ?B = "initial_blocked devices allocated counterSets"
  let ?cap = "ds_Capacity (cd_Spec d)"
  let ?before = "case mget allocated (cd_Key d) of None \<Rightarrow> [] | Some info \<Rightarrow> ai_ConsumedCapacity info"
  obtain tr t where run: "alloc_run Q (buildDeviceMeta devices) ?B tr ?s0 t"
    and res: "ar_Devices alloc = nr_results t" and sub: "set tr \<subseteq> set requests \<times> set devices"
    and "(\<forall>r \<in> set requests. request_ok r) \<longrightarrow>
       map fst tr = concat (map (\<lambda>r. replicate (nat (rq_Count r)) r) requests)"
    by (rule allocateOnNode_run[OF assms(1)])
  have snd: "snd ` set tr \<subseteq> set devices" using sub by auto
  have charge: "charge_all charge_capacity (consumed_by (cd_Key d) (ar_Devices alloc)) (Q, ?cap, ?before) =
      Some (Q, ?cap, totals_of (na_consumedTotals t) (cd_Key d))"
    and consumed: "\<forall>c \<in> set (consumed_by (cd_Key d) (ar_Devices alloc)). \<exists>a \<in> set tr.
      computeConsumedCapacity Q (rq_Capacity (fst a)) ?cap = Some c"
    using alloc_run_capacity[OF run snd wf d] res by (auto simp: initial_totals[OF al])
  have ok: "within_capacity Q c ?cap" if c: "c \<in> set (consumed_by (cd_Key d) (ar_Devices alloc))" for c
  proof -
    obtain a where a: "a \<in> set tr" "computeConsumedCapacity Q (rq_Capacity (fst a)) ?cap = Some c"
      using consumed c by blast
    then have "request_sane Q (rq_Capacity (fst a))"
      using sub sane(2) by (auto simp: list_all_iff)
    then show ?thesis
      using computeConsumedCapacity_within[OF Q sane(1) _ a(2)] by blast
  qed
  have "capacity_ledger_inv (Q, ?cap, ?before)"
    using Q sane(1) before by (simp add: capacity_ledger_inv_def)
  then show ?thesis
    using capacities.charge_all_within[OF charge, of name] ok by simp
qed

section \<open>An example node\<close>

text \<open>
  A node with a GPU that is shared by percent (20 percent taken) and two MIG partitions of another GPU
  (one taken), and a claim for two shares of 30 percent and one more device.
\<close>

definition ex_attributes :: "string \<Rightarrow> string \<Rightarrow> (string, AttributeValue) gomap" where
  "ex_attributes kind pci =
     [(AttrDeviceType, \<lparr> av_String = Some kind, av_Int = None, av_Bool = None \<rparr>),
      (AttrPCIAddress, \<lparr> av_String = Some pci, av_Int = None, av_Bool = None \<rparr>)]"

definition ex_candidate :: "DeviceSpec \<Rightarrow> CandidateDevice" where
  "ex_candidate spec =
     \<lparr> cd_Key = \<lparr> dk_Driver = ''gpu'', dk_Pool = ''n1'', dk_Device = ds_Name spec \<rparr>, cd_Driver = ''gpu'',
       cd_Pool = ''n1'', cd_NodeName = ''n1'', cd_Spec = spec \<rparr>"

definition ex_shared :: CandidateDevice where
  "ex_shared = ex_candidate
     \<lparr> ds_Name = ''gpu-0'', ds_Attributes = ex_attributes DeviceTypePhysical ''0000:01:00.0'',
       ds_Capacity = [(''share'', \<lparr> cv_Value = 100, cv_Unit = CapacityUnitPercent, cv_Policy = None \<rparr>)],
       ds_Consumes = [], ds_AllowMultipleAllocations = True, ds_BindingConditions = [],
       ds_BindingFailureConditions = [] \<rparr>"

definition ex_mig :: "string \<Rightarrow> CandidateDevice" where
  "ex_mig name = ex_candidate
     \<lparr> ds_Name = name, ds_Attributes = ex_attributes DeviceTypeMIG ''0000:02:00.0'', ds_Capacity = [],
       ds_Consumes = [\<lparr> cc_CounterSet = ''pci-2'',
                        cc_Counters = [(''memory'', \<lparr> ctr_Value = 10, ctr_Unit = CounterUnitMiB \<rparr>)] \<rparr>],
       ds_AllowMultipleAllocations = False, ds_BindingConditions = [], ds_BindingFailureConditions = [] \<rparr>"

definition ex_devices :: "CandidateDevice list" where
  "ex_devices = [ex_shared, ex_mig ''mig-0'', ex_mig ''mig-1'']"

definition ex_counterSets :: "(string, CounterSet) gomap" where
  "ex_counterSets = [(''pci-2'', \<lparr> cs_Name = ''pci-2'',
     cs_Counters = [(''memory'', \<lparr> ctr_Value = 25, ctr_Unit = CounterUnitMiB \<rparr>)] \<rparr>)]"

definition ex_allocated :: "(DeviceKey, (int64 \<times> qformat) AllocatedDeviceInfo) gomap" where
  "ex_allocated =
     [(cd_Key ex_shared, \<lparr> ai_Exclusive = False, ai_ConsumedCapacity = [(''share'', (20, DecimalSI))] \<rparr>),
      (cd_Key (ex_mig ''mig-0''), \<lparr> ai_Exclusive = True, ai_ConsumedCapacity = [] \<rparr>)]"

definition ex_requests :: "(int64 \<times> qformat) Request list" where
  "ex_requests =
     [\<lparr> rq_Name = ''shares'', rq_Count = 2,
        rq_Selectors = [\<lambda>driver spec. Inr (ds_Name spec = ''gpu-0'')],
        rq_Capacity = Some \<lparr> cr_Requests = [(''share'', (30, DecimalSI))] \<rparr> \<rparr>,
      \<lparr> rq_Name = ''any'', rq_Count = 1, rq_Selectors = [], rq_Capacity = None \<rparr>]"

definition ex_result :: "string \<Rightarrow> string \<Rightarrow> (string, int64 \<times> qformat) gomap \<Rightarrow> (int64 \<times> qformat) AllocatedDevice" where
  "ex_result req dev consumed =
     \<lparr> ad_Request = req, ad_Driver = ''gpu'', ad_Pool = ''n1'', ad_Device = dev, ad_ShareID = [],
       ad_ConsumedCapacity = consumed, ad_BindingConditions = [], ad_BindingFailureConditions = [] \<rparr>"

definition ex_alloc :: "(int64 \<times> qformat) AllocationResult" where
  "ex_alloc = \<lparr> ar_ClaimUID = [], ar_NodeName = ''n1'',
     ar_Devices = [ex_result ''shares'' ''gpu-0'' [(''share'', (30, DecimalSI))],
                   ex_result ''shares'' ''gpu-0'' [(''share'', (30, DecimalSI))],
                   ex_result ''any'' ''mig-1'' []],
     ar_NodeSelector = Some ''n1'' \<rparr>"

lemma ex_allocation:
  "allocateOnNode int_quantity ''n1'' ex_devices ex_requests ex_allocated ex_counterSets = Inr (Some ex_alloc)"
  by code_simp

lemma ex_wf: "candidates_wf ex_devices"
  by code_simp

lemma ex_requests_ok: "list_all request_ok ex_requests"
  by (simp add: ex_requests_def request_ok_def in64_def)

lemma ex_sane:
  "available_sane ex_counterSets" "\<forall>d \<in> set ex_devices. consumes_sane (ds_Consumes (cd_Spec d))"
  "capacity_sane (ds_Capacity (cd_Spec ex_shared))"
  "list_all (\<lambda>r. request_sane int_quantity (rq_Capacity r)) ex_requests"
  by code_simp+

theorem allocateOnNode_counts_witness:
  "map ad_Request (ar_Devices ex_alloc) = [''shares'', ''shares'', ''any'']"
  using allocateOnNode_counts[OF ex_allocation ex_requests_ok] by (simp add: ex_requests_def eval_nat_numeral)

theorem allocateOnNode_counters_witness:
  "(\<Sum>a\<leftarrow>ex_allocated. demand_of ex_devices (fst a) (''pci-2'', ''memory''))
    + (\<Sum>x\<leftarrow>ar_Devices ex_alloc. demand_of ex_devices (result_key x) (''pci-2'', ''memory''))
   \<le> counter_limit ex_counterSets (''pci-2'', ''memory'')"
proof -
  have r: "ex_result ''any'' ''mig-1'' [] \<in> set (ar_Devices ex_alloc)"
    by (simp add: ex_alloc_def)
  have d: "mget (indexDevices ex_devices) (result_key (ex_result ''any'' ''mig-1'' [])) = Some (ex_mig ''mig-1'')"
    by code_simp
  have s: "''pci-2'' \<in> cc_CounterSet ` set (ds_Consumes (cd_Spec (ex_mig ''mig-1'')))"
    by (simp add: ex_mig_def ex_candidate_def)
  show ?thesis
    by (rule allocateOnNode_counters[OF ex_allocation ex_wf ex_sane(1,2) r d s])
qed

theorem allocateOnNode_exclusive_witness:
  "distinct (filter (exclusive_key ex_devices) (map result_key (ar_Devices ex_alloc)))"
  using allocateOnNode_exclusive[OF ex_allocation ex_wf] by blast

theorem allocateOnNode_no_clash_witness:
  "\<not> keys_clash ex_devices (result_key (ex_result ''any'' ''mig-1'' [])) (cd_Key (ex_mig ''mig-0''))"
  using allocateOnNode_no_clash[OF ex_allocation ex_wf, of "ex_result ''any'' ''mig-1'' []" "cd_Key (ex_mig ''mig-0'')"]
  by (simp add: ex_alloc_def ex_allocated_def)

theorem allocateOnNode_capacity_witness:
  "20 + (30 + 30) \<le> capacity_limit (ds_Capacity (cd_Spec ex_shared)) ''share''"
proof -
  have before: "(case mget ex_allocated (cd_Key ex_shared) of None \<Rightarrow> [] | Some info \<Rightarrow> ai_ConsumedCapacity info)
      = [(''share'', (20, DecimalSI))]"
    by code_simp
  have w: "within_capacity int_quantity [(''share'', (20, DecimalSI))] (ds_Capacity (cd_Spec ex_shared))"
    by code_simp
  have wf: "mwf ex_allocated" by code_simp
  have d: "ex_shared \<in> set ex_devices" "ds_AllowMultipleAllocations (cd_Spec ex_shared)"
    by (simp_all add: ex_devices_def ex_shared_def ex_candidate_def)
  have "capacity_amount int_quantity (ds_Capacity (cd_Spec ex_shared)) [(''share'', (20, DecimalSI))] ''share'' = 20"
    "map (\<lambda>c. capacity_amount int_quantity (ds_Capacity (cd_Spec ex_shared)) c ''share'')
       (consumed_by (cd_Key ex_shared) (ar_Devices ex_alloc)) = [30, 30]"
    by code_simp+
  then show ?thesis
    using allocateOnNode_capacity[OF ex_allocation ex_wf wf int_quantity_ok d ex_sane(3,4), of "''share''"] before w
    by simp
qed

end
