(* ===== verification/AllocatorService.thy ===== *)
theory AllocatorService
  imports NodeSafety
begin

text \<open>
  The allocator service, \<open>groupByNode\<close> of \<open>pkg/dra/services/allocator/node_grouping.go\<close> and \<open>Allocate\<close>
  of \<open>service.go\<close>: candidates are grouped by node and ordered by name, and the nodes are tried in the
  order of their names until one can satisfy the whole claim.

  \<open>sort.Slice\<close> returns some ordered permutation of its argument. Which one it returns for equal keys is
  open, so the sort is a parameter with the hypothesis \<open>sorts_devices\<close>. \<open>sort.Strings\<close> on the
  distinct node names has only one possible result, \<open>sort\<close>.
\<close>

section \<open>Definitions\<close>

type_synonym device_sort = "CandidateDevice list \<Rightarrow> CandidateDevice list"

definition sorts_devices :: "device_sort \<Rightarrow> bool" where
  "sorts_devices sorter \<longleftrightarrow>
     (\<forall>ds. mset (sorter ds) = mset ds \<and> sorted (map (\<lambda>d. ds_Name (cd_Spec d)) (sorter ds)))"

fun group_loop ::
  "(string, CandidateDevice list) gomap \<Rightarrow> CandidateDevice list \<Rightarrow> (string, CandidateDevice list) gomap" where
  "group_loop nodes [] = nodes"
| "group_loop nodes (dev # rest) =
     (if cd_NodeName dev = [] then group_loop nodes rest
      else group_loop
             (mput (cd_NodeName dev)
                ((case mget nodes (cd_NodeName dev) of None \<Rightarrow> [] | Some ds \<Rightarrow> ds) @ [dev]) nodes) rest)"

definition groupByNode ::
  "device_sort \<Rightarrow> CandidateDevice list \<Rightarrow> (string, CandidateDevice list) gomap" where
  "groupByNode sorter devices = map (\<lambda>(nodeName, ds). (nodeName, sorter ds)) (group_loop [] devices)"

fun allocate_nodes ::
  "'q quantity_api \<Rightarrow> 'q Input \<Rightarrow> (string, CandidateDevice list) gomap \<Rightarrow> string list \<Rightarrow>
   string + 'q AllocationResult option" where
  "allocate_nodes Q inp nodes [] = Inr None"
| "allocate_nodes Q inp nodes (nodeName # rest) =
     (case allocateOnNode Q nodeName
             (case mget nodes nodeName of None \<Rightarrow> [] | Some ds \<Rightarrow> ds) (in_Requests inp) (in_Allocated inp)
             (case mget (in_CounterSets inp) nodeName of None \<Rightarrow> [] | Some m \<Rightarrow> m) of
        Inl err \<Rightarrow> Inl err
      | Inr (Some alloc) \<Rightarrow> Inr (Some alloc)
      | Inr None \<Rightarrow> allocate_nodes Q inp nodes rest)"

definition Allocate ::
  "'q quantity_api \<Rightarrow> device_sort \<Rightarrow> 'q Input \<Rightarrow> string + 'q AllocationResult option" where
  "Allocate Q sorter inp =
     (if in_Requests inp = [] then Inr None
      else if in_Candidates inp = [] then Inr None
      else
        let nodes = groupByNode sorter (in_Candidates inp) in
        if nodes = [] then Inr None
        else allocate_nodes Q inp nodes (sort (mkeys nodes)))"

section \<open>Grouping\<close>

definition node_candidates :: "CandidateDevice list \<Rightarrow> string \<Rightarrow> CandidateDevice list" where
  "node_candidates devices nodeName = filter (\<lambda>d. cd_NodeName d = nodeName) devices"

definition node_names :: "CandidateDevice list \<Rightarrow> string set" where
  "node_names devices = cd_NodeName ` set devices - {[]}"

lemma mwf_group_loop: "mwf nodes \<Longrightarrow> mwf (group_loop nodes devices)"
  by (induction nodes devices rule: group_loop.induct) auto

lemma mkeys_group_loop: "set (mkeys (group_loop nodes devices)) = set (mkeys nodes) \<union> node_names devices"
  by (induction nodes devices rule: group_loop.induct) (auto simp: node_names_def gomap_simps)

lemma group_loop_get:
  "nodeName \<noteq> [] \<Longrightarrow>
   (case mget (group_loop nodes devices) nodeName of None \<Rightarrow> [] | Some ds \<Rightarrow> ds) =
     (case mget nodes nodeName of None \<Rightarrow> [] | Some ds \<Rightarrow> ds) @ node_candidates devices nodeName"
  by (induction nodes devices rule: group_loop.induct) (auto simp: node_candidates_def)

lemma mkeys_groupByNode: "set (mkeys (groupByNode sorter devices)) = node_names devices"
  using mkeys_group_loop[of "[]" devices] by (simp add: groupByNode_def)

lemma mwf_groupByNode: "mwf (groupByNode sorter devices)"
  by (simp add: groupByNode_def mwf_group_loop)

lemma groupByNode_get:
  assumes "nodeName \<in> node_names devices"
  shows "mget (groupByNode sorter devices) nodeName = Some (sorter (node_candidates devices nodeName))"
proof -
  have "nodeName \<in> set (mkeys (group_loop [] devices))" "nodeName \<noteq> []"
    using assms mkeys_group_loop[of "[]" devices] by (auto simp: node_names_def)
  then obtain ds where "mget (group_loop [] devices) nodeName = Some ds"
    by (metis map_of_eq_None_iff not_None_eq list.set_map)
  then show ?thesis
    using group_loop_get[OF \<open>nodeName \<noteq> []\<close>, of "[]" devices]
    by (simp add: groupByNode_def mget_mapval)
qed

lemma sorts_devices_set: "sorts_devices sorter \<Longrightarrow> set (sorter ds) = set ds"
  unfolding sorts_devices_def by (metis mset_eq_setD)

section \<open>The first node that fits\<close>

text \<open>What the service computes for one node.\<close>

definition node_outcome ::
  "'q quantity_api \<Rightarrow> device_sort \<Rightarrow> 'q Input \<Rightarrow> string \<Rightarrow> string + 'q AllocationResult option" where
  "node_outcome Q sorter inp nodeName =
     allocateOnNode Q nodeName (sorter (node_candidates (in_Candidates inp) nodeName)) (in_Requests inp)
       (in_Allocated inp) (case mget (in_CounterSets inp) nodeName of None \<Rightarrow> [] | Some m \<Rightarrow> m)"

fun first_outcome :: "(string \<Rightarrow> 'e + 'a option) \<Rightarrow> string list \<Rightarrow> 'e + 'a option" where
  "first_outcome f [] = Inr None"
| "first_outcome f (n # ns) = (if f n = Inr None then first_outcome f ns else f n)"

lemma first_outcome_cases:
  "first_outcome f ns = Inr None \<longleftrightarrow> (\<forall>n \<in> set ns. f n = Inr None)"
  "y \<noteq> Inr None \<Longrightarrow> sorted_wrt (<) ns \<Longrightarrow>
   first_outcome f ns = y \<longleftrightarrow> (\<exists>n \<in> set ns. f n = y \<and> (\<forall>m \<in> set ns. m < n \<longrightarrow> f m = Inr None))"
proof -
  show "first_outcome f ns = Inr None \<longleftrightarrow> (\<forall>n \<in> set ns. f n = Inr None)"
    by (induction ns) auto
  show "y \<noteq> Inr None \<Longrightarrow> sorted_wrt (<) ns \<Longrightarrow>
   first_outcome f ns = y \<longleftrightarrow> (\<exists>n \<in> set ns. f n = y \<and> (\<forall>m \<in> set ns. m < n \<longrightarrow> f m = Inr None))"
  proof (induction ns)
    case (Cons n ns)
    then have "first_outcome f ns = y \<longleftrightarrow> (\<exists>n \<in> set ns. f n = y \<and> (\<forall>m \<in> set ns. m < n \<longrightarrow> f m = Inr None))"
      and lt: "\<forall>m \<in> set ns. n < m" by simp_all
    moreover have "\<not> m < n" if "m \<in> set (n # ns)" for m
      using that lt less_asym by auto
    ultimately show ?case
      using Cons.prems(1) by (cases "f n = Inr None") auto
  qed simp
qed

lemma allocate_nodes_first:
  assumes "\<And>n. n \<in> set ns \<Longrightarrow> n \<in> node_names (in_Candidates inp)"
  shows "allocate_nodes Q inp (groupByNode sorter (in_Candidates inp)) ns = first_outcome (node_outcome Q sorter inp) ns"
  using assms
proof (induction ns)
  case (Cons n ns)
  then have "mget (groupByNode sorter (in_Candidates inp)) n = Some (sorter (node_candidates (in_Candidates inp) n))"
    by (intro groupByNode_get) simp
  then show ?case
    using Cons by (auto simp: node_outcome_def split: sum.split option.split)
qed simp

definition sorted_nodes :: "CandidateDevice list \<Rightarrow> string list" where
  "sorted_nodes devices = sort (mkeys (group_loop [] devices))"

lemma sorted_nodes_props:
  "set (sorted_nodes devices) = node_names devices" "sorted_wrt (<) (sorted_nodes devices)"
  using mkeys_group_loop[of "[]" devices] mwf_group_loop[of "[]" devices]
  by (simp_all add: sorted_nodes_def strict_sorted_iff)

lemma Allocate_first_outcome:
  "Allocate Q sorter inp =
     (if in_Requests inp = [] then Inr None
      else first_outcome (node_outcome Q sorter inp) (sorted_nodes (in_Candidates inp)))"
proof -
  have keys: "mkeys (groupByNode sorter (in_Candidates inp)) = mkeys (group_loop [] (in_Candidates inp))"
    by (simp add: groupByNode_def)
  have "allocate_nodes Q inp (groupByNode sorter (in_Candidates inp)) (sorted_nodes (in_Candidates inp)) =
      first_outcome (node_outcome Q sorter inp) (sorted_nodes (in_Candidates inp))"
    by (rule allocate_nodes_first) (simp add: sorted_nodes_props)
  moreover have "sorted_nodes (in_Candidates inp) = []" if "groupByNode sorter (in_Candidates inp) = []"
    using keys that by (simp add: sorted_nodes_def)
  ultimately show ?thesis
    by (auto simp: Allocate_def Let_def keys sorted_nodes_def)
qed

text \<open>
  \<^bold>\<open>C7.\<close> The service returns what the first node that does not come back empty-handed gives, in the
  order of the node names: a result means some node satisfies the claim and every node before it cannot,
  no result means there is no request or no node can, and an error comes from a node all of whose
  predecessors cannot.
\<close>

theorem Allocate_first_node:
  "case Allocate Q sorter inp of
     Inr None \<Rightarrow> in_Requests inp = [] \<or>
       (\<forall>n \<in> node_names (in_Candidates inp). node_outcome Q sorter inp n = Inr None)
   | y \<Rightarrow> in_Requests inp \<noteq> [] \<and>
       (\<exists>n \<in> node_names (in_Candidates inp). node_outcome Q sorter inp n = y \<and>
          (\<forall>m \<in> node_names (in_Candidates inp). m < n \<longrightarrow> node_outcome Q sorter inp m = Inr None))"
proof (cases "in_Requests inp = []")
  case False
  let ?f = "node_outcome Q sorter inp" and ?ns = "sorted_nodes (in_Candidates inp)"
  have eq: "Allocate Q sorter inp = first_outcome ?f ?ns"
    using False by (simp add: Allocate_first_outcome)
  show ?thesis
  proof (cases "first_outcome ?f ?ns = Inr None")
    case True
    then show ?thesis
      using eq first_outcome_cases(1)[of ?f ?ns] by (simp add: sorted_nodes_props)
  next
    case ne: False
    then show ?thesis
      using eq False first_outcome_cases(2)[OF ne sorted_nodes_props(2), of ?f "in_Candidates inp"]
      by (auto simp: sorted_nodes_props split: sum.split option.split)
  qed
qed (simp add: Allocate_first_outcome)

section \<open>One node, whatever the order of the candidates\<close>

lemma Allocate_outcome:
  assumes "Allocate Q sorter inp = Inr (Some alloc)"
  obtains n where "n \<in> node_names (in_Candidates inp)" "node_outcome Q sorter inp n = Inr (Some alloc)"
proof -
  have "in_Requests inp \<noteq> []"
    using assms by (auto simp: Allocate_def)
  then have "first_outcome (node_outcome Q sorter inp) (sorted_nodes (in_Candidates inp)) = Inr (Some alloc)"
    using assms by (simp add: Allocate_first_outcome)
  then have "\<exists>n \<in> node_names (in_Candidates inp). node_outcome Q sorter inp n = Inr (Some alloc)"
    using first_outcome_cases(2)[of "Inr (Some alloc)" "sorted_nodes (in_Candidates inp)" "node_outcome Q sorter inp"]
    by (auto simp: sorted_nodes_props)
  then show ?thesis using that by blast
qed

text \<open>
  An allocation never spans nodes: every device of a result is a candidate of the one node
  the result names, and the result's node selector is that node.
\<close>

lemma Allocate_one_node:
  assumes "Allocate Q sorter inp = Inr (Some alloc)" and "sorts_devices sorter"
  shows "ar_NodeName alloc \<noteq> [] \<and> ar_NodeSelector alloc = Some (ar_NodeName alloc) \<and>
    (\<forall>r \<in> set (ar_Devices alloc). \<exists>d \<in> set (in_Candidates inp).
       cd_NodeName d = ar_NodeName alloc \<and> ad_Driver r = cd_Driver d \<and> ad_Pool r = cd_Pool d
       \<and> ad_Device r = ds_Name (cd_Spec d))"
proof -
  obtain n where n: "n \<in> node_names (in_Candidates inp)" "node_outcome Q sorter inp n = Inr (Some alloc)"
    by (rule Allocate_outcome[OF assms(1)])
  let ?ds = "sorter (node_candidates (in_Candidates inp) n)"
  let ?cs = "case mget (in_CounterSets inp) n of None \<Rightarrow> [] | Some m \<Rightarrow> m"
  have on: "allocateOnNode Q n ?ds (in_Requests inp) (in_Allocated inp) ?cs = Inr (Some alloc)"
    using n(2) by (simp add: node_outcome_def)
  obtain tr t where run: "alloc_run Q (buildDeviceMeta ?ds) (initial_blocked ?ds (in_Allocated inp) ?cs) tr
       (initial_run ?ds (in_Allocated inp) ?cs) t"
    and res: "ar_Devices alloc = nr_results t" and sub: "set tr \<subseteq> set (in_Requests inp) \<times> set ?ds"
    and "(\<forall>r \<in> set (in_Requests inp). request_ok r) \<longrightarrow>
       map fst tr = concat (map (\<lambda>r. replicate (nat (rq_Count r)) r) (in_Requests inp))"
    by (rule allocateOnNode_run[OF on])
  have rs: "list_all2 result_for tr (ar_Devices alloc)"
    using alloc_run_results[OF run] res by auto
  have "\<exists>d \<in> set (in_Candidates inp). cd_NodeName d = n \<and> ad_Driver r = cd_Driver d \<and> ad_Pool r = cd_Pool d
       \<and> ad_Device r = ds_Name (cd_Spec d)" if r: "r \<in> set (ar_Devices alloc)" for r
    using list_all2_right[OF rs r] sub
    by (fastforce simp: result_for_def sorts_devices_set[OF assms(2)] node_candidates_def)
  moreover have "n \<noteq> []" using n(1) by (simp add: node_names_def)
  ultimately show ?thesis
    using allocateOnNode_NodeName[OF on] by simp
qed

lemma sorted_by_name_unique:
  assumes "sorted (map f xs)" and "sorted (map f ys)" and "mset xs = mset ys" and "distinct (map f xs)"
  shows "xs = ys"
proof -
  have "mset (map f xs) = mset (map f ys)"
    using assms(3) by simp
  then have maps: "map f xs = map f ys"
    using assms(1,2) by (metis properties_for_sort sort_key_id_if_sorted)
  have "set xs = set ys" using assms(3) by (rule mset_eq_setD)
  moreover have "inj_on f (set xs \<union> set ys)"
    using assms(4) calculation by (simp add: distinct_map)
  ultimately show ?thesis
    using maps by (auto intro: map_inj_on)
qed

text \<open>
  The result does not depend on the order in which the candidates were collected: two inputs
  that differ only in that order give the same outcome, whichever way the sort treats equal names, as
  long as the devices of a node have distinct names.
\<close>

theorem Allocate_candidate_order:
  assumes "sorts_devices sorter" and "sorts_devices sorter'"
    and "mset (in_Candidates inp) = mset (in_Candidates inp')"
    and "in_Requests inp' = in_Requests inp" "in_Allocated inp' = in_Allocated inp"
      "in_CounterSets inp' = in_CounterSets inp"
    and "\<And>n. distinct (map (\<lambda>d. ds_Name (cd_Spec d)) (node_candidates (in_Candidates inp) n))"
  shows "Allocate Q sorter inp = Allocate Q sorter' inp'"
proof -
  have set_eq: "set (in_Candidates inp) = set (in_Candidates inp')"
    using assms(3) by (rule mset_eq_setD)
  have "sorted_nodes (in_Candidates inp) = sorted_nodes (in_Candidates inp')"
    by (rule strict_sorted_equal) (simp_all add: sorted_nodes_props node_names_def set_eq)
  moreover have "node_outcome Q sorter inp n = node_outcome Q sorter' inp' n" for n
  proof -
    let ?a = "node_candidates (in_Candidates inp) n" and ?b = "node_candidates (in_Candidates inp') n"
    have "mset ?a = mset ?b"
      using assms(3) by (simp add: node_candidates_def)
    moreover have "distinct (map (\<lambda>d. ds_Name (cd_Spec d)) (sorter ?a))"
    proof -
      have "mset (map (\<lambda>d. ds_Name (cd_Spec d)) (sorter ?a)) = mset (map (\<lambda>d. ds_Name (cd_Spec d)) ?a)"
        using assms(1) by (simp add: sorts_devices_def)
      then show ?thesis using assms(7) by (metis mset_eq_imp_distinct_iff)
    qed
    ultimately have "sorter ?a = sorter' ?b"
      using assms(1,2) by (intro sorted_by_name_unique[where f = "\<lambda>d. ds_Name (cd_Spec d)"])
        (simp_all add: sorts_devices_def)
    then show ?thesis by (simp add: node_outcome_def assms(4-6))
  qed
  then have "node_outcome Q sorter inp = node_outcome Q sorter' inp'" by blast
  ultimately show ?thesis by (simp add: Allocate_first_outcome assms(4))
qed

definition sort_by_name :: device_sort where
  "sort_by_name ds = sort_key (\<lambda>d. ds_Name (cd_Spec d)) ds"

lemma sort_by_name_sorts: "sorts_devices sort_by_name"
  by (simp add: sorts_devices_def sort_by_name_def)

definition ex_input :: "CandidateDevice list \<Rightarrow> (int64 \<times> qformat) Input" where
  "ex_input devices = \<lparr> in_Requests = ex_requests, in_Candidates = devices, in_Allocated = ex_allocated,
     in_CounterSets = [(''n1'', ex_counterSets)] \<rparr>"

lemma ex_Allocate: "Allocate int_quantity sort_by_name (ex_input ex_devices) = Inr (Some ex_alloc)"
  by code_simp

lemma Allocate_one_node_witness:
  "ar_NodeName ex_alloc \<noteq> [] \<and> ar_NodeSelector ex_alloc = Some (ar_NodeName ex_alloc)"
  using Allocate_one_node[OF ex_Allocate sort_by_name_sorts] by blast

theorem Allocate_candidate_order_witness:
  "Allocate int_quantity sort_by_name (ex_input (rev ex_devices)) = Inr (Some ex_alloc)"
proof -
  have names: "distinct (map (\<lambda>d. ds_Name (cd_Spec d)) ex_devices)"
    by code_simp
  have "distinct (map (\<lambda>d. ds_Name (cd_Spec d)) (node_candidates (in_Candidates (ex_input ex_devices)) n))" for n
    using names by (simp add: ex_input_def node_candidates_def distinct_map_filter)
  then have "Allocate int_quantity sort_by_name (ex_input ex_devices) =
      Allocate int_quantity sort_by_name (ex_input (rev ex_devices))"
    by (intro Allocate_candidate_order sort_by_name_sorts) (simp_all add: ex_input_def)
  then show ?thesis by (simp add: ex_Allocate)
qed

theorem Allocate_first_node_witness:
  "\<exists>n \<in> node_names (in_Candidates (ex_input ex_devices)).
     node_outcome int_quantity sort_by_name (ex_input ex_devices) n = Inr (Some ex_alloc)"
  using Allocate_first_node[of "ex_input ex_devices" int_quantity sort_by_name] by (auto simp: ex_Allocate)

end
