(* ===== verification/Render.thy ===== *)
theory Render
  imports Capacity
begin

text \<open>
  Publication of the inventory: \<open>pkg/dra/adapters/k8s/allocatable/render_*.go\<close> renders devices and
  counter sets as API objects, and \<open>pkg/dra/adapters/k8s/resourceslice/*.go\<close> lays them out in slices
  under the features the API server supports. The conversions back, \<open>convert.go\<close> and
  \<open>allocation_quantity.go\<close> of \<open>pkg/dra/adapters/k8s/allocator\<close>, are here too, so that the round trip
  can be stated. The API types (\<open>k8s.io/api/resource/v1\<close>) are records with the fields the code uses.
\<close>

section \<open>API types\<close>

record DeviceAttribute =
  da_StringValue :: "string option"
  da_IntValue :: "int64 option"
  da_BoolValue :: "bool option"

record 'q CapacityRequestPolicyRange =
  rr_Min :: "'q option"
  rr_Max :: "'q option"
  rr_Step :: "'q option"

record 'q CapacityRequestPolicy =
  rp_Default :: "'q option"
  rp_ValidRange :: "'q CapacityRequestPolicyRange option"

record 'q DeviceCapacity =
  dc_Value :: 'q
  dc_RequestPolicy :: "'q CapacityRequestPolicy option"

record 'q Counter =
  ct_Value :: 'q

record 'q DeviceCounterConsumption =
  xc_CounterSet :: string
  xc_Counters :: "(string, 'q Counter) gomap"

record 'q ApiCounterSet =
  xs_Name :: string
  xs_Counters :: "(string, 'q Counter) gomap"

record 'q Device =
  dv_Name :: string
  dv_Attributes :: "(string, DeviceAttribute) gomap"
  dv_Capacity :: "(string, 'q DeviceCapacity) gomap"
  dv_ConsumesCounters :: "'q DeviceCounterConsumption list"
  dv_NodeName :: "string option"
  dv_AllowMultipleAllocations :: "bool option"
  dv_BindingConditions :: "string list"
  dv_BindingFailureConditions :: "string list"

record 'q Slice =
  sl_SharedCounters :: "'q ApiCounterSet list"
  sl_Devices :: "'q Device list"

section \<open>Rendering devices\<close>

definition RenderAttributes :: "(string, AttributeValue) gomap \<Rightarrow> (string, DeviceAttribute) gomap" where
  "RenderAttributes attrs =
     (if attrs = [] then []
      else map (\<lambda>(key, val). (key, \<lparr> da_StringValue = av_String val, da_IntValue = av_Int val,
                                     da_BoolValue = av_Bool val \<rparr>)) attrs)"

definition quantityFromCapacity :: "'q quantity_api \<Rightarrow> int64 \<Rightarrow> CapacityUnit \<Rightarrow> 'q" where
  "quantityFromCapacity Q val unit =
     (if unit = CapacityUnitMiB then q_New Q (mul64 (mul64 val 1024) 1024) BinarySI
      else if unit = CapacityUnitPercent \<or> unit = CapacityUnitCount then q_New Q val DecimalSI
      else q_New Q val DecimalSI)"

definition quantityPtrFromCapacity :: "'q quantity_api \<Rightarrow> int64 \<Rightarrow> CapacityUnit \<Rightarrow> 'q option" where
  "quantityPtrFromCapacity Q val unit = Some (quantityFromCapacity Q val unit)"

definition render_capacity :: "'q quantity_api \<Rightarrow> CapacityValue \<Rightarrow> 'q DeviceCapacity" where
  "render_capacity Q val =
     \<lparr> dc_Value = quantityFromCapacity Q (cv_Value val) (cv_Unit val),
       dc_RequestPolicy =
         (case cv_Policy val of
            None \<Rightarrow> None
          | Some p \<Rightarrow> Some
              \<lparr> rp_Default = quantityPtrFromCapacity Q (cp_Default p) (cp_Unit p),
                rp_ValidRange = Some
                  \<lparr> rr_Min = quantityPtrFromCapacity Q (cp_Min p) (cp_Unit p),
                    rr_Max = quantityPtrFromCapacity Q (cp_Max p) (cp_Unit p),
                    rr_Step = quantityPtrFromCapacity Q (cp_Step p) (cp_Unit p) \<rparr> \<rparr>) \<rparr>"

definition RenderCapacities ::
  "'q quantity_api \<Rightarrow> (string, CapacityValue) gomap \<Rightarrow> (string, 'q DeviceCapacity) gomap" where
  "RenderCapacities Q capacity =
     (if capacity = [] then [] else map (\<lambda>(key, val). (key, render_capacity Q val)) capacity)"

definition quantityFromCounter :: "'q quantity_api \<Rightarrow> int64 \<Rightarrow> CounterUnit \<Rightarrow> 'q" where
  "quantityFromCounter Q val unit =
     (if unit = CounterUnitMiB then q_New Q (mul64 (mul64 val 1024) 1024) BinarySI
      else if unit = CounterUnitCount then q_New Q val DecimalSI
      else q_New Q val DecimalSI)"

definition renderCounters ::
  "'q quantity_api \<Rightarrow> (string, CounterValue) gomap \<Rightarrow> (string, 'q Counter) gomap" where
  "renderCounters Q values =
     (if values = [] then []
      else map (\<lambda>(key, val). (key, \<lparr> ct_Value = quantityFromCounter Q (ctr_Value val) (ctr_Unit val) \<rparr>)) values)"

definition RenderCounterSets :: "'q quantity_api \<Rightarrow> CounterSet list \<Rightarrow> 'q ApiCounterSet list" where
  "RenderCounterSets Q counterSets =
     (if counterSets = [] then []
      else map (\<lambda>s. \<lparr> xs_Name = cs_Name s, xs_Counters = renderCounters Q (cs_Counters s) \<rparr>) counterSets)"

definition renderConsumes ::
  "'q quantity_api \<Rightarrow> CounterConsumption list \<Rightarrow> 'q DeviceCounterConsumption list" where
  "renderConsumes Q consumes =
     map (\<lambda>c. \<lparr> xc_CounterSet = cc_CounterSet c, xc_Counters = renderCounters Q (cc_Counters c) \<rparr>) consumes"

record DeviceRenderOptions =
  ro_IncludeCapacity :: bool
  ro_IncludeMultiAllocations :: bool
  ro_IncludeBindingConditions :: bool

definition renderDeviceWithOptions ::
  "'q quantity_api \<Rightarrow> DeviceSpec \<Rightarrow> DeviceRenderOptions \<Rightarrow> 'q Device" where
  "renderDeviceWithOptions Q spec opts =
     \<lparr> dv_Name = ds_Name spec, dv_Attributes = RenderAttributes (ds_Attributes spec),
       dv_Capacity = (if ro_IncludeCapacity opts then RenderCapacities Q (ds_Capacity spec) else []),
       dv_ConsumesCounters = (if ds_Consumes spec \<noteq> [] then renderConsumes Q (ds_Consumes spec) else []),
       dv_NodeName = None,
       dv_AllowMultipleAllocations =
         (if ro_IncludeMultiAllocations opts \<and> ds_AllowMultipleAllocations spec then Some True else None),
       dv_BindingConditions =
         (if ro_IncludeBindingConditions opts then ds_BindingConditions spec else []),
       dv_BindingFailureConditions =
         (if ro_IncludeBindingConditions opts then
            if ds_BindingConditions spec \<noteq> [] then
              if ds_BindingFailureConditions spec \<noteq> [] then ds_BindingFailureConditions spec
              else [DeviceConditionBindingFailed]
            else ds_BindingFailureConditions spec
          else []) \<rparr>"

definition RenderDevicesWithOptions ::
  "'q quantity_api \<Rightarrow> deviceBase list \<Rightarrow> DeviceRenderOptions \<Rightarrow> 'q Device list" where
  "RenderDevicesWithOptions Q devices opts =
     (if devices = [] then [] else map (\<lambda>dev. renderDeviceWithOptions Q (Spec dev) opts) devices)"

definition RenderDevices :: "'q quantity_api \<Rightarrow> deviceBase list \<Rightarrow> 'q Device list" where
  "RenderDevices Q devices =
     RenderDevicesWithOptions Q devices
       \<lparr> ro_IncludeCapacity = True, ro_IncludeMultiAllocations = True, ro_IncludeBindingConditions = True \<rparr>"

section \<open>Reading devices back\<close>

definition apiQuantityValue :: "'q quantity_api \<Rightarrow> 'q option \<Rightarrow> CapacityUnit \<Rightarrow> int64" where
  "apiQuantityValue Q qty unit =
     (case qty of None \<Rightarrow> 0
      | Some q \<Rightarrow> if unit = CapacityUnitMiB then q_Value Q q sdiv (1024 * 1024) else q_Value Q q)"

definition capacityValueFromQuantity ::
  "'q quantity_api \<Rightarrow> 'q \<Rightarrow> 'q CapacityRequestPolicy option \<Rightarrow> CapacityValue" where
  "capacityValueFromQuantity Q qty policy =
     (let unit = (if q_Format Q qty = BinarySI then CapacityUnitMiB else CapacityUnitCount);
          val = (if q_Format Q qty = BinarySI then q_Value Q qty sdiv (1024 * 1024) else q_Value Q qty)
      in \<lparr> cv_Value = val, cv_Unit = unit,
           cv_Policy =
             (case policy of
                None \<Rightarrow> None
              | Some p \<Rightarrow> Some
                  (case rp_ValidRange p of
                     None \<Rightarrow> \<lparr> cp_Default = apiQuantityValue Q (rp_Default p) unit, cp_Min = 0, cp_Max = 0,
                               cp_Step = 0, cp_Unit = unit \<rparr>
                   | Some r \<Rightarrow> \<lparr> cp_Default = apiQuantityValue Q (rp_Default p) unit,
                               cp_Min = apiQuantityValue Q (rr_Min r) unit,
                               cp_Max = apiQuantityValue Q (rr_Max r) unit,
                               cp_Step = apiQuantityValue Q (rr_Step r) unit, cp_Unit = unit \<rparr>)) \<rparr>)"

definition counterValueFromQuantity :: "'q quantity_api \<Rightarrow> 'q \<Rightarrow> CounterValue" where
  "counterValueFromQuantity Q qty =
     (if q_Format Q qty = BinarySI
      then \<lparr> ctr_Value = q_Value Q qty sdiv (1024 * 1024), ctr_Unit = CounterUnitMiB \<rparr>
      else \<lparr> ctr_Value = q_Value Q qty, ctr_Unit = CounterUnitCount \<rparr>)"

definition toAttributes :: "(string, DeviceAttribute) gomap \<Rightarrow> (string, AttributeValue) gomap" where
  "toAttributes attrs =
     (if attrs = [] then []
      else map (\<lambda>(key, val). (key, \<lparr> av_String = da_StringValue val, av_Int = da_IntValue val,
                                     av_Bool = da_BoolValue val \<rparr>)) attrs)"

definition toCapacities ::
  "'q quantity_api \<Rightarrow> (string, 'q DeviceCapacity) gomap \<Rightarrow> (string, CapacityValue) gomap" where
  "toCapacities Q capacity =
     (if capacity = [] then []
      else map (\<lambda>(key, val). (key, capacityValueFromQuantity Q (dc_Value val) (dc_RequestPolicy val))) capacity)"

definition toCounters :: "'q quantity_api \<Rightarrow> (string, 'q Counter) gomap \<Rightarrow> (string, CounterValue) gomap" where
  "toCounters Q counters =
     (if counters = [] then []
      else map (\<lambda>(key, val). (key, counterValueFromQuantity Q (ct_Value val))) counters)"

definition toConsumes :: "'q quantity_api \<Rightarrow> 'q DeviceCounterConsumption list \<Rightarrow> CounterConsumption list" where
  "toConsumes Q consumes =
     (if consumes = [] then []
      else map (\<lambda>c. \<lparr> cc_CounterSet = xc_CounterSet c, cc_Counters = toCounters Q (xc_Counters c) \<rparr>) consumes)"

definition toCounterSet :: "'q quantity_api \<Rightarrow> 'q ApiCounterSet \<Rightarrow> CounterSet" where
  "toCounterSet Q counterSet = \<lparr> cs_Name = xs_Name counterSet, cs_Counters = toCounters Q (xs_Counters counterSet) \<rparr>"

definition toDeviceSpec :: "'q quantity_api \<Rightarrow> 'q Device \<Rightarrow> DeviceSpec" where
  "toDeviceSpec Q device =
     \<lparr> ds_Name = dv_Name device, ds_Attributes = toAttributes (dv_Attributes device),
       ds_Capacity = toCapacities Q (dv_Capacity device),
       ds_Consumes = toConsumes Q (dv_ConsumesCounters device),
       ds_AllowMultipleAllocations = (dv_AllowMultipleAllocations device = Some True),
       ds_BindingConditions = dv_BindingConditions device,
       ds_BindingFailureConditions = dv_BindingFailureConditions device \<rparr>"

section \<open>Publishing and reading back\<close>

text \<open>
  What a device looks like after the round trip: percentages are published as plain numbers, so their
  unit becomes a count; a device with binding conditions has at least the default failure condition.
\<close>

definition published_unit :: "string \<Rightarrow> string" where
  "published_unit unit = (if unit = CapacityUnitMiB then unit else CapacityUnitCount)"

definition published_spec :: "DeviceSpec \<Rightarrow> DeviceSpec" where
  "published_spec spec = spec
     \<lparr> ds_Capacity := map (\<lambda>(key, val). (key,
           val\<lparr> cv_Unit := published_unit (cv_Unit val),
                cv_Policy := map_option (\<lambda>p. p\<lparr> cp_Unit := published_unit (cv_Unit val) \<rparr>) (cv_Policy val) \<rparr>))
         (ds_Capacity spec),
       ds_Consumes := map (\<lambda>c. c\<lparr> cc_Counters :=
           map (\<lambda>(key, val). (key, val\<lparr> ctr_Unit := published_unit (ctr_Unit val) \<rparr>)) (cc_Counters c) \<rparr>)
         (ds_Consumes spec),
       ds_BindingFailureConditions :=
         (if ds_BindingConditions spec \<noteq> [] \<and> ds_BindingFailureConditions spec = []
          then [DeviceConditionBindingFailed] else ds_BindingFailureConditions spec) \<rparr>"

text \<open>Devices whose numbers survive: no wrap-around, and policies in the unit of their capacity.\<close>

definition capacity_publishable :: "CapacityValue \<Rightarrow> bool" where
  "capacity_publishable v \<longleftrightarrow> unit_range (cv_Unit v) (cv_Value v) \<and>
     (case cv_Policy v of None \<Rightarrow> True
      | Some p \<Rightarrow> cp_Unit p = cv_Unit v \<and>
          list_all (unit_range (cv_Unit v)) [cp_Default p, cp_Min p, cp_Max p, cp_Step p])"

definition counter_publishable :: "CounterValue \<Rightarrow> bool" where
  "counter_publishable v \<longleftrightarrow> unit_range (ctr_Unit v) (ctr_Value v)"

definition spec_publishable :: "DeviceSpec \<Rightarrow> bool" where
  "spec_publishable spec \<longleftrightarrow> list_all (\<lambda>(key, v). capacity_publishable v) (ds_Capacity spec)
     \<and> list_all (\<lambda>c. list_all (\<lambda>(key, v). counter_publishable v) (cc_Counters c)) (ds_Consumes spec)"

lemma unit_defs: "CounterUnitMiB = CapacityUnitMiB" "CapacityUnitCount \<noteq> CapacityUnitMiB" "CounterUnitCount = CapacityUnitCount"
  by (simp_all add: CounterUnitMiB_def CapacityUnitMiB_def CapacityUnitCount_def CounterUnitCount_def)

lemma quantityFromCapacity_eq: "quantityFromCapacity Q v unit = quantityFromValue Q v unit"
  by (simp add: quantityFromCapacity_def quantityFromValue_def)

lemma quantityFromCounter_eq: "quantityFromCounter Q v unit = quantityFromValue Q v unit"
  by (simp add: quantityFromCounter_def quantityFromValue_def unit_defs)

lemma published_format:
  "quantity_ok Q \<Longrightarrow> (q_Format Q (quantityFromValue Q v unit) = BinarySI) = (unit = CapacityUnitMiB)"
  by (simp add: quantityFromValue_def quantity_okD)

lemma apiQuantityValue_published:
  assumes "quantity_ok Q" and "unit_range unit v"
  shows "apiQuantityValue Q (Some (quantityFromValue Q v unit)) (published_unit unit) = v"
  using quantity_value_roundtrip[OF assms]
  by (simp add: apiQuantityValue_def quantityValue_def published_unit_def unit_defs split: if_splits)

lemma capacity_roundtrip:
  assumes "quantity_ok Q" and "capacity_publishable v"
  shows "capacityValueFromQuantity Q (dc_Value (render_capacity Q v)) (dc_RequestPolicy (render_capacity Q v)) =
    v\<lparr> cv_Unit := published_unit (cv_Unit v),
       cv_Policy := map_option (\<lambda>p. p\<lparr> cp_Unit := published_unit (cv_Unit v) \<rparr>) (cv_Policy v) \<rparr>"
proof -
  let ?q = "quantityFromValue Q (cv_Value v) (cv_Unit v)"
  have v: "(if cv_Unit v = CapacityUnitMiB then q_Value Q ?q sdiv (1024 * 1024) else q_Value Q ?q) = cv_Value v"
    using quantity_value_roundtrip[OF assms(1)] assms(2) by (simp add: capacity_publishable_def quantityValue_def)
  have u: "(if cv_Unit v = CapacityUnitMiB then CapacityUnitMiB else CapacityUnitCount) = published_unit (cv_Unit v)"
    by (simp add: published_unit_def)
  show ?thesis
  proof (cases "cv_Policy v")
    case None
    then show ?thesis
      using v u by (simp add: capacityValueFromQuantity_def render_capacity_def quantityFromCapacity_eq
          published_format[OF assms(1)] Let_def)
  next
    case (Some p)
    then have p: "cp_Unit p = cv_Unit v"
        "\<And>x. x \<in> {cp_Default p, cp_Min p, cp_Max p, cp_Step p} \<Longrightarrow>
          apiQuantityValue Q (Some (quantityFromValue Q x (cv_Unit v))) (published_unit (cv_Unit v)) = x"
      using assms(2) apiQuantityValue_published[OF assms(1)] by (auto simp: capacity_publishable_def)
    then show ?thesis
      using Some v u by (simp add: capacityValueFromQuantity_def render_capacity_def quantityFromCapacity_eq
          quantityPtrFromCapacity_def published_format[OF assms(1)] Let_def)
  qed
qed

lemma counters_roundtrip:
  assumes "quantity_ok Q" and "list_all (\<lambda>(key, v). counter_publishable v) m"
  shows "toCounters Q (renderCounters Q m) =
    map (\<lambda>(key, val). (key, val\<lparr> ctr_Unit := published_unit (ctr_Unit val) \<rparr>)) m"
proof -
  have "counterValueFromQuantity Q (quantityFromValue Q (ctr_Value v) (ctr_Unit v)) =
      v\<lparr> ctr_Unit := published_unit (ctr_Unit v) \<rparr>" if "counter_publishable v" for v
    using that quantity_value_roundtrip[OF assms(1), of "ctr_Unit v" "ctr_Value v"] published_format[OF assms(1)]
    by (auto simp: counterValueFromQuantity_def published_unit_def unit_defs quantityValue_def
        counter_publishable_def split: if_splits)
  then show ?thesis
    using assms(2) by (auto simp: toCounters_def renderCounters_def quantityFromCounter_eq list_all_iff)
qed

lemma attributes_roundtrip: "toAttributes (RenderAttributes attrs) = attrs"
  by (auto simp: toAttributes_def RenderAttributes_def intro!: map_idI)

text \<open>
  Which part of a device a node shows depends on the features the API server supports: without consumable
  capacity neither capacities nor multiple allocations are published, without binding conditions neither
  list of conditions is.
\<close>

definition visible_spec :: "DeviceRenderOptions \<Rightarrow> DeviceSpec \<Rightarrow> DeviceSpec" where
  "visible_spec opts spec = spec
     \<lparr> ds_Capacity := (if ro_IncludeCapacity opts then ds_Capacity spec else []),
       ds_AllowMultipleAllocations := (ro_IncludeMultiAllocations opts \<and> ds_AllowMultipleAllocations spec),
       ds_BindingConditions := (if ro_IncludeBindingConditions opts then ds_BindingConditions spec else []),
       ds_BindingFailureConditions :=
         (if ro_IncludeBindingConditions opts then ds_BindingFailureConditions spec else []) \<rparr>"

lemma capacities_roundtrip:
  assumes "quantity_ok Q" and "spec_publishable spec"
  shows "toCapacities Q (RenderCapacities Q (ds_Capacity spec)) = ds_Capacity (published_spec spec)"
  using assms(2) capacity_roundtrip[OF assms(1)]
  by (auto simp: toCapacities_def RenderCapacities_def published_spec_def spec_publishable_def list_all_iff)

lemma consumes_roundtrip:
  assumes "quantity_ok Q" and "spec_publishable spec"
  shows "toConsumes Q (renderConsumes Q (ds_Consumes spec)) = ds_Consumes (published_spec spec)"
  using assms(2) counters_roundtrip[OF assms(1)]
  by (auto simp: toConsumes_def renderConsumes_def published_spec_def spec_publishable_def list_all_iff)

text \<open>
  \<^bold>\<open>C10.\<close> What the node publishes is what the allocator reads: for every choice of the render options,
  rendering a device and converting it back gives the part of the device that the options show
  (\<^const>\<open>visible_spec\<close>: capacities, multiple allocations and binding conditions only where they are
  included), up to the unit of percentages, which become plain counts, and the default failure condition of
  a device with binding conditions. The numbers shown must not wrap around when MiB are written as bytes,
  and a request policy must be in the unit of its capacity (\<^const>\<open>spec_publishable\<close>).
\<close>

theorem toDeviceSpec_render:
  assumes "quantity_ok Q" and "spec_publishable (visible_spec opts spec)"
  shows "toDeviceSpec Q (renderDeviceWithOptions Q spec opts) = published_spec (visible_spec opts spec)"
proof (rule DeviceSpec.equality)
  let ?v = "visible_spec opts spec"
  let ?d = "renderDeviceWithOptions Q spec opts"
  have "dv_Capacity ?d = RenderCapacities Q (ds_Capacity ?v)"
    by (simp add: renderDeviceWithOptions_def visible_spec_def RenderCapacities_def)
  then show "ds_Capacity (toDeviceSpec Q ?d) = ds_Capacity (published_spec ?v)"
    using capacities_roundtrip[OF assms] by (simp add: toDeviceSpec_def)
  have "dv_ConsumesCounters ?d = renderConsumes Q (ds_Consumes ?v)"
    by (simp add: renderDeviceWithOptions_def visible_spec_def renderConsumes_def)
  then show "ds_Consumes (toDeviceSpec Q ?d) = ds_Consumes (published_spec ?v)"
    using consumes_roundtrip[OF assms] by (simp add: toDeviceSpec_def)
qed (simp_all add: toDeviceSpec_def renderDeviceWithOptions_def attributes_roundtrip visible_spec_def published_spec_def)

definition ex_device_spec :: DeviceSpec where
  "ex_device_spec = Spec (NewGPUDevice ''gpu-0'' ''GPU-1'' []
     [(''memory'', \<lparr> cv_Value = 40960, cv_Unit = CapacityUnitMiB, cv_Policy = None \<rparr>)] [] True)"

theorem toDeviceSpec_render_witness:
  "toDeviceSpec int_quantity (renderDeviceWithOptions int_quantity ex_device_spec
      \<lparr> ro_IncludeCapacity = True, ro_IncludeMultiAllocations = True, ro_IncludeBindingConditions = True \<rparr>) =
    ex_device_spec \<and>
   toDeviceSpec int_quantity (renderDeviceWithOptions int_quantity ex_device_spec
      \<lparr> ro_IncludeCapacity = False, ro_IncludeMultiAllocations = False, ro_IncludeBindingConditions = False \<rparr>) =
    ex_device_spec\<lparr> ds_Capacity := [], ds_AllowMultipleAllocations := False, ds_BindingConditions := [],
      ds_BindingFailureConditions := [] \<rparr>"
proof -
  let ?on = "\<lparr> ro_IncludeCapacity = True, ro_IncludeMultiAllocations = True, ro_IncludeBindingConditions = True \<rparr>"
  let ?off = "\<lparr> ro_IncludeCapacity = False, ro_IncludeMultiAllocations = False, ro_IncludeBindingConditions = False \<rparr>"
  have "spec_publishable (visible_spec ?on ex_device_spec)" "spec_publishable (visible_spec ?off ex_device_spec)"
    by code_simp+
  moreover have "published_spec (visible_spec ?on ex_device_spec) = ex_device_spec"
    "published_spec (visible_spec ?off ex_device_spec) =
      ex_device_spec\<lparr> ds_Capacity := [], ds_AllowMultipleAllocations := False, ds_BindingConditions := [],
      ds_BindingFailureConditions := [] \<rparr>"
    by code_simp+
  ultimately show ?thesis
    using toDeviceSpec_render[OF int_quantity_ok, of ?on ex_device_spec]
      toDeviceSpec_render[OF int_quantity_ok, of ?off ex_device_spec] by simp
qed

end
