(* ===== verification/K8sAllocator.thy ===== *)
theory K8sAllocator
  imports AllocatorService Render
begin

text \<open>
  From API objects to the allocator and back, \<open>pkg/dra/adapters/k8s/allocator/*.go\<close>: selecting the
  slices of the current generation of every complete pool, collecting candidates and counter sets,
  compiling the requests of a claim, and rendering the allocation result.

  The CEL compiler (\<open>k8s.io/dynamic-resource-allocation/cel\<close>), the UUID generator and the clock are
  parameters. As in \<open>AllocatorService\<close>, the order \<open>sort.Slice\<close> gives to equal keys is a parameter.
\<close>

section \<open>API types\<close>

record 'q ResourceSlice =
  rs_Name :: string
  rs_Driver :: string
  rs_PoolName :: string
  rs_Generation :: int64
  rs_ResourceSliceCount :: int64
  rs_NodeName :: "string option"
  rs_PerDeviceNodeSelection :: "bool option"
  rs_Devices :: "'q Device list"
  rs_SharedCounters :: "'q ApiCounterSet list"

type_synonym DeviceSelector = "string option"

record OpaqueDeviceConfiguration =
  od_Driver :: string
  od_Raw :: string

record DeviceClass =
  dcl_Name :: string
  dcl_Selectors :: "DeviceSelector list"
  dcl_Config :: "OpaqueDeviceConfiguration option list"
  dcl_ExtendedResourceName :: "string option"

record 'q ExactDeviceRequest =
  er_DeviceClassName :: string
  er_Selectors :: "DeviceSelector list"
  er_AllocationMode :: string
  er_Count :: int64
  er_AdminAccess :: "bool option"
  er_Capacity :: "(string, 'q) gomap option"

record 'q DeviceRequest =
  dr_Name :: string
  dr_Exactly :: "'q ExactDeviceRequest option"
  dr_FirstAvailable :: "string list"

record DeviceClaimConfiguration =
  cc_Requests :: "string list"
  cc_Opaque :: "OpaqueDeviceConfiguration option"

datatype AllocationConfigSource = AllocationConfigSourceClaim | AllocationConfigSourceClass | AllocationConfigSourceOther string

record DeviceAllocationConfiguration =
  dac_Source :: AllocationConfigSource
  dac_Requests :: "string list"
  dac_Opaque :: "OpaqueDeviceConfiguration option"

record 'q DeviceRequestAllocationResult =
  ra_Request :: string
  ra_Driver :: string
  ra_Pool :: string
  ra_Device :: string
  ra_ShareID :: "string option"
  ra_ConsumedCapacity :: "(string, 'q) gomap"
  ra_BindingConditions :: "string list"
  ra_BindingFailureConditions :: "string list"

record ('q, 't) ApiAllocationResult =
  aa_Results :: "'q DeviceRequestAllocationResult list"
  aa_Config :: "DeviceAllocationConfiguration list"
  aa_NodeSelector :: "string option"
  aa_AllocationTimestamp :: "'t option"

record ('q, 't) ResourceClaim =
  cl_Namespace :: string
  cl_Name :: string
  cl_UID :: string
  cl_Requests :: "'q DeviceRequest list"
  cl_Constraints :: "string list"
  cl_Config :: "DeviceClaimConfiguration list"
  cl_Allocation :: "('q, 't) ApiAllocationResult option"

section \<open>Pools\<close>

record 'q poolGen =
  pg_expected :: int64
  pg_slices :: "'q ResourceSlice list"

type_synonym 'q pools = "(string, (int64, 'q poolGen) gomap) gomap"

fun pool_loop :: "string \<Rightarrow> 'q ResourceSlice list \<Rightarrow> 'q pools \<Rightarrow> 'q pools" where
  "pool_loop driverName [] pools = pools"
| "pool_loop driverName (slice # rest) pools =
     (if rs_Driver slice \<noteq> driverName then pool_loop driverName rest pools
      else if rs_PoolName slice = [] then pool_loop driverName rest pools
      else if rs_ResourceSliceCount slice < 1 then pool_loop driverName rest pools
      else
        let gens = (case mget pools (rs_PoolName slice) of None \<Rightarrow> [] | Some g \<Rightarrow> g);
            entry = (case mget gens (rs_Generation slice) of
                       None \<Rightarrow> \<lparr> pg_expected = rs_ResourceSliceCount slice, pg_slices = [] \<rparr>
                     | Some e \<Rightarrow> e);
            entry = entry\<lparr> pg_slices := pg_slices entry @ [slice] \<rparr>
        in pool_loop driverName rest
             (mput (rs_PoolName slice) (mput (rs_Generation slice) entry gens) pools))"

fun max_entry ::
  "(int64, 'q poolGen) gomap \<Rightarrow> int64 \<times> 'q poolGen option \<Rightarrow> int64 \<times> 'q poolGen option" where
  "max_entry [] best = best"
| "max_entry ((gen, data) # rest) best =
     (if gen \<ge> fst best then max_entry rest (gen, Some data) else max_entry rest best)"

definition pool_valid :: "(int64, 'q poolGen) gomap \<Rightarrow> 'q ResourceSlice list" where
  "pool_valid gens =
     (case snd (max_entry gens (0, None)) of
        None \<Rightarrow> []
      | Some data \<Rightarrow> if int (length (pg_slices data)) \<noteq> pg_expected data then [] else pg_slices data)"

type_synonym 'q slice_sort = "'q ResourceSlice list \<Rightarrow> 'q ResourceSlice list"

definition filterPoolSlices ::
  "'q slice_sort \<Rightarrow> string \<Rightarrow> 'q ResourceSlice list \<Rightarrow> 'q ResourceSlice list" where
  "filterPoolSlices sorter driverName slices =
     sorter (concat (map (\<lambda>(pool, gens). pool_valid gens) (pool_loop driverName slices [])))"

definition sliceNodeName :: "'q ResourceSlice \<Rightarrow> string option" where
  "sliceNodeName slice =
     (case rs_NodeName slice of
        Some n \<Rightarrow> if n \<noteq> [] then Some n else None
      | None \<Rightarrow> None)"

definition deviceNodeName :: "'q ResourceSlice \<Rightarrow> 'q Device \<Rightarrow> string option" where
  "deviceNodeName slice device =
     (case rs_NodeName slice of
        Some n \<Rightarrow>
          if n \<noteq> [] then Some n
          else if rs_PerDeviceNodeSelection slice = Some True then
            (case dv_NodeName device of Some m \<Rightarrow> if m \<noteq> [] then Some m else None | None \<Rightarrow> None)
          else None
      | None \<Rightarrow>
          if rs_PerDeviceNodeSelection slice = Some True then
            (case dv_NodeName device of Some m \<Rightarrow> if m \<noteq> [] then Some m else None | None \<Rightarrow> None)
          else None)"

section \<open>Candidates and counter sets\<close>

definition slice_candidate :: "'q quantity_api \<Rightarrow> 'q ResourceSlice \<Rightarrow> 'q Device \<Rightarrow> CandidateDevice option" where
  "slice_candidate Q slice device =
     (case deviceNodeName slice device of
        None \<Rightarrow> None
      | Some nodeName \<Rightarrow> Some
          \<lparr> cd_Key = \<lparr> dk_Driver = rs_Driver slice, dk_Pool = rs_PoolName slice, dk_Device = dv_Name device \<rparr>,
            cd_Driver = rs_Driver slice, cd_Pool = rs_PoolName slice, cd_NodeName = nodeName,
            cd_Spec = toDeviceSpec Q device \<rparr>)"

definition BuildCandidates ::
  "'q quantity_api \<Rightarrow> 'q slice_sort \<Rightarrow> device_sort \<Rightarrow> string \<Rightarrow> 'q ResourceSlice list \<Rightarrow> CandidateDevice list" where
  "BuildCandidates Q slice_sorter sorter driverName slices =
     sorter (concat (map (\<lambda>slice. List.map_filter (slice_candidate Q slice) (rs_Devices slice))
       (filterPoolSlices slice_sorter driverName slices)))"

fun counter_sets_loop ::
  "'q quantity_api \<Rightarrow> 'q ApiCounterSet list \<Rightarrow> (string, CounterSet) gomap \<Rightarrow> (string, CounterSet) gomap" where
  "counter_sets_loop Q [] m = m"
| "counter_sets_loop Q (s # rest) m =
     (if xs_Name s = [] then counter_sets_loop Q rest m
      else counter_sets_loop Q rest (mput (xs_Name s) (toCounterSet Q s) m))"

fun inventory_loop ::
  "'q quantity_api \<Rightarrow> 'q ResourceSlice list \<Rightarrow> CounterSetInventory \<Rightarrow> CounterSetInventory" where
  "inventory_loop Q [] out = out"
| "inventory_loop Q (slice # rest) out =
     (if rs_SharedCounters slice = [] then inventory_loop Q rest out
      else (case sliceNodeName slice of
              None \<Rightarrow> inventory_loop Q rest out
            | Some nodeName \<Rightarrow>
                inventory_loop Q rest
                  (mput nodeName
                     (counter_sets_loop Q (rs_SharedCounters slice)
                        (case mget out nodeName of None \<Rightarrow> [] | Some m \<Rightarrow> m)) out)))"

definition BuildCounterSets ::
  "'q quantity_api \<Rightarrow> 'q slice_sort \<Rightarrow> string \<Rightarrow> 'q ResourceSlice list \<Rightarrow> CounterSetInventory" where
  "BuildCounterSets Q slice_sorter driverName slices =
     inventory_loop Q (filterPoolSlices slice_sorter driverName slices) []"

section \<open>Requests\<close>

record 'q CelDevice =
  ce_Driver :: string
  ce_AllowMultipleAllocations :: bool
  ce_Attributes :: "(string, DeviceAttribute) gomap"
  ce_Capacity :: "(string, 'q DeviceCapacity) gomap"

record ('p, 'q) cel_api =
  cel_Compile :: "string \<Rightarrow> string + 'p"
  cel_DeviceMatches :: "'p \<Rightarrow> 'q CelDevice \<Rightarrow> string + bool"

datatype selector_error = OnlyCEL | InvalidSelector string string

definition quoted :: "string \<Rightarrow> string" where
  "quoted s = CHR 0x22 # s @ [CHR 0x22]"

text \<open>\<open>celSelector.Match\<close> as the selector function it is used as.\<close>

definition celSelector_Match ::
  "'q quantity_api \<Rightarrow> ('p, 'q) cel_api \<Rightarrow> string \<Rightarrow> 'p \<Rightarrow> Selector" where
  "celSelector_Match Q cel expr program = (\<lambda>driver spec.
     let inp = \<lparr> ce_Driver = driver, ce_AllowMultipleAllocations = ds_AllowMultipleAllocations spec,
                 ce_Attributes = RenderAttributes (ds_Attributes spec),
                 ce_Capacity = RenderCapacities Q (ds_Capacity spec) \<rparr> in
     case cel_DeviceMatches cel program inp of
       Inl err \<Rightarrow> Inl (''selector '' @ quoted expr @ '' failed: '' @ err)
     | Inr ok \<Rightarrow> Inr ok)"

definition compile_selector ::
  "'q quantity_api \<Rightarrow> ('p, 'q) cel_api \<Rightarrow> DeviceSelector \<Rightarrow> selector_error + Selector" where
  "compile_selector Q cel sel =
     (case sel of
        None \<Rightarrow> Inl OnlyCEL
      | Some expr \<Rightarrow>
          if expr = [] then Inl OnlyCEL
          else (case cel_Compile cel expr of
                  Inl err \<Rightarrow> Inl (InvalidSelector expr err)
                | Inr program \<Rightarrow> Inr (celSelector_Match Q cel expr program)))"

definition compileSelectors ::
  "'q quantity_api \<Rightarrow> ('p, 'q) cel_api \<Rightarrow> DeviceSelector list \<Rightarrow> selector_error + Selector list" where
  "compileSelectors Q cel selectors =
     (if selectors = [] then Inr [] else map_res (compile_selector Q cel) selectors)"

datatype request_error =
    ConstraintsUnsupported
  | FirstAvailableUnsupported
  | EmptyDeviceClassName string
  | AdminAccessUnsupported string
  | DeviceClassNotFound string
  | AllocationModeUnsupported string string
  | CountNotPositive string
  | SelectorFailed string selector_error

definition capacityRequests :: "(string, 'q) gomap \<Rightarrow> (string, 'q) gomap" where
  "capacityRequests inp = (if inp = [] then [] else map (\<lambda>(name, val). (name, val)) inp)"

definition build_request ::
  "'q quantity_api \<Rightarrow> ('p, 'q) cel_api \<Rightarrow> (string, DeviceClass) gomap \<Rightarrow> 'q DeviceRequest \<Rightarrow>
   request_error + 'q Request" where
  "build_request Q cel classes req =
     (case dr_Exactly req of
        None \<Rightarrow> Inl FirstAvailableUnsupported
      | Some e \<Rightarrow>
          if er_DeviceClassName e = [] then Inl (EmptyDeviceClassName (dr_Name req))
          else if er_AdminAccess e = Some True then Inl (AdminAccessUnsupported (dr_Name req))
          else
            let capacityReq =
                  (case er_Capacity e of
                     None \<Rightarrow> None
                   | Some m \<Rightarrow> if m = [] then None else Some \<lparr> cr_Requests = capacityRequests m \<rparr>)
            in (case mget classes (er_DeviceClassName e) of
                  None \<Rightarrow> Inl (DeviceClassNotFound (er_DeviceClassName e))
                | Some c \<Rightarrow>
                    let mode = (if er_AllocationMode e = [] then ''ExactCount'' else er_AllocationMode e) in
                    if mode \<noteq> ''ExactCount'' then Inl (AllocationModeUnsupported (dr_Name req) mode)
                    else
                      let n = (if er_Count e = 0 then 1 else er_Count e) in
                      if n < 1 then Inl (CountNotPositive (dr_Name req))
                      else (case compileSelectors Q cel (dcl_Selectors c @ er_Selectors e) of
                              Inl err \<Rightarrow> Inl (SelectorFailed (dr_Name req) err)
                            | Inr selectors \<Rightarrow> Inr
                                \<lparr> rq_Name = dr_Name req, rq_Count = n, rq_Selectors = selectors,
                                  rq_Capacity = capacityReq \<rparr>)))"

definition BuildRequests ::
  "'q quantity_api \<Rightarrow> ('p, 'q) cel_api \<Rightarrow> ('q, 't) ResourceClaim option \<Rightarrow> (string, DeviceClass) gomap \<Rightarrow>
   request_error + 'q Request list" where
  "BuildRequests Q cel claim classes =
     (case claim of
        None \<Rightarrow> Inr []
      | Some c \<Rightarrow>
          if cl_Constraints c \<noteq> [] then Inl ConstraintsUnsupported
          else map_res (build_request Q cel classes) (cl_Requests c))"

section \<open>The allocation result\<close>

fun class_configs ::
  "(string, DeviceClass) gomap \<Rightarrow> 'q DeviceRequest list \<Rightarrow> request_error + DeviceAllocationConfiguration list" where
  "class_configs classes [] = Inr []"
| "class_configs classes (req # rest) =
     (case dr_Exactly req of
        None \<Rightarrow> class_configs classes rest
      | Some e \<Rightarrow>
          if er_DeviceClassName e = [] then class_configs classes rest
          else (case mget classes (er_DeviceClassName e) of
                  None \<Rightarrow> Inl (DeviceClassNotFound (er_DeviceClassName e))
                | Some c \<Rightarrow>
                    (case class_configs classes rest of
                       Inl err \<Rightarrow> Inl err
                     | Inr cfg \<Rightarrow> Inr
                         (map (\<lambda>o'. \<lparr> dac_Source = AllocationConfigSourceClass, dac_Requests = [dr_Name req],
                                      dac_Opaque = o' \<rparr>) (dcl_Config c) @ cfg))))"

definition buildAllocationConfig ::
  "('q, 't) ResourceClaim option \<Rightarrow> (string, DeviceClass) gomap \<Rightarrow>
   request_error + DeviceAllocationConfiguration list" where
  "buildAllocationConfig claim classes =
     (case claim of
        None \<Rightarrow> Inr []
      | Some c \<Rightarrow>
          if cl_Requests c = [] then Inr []
          else
            let claimCfg = map (\<lambda>k. \<lparr> dac_Source = AllocationConfigSourceClaim, dac_Requests = cc_Requests k,
                                      dac_Opaque = cc_Opaque k \<rparr>) (cl_Config c)
            in (case class_configs classes (cl_Requests c) of
                  Inl err \<Rightarrow> Inl err
                | Inr cfg \<Rightarrow> Inr (claimCfg @ cfg)))"

text \<open>The node selector matches the one node by its \<open>metadata.name\<close> and is modelled by that name.\<close>

definition nodeSelectorForNode :: "string \<Rightarrow> string option" where
  "nodeSelectorForNode nodeName = (if nodeName = [] then None else Some nodeName)"

definition consumedCapacity :: "(string, 'q) gomap \<Rightarrow> (string, 'q) gomap" where
  "consumedCapacity inp = (if inp = [] then [] else map (\<lambda>(key, val). (key, val)) inp)"

record AllocationOptions =
  ao_IncludeBindingConditions :: bool
  ao_IncludeAllocationTimestamp :: bool

text \<open>\<open>newUUID i\<close> is the result of the \<open>uuid.NewUUID()\<close> call for the \<open>i\<close>-th device.\<close>

definition render_result ::
  "AllocationOptions \<Rightarrow> (nat \<Rightarrow> string) \<Rightarrow> nat \<Rightarrow> 'q AllocatedDevice \<Rightarrow> 'q DeviceRequestAllocationResult" where
  "render_result opts newUUID i dev =
     \<lparr> ra_Request = ad_Request dev, ra_Driver = ad_Driver dev, ra_Pool = ad_Pool dev, ra_Device = ad_Device dev,
       ra_ShareID =
         (if ad_ConsumedCapacity dev \<noteq> [] then
            Some (if ad_ShareID dev \<noteq> [] then ad_ShareID dev else newUUID i) else None),
       ra_ConsumedCapacity = (if ad_ConsumedCapacity dev \<noteq> [] then consumedCapacity (ad_ConsumedCapacity dev) else []),
       ra_BindingConditions =
         (if ao_IncludeBindingConditions opts then cloneStrings (ad_BindingConditions dev) else []),
       ra_BindingFailureConditions =
         (if ao_IncludeBindingConditions opts then cloneStrings (ad_BindingFailureConditions dev) else []) \<rparr>"

definition BuildAllocationResultWithOptions ::
  "(nat \<Rightarrow> string) \<Rightarrow> 't \<Rightarrow> ('q, 't) ResourceClaim option \<Rightarrow> 'q AllocationResult option \<Rightarrow>
   (string, DeviceClass) gomap \<Rightarrow> AllocationOptions \<Rightarrow> request_error + ('q, 't) ApiAllocationResult option" where
  "BuildAllocationResultWithOptions newUUID now claim alloc classes opts =
     (case (claim, alloc) of
        (Some c, Some a) \<Rightarrow>
          (case buildAllocationConfig claim classes of
             Inl err \<Rightarrow> Inl err
           | Inr config \<Rightarrow> Inr (Some
               \<lparr> aa_Results = map (\<lambda>(i, dev). render_result opts newUUID i dev) (enumerate 0 (ar_Devices a)),
                 aa_Config = config, aa_NodeSelector = nodeSelectorForNode (ar_NodeName a),
                 aa_AllocationTimestamp = (if ao_IncludeAllocationTimestamp opts then Some now else None) \<rparr>))
      | _ \<Rightarrow> Inr None)"

end
