(* ===== verification/PoolFilter.thy ===== *)
theory PoolFilter
  imports K8sAllocator
begin

text \<open>
  What the conversions of \<open>K8sAllocator\<close> guarantee to the allocator: only the newest generation of a
  pool is used and only when it is complete, candidates are well formed, and compiled requests carry the
  claim's requests in order with a positive count.
\<close>

section \<open>The slices of the current generation\<close>

definition accepted :: "string \<Rightarrow> 'q ResourceSlice \<Rightarrow> bool" where
  "accepted driverName s \<longleftrightarrow> rs_Driver s = driverName \<and> rs_PoolName s \<noteq> [] \<and> 1 \<le> rs_ResourceSliceCount s"

definition pool_slices :: "string \<Rightarrow> 'q ResourceSlice list \<Rightarrow> string \<Rightarrow> int64 \<Rightarrow> 'q ResourceSlice list" where
  "pool_slices driverName slices pool gen =
     filter (\<lambda>s. accepted driverName s \<and> rs_PoolName s = pool \<and> rs_Generation s = gen) slices"

definition pool_entry :: "string \<Rightarrow> 'q ResourceSlice list \<Rightarrow> string \<Rightarrow> int64 \<Rightarrow> 'q poolGen option" where
  "pool_entry driverName slices pool gen =
     (let ps = pool_slices driverName slices pool gen in
      if ps = [] then None
      else Some \<lparr> pg_expected = rs_ResourceSliceCount (hd ps), pg_slices = ps \<rparr>)"

definition gens_of :: "'q pools \<Rightarrow> string \<Rightarrow> (int64, 'q poolGen) gomap" where
  "gens_of pools p = (case mget pools p of None \<Rightarrow> [] | Some g \<Rightarrow> g)"

definition pool_inv :: "string \<Rightarrow> 'q ResourceSlice list \<Rightarrow> 'q pools \<Rightarrow> bool" where
  "pool_inv driverName seen pools \<longleftrightarrow> mwf pools \<and>
     (\<forall>p. mwf (gens_of pools p) \<and> (\<forall>g. mget (gens_of pools p) g = pool_entry driverName seen p g))"

lemma pool_inv_empty [simp]: "pool_inv d [] []"
  by (simp add: pool_inv_def gens_of_def pool_entry_def pool_slices_def)

lemma pool_inv_skip: "pool_inv d seen pools \<Longrightarrow> \<not> accepted d s \<Longrightarrow> pool_inv d (seen @ [s]) pools"
  by (simp add: pool_inv_def pool_entry_def pool_slices_def)

lemma pool_entry_snoc:
  assumes "accepted d s"
  shows "pool_entry d (seen @ [s]) p g =
    (if p = rs_PoolName s \<and> g = rs_Generation s then
       Some (let e = (case pool_entry d seen p g of
                        None \<Rightarrow> \<lparr> pg_expected = rs_ResourceSliceCount s, pg_slices = [] \<rparr> | Some e \<Rightarrow> e)
             in e\<lparr> pg_slices := pg_slices e @ [s] \<rparr>)
     else pool_entry d seen p g)"
  using assms by (auto simp: pool_entry_def pool_slices_def Let_def)

lemma gens_of_mput [simp]: "gens_of (mput p g pools) q = (if q = p then g else gens_of pools q)"
  by (simp add: gens_of_def)

lemma pool_inv_add:
  assumes "pool_inv d seen pools" and "accepted d s"
  shows "pool_inv d (seen @ [s])
    (let gens = gens_of pools (rs_PoolName s);
         entry = (case mget gens (rs_Generation s) of
                    None \<Rightarrow> \<lparr> pg_expected = rs_ResourceSliceCount s, pg_slices = [] \<rparr> | Some e \<Rightarrow> e);
         entry = entry\<lparr> pg_slices := pg_slices entry @ [s] \<rparr>
     in mput (rs_PoolName s) (mput (rs_Generation s) entry gens) pools)"
  using assms by (auto simp: pool_inv_def pool_entry_snoc Let_def)

lemma pool_loop_inv: "pool_inv d seen pools \<Longrightarrow> pool_inv d (seen @ slices) (pool_loop d slices pools)"
proof (induction slices arbitrary: seen pools)
  case (Cons s rest)
  show ?case
  proof (cases "accepted d s")
    case True
    then show ?thesis
      using Cons.IH[OF pool_inv_add[OF Cons.prems True]]
      by (auto simp: accepted_def gens_of_def Let_def)
  next
    case False
    then have "pool_loop d (s # rest) pools = pool_loop d rest pools"
      by (auto simp: accepted_def)
    then show ?thesis
      using Cons.IH[OF pool_inv_skip[OF Cons.prems False]] by simp
  qed
qed simp

lemma max_entry_cases:
  "(max_entry gens best = best \<and> (\<forall>g \<in> set (mkeys gens). g < fst best)) \<or>
   (\<exists>g e. max_entry gens best = (g, Some e) \<and> (g, e) \<in> set gens \<and> fst best \<le> g \<and> (\<forall>h \<in> set (mkeys gens). h \<le> g))"
proof (induction gens best rule: max_entry.induct)
  case (2 gen data rest best)
  show ?case
  proof (cases "gen \<ge> fst best")
    case True
    from "2.IH"(1)[OF True] True show ?thesis by (fastforce intro: less_imp_le)
  next
    case False
    from "2.IH"(2)[OF False] False show ?thesis by auto
  qed
qed simp

text \<open>The slices that count: of the newest generation of their pool, which must be complete.\<close>

definition current_slice :: "string \<Rightarrow> 'q ResourceSlice list \<Rightarrow> 'q ResourceSlice \<Rightarrow> bool" where
  "current_slice driverName slices s \<longleftrightarrow> accepted driverName s \<and> 0 \<le> rs_Generation s
     \<and> (\<forall>t \<in> set slices. accepted driverName t \<and> rs_PoolName t = rs_PoolName s \<longrightarrow> rs_Generation t \<le> rs_Generation s)
     \<and> (let ps = pool_slices driverName slices (rs_PoolName s) (rs_Generation s)
        in int (length ps) = rs_ResourceSliceCount (hd ps))"

lemma pool_entry_key:
  "t \<in> set slices \<Longrightarrow> accepted d t \<Longrightarrow> pool_entry d slices (rs_PoolName t) (rs_Generation t) \<noteq> None"
  by (auto simp: pool_entry_def pool_slices_def Let_def filter_empty_conv)

lemma pool_valid_current:
  assumes "pool_inv d slices pools"
  shows "pool_valid (gens_of pools p) = filter (\<lambda>s. current_slice d slices s \<and> rs_PoolName s = p) slices"
proof -
  let ?gens = "gens_of pools p"
  have wf: "mwf ?gens" and get: "\<And>g. mget ?gens g = pool_entry d slices p g"
    using assms by (auto simp: pool_inv_def)
  have keys: "rs_Generation t \<in> set (mkeys ?gens)" if "t \<in> set slices" "accepted d t" "rs_PoolName t = p" for t
  proof -
    have "mget ?gens (rs_Generation t) \<noteq> None"
      using pool_entry_key[OF that(1,2)] that(3) get by simp
    then show ?thesis by (simp add: map_of_eq_None_iff)
  qed
  from max_entry_cases[of ?gens "(0, None)"] show ?thesis
  proof (elim disjE conjE exE)
    assume m: "max_entry ?gens (0, None) = (0, None)" "\<forall>g \<in> set (mkeys ?gens). g < fst (0, None)"
    have "\<not> (current_slice d slices s \<and> rs_PoolName s = p)" if "s \<in> set slices" for s
      using bspec[OF m(2) keys[OF that]] by (auto simp: current_slice_def)
    then show ?thesis by (simp add: pool_valid_def m(1))
  next
    fix g e
    assume m: "max_entry ?gens (0, None) = (g, Some e)" "(g, e) \<in> set ?gens"
      "fst (0 :: int, None) \<le> g" "\<forall>h \<in> set (mkeys ?gens). h \<le> g"
    have ent: "pool_entry d slices p g = Some e"
      using m(2) get mget_eq_in[OF wf] by metis
    then have e: "pg_slices e = pool_slices d slices p g" "pool_slices d slices p g \<noteq> []"
        "pg_expected e = rs_ResourceSliceCount (hd (pool_slices d slices p g))"
      by (auto simp: pool_entry_def Let_def split: if_splits)
    then obtain u where u: "u \<in> set slices" "accepted d u" "rs_PoolName u = p" "rs_Generation u = g"
      by (auto simp: pool_slices_def filter_empty_conv)
    have cur: "current_slice d slices s \<and> rs_PoolName s = p \<longleftrightarrow>
        accepted d s \<and> rs_PoolName s = p \<and> rs_Generation s = g
        \<and> int (length (pg_slices e)) = pg_expected e" if s: "s \<in> set slices" for s
      using keys s u m(3,4) e unfolding current_slice_def Let_def by fastforce
    show ?thesis
    proof (cases "int (length (pg_slices e)) = pg_expected e")
      case True
      then have "filter (\<lambda>s. current_slice d slices s \<and> rs_PoolName s = p) slices = pool_slices d slices p g"
        using cur by (auto simp: pool_slices_def intro: filter_cong)
      then show ?thesis using True e by (simp add: pool_valid_def m(1))
    next
      case False
      then show ?thesis using cur by (simp add: pool_valid_def m(1))
    qed
  qed
qed

lemma mset_filter_partition:
  "distinct ks \<Longrightarrow> (\<Sum>k\<leftarrow>ks. mset (filter (\<lambda>x. P x \<and> f x = k) xs)) = mset (filter (\<lambda>x. P x \<and> f x \<in> set ks) xs)"
proof (induction ks)
  case (Cons k ks)
  have "mset (filter (\<lambda>x. P x \<and> f x = k) xs) + mset (filter (\<lambda>x. P x \<and> f x \<in> set ks) xs) =
      mset (filter (\<lambda>x. P x \<and> f x \<in> set (k # ks)) xs)"
    using Cons.prems by (induction xs) auto
  then show ?case using Cons by simp
qed simp

lemma mset_filterPoolSlices:
  assumes "\<And>xs. mset (sorter xs) = mset xs"
  shows "mset (filterPoolSlices sorter driverName slices) = mset (filter (current_slice driverName slices) slices)"
proof -
  let ?pools = "pool_loop driverName slices []"
  have pinv: "pool_inv driverName slices ?pools"
    using pool_loop_inv[of driverName "[]" "[]" slices] by simp
  then have wf: "mwf ?pools" by (simp add: pool_inv_def)
  have valid: "pool_valid gens = filter (\<lambda>s. current_slice driverName slices s \<and> rs_PoolName s = p) slices"
    if "(p, gens) \<in> set ?pools" for p gens
  proof -
    have "gens_of ?pools p = gens"
      using that wf mget_eq_in[OF wf, of p gens] by (simp add: gens_of_def)
    then show ?thesis using pool_valid_current[OF pinv, of p] by simp
  qed
  have keys: "rs_PoolName s \<in> set (mkeys ?pools)" if "s \<in> set slices" "current_slice driverName slices s" for s
  proof (rule ccontr)
    assume "\<not> ?thesis"
    then have "gens_of ?pools (rs_PoolName s) = []"
      by (simp add: gens_of_def split: option.split) (metis image_eqI map_of_SomeD fst_conv)
    moreover have "pool_entry driverName slices (rs_PoolName s) (rs_Generation s) \<noteq> None"
      using that by (intro pool_entry_key) (auto simp: current_slice_def)
    ultimately show False
      using pinv by (metis pool_inv_def map_of.simps(1))
  qed
  have "mset (filterPoolSlices sorter driverName slices) =
      (\<Sum>x\<leftarrow>?pools. mset (pool_valid (snd x)))"
    by (simp add: filterPoolSlices_def assms mset_concat comp_def case_prod_beta)
  also have "\<dots> = (\<Sum>p\<leftarrow>mkeys ?pools. mset (filter (\<lambda>s. current_slice driverName slices s \<and> rs_PoolName s = p) slices))"
    unfolding map_map comp_def by (rule arg_cong[where f = sum_list], rule map_cong) (auto simp: valid)
  also have "\<dots> = mset (filter (\<lambda>s. current_slice driverName slices s \<and> rs_PoolName s \<in> set (mkeys ?pools)) slices)"
    by (rule mset_filter_partition[OF wf])
  also have "\<dots> = mset (filter (current_slice driverName slices) slices)"
    using keys by (intro arg_cong[where f = mset] filter_cong) auto
  finally show ?thesis .
qed

text \<open>
  The allocator only sees the newest generation of a pool, and only when all its slices are
  there: the slices \<open>filterPoolSlices\<close> returns are, with multiplicity, the slices of the driver whose
  generation is the largest of their pool (and not negative) and of which there are exactly as many as
  the first of them announces. A pool whose newest generation is incomplete is not used at all.
\<close>

theorem filterPoolSlices_current:
  assumes "\<And>xs. mset (sorter xs) = mset xs"
  shows "mset (filterPoolSlices sorter driverName slices) = mset (filter (current_slice driverName slices) slices)"
  using assms by (rule mset_filterPoolSlices)

section \<open>Candidates\<close>

lemma slice_candidate_Some:
  "slice_candidate Q slice device = Some c \<Longrightarrow>
   cd_Key c = \<lparr> dk_Driver = cd_Driver c, dk_Pool = cd_Pool c, dk_Device = ds_Name (cd_Spec c) \<rparr>
   \<and> cd_Driver c = rs_Driver slice \<and> cd_Pool c = rs_PoolName slice \<and> ds_Name (cd_Spec c) = dv_Name device
   \<and> cd_NodeName c \<noteq> []"
  by (auto simp: slice_candidate_def deviceNodeName_def toDeviceSpec_def split: option.splits if_splits)

text \<open>The names under which a slice publishes its devices.\<close>

definition slice_keys :: "'q ResourceSlice \<Rightarrow> (string \<times> string) list" where
  "slice_keys slice = map (\<lambda>d. (rs_PoolName slice, dv_Name d)) (rs_Devices slice)"

definition slice_candidates :: "'q quantity_api \<Rightarrow> 'q ResourceSlice \<Rightarrow> CandidateDevice list" where
  "slice_candidates Q slice = List.map_filter (slice_candidate Q slice) (rs_Devices slice)"

lemma slice_candidates_in:
  "c \<in> set (slice_candidates Q slice) \<Longrightarrow> \<exists>d \<in> set (rs_Devices slice). slice_candidate Q slice d = Some c"
  by (force simp: slice_candidates_def List.map_filter_def)

lemma slice_candidates_keys:
  "map (\<lambda>c. (cd_Pool c, ds_Name (cd_Spec c))) (slice_candidates Q slice) =
     map (\<lambda>d. (rs_PoolName slice, dv_Name d)) (filter (\<lambda>d. slice_candidate Q slice d \<noteq> None) (rs_Devices slice))"
proof -
  have "map (\<lambda>c. (cd_Pool c, ds_Name (cd_Spec c))) (List.map_filter (slice_candidate Q slice) xs) =
     map (\<lambda>d. (rs_PoolName slice, dv_Name d)) (filter (\<lambda>d. slice_candidate Q slice d \<noteq> None) xs)" for xs
    by (induction xs) (auto simp: List.map_filter_def dest: slice_candidate_Some)
  then show ?thesis by (simp only: slice_candidates_def)
qed

lemma distinct_submset:
  assumes "distinct ys" and "mset xs \<subseteq># mset ys"
  shows "distinct xs"
proof -
  have "Multiset.count (mset xs) a \<le> 1" for a
  proof -
    have "Multiset.count (mset ys) a \<le> 1"
      using assms(1) by (simp add: distinct_count_atmost_1)
    then show ?thesis
      using mset_subset_eq_count[OF assms(2), of a] by linarith
  qed
  then show ?thesis
    by (auto simp: distinct_count_atmost_1 not_in_iff intro!: order.antisym Suc_leI)
qed

lemma mset_concat_sub:
  "(\<And>x. x \<in> set xs \<Longrightarrow> mset (g x) \<subseteq># mset (f x)) \<Longrightarrow> mset (concat (map g xs)) \<subseteq># mset (concat (map f xs))"
  by (induction xs) (auto intro: subset_mset.add_mono)

lemma sorts_distinct:
  "mset (sorter xs) = mset xs \<Longrightarrow> distinct (map f (sorter xs)) = distinct (map f xs)"
  by (metis mset_map mset_eq_imp_distinct_iff)

lemma BuildCandidates_facts:
  assumes "\<And>xs. mset (slice_sorter xs) = mset xs" and "\<And>xs. mset (sorter xs) = mset xs"
    and "distinct (concat (map slice_keys (filterPoolSlices slice_sorter driverName slices)))"
  shows "candidates_wf (BuildCandidates Q slice_sorter sorter driverName slices)
    \<and> (\<forall>c \<in> set (BuildCandidates Q slice_sorter sorter driverName slices).
        cd_NodeName c \<noteq> [] \<and> cd_Driver c = driverName)"
proof -
  let ?valid = "filterPoolSlices slice_sorter driverName slices"
  let ?cs = "concat (map (slice_candidates Q) ?valid)"
  have BC: "BuildCandidates Q slice_sorter sorter driverName slices = sorter ?cs"
    by (simp add: BuildCandidates_def slice_candidates_def[abs_def])
  have set_eq: "set (BuildCandidates Q slice_sorter sorter driverName slices) = set ?cs"
    using BC assms(2) mset_eq_setD by metis
  have mem: "\<exists>slice \<in> set ?valid. \<exists>d. slice_candidate Q slice d = Some c" if "c \<in> set ?cs" for c
    using that slice_candidates_in by fastforce
  have "mset ?valid = mset (filter (current_slice driverName slices) slices)"
    by (rule mset_filterPoolSlices) (rule assms(1))
  then have drv: "rs_Driver s = driverName" if "s \<in> set ?valid" for s
    using that mset_eq_setD by (fastforce simp: current_slice_def accepted_def)
  have key: "cd_Key c = \<lparr> dk_Driver = cd_Driver c, dk_Pool = cd_Pool c, dk_Device = ds_Name (cd_Spec c) \<rparr>"
    "cd_NodeName c \<noteq> []" "cd_Driver c = driverName" if c: "c \<in> set ?cs" for c
    using mem[OF c] slice_candidate_Some drv by metis+
  have "distinct (concat (map (\<lambda>s. map (\<lambda>c. (cd_Pool c, ds_Name (cd_Spec c))) (slice_candidates Q s)) ?valid))"
    using assms(3)
    by (rule distinct_submset, intro mset_concat_sub)
       (simp add: slice_candidates_keys slice_keys_def image_mset_subseteq_mono)
  then have "distinct (map (\<lambda>c. (cd_Pool c, ds_Name (cd_Spec c))) ?cs)"
    by (simp add: map_concat comp_def)
  then have "distinct (map cd_Key ?cs)"
    using key(1) by (auto simp: distinct_map inj_on_def)
  then have "distinct (map cd_Key (BuildCandidates Q slice_sorter sorter driverName slices))"
    using BC sorts_distinct[of sorter ?cs cd_Key, OF assms(2)] by simp
  then show ?thesis
    using key set_eq by (auto simp: candidates_wf_def)
qed

lemmas BuildCandidates_candidates_wf = BuildCandidates_facts[THEN conjunct1]

text \<open>
  Candidates are well formed: if the current slices of the driver publish no device name twice
  within a pool, then the keys of the candidates are unique and consist of their driver, pool and name,
  every candidate has a node, and every one belongs to the driver. This is what the safety properties of
  the allocator ask of their input.
\<close>

lemma BuildCandidates_wf:
  assumes "\<And>xs. mset (slice_sorter xs) = mset xs" and "\<And>xs. mset (sorter xs) = mset xs"
    and "distinct (concat (map slice_keys (filterPoolSlices slice_sorter driverName slices)))"
  shows "candidates_wf (BuildCandidates Q slice_sorter sorter driverName slices)
    \<and> (\<forall>c \<in> set (BuildCandidates Q slice_sorter sorter driverName slices).
        cd_NodeName c \<noteq> [] \<and> cd_Driver c = driverName)"
  using assms by (rule BuildCandidates_facts)

section \<open>Requests\<close>

lemma build_request_ok:
  assumes "build_request Q cel classes req = Inr r"
  shows "rq_Name r = dr_Name req \<and> 1 \<le> rq_Count r \<and>
    (\<exists>e c sels. dr_Exactly req = Some e \<and> mget classes (er_DeviceClassName e) = Some c
      \<and> compileSelectors Q cel (dcl_Selectors c @ er_Selectors e) = Inr (rq_Selectors r)
      \<and> rq_Count r = (if er_Count e = 0 then 1 else er_Count e)
      \<and> rq_Capacity r = (case er_Capacity e of None \<Rightarrow> None | Some m \<Rightarrow> if m = [] then None else Some \<lparr> cr_Requests = m \<rparr>))"
  using assms
  by (auto simp: build_request_def Let_def capacityRequests_def split: option.splits if_splits sum.splits)

definition request_of :: "'q quantity_api \<Rightarrow> ('p, 'q) cel_api \<Rightarrow> (string, DeviceClass) gomap \<Rightarrow> 'q DeviceRequest \<Rightarrow> 'q Request \<Rightarrow> bool" where
  "request_of Q cel classes req r \<longleftrightarrow> rq_Name r = dr_Name req \<and> 1 \<le> rq_Count r \<and>
    (\<exists>e c. dr_Exactly req = Some e \<and> mget classes (er_DeviceClassName e) = Some c
      \<and> compileSelectors Q cel (dcl_Selectors c @ er_Selectors e) = Inr (rq_Selectors r)
      \<and> rq_Count r = (if er_Count e = 0 then 1 else er_Count e)
      \<and> rq_Capacity r = (case er_Capacity e of None \<Rightarrow> None | Some m \<Rightarrow> if m = [] then None else Some \<lparr> cr_Requests = m \<rparr>))"

text \<open>
  A compiled claim asks for what the claim asks for: when \<open>BuildRequests\<close> succeeds, the claim has
  no constraints, and its requests come out in order, each with the selectors of its class followed by its
  own, a count of at least one (one where none is given) and its capacity requests.
\<close>

lemma BuildRequests_sound:
  assumes "BuildRequests Q cel (Some claim) classes = Inr reqs"
  shows "cl_Constraints claim = [] \<and> list_all2 (request_of Q cel classes) (cl_Requests claim) reqs"
proof -
  have "map_res (build_request Q cel classes) (cl_Requests claim) = Inr reqs" "cl_Constraints claim = []"
    using assms by (auto simp: BuildRequests_def split: if_splits)
  moreover from this(1) have "list_all2 (\<lambda>req r. build_request Q cel classes req = Inr r) (cl_Requests claim) reqs"
    by (rule map_res_list_all2)
  ultimately show ?thesis
    by (auto simp: request_of_def intro!: list_all2_mono[OF map_res_list_all2] dest!: build_request_ok)
qed

section \<open>Examples\<close>

definition ex_device :: "string \<Rightarrow> (int64 \<times> qformat) Device" where
  "ex_device name = renderDeviceWithOptions int_quantity (cd_Spec ex_shared)
     \<lparr> ro_IncludeCapacity = True, ro_IncludeMultiAllocations = True, ro_IncludeBindingConditions = True \<rparr>\<lparr> dv_Name := name \<rparr>"

definition ex_slice :: "string \<Rightarrow> int64 \<Rightarrow> string \<Rightarrow> (int64 \<times> qformat) ResourceSlice" where
  "ex_slice name gen dev =
     \<lparr> rs_Name = name, rs_Driver = ''gpu'', rs_PoolName = ''n1'', rs_Generation = gen, rs_ResourceSliceCount = 2,
       rs_NodeName = Some ''n1'', rs_PerDeviceNodeSelection = None, rs_Devices = [ex_device dev], rs_SharedCounters = [] \<rparr>"

definition ex_slices :: "(int64 \<times> qformat) ResourceSlice list" where
  "ex_slices = [ex_slice ''a'' 1 ''gpu-0'', ex_slice ''b'' 2 ''gpu-0'', ex_slice ''c'' 2 ''gpu-1'']"

theorem filterPoolSlices_current_witness:
  "mset (filterPoolSlices (\<lambda>xs. xs) ''gpu'' ex_slices) = {# ex_slice ''b'' 2 ''gpu-0'', ex_slice ''c'' 2 ''gpu-1'' #}"
proof -
  have "filter (current_slice ''gpu'' ex_slices) ex_slices = [ex_slice ''b'' 2 ''gpu-0'', ex_slice ''c'' 2 ''gpu-1'']"
    by (simp add: ex_slices_def current_slice_def accepted_def pool_slices_def ex_slice_def)
  then show ?thesis
    using filterPoolSlices_current[of "\<lambda>xs. xs" "''gpu''" ex_slices] by simp
qed

lemma BuildCandidates_wf_witness:
  "candidates_wf (BuildCandidates int_quantity (\<lambda>xs. xs) sort_by_name ''gpu'' ex_slices)"
proof -
  have "filterPoolSlices (\<lambda>xs. xs) ''gpu'' ex_slices = [ex_slice ''b'' 2 ''gpu-0'', ex_slice ''c'' 2 ''gpu-1'']"
    by (simp add: filterPoolSlices_def ex_slices_def ex_slice_def pool_valid_def)
  then have d: "distinct (concat (map slice_keys (filterPoolSlices (\<lambda>xs. xs) ''gpu'' ex_slices)))"
    by (simp add: slice_keys_def ex_slice_def ex_device_def)
  have m: "\<And>xs. mset (sort_by_name xs) = mset xs"
    using sort_by_name_sorts by (simp add: sorts_devices_def)
  show ?thesis
    using BuildCandidates_wf[of "\<lambda>xs. xs" sort_by_name "''gpu''" ex_slices int_quantity] d m by blast
qed

definition ex_cel :: "(string, int64 \<times> qformat) cel_api" where
  "ex_cel = \<lparr> cel_Compile = Inr, cel_DeviceMatches = (\<lambda>program device. Inr (ce_Driver device = program)) \<rparr>"

definition ex_claim :: "(int64 \<times> qformat, unit) ResourceClaim" where
  "ex_claim = \<lparr> cl_Namespace = ''ns'', cl_Name = ''c'', cl_UID = ''uid'',
     cl_Requests = [\<lparr> dr_Name = ''r'',
       dr_Exactly = Some \<lparr> er_DeviceClassName = ''gpu'', er_Selectors = [Some ''gpu''], er_AllocationMode = [],
         er_Count = 0, er_AdminAccess = None, er_Capacity = None \<rparr>, dr_FirstAvailable = [] \<rparr>],
     cl_Constraints = [], cl_Config = [], cl_Allocation = None \<rparr>"

definition ex_class :: DeviceClass where
  "ex_class = \<lparr> dcl_Name = ''gpu'', dcl_Selectors = [], dcl_Config = [], dcl_ExtendedResourceName = None \<rparr>"

lemma BuildRequests_sound_witness:
  "\<exists>r. BuildRequests int_quantity ex_cel (Some ex_claim) [(''gpu'', ex_class)] = Inr [r] \<and> rq_Count r = 1 \<and> rq_Name r = ''r''"
proof -
  obtain r where r: "BuildRequests int_quantity ex_cel (Some ex_claim) [(''gpu'', ex_class)] = Inr [r]"
    by (simp add: BuildRequests_def ex_claim_def build_request_def ex_class_def compileSelectors_def
        compile_selector_def ex_cel_def)
  then have "request_of int_quantity ex_cel [(''gpu'', ex_class)] (hd (cl_Requests ex_claim)) r"
    using BuildRequests_sound[OF r] by (simp add: ex_claim_def)
  then show ?thesis
    using r by (auto simp: request_of_def ex_claim_def)
qed

end
