(* ===== verification/Reconciler.thy ===== *)
theory Reconciler
  imports Prelude
begin

text \<open>
  The reconciler framework the controllers share, \<open>pkg/controller/reconciler/*.go\<close> with
  \<open>pkg/common/patch/patch.go\<close>: the handler chain, merging of reconcile results, the resource update and
  the metadata patch it sends. A handler is a function of the reconcile state \<open>'s\<close>, which stands for
  whatever it reads and writes (the cached object, the API server); logging is left out.

  The errors of handlers are classified as the code does it with \<open>errors.Is\<close> and \<open>IsConflict\<close>;
  \<open>errors.Join\<close> collects them in a list.
\<close>

section \<open>Results\<close>

record Result =
  r_Requeue :: bool
  r_RequeueAfter :: int64

definition zero_result :: Result where
  "zero_result = \<lparr> r_Requeue = False, r_RequeueAfter = 0 \<rparr>"

fun merge_loop :: "Result list \<Rightarrow> Result \<Rightarrow> Result" where
  "merge_loop [] result = result"
| "merge_loop (r # rs) result =
     (if r = zero_result then merge_loop rs result
      else if r_Requeue r \<and> r_RequeueAfter r = 0 then r
      else if result = zero_result \<and> r_RequeueAfter r > 0 then merge_loop rs r
      else if r_RequeueAfter r > 0 \<and> r_RequeueAfter r < r_RequeueAfter result
      then merge_loop rs (result\<lparr> r_RequeueAfter := r_RequeueAfter r \<rparr>)
      else merge_loop rs result)"

definition MergeResults :: "Result list \<Rightarrow> Result" where
  "MergeResults results = merge_loop results zero_result"

section \<open>The handler chain\<close>

datatype handler_error = ErrStopHandlerChain | ConflictError string | OtherError string

type_synonym 's Handler = "'s \<Rightarrow> (Result \<times> handler_error option) \<times> 's"

definition conflictDelay :: int64 where "conflictDelay = 100000"

fun run_handlers :: "'s Handler list \<Rightarrow> Result \<Rightarrow> string list \<Rightarrow> 's \<Rightarrow> (Result \<times> string list) \<times> 's" where
  "run_handlers [] result errs s = ((result, errs), s)"
| "run_handlers (h # hs) result errs s =
     (let ((res, err), s') = h s in
      case err of
        None \<Rightarrow> run_handlers hs (MergeResults [result, res]) errs s'
      | Some ErrStopHandlerChain \<Rightarrow> ((MergeResults [result, res], errs), s')
      | Some (ConflictError _) \<Rightarrow>
          run_handlers hs (MergeResults [result\<lparr> r_RequeueAfter := conflictDelay \<rparr>, res]) errs s'
      | Some (OtherError e) \<Rightarrow> run_handlers hs (MergeResults [result, res]) (errs @ [e]) s')"

definition runHandlers :: "'s Handler list \<Rightarrow> 's \<Rightarrow> (Result \<times> string list) \<times> 's" where
  "runHandlers handlers s = run_handlers handlers zero_result [] s"

fun Contains :: "string \<Rightarrow> string \<Rightarrow> bool" where
  "Contains [] sub = (sub = [])"
| "Contains (c # s) sub = (HasPrefix (c # s) sub \<or> Contains s sub)"

text \<open>The update reports \<open>None\<close> or an error; a conflict is recognised by its kind.\<close>

type_synonym 's Updater = "'s \<Rightarrow> handler_error option \<times> 's"

definition error_text :: "handler_error \<Rightarrow> string" where
  "error_text e = (case e of ErrStopHandlerChain \<Rightarrow> ''stop handler chain execution'' | ConflictError m \<Rightarrow> m | OtherError m \<Rightarrow> m)"

definition updateResource :: "'s Updater \<Rightarrow> Result \<Rightarrow> 's \<Rightarrow> (Result \<times> string option) \<times> 's" where
  "updateResource update result s =
     (let (err, s') = update s in
      case err of
        None \<Rightarrow> ((result, None), s')
      | Some (ConflictError _) \<Rightarrow> ((result\<lparr> r_RequeueAfter := conflictDelay \<rparr>, None), s')
      | Some e \<Rightarrow>
          if Contains (error_text e) ''no new finalizers can be added if the object is being deleted''
          then ((result\<lparr> r_RequeueAfter := 1000000000 \<rparr>, None), s')
          else ((result, Some (error_text e)), s'))"

type_synonym 's Finalizer = "'s \<Rightarrow> string option \<times> 's"

fun runFinalizers :: "'s Finalizer list \<Rightarrow> 's \<Rightarrow> string option \<times> 's" where
  "runFinalizers [] s = (None, s)"
| "runFinalizers (f # fs) s =
     (let (err, s') = f s in case err of Some e \<Rightarrow> (Some e, s') | None \<Rightarrow> runFinalizers fs s')"

text \<open>\<open>Reconcile\<close> with the update and execute functions set; the error is the joined list.\<close>

definition Reconcile ::
  "'s Handler list \<Rightarrow> 's Updater \<Rightarrow> 's Finalizer list \<Rightarrow> 's \<Rightarrow> (Result \<times> string list) \<times> 's" where
  "Reconcile handlers update finalizers s =
     (let ((result, errs), s1) = runHandlers handlers s;
          ((result', uerr), s2) = updateResource update result s1;
          errs' = errs @ (case uerr of None \<Rightarrow> [] | Some e \<Rightarrow> [e])
      in if errs' \<noteq> [] then ((zero_result, errs'), s2)
         else
           let (ferr, s3) = runFinalizers finalizers s2 in
           case ferr of Some e \<Rightarrow> ((zero_result, [e]), s3) | None \<Rightarrow> ((result', []), s3))"

section \<open>A requeue is never later than a handler asked for\<close>

definition due :: "Result \<Rightarrow> int64 option" where
  "due r = (if r_RequeueAfter r > 0 then Some (r_RequeueAfter r)
            else if r_Requeue r \<and> r_RequeueAfter r = 0 then Some 0 else None)"

definition due_by :: "Result \<Rightarrow> int64 \<Rightarrow> bool" where
  "due_by r t \<longleftrightarrow> (\<exists>d. due r = Some d \<and> d \<le> t)"

lemma due_by_zero [simp]: "\<not> due_by zero_result t"
  by (simp add: due_by_def due_def zero_result_def)

lemma MergeResults_due:
  assumes "due_by r t" and "r \<in> {a, b}"
  shows "due_by (MergeResults [a, b]) t"
  using assms
  by (auto simp: MergeResults_def due_by_def due_def zero_result_def split: if_splits)

fun executed :: "'s Handler list \<Rightarrow> 's \<Rightarrow> (Result \<times> handler_error option) list" where
  "executed [] s = []"
| "executed (h # hs) s =
     (let (out, s') = h s in out # (if snd out = Some ErrStopHandlerChain then [] else executed hs s'))"

lemma conflict_due: "due_by r t \<Longrightarrow> conflictDelay \<le> t \<Longrightarrow> due_by (r\<lparr> r_RequeueAfter := conflictDelay \<rparr>) t"
  by (simp add: due_by_def due_def conflictDelay_def)

lemma run_handlers_keeps_due:
  "due_by result t \<Longrightarrow> conflictDelay \<le> t \<Longrightarrow> due_by (fst (fst (run_handlers hs result errs s))) t"
proof (induction hs result errs s rule: run_handlers.induct)
  case (2 h hs result errs s)
  obtain res err s' where h: "h s = ((res, err), s')" by (metis prod.exhaust)
  have m: "due_by (MergeResults [result, res]) t"
      "due_by (MergeResults [result\<lparr> r_RequeueAfter := conflictDelay \<rparr>, res]) t"
    using "2.prems" conflict_due MergeResults_due by blast+
  show ?case
    using 2 m h by (cases err) (auto split: handler_error.splits)
qed simp

text \<open>
  No requeue is lost: if a handler of the chain that was executed asked to be run again within a
  time, the merged result of the chain asks for it within that time (or the 100 microseconds of the
  conflict delay, if that is longer); a conflict alone also causes a requeue within the delay.
\<close>

theorem runHandlers_requeue:
  assumes "(res, err) \<in> set (executed handlers s)"
    and "due_by res t \<or> (\<exists>m. err = Some (ConflictError m)) \<and> t = conflictDelay"
  shows "due_by (fst (fst (runHandlers handlers s))) (max t conflictDelay)"
proof -
  have "due_by (fst (fst (run_handlers hs result errs s))) (max t conflictDelay)"
    if "(res, err) \<in> set (executed hs s)" for hs result errs s
    using that
  proof (induction hs result errs s rule: run_handlers.induct)
    case (2 h hs result errs s)
    obtain res' err' s' where h: "h s = ((res', err'), s')" by (metis prod.exhaust)
    show ?case
    proof (cases "(res, err) = (res', err')")
      case False
      then have "(res, err) \<in> set (executed hs s')" "err' \<noteq> Some ErrStopHandlerChain"
        using "2.prems" h by (auto split: if_splits)
      then show ?thesis
        using "2.IH"(1,2,3) h by (cases err') (auto split: handler_error.splits)
    next
      case True
      let ?t = "max t conflictDelay"
      have up: "due_by r t \<Longrightarrow> due_by r ?t" for r by (auto simp: due_by_def)
      have conf: "due_by (result\<lparr> r_RequeueAfter := conflictDelay \<rparr>) ?t"
        by (simp add: due_by_def due_def conflictDelay_def)
      have m: "due_by (MergeResults [result\<lparr> r_RequeueAfter := conflictDelay \<rparr>, res]) ?t"
        using MergeResults_due[OF conf] by blast
      have n: "due_by (MergeResults [result, res]) ?t" if "due_by res t"
        using MergeResults_due[OF up[OF that]] by blast
      show ?thesis
        using assms(2) True h m n
        by (cases err) (auto split: handler_error.splits intro!: run_handlers_keeps_due)
    qed
  qed simp
  then show ?thesis using assms(1) by (simp add: runHandlers_def)
qed

theorem runHandlers_requeue_witness:
  "due_by (fst (fst (runHandlers
      [\<lambda>s. ((\<lparr> r_Requeue = False, r_RequeueAfter = 5000000000 \<rparr>, None), s),
       \<lambda>s. ((\<lparr> r_Requeue = False, r_RequeueAfter = 2000000000 \<rparr>, Some (OtherError ''failed'')), s)] ()))) 2000000000"
  using runHandlers_requeue[of "\<lparr> r_Requeue = False, r_RequeueAfter = 2000000000 \<rparr>" "Some (OtherError ''failed'')"
      "[\<lambda>s. ((\<lparr> r_Requeue = False, r_RequeueAfter = 5000000000 \<rparr>, None), s),
       \<lambda>s. ((\<lparr> r_Requeue = False, r_RequeueAfter = 2000000000 \<rparr>, Some (OtherError ''failed'')), s)]" "()" 2000000000]
  by (simp add: due_by_def due_def conflictDelay_def)

section \<open>Metadata patches\<close>

datatype patch_value = PNil | PString string | PMap "(string, string) gomap" | PStrings "string list"

record JSONPatchOperation =
  po_Op :: string
  po_Path :: string
  po_Value :: patch_value

definition NewJSONPatchOperation :: "string \<Rightarrow> string \<Rightarrow> patch_value \<Rightarrow> JSONPatchOperation" where
  "NewJSONPatchOperation op path val = \<lparr> po_Op = op, po_Path = path, po_Value = val \<rparr>"

definition WithAdd :: "string \<Rightarrow> patch_value \<Rightarrow> JSONPatchOperation" where
  "WithAdd path val = NewJSONPatchOperation ''add'' path val"

definition WithRemove :: "string \<Rightarrow> JSONPatchOperation" where
  "WithRemove path = NewJSONPatchOperation ''remove'' path PNil"

definition WithReplace :: "string \<Rightarrow> patch_value \<Rightarrow> JSONPatchOperation" where
  "WithReplace path val = NewJSONPatchOperation ''replace'' path val"

text \<open>\<open>strings.ReplaceAll\<close> for a pattern of one character.\<close>

definition ReplaceAll1 :: "string \<Rightarrow> char \<Rightarrow> string \<Rightarrow> string" where
  "ReplaceAll1 s c r = concat (map (\<lambda>x. if x = c then r else [x]) s)"

definition EscapeJSONPointer :: "string \<Rightarrow> string" where
  "EscapeJSONPointer path = ReplaceAll1 (ReplaceAll1 path (CHR ''~'') ''~0'') (CHR ''/'') ''~1''"

definition jsonPatchOpsForFinalizers :: "string list \<Rightarrow> string list \<Rightarrow> JSONPatchOperation list" where
  "jsonPatchOpsForFinalizers current desired =
     (if current = [] \<and> desired = [] then []
      else if current = [] then [WithAdd ''/metadata/finalizers'' (PStrings desired)]
      else if desired = [] then [WithRemove ''/metadata/finalizers'']
      else [WithReplace ''/metadata/finalizers'' (PStrings desired)])"

definition remove_ops :: "string \<Rightarrow> (string, string) gomap \<Rightarrow> (string, string) gomap \<Rightarrow> JSONPatchOperation list" where
  "remove_ops path current desired =
     map (\<lambda>key. WithRemove (path @ ''/'' @ EscapeJSONPointer key)) (filter (\<lambda>key. mget desired key = None) (mkeys current))"

definition set_ops :: "string \<Rightarrow> (string, string) gomap \<Rightarrow> (string, string) gomap \<Rightarrow> JSONPatchOperation list" where
  "set_ops path current desired =
     concat (map (\<lambda>(key, val).
       case mget current key of
         None \<Rightarrow> [WithAdd (path @ ''/'' @ EscapeJSONPointer key) (PString val)]
       | Some currentValue \<Rightarrow>
           if currentValue \<noteq> val then [WithReplace (path @ ''/'' @ EscapeJSONPointer key) (PString val)] else []) desired)"

text \<open>A nil map is \<open>None\<close>: the code tells it from an empty one here.\<close>

definition jsonPatchOpsForMap ::
  "string \<Rightarrow> (string, string) gomap option \<Rightarrow> (string, string) gomap option \<Rightarrow> JSONPatchOperation list" where
  "jsonPatchOpsForMap path current desired =
     (case (current, desired) of
        (None, None) \<Rightarrow> []
      | (None, Some d) \<Rightarrow> [WithAdd path (PMap d)]
      | (Some c, None) \<Rightarrow> [WithRemove path]
      | (Some c, Some d) \<Rightarrow>
          NewJSONPatchOperation ''test'' path (PMap c) # remove_ops path c d @ set_ops path c d)"

subsection \<open>Applying a patch\<close>

text \<open>
  The reference: JSON Patch (RFC 6902) on one field that is absent or a string map, with JSON Pointer
  tokens (RFC 6901) unescaped. An operation that does not apply fails.
\<close>

fun unescape :: "string \<Rightarrow> string" where
  "unescape (CHR ''~'' # CHR ''0'' # s) = CHR ''~'' # unescape s"
| "unescape (CHR ''~'' # CHR ''1'' # s) = CHR ''/'' # unescape s"
| "unescape (c # s) = c # unescape s"
| "unescape [] = []"

definition apply_op ::
  "string \<Rightarrow> JSONPatchOperation \<Rightarrow> (string \<rightharpoonup> string) option \<Rightarrow> (string \<rightharpoonup> string) option option" where
  "apply_op path op field =
     (if po_Path op = path then
        (if po_Op op = ''test'' then
           (case (po_Value op, field) of
              (PMap m, Some f) \<Rightarrow> if map_of m = f then Some field else None | _ \<Rightarrow> None)
         else if po_Op op = ''add'' then (case po_Value op of PMap m \<Rightarrow> Some (Some (map_of m)) | _ \<Rightarrow> None)
         else if po_Op op = ''remove'' then (case field of None \<Rightarrow> None | Some _ \<Rightarrow> Some None)
         else None)
      else if HasPrefix (po_Path op) (path @ ''/'') then
        let key = unescape (drop (length path + 1) (po_Path op)) in
        (case field of
           None \<Rightarrow> None
         | Some f \<Rightarrow>
             (if po_Op op = ''remove'' then (if f key = None then None else Some (Some (f(key := None))))
              else (case po_Value op of
                      PString v \<Rightarrow>
                        if po_Op op = ''add'' then Some (Some (f(key \<mapsto> v)))
                        else if po_Op op = ''replace'' \<and> f key \<noteq> None then Some (Some (f(key \<mapsto> v)))
                        else None
                    | _ \<Rightarrow> None)))
      else None)"

fun apply_ops ::
  "string \<Rightarrow> JSONPatchOperation list \<Rightarrow> (string \<rightharpoonup> string) option \<Rightarrow> (string \<rightharpoonup> string) option option" where
  "apply_ops path [] field = Some field"
| "apply_ops path (op # ops) field =
     (case apply_op path op field of None \<Rightarrow> None | Some field' \<Rightarrow> apply_ops path ops field')"

lemma apply_ops_append:
  "apply_ops path (xs @ ys) field =
     (case apply_ops path xs field of None \<Rightarrow> None | Some field' \<Rightarrow> apply_ops path ys field')"
  by (induction xs arbitrary: field) (auto split: option.splits)

lemma unescape_escape: "unescape (EscapeJSONPointer s) = s"
proof -
  define esc where "esc c = (if c = CHR ''~'' then ''~0'' else if c = CHR ''/'' then ''~1'' else [c])" for c
  have "EscapeJSONPointer s = concat (map esc s)"
    by (induction s) (auto simp: EscapeJSONPointer_def ReplaceAll1_def esc_def)
  moreover have "unescape (concat (map esc s)) = s"
  proof (induction s)
    case (Cons c s)
    have "unescape (c # t) = c # unescape t" if "c \<noteq> CHR ''~''" for t
      using that by (cases "c # t" rule: unescape.cases) auto
    then show ?case using Cons by (auto simp: esc_def)
  qed simp
  ultimately show ?thesis by simp
qed

lemma key_path: "path @ ''/'' @ tok \<noteq> path" "HasPrefix (path @ ''/'' @ tok) (path @ ''/'')"
  "drop (length path + 1) (path @ ''/'' @ tok) = tok"
  by (simp_all add: HasPrefix_def)

lemma apply_remove:
  "f key \<noteq> None \<Longrightarrow> apply_op path (WithRemove (path @ ''/'' @ EscapeJSONPointer key)) (Some f) = Some (Some (f(key := None)))"
  by (simp add: apply_op_def WithRemove_def NewJSONPatchOperation_def key_path[simplified] unescape_escape)

lemma apply_set:
  "apply_op path (WithAdd (path @ ''/'' @ EscapeJSONPointer key) (PString v)) (Some f) = Some (Some (f(key \<mapsto> v)))"
  "f key \<noteq> None \<Longrightarrow>
   apply_op path (WithReplace (path @ ''/'' @ EscapeJSONPointer key) (PString v)) (Some f) = Some (Some (f(key \<mapsto> v)))"
  by (simp_all add: apply_op_def WithAdd_def WithReplace_def NewJSONPatchOperation_def key_path[simplified] unescape_escape)

lemma apply_removes:
  assumes "distinct keys" and "\<And>k. k \<in> set keys \<Longrightarrow> f k \<noteq> None"
  shows "apply_ops path (map (\<lambda>key. WithRemove (path @ ''/'' @ EscapeJSONPointer key)) keys) (Some f) =
    Some (Some (\<lambda>k. if k \<in> set keys then None else f k))"
  using assms
proof (induction keys arbitrary: f)
  case (Cons k ks)
  have "apply_ops path (map (\<lambda>key. WithRemove (path @ ''/'' @ EscapeJSONPointer key)) ks) (Some (f(k := None))) =
      Some (Some (\<lambda>x. if x \<in> set ks then None else (f(k := None)) x))"
    using Cons.prems by (intro Cons.IH) auto
  moreover have "(\<lambda>x. if x \<in> set ks then None else (f(k := None)) x) = (\<lambda>x. if x \<in> set (k # ks) then None else f x)"
    by (auto simp: fun_eq_iff)
  ultimately show ?case
    using apply_remove[of f k path] Cons.prems by simp
qed simp

lemma apply_sets:
  assumes "mwf desired" and "\<And>k v. (k, v) \<in> set desired \<Longrightarrow> f k = mget current k"
  shows "apply_ops path (set_ops path current desired) (Some f) =
    Some (Some (\<lambda>k. case mget desired k of None \<Rightarrow> f k | Some v \<Rightarrow> Some v))"
  using assms
proof (induction desired arbitrary: f)
  case (Cons kv rest)
  obtain k v where kv: "kv = (k, v)" by (cases kv)
  have fk: "f k = mget current k" using Cons.prems(2) kv by auto
  have none: "mget rest k = None" using Cons.prems(1) kv by (simp add: map_of_eq_None_iff)
  have IH: "apply_ops path (set_ops path current rest) (Some (f(k \<mapsto> v))) =
      Some (Some (\<lambda>x. case mget rest x of None \<Rightarrow> (f(k \<mapsto> v)) x | Some v \<Rightarrow> Some v))"
  proof (rule Cons.IH)
    show "mwf rest" using Cons.prems(1) by simp
    fix x w assume x: "(x, w) \<in> set rest"
    then have "x \<noteq> k" using Cons.prems(1) kv by force
    then show "(f(k \<mapsto> v)) x = mget current x" using Cons.prems(2)[of x w] x by simp
  qed
  have head: "apply_ops path (set_ops path current [kv]) (Some f) = Some (Some (f(k \<mapsto> v)))"
  proof (cases "mget current k")
    case None
    then show ?thesis by (simp add: set_ops_def kv apply_set(1)[simplified])
  next
    case (Some w)
    then show ?thesis
      using apply_set(2)[of f k path v] fk by (auto simp: set_ops_def kv fun_upd_idem)
  qed
  have eq: "(\<lambda>x. case mget rest x of None \<Rightarrow> (f(k \<mapsto> v)) x | Some v \<Rightarrow> Some v) =
      (\<lambda>x. case mget (kv # rest) x of None \<Rightarrow> f x | Some v \<Rightarrow> Some v)"
    using none by (auto simp: fun_eq_iff kv split: option.split)
  have "set_ops path current (kv # rest) = set_ops path current [kv] @ set_ops path current rest"
    by (simp add: set_ops_def)
  then show ?case
    by (simp only: apply_ops_append head option.case IH eq)
qed (simp add: set_ops_def)

text \<open>
  The metadata patch does what it is for: applied to the labels (or annotations) it was computed
  from, it succeeds and produces exactly the desired map, whatever characters the keys contain. A
  concurrent change of the map makes its leading test operation fail.
\<close>

theorem jsonPatchOpsForMap_applies:
  assumes "\<And>c. current = Some c \<Longrightarrow> mwf c" and "\<And>d. desired = Some d \<Longrightarrow> mwf d"
  shows "apply_ops path (jsonPatchOpsForMap path current desired) (map_option map_of current) =
      Some (map_option map_of desired)
    \<and> (\<forall>c d other. current = Some c \<and> desired = Some d \<and> other \<noteq> Some (map_of c) \<longrightarrow>
        apply_ops path (jsonPatchOpsForMap path current desired) other = None)"
proof (cases current; cases desired)
  fix c d assume cd: "current = Some c" "desired = Some d"
  then have wf: "mwf c" "mwf d" using assms by auto
  let ?keys = "filter (\<lambda>key. mget d key = None) (mkeys c)"
  let ?f = "\<lambda>k. if k \<in> set ?keys then None else map_of c k"
  have rem: "apply_ops path (remove_ops path c d) (Some (map_of c)) = Some (Some ?f)"
    unfolding remove_ops_def using wf(1) by (intro apply_removes) (auto simp: map_of_eq_None_iff)
  have "apply_ops path (set_ops path c d) (Some ?f) = Some (Some (\<lambda>k. case mget d k of None \<Rightarrow> ?f k | Some v \<Rightarrow> Some v))"
    using wf(2) by (rule apply_sets) (auto dest!: weak_map_of_SomeI)
  moreover have "(\<lambda>k. case mget d k of None \<Rightarrow> ?f k | Some v \<Rightarrow> Some v) = map_of d"
  proof
    fix k
    show "(case mget d k of None \<Rightarrow> ?f k | Some v \<Rightarrow> Some v) = map_of d k"
      using map_of_eq_None_iff[of c k] by (cases "mget d k"; cases "mget c k") auto
  qed
  ultimately have set: "apply_ops path (set_ops path c d) (Some ?f) = Some (Some (map_of d))" by simp
  have test: "apply_op path (NewJSONPatchOperation ''test'' path (PMap c)) x =
      (if x = Some (map_of c) then Some x else None)" for x
    by (auto simp: apply_op_def NewJSONPatchOperation_def split: option.split)
  show ?thesis
    using rem set by (auto simp: cd jsonPatchOpsForMap_def test apply_ops_append)
qed (auto simp: jsonPatchOpsForMap_def apply_op_def WithAdd_def WithRemove_def NewJSONPatchOperation_def)

theorem jsonPatchOpsForMap_applies_witness:
  "apply_ops ''/metadata/labels''
     (jsonPatchOpsForMap ''/metadata/labels'' (Some [(''a/b'', ''1''), (''c'', ''2'')]) (Some [(''a/b'', ''3'')]))
     (Some (map_of [(''a/b'', ''1''), (''c'', ''2'')])) = Some (Some (map_of [(''a/b'', ''3'')]))"
  using jsonPatchOpsForMap_applies[of "Some [(''a/b'', ''1''), (''c'', ''2'')]" "Some [(''a/b'', ''3'')]" "''/metadata/labels''"]
  by simp

end
