(* ===== verification/DraController.thy ===== *)
theory DraController
  imports PoolFilter Reconciler
begin

text \<open>
  The controller that allocates resource claims, \<open>pkg/controller/dra\<close>: the services (\<open>internal/service\<close>)
  that read device classes, slices and the allocations of all claims, compute an allocation and write it,
  the three handlers (\<open>internal/handler\<close>) and the reconciler that chains them.

  The API client of \<open>controller-runtime\<close> is the parameter \<open>k8s_client\<close>: its reads and writes are functions
  of an abstract cluster state \<open>'w\<close>. What the allocator needs from outside the repository (quantities,
  CEL, the sorts, fresh UUIDs and the clock) is the record \<open>alloc_env\<close>.
\<close>

section \<open>Services\<close>

record ('w, 'q, 't) k8s_client =
  kc_GetClass :: "string \<Rightarrow> 'w \<Rightarrow> string + DeviceClass"
  kc_ListSlices :: "'w \<Rightarrow> string + 'q ResourceSlice list"
  kc_ListClaims :: "'w \<Rightarrow> string + ('q, 't) ResourceClaim list"
  kc_PatchAllocation :: "('q, 't) ResourceClaim \<Rightarrow> ('q, 't) ApiAllocationResult \<Rightarrow> 'w \<Rightarrow> handler_error option \<times> 'w"
  kc_Event :: "string \<Rightarrow> 'w \<Rightarrow> 'w"

record ('q, 'p, 't) alloc_env =
  ae_Q :: "'q quantity_api"
  ae_cel :: "('p, 'q) cel_api"
  ae_sliceSort :: "'q slice_sort"
  ae_candidateSort :: device_sort
  ae_nodeSort :: device_sort
  ae_newUUID :: "nat \<Rightarrow> string"
  ae_now :: 't
  ae_options :: AllocationOptions

definition DefaultDriverName :: string where "DefaultDriverName = ''gpu.deckhouse.io''"

datatype allocator_error = ClientError string | ClassError string string | RequestError request_error | SelectError string

fun request_class_names :: "'q DeviceRequest list \<Rightarrow> string list \<Rightarrow> string list" where
  "request_class_names [] seen = seen"
| "request_class_names (req # rest) seen =
     request_class_names rest
       (fold List.insert (filter (\<lambda>n. n \<noteq> []) (dr_FirstAvailable req))
          (case dr_Exactly req of
             None \<Rightarrow> seen
           | Some e \<Rightarrow> if er_DeviceClassName e \<noteq> [] then List.insert (er_DeviceClassName e) seen else seen))"

definition deviceClassNames :: "('q, 't) ResourceClaim \<Rightarrow> string list" where
  "deviceClassNames claim = request_class_names (cl_Requests claim) []"

fun load_classes ::
  "('w, 'q, 't) k8s_client \<Rightarrow> 'w \<Rightarrow> string list \<Rightarrow> (string, DeviceClass) gomap \<Rightarrow>
   allocator_error + (string, DeviceClass) gomap" where
  "load_classes client w [] classes = Inr classes"
| "load_classes client w (name # rest) classes =
     (case kc_GetClass client name w of
        Inl err \<Rightarrow> Inl (ClassError name err)
      | Inr c \<Rightarrow> load_classes client w rest (mput name c classes))"

definition Load ::
  "('w, 'q, 't) k8s_client \<Rightarrow> 'w \<Rightarrow> ('q, 't) ResourceClaim option \<Rightarrow> allocator_error + (string, DeviceClass) gomap" where
  "Load client w claim =
     (case claim of
        None \<Rightarrow> Inr []
      | Some c \<Rightarrow>
          let names = deviceClassNames c in
          if names = [] then Inr [] else load_classes client w names [])"

fun mergeConsumedCapacity ::
  "'q quantity_api \<Rightarrow> (string, 'q) gomap \<Rightarrow> (string, 'q) gomap \<Rightarrow> (string, 'q) gomap" where
  "mergeConsumedCapacity Q dst [] = dst"
| "mergeConsumedCapacity Q dst ((name, qty) # rest) =
     mergeConsumedCapacity Q
       (mput name (case mget dst name of Some current \<Rightarrow> q_Add Q current qty | None \<Rightarrow> qty) dst) rest"

definition api_key :: "'q DeviceRequestAllocationResult \<Rightarrow> DeviceKey" where
  "api_key res = \<lparr> dk_Driver = ra_Driver res, dk_Pool = ra_Pool res, dk_Device = ra_Device res \<rparr>"

definition record_result ::
  "'q quantity_api \<Rightarrow> (DeviceKey, 'q AllocatedDeviceInfo) gomap \<Rightarrow> 'q DeviceRequestAllocationResult \<Rightarrow>
   (DeviceKey, 'q AllocatedDeviceInfo) gomap" where
  "record_result Q allocated res =
     (if ra_ConsumedCapacity res = [] then
        mput (api_key res) \<lparr> ai_Exclusive = True, ai_ConsumedCapacity = [] \<rparr> allocated
      else
        let info = (case mget allocated (api_key res) of
                      None \<Rightarrow> \<lparr> ai_Exclusive = False, ai_ConsumedCapacity = [] \<rparr> | Some i \<Rightarrow> i) in
        if ai_Exclusive info then allocated
        else mput (api_key res)
               (info\<lparr> ai_ConsumedCapacity :=
                  mergeConsumedCapacity Q (ai_ConsumedCapacity info) (ra_ConsumedCapacity res) \<rparr>) allocated)"

definition claim_results :: "('q, 't) ResourceClaim \<Rightarrow> 'q DeviceRequestAllocationResult list" where
  "claim_results claim = (case cl_Allocation claim of None \<Rightarrow> [] | Some a \<Rightarrow> aa_Results a)"

definition listAllocatedDevices ::
  "'q quantity_api \<Rightarrow> ('w, 'q, 't) k8s_client \<Rightarrow> 'w \<Rightarrow> string + (DeviceKey, 'q AllocatedDeviceInfo) gomap" where
  "listAllocatedDevices Q client w =
     (case kc_ListClaims client w of
        Inl err \<Rightarrow> Inl err
      | Inr claims \<Rightarrow> Inr (foldl (\<lambda>acc claim. foldl (record_result Q) acc (claim_results claim)) [] claims))"

definition Allocator_Allocate ::
  "('q, 'p, 't) alloc_env \<Rightarrow> ('w, 'q, 't) k8s_client \<Rightarrow> ('q, 't) ResourceClaim option \<Rightarrow> 'w \<Rightarrow>
   allocator_error + ('q, 't) ApiAllocationResult option" where
  "Allocator_Allocate env client claim w =
     (case claim of
        None \<Rightarrow> Inr None
      | Some c \<Rightarrow>
        (case Load client w claim of
           Inl err \<Rightarrow> Inl err
         | Inr classes \<Rightarrow>
        (case BuildRequests (ae_Q env) (ae_cel env) claim classes of
           Inl err \<Rightarrow> Inl (RequestError err)
         | Inr requests \<Rightarrow>
           if requests = [] then Inr None
           else
        (case kc_ListSlices client w of
           Inl err \<Rightarrow> Inl (ClientError err)
         | Inr slices \<Rightarrow>
        (case listAllocatedDevices (ae_Q env) client w of
           Inl err \<Rightarrow> Inl (ClientError err)
         | Inr allocated \<Rightarrow>
             let candidates = BuildCandidates (ae_Q env) (ae_sliceSort env) (ae_candidateSort env) DefaultDriverName slices;
                 counterSets = BuildCounterSets (ae_Q env) (ae_sliceSort env) DefaultDriverName slices;
                 inp = \<lparr> in_Requests = requests, in_Candidates = candidates, in_Allocated = allocated,
                         in_CounterSets = counterSets \<rparr>
             in (case Allocate (ae_Q env) (ae_nodeSort env) inp of
                   Inl err \<Rightarrow> Inl (SelectError err)
                 | Inr None \<Rightarrow> Inr None
                 | Inr (Some result) \<Rightarrow>
                     (case BuildAllocationResultWithOptions (ae_newUUID env) (ae_now env) claim (Some result) classes
                             (ae_options env) of
                        Inl err \<Rightarrow> Inl (RequestError err)
                      | Inr r \<Rightarrow> Inr r)))))))"

definition AllocationWriter_Write ::
  "('w, 'q, 't) k8s_client \<Rightarrow> ('q, 't) ResourceClaim option \<Rightarrow> ('q, 't) ApiAllocationResult option \<Rightarrow> 'w \<Rightarrow>
   handler_error option \<times> 'w" where
  "AllocationWriter_Write client claim alloc w =
     (case (claim, alloc) of
        (Some c, Some a) \<Rightarrow> kc_PatchAllocation client c a w
      | _ \<Rightarrow> (None, w))"

section \<open>Handlers\<close>

record ('w, 'q, 't) DRAState =
  st_Resource :: "('q, 't) ResourceClaim option"
  st_Allocation :: "('q, 't) ApiAllocationResult option"
  st_world :: 'w

definition allocator_error_text :: "allocator_error \<Rightarrow> string" where
  "allocator_error_text e = (case e of ClientError m \<Rightarrow> m | ClassError n m \<Rightarrow> ''deviceclass '' @ quoted n @ '': '' @ m
     | RequestError r \<Rightarrow> ''invalid request'' | SelectError m \<Rightarrow> m)"

definition FeatureGateHandler_Handle ::
  "('w, 'q, 't) k8s_client \<Rightarrow> bool \<Rightarrow> ('w, 'q, 't) DRAState Handler" where
  "FeatureGateHandler_Handle client enabled st =
     (if st_Resource st = None then ((zero_result, None), st)
      else if enabled then ((zero_result, None), st)
      else (case Load client (st_world st) (st_Resource st) of
              Inl err \<Rightarrow> ((zero_result, Some (OtherError (allocator_error_text err))), st)
            | Inr classes \<Rightarrow>
                ((zero_result, None),
                 st\<lparr> st_world := foldl (\<lambda>w (name, c).
                        case dcl_ExtendedResourceName c of
                          None \<Rightarrow> w
                        | Some r \<Rightarrow> if r = [] then w else kc_Event client ''FeatureGateDisabled'' w)
                      (st_world st) classes \<rparr>)))"

definition AllocateHandler_Handle ::
  "('q, 'p, 't) alloc_env \<Rightarrow> ('w, 'q, 't) k8s_client \<Rightarrow> ('w, 'q, 't) DRAState Handler" where
  "AllocateHandler_Handle env client st =
     (case st_Resource st of
        None \<Rightarrow> ((zero_result, None), st)
      | Some claim \<Rightarrow>
          if cl_Allocation claim \<noteq> None then ((zero_result, Some ErrStopHandlerChain), st)
          else (case Allocator_Allocate env client (Some claim) (st_world st) of
                  Inl err \<Rightarrow>
                    ((zero_result, Some (OtherError (allocator_error_text err))),
                     st\<lparr> st_world := kc_Event client ''ResourceClaimAllocationFailed'' (st_world st) \<rparr>)
                | Inr None \<Rightarrow> ((zero_result, None), st)
                | Inr (Some alloc) \<Rightarrow> ((zero_result, None), st\<lparr> st_Allocation := Some alloc \<rparr>)))"

definition PersistHandler_Handle :: "('w, 'q, 't) k8s_client \<Rightarrow> ('w, 'q, 't) DRAState Handler" where
  "PersistHandler_Handle client st =
     (if st_Allocation st = None then ((zero_result, None), st)
      else
        let (err, w) = AllocationWriter_Write client (st_Resource st) (st_Allocation st) (st_world st);
            w' = (if err \<noteq> None then kc_Event client ''ResourceClaimAllocationFailed'' w
                  else kc_Event client ''ResourceClaimAllocated'' w)
        in ((zero_result, err), st\<lparr> st_world := w' \<rparr>))"

text \<open>\<open>Reconcile\<close> of \<open>reconciler.go\<close> for the claim it fetched; the resource updater does nothing.\<close>

definition dra_Reconcile ::
  "('q, 'p, 't) alloc_env \<Rightarrow> ('w, 'q, 't) k8s_client \<Rightarrow> bool \<Rightarrow> ('q, 't) ResourceClaim option \<Rightarrow> 'w \<Rightarrow>
   (Result \<times> string list) \<times> 'w" where
  "dra_Reconcile env client enabled claim w =
     (if claim = None then ((zero_result, []), w)
      else
        let (out, st) = Reconcile
              [FeatureGateHandler_Handle client enabled, AllocateHandler_Handle env client, PersistHandler_Handle client]
              (\<lambda>s. (None, s)) []
              \<lparr> st_Resource = claim, st_Allocation = None, st_world = w \<rparr>
        in (out, st_world st))"

text \<open>Which claims a changed device class or slice sends to the reconciler.\<close>

definition claimUsesDeviceClass :: "('q, 't) ResourceClaim \<Rightarrow> string \<Rightarrow> bool" where
  "claimUsesDeviceClass claim className =
     list_ex (\<lambda>req. (case dr_Exactly req of None \<Rightarrow> False | Some e \<Rightarrow> er_DeviceClassName e = className)
                    \<or> list_ex (\<lambda>sub. sub = className) (dr_FirstAvailable req)) (cl_Requests claim)"

definition deviceClassEnqueuer ::
  "('w, 'q, 't) k8s_client \<Rightarrow> 'w \<Rightarrow> DeviceClass \<Rightarrow> (string \<times> string) list" where
  "deviceClassEnqueuer client w class' =
     (if dcl_Name class' = [] then []
      else (case kc_ListClaims client w of
              Inl err \<Rightarrow> []
            | Inr claims \<Rightarrow> map (\<lambda>c. (cl_Namespace c, cl_Name c))
                (filter (\<lambda>c. claimUsesDeviceClass c (dcl_Name class')) claims)))"

definition resourceSliceEnqueuer ::
  "('w, 'q, 't) k8s_client \<Rightarrow> 'w \<Rightarrow> 'q ResourceSlice \<Rightarrow> (string \<times> string) list" where
  "resourceSliceEnqueuer client w slice =
     (if rs_Driver slice \<noteq> DefaultDriverName then []
      else (case kc_ListClaims client w of
              Inl err \<Rightarrow> []
            | Inr claims \<Rightarrow> map (\<lambda>c. (cl_Namespace c, cl_Name c)) claims))"

section \<open>What is allocated already\<close>

definition all_results :: "('q, 't) ResourceClaim list \<Rightarrow> 'q DeviceRequestAllocationResult list" where
  "all_results claims = concat (map claim_results claims)"

lemma listAllocatedDevices_flat:
  "listAllocatedDevices Q client w =
     (case kc_ListClaims client w of Inl err \<Rightarrow> Inl err
      | Inr claims \<Rightarrow> Inr (foldl (record_result Q) [] (all_results claims)))"
proof -
  have "foldl (\<lambda>acc claim. foldl (record_result Q) acc (claim_results claim)) a claims =
      foldl (record_result Q) a (concat (map claim_results claims))" for a and claims :: "('a, 'c) ResourceClaim list"
    by (induction claims arbitrary: a) auto
  then show ?thesis
    by (simp add: listAllocatedDevices_def all_results_def split: sum.split)
qed

definition merge_quantity :: "'q quantity_api \<Rightarrow> 'q option \<Rightarrow> 'q option \<Rightarrow> 'q option" where
  "merge_quantity Q a b = (case b of None \<Rightarrow> a | Some q \<Rightarrow> Some (case a of None \<Rightarrow> q | Some c \<Rightarrow> q_Add Q c q))"

text \<open>The sum of what the results on a device consume of one capacity.\<close>

definition consumed_sum ::
  "'q quantity_api \<Rightarrow> DeviceKey \<Rightarrow> string \<Rightarrow> 'q DeviceRequestAllocationResult list \<Rightarrow> 'q option" where
  "consumed_sum Q key name results =
     foldl (\<lambda>acc res. merge_quantity Q acc (mget (ra_ConsumedCapacity res) name)) None
       (filter (\<lambda>res. api_key res = key) results)"

lemma mget_mergeConsumedCapacity:
  "mwf src \<Longrightarrow> mget (mergeConsumedCapacity Q dst src) name = merge_quantity Q (mget dst name) (mget src name)"
proof (induction Q dst src rule: mergeConsumedCapacity.induct)
  case (2 Q dst n qty rest)
  then have "mget rest n = None" by (simp add: map_of_eq_None_iff)
  with 2 show ?case by (auto simp: merge_quantity_def split: option.splits)
qed (simp add: merge_quantity_def)

definition allocated_inv ::
  "'q quantity_api \<Rightarrow> 'q DeviceRequestAllocationResult list \<Rightarrow> (DeviceKey, 'q AllocatedDeviceInfo) gomap \<Rightarrow> bool" where
  "allocated_inv Q results allocated \<longleftrightarrow> mwf allocated \<and> (\<forall>key.
     (case mget allocated key of
        None \<Rightarrow> key \<notin> api_key ` set results
      | Some info \<Rightarrow> key \<in> api_key ` set results
          \<and> (ai_Exclusive info \<longleftrightarrow> (\<exists>res \<in> set results. api_key res = key \<and> ra_ConsumedCapacity res = []))
          \<and> (\<not> ai_Exclusive info \<longrightarrow> (\<forall>name. mget (ai_ConsumedCapacity info) name = consumed_sum Q key name results))))"

lemma consumed_sum_snoc:
  "consumed_sum Q key name (results @ [res]) =
     (if api_key res = key then merge_quantity Q (consumed_sum Q key name results) (mget (ra_ConsumedCapacity res) name)
      else consumed_sum Q key name results)"
  by (simp add: consumed_sum_def)

lemma consumed_sum_none: "key \<notin> api_key ` set results \<Longrightarrow> consumed_sum Q key name results = None"
proof -
  assume "key \<notin> api_key ` set results"
  then have "filter (\<lambda>res. api_key res = key) results = []" by (auto simp: filter_empty_conv)
  then show ?thesis by (simp add: consumed_sum_def)
qed

lemma record_result_inv:
  assumes "allocated_inv Q results allocated" and "mwf (ra_ConsumedCapacity res)"
  shows "allocated_inv Q (results @ [res]) (record_result Q allocated res)"
proof -
  let ?k = "api_key res"
  have wf: "mwf (record_result Q allocated res)"
    using assms(1) by (simp add: allocated_inv_def record_result_def Let_def)
  have old: "case mget allocated key of None \<Rightarrow> key \<notin> api_key ` set results
      | Some info \<Rightarrow> key \<in> api_key ` set results
          \<and> (ai_Exclusive info \<longleftrightarrow> (\<exists>res \<in> set results. api_key res = key \<and> ra_ConsumedCapacity res = []))
          \<and> (\<not> ai_Exclusive info \<longrightarrow> (\<forall>name. mget (ai_ConsumedCapacity info) name = consumed_sum Q key name results))" for key
    using assms(1) by (simp add: allocated_inv_def)
  show ?thesis
    unfolding allocated_inv_def
  proof (intro conjI wf allI)
    fix key
    show "case mget (record_result Q allocated res) key of None \<Rightarrow> key \<notin> api_key ` set (results @ [res])
      | Some info \<Rightarrow> key \<in> api_key ` set (results @ [res])
          \<and> (ai_Exclusive info \<longleftrightarrow> (\<exists>res \<in> set (results @ [res]). api_key res = key \<and> ra_ConsumedCapacity res = []))
          \<and> (\<not> ai_Exclusive info \<longrightarrow>
              (\<forall>name. mget (ai_ConsumedCapacity info) name = consumed_sum Q key name (results @ [res])))"
    proof (cases "key = ?k")
      case False
      then have "mget (record_result Q allocated res) key = mget allocated key"
        by (simp add: record_result_def Let_def)
      then show ?thesis
        using old[of key] False by (auto simp: consumed_sum_snoc split: option.splits)
    next
      case True
      show ?thesis
        using old[of ?k] True assms(2)
        by (cases "mget allocated ?k",
            auto simp: record_result_def Let_def consumed_sum_snoc mget_mergeConsumedCapacity consumed_sum_none
             merge_quantity_def split: option.splits) (metis imageI)
    qed
  qed
qed

lemma foldl_record_inv:
  assumes "allocated_inv Q seen acc" and "\<forall>res \<in> set results. mwf (ra_ConsumedCapacity res)"
  shows "allocated_inv Q (seen @ results) (foldl (record_result Q) acc results)"
  using assms
proof (induction results arbitrary: seen acc)
  case (Cons res rest)
  then show ?case
    using Cons.IH[OF record_result_inv[OF Cons.prems(1)]] by simp
qed simp

text \<open>
  The snapshot of allocated devices is exact: a device is in it if and only if some claim of the
  list holds it, it is marked exclusive if and only if some claim holds it without consuming a share, and
  otherwise its consumed capacity is the sum over all claims that hold it.
\<close>

theorem listAllocatedDevices_exact:
  assumes "kc_ListClaims client w = Inr claims"
    and "\<forall>res \<in> set (all_results claims). mwf (ra_ConsumedCapacity res)"
  shows "\<exists>allocated. listAllocatedDevices Q client w = Inr allocated \<and> (\<forall>key.
     case mget allocated key of
       None \<Rightarrow> key \<notin> api_key ` set (all_results claims)
     | Some info \<Rightarrow> key \<in> api_key ` set (all_results claims)
         \<and> (ai_Exclusive info \<longleftrightarrow> (\<exists>res \<in> set (all_results claims). api_key res = key \<and> ra_ConsumedCapacity res = []))
         \<and> (\<not> ai_Exclusive info \<longrightarrow>
             (\<forall>name. mget (ai_ConsumedCapacity info) name = consumed_sum Q key name (all_results claims))))"
proof -
  have "allocated_inv Q [] []" by (simp add: allocated_inv_def)
  from foldl_record_inv[OF this assms(2)] show ?thesis
    using assms(1) by (simp add: listAllocatedDevices_flat allocated_inv_def)
qed

section \<open>No device is handed out twice\<close>

lemma candidates_wf_filter: "candidates_wf ds \<Longrightarrow> candidates_wf (filter P ds)"
  by (auto simp: candidates_wf_def distinct_map_filter)

lemma candidates_wf_mset: "mset xs = mset ys \<Longrightarrow> candidates_wf xs = candidates_wf ys"
proof -
  assume eq: "mset xs = mset ys"
  then have "mset (map cd_Key xs) = mset (map cd_Key ys)" by simp
  then have "distinct (map cd_Key xs) = distinct (map cd_Key ys)" by (rule mset_eq_imp_distinct_iff)
  then show ?thesis using mset_eq_setD[OF eq] by (simp add: candidates_wf_def)
qed

lemma indexDevices_loop_key:
  "mget (indexDevices_loop index ds) k = Some d \<Longrightarrow> \<forall>k' d'. mget index k' = Some d' \<longrightarrow> cd_Key d' = k' \<Longrightarrow> cd_Key d = k"
proof (induction ds arbitrary: index)
  case (Cons x ds)
  have "\<forall>k' d'. mget (mput (cd_Key x) x index) k' = Some d' \<longrightarrow> cd_Key d' = k'"
    unfolding mget_mput using Cons.prems(2) by (metis option.inject)
  moreover have "mget (indexDevices_loop (mput (cd_Key x) x index) ds) k = Some d"
    using Cons.prems(1) by simp
  ultimately show ?case by (rule Cons.IH[rotated])
next
  case Nil
  from Nil(1) have "mget index k = Some d" by simp
  with Nil(2) show ?case by blast
qed

lemma indexDevices_key: "mget (indexDevices ds) k = Some d \<Longrightarrow> cd_Key d = k"
  using indexDevices_loop_key[of "[]" ds k d] by (simp add: indexDevices_def)

lemma Allocate_held:
  assumes "Allocate Q sorter inp = Inr (Some alloc)" and "sorts_devices sorter"
    and wf: "candidates_wf (in_Candidates inp)" and r: "r \<in> set (ar_Devices alloc)"
    and info: "mget (in_Allocated inp) (result_key r) = Some info"
  shows "\<not> ai_Exclusive info \<and>
    (\<exists>c \<in> set (in_Candidates inp). cd_Key c = result_key r \<and> ds_AllowMultipleAllocations (cd_Spec c))"
proof -
  obtain n where n: "n \<in> node_names (in_Candidates inp)" "node_outcome Q sorter inp n = Inr (Some alloc)"
    by (rule Allocate_outcome[OF assms(1)])
  let ?ds = "sorter (node_candidates (in_Candidates inp) n)"
  have perm: "mset ?ds = mset (node_candidates (in_Candidates inp) n)"
    using assms(2) by (simp add: sorts_devices_def)
  have wfn: "candidates_wf ?ds"
    using candidates_wf_mset[OF perm] candidates_wf_filter[OF wf] by (simp add: node_candidates_def)
  have held: "\<not> exclusive_key ?ds (result_key r) \<and> \<not> ai_Exclusive info"
    using allocateOnNode_held(2)[OF n(2)[unfolded node_outcome_def] wfn r info] .
  then obtain d where d: "mget (indexDevices ?ds) (result_key r) = Some d" "ds_AllowMultipleAllocations (cd_Spec d)"
    by (auto simp: exclusive_key_def split: option.splits)
  have "d \<in> set (in_Candidates inp)"
    using indexDevices_in[OF d(1)] mset_eq_setD[OF perm] by (simp add: node_candidates_def)
  then show ?thesis
    using held d indexDevices_key[OF d(1)] by blast
qed

lemma render_result_key: "api_key (render_result opts newUUID i dev) = result_key dev"
  by (simp add: api_key_def result_key_def render_result_def)

lemma Allocator_Allocate_input:
  assumes "Allocator_Allocate env client (Some claim) w = Inr (Some alloc)"
  obtains classes requests slices allocated result where
    "Load client w (Some claim) = Inr classes" "BuildRequests (ae_Q env) (ae_cel env) (Some claim) classes = Inr requests"
    "kc_ListSlices client w = Inr slices" "listAllocatedDevices (ae_Q env) client w = Inr allocated"
    "Allocate (ae_Q env) (ae_nodeSort env)
       \<lparr> in_Requests = requests,
         in_Candidates = BuildCandidates (ae_Q env) (ae_sliceSort env) (ae_candidateSort env) DefaultDriverName slices,
         in_Allocated = allocated,
         in_CounterSets = BuildCounterSets (ae_Q env) (ae_sliceSort env) DefaultDriverName slices \<rparr> = Inr (Some result)"
    "aa_Results alloc = map (\<lambda>(i, dev). render_result (ae_options env) (ae_newUUID env) i dev) (enumerate 0 (ar_Devices result))"
    "aa_NodeSelector alloc = nodeSelectorForNode (ar_NodeName result)"
proof -
  from assms that show ?thesis
    by (auto simp: Allocator_Allocate_def Let_def BuildAllocationResultWithOptions_def
        split: sum.splits if_splits option.splits)
qed

definition env_sorts :: "('q, 'p, 't) alloc_env \<Rightarrow> bool" where
  "env_sorts env \<longleftrightarrow> (\<forall>xs. mset (ae_sliceSort env xs) = mset xs) \<and> (\<forall>xs. mset (ae_candidateSort env xs) = mset xs)
     \<and> sorts_devices (ae_nodeSort env)"

text \<open>
  \<^bold>\<open>C5.\<close> The controller never hands out a device that another claim holds exclusively: if a device of a
  new allocation is also among the results of a listed claim, then that claim consumes a share of the
  device, and the device is published as allowing multiple allocations.
\<close>

theorem Allocator_no_double_allocation:
  assumes alloc: "Allocator_Allocate env client (Some claim) w = Inr (Some alloc)"
    and claims: "kc_ListClaims client w = Inr claims" and slices: "kc_ListSlices client w = Inr slices"
    and sorts: "env_sorts env"
    and names: "distinct (concat (map slice_keys (filterPoolSlices (ae_sliceSort env) DefaultDriverName slices)))"
    and wf: "\<forall>res \<in> set (all_results claims). mwf (ra_ConsumedCapacity res)"
    and r: "r \<in> set (aa_Results alloc)" and other: "other \<in> set claims" "r' \<in> set (claim_results other)"
    and same: "api_key r' = api_key r"
  shows "ra_ConsumedCapacity r' \<noteq> [] \<and>
    (\<exists>c \<in> set (BuildCandidates (ae_Q env) (ae_sliceSort env) (ae_candidateSort env) DefaultDriverName slices).
       cd_Key c = api_key r \<and> ds_AllowMultipleAllocations (cd_Spec c))"
proof -
  obtain classes requests slices' allocated result where in1: "kc_ListSlices client w = Inr slices'"
    and in2: "listAllocatedDevices (ae_Q env) client w = Inr allocated"
    and in3: "Allocate (ae_Q env) (ae_nodeSort env)
       \<lparr> in_Requests = requests,
         in_Candidates = BuildCandidates (ae_Q env) (ae_sliceSort env) (ae_candidateSort env) DefaultDriverName slices',
         in_Allocated = allocated,
         in_CounterSets = BuildCounterSets (ae_Q env) (ae_sliceSort env) DefaultDriverName slices' \<rparr> = Inr (Some result)"
    and in4: "aa_Results alloc = map (\<lambda>(i, dev). render_result (ae_options env) (ae_newUUID env) i dev) (enumerate 0 (ar_Devices result))"
    using Allocator_Allocate_input[OF alloc] by metis
  have sl: "slices' = slices" using in1 slices by simp
  obtain dev where dev: "dev \<in> set (ar_Devices result)" "result_key dev = api_key r"
    using r in4 by (force simp: render_result_key in_set_enumerate_eq)
  have res: "r' \<in> set (all_results claims)" using other by (auto simp: all_results_def)
  have "allocated_inv (ae_Q env) (all_results claims) allocated"
    using in2 claims foldl_record_inv[OF _ wf, of "ae_Q env" "[]" "[]"]
    by (simp add: listAllocatedDevices_flat allocated_inv_def)
  moreover have "api_key r \<in> api_key ` set (all_results claims)"
    using res same by (metis imageI)
  ultimately obtain info where info: "mget allocated (api_key r) = Some info"
    "ai_Exclusive info \<longleftrightarrow> (\<exists>res \<in> set (all_results claims). api_key res = api_key r \<and> ra_ConsumedCapacity res = [])"
    unfolding allocated_inv_def by (cases "mget allocated (api_key r)") (auto dest!: spec[of _ "api_key r"])
  have cwf: "candidates_wf (BuildCandidates (ae_Q env) (ae_sliceSort env) (ae_candidateSort env) DefaultDriverName slices)"
    using BuildCandidates_candidates_wf[OF _ _ names] sorts by (simp add: env_sorts_def)
  have "\<not> ai_Exclusive info \<and>
    (\<exists>c \<in> set (BuildCandidates (ae_Q env) (ae_sliceSort env) (ae_candidateSort env) DefaultDriverName slices).
       cd_Key c = api_key r \<and> ds_AllowMultipleAllocations (cd_Spec c))"
    using Allocate_held[OF in3 _ _ dev(1)] sorts cwf info(1) dev(2) sl by (simp add: env_sorts_def)
  then show ?thesis
    using info(2) res same by blast
qed

section \<open>One reconciliation\<close>

text \<open>The cluster after the feature-gate handler, which only records events.\<close>

definition gated :: "('w, 'q, 't) k8s_client \<Rightarrow> bool \<Rightarrow> ('q, 't) ResourceClaim \<Rightarrow> 'w \<Rightarrow> 'w" where
  "gated client enabled claim w =
     (if enabled then w
      else (case Load client w (Some claim) of
              Inl err \<Rightarrow> w
            | Inr classes \<Rightarrow> foldl (\<lambda>w (name, c).
                case dcl_ExtendedResourceName c of
                  None \<Rightarrow> w | Some r \<Rightarrow> if r = [] then w else kc_Event client ''FeatureGateDisabled'' w) w classes))"

lemma FeatureGate_frame:
  assumes "st_Resource st = Some claim"
  shows "snd (FeatureGateHandler_Handle client enabled st) = st\<lparr> st_world := gated client enabled claim (st_world st) \<rparr>"
    and "snd (fst (FeatureGateHandler_Handle client enabled st)) \<noteq> Some ErrStopHandlerChain"
    and "\<forall>m. snd (fst (FeatureGateHandler_Handle client enabled st)) \<noteq> Some (ConflictError m)"
  using assms by (auto simp: FeatureGateHandler_Handle_def gated_def split: sum.splits)

lemma run_handlers_world:
  "snd (run_handlers hs r e s) = snd (run_handlers hs r' e' s)"
proof (induction hs arbitrary: r e r' e' s)
  case (Cons h hs)
  obtain res err s' where h: "h s = ((res, err), s')" by (metis prod.exhaust)
  show ?case
  proof (cases err)
    case None
    then show ?thesis using h Cons.IH by simp
  next
    case (Some x)
    then show ?thesis using h Cons.IH by (cases x) simp_all
  qed
qed simp

lemma run_handlers_step:
  assumes "snd (fst (h s)) \<noteq> Some ErrStopHandlerChain"
  shows "snd (run_handlers (h # hs) r e s) = snd (run_handlers hs r e (snd (h s)))"
proof -
  obtain res err s' where h: "h s = ((res, err), s')" by (metis prod.exhaust)
  show ?thesis
  proof (cases err)
    case None
    then show ?thesis using h by (simp add: run_handlers_world[of hs _ e s' r])
  next
    case (Some x)
    then show ?thesis
      using h assms by (cases x) (simp_all, (rule run_handlers_world)+)
  qed
qed

lemma Reconcile_world:
  "snd (Reconcile handlers (\<lambda>s. (None, s)) [] s) = snd (runHandlers handlers s)"
  by (auto simp: Reconcile_def updateResource_def Let_def split: prod.split)

text \<open>
  \<^bold>\<open>C8.\<close> What one reconciliation does to the cluster: an allocated claim is never written again; for any
  other claim the status patch carries exactly the allocation computed in the same reconciliation, it is
  sent once, and when nothing can be allocated or the computation fails nothing is written.
\<close>

theorem dra_Reconcile_writes:
  "snd (dra_Reconcile env client enabled (Some claim) w) =
     (let w1 = gated client enabled claim w in
      if cl_Allocation claim \<noteq> None then w1
      else (case Allocator_Allocate env client (Some claim) w1 of
              Inl err \<Rightarrow> kc_Event client ''ResourceClaimAllocationFailed'' w1
            | Inr None \<Rightarrow> w1
            | Inr (Some alloc) \<Rightarrow>
                let (err, w2) = kc_PatchAllocation client claim alloc w1 in
                kc_Event client (if err = None then ''ResourceClaimAllocated'' else ''ResourceClaimAllocationFailed'') w2))"
proof -
  let ?st = "\<lparr> st_Resource = Some claim, st_Allocation = None, st_world = w \<rparr>"
  let ?st1 = "\<lparr> st_Resource = Some claim, st_Allocation = None, st_world = gated client enabled claim w \<rparr>"
  let ?hs = "[AllocateHandler_Handle env client, PersistHandler_Handle client]"
  have "snd (dra_Reconcile env client enabled (Some claim) w) =
      st_world (snd (runHandlers (FeatureGateHandler_Handle client enabled # ?hs) ?st))"
    by (simp add: dra_Reconcile_def Reconcile_world[symmetric] split: prod.split)
  also have "\<dots> = st_world (snd (run_handlers ?hs zero_result [] ?st1))"
    using FeatureGate_frame[of ?st claim client enabled]
      run_handlers_step[of "FeatureGateHandler_Handle client enabled" ?st ?hs zero_result "[]"]
    by (simp add: runHandlers_def)
  finally show ?thesis
    by (auto simp: AllocateHandler_Handle_def PersistHandler_Handle_def AllocationWriter_Write_def Let_def
        split: sum.split option.split prod.split handler_error.split)
qed

section \<open>Examples\<close>

text \<open>A cluster whose state is its list of claims, with one published GPU that is shared by percent.\<close>

definition ex_gpu_slice :: "(int64 \<times> qformat) ResourceSlice" where
  "ex_gpu_slice = (ex_slice ''s'' 1 ''gpu-0'')\<lparr> rs_Driver := DefaultDriverName, rs_ResourceSliceCount := 1 \<rparr>"

definition ex_client :: "((int64 \<times> qformat, unit) ResourceClaim list, int64 \<times> qformat, unit) k8s_client" where
  "ex_client =
     \<lparr> kc_GetClass = (\<lambda>name w. if name = ''gpu'' then Inr ex_class else Inl ''not found''),
       kc_ListSlices = (\<lambda>w. Inr [ex_gpu_slice]), kc_ListClaims = Inr,
       kc_PatchAllocation = (\<lambda>claim a w. (None, map (\<lambda>c. if cl_Name c = cl_Name claim then c\<lparr> cl_Allocation := Some a \<rparr> else c) w)),
       kc_Event = (\<lambda>reason w. w) \<rparr>"

definition ex_env :: "(int64 \<times> qformat, string, unit) alloc_env" where
  "ex_env = \<lparr> ae_Q = int_quantity, ae_cel = ex_cel, ae_sliceSort = (\<lambda>xs. xs), ae_candidateSort = sort_by_name,
     ae_nodeSort = sort_by_name, ae_newUUID = (\<lambda>i. ''uuid''), ae_now = (),
     ae_options = \<lparr> ao_IncludeBindingConditions = False, ao_IncludeAllocationTimestamp = False \<rparr> \<rparr>"

definition ex_api_result :: "int64 \<Rightarrow> (int64 \<times> qformat) DeviceRequestAllocationResult" where
  "ex_api_result share =
     \<lparr> ra_Request = ''r'', ra_Driver = DefaultDriverName, ra_Pool = ''n1'', ra_Device = ''gpu-0'', ra_ShareID = Some ''uuid'',
       ra_ConsumedCapacity = [(''share'', (share, DecimalSI))], ra_BindingConditions = [], ra_BindingFailureConditions = [] \<rparr>"

definition ex_api_alloc :: "int64 \<Rightarrow> (int64 \<times> qformat, unit) ApiAllocationResult" where
  "ex_api_alloc share = \<lparr> aa_Results = [ex_api_result share], aa_Config = [], aa_NodeSelector = Some ''n1'', aa_AllocationTimestamp = None \<rparr>"

definition ex_new_claim :: "(int64 \<times> qformat, unit) ResourceClaim" where
  "ex_new_claim = ex_claim\<lparr> cl_Requests := [\<lparr> dr_Name = ''r'',
       dr_Exactly = Some \<lparr> er_DeviceClassName = ''gpu'', er_Selectors = [], er_AllocationMode = [],
         er_Count = 1, er_AdminAccess = None, er_Capacity = Some [(''share'', (30, DecimalSI))] \<rparr>, dr_FirstAvailable = [] \<rparr>] \<rparr>"

definition ex_claims :: "(int64 \<times> qformat, unit) ResourceClaim list" where
  "ex_claims = [ex_new_claim, ex_new_claim\<lparr> cl_Name := ''held'', cl_Allocation := Some (ex_api_alloc 20) \<rparr>]"

lemma ex_Allocator_Allocate:
  "Allocator_Allocate ex_env ex_client (Some ex_new_claim) ex_claims = Inr (Some (ex_api_alloc 30))"
  by code_simp

lemma ex_env_sorts: "env_sorts ex_env"
  using sort_by_name_sorts by (simp add: env_sorts_def ex_env_def sorts_devices_def)

lemma ex_held:
  "claim_results (ex_new_claim\<lparr> cl_Name := ''held'', cl_Allocation := Some (ex_api_alloc 20) \<rparr>) = [ex_api_result 20]"
  "all_results ex_claims = [ex_api_result 20]"
  by (simp_all add: claim_results_def all_results_def ex_claims_def ex_api_alloc_def ex_new_claim_def ex_claim_def)

theorem listAllocatedDevices_exact_witness:
  "\<exists>allocated info. listAllocatedDevices int_quantity ex_client ex_claims = Inr allocated
    \<and> mget allocated (api_key (ex_api_result 20)) = Some info \<and> \<not> ai_Exclusive info"
proof -
  have c: "kc_ListClaims ex_client ex_claims = Inr ex_claims" by (simp add: ex_client_def)
  have wf: "\<forall>res \<in> set (all_results ex_claims). mwf (ra_ConsumedCapacity res)"
    by (simp add: ex_held ex_api_result_def)
  obtain allocated where a: "listAllocatedDevices int_quantity ex_client ex_claims = Inr allocated"
    and k: "case mget allocated (api_key (ex_api_result 20)) of
       None \<Rightarrow> api_key (ex_api_result 20) \<notin> api_key ` set (all_results ex_claims)
     | Some info \<Rightarrow> api_key (ex_api_result 20) \<in> api_key ` set (all_results ex_claims)
         \<and> (ai_Exclusive info \<longleftrightarrow> (\<exists>res \<in> set (all_results ex_claims). api_key res = api_key (ex_api_result 20) \<and> ra_ConsumedCapacity res = []))
         \<and> (\<not> ai_Exclusive info \<longrightarrow>
             (\<forall>name. mget (ai_ConsumedCapacity info) name = consumed_sum int_quantity (api_key (ex_api_result 20)) name (all_results ex_claims)))"
    using listAllocatedDevices_exact[OF c wf, of int_quantity] by blast
  then show ?thesis
    by (cases "mget allocated (api_key (ex_api_result 20))") (auto simp: ex_held ex_api_result_def)
qed

theorem Allocator_no_double_allocation_witness:
  "ra_ConsumedCapacity (ex_api_result 20) \<noteq> []"
proof -
  have c: "kc_ListClaims ex_client ex_claims = Inr ex_claims" "kc_ListSlices ex_client ex_claims = Inr [ex_gpu_slice]"
    by (simp_all add: ex_client_def)
  have n: "distinct (concat (map slice_keys (filterPoolSlices (ae_sliceSort ex_env) DefaultDriverName [ex_gpu_slice])))"
    by code_simp
  have wf: "\<forall>res \<in> set (all_results ex_claims). mwf (ra_ConsumedCapacity res)"
    by (simp add: ex_held ex_api_result_def)
  have r: "ex_api_result 30 \<in> set (aa_Results (ex_api_alloc 30))" by (simp add: ex_api_alloc_def)
  have o1: "ex_new_claim\<lparr> cl_Name := ''held'', cl_Allocation := Some (ex_api_alloc 20) \<rparr> \<in> set ex_claims"
    by (simp add: ex_claims_def)
  have o2: "ex_api_result 20 \<in> set (claim_results (ex_new_claim\<lparr> cl_Name := ''held'', cl_Allocation := Some (ex_api_alloc 20) \<rparr>))"
    by (simp add: ex_held)
  have same: "api_key (ex_api_result 20) = api_key (ex_api_result 30)" by (simp add: api_key_def ex_api_result_def)
  show ?thesis
    using Allocator_no_double_allocation[OF ex_Allocator_Allocate c ex_env_sorts n wf r o1 o2 same] by blast
qed

end
