(* ===== verification/ResourceSlices.thy ===== *)
theory ResourceSlices
  imports Render
begin

text \<open>
  Layout of the inventory in resource slices, \<open>pkg/dra/adapters/k8s/resourceslice/*.go\<close>: the features
  the API server supports, the plan that puts devices next to the counter sets they draw on, and the two
  layouts of shared counters. A pointer map \<open>map[string]*sliceGroup\<close> is a map to values that every
  update replaces.
\<close>

section \<open>Features\<close>

datatype SharedCountersLayout = SharedCountersInline | SharedCountersSeparate

record FeatureSet =
  fs_PartitionableDevices :: bool
  fs_ConsumableCapacity :: bool
  fs_BindingConditions :: bool
  fs_SharedCountersLayout :: SharedCountersLayout

definition DefaultFeatures :: FeatureSet where
  "DefaultFeatures = \<lparr> fs_PartitionableDevices = True, fs_ConsumableCapacity = False,
     fs_BindingConditions = False, fs_SharedCountersLayout = SharedCountersInline \<rparr>"

definition WithSharedCountersLayout :: "FeatureSet \<Rightarrow> SharedCountersLayout \<Rightarrow> FeatureSet \<times> bool" where
  "WithSharedCountersLayout f layout =
     (if fs_SharedCountersLayout f = layout then (f, False)
      else (f\<lparr> fs_SharedCountersLayout := layout \<rparr>, True))"

definition WithBindingConditions :: "FeatureSet \<Rightarrow> bool \<Rightarrow> FeatureSet \<times> bool" where
  "WithBindingConditions f enabled =
     (if fs_BindingConditions f = enabled then (f, False) else (f\<lparr> fs_BindingConditions := enabled \<rparr>, True))"

definition enable_step :: "FeatureSet \<times> bool \<Rightarrow> string \<Rightarrow> FeatureSet \<times> bool" where
  "enable_step acc feature = (case acc of (updated, changed) \<Rightarrow>
     if feature = ''DRAPartitionableDevices'' then
       if \<not> fs_PartitionableDevices updated then (updated\<lparr> fs_PartitionableDevices := True \<rparr>, True) else (updated, changed)
     else if feature = ''DRAConsumableCapacity'' then
       if \<not> fs_ConsumableCapacity updated then (updated\<lparr> fs_ConsumableCapacity := True \<rparr>, True) else (updated, changed)
     else if feature = ''DRADeviceBindingConditions'' then
       if \<not> fs_BindingConditions updated then (updated\<lparr> fs_BindingConditions := True \<rparr>, True) else (updated, changed)
     else (updated, changed))"

definition Enable :: "FeatureSet \<Rightarrow> string list \<Rightarrow> FeatureSet \<times> bool" where
  "Enable f features = foldl enable_step (f, False) features"

definition disable_step :: "FeatureSet \<times> bool \<Rightarrow> string \<Rightarrow> FeatureSet \<times> bool" where
  "disable_step acc feature = (case acc of (updated, changed) \<Rightarrow>
     if feature = ''DRAPartitionableDevices'' then
       if fs_PartitionableDevices updated then (updated\<lparr> fs_PartitionableDevices := False \<rparr>, True) else (updated, changed)
     else if feature = ''DRAConsumableCapacity'' then
       if fs_ConsumableCapacity updated then (updated\<lparr> fs_ConsumableCapacity := False \<rparr>, True) else (updated, changed)
     else if feature = ''DRADeviceBindingConditions'' then
       if fs_BindingConditions updated then (updated\<lparr> fs_BindingConditions := False \<rparr>, True) else (updated, changed)
     else (updated, changed))"

definition Disable :: "FeatureSet \<Rightarrow> string list \<Rightarrow> FeatureSet \<times> bool" where
  "Disable f features = foldl disable_step (f, False) features"

section \<open>The plan\<close>

record Inventory =
  iv_Devices :: "deviceBase list"
  iv_CounterSets :: "CounterSet list"

record sliceGroup =
  sg_counterSets :: "CounterSet list"
  sg_devicesWithCounters :: "deviceBase list"
  sg_devicesNoConsumption :: "deviceBase list"

record slicePlan =
  sp_groups :: "(string, sliceGroup) gomap"
  sp_groupKeys :: "string list"
  sp_standalone :: "deviceBase list"

definition empty_group :: sliceGroup where
  "empty_group = \<lparr> sg_counterSets = [], sg_devicesWithCounters = [], sg_devicesNoConsumption = [] \<rparr>"

definition plan_group :: "(string, sliceGroup) gomap \<Rightarrow> string \<Rightarrow> sliceGroup" where
  "plan_group groups key = (case mget groups key of None \<Rightarrow> empty_group | Some g \<Rightarrow> g)"

definition counterSetKeyFromConsumes :: "CounterConsumption list \<Rightarrow> string option" where
  "counterSetKeyFromConsumes consumes =
     (case consumes of [] \<Rightarrow> None
      | c # _ \<Rightarrow> if cc_CounterSet c = [] then None else Some (cc_CounterSet c))"

definition groupKeyFromAttrs ::
  "(string, AttributeValue) gomap \<Rightarrow> (string, sliceGroup) gomap \<Rightarrow> string" where
  "groupKeyFromAttrs attrs groups =
     (if attrs = [] then []
      else (case mget attrs AttrPCIAddress of
              None \<Rightarrow> []
            | Some attr \<Rightarrow>
                (case av_String attr of
                   None \<Rightarrow> []
                 | Some s \<Rightarrow>
                     let key = CounterSetNameForPCI s in
                     if key = [] then [] else if mget groups key = None then [] else key)))"

fun plan_counter_sets :: "CounterSet list \<Rightarrow> (string, sliceGroup) gomap \<Rightarrow> (string, sliceGroup) gomap" where
  "plan_counter_sets [] groups = groups"
| "plan_counter_sets (s # rest) groups =
     plan_counter_sets rest
       (let g = plan_group groups (cs_Name s)
        in mput (cs_Name s) (g\<lparr> sg_counterSets := sg_counterSets g @ [s] \<rparr>) groups)"

fun plan_devices ::
  "deviceBase list \<Rightarrow> (string, sliceGroup) gomap \<times> deviceBase list \<Rightarrow>
   (string, sliceGroup) gomap \<times> deviceBase list" where
  "plan_devices [] acc = acc"
| "plan_devices (dev # rest) (groups, standalone) =
     (case counterSetKeyFromConsumes (ds_Consumes (Spec dev)) of
        Some key \<Rightarrow>
          let g = plan_group groups key in
          plan_devices rest
            (mput key (g\<lparr> sg_devicesWithCounters := sg_devicesWithCounters g @ [dev] \<rparr>) groups, standalone)
      | None \<Rightarrow>
          let key = groupKeyFromAttrs (ds_Attributes (Spec dev)) groups in
          if key \<noteq> [] then
            let g = plan_group groups key in
            plan_devices rest
              (mput key (g\<lparr> sg_devicesNoConsumption := sg_devicesNoConsumption g @ [dev] \<rparr>) groups, standalone)
          else plan_devices rest (groups, standalone @ [dev]))"

definition buildSlicePlan :: "Inventory \<Rightarrow> slicePlan" where
  "buildSlicePlan invt =
     (let (groups, standalone) = plan_devices (iv_Devices invt) (plan_counter_sets (iv_CounterSets invt) [], [])
      in \<lparr> sp_groups = groups, sp_groupKeys = sort (mkeys groups), sp_standalone = standalone \<rparr>)"

section \<open>Rendering the plan\<close>

definition render_group ::
  "'q quantity_api \<Rightarrow> DeviceRenderOptions \<Rightarrow> SharedCountersLayout \<Rightarrow> sliceGroup \<Rightarrow> 'q Slice list" where
  "render_group Q opts layout g =
     (if layout = SharedCountersSeparate then
        (if sg_counterSets g \<noteq> [] then
           [\<lparr> sl_SharedCounters = RenderCounterSets Q (sg_counterSets g), sl_Devices = [] \<rparr>] else [])
        @ (if sg_devicesNoConsumption g \<noteq> [] \<or> sg_devicesWithCounters g \<noteq> [] then
             [\<lparr> sl_SharedCounters = [],
                sl_Devices = RenderDevicesWithOptions Q
                  (sg_devicesNoConsumption g @ sg_devicesWithCounters g) opts \<rparr>] else [])
      else
        (if sg_devicesNoConsumption g \<noteq> [] then
           [\<lparr> sl_SharedCounters = [],
              sl_Devices = RenderDevicesWithOptions Q (sg_devicesNoConsumption g) opts \<rparr>] else [])
        @ (if sg_counterSets g \<noteq> [] \<or> sg_devicesWithCounters g \<noteq> [] then
             [\<lparr> sl_SharedCounters = RenderCounterSets Q (sg_counterSets g),
                sl_Devices = RenderDevicesWithOptions Q (sg_devicesWithCounters g) opts \<rparr>] else []))"

definition renderSlicePlan ::
  "'q quantity_api \<Rightarrow> slicePlan \<Rightarrow> DeviceRenderOptions \<Rightarrow> SharedCountersLayout \<Rightarrow> 'q Slice list" where
  "renderSlicePlan Q plan opts layout =
     (let slices = concat (map (\<lambda>key. render_group Q opts layout (plan_group (sp_groups plan) key)) (sp_groupKeys plan))
          @ (if sp_standalone plan \<noteq> [] then
               [\<lparr> sl_SharedCounters = [],
                  sl_Devices = RenderDevicesWithOptions Q (sp_standalone plan) opts \<rparr>] else [])
      in if slices = [] then [\<lparr> sl_SharedCounters = [], sl_Devices = [] \<rparr>] else slices)"

definition filterInventory :: "Inventory \<Rightarrow> FeatureSet \<Rightarrow> Inventory" where
  "filterInventory invt features =
     (if \<not> fs_PartitionableDevices features
      then invt\<lparr> iv_CounterSets := [], iv_Devices := FilterByType (iv_Devices invt) DeviceTypePhysical \<rparr>
      else invt)"

definition Render :: "'q quantity_api \<Rightarrow> FeatureSet \<Rightarrow> Inventory \<Rightarrow> 'q Slice list" where
  "Render Q features invt =
     (let invt = filterInventory invt features;
          opts = \<lparr> ro_IncludeCapacity = fs_ConsumableCapacity features,
                   ro_IncludeMultiAllocations = fs_ConsumableCapacity features,
                   ro_IncludeBindingConditions = fs_BindingConditions features \<rparr>
      in if iv_CounterSets invt = []
         then [\<lparr> sl_SharedCounters = [], sl_Devices = RenderDevicesWithOptions Q (iv_Devices invt) opts \<rparr>]
         else renderSlicePlan Q (buildSlicePlan invt) opts (fs_SharedCountersLayout features))"

definition BuildDriverResources ::
  "'q quantity_api \<Rightarrow> string \<Rightarrow> Inventory \<Rightarrow> FeatureSet \<Rightarrow> (string, 'q Slice list) gomap" where
  "BuildDriverResources Q poolName invt features = [(poolName, Render Q features invt)]"

section \<open>Features: the changed flag\<close>

lemma foldl_changed:
  assumes "\<And>acc x. le (fst acc) (fst (step acc x)) \<and> (snd (step acc x) = (snd acc \<or> fst (step acc x) \<noteq> fst acc))"
    and "\<And>a. le a a" and "\<And>a b c. le a b \<Longrightarrow> le b c \<Longrightarrow> le a c" and "\<And>a b. le a b \<Longrightarrow> le b a \<Longrightarrow> a = b"
  shows "le (fst acc) (fst (foldl step acc xs)) \<and>
    (snd (foldl step acc xs) = (snd acc \<or> fst (foldl step acc xs) \<noteq> fst acc))"
proof (induction xs arbitrary: acc)
  case (Cons x xs)
  let ?a = "step acc x"
  have IH: "le (fst ?a) (fst (foldl step ?a xs))"
    "snd (foldl step ?a xs) = (snd ?a \<or> fst (foldl step ?a xs) \<noteq> fst ?a)"
    using Cons.IH by blast+
  have st: "le (fst acc) (fst ?a)" "snd ?a = (snd acc \<or> fst ?a \<noteq> fst acc)"
    using assms(1) by blast+
  have "fst ?a \<noteq> fst acc \<Longrightarrow> fst (foldl step ?a xs) \<noteq> fst acc"
    using IH(1) st(1) assms(4) by force
  then show ?case
    using IH st assms(3)[OF st(1) IH(1)] by auto
qed (simp add: assms(2))

definition feature_le :: "FeatureSet \<Rightarrow> FeatureSet \<Rightarrow> bool" where
  "feature_le a b \<longleftrightarrow> fs_PartitionableDevices a \<le> fs_PartitionableDevices b
     \<and> fs_ConsumableCapacity a \<le> fs_ConsumableCapacity b \<and> fs_BindingConditions a \<le> fs_BindingConditions b
     \<and> fs_SharedCountersLayout a = fs_SharedCountersLayout b"

lemma feature_le_order:
  "feature_le a a" "feature_le a b \<Longrightarrow> feature_le b c \<Longrightarrow> feature_le a c"
  "feature_le a b \<Longrightarrow> feature_le b a \<Longrightarrow> a = (b :: FeatureSet)"
  by (auto simp: feature_le_def)

lemma enable_step_changed:
  "feature_le (fst acc) (fst (enable_step acc x)) \<and>
   (snd (enable_step acc x) = (snd acc \<or> fst (enable_step acc x) \<noteq> fst acc))"
  by (cases acc; cases "fst acc") (auto simp: enable_step_def feature_le_def)

lemma disable_step_changed:
  "feature_le (fst (disable_step acc x)) (fst acc) \<and>
   (snd (disable_step acc x) = (snd acc \<or> fst (disable_step acc x) \<noteq> fst acc))"
  by (cases acc; cases "fst acc") (auto simp: disable_step_def feature_le_def)

text \<open>
  Enabling features only switches features on, disabling only switches them off, and both
  report a change exactly when the feature set they return differs from the one they were given. The
  publisher republishes when the flag is set, so neither a lost nor a spurious update is possible.
\<close>

lemma Enable_Disable_changed:
  "feature_le f (fst (Enable f features)) \<and> (snd (Enable f features) \<longleftrightarrow> fst (Enable f features) \<noteq> f)
   \<and> feature_le (fst (Disable f features)) f \<and> (snd (Disable f features) \<longleftrightarrow> fst (Disable f features) \<noteq> f)"
proof -
  have "feature_le (fst (f, False)) (fst (foldl enable_step (f, False) features)) \<and>
    (snd (foldl enable_step (f, False) features) = (snd (f, False) \<or> fst (foldl enable_step (f, False) features) \<noteq> fst (f, False)))"
    by (rule foldl_changed[where le = feature_le]) (use enable_step_changed feature_le_order in auto)
  moreover have "feature_le (fst (foldl disable_step (f, False) features)) (fst (f, False)) \<and>
    (snd (foldl disable_step (f, False) features) = (snd (f, False) \<or> fst (foldl disable_step (f, False) features) \<noteq> fst (f, False)))"
    by (rule foldl_changed[where le = "\<lambda>a b. feature_le b a"])
       (use disable_step_changed feature_le_order in auto)
  ultimately show ?thesis
    by (simp add: Enable_def Disable_def)
qed

section \<open>Nothing is lost and nothing is published twice\<close>

definition group_total :: "(sliceGroup \<Rightarrow> 'a :: comm_monoid_add) \<Rightarrow> (string, sliceGroup) gomap \<Rightarrow> 'a" where
  "group_total F groups = (\<Sum>g\<leftarrow>groups. F (snd g))"

lemma plan_group_mput [simp]: "plan_group (mput k g groups) k' = (if k' = k then g else plan_group groups k')"
  by (simp add: plan_group_def)

lemma group_total_mput:
  assumes "F empty_group = 0"
  shows "group_total F (mput k g groups) + F (plan_group groups k) = group_total F groups + F g"
proof (induction groups)
  case (Cons x xs)
  then show ?case
    by (cases x) (auto simp: group_total_def plan_group_def algebra_simps)
qed (simp add: group_total_def plan_group_def assms)

lemma group_total_keys:
  assumes "mwf groups"
  shows "(\<Sum>k\<leftarrow>mkeys groups. F (plan_group groups k)) = group_total F groups"
proof -
  have "plan_group groups (fst x) = snd x" if "x \<in> set groups" for x
    using that mget_eq_in[OF assms, of "fst x" "snd x"] by (simp add: plan_group_def)
  then show ?thesis
    unfolding group_total_def by (simp add: comp_def cong: map_cong)
qed

lemma group_total_sorted:
  assumes "mwf groups"
  shows "(\<Sum>k\<leftarrow>sort (mkeys groups). F (plan_group groups k)) = group_total F groups"
proof -
  have "(\<Sum>k\<leftarrow>sort (mkeys groups). F (plan_group groups k)) = \<Sum>\<^sub># (image_mset (\<lambda>k. F (plan_group groups k)) (mset (sort (mkeys groups))))"
    by (metis mset_map sum_mset_sum_list)
  also have "\<dots> = (\<Sum>k\<leftarrow>mkeys groups. F (plan_group groups k))"
    by (metis mset_map mset_sort sum_mset_sum_list)
  finally show ?thesis using group_total_keys[OF assms] by simp
qed

definition group_devices :: "sliceGroup \<Rightarrow> deviceBase multiset" where
  "group_devices g = mset (sg_devicesNoConsumption g) + mset (sg_devicesWithCounters g)"

definition group_sets :: "sliceGroup \<Rightarrow> CounterSet multiset" where
  "group_sets g = mset (sg_counterSets g)"

lemma plan_counter_sets_total:
  "mwf groups \<Longrightarrow> mwf (plan_counter_sets css groups)
   \<and> group_total group_sets (plan_counter_sets css groups) =
       group_total group_sets groups + mset css
   \<and> group_total group_devices (plan_counter_sets css groups) = group_total group_devices groups"
proof (induction css groups rule: plan_counter_sets.induct)
  case (2 c rest groups)
  let ?g = "plan_group groups (cs_Name c)"
  let ?new = "?g\<lparr> sg_counterSets := sg_counterSets ?g @ [c] \<rparr>"
  have "group_total group_sets (mput (cs_Name c) ?new groups) =
      group_total group_sets groups + {#c#}"
    using group_total_mput[of group_sets "cs_Name c" ?new groups] by (simp add: group_sets_def empty_group_def)
  moreover have "group_total group_devices (mput (cs_Name c) ?new groups) = group_total group_devices groups"
    using group_total_mput[of group_devices "cs_Name c" ?new groups] by (simp add: group_devices_def empty_group_def)
  ultimately show ?case
    using 2 by (simp add: Let_def)
qed simp

lemma group_devices_add [simp]:
  "group_devices (g\<lparr> sg_devicesWithCounters := sg_devicesWithCounters g @ [d] \<rparr>) = add_mset d (group_devices g)"
  "group_devices (g\<lparr> sg_devicesNoConsumption := sg_devicesNoConsumption g @ [d] \<rparr>) = add_mset d (group_devices g)"
  by (simp_all add: group_devices_def)

lemma plan_devices_total:
  "plan_devices devs (groups, standalone) = (groups', standalone') \<Longrightarrow> mwf groups \<Longrightarrow> mwf groups'
   \<and> group_total group_sets groups' = group_total group_sets groups
   \<and> group_total group_devices groups' + mset standalone' = group_total group_devices groups + mset standalone + mset devs"
proof (induction devs arbitrary: groups standalone)
  case (Cons dev rest)
  have put: "group_total group_sets (mput k g groups) = group_total group_sets groups
      \<and> group_total group_devices (mput k g groups) = group_total group_devices groups + {#dev#}"
    if "sg_counterSets g = sg_counterSets (plan_group groups k)"
      "group_devices g = group_devices (plan_group groups k) + {#dev#}" for k g
    using group_total_mput[of group_sets k g groups] group_total_mput[of group_devices k g groups] that
    by (simp add: group_devices_def group_sets_def empty_group_def)
  show ?case
  proof (cases "counterSetKeyFromConsumes (ds_Consumes (Spec dev))")
    case (Some key)
    let ?g = "plan_group groups key"
    let ?new = "?g\<lparr> sg_devicesWithCounters := sg_devicesWithCounters ?g @ [dev] \<rparr>"
    have "plan_devices rest (mput key ?new groups, standalone) = (groups', standalone')"
      using Cons.prems(1) Some by (simp add: Let_def)
    from Cons.IH[OF this] put[of ?new key] Cons.prems(2) show ?thesis
      by simp
  next
    case None
    let ?key = "groupKeyFromAttrs (ds_Attributes (Spec dev)) groups"
    let ?g = "plan_group groups ?key"
    let ?new = "?g\<lparr> sg_devicesNoConsumption := sg_devicesNoConsumption ?g @ [dev] \<rparr>"
    show ?thesis
    proof (cases "?key = []")
      case True
      then have "plan_devices rest (groups, standalone @ [dev]) = (groups', standalone')"
        using Cons.prems(1) None by (simp add: Let_def)
      from Cons.IH[OF this Cons.prems(2)] show ?thesis by simp
    next
      case False
      then have "plan_devices rest (mput ?key ?new groups, standalone) = (groups', standalone')"
        using Cons.prems(1) None by (simp add: Let_def)
      from Cons.IH[OF this] put[of ?new ?key] Cons.prems(2) show ?thesis
        by simp
    qed
  qed
qed simp

lemma RenderDevices_map [simp]:
  "RenderDevicesWithOptions Q devs opts = map (\<lambda>d. renderDeviceWithOptions Q (Spec d) opts) devs"
  by (simp add: RenderDevicesWithOptions_def)

definition render_set :: "'q quantity_api \<Rightarrow> CounterSet \<Rightarrow> 'q ApiCounterSet" where
  "render_set Q s = \<lparr> xs_Name = cs_Name s, xs_Counters = renderCounters Q (cs_Counters s) \<rparr>"

lemma RenderCounterSets_map [simp]: "RenderCounterSets Q css = map (render_set Q) css"
  by (simp add: RenderCounterSets_def render_set_def)

definition slices_devices :: "'q Slice list \<Rightarrow> 'q Device multiset" where
  "slices_devices slices = (\<Sum>s\<leftarrow>slices. mset (sl_Devices s))"

definition slices_counters :: "'q Slice list \<Rightarrow> 'q ApiCounterSet multiset" where
  "slices_counters slices = (\<Sum>s\<leftarrow>slices. mset (sl_SharedCounters s))"

lemma render_group_content:
  "slices_devices (render_group Q opts layout g) =
     image_mset (\<lambda>d. renderDeviceWithOptions Q (Spec d) opts) (group_devices g)"
  "slices_counters (render_group Q opts layout g) = image_mset (render_set Q) (group_sets g)"
  by (auto simp: group_sets_def render_group_def slices_devices_def slices_counters_def group_devices_def)

lemma slices_default:
  "slices_devices (if xs = [] then [\<lparr> sl_SharedCounters = [], sl_Devices = [] \<rparr>] else xs) = slices_devices xs"
  "slices_counters (if xs = [] then [\<lparr> sl_SharedCounters = [], sl_Devices = [] \<rparr>] else xs) = slices_counters xs"
  by (simp_all add: slices_devices_def slices_counters_def)

lemma slices_append [simp]:
  "slices_devices (xs @ ys) = slices_devices xs + slices_devices ys"
  "slices_counters (xs @ ys) = slices_counters xs + slices_counters ys"
  by (simp_all add: slices_devices_def slices_counters_def)

lemma slices_concat:
  "slices_devices (concat (map f xs)) = (\<Sum>x\<leftarrow>xs. slices_devices (f x))"
  "slices_counters (concat (map f xs)) = (\<Sum>x\<leftarrow>xs. slices_counters (f x))"
  by (induction xs) (simp_all add: slices_devices_def slices_counters_def)

lemma image_mset_sum_list: "(\<Sum>x\<leftarrow>xs. image_mset f (g x)) = image_mset f (\<Sum>x\<leftarrow>xs. g x)"
  by (induction xs) simp_all

lemma renderSlicePlan_content:
  assumes "mwf (sp_groups plan)" and "sp_groupKeys plan = sort (mkeys (sp_groups plan))"
  shows "slices_devices (renderSlicePlan Q plan opts layout) =
      image_mset (\<lambda>d. renderDeviceWithOptions Q (Spec d) opts)
        (group_total group_devices (sp_groups plan) + mset (sp_standalone plan))"
    and "slices_counters (renderSlicePlan Q plan opts layout) =
      image_mset (render_set Q) (group_total group_sets (sp_groups plan))"
proof -
  let ?slices = "concat (map (\<lambda>key. render_group Q opts layout (plan_group (sp_groups plan) key)) (sp_groupKeys plan))
          @ (if sp_standalone plan \<noteq> [] then
               [\<lparr> sl_SharedCounters = [], sl_Devices = RenderDevicesWithOptions Q (sp_standalone plan) opts \<rparr>] else [])"
  have same: "slices_devices (renderSlicePlan Q plan opts layout) = slices_devices ?slices"
    "slices_counters (renderSlicePlan Q plan opts layout) = slices_counters ?slices"
    unfolding renderSlicePlan_def Let_def slices_default by (rule refl)+
  show "slices_devices (renderSlicePlan Q plan opts layout) =
      image_mset (\<lambda>d. renderDeviceWithOptions Q (Spec d) opts)
        (group_total group_devices (sp_groups plan) + mset (sp_standalone plan))"
    unfolding same slices_append slices_concat render_group_content image_mset_sum_list assms(2)
      group_total_sorted[OF assms(1)]
    by (simp add: slices_devices_def)
  show "slices_counters (renderSlicePlan Q plan opts layout) =
      image_mset (render_set Q) (group_total group_sets (sp_groups plan))"
    unfolding same slices_append slices_concat render_group_content image_mset_sum_list assms(2)
      group_total_sorted[OF assms(1)]
    by (simp add: slices_counters_def)
qed

definition feature_options :: "FeatureSet \<Rightarrow> DeviceRenderOptions" where
  "feature_options features =
     \<lparr> ro_IncludeCapacity = fs_ConsumableCapacity features, ro_IncludeMultiAllocations = fs_ConsumableCapacity features,
       ro_IncludeBindingConditions = fs_BindingConditions features \<rparr>"

text \<open>
  \<^bold>\<open>C9.\<close> Publication neither loses nor duplicates anything: over all the slices of a rendered
  inventory, in either layout, the devices are exactly the inventory's devices and the shared counter
  sets exactly the inventory's counter sets, each rendered once. Without partitionable devices only the
  physical devices are published and no counter set is.
\<close>

theorem Render_complete:
  "slices_devices (Render Q features invt) =
     image_mset (\<lambda>d. renderDeviceWithOptions Q (Spec d) (feature_options features))
       (mset (if fs_PartitionableDevices features then iv_Devices invt
              else filter (\<lambda>d. db_deviceType d = DeviceTypePhysical) (iv_Devices invt)))
   \<and> slices_counters (Render Q features invt) =
     image_mset (render_set Q) (mset (if fs_PartitionableDevices features then iv_CounterSets invt else []))"
proof -
  let ?inv = "filterInventory invt features"
  have inv: "iv_Devices ?inv = (if fs_PartitionableDevices features then iv_Devices invt
              else filter (\<lambda>d. db_deviceType d = DeviceTypePhysical) (iv_Devices invt))"
    "iv_CounterSets ?inv = (if fs_PartitionableDevices features then iv_CounterSets invt else [])"
    by (simp_all add: filterInventory_def FilterByType_def)
  obtain groups standalone where pd:
    "plan_devices (iv_Devices ?inv) (plan_counter_sets (iv_CounterSets ?inv) [], []) = (groups, standalone)"
    by (cases "plan_devices (iv_Devices ?inv) (plan_counter_sets (iv_CounterSets ?inv) [], [])")
  have cs: "mwf (plan_counter_sets (iv_CounterSets ?inv) [])"
    "group_total group_sets (plan_counter_sets (iv_CounterSets ?inv) []) = mset (iv_CounterSets ?inv)"
    "group_total group_devices (plan_counter_sets (iv_CounterSets ?inv) []) = {#}"
    using plan_counter_sets_total[of "[]" "iv_CounterSets ?inv"] by (simp_all add: group_total_def)
  have tot: "mwf groups" "group_total group_sets groups = mset (iv_CounterSets ?inv)"
    "group_total group_devices groups + mset standalone = mset (iv_Devices ?inv)"
    using plan_devices_total[OF pd cs(1)] cs by simp_all
  have plan: "buildSlicePlan ?inv = \<lparr> sp_groups = groups, sp_groupKeys = sort (mkeys groups), sp_standalone = standalone \<rparr>"
    using pd by (simp add: buildSlicePlan_def)
  have eq: "Render Q features invt =
      (if iv_CounterSets ?inv = [] then [\<lparr> sl_SharedCounters = [], sl_Devices = RenderDevicesWithOptions Q (iv_Devices ?inv) (feature_options features) \<rparr>]
       else renderSlicePlan Q (buildSlicePlan ?inv) (feature_options features) (fs_SharedCountersLayout features))"
    by (simp add: Render_def Let_def feature_options_def)
  have "slices_devices (Render Q features invt) =
      image_mset (\<lambda>d. renderDeviceWithOptions Q (Spec d) (feature_options features)) (mset (iv_Devices ?inv))
    \<and> slices_counters (Render Q features invt) = image_mset (render_set Q) (mset (iv_CounterSets ?inv))"
    using renderSlicePlan_content[of "buildSlicePlan ?inv" Q "feature_options features" "fs_SharedCountersLayout features"] tot
    by (simp add: eq plan) (simp add: slices_devices_def slices_counters_def)
  then show ?thesis by (simp only: inv)
qed

section \<open>Devices next to their counters\<close>

lemma plan_counter_sets_group:
  "sg_counterSets (plan_group (plan_counter_sets css groups) key) =
     sg_counterSets (plan_group groups key) @ filter (\<lambda>s. cs_Name s = key) css"
  "sg_devicesWithCounters (plan_group (plan_counter_sets css groups) key) = sg_devicesWithCounters (plan_group groups key)"
  by (induction css groups rule: plan_counter_sets.induct) (simp_all add: Let_def)

lemma plan_devices_group:
  "plan_devices devs (groups, standalone) = (groups', standalone') \<Longrightarrow>
   sg_counterSets (plan_group groups' key) = sg_counterSets (plan_group groups key) \<and>
   sg_devicesWithCounters (plan_group groups' key) =
     sg_devicesWithCounters (plan_group groups key)
     @ filter (\<lambda>d. counterSetKeyFromConsumes (ds_Consumes (Spec d)) = Some key) devs"
proof (induction devs arbitrary: groups standalone)
  case (Cons dev rest)
  show ?case
    using Cons.prems Cons.IH by (fastforce simp: Let_def split: option.splits if_splits)
qed simp

lemma plan_devices_keys:
  "plan_devices devs (groups, standalone) = (groups', standalone') \<Longrightarrow>
   dev \<in> set devs \<Longrightarrow> counterSetKeyFromConsumes (ds_Consumes (Spec dev)) = Some key \<Longrightarrow> key \<in> set (mkeys groups')"
proof -
  assume a: "plan_devices devs (groups, standalone) = (groups', standalone')" "dev \<in> set devs"
    "counterSetKeyFromConsumes (ds_Consumes (Spec dev)) = Some key"
  then have "dev \<in> set (sg_devicesWithCounters (plan_group groups' key))"
    using plan_devices_group[OF a(1), of key] by simp
  then show ?thesis
    by (auto simp: plan_group_def empty_group_def split: option.splits dest!: mget_in) force
qed

text \<open>
  Layout of shared counters. Inline, a device that draws on a counter set is published in one
  slice together with every counter set of that name of the inventory, which the API server requires of
  that version. Separately, no slice carries both devices and counter sets.
\<close>

theorem Render_layout:
  assumes "fs_PartitionableDevices features" and "iv_CounterSets invt \<noteq> []"
  shows "case fs_SharedCountersLayout features of
      SharedCountersInline \<Rightarrow>
        (\<forall>dev \<in> set (iv_Devices invt). \<forall>key. counterSetKeyFromConsumes (ds_Consumes (Spec dev)) = Some key \<longrightarrow>
          (\<exists>slice \<in> set (Render Q features invt).
             renderDeviceWithOptions Q (Spec dev) (feature_options features) \<in> set (sl_Devices slice)
             \<and> render_set Q ` {s \<in> set (iv_CounterSets invt). cs_Name s = key} = set (sl_SharedCounters slice)))
    | SharedCountersSeparate \<Rightarrow>
        (\<forall>slice \<in> set (Render Q features invt). sl_Devices slice = [] \<or> sl_SharedCounters slice = [])"
proof -
  let ?opts = "feature_options features" and ?layout = "fs_SharedCountersLayout features"
  obtain groups standalone where pd:
    "plan_devices (iv_Devices invt) (plan_counter_sets (iv_CounterSets invt) [], []) = (groups, standalone)"
    by (cases "plan_devices (iv_Devices invt) (plan_counter_sets (iv_CounterSets invt) [], [])")
  have eq: "Render Q features invt = renderSlicePlan Q
      \<lparr> sp_groups = groups, sp_groupKeys = sort (mkeys groups), sp_standalone = standalone \<rparr> ?opts ?layout"
    using assms pd by (simp add: Render_def filterInventory_def Let_def buildSlicePlan_def feature_options_def)
  show ?thesis
  proof (cases ?layout)
    case SharedCountersSeparate
    then show ?thesis
      by (auto simp: eq renderSlicePlan_def render_group_def Let_def split: if_splits)
  next
    case SharedCountersInline
    have "\<exists>slice \<in> set (Render Q features invt).
        renderDeviceWithOptions Q (Spec dev) ?opts \<in> set (sl_Devices slice)
        \<and> render_set Q ` {s \<in> set (iv_CounterSets invt). cs_Name s = key} = set (sl_SharedCounters slice)"
      if dev: "dev \<in> set (iv_Devices invt)" "counterSetKeyFromConsumes (ds_Consumes (Spec dev)) = Some key" for dev key
    proof -
      let ?g = "plan_group groups key"
      let ?slice = "\<lparr> sl_SharedCounters = RenderCounterSets Q (sg_counterSets ?g),
        sl_Devices = RenderDevicesWithOptions Q (sg_devicesWithCounters ?g) ?opts \<rparr>"
      have g: "sg_counterSets ?g = filter (\<lambda>s. cs_Name s = key) (iv_CounterSets invt)"
        "dev \<in> set (sg_devicesWithCounters ?g)"
        using plan_devices_group[OF pd, of key] plan_counter_sets_group[of "iv_CounterSets invt" "[]" key] dev
        by (simp_all add: plan_group_def empty_group_def)
      have "?slice \<in> set (render_group Q ?opts ?layout ?g)"
        using g(2) by (auto simp: render_group_def SharedCountersInline)
      then have "?slice \<in> set (Render Q features invt)"
        using plan_devices_keys[OF pd dev] by (auto simp: eq renderSlicePlan_def Let_def)
      then show ?thesis
        using g by (intro bexI[of _ ?slice]) auto
    qed
    then show ?thesis using SharedCountersInline by auto
  qed
qed

definition ex_inventory :: Inventory where
  "ex_inventory =
     \<lparr> iv_Devices =
         [NewGPUDevice ''gpu-0'' ''GPU-0'' [] [] [] False,
          NewMIGDevice ''mig-0'' ''GPU-1'' [] []
            [\<lparr> cc_CounterSet = ''pgpu-1'', cc_Counters = [(''memory'', \<lparr> ctr_Value = 10, ctr_Unit = CounterUnitMiB \<rparr>)] \<rparr>]],
       iv_CounterSets =
         [\<lparr> cs_Name = ''pgpu-1'', cs_Counters = [(''memory'', \<lparr> ctr_Value = 40, ctr_Unit = CounterUnitMiB \<rparr>)] \<rparr>] \<rparr>"

theorem Render_layout_witness:
  "\<exists>slice \<in> set (Render int_quantity DefaultFeatures ex_inventory). sl_Devices slice \<noteq> [] \<and> sl_SharedCounters slice \<noteq> []"
proof -
  let ?dev = "iv_Devices ex_inventory ! 1"
  have dev: "?dev \<in> set (iv_Devices ex_inventory)" "counterSetKeyFromConsumes (ds_Consumes (Spec ?dev)) = Some ''pgpu-1''"
    by (simp_all add: ex_inventory_def NewMIGDevice_def Spec_def counterSetKeyFromConsumes_def)
  obtain slice where "slice \<in> set (Render int_quantity DefaultFeatures ex_inventory)"
    "renderDeviceWithOptions int_quantity (Spec ?dev) (feature_options DefaultFeatures) \<in> set (sl_Devices slice)"
    "render_set int_quantity ` {s \<in> set (iv_CounterSets ex_inventory). cs_Name s = ''pgpu-1''} = set (sl_SharedCounters slice)"
    using Render_layout[of DefaultFeatures ex_inventory int_quantity] dev
    by (auto simp: DefaultFeatures_def ex_inventory_def)
  then show ?thesis
    by (intro bexI[of _ slice]) (auto simp: ex_inventory_def)
qed

end
