(* ===== verification/ConfigApi.thy ===== *)
theory ConfigApi
  imports GoStrings Capacity
begin

text \<open>
  Device configuration, \<open>pkg/dra/configapi\<close>: the configuration objects users attach to claims, their
  defaults, normalisation and validation, the sharing settings and the per-device limits of pinned memory
  for MPS. The decoder of \<open>k8s.io/apimachinery\<close> is not part of the model; a decoded object is a value of
  type \<open>config\<close>. Methods with a pointer receiver take an \<open>option\<close> where they test it for nil.
\<close>

section \<open>Types\<close>

record TypeMeta =
  tm_APIVersion :: string
  tm_Kind :: string

definition TimeSlicingStrategy :: string where "TimeSlicingStrategy = ''TimeSlicing''"
definition MpsStrategy :: string where "MpsStrategy = ''MPS''"
definition DefaultTimeSlice :: string where "DefaultTimeSlice = ''Default''"
definition ShortTimeSlice :: string where "ShortTimeSlice = ''Short''"
definition MediumTimeSlice :: string where "MediumTimeSlice = ''Medium''"
definition LongTimeSlice :: string where "LongTimeSlice = ''Long''"

lemmas slice_defs = DefaultTimeSlice_def ShortTimeSlice_def MediumTimeSlice_def LongTimeSlice_def
lemmas strategy_defs = TimeSlicingStrategy_def MpsStrategy_def

type_synonym TimeSliceInterval = string
type_synonym GpuSharingStrategy = string
type_synonym 'q MpsPerDevicePinnedMemoryLimit = "(string, 'q) gomap"

record TimeSlicingConfig =
  ts_Interval :: "TimeSliceInterval option"

record 'q MpsConfig =
  mc_DefaultActiveThreadPercentage :: "int64 option"
  mc_DefaultPinnedDeviceMemoryLimit :: "'q option"
  mc_DefaultPerDevicePinnedMemoryLimit :: "'q MpsPerDevicePinnedMemoryLimit"

record 'q GpuSharing =
  gsh_Strategy :: GpuSharingStrategy
  gsh_TimeSlicingConfig :: "TimeSlicingConfig option"
  gsh_MpsConfig :: "'q MpsConfig option"

record 'q MigDeviceSharing =
  msh_Strategy :: GpuSharingStrategy
  msh_MpsConfig :: "'q MpsConfig option"

record 'q GpuConfig =
  gc_TypeMeta :: TypeMeta
  gc_Sharing :: "'q GpuSharing option"

record 'q MigDeviceConfig =
  mg_TypeMeta :: TypeMeta
  mg_Sharing :: "'q MigDeviceSharing option"

record VfioDeviceConfig =
  vf_TypeMeta :: TypeMeta

datatype 'q config = ConfigGpu "'q GpuConfig" | ConfigMig "'q MigDeviceConfig" | ConfigVfio VfioDeviceConfig

datatype config_error =
    UnknownStrategy string
  | UnknownInterval string
  | IntervalNotSet
  | ThreadPercentageNegative
  | ThreadPercentageTooLarge
  | InvalidSharing
  | NoSharing
  | StrategyNot string
  | ForeignConfig string
  | InvalidDeviceSelector string
  | InvalidLimit string

section \<open>Defaults\<close>

definition api_version :: string where
  "api_version = ''resource.gpu.deckhouse.io/v1alpha1''"

definition DefaultGpuConfig :: "'q GpuConfig" where
  "DefaultGpuConfig = \<lparr> gc_TypeMeta = \<lparr> tm_APIVersion = api_version, tm_Kind = ''GpuConfig'' \<rparr>, gc_Sharing = None \<rparr>"

definition DefaultMigDeviceConfig :: "'q MigDeviceConfig" where
  "DefaultMigDeviceConfig =
     \<lparr> mg_TypeMeta = \<lparr> tm_APIVersion = api_version, tm_Kind = ''MigDeviceConfig'' \<rparr>, mg_Sharing = None \<rparr>"

definition DefaultVfioDeviceConfig :: VfioDeviceConfig where
  "DefaultVfioDeviceConfig = \<lparr> vf_TypeMeta = \<lparr> tm_APIVersion = api_version, tm_Kind = ''VfioDeviceConfig'' \<rparr> \<rparr>"

definition empty_mps :: "'q MpsConfig" where
  "empty_mps = \<lparr> mc_DefaultActiveThreadPercentage = None, mc_DefaultPinnedDeviceMemoryLimit = None,
     mc_DefaultPerDevicePinnedMemoryLimit = [] \<rparr>"

section \<open>Sharing methods\<close>

definition TimeSliceInterval_Int :: "TimeSliceInterval \<Rightarrow> int64" where
  "TimeSliceInterval_Int t = (if t = DefaultTimeSlice then 0 else if t = ShortTimeSlice then 1
            else if t = MediumTimeSlice then 2 else if t = LongTimeSlice then 3 else - 1)"

definition GpuSharing_IsTimeSlicing :: "'q GpuSharing option \<Rightarrow> bool" where
  "GpuSharing_IsTimeSlicing s = (case s of None \<Rightarrow> False | Some x \<Rightarrow> gsh_Strategy x = TimeSlicingStrategy)"

definition GpuSharing_IsMps :: "'q GpuSharing option \<Rightarrow> bool" where
  "GpuSharing_IsMps s = (case s of None \<Rightarrow> False | Some x \<Rightarrow> gsh_Strategy x = MpsStrategy)"

definition MigDeviceSharing_IsTimeSlicing :: "'q MigDeviceSharing option \<Rightarrow> bool" where
  "MigDeviceSharing_IsTimeSlicing s = (case s of None \<Rightarrow> False | Some x \<Rightarrow> msh_Strategy x = TimeSlicingStrategy)"

definition MigDeviceSharing_IsMps :: "'q MigDeviceSharing option \<Rightarrow> bool" where
  "MigDeviceSharing_IsMps s = (case s of None \<Rightarrow> False | Some x \<Rightarrow> msh_Strategy x = MpsStrategy)"

definition GpuSharing_GetTimeSlicingConfig :: "'q GpuSharing option \<Rightarrow> config_error + TimeSlicingConfig option" where
  "GpuSharing_GetTimeSlicingConfig s =
     (case s of
        None \<Rightarrow> Inl NoSharing
      | Some x \<Rightarrow>
          if gsh_Strategy x \<noteq> TimeSlicingStrategy then Inl (StrategyNot TimeSlicingStrategy)
          else if gsh_MpsConfig x \<noteq> None then Inl (ForeignConfig TimeSlicingStrategy)
          else Inr (gsh_TimeSlicingConfig x))"

definition GpuSharing_GetMpsConfig :: "'q GpuSharing option \<Rightarrow> config_error + 'q MpsConfig option" where
  "GpuSharing_GetMpsConfig s =
     (case s of
        None \<Rightarrow> Inl NoSharing
      | Some x \<Rightarrow>
          if gsh_Strategy x \<noteq> MpsStrategy then Inl (StrategyNot MpsStrategy)
          else if gsh_TimeSlicingConfig x \<noteq> None then Inl (ForeignConfig MpsStrategy)
          else Inr (gsh_MpsConfig x))"

definition MigDeviceSharing_GetMpsConfig :: "'q MigDeviceSharing option \<Rightarrow> config_error + 'q MpsConfig option" where
  "MigDeviceSharing_GetMpsConfig s =
     (case s of
        None \<Rightarrow> Inl NoSharing
      | Some x \<Rightarrow> if msh_Strategy x \<noteq> MpsStrategy then Inl (StrategyNot MpsStrategy) else Inr (msh_MpsConfig x))"

section \<open>Normalisation and validation\<close>

definition GpuConfig_Normalize :: "'q GpuConfig \<Rightarrow> 'q GpuConfig" where
  "GpuConfig_Normalize c =
     (case gc_Sharing c of
        None \<Rightarrow> c
      | Some s \<Rightarrow>
          let s1 = (if gsh_Strategy s = TimeSlicingStrategy \<and> gsh_TimeSlicingConfig s = None
                    then s\<lparr> gsh_TimeSlicingConfig := Some \<lparr> ts_Interval = Some DefaultTimeSlice \<rparr> \<rparr> else s);
              s2 = (if gsh_Strategy s1 = MpsStrategy \<and> gsh_MpsConfig s1 = None
                    then s1\<lparr> gsh_MpsConfig := Some empty_mps \<rparr> else s1)
          in c\<lparr> gc_Sharing := Some s2 \<rparr>)"

definition MigDeviceConfig_Normalize :: "'q MigDeviceConfig \<Rightarrow> 'q MigDeviceConfig" where
  "MigDeviceConfig_Normalize c =
     (case mg_Sharing c of
        None \<Rightarrow> c
      | Some s \<Rightarrow>
          c\<lparr> mg_Sharing := Some (if msh_Strategy s = MpsStrategy \<and> msh_MpsConfig s = None
                                 then s\<lparr> msh_MpsConfig := Some empty_mps \<rparr> else s) \<rparr>)"

definition VfioDeviceConfig_Normalize :: "VfioDeviceConfig \<Rightarrow> VfioDeviceConfig" where
  "VfioDeviceConfig_Normalize c =
     (if tm_APIVersion (vf_TypeMeta c) = [] \<or> tm_Kind (vf_TypeMeta c) = []
      then c\<lparr> vf_TypeMeta := vf_TypeMeta DefaultVfioDeviceConfig \<rparr> else c)"

definition Normalize :: "'q config \<Rightarrow> 'q config" where
  "Normalize cfg = (case cfg of ConfigGpu c \<Rightarrow> ConfigGpu (GpuConfig_Normalize c)
     | ConfigMig c \<Rightarrow> ConfigMig (MigDeviceConfig_Normalize c)
     | ConfigVfio c \<Rightarrow> ConfigVfio (VfioDeviceConfig_Normalize c))"

definition GpuSharingStrategy_Validate :: "GpuSharingStrategy \<Rightarrow> config_error option" where
  "GpuSharingStrategy_Validate s = (if s = TimeSlicingStrategy \<or> s = MpsStrategy then None else Some (UnknownStrategy s))"

definition TimeSliceInterval_Validate :: "TimeSliceInterval \<Rightarrow> config_error option" where
  "TimeSliceInterval_Validate t =
     (if t \<in> {DefaultTimeSlice, ShortTimeSlice, MediumTimeSlice, LongTimeSlice} then None else Some (UnknownInterval t))"

definition TimeSlicingConfig_Validate :: "TimeSlicingConfig option \<Rightarrow> config_error option" where
  "TimeSlicingConfig_Validate c =
     (case c of
        None \<Rightarrow> Some IntervalNotSet
      | Some x \<Rightarrow> (case ts_Interval x of None \<Rightarrow> Some IntervalNotSet | Some i \<Rightarrow> TimeSliceInterval_Validate i))"

definition MpsConfig_Validate :: "'q MpsConfig option \<Rightarrow> config_error option" where
  "MpsConfig_Validate c =
     (case c of
        None \<Rightarrow> None
      | Some x \<Rightarrow>
          (case mc_DefaultActiveThreadPercentage x of
             None \<Rightarrow> None
           | Some p \<Rightarrow> if p < 0 then Some ThreadPercentageNegative
                       else if p > 100 then Some ThreadPercentageTooLarge else None))"

definition GpuSharing_Validate :: "'q GpuSharing option \<Rightarrow> config_error option" where
  "GpuSharing_Validate s =
     (case s of
        None \<Rightarrow> None
      | Some x \<Rightarrow>
          (case GpuSharingStrategy_Validate (gsh_Strategy x) of
             Some err \<Rightarrow> Some err
           | None \<Rightarrow>
               if GpuSharing_IsTimeSlicing s then TimeSlicingConfig_Validate (gsh_TimeSlicingConfig x)
               else if GpuSharing_IsMps s then MpsConfig_Validate (gsh_MpsConfig x)
               else Some InvalidSharing))"

definition MigDeviceSharing_Validate :: "'q MigDeviceSharing option \<Rightarrow> config_error option" where
  "MigDeviceSharing_Validate s =
     (case s of
        None \<Rightarrow> None
      | Some x \<Rightarrow>
          (case GpuSharingStrategy_Validate (msh_Strategy x) of
             Some err \<Rightarrow> Some err
           | None \<Rightarrow>
               if MigDeviceSharing_IsTimeSlicing s then None
               else if MigDeviceSharing_IsMps s then MpsConfig_Validate (msh_MpsConfig x)
               else Some InvalidSharing))"

definition GpuConfig_Validate :: "'q GpuConfig \<Rightarrow> config_error option" where
  "GpuConfig_Validate c = (case gc_Sharing c of None \<Rightarrow> None | Some s \<Rightarrow> GpuSharing_Validate (Some s))"

definition MigDeviceConfig_Validate :: "'q MigDeviceConfig \<Rightarrow> config_error option" where
  "MigDeviceConfig_Validate c = (case mg_Sharing c of None \<Rightarrow> None | Some s \<Rightarrow> MigDeviceSharing_Validate (Some s))"

definition Validate :: "'q config \<Rightarrow> config_error option" where
  "Validate cfg = (case cfg of ConfigGpu c \<Rightarrow> GpuConfig_Validate c | ConfigMig c \<Rightarrow> MigDeviceConfig_Validate c | ConfigVfio c \<Rightarrow> None)"

section \<open>Limits of pinned memory\<close>

definition Megabyte :: "'q quantity_api \<Rightarrow> 'q \<Rightarrow> string \<times> bool" where
  "Megabyte Q d = (let v = (q_Value Q d sdiv 1024) sdiv 1024 in (int_string v @ ''M'', v > 0))"

definition limit_get :: "'q quantity_api \<Rightarrow> 'q option \<Rightarrow> string list \<Rightarrow> config_error + (string, string) gomap" where
  "limit_get Q d uuids =
     (case d of
        None \<Rightarrow> Inr []
      | Some q \<Rightarrow>
          if uuids = [] then Inr []
          else (case Megabyte Q q of
                  (megabyte, valid) \<Rightarrow>
                    if \<not> valid then Inl (InvalidLimit ''default'')
                    else Inr (foldl (\<lambda>m uuid. mput uuid megabyte m) [] uuids)))"

definition uuidSet_Normalize :: "string list \<Rightarrow> string \<Rightarrow> config_error + string" where
  "uuidSet_Normalize uuids key =
     (if key \<in> set uuids then Inr key
      else (case Atoi key of
              None \<Rightarrow> Inl (InvalidDeviceSelector key)
            | Some index \<Rightarrow>
                if index \<ge> 0 \<and> index < int (length uuids) then Inr (uuids ! nat index)
                else Inl (InvalidDeviceSelector key)))"

fun limits_loop ::
  "'q quantity_api \<Rightarrow> string list \<Rightarrow> 'q MpsPerDevicePinnedMemoryLimit \<Rightarrow> (string, string) gomap \<Rightarrow>
   config_error + (string, string) gomap" where
  "limits_loop Q uuids [] limits = Inr limits"
| "limits_loop Q uuids ((k, v) # rest) limits =
     (case uuidSet_Normalize uuids k of
        Inl err \<Rightarrow> Inl err
      | Inr dev \<Rightarrow>
          (case Megabyte Q v of
             (megabyte, valid) \<Rightarrow>
               if \<not> valid then Inl (InvalidLimit k) else limits_loop Q uuids rest (mput dev megabyte limits)))"

definition MpsPerDevicePinnedMemoryLimit_Normalize ::
  "'q quantity_api \<Rightarrow> 'q MpsPerDevicePinnedMemoryLimit \<Rightarrow> string list \<Rightarrow> 'q option \<Rightarrow>
   config_error + (string, string) gomap" where
  "MpsPerDevicePinnedMemoryLimit_Normalize Q m uuids defaultLimit =
     (case limit_get Q defaultLimit uuids of
        Inl err \<Rightarrow> Inl err
      | Inr limits \<Rightarrow> limits_loop Q uuids m limits)"

section \<open>Correctness of defaults and validation\<close>

lemma Normalize_idem: "Normalize (Normalize cfg) = Normalize cfg"
  by (auto simp: Normalize_def GpuConfig_Normalize_def MigDeviceConfig_Normalize_def
        VfioDeviceConfig_Normalize_def DefaultVfioDeviceConfig_def api_version_def strategy_defs Let_def
      split: config.split option.split)

lemma TimeSliceInterval_Int_valid:
  "TimeSliceInterval_Validate i = None \<longleftrightarrow> 0 \<le> TimeSliceInterval_Int i"
  by (auto simp: TimeSliceInterval_Validate_def TimeSliceInterval_Int_def slice_defs)

text \<open>
  \<open>mps_in_range c\<close> says that the percentage of threads, if given, is a percentage; \<open>gpu_accepts\<close> and
  \<open>mig_accepts\<close> spell out which sharing settings the two kinds of configuration admit.
\<close>

definition mps_in_range :: "'q MpsConfig option \<Rightarrow> bool" where
  "mps_in_range c \<longleftrightarrow>
     (case c of None \<Rightarrow> True
      | Some x \<Rightarrow> (case mc_DefaultActiveThreadPercentage x of None \<Rightarrow> True | Some p \<Rightarrow> p \<in> {0 .. 100}))"

definition gpu_accepts :: "'q GpuSharing \<Rightarrow> bool" where
  "gpu_accepts s \<longleftrightarrow>
     gsh_Strategy s = TimeSlicingStrategy \<and>
       (case gsh_TimeSlicingConfig s of None \<Rightarrow> True
        | Some t \<Rightarrow> (case ts_Interval t of None \<Rightarrow> False | Some i \<Rightarrow> TimeSliceInterval_Int i \<in> {0 .. 3})) \<or>
     gsh_Strategy s = MpsStrategy \<and> mps_in_range (gsh_MpsConfig s)"

definition mig_accepts :: "'q MigDeviceSharing \<Rightarrow> bool" where
  "mig_accepts s \<longleftrightarrow>
     msh_Strategy s = TimeSlicingStrategy \<or> msh_Strategy s = MpsStrategy \<and> mps_in_range (msh_MpsConfig s)"

lemma MpsConfig_Validate_range: "MpsConfig_Validate c = None \<longleftrightarrow> mps_in_range c"
  by (auto simp: MpsConfig_Validate_def mps_in_range_def split: option.split)

lemma TimeSliceInterval_Int_le: "TimeSliceInterval_Int i \<le> 3"
  by (simp add: TimeSliceInterval_Int_def)

lemma mps_in_range_empty [simp]: "mps_in_range (Some empty_mps)" "mps_in_range None"
  by (simp_all add: mps_in_range_def empty_mps_def)

lemma DefaultTimeSlice_valid [simp]: "TimeSliceInterval_Validate DefaultTimeSlice = None"
  by (simp add: TimeSliceInterval_Validate_def)

lemma strategies_differ [simp]: "TimeSlicingStrategy \<noteq> MpsStrategy" "MpsStrategy \<noteq> TimeSlicingStrategy"
  by (simp_all add: strategy_defs)

lemmas sharing_checks =
  GpuSharing_Validate_def MigDeviceSharing_Validate_def GpuSharingStrategy_Validate_def
  GpuSharing_IsTimeSlicing_def GpuSharing_IsMps_def MigDeviceSharing_IsTimeSlicing_def
  MigDeviceSharing_IsMps_def TimeSlicingConfig_Validate_def MpsConfig_Validate_range

lemma GpuConfig_accepts:
  "GpuConfig_Validate (GpuConfig_Normalize c) = None \<longleftrightarrow> (case gc_Sharing c of None \<Rightarrow> True | Some s \<Rightarrow> gpu_accepts s)"
  by (auto simp: GpuConfig_Validate_def GpuConfig_Normalize_def gpu_accepts_def sharing_checks Let_def
        TimeSliceInterval_Int_valid TimeSliceInterval_Int_le
      split: option.splits)

lemma MigDeviceConfig_accepts:
  "MigDeviceConfig_Validate (MigDeviceConfig_Normalize c) = None \<longleftrightarrow>
     (case mg_Sharing c of None \<Rightarrow> True | Some s \<Rightarrow> mig_accepts s)"
  by (auto simp: MigDeviceConfig_Validate_def MigDeviceConfig_Normalize_def mig_accepts_def sharing_checks
      split: option.splits)


section \<open>Correctness of the limits\<close>

lemma limit_get_lookup:
  assumes "limit_get Q d uuids = Inr limits"
  shows "mget limits u = (if u \<in> set uuids then map_option (\<lambda>q. fst (Megabyte Q q)) d else None)"
proof -
  have fold: "mget (foldl (\<lambda>m uuid. mput uuid mb m) m0 uuids) u =
      (if u \<in> set uuids then Some mb else mget m0 u)" for mb m0 and uuids :: "string list"
    by (induction uuids arbitrary: m0) auto
  show ?thesis
    using assms by (cases d) (auto simp: limit_get_def fold split: if_splits prod.splits)
qed

lemma uuidSet_Normalize_member: "uuidSet_Normalize uuids k = Inr u \<Longrightarrow> u \<in> set uuids"
  by (auto simp: uuidSet_Normalize_def split: if_splits option.splits)

lemma limits_loop_lookup:
  assumes "limits_loop Q uuids m limits = Inr limits'"
    and "mwf m" and "inj_on (uuidSet_Normalize uuids) (set (mkeys m))"
  shows "(\<forall>(k, q) \<in> set m. \<exists>u. uuidSet_Normalize uuids k = Inr u \<and> snd (Megabyte Q q) \<and>
            mget limits' u = Some (fst (Megabyte Q q))) \<and>
         (\<forall>u. (\<forall>k \<in> set (mkeys m). uuidSet_Normalize uuids k \<noteq> Inr u) \<longrightarrow> mget limits' u = mget limits u)"
  using assms
proof (induction Q uuids m limits rule: limits_loop.induct)
  case (2 Q uuids k v rest limits)
  from "2.prems"(1) obtain u where u: "uuidSet_Normalize uuids k = Inr u" "snd (Megabyte Q v)"
    "limits_loop Q uuids rest (mput u (fst (Megabyte Q v)) limits) = Inr limits'"
    by (auto split: sum.splits prod.splits if_splits)
  have "inj_on (uuidSet_Normalize uuids) (set (mkeys rest))"
    using "2.prems"(3) by (auto intro: inj_on_subset)
  with u "2.prems"(2) have IH:
    "\<forall>(k, q) \<in> set rest. \<exists>u. uuidSet_Normalize uuids k = Inr u \<and> snd (Megabyte Q q) \<and>
        mget limits' u = Some (fst (Megabyte Q q))"
    "\<And>w. (\<forall>k \<in> set (mkeys rest). uuidSet_Normalize uuids k \<noteq> Inr w) \<Longrightarrow>
        mget limits' w = mget (mput u (fst (Megabyte Q v)) limits) w"
    using "2.IH"[OF u(1) prod.collapse] by auto
  have "\<forall>k' \<in> set (mkeys rest). uuidSet_Normalize uuids k' \<noteq> Inr u"
    using "2.prems"(2,3) u(1) by (auto simp: inj_on_def)
  then have "mget limits' u = Some (fst (Megabyte Q v))"
    using IH(2)[of u] by simp
  with IH u(1,2) show ?case by auto
qed simp

text \<open>
  Memory limits for MPS: when the per-device limits of a claim are accepted and no two of its keys
  name the same device, every device gets the limit its own key (UUID or index) asks for, in whole
  mebibytes and at least one; a device no key names gets the default limit, if there is one; and no limit
  is set for anything but the devices of the claim.
\<close>

theorem MpsLimits_correct:
  assumes "MpsPerDevicePinnedMemoryLimit_Normalize Q m uuids d = Inr limits"
    and "mwf m" and "inj_on (uuidSet_Normalize uuids) (set (mkeys m))"
  shows "(\<forall>(k, q) \<in> set m. \<exists>u \<in> set uuids. uuidSet_Normalize uuids k = Inr u \<and> snd (Megabyte Q q) \<and>
            mget limits u = Some (fst (Megabyte Q q))) \<and>
         (\<forall>u. (\<forall>k \<in> set (mkeys m). uuidSet_Normalize uuids k \<noteq> Inr u) \<longrightarrow>
            mget limits u = (if u \<in> set uuids then map_option (\<lambda>q. fst (Megabyte Q q)) d else None))"
proof -
  from assms(1) obtain l0 where l0: "limit_get Q d uuids = Inr l0" "limits_loop Q uuids m l0 = Inr limits"
    by (auto simp: MpsPerDevicePinnedMemoryLimit_Normalize_def split: sum.splits)
  show ?thesis
    using limits_loop_lookup[OF l0(2) assms(2,3)] uuidSet_Normalize_member
    unfolding limit_get_lookup[OF l0(1)] by fastforce
qed

definition ex_limits :: "((int64 \<times> qformat) MpsPerDevicePinnedMemoryLimit)" where
  "ex_limits = [(''1'', (2097152, BinarySI))]"

lemma ex_limits_Normalize:
  "MpsPerDevicePinnedMemoryLimit_Normalize int_quantity ex_limits [''GPU-a'', ''GPU-b''] (Some (1048576, BinarySI)) =
     Inr [(''GPU-a'', ''1M''), (''GPU-b'', ''2M'')]"
  by code_simp

theorem MpsLimits_correct_witness:
  "mget [(''GPU-a'', ''1M''), (''GPU-b'', ''2M'')] ''GPU-a'' = Some (fst (Megabyte int_quantity (1048576, BinarySI)))"
proof -
  have "inj_on (uuidSet_Normalize [''GPU-a'', ''GPU-b'']) (set (mkeys ex_limits))"
    by (simp add: ex_limits_def)
  moreover have "uuidSet_Normalize [''GPU-a'', ''GPU-b''] ''1'' = Inr ''GPU-b''"
    by code_simp
  ultimately show ?thesis
    using conjunct2[OF MpsLimits_correct[OF ex_limits_Normalize], THEN spec[of _ "''GPU-a''"]]
    by (simp add: ex_limits_def)
qed

end
