(* ===== verification/PrepareTypes.thy ===== *)
theory PrepareTypes
  imports ConfigApi Reconciler
begin

text \<open>
  Vocabulary of the prepare service: the requests and results of \<open>pkg/dra/domain\<close>, the checkpoint, the
  ports of \<open>pkg/dra/ports\<close> and the step runner of \<open>pkg/common/steptaker\<close>.

  Everything outside the service is a world of type \<open>'w\<close>, which the ports read and change. A port that the
  service is built without is \<open>None\<close>. A step takes the pipeline state and the world; it fails, lets the
  pipeline go on (\<open>Inr None\<close>) or ends it with a result. Validity of steps and pipelines against
  conditions on state and world, with one rule per step, carries the proofs about the pipelines.
\<close>

section \<open>Requests, results and the checkpoint\<close>

record 'q PrepareDevice =
  pd_Request :: string
  pd_Driver :: string
  pd_Pool :: string
  pd_Device :: string
  pd_ShareID :: string
  pd_ConsumedCapacity :: "(string, 'q) gomap"
  pd_Attributes :: "(string, AttributeValue) gomap"
  pd_Config :: "'q config option"

record 'q PrepareRequest =
  pr_ClaimUID :: string
  pr_NodeName :: string
  pr_VFIO :: bool
  pr_Devices :: "'q PrepareDevice list"

record PreparedDevice =
  pv_Request :: string
  pv_Pool :: string
  pv_Device :: string
  pv_CDIDeviceIDs :: "string list"

record PrepareResult =
  pres_ClaimUID :: string
  pres_Devices :: "PreparedDevice list"

record MigPrepareRequest =
  mpr_PCIBusID :: string
  mpr_ProfileID :: int64
  mpr_SliceStart :: int64
  mpr_SliceSize :: int64

record PreparedMigDevice =
  pmd_PCIBusID :: string
  pmd_ProfileID :: int64
  pmd_SliceStart :: int64
  pmd_SliceSize :: int64
  pmd_GPUInstanceID :: int64
  pmd_ComputeInstanceID :: int64
  pmd_DeviceUUID :: string

record VfioPrepareRequest =
  vpr_PCIBusID :: string

record PreparedVfioDevice =
  pvf_PCIBusID :: string
  pvf_OriginalDriver :: string
  pvf_IommuGroup :: int64

record 'q MpsPrepareRequest =
  mpq_ControlID :: string
  mpq_DeviceUUIDs :: "string list"
  mpq_Config :: "'q MpsConfig option"

record PreparedMpsState =
  pms_ControlID :: string
  pms_PipeDir :: string
  pms_ShmDir :: string
  pms_LogDir :: string

record PreparedSharing =
  psh_Strategy :: string
  psh_DeviceUUID :: string
  psh_MPS :: "PreparedMpsState option"

record PreparedDeviceState =
  dvs_Request :: string
  dvs_Pool :: string
  dvs_Device :: string
  dvs_CDIDeviceIDs :: "string list"
  dvs_MIG :: "PreparedMigDevice option"
  dvs_VFIO :: "PreparedVfioDevice option"
  dvs_Sharing :: "PreparedSharing option"

definition PrepareStateStarted :: string where "PrepareStateStarted = ''PrepareStarted''"
definition PrepareStateCompleted :: string where "PrepareStateCompleted = ''PrepareCompleted''"

lemma prepare_states_differ [simp]:
  "PrepareStateStarted \<noteq> PrepareStateCompleted" "PrepareStateCompleted \<noteq> PrepareStateStarted"
  "[] \<noteq> PrepareStateCompleted" "[] \<noteq> PrepareStateStarted"
  "PrepareStateCompleted \<noteq> []" "PrepareStateStarted \<noteq> []"
  by (simp_all add: PrepareStateStarted_def PrepareStateCompleted_def)

record PreparedClaim =
  cl_State :: string
  cl_Devices :: "PreparedDeviceState list"

text \<open>A nil map of claims differs from an empty one: writing to it panics.\<close>

record PrepareCheckpoint =
  ck_Version :: string
  ck_Claims :: "(string, PreparedClaim) gomap option"

definition no_claim :: PreparedClaim where
  "no_claim = \<lparr> cl_State = [], cl_Devices = [] \<rparr>"

definition no_checkpoint :: PrepareCheckpoint where
  "no_checkpoint = \<lparr> ck_Version = [], ck_Claims = None \<rparr>"

definition no_prepare_result :: PrepareResult where
  "no_prepare_result = \<lparr> pres_ClaimUID = [], pres_Devices = [] \<rparr>"

section \<open>Ports\<close>

datatype prepare_error =
    ErrMsg string
  | ErrDevice string string
  | ErrPort string string
  | ErrConfig config_error
  | NilMapWrite

record 'w PrepareLocker =
  lk_Lock :: "'w \<Rightarrow> (string + ('w \<Rightarrow> string option \<times> 'w)) \<times> 'w"

record 'w PrepareCheckpointStore =
  st_Load :: "'w \<Rightarrow> (string + PrepareCheckpoint) \<times> 'w"
  st_Save :: "PrepareCheckpoint \<Rightarrow> 'w \<Rightarrow> string option \<times> 'w"

record 'w MigManager =
  mig_Prepare :: "MigPrepareRequest \<Rightarrow> 'w \<Rightarrow> (string + PreparedMigDevice) \<times> 'w"
  mig_Unprepare :: "PreparedMigDevice \<Rightarrow> 'w \<Rightarrow> string option \<times> 'w"

record 'w VfioManager =
  vfio_Prepare :: "VfioPrepareRequest \<Rightarrow> 'w \<Rightarrow> (string + PreparedVfioDevice) \<times> 'w"
  vfio_Unprepare :: "PreparedVfioDevice \<Rightarrow> 'w \<Rightarrow> string option \<times> 'w"

record 'w GPUProcessChecker =
  gc_EnsureGPUFree :: "string \<Rightarrow> 'w \<Rightarrow> string option \<times> 'w"

record 'w TimeSlicingManager =
  ts_SetTimeSlice :: "string list \<Rightarrow> TimeSlicingConfig \<Rightarrow> 'w \<Rightarrow> string option \<times> 'w"

record ('q, 'w) MpsManager =
  mps_Start :: "'q MpsPrepareRequest \<Rightarrow> 'w \<Rightarrow> (string + PreparedMpsState) \<times> 'w"
  mps_Stop :: "PreparedMpsState \<Rightarrow> 'w \<Rightarrow> string option \<times> 'w"

record ('q, 'w) CDIWriter =
  cdi_Write :: "'q PrepareRequest \<Rightarrow> 'w \<Rightarrow> (string + (string, string list) gomap) \<times> 'w"
  cdi_Delete :: "string \<Rightarrow> 'w \<Rightarrow> string option \<times> 'w"

record 'w ResourcesChangeNotifier =
  nt_Notify :: "'w \<Rightarrow> 'w"

text \<open>
  Three parameters stand beside the ports: \<open>marshal_mps\<close> is the JSON text of an MPS configuration (with
  quantities from apimachinery; \<open>None\<close> is an encoding error), \<open>sha256hex\<close> the hexadecimal SHA-256 digest,
  and \<open>range_order\<close> picks the order in which a \<open>range\<close> loop visits a map the step has built, as a list of
  positions.
\<close>

record ('q, 'w) Options =
  opt_CDI :: "('q, 'w) CDIWriter option"
  opt_MIG :: "'w MigManager option"
  opt_VFIO :: "'w VfioManager option"
  opt_TimeSlicing :: "'w TimeSlicingManager option"
  opt_Mps :: "('q, 'w) MpsManager option"
  opt_Locker :: "'w PrepareLocker option"
  opt_Checkpoints :: "'w PrepareCheckpointStore option"
  opt_GPUChecker :: "'w GPUProcessChecker option"
  opt_ResourcesNotifier :: "'w ResourcesChangeNotifier option"
  marshal_mps :: "'q MpsConfig \<Rightarrow> string option"
  sha256hex :: "string \<Rightarrow> string"
  range_order :: "nat \<Rightarrow> nat list"

definition visit :: "(nat \<Rightarrow> nat list) \<Rightarrow> 'a list \<Rightarrow> 'a list" where
  "visit ord xs = map (\<lambda>i. xs ! i) (filter (\<lambda>i. i < length xs) (ord (length xs)))"

definition range_ok :: "(nat \<Rightarrow> nat list) \<Rightarrow> bool" where
  "range_ok ord \<longleftrightarrow> (\<forall>n. mset (ord n) = mset [0 ..< n])"

lemma set_visit: "set (visit ord xs) \<subseteq> set xs"
  by (auto simp: visit_def)

lemma set_visit_ok:
  assumes "range_ok ord"
  shows "set (visit ord xs) = set xs"
proof -
  have "set (ord (length xs)) = {..<length xs}"
    using assms mset_eq_setD[of "ord (length xs)" "[0 ..< length xs]"] by (auto simp: range_ok_def)
  then have "set (visit ord xs) = (\<lambda>i. xs ! i) ` {i. i < length xs}"
    by (auto simp: visit_def)
  also have "\<dots> = set xs"
    unfolding set_conv_nth by (rule setcompr_eq_image[symmetric])
  finally show ?thesis .
qed

section \<open>Steps\<close>

type_synonym ('s, 'w) StepTaker = "'s \<Rightarrow> 'w \<Rightarrow> (prepare_error + Result option) \<times> 's \<times> 'w"

fun Run :: "('s, 'w) StepTaker list \<Rightarrow> 's \<Rightarrow> 'w \<Rightarrow> (prepare_error + Result) \<times> 's \<times> 'w" where
  "Run [] obj w = (Inl (ErrMsg ''none of the steps returned a final result''), obj, w)"
| "Run (s # steps) obj w =
     (case s obj w of
        (Inl err, obj', w') \<Rightarrow> (Inl err, obj', w')
      | (Inr (Some res), obj', w') \<Rightarrow> (Inr res, obj', w')
      | (Inr None, obj', w') \<Rightarrow> Run steps obj' w')"

text \<open>
  \<open>step_valid P s Q R E\<close>: from a state and world with \<open>P\<close>, step \<open>s\<close> goes on only with \<open>Q\<close>, ends the pipeline
  only with \<open>R\<close> and fails only with \<open>E\<close>. \<open>run_valid P ss R E\<close> says the same of a whole pipeline.
\<close>

definition step_valid ::
  "('s \<Rightarrow> 'w \<Rightarrow> bool) \<Rightarrow> ('s, 'w) StepTaker \<Rightarrow> ('s \<Rightarrow> 'w \<Rightarrow> bool) \<Rightarrow> ('s \<Rightarrow> 'w \<Rightarrow> bool) \<Rightarrow> ('s \<Rightarrow> 'w \<Rightarrow> bool) \<Rightarrow> bool" where
  "step_valid P s Q R E \<longleftrightarrow>
     (\<forall>obj w r obj' w'. P obj w \<longrightarrow> s obj w = (r, obj', w') \<longrightarrow>
        (case r of Inl _ \<Rightarrow> E obj' w' | Inr None \<Rightarrow> Q obj' w' | Inr (Some _) \<Rightarrow> R obj' w'))"

definition run_valid ::
  "('s \<Rightarrow> 'w \<Rightarrow> bool) \<Rightarrow> ('s, 'w) StepTaker list \<Rightarrow> ('s \<Rightarrow> 'w \<Rightarrow> bool) \<Rightarrow> ('s \<Rightarrow> 'w \<Rightarrow> bool) \<Rightarrow> bool" where
  "run_valid P ss R E \<longleftrightarrow>
     (\<forall>obj w r obj' w'. P obj w \<longrightarrow> Run ss obj w = (r, obj', w') \<longrightarrow>
        (case r of Inl _ \<Rightarrow> E obj' w' | Inr _ \<Rightarrow> R obj' w'))"

lemma step_validI:
  assumes "\<And>obj w r obj' w'. P obj w \<Longrightarrow> s obj w = (r, obj', w') \<Longrightarrow>
     (case r of Inl _ \<Rightarrow> E obj' w' | Inr None \<Rightarrow> Q obj' w' | Inr (Some _) \<Rightarrow> R obj' w')"
  shows "step_valid P s Q R E"
  using assms unfolding step_valid_def by blast

lemma step_validD:
  assumes "step_valid P s Q R E" "P obj w" "s obj w = (r, obj', w')"
  shows "case r of Inl _ \<Rightarrow> E obj' w' | Inr None \<Rightarrow> Q obj' w' | Inr (Some _) \<Rightarrow> R obj' w'"
  using assms unfolding step_valid_def by blast

lemma run_Nil: "(\<And>obj w. P obj w \<Longrightarrow> E obj w) \<Longrightarrow> run_valid P [] R E"
  by (simp add: run_valid_def)

lemma run_Cons:
  assumes s: "step_valid P s Q R E" and ss: "run_valid Q ss R E"
  shows "run_valid P (s # ss) R E"
  unfolding run_valid_def
proof (intro allI impI)
  fix obj w r obj' w'
  assume P: "P obj w" and run: "Run (s # ss) obj w = (r, obj', w')"
  obtain r1 obj1 w1 where step: "s obj w = (r1, obj1, w1)"
    by (metis prod_cases3)
  show "case r of Inl _ \<Rightarrow> E obj' w' | Inr _ \<Rightarrow> R obj' w'"
    using run step step_validD[OF s P step] ss
    by (cases r1) (auto simp: run_valid_def split: option.splits)
qed

lemma run_validD:
  assumes "run_valid P ss R E" "P obj w" "Run ss obj w = (r, obj', w')"
  shows "case r of Inl _ \<Rightarrow> E obj' w' | Inr _ \<Rightarrow> R obj' w'"
  using assms unfolding run_valid_def by blast

lemma run_invariant:
  assumes "\<And>s. s \<in> set ss \<Longrightarrow> step_valid I s I I I"
  shows "run_valid I ss I I"
  using assms by (induction ss) (auto intro: run_Nil run_Cons)

lemma step_weaken:
  assumes "step_valid P s Q R E"
    and "\<And>obj w. Q obj w \<Longrightarrow> Q' obj w" and "\<And>obj w. R obj w \<Longrightarrow> R' obj w" and "\<And>obj w. E obj w \<Longrightarrow> E' obj w"
    and "\<And>obj w. P' obj w \<Longrightarrow> P obj w"
  shows "step_valid P' s Q' R' E'"
proof (rule step_validI)
  fix obj w r obj' w'
  assume "P' obj w" "s obj w = (r, obj', w')"
  with step_validD[OF assms(1)] assms(2-5)
  show "case r of Inl _ \<Rightarrow> E' obj' w' | Inr None \<Rightarrow> Q' obj' w' | Inr (Some _) \<Rightarrow> R' obj' w'"
    by (fastforce split: sum.splits option.splits)
qed

end
