(* ===== verification/CheckpointFile.thy ===== *)
theory CheckpointFile
  imports PrepareTypes
begin

text \<open>
  The checkpoint on disk, \<open>pkg/dra/adapters/checkpoint/file\<close>: the JSON document of a checkpoint as the
  struct tags of \<open>pkg/dra/domain/checkpoint.go\<close> define it, and the store that reads and atomically replaces
  the file.

  A JSON text is modelled by its document tree; \<open>json.Marshal\<close> writes the keys of a map sorted, each once.
  \<open>json.Unmarshal\<close> ignores unknown keys, compares keys without regard to case, leaves zero values for
  missing keys and null, and fails on a value of the wrong kind. Numbers that are 64-bit integers are
  \<open>JInt\<close>; every other number is \<open>JNumber\<close> and does not decode into an integer field. Documents with
  a key that occurs twice in one object take the last occurrence.
\<close>

section \<open>Documents\<close>

datatype json =
    JNull
  | JBool bool
  | JInt int64
  | JNumber string
  | JString string
  | JArray "json list"
  | JObject "(string \<times> json) list"

definition jget :: "string \<Rightarrow> (string \<times> json) list \<Rightarrow> json" where
  "jget k obj = foldl (\<lambda>acc (k', v). if EqualFold k' k then v else acc) JNull obj"

definition fld :: "string \<Rightarrow> json \<Rightarrow> (string \<times> json) list" where
  "fld k v = [(k, v)]"

definition fld_omitempty :: "string \<Rightarrow> json option \<Rightarrow> (string \<times> json) list" where
  "fld_omitempty k v = (case v of None \<Rightarrow> [] | Some j \<Rightarrow> [(k, j)])"

definition nonempty_list :: "('a \<Rightarrow> json) \<Rightarrow> 'a list \<Rightarrow> json option" where
  "nonempty_list f xs = (if xs = [] then None else Some (JArray (map f xs)))"

definition nonempty_string :: "string \<Rightarrow> json option" where
  "nonempty_string s = (if s = [] then None else Some (JString s))"

section \<open>Encoding\<close>

definition marshal_mig :: "PreparedMigDevice \<Rightarrow> json" where
  "marshal_mig m = JObject (
     fld ''pciBusId'' (JString (pmd_PCIBusID m)) @ fld ''profileId'' (JInt (pmd_ProfileID m)) @
     fld ''sliceStart'' (JInt (pmd_SliceStart m)) @ fld ''sliceSize'' (JInt (pmd_SliceSize m)) @
     fld ''gpuInstanceId'' (JInt (pmd_GPUInstanceID m)) @ fld ''computeInstanceId'' (JInt (pmd_ComputeInstanceID m)) @
     fld ''deviceUuid'' (JString (pmd_DeviceUUID m)))"

definition marshal_vfio :: "PreparedVfioDevice \<Rightarrow> json" where
  "marshal_vfio v = JObject (
     fld ''pciBusId'' (JString (pvf_PCIBusID v)) @ fld ''originalDriver'' (JString (pvf_OriginalDriver v)) @
     fld ''iommuGroup'' (JInt (pvf_IommuGroup v)))"

definition marshal_mps_state :: "PreparedMpsState \<Rightarrow> json" where
  "marshal_mps_state s = JObject (
     fld ''controlId'' (JString (pms_ControlID s)) @ fld ''pipeDir'' (JString (pms_PipeDir s)) @
     fld ''shmDir'' (JString (pms_ShmDir s)) @ fld ''logDir'' (JString (pms_LogDir s)))"

definition marshal_sharing :: "PreparedSharing \<Rightarrow> json" where
  "marshal_sharing s = JObject (
     fld ''strategy'' (JString (psh_Strategy s)) @ fld_omitempty ''deviceUuid'' (nonempty_string (psh_DeviceUUID s)) @
     fld_omitempty ''mps'' (map_option marshal_mps_state (psh_MPS s)))"

definition marshal_device :: "PreparedDeviceState \<Rightarrow> json" where
  "marshal_device d = JObject (
     fld ''request'' (JString (dvs_Request d)) @ fld ''pool'' (JString (dvs_Pool d)) @
     fld ''device'' (JString (dvs_Device d)) @
     fld_omitempty ''cdiDeviceIDs'' (nonempty_list JString (dvs_CDIDeviceIDs d)) @
     fld_omitempty ''mig'' (map_option marshal_mig (dvs_MIG d)) @
     fld_omitempty ''vfio'' (map_option marshal_vfio (dvs_VFIO d)) @
     fld_omitempty ''sharing'' (map_option marshal_sharing (dvs_Sharing d)))"

definition marshal_claim :: "PreparedClaim \<Rightarrow> json" where
  "marshal_claim c = JObject (
     fld ''state'' (JString (cl_State c)) @ fld_omitempty ''devices'' (nonempty_list marshal_device (cl_Devices c)))"

definition marshal_map :: "('v \<Rightarrow> json) \<Rightarrow> (string, 'v) gomap \<Rightarrow> (string \<times> json) list" where
  "marshal_map f m = concat (map (\<lambda>k. (case mget m k of None \<Rightarrow> [] | Some v \<Rightarrow> [(k, f v)])) (sort (remdups (mkeys m))))"

definition marshal_checkpoint :: "PrepareCheckpoint \<Rightarrow> json" where
  "marshal_checkpoint cp = JObject (
     fld ''version'' (JString (ck_Version cp)) @
     fld ''claims'' (case ck_Claims cp of None \<Rightarrow> JNull | Some m \<Rightarrow> JObject (marshal_map marshal_claim m)))"

section \<open>Decoding\<close>

definition dec_string :: "json \<Rightarrow> string + string" where
  "dec_string j = (case j of JNull \<Rightarrow> Inr [] | JString s \<Rightarrow> Inr s | _ \<Rightarrow> Inl ''string'')"

definition dec_int :: "json \<Rightarrow> string + int64" where
  "dec_int j = (case j of JNull \<Rightarrow> Inr 0 | JInt i \<Rightarrow> Inr i | _ \<Rightarrow> Inl ''int'')"

definition dec_list :: "(json \<Rightarrow> string + 'a) \<Rightarrow> json \<Rightarrow> string + 'a list" where
  "dec_list f j = (case j of JNull \<Rightarrow> Inr [] | JArray xs \<Rightarrow> map_res f xs | _ \<Rightarrow> Inl ''array'')"

definition dec_opt :: "(json \<Rightarrow> string + 'a) \<Rightarrow> json \<Rightarrow> string + 'a option" where
  "dec_opt f j = (case j of JNull \<Rightarrow> Inr None | _ \<Rightarrow> (case f j of Inl e \<Rightarrow> Inl e | Inr x \<Rightarrow> Inr (Some x)))"

definition dec_object :: "((string \<times> json) list \<Rightarrow> string + 'a) \<Rightarrow> json \<Rightarrow> string + 'a" where
  "dec_object f j = (case j of JNull \<Rightarrow> f [] | JObject obj \<Rightarrow> f obj | _ \<Rightarrow> Inl ''object'')"

definition then_res :: "'e + 'a \<Rightarrow> ('a \<Rightarrow> 'e + 'b) \<Rightarrow> 'e + 'b" where
  "then_res r f = (case r of Inl e \<Rightarrow> Inl e | Inr x \<Rightarrow> f x)"

lemma then_res_simps [simp]: "then_res (Inr x) f = f x" "then_res (Inl e) f = Inl e"
  by (simp_all add: then_res_def)

definition unmarshal_mig :: "json \<Rightarrow> string + PreparedMigDevice" where
  "unmarshal_mig = dec_object (\<lambda>obj.
     then_res (dec_string (jget ''pciBusId'' obj)) (\<lambda>pci.
     then_res (dec_int (jget ''profileId'' obj)) (\<lambda>profile.
     then_res (dec_int (jget ''sliceStart'' obj)) (\<lambda>start.
     then_res (dec_int (jget ''sliceSize'' obj)) (\<lambda>sz.
     then_res (dec_int (jget ''gpuInstanceId'' obj)) (\<lambda>gi.
     then_res (dec_int (jget ''computeInstanceId'' obj)) (\<lambda>ci.
     then_res (dec_string (jget ''deviceUuid'' obj)) (\<lambda>uuid.
     Inr \<lparr> pmd_PCIBusID = pci, pmd_ProfileID = profile, pmd_SliceStart = start, pmd_SliceSize = sz,
           pmd_GPUInstanceID = gi, pmd_ComputeInstanceID = ci, pmd_DeviceUUID = uuid \<rparr>))))))))"

definition unmarshal_vfio :: "json \<Rightarrow> string + PreparedVfioDevice" where
  "unmarshal_vfio = dec_object (\<lambda>obj.
     then_res (dec_string (jget ''pciBusId'' obj)) (\<lambda>pci.
     then_res (dec_string (jget ''originalDriver'' obj)) (\<lambda>driver.
     then_res (dec_int (jget ''iommuGroup'' obj)) (\<lambda>grp.
     Inr \<lparr> pvf_PCIBusID = pci, pvf_OriginalDriver = driver, pvf_IommuGroup = grp \<rparr>))))"

definition unmarshal_mps_state :: "json \<Rightarrow> string + PreparedMpsState" where
  "unmarshal_mps_state = dec_object (\<lambda>obj.
     then_res (dec_string (jget ''controlId'' obj)) (\<lambda>c.
     then_res (dec_string (jget ''pipeDir'' obj)) (\<lambda>p.
     then_res (dec_string (jget ''shmDir'' obj)) (\<lambda>s.
     then_res (dec_string (jget ''logDir'' obj)) (\<lambda>l.
     Inr \<lparr> pms_ControlID = c, pms_PipeDir = p, pms_ShmDir = s, pms_LogDir = l \<rparr>)))))"

definition unmarshal_sharing :: "json \<Rightarrow> string + PreparedSharing" where
  "unmarshal_sharing = dec_object (\<lambda>obj.
     then_res (dec_string (jget ''strategy'' obj)) (\<lambda>s.
     then_res (dec_string (jget ''deviceUuid'' obj)) (\<lambda>u.
     then_res (dec_opt unmarshal_mps_state (jget ''mps'' obj)) (\<lambda>m.
     Inr \<lparr> psh_Strategy = s, psh_DeviceUUID = u, psh_MPS = m \<rparr>))))"

definition unmarshal_device :: "json \<Rightarrow> string + PreparedDeviceState" where
  "unmarshal_device = dec_object (\<lambda>obj.
     then_res (dec_string (jget ''request'' obj)) (\<lambda>r.
     then_res (dec_string (jget ''pool'' obj)) (\<lambda>p.
     then_res (dec_string (jget ''device'' obj)) (\<lambda>d.
     then_res (dec_list dec_string (jget ''cdiDeviceIDs'' obj)) (\<lambda>ids.
     then_res (dec_opt unmarshal_mig (jget ''mig'' obj)) (\<lambda>m.
     then_res (dec_opt unmarshal_vfio (jget ''vfio'' obj)) (\<lambda>v.
     then_res (dec_opt unmarshal_sharing (jget ''sharing'' obj)) (\<lambda>s.
     Inr \<lparr> dvs_Request = r, dvs_Pool = p, dvs_Device = d, dvs_CDIDeviceIDs = ids, dvs_MIG = m, dvs_VFIO = v,
           dvs_Sharing = s \<rparr>))))))))"

definition unmarshal_claim :: "json \<Rightarrow> string + PreparedClaim" where
  "unmarshal_claim = dec_object (\<lambda>obj.
     then_res (dec_string (jget ''state'' obj)) (\<lambda>s.
     then_res (dec_list unmarshal_device (jget ''devices'' obj)) (\<lambda>ds.
     Inr \<lparr> cl_State = s, cl_Devices = ds \<rparr>)))"

fun unmarshal_map :: "(json \<Rightarrow> string + 'v) \<Rightarrow> (string \<times> json) list \<Rightarrow> (string, 'v) gomap \<Rightarrow> string + (string, 'v) gomap" where
  "unmarshal_map f [] m = Inr m"
| "unmarshal_map f ((k, j) # rest) m = then_res (f j) (\<lambda>v. unmarshal_map f rest (mput k v m))"

definition unmarshal_claims :: "json \<Rightarrow> string + (string, PreparedClaim) gomap option" where
  "unmarshal_claims j =
     (case j of
        JNull \<Rightarrow> Inr None
      | JObject obj \<Rightarrow> then_res (unmarshal_map unmarshal_claim obj []) (\<lambda>m. Inr (Some m))
      | _ \<Rightarrow> Inl ''object'')"

definition unmarshal_checkpoint :: "json \<Rightarrow> string + PrepareCheckpoint" where
  "unmarshal_checkpoint = dec_object (\<lambda>obj.
     then_res (dec_string (jget ''version'' obj)) (\<lambda>v.
     then_res (unmarshal_claims (jget ''claims'' obj)) (\<lambda>m.
     Inr \<lparr> ck_Version = v, ck_Claims = m \<rparr>)))"

section \<open>Round trip\<close>

lemma EqualFold_lower: "EqualFold s t \<longleftrightarrow> map lower_char s = map lower_char t"
  by (simp add: EqualFold_def ToLower_def)

lemma lower_char_code [simp]:
  "lower_char (CHR ''D'') = CHR ''d''" "lower_char (CHR ''I'') = CHR ''i''" "lower_char (CHR ''S'') = CHR ''s''"
  "lower_char (CHR ''B'') = CHR ''b''" "lower_char (CHR ''U'') = CHR ''u''" "lower_char (CHR ''G'') = CHR ''g''"
  by code_simp+

lemma lower_char_small: "\<not> (65 \<le> (of_char c :: nat) \<and> (of_char c :: nat) \<le> 90) \<Longrightarrow> lower_char c = c"
  unfolding lower_char_def by presburger

lemmas doc_simps = jget_def fld_def fld_omitempty_def EqualFold_lower lower_char_small dec_object_def dec_string_def
  dec_int_def

lemma unmarshal_mig_marshal [simp]: "unmarshal_mig (marshal_mig m) = Inr m"
  by (simp add: unmarshal_mig_def marshal_mig_def doc_simps)

lemma unmarshal_vfio_marshal [simp]: "unmarshal_vfio (marshal_vfio m) = Inr m"
  by (simp add: unmarshal_vfio_def marshal_vfio_def doc_simps)

lemma unmarshal_mps_state_marshal [simp]: "unmarshal_mps_state (marshal_mps_state m) = Inr m"
  by (simp add: unmarshal_mps_state_def marshal_mps_state_def doc_simps)

lemma dec_opt_simps [simp]:
  "dec_opt f JNull = Inr None"
  "f j = Inr x \<Longrightarrow> j \<noteq> JNull \<Longrightarrow> dec_opt f j = Inr (Some x)"
  by (simp add: dec_opt_def, cases j) (simp_all add: dec_opt_def)

lemma marshal_not_null [simp]:
  "marshal_mig m \<noteq> JNull" "marshal_vfio v \<noteq> JNull" "marshal_mps_state s \<noteq> JNull" "marshal_sharing sh \<noteq> JNull"
  by (simp_all add: marshal_mig_def marshal_vfio_def marshal_mps_state_def marshal_sharing_def)

lemma unmarshal_sharing_marshal [simp]: "unmarshal_sharing (marshal_sharing s) = Inr s"
  by (cases "psh_MPS s"; cases "psh_DeviceUUID s = []")
     (simp_all add: unmarshal_sharing_def marshal_sharing_def nonempty_string_def doc_simps)

lemma map_res_map_Inr: "(\<And>x. f (g x) = Inr x) \<Longrightarrow> map_res f (map g xs) = Inr xs"
  by (induction xs) auto

lemma dec_list_simps [simp]:
  "dec_list f JNull = Inr []"
  "dec_list dec_string (JArray (map JString xs)) = Inr xs"
  by (simp_all add: dec_list_def map_res_map_Inr dec_string_def)

definition opt_json :: "('a \<Rightarrow> json) \<Rightarrow> 'a option \<Rightarrow> json" where
  "opt_json f x = (case x of None \<Rightarrow> JNull | Some y \<Rightarrow> f y)"

definition list_json :: "('a \<Rightarrow> json) \<Rightarrow> 'a list \<Rightarrow> json" where
  "list_json f xs = (if xs = [] then JNull else JArray (map f xs))"

lemma jget_device:
  assumes "obj = fld ''request'' a @ fld ''pool'' b @ fld ''device'' c @ fld_omitempty ''cdiDeviceIDs'' d @
     fld_omitempty ''mig'' e @ fld_omitempty ''vfio'' f @ fld_omitempty ''sharing'' g"
  shows "jget ''request'' obj = a" "jget ''pool'' obj = b" "jget ''device'' obj = c"
    "jget ''cdiDeviceIDs'' obj = opt_json (\<lambda>x. x) d" "jget ''mig'' obj = opt_json (\<lambda>x. x) e"
    "jget ''vfio'' obj = opt_json (\<lambda>x. x) f" "jget ''sharing'' obj = opt_json (\<lambda>x. x) g"
  unfolding assms
  by (simp_all add: jget_def fld_def fld_omitempty_def opt_json_def EqualFold_lower lower_char_small split: option.split)

lemma unmarshal_device_marshal [simp]: "unmarshal_device (marshal_device d) = Inr d"
proof -
  have opts: "dec_opt f (opt_json (\<lambda>x. x) (map_option g x)) = Inr x"
    if "\<And>y. f (g y) = Inr y" "\<And>y. g y \<noteq> JNull" for f and g :: "'a \<Rightarrow> json" and x
    using that by (cases x) (simp_all add: opt_json_def)
  have ids: "dec_list dec_string (opt_json (\<lambda>x. x) (nonempty_list JString xs)) = Inr xs" for xs
    by (simp add: opt_json_def nonempty_list_def)
  show ?thesis
    by (simp add: unmarshal_device_def marshal_device_def dec_object_def jget_device[OF refl] opts ids dec_string_def)
qed

lemma unmarshal_claim_marshal [simp]: "unmarshal_claim (marshal_claim c) = Inr c"
  by (cases "cl_Devices c = []")
     (simp_all add: unmarshal_claim_def marshal_claim_def nonempty_list_def doc_simps dec_list_def map_res_map_Inr)

lemma unmarshal_map_marshal:
  assumes "\<And>v. f (g v) = Inr v"
  shows "\<exists>m'. unmarshal_map f (marshal_map g m) [] = Inr m' \<and> (\<forall>k. mget m' k = mget m k)"
proof -
  have loop: "\<exists>m'. unmarshal_map f (concat (map (\<lambda>k. (case mget m k of None \<Rightarrow> [] | Some v \<Rightarrow> [(k, g v)])) ks)) m0 = Inr m' \<and>
      (\<forall>k. mget m' k = (if k \<in> set ks \<and> mget m k \<noteq> None then mget m k else mget m0 k))" for ks m0
  proof (induction ks arbitrary: m0)
    case (Cons k ks)
    then show ?case
    proof (cases "mget m k")
      case None
      with Cons.IH[of m0] show ?thesis by auto
    next
      case (Some v)
      with Cons.IH[of "mput k v m0"] show ?thesis by (fastforce simp: assms)
    qed
  qed simp
  obtain m' where m': "unmarshal_map f (marshal_map g m) [] = Inr m'"
    and lookup: "\<forall>k. mget m' k = (if k \<in> set (sort (remdups (mkeys m))) \<and> mget m k \<noteq> None then mget m k else mget [] k)"
    using loop[of "sort (remdups (mkeys m))" "[]"] unfolding marshal_map_def by blast
  have "mget m' k = mget m k" for k
  proof (cases "mget m k")
    case None
    then show ?thesis by (simp add: lookup)
  next
    case (Some v)
    then have "k \<in> fst ` set m" by (metis image_eqI fst_conv map_of_SomeD)
    with Some show ?thesis by (simp add: lookup)
  qed
  with m' show ?thesis by blast
qed

lemma jget_checkpoint:
  "jget ''version'' (fld ''version'' a @ fld ''claims'' b) = a" "jget ''claims'' (fld ''version'' a @ fld ''claims'' b) = b"
  by (simp_all add: doc_simps)

lemma unmarshal_checkpoint_marshal:
  "\<exists>cp'. unmarshal_checkpoint (marshal_checkpoint cp) = Inr cp' \<and> ck_Version cp' = ck_Version cp \<and>
     (ck_Claims cp' = None \<longleftrightarrow> ck_Claims cp = None) \<and>
     (\<forall>m m' k. ck_Claims cp = Some m \<longrightarrow> ck_Claims cp' = Some m' \<longrightarrow> mget m' k = mget m k)"
proof (cases "ck_Claims cp")
  case None
  then show ?thesis
    by (simp add: unmarshal_checkpoint_def marshal_checkpoint_def dec_object_def jget_checkpoint unmarshal_claims_def
        dec_string_def)
next
  case (Some m)
  from unmarshal_map_marshal[of unmarshal_claim marshal_claim m] obtain m'
    where "unmarshal_map unmarshal_claim (marshal_map marshal_claim m) [] = Inr m'" "\<forall>k. mget m' k = mget m k"
    by auto
  with Some show ?thesis
    by (simp add: unmarshal_checkpoint_def marshal_checkpoint_def dec_object_def jget_checkpoint unmarshal_claims_def
        dec_string_def)
qed

end
