(* ===== verification/PrepareSteps.thy ===== *)
theory PrepareSteps
  imports PrepareTypes
begin

text \<open>
  The prepare service, \<open>pkg/dra/services/prepare\<close>: the pipeline states, one definition per step of
  \<open>step/*.go\<close>, the two pipelines of \<open>pipeline.go\<close> and the service of \<open>service.go\<close>. A loop of a step is a
  recursive function that carries the pipeline state and the world; where the loop fails, both are kept as
  they are at that point.

  The slice of device states is shared between the pipeline state and the started entry of the checkpoint
  in memory. That entry is not read again before the completed entry replaces it, so the model may treat
  the slices as values.
\<close>

section \<open>Pipeline states\<close>

record ('q, 'w) PrepareState =
  ps_Request :: "'q PrepareRequest"
  ps_MutableRequest :: "'q PrepareRequest"
  ps_Checkpoint :: PrepareCheckpoint
  ps_Claim :: PreparedClaim
  ps_DeviceMap :: "(string, 'q PrepareDevice) gomap"
  ps_DeviceStates :: "PreparedDeviceState list"
  ps_Result :: PrepareResult
  ps_Unlock :: "('w \<Rightarrow> string option \<times> 'w) option"
  ps_ResourcesChanged :: bool

record 'w UnprepareState =
  us_ClaimUID :: string
  us_Checkpoint :: PrepareCheckpoint
  us_Claim :: PreparedClaim
  us_Unlock :: "('w \<Rightarrow> string option \<times> 'w) option"
  us_Skip :: bool
  us_ResourcesChanged :: bool

definition NewPrepareState :: "'q PrepareRequest \<Rightarrow> ('q, 'w) PrepareState" where
  "NewPrepareState req =
     \<lparr> ps_Request = req, ps_MutableRequest = req, ps_Checkpoint = no_checkpoint, ps_Claim = no_claim,
       ps_DeviceMap = [], ps_DeviceStates = [], ps_Result = no_prepare_result, ps_Unlock = None,
       ps_ResourcesChanged = False \<rparr>"

definition NewUnprepareState :: "string \<Rightarrow> 'w UnprepareState" where
  "NewUnprepareState claimUID =
     \<lparr> us_ClaimUID = claimUID, us_Checkpoint = no_checkpoint, us_Claim = no_claim, us_Unlock = None,
       us_Skip = False, us_ResourcesChanged = False \<rparr>"

type_synonym ('q, 'w) prepare_step = "(('q, 'w) PrepareState, 'w) StepTaker"
type_synonym 'w unprepare_step = "('w UnprepareState, 'w) StepTaker"
type_synonym ('s, 'w) loop = "'s \<Rightarrow> 'w \<Rightarrow> prepare_error option \<times> 's \<times> 'w"

abbreviation go_on :: "('s, 'w) StepTaker" where
  "go_on st w \<equiv> (Inr None, st, w)"

abbreviation finish :: "('s, 'w) StepTaker" where
  "finish st w \<equiv> (Inr (Some zero_result), st, w)"

abbreviation fail :: "prepare_error \<Rightarrow> ('s, 'w) StepTaker" where
  "fail e st w \<equiv> (Inl e, st, w)"

definition loop_step :: "('s, 'w) loop \<Rightarrow> ('s, 'w) StepTaker" where
  "loop_step f st w = (case f st w of (None, st', w') \<Rightarrow> go_on st' w' | (Some e, st', w') \<Rightarrow> fail e st' w')"

section \<open>Checkpoint access\<close>

definition checkpointVersion :: string where "checkpointVersion = ''v1''"

definition checkpoint_Load :: "'w PrepareCheckpointStore \<Rightarrow> 'w \<Rightarrow> (prepare_error + PrepareCheckpoint) \<times> 'w" where
  "checkpoint_Load store w =
     (case st_Load store w of
        (Inl err, w') \<Rightarrow> (Inl (ErrPort ''load prepare checkpoint'' err), w')
      | (Inr cp, w') \<Rightarrow>
          (Inr \<lparr> ck_Version = (if ck_Version cp = [] then checkpointVersion else ck_Version cp),
                 ck_Claims = Some (case ck_Claims cp of None \<Rightarrow> [] | Some m \<Rightarrow> m) \<rparr>, w'))"

definition prepared_device :: "PreparedDeviceState \<Rightarrow> PreparedDevice" where
  "prepared_device dev =
     \<lparr> pv_Request = dvs_Request dev, pv_Pool = dvs_Pool dev, pv_Device = dvs_Device dev,
       pv_CDIDeviceIDs = dvs_CDIDeviceIDs dev \<rparr>"

definition PreparedResultFromClaim :: "string \<Rightarrow> PreparedClaim \<Rightarrow> prepare_error + PrepareResult" where
  "PreparedResultFromClaim claimUID claim =
     (if cl_State claim \<noteq> PrepareStateCompleted then Inl (ErrDevice ''claim is not prepared'' claimUID)
      else
        (case map_res (\<lambda>dev. if dvs_CDIDeviceIDs dev = [] then Inl (ErrDevice ''missing CDI ids'' (dvs_Device dev))
                             else Inr (prepared_device dev)) (cl_Devices claim) of
           Inl e \<Rightarrow> Inl e
         | Inr devices \<Rightarrow> Inr \<lparr> pres_ClaimUID = claimUID, pres_Devices = devices \<rparr>))"

section \<open>Steps of the prepare pipeline\<close>

definition ValidatePrepareStep :: "('q, 'w) prepare_step" where
  "ValidatePrepareStep st w =
     (if pr_ClaimUID (ps_Request st) = [] then fail (ErrMsg ''claim UID is required'') st w
      else if pr_Devices (ps_Request st) = [] then fail (ErrMsg ''no devices to prepare'') st w
      else go_on st w)"

definition LockPrepareStep :: "'w PrepareLocker option \<Rightarrow> ('q, 'w) prepare_step" where
  "LockPrepareStep locker st w =
     (case locker of
        None \<Rightarrow> fail (ErrMsg ''prepare locker is not configured'') st w
      | Some l \<Rightarrow>
          (case lk_Lock l w of
             (Inl err, w') \<Rightarrow> fail (ErrPort ''acquire prepare lock'' err) st w'
           | (Inr unlock, w') \<Rightarrow> go_on (st\<lparr> ps_Unlock := Some unlock \<rparr>) w'))"

definition LoadPrepareCheckpointStep :: "'w PrepareCheckpointStore option \<Rightarrow> ('q, 'w) prepare_step" where
  "LoadPrepareCheckpointStep store st w =
     (case store of
        None \<Rightarrow> fail (ErrMsg ''prepare checkpoint store is not configured'') st w
      | Some s \<Rightarrow>
          (case checkpoint_Load s w of
             (Inl err, w') \<Rightarrow> fail err st w'
           | (Inr cp, w') \<Rightarrow>
               let st1 = st\<lparr> ps_Checkpoint := cp \<rparr> in
               (case ck_Claims cp of
                  None \<Rightarrow> go_on st1 w'
                | Some claims \<Rightarrow>
                    (case mget claims (pr_ClaimUID (ps_Request st)) of
                       None \<Rightarrow> go_on st1 w'
                     | Some claim \<Rightarrow> go_on (st1\<lparr> ps_Claim := claim \<rparr>) w'))))"

definition ShortCircuitPrepareStep :: "('q, 'w) prepare_step" where
  "ShortCircuitPrepareStep st w =
     (if cl_State (ps_Claim st) \<noteq> PrepareStateCompleted then go_on st w
      else
        (case PreparedResultFromClaim (pr_ClaimUID (ps_Request st)) (ps_Claim st) of
           Inl err \<Rightarrow> fail err st w
         | Inr result \<Rightarrow> finish (st\<lparr> ps_Result := result \<rparr>) w))"

subsection \<open>Planning\<close>

definition string_attr :: "string \<Rightarrow> AttributeValue" where
  "string_attr s = \<lparr> av_String = Some s, av_Int = None, av_Bool = None \<rparr>"

definition device_type :: "'q PrepareDevice \<Rightarrow> string" where
  "device_type dev = AttrString (pd_Attributes dev) AttrDeviceType"

definition known_states :: "PreparedClaim \<Rightarrow> (string, PreparedDeviceState) gomap" where
  "known_states claim = foldl (\<lambda>m dev. mput (dvs_Device dev) dev m) [] (cl_Devices claim)"

definition plan_state :: "(string, PreparedDeviceState) gomap \<Rightarrow> 'q PrepareDevice \<Rightarrow> PreparedDeviceState" where
  "plan_state known dev =
     (case mget known (pd_Device dev) of
        None \<Rightarrow> \<lparr> dvs_Request = pd_Request dev, dvs_Pool = pd_Pool dev, dvs_Device = pd_Device dev,
                 dvs_CDIDeviceIDs = [], dvs_MIG = None, dvs_VFIO = None, dvs_Sharing = None \<rparr>
      | Some item \<Rightarrow> item)\<lparr> dvs_Request := pd_Request dev, dvs_Pool := pd_Pool dev \<rparr>"

definition plan_error :: "bool \<Rightarrow> bool \<Rightarrow> bool \<Rightarrow> 'q PrepareDevice \<Rightarrow> prepare_error option" where
  "plan_error vfio_requested has_mig has_vfio dev =
     (if vfio_requested \<and> \<not> IsPhysicalDevice (device_type dev)
      then Some (ErrDevice ''vfio requested for non-physical device'' (pd_Device dev))
      else if vfio_requested \<and> (pd_ShareID dev \<noteq> [] \<or> pd_ConsumedCapacity dev \<noteq> [])
      then Some (ErrDevice ''vfio requires exclusive allocation'' (pd_Device dev))
      else if vfio_requested \<and> \<not> has_vfio then Some (ErrMsg ''vfio manager is not configured'')
      else if IsMigDevice (device_type dev) \<and> \<not> has_mig then Some (ErrMsg ''mig manager is not configured'')
      else None)"

definition plan_mutable :: "PreparedDeviceState \<Rightarrow> 'q PrepareDevice \<Rightarrow> 'q PrepareDevice" where
  "plan_mutable item dev =
     (case dvs_MIG item of
        None \<Rightarrow> dev
      | Some m \<Rightarrow> dev\<lparr> pd_Attributes := mput AttrMigUUID (string_attr (pmd_DeviceUUID m)) (pd_Attributes dev) \<rparr>)"

fun plan_loop ::
  "bool \<Rightarrow> bool \<Rightarrow> bool \<Rightarrow> (string, PreparedDeviceState) gomap \<Rightarrow> 'q PrepareDevice list \<Rightarrow>
   (string, 'q PrepareDevice) gomap \<Rightarrow> 'q PrepareDevice list \<Rightarrow> PreparedDeviceState list \<Rightarrow>
   prepare_error option \<times> (string, 'q PrepareDevice) gomap \<times> 'q PrepareDevice list \<times> PreparedDeviceState list" where
  "plan_loop vf hm hv known [] dm mutable prepared = (None, dm, mutable, prepared)"
| "plan_loop vf hm hv known (dev # devs) dm mutable prepared =
     (let dm' = mput (pd_Device dev) dev dm; item = plan_state known dev in
      case plan_error vf hm hv dev of
        Some err \<Rightarrow> (Some err, dm', mutable, prepared)
      | None \<Rightarrow> plan_loop vf hm hv known devs dm' (mutable @ [plan_mutable item dev]) (prepared @ [item]))"

definition PlanPrepareStep :: "'w MigManager option \<Rightarrow> 'w VfioManager option \<Rightarrow> ('q, 'w) prepare_step" where
  "PlanPrepareStep mig vfio st w =
     (case plan_loop (pr_VFIO (ps_Request st)) (\<not> Option.is_none mig) (\<not> Option.is_none vfio)
             (known_states (ps_Claim st)) (pr_Devices (ps_Request st)) [] [] [] of
        (Some err, dm, _, _) \<Rightarrow> fail err (st\<lparr> ps_DeviceMap := dm \<rparr>) w
      | (None, dm, mutable, prepared) \<Rightarrow>
          go_on (st\<lparr> ps_DeviceMap := dm, ps_DeviceStates := prepared,
                     ps_MutableRequest := (ps_Request st)\<lparr> pr_Devices := mutable \<rparr> \<rparr>) w)"

subsection \<open>Free check and started checkpoint\<close>

fun free_loop ::
  "'w GPUProcessChecker \<Rightarrow> 'q PrepareDevice list \<Rightarrow> string list \<Rightarrow> 'w \<Rightarrow> prepare_error option \<times> 'w" where
  "free_loop c [] seen w = (None, w)"
| "free_loop c (dev # devs) seen w =
     (if \<not> IsPhysicalDevice (device_type dev) then free_loop c devs seen w
      else
        let pci = AttrString (pd_Attributes dev) AttrPCIAddress in
        if pci = [] then (Some (ErrDevice ''pci address is missing'' (pd_Device dev)), w)
        else if pci \<in> set seen then free_loop c devs seen w
        else
          (case gc_EnsureGPUFree c pci w of
             (Some err, w') \<Rightarrow> (Some (ErrPort ''gpu check'' err), w')
           | (None, w') \<Rightarrow> free_loop c devs (pci # seen) w'))"

definition GPUFreeCheckStep :: "'w GPUProcessChecker option \<Rightarrow> ('q, 'w) prepare_step" where
  "GPUFreeCheckStep checker st w =
     (if \<not> pr_VFIO (ps_Request st) then go_on st w
      else
        (case checker of
           None \<Rightarrow> fail (ErrMsg ''gpu process checker is not configured'') st w
         | Some c \<Rightarrow>
             (case free_loop c (pr_Devices (ps_Request st)) [] w of
                (Some err, w') \<Rightarrow> fail err st w'
              | (None, w') \<Rightarrow> go_on st w')))"

definition save_claim ::
  "'w PrepareCheckpointStore option \<Rightarrow> string \<Rightarrow> string \<Rightarrow> ('q, 'w) prepare_step" where
  "save_claim store state msg st w =
     (case store of
        None \<Rightarrow> fail (ErrMsg ''prepare checkpoint store is not configured'') st w
      | Some s \<Rightarrow>
          (case ck_Claims (ps_Checkpoint st) of
             None \<Rightarrow> fail NilMapWrite st w
           | Some claims \<Rightarrow>
               let claim = \<lparr> cl_State = state, cl_Devices = ps_DeviceStates st \<rparr>;
                   cp = (ps_Checkpoint st)\<lparr> ck_Claims := Some (mput (pr_ClaimUID (ps_Request st)) claim claims) \<rparr>;
                   st1 = st\<lparr> ps_Checkpoint := cp \<rparr>
               in (case st_Save s cp w of
                     (Some err, w') \<Rightarrow> fail (ErrPort msg err) st1 w'
                   | (None, w') \<Rightarrow> go_on st1 w')))"

definition SavePrepareStartedStep :: "'w PrepareCheckpointStore option \<Rightarrow> ('q, 'w) prepare_step" where
  "SavePrepareStartedStep store = save_claim store PrepareStateStarted ''save prepare checkpoint''"

definition SavePrepareCompletedStep :: "'w PrepareCheckpointStore option \<Rightarrow> ('q, 'w) prepare_step" where
  "SavePrepareCompletedStep store = save_claim store PrepareStateCompleted ''save completed checkpoint''"

subsection \<open>MIG and VFIO\<close>

fun apply_first :: "string \<Rightarrow> string \<Rightarrow> 'q PrepareDevice list \<Rightarrow> 'q PrepareDevice list" where
  "apply_first name uuid [] = []"
| "apply_first name uuid (dev # devs) =
     (if pd_Device dev \<noteq> name then dev # apply_first name uuid devs
      else dev\<lparr> pd_Attributes := mput AttrMigUUID (string_attr uuid) (pd_Attributes dev) \<rparr> # devs)"

definition applyMigUUID :: "('q, 'w) PrepareState \<Rightarrow> string \<Rightarrow> string \<Rightarrow> ('q, 'w) PrepareState" where
  "applyMigUUID st deviceName uuid =
     (if uuid = [] then st
      else st\<lparr> ps_MutableRequest :=
             (ps_MutableRequest st)\<lparr> pr_Devices := apply_first deviceName uuid (pr_Devices (ps_MutableRequest st)) \<rparr> \<rparr>)"

definition parseMigDeviceName :: "string \<Rightarrow> prepare_error + (int64 \<times> int64 \<times> int64)" where
  "parseMigDeviceName raw =
     (let name = TrimSpace raw; invalid = Inl (ErrDevice ''invalid mig device name'' name) in
      if \<not> HasPrefix name ''mig-'' then invalid
      else
        (case SplitN2 name ''-p'' of
           None \<Rightarrow> invalid
         | Some (_, profilePart) \<Rightarrow>
             (case SplitN2 profilePart ''-s'' of
                None \<Rightarrow> invalid
              | Some (p, rest) \<Rightarrow>
                  (case Atoi p of
                     None \<Rightarrow> Inl (ErrDevice ''invalid mig profile id'' name)
                   | Some profileID \<Rightarrow>
                       (case SplitN2 rest ''-n'' of
                          None \<Rightarrow> invalid
                        | Some (s, n) \<Rightarrow>
                            (case Atoi s of
                               None \<Rightarrow> Inl (ErrDevice ''invalid mig placement start'' name)
                             | Some start \<Rightarrow>
                                 (case Atoi n of
                                    None \<Rightarrow> Inl (ErrDevice ''invalid mig placement size'' name)
                                  | Some sz \<Rightarrow> Inr (profileID, start, sz))))))))"

definition BuildMigPrepareRequest :: "'q PrepareDevice \<Rightarrow> prepare_error + MigPrepareRequest" where
  "BuildMigPrepareRequest dev =
     (let pci = AttrString (pd_Attributes dev) AttrPCIAddress in
      if pci = [] then Inl (ErrDevice ''pci address is missing'' (pd_Device dev))
      else
        (case parseMigDeviceName (pd_Device dev) of
           Inl err \<Rightarrow> Inl err
         | Inr (profileID, start, sz) \<Rightarrow>
             Inr \<lparr> mpr_PCIBusID = pci, mpr_ProfileID = profileID, mpr_SliceStart = start, mpr_SliceSize = sz \<rparr>))"

fun mig_loop :: "'w MigManager \<Rightarrow> nat \<Rightarrow> PreparedDeviceState list \<Rightarrow> (('q, 'w) PrepareState, 'w) loop" where
  "mig_loop m i [] st w = (None, st, w)"
| "mig_loop m i (devState # rest) st w =
     (case mget (ps_DeviceMap st) (dvs_Device devState) of
        None \<Rightarrow> (Some (ErrDevice ''missing prepare device'' (dvs_Device devState)), st, w)
      | Some reqDev \<Rightarrow>
          if \<not> IsMigDevice (device_type reqDev) then mig_loop m (Suc i) rest st w
          else
            (case dvs_MIG devState of
               Some g \<Rightarrow> mig_loop m (Suc i) rest (applyMigUUID st (dvs_Device devState) (pmd_DeviceUUID g)) w
             | None \<Rightarrow>
                 (case BuildMigPrepareRequest reqDev of
                    Inl err \<Rightarrow> (Some err, st, w)
                  | Inr migReq \<Rightarrow>
                      (case mig_Prepare m migReq w of
                         (Inl err, w') \<Rightarrow> (Some (ErrPort (''mig prepare '' @ dvs_Device devState) err), st, w')
                       | (Inr migState, w') \<Rightarrow>
                           let st1 = st\<lparr> ps_DeviceStates := (ps_DeviceStates st)[i := (ps_DeviceStates st ! i)\<lparr> dvs_MIG := Some migState \<rparr>],
                                         ps_ResourcesChanged := True \<rparr>
                           in mig_loop m (Suc i) rest (applyMigUUID st1 (dvs_Device devState) (pmd_DeviceUUID migState)) w'))))"

definition MigPrepareStep :: "'w MigManager option \<Rightarrow> ('q, 'w) prepare_step" where
  "MigPrepareStep mig st w =
     (case mig of None \<Rightarrow> go_on st w | Some m \<Rightarrow> loop_step (mig_loop m 0 (ps_DeviceStates st)) st w)"

fun vfio_loop :: "'w VfioManager \<Rightarrow> nat \<Rightarrow> PreparedDeviceState list \<Rightarrow> (('q, 'w) PrepareState, 'w) loop" where
  "vfio_loop v i [] st w = (None, st, w)"
| "vfio_loop v i (devState # rest) st w =
     (case mget (ps_DeviceMap st) (dvs_Device devState) of
        None \<Rightarrow> (Some (ErrDevice ''missing prepare device'' (dvs_Device devState)), st, w)
      | Some reqDev \<Rightarrow>
          if \<not> IsPhysicalDevice (device_type reqDev) then vfio_loop v (Suc i) rest st w
          else
            (case dvs_VFIO devState of
               Some _ \<Rightarrow> vfio_loop v (Suc i) rest st w
             | None \<Rightarrow>
                 let pci = AttrString (pd_Attributes reqDev) AttrPCIAddress in
                 if pci = [] then (Some (ErrDevice ''pci address is missing'' (dvs_Device devState)), st, w)
                 else
                   (case vfio_Prepare v \<lparr> vpr_PCIBusID = pci \<rparr> w of
                      (Inl err, w') \<Rightarrow> (Some (ErrPort (''vfio prepare '' @ dvs_Device devState) err), st, w')
                    | (Inr vfioState, w') \<Rightarrow>
                        vfio_loop v (Suc i) rest
                          (st\<lparr> ps_DeviceStates := (ps_DeviceStates st)[i := (ps_DeviceStates st ! i)\<lparr> dvs_VFIO := Some vfioState \<rparr>],
                               ps_ResourcesChanged := True \<rparr>) w')))"

definition VfioPrepareStep :: "'w VfioManager option \<Rightarrow> ('q, 'w) prepare_step" where
  "VfioPrepareStep vfio st w =
     (if \<not> pr_VFIO (ps_Request st) then go_on st w
      else
        (case vfio of
           None \<Rightarrow> fail (ErrMsg ''vfio manager is not configured'') st w
         | Some v \<Rightarrow> loop_step (vfio_loop v 0 (ps_DeviceStates st)) st w))"

subsection \<open>Time slicing\<close>

text \<open>\<open>device_index f xs\<close> is the map from name to position that a loop over \<open>xs\<close> builds: the last one wins.\<close>

fun index_from :: "('a \<Rightarrow> string) \<Rightarrow> nat \<Rightarrow> 'a list \<Rightarrow> (string, nat) gomap \<Rightarrow> (string, nat) gomap" where
  "index_from f i [] m = m"
| "index_from f i (x # xs) m = index_from f (Suc i) xs (mput (f x) i m)"

definition device_index :: "('a \<Rightarrow> string) \<Rightarrow> 'a list \<Rightarrow> (string, nat) gomap" where
  "device_index f xs = index_from f 0 xs []"

record timeSlicingGroup =
  tg_config :: TimeSlicingConfig
  tg_reqIndexes :: "nat list"
  tg_stateIndexes :: "nat list"
  tg_deviceUUIDs :: "string list"
  tg_deviceIndex :: "(nat, nat) gomap"

definition timeSlicingGroup_add :: "timeSlicingGroup \<Rightarrow> nat \<Rightarrow> nat \<Rightarrow> string \<Rightarrow> timeSlicingGroup" where
  "timeSlicingGroup_add g reqIdx stateIdx uuid =
     g\<lparr> tg_deviceIndex := mput stateIdx (length (tg_deviceUUIDs g)) (tg_deviceIndex g),
        tg_reqIndexes := tg_reqIndexes g @ [reqIdx],
        tg_stateIndexes := tg_stateIndexes g @ [stateIdx],
        tg_deviceUUIDs := tg_deviceUUIDs g @ [uuid] \<rparr>"

fun unique_loop :: "string list \<Rightarrow> string list \<Rightarrow> string list \<Rightarrow> string list" where
  "unique_loop [] seen out = out"
| "unique_loop (v # vs) seen out =
     (if v = [] then unique_loop vs seen out
      else if v \<in> set seen then unique_loop vs seen out
      else unique_loop vs (v # seen) (out @ [v]))"

definition uniqueStrings :: "string list \<Rightarrow> string list" where
  "uniqueStrings values = unique_loop values [] []"

definition applySharingState :: "nat \<Rightarrow> PreparedSharing \<Rightarrow> ('q, 'w) PrepareState \<Rightarrow> ('q, 'w) PrepareState" where
  "applySharingState idx sharing st =
     st\<lparr> ps_DeviceStates := (ps_DeviceStates st)[idx := (ps_DeviceStates st ! idx)\<lparr> dvs_Sharing := Some sharing \<rparr>] \<rparr>"

definition uuid_at :: "string list \<Rightarrow> (nat, nat) gomap \<Rightarrow> nat \<Rightarrow> string" where
  "uuid_at uuids idxs idx = uuids ! (case mget idxs idx of None \<Rightarrow> 0 | Some j \<Rightarrow> j)"

fun ts_collect ::
  "(string, nat) gomap \<Rightarrow> (string, nat) gomap \<Rightarrow> 'q PrepareDevice list \<Rightarrow> (string, timeSlicingGroup) gomap \<Rightarrow>
   prepare_error + (string, timeSlicingGroup) gomap" where
  "ts_collect sidx ridx [] groups = Inr groups"
| "ts_collect sidx ridx (dev # devs) groups =
     (case pd_Config dev of
        Some (ConfigGpu cfg) \<Rightarrow>
          if \<not> GpuSharing_IsTimeSlicing (gc_Sharing cfg) then ts_collect sidx ridx devs groups
          else if \<not> IsPhysicalDevice (device_type dev)
          then Inl (ErrDevice ''time-slicing requires physical device'' (pd_Device dev))
          else
            (case mget sidx (pd_Device dev) of
               None \<Rightarrow> Inl (ErrDevice ''missing device state'' (pd_Device dev))
             | Some stateIdx \<Rightarrow>
                 (case mget ridx (pd_Device dev) of
                    None \<Rightarrow> Inl (ErrDevice ''missing mutable request'' (pd_Device dev))
                  | Some reqIdx \<Rightarrow>
                      (case GpuSharing_GetTimeSlicingConfig (gc_Sharing cfg) of
                         Inl err \<Rightarrow> Inl (ErrConfig err)
                       | Inr None \<Rightarrow> Inl (ErrDevice ''time-slicing config missing interval'' (pd_Device dev))
                       | Inr (Some tsc) \<Rightarrow>
                           (case ts_Interval tsc of
                              None \<Rightarrow> Inl (ErrDevice ''time-slicing config missing interval'' (pd_Device dev))
                            | Some key \<Rightarrow>
                                let uuid = AttrString (pd_Attributes dev) AttrGPUUUID in
                                if uuid = [] then Inl (ErrDevice ''gpu uuid is missing'' (pd_Device dev))
                                else
                                  let g = (case mget groups key of
                                             None \<Rightarrow> \<lparr> tg_config = tsc, tg_reqIndexes = [], tg_stateIndexes = [],
                                                       tg_deviceUUIDs = [], tg_deviceIndex = [] \<rparr>
                                           | Some g \<Rightarrow> g)
                                  in ts_collect sidx ridx devs (mput key (timeSlicingGroup_add g reqIdx stateIdx uuid) groups)))))
      | _ \<Rightarrow> ts_collect sidx ridx devs groups)"

fun ts_apply :: "'w TimeSlicingManager \<Rightarrow> timeSlicingGroup list \<Rightarrow> (('q, 'w) PrepareState, 'w) loop" where
  "ts_apply t [] st w = (None, st, w)"
| "ts_apply t (g # gs) st w =
     (case ts_SetTimeSlice t (uniqueStrings (tg_deviceUUIDs g)) (tg_config g) w of
        (Some err, w') \<Rightarrow> (Some (ErrPort ''set time slice'' err), st, w')
      | (None, w') \<Rightarrow>
          ts_apply t gs
            (foldl (\<lambda>st idx. applySharingState idx
                \<lparr> psh_Strategy = TimeSlicingStrategy,
                  psh_DeviceUUID = uuid_at (tg_deviceUUIDs g) (tg_deviceIndex g) idx, psh_MPS = None \<rparr> st)
              st (tg_stateIndexes g)) w')"

definition TimeSlicingPrepareStep ::
  "(nat \<Rightarrow> nat list) \<Rightarrow> 'w TimeSlicingManager option \<Rightarrow> ('q, 'w) prepare_step" where
  "TimeSlicingPrepareStep ord timeSlicing st w =
     (case ts_collect (device_index dvs_Device (ps_DeviceStates st))
             (device_index pd_Device (pr_Devices (ps_MutableRequest st))) (pr_Devices (ps_MutableRequest st)) [] of
        Inl err \<Rightarrow> fail err st w
      | Inr groups \<Rightarrow>
          if groups = [] then go_on st w
          else
            (case timeSlicing of
               None \<Rightarrow> fail (ErrMsg ''time-slicing manager is not configured'') st w
             | Some t \<Rightarrow> loop_step (ts_apply t (visit ord (map snd groups))) st w))"

subsection \<open>MPS\<close>

record 'q mpsGroup =
  mg_key :: string
  mg_config :: "'q MpsConfig option"
  mg_reqIndexes :: "nat list"
  mg_stateIndexes :: "nat list"
  mg_deviceUUIDs :: "string list"
  mg_deviceIndex :: "(nat, nat) gomap"
  mg_existing :: "PreparedMpsState option"

definition mpsConfigKey :: "('q MpsConfig \<Rightarrow> string option) \<Rightarrow> (string \<Rightarrow> string) \<Rightarrow> 'q MpsConfig option \<Rightarrow> string" where
  "mpsConfigKey marshal sha cfg =
     (case cfg of
        None \<Rightarrow> ''default''
      | Some c \<Rightarrow> (case marshal c of None \<Rightarrow> ''default'' | Some payload \<Rightarrow> take 8 (sha payload)))"

definition ensureMpsGroup ::
  "('q MpsConfig \<Rightarrow> string option) \<Rightarrow> (string \<Rightarrow> string) \<Rightarrow> (string, 'q mpsGroup) gomap \<Rightarrow> string \<Rightarrow>
   'q MpsConfig option \<Rightarrow> string \<times> 'q mpsGroup" where
  "ensureMpsGroup marshal sha groups deviceType cfg =
     (let key = ToLower deviceType @ ''/'' @ mpsConfigKey marshal sha cfg in
      (key, case mget groups key of
              None \<Rightarrow> \<lparr> mg_key = key, mg_config = cfg, mg_reqIndexes = [], mg_stateIndexes = [],
                       mg_deviceUUIDs = [], mg_deviceIndex = [], mg_existing = None \<rparr>
            | Some g \<Rightarrow> g))"

definition mpsGroup_add :: "'q mpsGroup \<Rightarrow> nat \<Rightarrow> nat \<Rightarrow> string \<Rightarrow> 'q mpsGroup" where
  "mpsGroup_add g reqIdx stateIdx uuid =
     g\<lparr> mg_deviceIndex := mput stateIdx (length (mg_deviceUUIDs g)) (mg_deviceIndex g),
        mg_reqIndexes := mg_reqIndexes g @ [reqIdx],
        mg_stateIndexes := mg_stateIndexes g @ [stateIdx],
        mg_deviceUUIDs := mg_deviceUUIDs g @ [uuid] \<rparr>"

definition mergeExistingMpsState :: "'q mpsGroup \<Rightarrow> PreparedSharing option \<Rightarrow> prepare_error + 'q mpsGroup" where
  "mergeExistingMpsState g sharing =
     (case sharing of
        None \<Rightarrow> Inr g
      | Some sh \<Rightarrow>
          (case psh_MPS sh of
             None \<Rightarrow> Inr g
           | Some m \<Rightarrow>
               (case mg_existing g of
                  None \<Rightarrow> Inr (g\<lparr> mg_existing := Some m \<rparr>)
                | Some e \<Rightarrow>
                    if pms_ControlID e \<noteq> pms_ControlID m
                    then Inl (ErrDevice (''conflicting MPS control IDs '' @ pms_ControlID e) (pms_ControlID m))
                    else Inr g)))"

definition buildMpsControlID :: "(string \<Rightarrow> string) \<Rightarrow> string \<Rightarrow> string \<Rightarrow> string list \<Rightarrow> string" where
  "buildMpsControlID sha claimUID groupKey deviceUUIDs =
     claimUID @ ''-'' @ take 6 (sha (Join ([claimUID, groupKey] @ sort deviceUUIDs) ''|''))"

definition applyMpsAttributes :: "PreparedMpsState \<Rightarrow> 'q PrepareDevice \<Rightarrow> 'q PrepareDevice" where
  "applyMpsAttributes state dev =
     dev\<lparr> pd_Attributes :=
       mput AttrMpsLogDir (string_attr (pms_LogDir state))
        (mput AttrMpsShmDir (string_attr (pms_ShmDir state))
          (mput AttrMpsPipeDir (string_attr (pms_PipeDir state)) (pd_Attributes dev))) \<rparr>"

text \<open>
  The settings MPS needs of one device: configuration and UUID attribute of a GPU or a MIG device that
  shares by MPS; \<open>Inr None\<close> for a device the step passes over.
\<close>

definition mps_settings :: "'q PrepareDevice \<Rightarrow> 'q config \<Rightarrow> prepare_error + ('q MpsConfig option \<times> string) option" where
  "mps_settings dev cfg =
     (case cfg of
        ConfigGpu c \<Rightarrow>
          if \<not> GpuSharing_IsMps (gc_Sharing c) then Inr None
          else
            (case GpuSharing_GetMpsConfig (gc_Sharing c) of
               Inl err \<Rightarrow> Inl (ErrConfig err)
             | Inr mpsCfg \<Rightarrow>
                 let uuid = AttrString (pd_Attributes dev) AttrGPUUUID in
                 if uuid = [] then Inl (ErrDevice ''gpu uuid is missing'' (pd_Device dev)) else Inr (Some (mpsCfg, uuid)))
      | ConfigMig c \<Rightarrow>
          if \<not> MigDeviceSharing_IsMps (mg_Sharing c) then Inr None
          else
            (case MigDeviceSharing_GetMpsConfig (mg_Sharing c) of
               Inl err \<Rightarrow> Inl (ErrConfig err)
             | Inr mpsCfg \<Rightarrow>
                 let uuid = AttrString (pd_Attributes dev) AttrMigUUID in
                 if uuid = [] then Inl (ErrDevice ''mig uuid is missing'' (pd_Device dev)) else Inr (Some (mpsCfg, uuid)))
      | ConfigVfio c \<Rightarrow> Inr None)"

fun mps_collect ::
  "('q MpsConfig \<Rightarrow> string option) \<Rightarrow> (string \<Rightarrow> string) \<Rightarrow> PreparedDeviceState list \<Rightarrow> (string, nat) gomap \<Rightarrow>
   (string, nat) gomap \<Rightarrow> 'q PrepareDevice list \<Rightarrow> (string, 'q mpsGroup) gomap \<Rightarrow>
   prepare_error + (string, 'q mpsGroup) gomap" where
  "mps_collect marshal sha states sidx ridx [] groups = Inr groups"
| "mps_collect marshal sha states sidx ridx (dev # devs) groups =
     (case pd_Config dev of
        None \<Rightarrow> mps_collect marshal sha states sidx ridx devs groups
      | Some cfg \<Rightarrow>
          (case mget sidx (pd_Device dev) of
             None \<Rightarrow> Inl (ErrDevice ''missing device state'' (pd_Device dev))
           | Some stateIdx \<Rightarrow>
               (case mget ridx (pd_Device dev) of
                  None \<Rightarrow> Inl (ErrDevice ''missing mutable request'' (pd_Device dev))
                | Some reqIdx \<Rightarrow>
                    (case mps_settings dev cfg of
                       Inl err \<Rightarrow> Inl err
                     | Inr None \<Rightarrow> mps_collect marshal sha states sidx ridx devs groups
                     | Inr (Some (mpsCfg, uuid)) \<Rightarrow>
                         (case ensureMpsGroup marshal sha groups (device_type dev) mpsCfg of
                            (key, g) \<Rightarrow>
                              (case mergeExistingMpsState g (dvs_Sharing (states ! stateIdx)) of
                                 Inl err \<Rightarrow> Inl err
                               | Inr g' \<Rightarrow>
                                   mps_collect marshal sha states sidx ridx devs
                                     (mput key (mpsGroup_add g' reqIdx stateIdx uuid) groups)))))))"

definition mps_controlID :: "(string \<Rightarrow> string) \<Rightarrow> string \<Rightarrow> 'q mpsGroup \<Rightarrow> string" where
  "mps_controlID sha claimUID g =
     (let existing = (case mg_existing g of None \<Rightarrow> [] | Some e \<Rightarrow> pms_ControlID e) in
      if existing = [] then buildMpsControlID sha claimUID (mg_key g) (uniqueStrings (mg_deviceUUIDs g)) else existing)"

fun mps_apply :: "(string \<Rightarrow> string) \<Rightarrow> ('q, 'w) MpsManager \<Rightarrow> 'q mpsGroup list \<Rightarrow> (('q, 'w) PrepareState, 'w) loop" where
  "mps_apply sha m [] st w = (None, st, w)"
| "mps_apply sha m (g # gs) st w =
     (case mps_Start m \<lparr> mpq_ControlID = mps_controlID sha (pr_ClaimUID (ps_Request st)) g,
                         mpq_DeviceUUIDs = uniqueStrings (mg_deviceUUIDs g), mpq_Config = mg_config g \<rparr> w of
        (Inl err, w') \<Rightarrow> (Some (ErrPort ''mps start'' err), st, w')
      | (Inr state, w') \<Rightarrow>
          let st1 = st\<lparr> ps_MutableRequest := (ps_MutableRequest st)\<lparr> pr_Devices :=
                        foldl (\<lambda>ds idx. ds[idx := applyMpsAttributes state (ds ! idx)])
                          (pr_Devices (ps_MutableRequest st)) (mg_reqIndexes g) \<rparr> \<rparr>;
              st2 = foldl (\<lambda>st idx. applySharingState idx
                        \<lparr> psh_Strategy = MpsStrategy,
                          psh_DeviceUUID = uuid_at (mg_deviceUUIDs g) (mg_deviceIndex g) idx, psh_MPS = Some state \<rparr> st)
                      st1 (mg_stateIndexes g)
          in mps_apply sha m gs st2 w')"

definition MpsPrepareStep ::
  "('q MpsConfig \<Rightarrow> string option) \<Rightarrow> (string \<Rightarrow> string) \<Rightarrow> (nat \<Rightarrow> nat list) \<Rightarrow> ('q, 'w) MpsManager option \<Rightarrow>
   ('q, 'w) prepare_step" where
  "MpsPrepareStep marshal sha ord mps st w =
     (case mps_collect marshal sha (ps_DeviceStates st) (device_index dvs_Device (ps_DeviceStates st))
             (device_index pd_Device (pr_Devices (ps_MutableRequest st))) (pr_Devices (ps_MutableRequest st)) [] of
        Inl err \<Rightarrow> fail err st w
      | Inr groups \<Rightarrow>
          if groups = [] then go_on st w
          else
            (case mps of
               None \<Rightarrow> fail (ErrMsg ''mps manager is not configured'') st w
             | Some m \<Rightarrow> loop_step (mps_apply sha m (visit ord (map snd groups))) st w))"

subsection \<open>CDI, notification and the end\<close>

fun cdi_loop ::
  "(string, string list) gomap \<Rightarrow> PreparedDeviceState list \<Rightarrow>
   (prepare_error + PreparedDevice list) \<times> PreparedDeviceState list" where
  "cdi_loop ids [] = (Inr [], [])"
| "cdi_loop ids (d # ds) =
     (case mget ids (dvs_Device d) of
        None \<Rightarrow> (Inl (ErrDevice ''missing CDI ids'' (dvs_Device d)), d # ds)
      | Some xs \<Rightarrow>
          let d' = d\<lparr> dvs_CDIDeviceIDs := xs \<rparr> in
          (case cdi_loop ids ds of
             (Inl e, ds') \<Rightarrow> (Inl e, d' # ds')
           | (Inr rs, ds') \<Rightarrow> (Inr (prepared_device d' # rs), d' # ds')))"

definition WriteCDIStep :: "('q, 'w) CDIWriter option \<Rightarrow> ('q, 'w) prepare_step" where
  "WriteCDIStep cdi st w =
     (case cdi of
        None \<Rightarrow> fail (ErrMsg ''cdi writer is not configured'') st w
      | Some c \<Rightarrow>
          (case cdi_Write c (ps_MutableRequest st) w of
             (Inl err, w') \<Rightarrow> fail (ErrPort ''cdi write'' err) st w'
           | (Inr deviceIDs, w') \<Rightarrow>
               (case cdi_loop deviceIDs (ps_DeviceStates st) of
                  (Inl err, states) \<Rightarrow> fail err (st\<lparr> ps_DeviceStates := states \<rparr>) w'
                | (Inr devices, states) \<Rightarrow>
                    go_on (st\<lparr> ps_DeviceStates := states,
                               ps_Result := \<lparr> pres_ClaimUID = pr_ClaimUID (ps_Request st), pres_Devices = devices \<rparr> \<rparr>) w')))"

definition NotifyResourcesPrepareStep :: "'w ResourcesChangeNotifier option \<Rightarrow> ('q, 'w) prepare_step" where
  "NotifyResourcesPrepareStep notifier st w =
     (case notifier of
        None \<Rightarrow> go_on st w
      | Some n \<Rightarrow> if \<not> ps_ResourcesChanged st then go_on st w else go_on st (nt_Notify n w))"

definition FinalPrepareStep :: "('q, 'w) prepare_step" where
  "FinalPrepareStep st w =
     (if pres_ClaimUID (ps_Result st) = [] then fail (ErrMsg ''prepare result is empty'') st w else finish st w)"

end
