(* ===== verification/PrepareService.thy ===== *)
theory PrepareService
  imports PrepareSteps
begin

text \<open>
  The unprepare steps, the two pipelines of \<open>pipeline.go\<close> and the service of \<open>service.go\<close>, which runs a
  pipeline and releases the node lock in every case.
\<close>

section \<open>Steps of the unprepare pipeline\<close>

definition ValidateUnprepareStep :: "'w unprepare_step" where
  "ValidateUnprepareStep st w =
     (if us_ClaimUID st = [] then fail (ErrMsg ''claim UID is required'') st w else go_on st w)"

definition LockUnprepareStep :: "'w PrepareLocker option \<Rightarrow> 'w unprepare_step" where
  "LockUnprepareStep locker st w =
     (case locker of
        None \<Rightarrow> fail (ErrMsg ''prepare locker is not configured'') st w
      | Some l \<Rightarrow>
          (case lk_Lock l w of
             (Inl err, w') \<Rightarrow> fail (ErrPort ''acquire prepare lock'' err) st w'
           | (Inr unlock, w') \<Rightarrow> go_on (st\<lparr> us_Unlock := Some unlock \<rparr>) w'))"

definition LoadUnprepareCheckpointStep :: "'w PrepareCheckpointStore option \<Rightarrow> 'w unprepare_step" where
  "LoadUnprepareCheckpointStep store st w =
     (case store of
        None \<Rightarrow> fail (ErrMsg ''prepare checkpoint store is not configured'') st w
      | Some s \<Rightarrow>
          (case checkpoint_Load s w of
             (Inl err, w') \<Rightarrow> fail err st w'
           | (Inr cp, w') \<Rightarrow>
               let st1 = st\<lparr> us_Checkpoint := cp \<rparr> in
               (case ck_Claims cp of
                  None \<Rightarrow> go_on st1 w'
                | Some claims \<Rightarrow>
                    (case mget claims (us_ClaimUID st) of
                       None \<Rightarrow> go_on st1 w'
                     | Some claim \<Rightarrow> go_on (st1\<lparr> us_Claim := claim \<rparr>) w'))))"

definition ShortCircuitUnprepareStep :: "'w unprepare_step" where
  "ShortCircuitUnprepareStep st w =
     (if cl_Devices (us_Claim st) = [] then finish (st\<lparr> us_Skip := True \<rparr>) w
      else if cl_State (us_Claim st) = PrepareStateStarted then finish (st\<lparr> us_Skip := True \<rparr>) w
      else go_on st w)"

definition mps_states :: "PreparedDeviceState list \<Rightarrow> (string, PreparedMpsState) gomap" where
  "mps_states devices =
     foldl (\<lambda>m dev.
        (case dvs_Sharing dev of
           None \<Rightarrow> m
         | Some sh \<Rightarrow>
             (case psh_MPS sh of
                None \<Rightarrow> m
              | Some s \<Rightarrow> if psh_Strategy sh \<noteq> MpsStrategy then m else mput (pms_ControlID s) s m)))
       [] devices"

fun mps_stop_loop :: "('q, 'w) MpsManager \<Rightarrow> PreparedMpsState list \<Rightarrow> ('w UnprepareState, 'w) loop" where
  "mps_stop_loop m [] st w = (None, st, w)"
| "mps_stop_loop m (s # ss) st w =
     (case mps_Stop m s w of
        (Some err, w') \<Rightarrow> (Some (ErrPort ''mps stop'' err), st, w')
      | (None, w') \<Rightarrow> mps_stop_loop m ss st w')"

definition MpsUnprepareStep :: "(nat \<Rightarrow> nat list) \<Rightarrow> ('q, 'w) MpsManager option \<Rightarrow> 'w unprepare_step" where
  "MpsUnprepareStep ord mps st w =
     (if us_Skip st then go_on st w
      else
        let states = mps_states (cl_Devices (us_Claim st)) in
        if states = [] then go_on st w
        else
          (case mps of
             None \<Rightarrow> fail (ErrMsg ''mps manager is not configured'') st w
           | Some m \<Rightarrow> loop_step (mps_stop_loop m (visit ord (map snd states))) st w))"

definition time_slice_uuids :: "PreparedDeviceState list \<Rightarrow> string list" where
  "time_slice_uuids devices =
     foldl (\<lambda>us dev.
        (case dvs_Sharing dev of
           None \<Rightarrow> us
         | Some sh \<Rightarrow>
             if psh_Strategy sh \<noteq> TimeSlicingStrategy \<or> psh_DeviceUUID sh = [] \<or> psh_DeviceUUID sh \<in> set us then us
             else us @ [psh_DeviceUUID sh]))
       [] devices"

definition TimeSlicingUnprepareStep ::
  "(nat \<Rightarrow> nat list) \<Rightarrow> 'w TimeSlicingManager option \<Rightarrow> 'w unprepare_step" where
  "TimeSlicingUnprepareStep ord timeSlicing st w =
     (if us_Skip st then go_on st w
      else
        let uuids = time_slice_uuids (cl_Devices (us_Claim st)) in
        if uuids = [] then go_on st w
        else
          (case timeSlicing of
             None \<Rightarrow> fail (ErrMsg ''time-slicing manager is not configured'') st w
           | Some t \<Rightarrow>
               (case ts_SetTimeSlice t (visit ord uuids) \<lparr> ts_Interval = Some DefaultTimeSlice \<rparr> w of
                  (Some err, w') \<Rightarrow> fail (ErrPort ''set time slice'' err) st w'
                | (None, w') \<Rightarrow> go_on st w')))"

fun mig_unprepare_loop :: "'w MigManager \<Rightarrow> PreparedDeviceState list \<Rightarrow> ('w UnprepareState, 'w) loop" where
  "mig_unprepare_loop m [] st w = (None, st, w)"
| "mig_unprepare_loop m (dev # devs) st w =
     (case dvs_MIG dev of
        None \<Rightarrow> mig_unprepare_loop m devs st w
      | Some g \<Rightarrow>
          (case mig_Unprepare m g w of
             (Some err, w') \<Rightarrow> (Some (ErrPort (''mig unprepare '' @ dvs_Device dev) err), st, w')
           | (None, w') \<Rightarrow> mig_unprepare_loop m devs (st\<lparr> us_ResourcesChanged := True \<rparr>) w'))"

definition MigUnprepareStep :: "'w MigManager option \<Rightarrow> 'w unprepare_step" where
  "MigUnprepareStep mig st w =
     (case mig of
        None \<Rightarrow> go_on st w
      | Some m \<Rightarrow>
          if us_Skip st then go_on st w
          else loop_step (mig_unprepare_loop m (cl_Devices (us_Claim st))) st w)"

fun vfio_unprepare_loop :: "'w VfioManager \<Rightarrow> PreparedDeviceState list \<Rightarrow> ('w UnprepareState, 'w) loop" where
  "vfio_unprepare_loop v [] st w = (None, st, w)"
| "vfio_unprepare_loop v (dev # devs) st w =
     (case dvs_VFIO dev of
        None \<Rightarrow> vfio_unprepare_loop v devs st w
      | Some f \<Rightarrow>
          (case vfio_Unprepare v f w of
             (Some err, w') \<Rightarrow> (Some (ErrPort (''vfio unprepare '' @ dvs_Device dev) err), st, w')
           | (None, w') \<Rightarrow> vfio_unprepare_loop v devs (st\<lparr> us_ResourcesChanged := True \<rparr>) w'))"

definition VfioUnprepareStep :: "'w VfioManager option \<Rightarrow> 'w unprepare_step" where
  "VfioUnprepareStep vfio st w =
     (case vfio of
        None \<Rightarrow> go_on st w
      | Some v \<Rightarrow>
          if us_Skip st then go_on st w
          else loop_step (vfio_unprepare_loop v (cl_Devices (us_Claim st))) st w)"

definition DeleteCDIStep :: "('q, 'w) CDIWriter option \<Rightarrow> 'w unprepare_step" where
  "DeleteCDIStep cdi st w =
     (if us_Skip st then go_on st w
      else
        (case cdi of
           None \<Rightarrow> fail (ErrMsg ''cdi writer is not configured'') st w
         | Some c \<Rightarrow>
             (case cdi_Delete c (us_ClaimUID st) w of
                (Some err, w') \<Rightarrow> fail (ErrPort ''cdi delete'' err) st w'
              | (None, w') \<Rightarrow> go_on st w')))"

definition CleanupCheckpointStep :: "'w PrepareCheckpointStore option \<Rightarrow> 'w unprepare_step" where
  "CleanupCheckpointStep store st w =
     (if us_Skip st then go_on st w
      else
        (case store of
           None \<Rightarrow> fail (ErrMsg ''prepare checkpoint store is not configured'') st w
         | Some s \<Rightarrow>
             let cp = (us_Checkpoint st)\<lparr> ck_Claims := map_option (mdel (us_ClaimUID st)) (ck_Claims (us_Checkpoint st)) \<rparr>;
                 st1 = st\<lparr> us_Checkpoint := cp \<rparr>
             in (case st_Save s cp w of
                   (Some err, w') \<Rightarrow> fail (ErrPort ''save checkpoint cleanup'' err) st1 w'
                 | (None, w') \<Rightarrow> go_on st1 w')))"

definition NotifyResourcesUnprepareStep :: "'w ResourcesChangeNotifier option \<Rightarrow> 'w unprepare_step" where
  "NotifyResourcesUnprepareStep notifier st w =
     (case notifier of
        None \<Rightarrow> go_on st w
      | Some n \<Rightarrow> if \<not> us_ResourcesChanged st then go_on st w else go_on st (nt_Notify n w))"

definition FinalUnprepareStep :: "'w unprepare_step" where
  "FinalUnprepareStep st w = finish st w"

section \<open>Pipelines and service\<close>

definition newPrepareSteps :: "('q, 'w) Options \<Rightarrow> ('q, 'w) prepare_step list" where
  "newPrepareSteps opts =
     [ValidatePrepareStep,
      LockPrepareStep (opt_Locker opts),
      LoadPrepareCheckpointStep (opt_Checkpoints opts),
      ShortCircuitPrepareStep,
      PlanPrepareStep (opt_MIG opts) (opt_VFIO opts),
      GPUFreeCheckStep (opt_GPUChecker opts),
      SavePrepareStartedStep (opt_Checkpoints opts),
      MigPrepareStep (opt_MIG opts),
      VfioPrepareStep (opt_VFIO opts),
      TimeSlicingPrepareStep (range_order opts) (opt_TimeSlicing opts),
      MpsPrepareStep (marshal_mps opts) (sha256hex opts) (range_order opts) (opt_Mps opts),
      WriteCDIStep (opt_CDI opts),
      SavePrepareCompletedStep (opt_Checkpoints opts),
      NotifyResourcesPrepareStep (opt_ResourcesNotifier opts),
      FinalPrepareStep]"

definition newUnprepareSteps :: "('q, 'w) Options \<Rightarrow> 'w unprepare_step list" where
  "newUnprepareSteps opts =
     [ValidateUnprepareStep,
      LockUnprepareStep (opt_Locker opts),
      LoadUnprepareCheckpointStep (opt_Checkpoints opts),
      ShortCircuitUnprepareStep,
      MpsUnprepareStep (range_order opts) (opt_Mps opts),
      TimeSlicingUnprepareStep (range_order opts) (opt_TimeSlicing opts),
      MigUnprepareStep (opt_MIG opts),
      VfioUnprepareStep (opt_VFIO opts),
      DeleteCDIStep (opt_CDI opts),
      CleanupCheckpointStep (opt_Checkpoints opts),
      NotifyResourcesUnprepareStep (opt_ResourcesNotifier opts),
      FinalUnprepareStep]"

definition NewService :: "('q, 'w) Options \<Rightarrow> prepare_error + ('q, 'w) Options" where
  "NewService opts =
     (if Option.is_none (opt_CDI opts) then Inl (ErrMsg ''CDI writer is required'')
      else if Option.is_none (opt_Locker opts) then Inl (ErrMsg ''prepare locker is required'')
      else if Option.is_none (opt_Checkpoints opts) then Inl (ErrMsg ''checkpoint store is required'')
      else Inr opts)"

definition unlock_world :: "('w \<Rightarrow> string option \<times> 'w) option \<Rightarrow> 'w \<Rightarrow> 'w" where
  "unlock_world unlock w = (case unlock of None \<Rightarrow> w | Some f \<Rightarrow> snd (f w))"

definition Prepare :: "('q, 'w) Options \<Rightarrow> 'q PrepareRequest \<Rightarrow> 'w \<Rightarrow> (prepare_error + PrepareResult) \<times> 'w" where
  "Prepare s req w =
     (if Option.is_none (opt_CDI s) then (Inl (ErrMsg ''CDI writer is not configured''), w)
      else
        (case Run (newPrepareSteps s) (NewPrepareState req) w of
           (r, st, w') \<Rightarrow>
             (case r of
                Inl err \<Rightarrow> Inl err
              | Inr _ \<Rightarrow> if pres_ClaimUID (ps_Result st) = [] then Inl (ErrMsg ''prepare completed without result'')
                         else Inr (ps_Result st),
              unlock_world (ps_Unlock st) w')))"

definition Unprepare :: "('q, 'w) Options \<Rightarrow> string \<Rightarrow> 'w \<Rightarrow> prepare_error option \<times> 'w" where
  "Unprepare s claimUID w =
     (if Option.is_none (opt_CDI s) then (Some (ErrMsg ''prepare service is not configured''), w)
      else
        (case Run (newUnprepareSteps s) (NewUnprepareState claimUID) w of
           (r, st, w') \<Rightarrow>
             (case r of Inl err \<Rightarrow> Some err | Inr _ \<Rightarrow> None, unlock_world (us_Unlock st) w')))"

end
