(* ===== verification/PrepareEffects.thy ===== *)
theory PrepareEffects
  imports PrepareService
begin

text \<open>
  What the steps of the two pipelines may do to the world and to the identity of the devices. A condition
  \<open>I\<close> on the world that every device port keeps is kept by every step that calls device ports, however its
  loop ends; the steps in the middle of the prepare pipeline never change which device, pool
  and request a device state belongs to.
\<close>

section \<open>Ports that keep a condition\<close>

definition keeps :: "('w \<Rightarrow> bool) \<Rightarrow> ('w \<Rightarrow> 'r \<times> 'w) \<Rightarrow> bool" where
  "keeps I f \<longleftrightarrow> (\<forall>w r w'. I w \<longrightarrow> f w = (r, w') \<longrightarrow> I w')"

definition mig_keeps :: "('w \<Rightarrow> bool) \<Rightarrow> 'w MigManager option \<Rightarrow> bool" where
  "mig_keeps I mig \<longleftrightarrow>
     (\<forall>m. mig = Some m \<longrightarrow> (\<forall>r. keeps I (mig_Prepare m r)) \<and> (\<forall>s. keeps I (mig_Unprepare m s)))"

definition vfio_keeps :: "('w \<Rightarrow> bool) \<Rightarrow> 'w VfioManager option \<Rightarrow> bool" where
  "vfio_keeps I vfio \<longleftrightarrow>
     (\<forall>v. vfio = Some v \<longrightarrow> (\<forall>r. keeps I (vfio_Prepare v r)) \<and> (\<forall>s. keeps I (vfio_Unprepare v s)))"

definition checker_keeps :: "('w \<Rightarrow> bool) \<Rightarrow> 'w GPUProcessChecker option \<Rightarrow> bool" where
  "checker_keeps I checker \<longleftrightarrow> (\<forall>c. checker = Some c \<longrightarrow> (\<forall>p. keeps I (gc_EnsureGPUFree c p)))"

definition ts_keeps :: "('w \<Rightarrow> bool) \<Rightarrow> 'w TimeSlicingManager option \<Rightarrow> bool" where
  "ts_keeps I ts \<longleftrightarrow> (\<forall>t. ts = Some t \<longrightarrow> (\<forall>us c. keeps I (ts_SetTimeSlice t us c)))"

definition mps_keeps :: "('w \<Rightarrow> bool) \<Rightarrow> ('q, 'w) MpsManager option \<Rightarrow> bool" where
  "mps_keeps I mps \<longleftrightarrow>
     (\<forall>m. mps = Some m \<longrightarrow> (\<forall>r. keeps I (mps_Start m r)) \<and> (\<forall>s. keeps I (mps_Stop m s)))"

definition cdi_keeps :: "('w \<Rightarrow> bool) \<Rightarrow> ('q, 'w) CDIWriter option \<Rightarrow> bool" where
  "cdi_keeps I cdi \<longleftrightarrow>
     (\<forall>c. cdi = Some c \<longrightarrow> (\<forall>r. keeps I (cdi_Write c r)) \<and> (\<forall>u. keeps I (cdi_Delete c u)))"

definition notifier_keeps :: "('w \<Rightarrow> bool) \<Rightarrow> 'w ResourcesChangeNotifier option \<Rightarrow> bool" where
  "notifier_keeps I nt \<longleftrightarrow> (\<forall>n w. nt = Some n \<longrightarrow> I w \<longrightarrow> I (nt_Notify n w))"

definition ports_keep :: "('w \<Rightarrow> bool) \<Rightarrow> ('q, 'w) Options \<Rightarrow> bool" where
  "ports_keep I opts \<longleftrightarrow>
     mig_keeps I (opt_MIG opts) \<and> vfio_keeps I (opt_VFIO opts) \<and> checker_keeps I (opt_GPUChecker opts) \<and>
     ts_keeps I (opt_TimeSlicing opts) \<and> mps_keeps I (opt_Mps opts) \<and> cdi_keeps I (opt_CDI opts) \<and>
     notifier_keeps I (opt_ResourcesNotifier opts)"

definition locker_keeps :: "('w \<Rightarrow> bool) \<Rightarrow> 'w PrepareLocker option \<Rightarrow> bool" where
  "locker_keeps I locker \<longleftrightarrow>
     (\<forall>l. locker = Some l \<longrightarrow> keeps I (lk_Lock l) \<and> (\<forall>w u w'. lk_Lock l w = (Inr u, w') \<longrightarrow> keeps I u))"

lemma keepsD: "keeps I f \<Longrightarrow> I w \<Longrightarrow> f w = (r, w') \<Longrightarrow> I w'"
  by (simp add: keeps_def)

lemma lock_keeps: "locker_keeps I lo \<Longrightarrow> lo = Some l \<Longrightarrow> lk_Lock l w = (r, w') \<Longrightarrow> I w \<Longrightarrow> I w'"
  unfolding locker_keeps_def keeps_def by blast

lemma unlock_keeps: "locker_keeps I lo \<Longrightarrow> lo = Some l \<Longrightarrow> lk_Lock l w = (Inr u, w') \<Longrightarrow> I w1 \<Longrightarrow> I (snd (u w1))"
  unfolding locker_keeps_def keeps_def by (metis prod.collapse)

lemmas keeps_defs = mig_keeps_def vfio_keeps_def checker_keeps_def ts_keeps_def mps_keeps_def cdi_keeps_def
  notifier_keeps_def

section \<open>Effects of the loops\<close>

lemma free_loop_keeps:
  "\<forall>q. keeps I (gc_EnsureGPUFree c q) \<Longrightarrow> I w \<Longrightarrow> free_loop c devs seen w = (r, w') \<Longrightarrow> I w'"
  by (induction devs arbitrary: seen w)
     (clarsimp simp: Let_def keeps_def split: if_splits prod.splits option.splits; metis)+

lemma mig_loop_keeps:
  "\<forall>q. keeps I (mig_Prepare m q) \<Longrightarrow> I w \<Longrightarrow> mig_loop m i ds st w = (r, st', w') \<Longrightarrow> I w'"
  by (induction ds arbitrary: i st w)
     (clarsimp simp: Let_def keeps_def split: if_splits prod.splits sum.splits option.splits; metis)+

lemma vfio_loop_keeps:
  "\<forall>q. keeps I (vfio_Prepare v q) \<Longrightarrow> I w \<Longrightarrow> vfio_loop v i ds st w = (r, st', w') \<Longrightarrow> I w'"
  by (induction ds arbitrary: i st w)
     (clarsimp simp: Let_def keeps_def split: if_splits prod.splits sum.splits option.splits; metis)+

lemma ts_apply_keeps:
  "\<forall>us q. keeps I (ts_SetTimeSlice t us q) \<Longrightarrow> I w \<Longrightarrow> ts_apply t gs st w = (r, st', w') \<Longrightarrow> I w'"
  by (induction gs arbitrary: st w)
     (clarsimp simp: Let_def keeps_def split: prod.splits option.splits; metis)+

lemma mps_apply_keeps:
  "\<forall>q. keeps I (mps_Start m q) \<Longrightarrow> I w \<Longrightarrow> mps_apply sha m gs st w = (r, st', w') \<Longrightarrow> I w'"
proof (induction gs arbitrary: st w)
  case (Cons g gs)
  have "I w1" if "mps_Start m q w = (x, w1)" for q x w1
    using Cons.prems(1,2) that by (auto simp: keeps_def)
  with Cons.prems(3) show ?case
    by (auto simp: Let_def split: prod.splits sum.splits dest!: Cons.IH[OF Cons.prems(1), rotated])
qed simp

lemma mps_stop_loop_keeps:
  "\<forall>q. keeps I (mps_Stop m q) \<Longrightarrow> I w \<Longrightarrow> mps_stop_loop m ss st w = (r, st', w') \<Longrightarrow> I w'"
  by (induction ss arbitrary: st w)
     (clarsimp simp: Let_def keeps_def split: prod.splits option.splits; metis)+

lemma mig_unprepare_loop_keeps:
  "\<forall>q. keeps I (mig_Unprepare m q) \<Longrightarrow> I w \<Longrightarrow> mig_unprepare_loop m ds st w = (r, st', w') \<Longrightarrow> I w'"
  by (induction ds arbitrary: st w)
     (clarsimp simp: Let_def keeps_def split: prod.splits option.splits; metis)+

lemma vfio_unprepare_loop_keeps:
  "\<forall>q. keeps I (vfio_Unprepare v q) \<Longrightarrow> I w \<Longrightarrow> vfio_unprepare_loop v ds st w = (r, st', w') \<Longrightarrow> I w'"
  by (induction ds arbitrary: st w)
     (clarsimp simp: Let_def keeps_def split: prod.splits option.splits; metis)+

lemmas loop_keeps = free_loop_keeps mig_loop_keeps vfio_loop_keeps ts_apply_keeps mps_apply_keeps
  mps_stop_loop_keeps mig_unprepare_loop_keeps vfio_unprepare_loop_keeps

section \<open>What the middle of the pipeline leaves alone\<close>

definition state_id :: "PreparedDeviceState \<Rightarrow> string \<times> string \<times> string" where
  "state_id d = (dvs_Request d, dvs_Pool d, dvs_Device d)"

definition device_id :: "'q PrepareDevice \<Rightarrow> string \<times> string \<times> string" where
  "device_id d = (pd_Request d, pd_Pool d, pd_Device d)"

text \<open>
  A device state grows if it keeps its identity and loses neither its MIG instance nor its VFIO binding; a
  step keeps the frame if it only lets device states grow and touches nothing but the mutable request and
  the mark for changed resources.
\<close>

definition grows :: "PreparedDeviceState \<Rightarrow> PreparedDeviceState \<Rightarrow> bool" where
  "grows a b \<longleftrightarrow> state_id b = state_id a \<and> (dvs_MIG a \<noteq> None \<longrightarrow> dvs_MIG b \<noteq> None) \<and>
     (dvs_VFIO a \<noteq> None \<longrightarrow> dvs_VFIO b \<noteq> None)"

definition frame :: "('q, 'w) PrepareState \<Rightarrow> ('q, 'w) PrepareState \<Rightarrow> bool" where
  "frame st st' \<longleftrightarrow>
     ps_Request st' = ps_Request st \<and> ps_Checkpoint st' = ps_Checkpoint st \<and> ps_Claim st' = ps_Claim st \<and>
     ps_Unlock st' = ps_Unlock st \<and> ps_Result st' = ps_Result st \<and> ps_DeviceMap st' = ps_DeviceMap st \<and>
     list_all2 grows (ps_DeviceStates st) (ps_DeviceStates st')"

lemma grows_refl [simp]: "grows a a"
  by (simp add: grows_def)

lemma list_all2_grows_refl [simp]: "list_all2 grows xs xs"
  by (simp add: list_all2_same)

lemma grows_trans: "grows a b \<Longrightarrow> grows b c \<Longrightarrow> grows a c"
  by (simp add: grows_def)

lemma frame_refl [simp]: "frame st st"
  by (simp add: frame_def)

lemma frame_trans: "frame st st1 \<Longrightarrow> frame st1 st2 \<Longrightarrow> frame st st2"
  by (auto simp: frame_def intro: list_all2_trans[of grows grows grows, OF grows_trans])

lemma list_all2_update: "grows (xs ! i) y \<Longrightarrow> list_all2 grows xs (xs[i := y])"
  by (cases "i < length xs") (auto simp: list_all2_conv_all_nth nth_list_update list_update_beyond)

lemma frame_ids: "frame st st' \<Longrightarrow> map state_id (ps_DeviceStates st') = map state_id (ps_DeviceStates st)"
  by (auto simp: frame_def grows_def list_all2_conv_all_nth intro: nth_equalityI)

lemma frame_applyMigUUID [simp]: "frame st (applyMigUUID st n u)"
  by (simp add: frame_def applyMigUUID_def)

lemma frame_mutable [simp]: "frame st (ps_MutableRequest_update f st)"
  by (simp add: frame_def)

lemma frame_changed [simp]: "frame st (ps_ResourcesChanged_update f st)"
  by (simp add: frame_def)

lemma frame_applySharingState [simp]: "frame st (applySharingState i sh st)"
  by (simp add: applySharingState_def frame_def list_all2_update grows_def state_id_def)

lemma frame_foldl: "(\<And>st x. frame st (f st x)) \<Longrightarrow> frame st (foldl f st xs)"
  by (induction xs arbitrary: st) (auto intro: frame_trans)

lemma frame_sharing_fold: "frame st0 st \<Longrightarrow> frame st0 (foldl (\<lambda>st idx. applySharingState idx (f idx) st) st xs)"
  by (rule frame_trans, assumption, rule frame_foldl, rule frame_applySharingState)

lemma frame_mig_state:
  "frame st (st\<lparr> ps_DeviceStates := (ps_DeviceStates st)[i := (ps_DeviceStates st ! i)\<lparr> dvs_MIG := Some g \<rparr>], ps_ResourcesChanged := b \<rparr>)"
  by (simp add: frame_def list_all2_update grows_def state_id_def)

lemma frame_vfio_state:
  "frame st (st\<lparr> ps_DeviceStates := (ps_DeviceStates st)[i := (ps_DeviceStates st ! i)\<lparr> dvs_VFIO := Some g \<rparr>], ps_ResourcesChanged := b \<rparr>)"
  by (simp add: frame_def list_all2_update grows_def state_id_def)

lemma mig_loop_frame: "mig_loop m i ds st w = (r, st', w') \<Longrightarrow> frame st st'"
proof (induction ds arbitrary: i st w)
  case (Cons d ds)
  from Cons.prems show ?case
    by (auto simp: Let_def split: if_splits prod.splits sum.splits option.splits
        intro: Cons.IH frame_trans[OF frame_applyMigUUID Cons.IH]
          frame_trans[OF frame_trans[OF frame_mig_state frame_applyMigUUID] Cons.IH])
qed simp

lemma vfio_loop_frame: "vfio_loop v i ds st w = (r, st', w') \<Longrightarrow> frame st st'"
proof (induction ds arbitrary: i st w)
  case (Cons d ds)
  from Cons.prems show ?case
    by (auto simp: Let_def split: if_splits prod.splits sum.splits option.splits
        intro: Cons.IH frame_trans[OF frame_vfio_state Cons.IH])
qed simp

lemma ts_apply_frame: "ts_apply t gs st w = (r, st', w') \<Longrightarrow> frame st st'"
proof (induction gs arbitrary: st w)
  case (Cons g gs)
  from Cons.prems show ?case
    by (auto split: prod.splits option.splits intro: frame_trans[OF frame_sharing_fold[OF frame_refl] Cons.IH])
qed simp

lemma mps_apply_frame: "mps_apply sha m gs st w = (r, st', w') \<Longrightarrow> frame st st'"
proof (induction gs arbitrary: st w)
  case (Cons g gs)
  from Cons.prems show ?case
    by (auto simp: Let_def split: prod.splits sum.splits
        intro: frame_trans[OF frame_sharing_fold[OF frame_mutable] Cons.IH])
qed simp

lemma loop_stepD: "loop_step f st w = (r, st', w') \<Longrightarrow> \<exists>e. f st w = (e, st', w')"
  by (auto simp: loop_step_def split: prod.splits option.splits)

text \<open>The five steps between planning and CDI that change devices: what they keep of state and world.\<close>

lemma device_steps_frame:
  "MigPrepareStep mig st w = (r, st', w') \<Longrightarrow> frame st st'"
  "VfioPrepareStep vfio st w = (r, st', w') \<Longrightarrow> frame st st'"
  "TimeSlicingPrepareStep ord ts st w = (r, st', w') \<Longrightarrow> frame st st'"
  "MpsPrepareStep marshal sha ord mps st w = (r, st', w') \<Longrightarrow> frame st st'"
  "GPUFreeCheckStep checker st w = (r, st', w') \<Longrightarrow> frame st st'"
  by (auto simp: MigPrepareStep_def VfioPrepareStep_def TimeSlicingPrepareStep_def MpsPrepareStep_def
        GPUFreeCheckStep_def
      split: option.splits if_splits sum.splits prod.splits
      dest!: loop_stepD mig_loop_frame vfio_loop_frame ts_apply_frame mps_apply_frame)

lemma device_steps_result:
  "MigPrepareStep mig st w = (r, st', w') \<Longrightarrow> r \<noteq> Inr (Some x)"
  "VfioPrepareStep vfio st w = (r, st', w') \<Longrightarrow> r \<noteq> Inr (Some x)"
  "TimeSlicingPrepareStep ord ts st w = (r, st', w') \<Longrightarrow> r \<noteq> Inr (Some x)"
  "MpsPrepareStep marshal sha ord mps st w = (r, st', w') \<Longrightarrow> r \<noteq> Inr (Some x)"
  "GPUFreeCheckStep checker st w = (r, st', w') \<Longrightarrow> r \<noteq> Inr (Some x)"
  by (auto simp: MigPrepareStep_def VfioPrepareStep_def TimeSlicingPrepareStep_def MpsPrepareStep_def
        GPUFreeCheckStep_def loop_step_def
      split: option.splits if_splits sum.splits prod.splits)

lemma device_steps_keep:
  "mig_keeps I mig \<Longrightarrow> I w \<Longrightarrow> MigPrepareStep mig st w = (r, st', w') \<Longrightarrow> I w'"
  "vfio_keeps I vfio \<Longrightarrow> I w \<Longrightarrow> VfioPrepareStep vfio st w = (r, st', w') \<Longrightarrow> I w'"
  "ts_keeps I ts \<Longrightarrow> I w \<Longrightarrow> TimeSlicingPrepareStep ord ts st w = (r, st', w') \<Longrightarrow> I w'"
  "mps_keeps I mps \<Longrightarrow> I w \<Longrightarrow> MpsPrepareStep marshal sha ord mps st w = (r, st', w') \<Longrightarrow> I w'"
  "checker_keeps I checker \<Longrightarrow> I w \<Longrightarrow> GPUFreeCheckStep checker st w = (r, st', w') \<Longrightarrow> I w'"
  by (auto simp: keeps_defs MigPrepareStep_def VfioPrepareStep_def TimeSlicingPrepareStep_def
        MpsPrepareStep_def GPUFreeCheckStep_def
      split: option.splits if_splits sum.splits prod.splits
      dest!: loop_stepD dest: loop_keeps)

section \<open>Plan, MIG instances and VFIO bindings\<close>

definition device_map :: "'q PrepareDevice list \<Rightarrow> (string, 'q PrepareDevice) gomap" where
  "device_map devs = foldl (\<lambda>m dev. mput (pd_Device dev) dev m) [] devs"

lemma mget_index:
  "mget (foldl (\<lambda>m x. mput (f x) x m) m xs) n = Some x \<Longrightarrow> x \<in> set xs \<and> f x = n \<or> mget m n = Some x"
proof (induction xs arbitrary: m)
  case (Cons y ys)
  from Cons.IH[of "mput (f y) y m"] Cons.prems show ?case
    by (auto split: if_splits)
qed simp

lemma known_states_device: "mget (known_states claim) n = Some item \<Longrightarrow> dvs_Device item = n"
  unfolding known_states_def by (drule mget_index) simp

lemma state_id_plan: "state_id (plan_state (known_states claim) dev) = device_id dev"
  by (auto simp: plan_state_def state_id_def device_id_def split: option.split dest: known_states_device)

lemma plan_loop_plan:
  assumes "plan_loop vf hm hv (known_states claim) devs dm mu pr = (None, dm', mu', pr')"
  shows "dm' = foldl (\<lambda>m dev. mput (pd_Device dev) dev m) dm devs \<and>
         map state_id pr' = map state_id pr @ map device_id devs \<and>
         (\<forall>dev \<in> set devs. plan_error vf hm hv dev = None)"
  using assms
  by (induction devs arbitrary: dm mu pr) (auto simp: Let_def state_id_plan split: option.splits)

lemma device_map_member: "mget (device_map devs) n = Some dev \<Longrightarrow> dev \<in> set devs \<and> pd_Device dev = n"
  unfolding device_map_def by (drule mget_index) simp

lemma PlanPrepareStep_plan:
  assumes "PlanPrepareStep mig vfio st w = (Inr None, st', w')"
  shows "ps_Request st' = ps_Request st \<and> ps_Checkpoint st' = ps_Checkpoint st \<and> ps_Unlock st' = ps_Unlock st \<and>
         w' = w \<and> ps_DeviceMap st' = device_map (pr_Devices (ps_Request st)) \<and>
         map state_id (ps_DeviceStates st') = map device_id (pr_Devices (ps_Request st)) \<and>
         (\<forall>dev \<in> set (pr_Devices (ps_Request st)).
            plan_error (pr_VFIO (ps_Request st)) (mig \<noteq> None) (vfio \<noteq> None) dev = None)"
  using assms
  by (auto simp: PlanPrepareStep_def device_map_def Option.is_none_def dest!: plan_loop_plan split: option.splits prod.splits)

text \<open>
  \<open>mig_done\<close> and \<open>vfio_done\<close>: the device states whose device is a MIG device, or a physical one, carry the
  result of the port that was called for them.
\<close>

definition mig_done :: "(string, 'q PrepareDevice) gomap \<Rightarrow> PreparedDeviceState \<Rightarrow> bool" where
  "mig_done dm s \<longleftrightarrow>
     (case mget dm (dvs_Device s) of None \<Rightarrow> False | Some dev \<Rightarrow> IsMigDevice (device_type dev) \<longrightarrow> dvs_MIG s \<noteq> None)"

definition vfio_done :: "(string, 'q PrepareDevice) gomap \<Rightarrow> PreparedDeviceState \<Rightarrow> bool" where
  "vfio_done dm s \<longleftrightarrow>
     (case mget dm (dvs_Device s) of None \<Rightarrow> False | Some dev \<Rightarrow> IsPhysicalDevice (device_type dev) \<longrightarrow> dvs_VFIO s \<noteq> None)"

lemma grows_done: "grows a b \<Longrightarrow> mig_done dm a \<Longrightarrow> mig_done dm b" "grows a b \<Longrightarrow> vfio_done dm a \<Longrightarrow> vfio_done dm b"
  by (auto simp: grows_def state_id_def mig_done_def vfio_done_def split: option.splits)

lemma frame_done:
  assumes "frame st st'"
  shows "list_all (mig_done dm) (ps_DeviceStates st) \<Longrightarrow> list_all (mig_done dm) (ps_DeviceStates st')"
    "list_all (vfio_done dm) (ps_DeviceStates st) \<Longrightarrow> list_all (vfio_done dm) (ps_DeviceStates st')"
  using assms grows_done by (fastforce simp: frame_def list_all_length list_all2_conv_all_nth)+

lemma drop_update_Suc: "drop (Suc i) (xs[i := y]) = drop (Suc i) xs"
  by (simp add: drop_update_cancel)

lemma done_from:
  assumes "frame st1 st'" and "i < length (ps_DeviceStates st1)"
    and "\<And>a b. grows a b \<Longrightarrow> P a \<Longrightarrow> P b" and "P (ps_DeviceStates st1 ! i)"
    and "list_all P (drop (Suc i) (ps_DeviceStates st'))"
  shows "list_all P (drop i (ps_DeviceStates st'))"
proof -
  have "i < length (ps_DeviceStates st')" and "grows (ps_DeviceStates st1 ! i) (ps_DeviceStates st' ! i)"
    using assms(1,2) by (auto simp: frame_def list_all2_conv_all_nth)
  then show ?thesis
    using assms(3-5) by (simp flip: Cons_nth_drop_Suc)
qed

lemma states_applyMigUUID [simp]:
  "ps_DeviceStates (applyMigUUID st n u) = ps_DeviceStates st" "ps_DeviceMap (applyMigUUID st n u) = ps_DeviceMap st"
  by (simp_all add: applyMigUUID_def)

lemma drop_Cons_nth: "d # ds = drop i xs \<Longrightarrow> i < length xs \<and> xs ! i = d \<and> ds = drop (Suc i) xs"
  by (metis Cons_nth_drop_Suc drop_all leI list.inject list.simps(3))

lemma mig_loop_done:
  assumes "mig_loop m i ds st w = (None, st', w')" and "ds = drop i (ps_DeviceStates st)"
  shows "list_all (mig_done (ps_DeviceMap st)) (drop i (ps_DeviceStates st'))"
  using assms
proof (induction ds arbitrary: i st w)
  case (Cons d ds)
  note at = drop_Cons_nth[OF Cons.prems(2)]
  from Cons.prems(1) obtain st1 w1 where run: "mig_loop m (Suc i) ds st1 w1 = (None, st', w')"
    and same: "ps_DeviceMap st1 = ps_DeviceMap st" "length (ps_DeviceStates st1) = length (ps_DeviceStates st)"
      "drop (Suc i) (ps_DeviceStates st1) = drop (Suc i) (ps_DeviceStates st)"
    and this_done: "mig_done (ps_DeviceMap st) (ps_DeviceStates st1 ! i)"
    using at by (auto simp: Let_def mig_done_def drop_update_Suc split: option.splits if_splits sum.splits prod.splits)
  from Cons.IH[OF run] at same have "list_all (mig_done (ps_DeviceMap st)) (drop (Suc i) (ps_DeviceStates st'))"
    by simp
  with mig_loop_frame[OF run] _ grows_done(1) this_done show ?case
    by (rule done_from) (use at same in simp)
qed simp

lemma vfio_loop_done:
  assumes "vfio_loop v i ds st w = (None, st', w')" and "ds = drop i (ps_DeviceStates st)"
  shows "list_all (vfio_done (ps_DeviceMap st)) (drop i (ps_DeviceStates st'))"
  using assms
proof (induction ds arbitrary: i st w)
  case (Cons d ds)
  note at = drop_Cons_nth[OF Cons.prems(2)]
  from Cons.prems(1) obtain st1 w1 where run: "vfio_loop v (Suc i) ds st1 w1 = (None, st', w')"
    and same: "ps_DeviceMap st1 = ps_DeviceMap st" "length (ps_DeviceStates st1) = length (ps_DeviceStates st)"
      "drop (Suc i) (ps_DeviceStates st1) = drop (Suc i) (ps_DeviceStates st)"
    and this_done: "vfio_done (ps_DeviceMap st) (ps_DeviceStates st1 ! i)"
    using at by (auto simp: Let_def vfio_done_def drop_update_Suc split: option.splits if_splits sum.splits prod.splits)
  from Cons.IH[OF run] at same have "list_all (vfio_done (ps_DeviceMap st)) (drop (Suc i) (ps_DeviceStates st'))"
    by simp
  with vfio_loop_frame[OF run] _ grows_done(2) this_done show ?case
    by (rule done_from) (use at same in simp)
qed simp

lemma MigPrepareStep_done:
  "MigPrepareStep (Some m) st w = (Inr None, st', w') \<Longrightarrow> list_all (mig_done (ps_DeviceMap st)) (ps_DeviceStates st')"
  by (auto simp: MigPrepareStep_def loop_step_def split: prod.splits option.splits dest: mig_loop_done)

lemma VfioPrepareStep_done:
  "pr_VFIO (ps_Request st) \<Longrightarrow> VfioPrepareStep vfio st w = (Inr None, st', w') \<Longrightarrow>
     list_all (vfio_done (ps_DeviceMap st)) (ps_DeviceStates st')"
  by (auto simp: VfioPrepareStep_def loop_step_def split: prod.splits option.splits dest: vfio_loop_done)

section \<open>The lock is only taken once\<close>

lemma plain_steps_unlock:
  "ValidatePrepareStep st w = (r, st', w') \<Longrightarrow> ps_Unlock st' = ps_Unlock st"
  "LoadPrepareCheckpointStep store st w = (r, st', w') \<Longrightarrow> ps_Unlock st' = ps_Unlock st"
  "ShortCircuitPrepareStep st w = (r, st', w') \<Longrightarrow> ps_Unlock st' = ps_Unlock st"
  "PlanPrepareStep mig vfio st w = (r, st', w') \<Longrightarrow> ps_Unlock st' = ps_Unlock st"
  "SavePrepareStartedStep store st w = (r, st', w') \<Longrightarrow> ps_Unlock st' = ps_Unlock st"
  "SavePrepareCompletedStep store st w = (r, st', w') \<Longrightarrow> ps_Unlock st' = ps_Unlock st"
  "WriteCDIStep cdi st w = (r, st', w') \<Longrightarrow> ps_Unlock st' = ps_Unlock st"
  "NotifyResourcesPrepareStep nt st w = (r, st', w') \<Longrightarrow> ps_Unlock st' = ps_Unlock st"
  "FinalPrepareStep st w = (r, st', w') \<Longrightarrow> ps_Unlock st' = ps_Unlock st"
  by (auto simp: ValidatePrepareStep_def LoadPrepareCheckpointStep_def ShortCircuitPrepareStep_def
        PlanPrepareStep_def SavePrepareStartedStep_def SavePrepareCompletedStep_def save_claim_def
        WriteCDIStep_def NotifyResourcesPrepareStep_def FinalPrepareStep_def Let_def
      split: if_splits option.splits sum.splits prod.splits)

lemma frame_unlock: "frame st st' \<Longrightarrow> ps_Unlock st' = ps_Unlock st"
  by (simp add: frame_def)

lemmas prepare_steps_unlock = plain_steps_unlock device_steps_frame[THEN frame_unlock]

end
