(* ===== verification/PrepareSafety.thy ===== *)
theory PrepareSafety
  imports PrepareEffects
begin

text \<open>
  The prepare pipeline against the contract of a checkpoint store. The locale \<open>checkpoint_store\<close> states
  what the service relies on: loading returns what is stored and changes nothing, a successful save makes
  its argument the stored state, a failed one leaves the stored state alone. \<open>prepare_node\<close> adds a service
  whose other ports do not touch the store. The lemmas of this theory hold for every such node; the file
  store provides the contract.
\<close>

section \<open>The contract of the store\<close>

definition claims_of :: "PrepareCheckpoint \<Rightarrow> string \<Rightarrow> PreparedClaim option" where
  "claims_of cp uid = (case ck_Claims cp of None \<Rightarrow> None | Some m \<Rightarrow> mget m uid)"

locale checkpoint_store =
  fixes stored :: "'w \<Rightarrow> string \<Rightarrow> PreparedClaim option"
    and store :: "'w PrepareCheckpointStore"
  assumes load_ok: "st_Load store w = (Inr cp, w') \<Longrightarrow> claims_of cp = stored w \<and> stored w' = stored w"
    and load_err: "st_Load store w = (Inl e, w') \<Longrightarrow> stored w' = stored w"
    and save_ok: "st_Save store cp w = (None, w') \<Longrightarrow> stored w' = claims_of cp"
    and save_err: "st_Save store cp w = (Some e, w') \<Longrightarrow> stored w' = stored w"
begin

lemma checkpoint_Load_ok:
  assumes "checkpoint_Load store w = (Inr cp, w')"
  shows "claims_of cp = stored w \<and> stored w' = stored w \<and> ck_Claims cp \<noteq> None"
  using assms
  by (auto simp: checkpoint_Load_def claims_of_def fun_eq_iff split: prod.splits sum.splits option.splits
      dest!: load_ok)

lemma checkpoint_Load_err: "checkpoint_Load store w = (Inl e, w') \<Longrightarrow> stored w' = stored w"
  by (auto simp: checkpoint_Load_def split: prod.splits sum.splits dest: load_err)

end

locale prepare_node = checkpoint_store stored store
  for stored :: "'w \<Rightarrow> string \<Rightarrow> PreparedClaim option" and store :: "'w PrepareCheckpointStore" +
  fixes opts :: "('q, 'w) Options"
  assumes uses_store: "opt_Checkpoints opts = Some store"
    and ports_leave_store: "ports_keep (\<lambda>w. stored w = S) opts"
    and lock_leaves_store: "locker_keeps (\<lambda>w. stored w = S) (opt_Locker opts)"

section \<open>Conditions along the prepare pipeline\<close>

text \<open>
  \<open>S\<close> is the stored state before the call. \<open>prepare_done\<close> is the condition on success: the claim was
  completed before and nothing changed, or it is stored as completed now with one state per requested
  device, in order, each with its MIG instance and VFIO binding. \<open>prepare_failed\<close> is the condition on
  failure: nothing changed, or the claim, which was not completed, is stored as started.
\<close>

definition completed :: "(string \<Rightarrow> PreparedClaim option) \<Rightarrow> string \<Rightarrow> bool" where
  "completed S uid \<longleftrightarrow> (case S uid of None \<Rightarrow> False | Some c \<Rightarrow> cl_State c = PrepareStateCompleted)"

definition vfio_allowed :: "'q PrepareRequest \<Rightarrow> bool" where
  "vfio_allowed req \<longleftrightarrow>
     (pr_VFIO req \<longrightarrow> list_all (\<lambda>dev. IsPhysicalDevice (device_type dev) \<and> pd_ShareID dev = [] \<and> pd_ConsumedCapacity dev = [])
                               (pr_Devices req))"

definition materialised :: "'q PrepareRequest \<Rightarrow> PreparedDeviceState list \<Rightarrow> bool" where
  "materialised req states \<longleftrightarrow>
     map state_id states = map device_id (pr_Devices req) \<and> vfio_allowed req \<and>
     list_all (mig_done (device_map (pr_Devices req))) states \<and>
     (pr_VFIO req \<longrightarrow> list_all (\<lambda>s. dvs_VFIO s \<noteq> None) states)"

definition result_of :: "string \<Rightarrow> PreparedDeviceState list \<Rightarrow> PrepareResult" where
  "result_of uid states = \<lparr> pres_ClaimUID = uid, pres_Devices = map prepared_device states \<rparr>"

definition prepare_done ::
  "(string \<Rightarrow> PreparedClaim option) \<Rightarrow> 'q PrepareRequest \<Rightarrow> PrepareResult \<Rightarrow> (string \<Rightarrow> PreparedClaim option) \<Rightarrow> bool" where
  "prepare_done S req res S' \<longleftrightarrow>
     (\<exists>states. res = result_of (pr_ClaimUID req) states \<and>
        (if completed S (pr_ClaimUID req)
         then S' = S \<and> S (pr_ClaimUID req) = Some \<lparr> cl_State = PrepareStateCompleted, cl_Devices = states \<rparr>
              \<and> list_all (\<lambda>d. dvs_CDIDeviceIDs d \<noteq> []) states
         else S' = S(pr_ClaimUID req \<mapsto> \<lparr> cl_State = PrepareStateCompleted, cl_Devices = states \<rparr>)
              \<and> materialised req states))"

definition prepare_failed ::
  "(string \<Rightarrow> PreparedClaim option) \<Rightarrow> 'q PrepareRequest \<Rightarrow> (string \<Rightarrow> PreparedClaim option) \<Rightarrow> bool" where
  "prepare_failed S req S' \<longleftrightarrow>
     S' = S \<or>
     \<not> completed S (pr_ClaimUID req) \<and>
       (\<exists>states. map state_id states = map device_id (pr_Devices req) \<and>
          S' = S(pr_ClaimUID req \<mapsto> \<lparr> cl_State = PrepareStateStarted, cl_Devices = states \<rparr>))"

lemma PreparedResultFromClaim_ok:
  assumes "PreparedResultFromClaim uid claim = Inr res"
  shows "cl_State claim = PrepareStateCompleted \<and> res = result_of uid (cl_Devices claim) \<and>
         list_all (\<lambda>d. dvs_CDIDeviceIDs d \<noteq> []) (cl_Devices claim)"
proof -
  have "map_res (\<lambda>dev. if dvs_CDIDeviceIDs dev = [] then Inl (ErrDevice m (dvs_Device dev)) else Inr (prepared_device dev)) ds
      = Inr ys \<Longrightarrow> ys = map prepared_device ds \<and> list_all (\<lambda>d. dvs_CDIDeviceIDs d \<noteq> []) ds" for m ds ys
    by (induction ds arbitrary: ys) (auto split: sum.splits if_splits)
  with assms show ?thesis
    unfolding PreparedResultFromClaim_def result_of_def by (auto split: if_splits sum.splits)
qed

lemma PreparedResultFromClaim_completed:
  assumes "list_all (\<lambda>d. dvs_CDIDeviceIDs d \<noteq> []) states"
  shows "PreparedResultFromClaim uid \<lparr> cl_State = PrepareStateCompleted, cl_Devices = states \<rparr> = Inr (result_of uid states)"
proof -
  have "map_res (\<lambda>dev. if dvs_CDIDeviceIDs dev = [] then Inl (ErrDevice m (dvs_Device dev)) else Inr (prepared_device dev)) states
      = Inr (map prepared_device states)" for m
    using assms by (intro map_res_total) (auto simp: list_all_iff)
  then show ?thesis
    by (simp add: PreparedResultFromClaim_def result_of_def)
qed

lemma cdi_loop_ok:
  "cdi_loop ids ds = (Inr rs, ds') \<Longrightarrow> rs = map prepared_device ds' \<and> list_all2 grows ds ds'"
  by (induction ds arbitrary: rs ds') (auto simp: Let_def grows_def state_id_def split: option.splits prod.splits sum.splits)

text \<open>The conditions between the steps, from the start to the completed checkpoint.\<close>

definition at_start where
  "at_start stored S req st w \<longleftrightarrow> ps_Request st = req \<and> ps_Claim st = no_claim \<and> stored w = S"

definition at_valid where
  "at_valid stored S req st w \<longleftrightarrow> at_start stored S req st w \<and> pr_ClaimUID req \<noteq> []"

definition at_loaded where
  "at_loaded stored S req st w \<longleftrightarrow>
     ps_Request st = req \<and> pr_ClaimUID req \<noteq> [] \<and> stored w = S \<and>
     ck_Claims (ps_Checkpoint st) \<noteq> None \<and> claims_of (ps_Checkpoint st) = S \<and>
     ps_Claim st = (case S (pr_ClaimUID req) of None \<Rightarrow> no_claim | Some c \<Rightarrow> c)"

definition at_fresh where
  "at_fresh stored S req st w \<longleftrightarrow>
     ps_Request st = req \<and> pr_ClaimUID req \<noteq> [] \<and> stored w = S \<and>
     ck_Claims (ps_Checkpoint st) \<noteq> None \<and> claims_of (ps_Checkpoint st) = S \<and> \<not> completed S (pr_ClaimUID req)"

definition planned :: "('q, 'w) Options \<Rightarrow> 'q PrepareRequest \<Rightarrow> ('q, 'w) PrepareState \<Rightarrow> bool" where
  "planned opts req st \<longleftrightarrow>
     ps_DeviceMap st = device_map (pr_Devices req) \<and> vfio_allowed req \<and>
     map state_id (ps_DeviceStates st) = map device_id (pr_Devices req) \<and>
     (opt_MIG opts = None \<longrightarrow> list_all (\<lambda>dev. \<not> IsMigDevice (device_type dev)) (pr_Devices req))"

definition at_planned where
  "at_planned opts stored S req st w \<longleftrightarrow> at_fresh stored S req st w \<and> planned opts req st"

definition at_started where
  "at_started opts stored S req st w \<longleftrightarrow>
     ps_Request st = req \<and> pr_ClaimUID req \<noteq> [] \<and> \<not> completed S (pr_ClaimUID req) \<and> planned opts req st \<and>
     ck_Claims (ps_Checkpoint st) \<noteq> None \<and> claims_of (ps_Checkpoint st) = stored w \<and>
     (\<exists>states. map state_id states = map device_id (pr_Devices req) \<and>
        stored w = S(pr_ClaimUID req \<mapsto> \<lparr> cl_State = PrepareStateStarted, cl_Devices = states \<rparr>))"

definition at_mig where
  "at_mig opts stored S req st w \<longleftrightarrow>
     at_started opts stored S req st w \<and> list_all (mig_done (ps_DeviceMap st)) (ps_DeviceStates st)"

definition at_vfio where
  "at_vfio opts stored S req st w \<longleftrightarrow>
     at_mig opts stored S req st w \<and> (pr_VFIO req \<longrightarrow> list_all (vfio_done (ps_DeviceMap st)) (ps_DeviceStates st))"

definition at_written where
  "at_written opts stored S req st w \<longleftrightarrow>
     at_vfio opts stored S req st w \<and> ps_Result st = result_of (pr_ClaimUID req) (ps_DeviceStates st)"

definition at_end where
  "at_end stored S req st w \<longleftrightarrow> pr_ClaimUID req \<noteq> [] \<and> prepare_done S req (ps_Result st) (stored w)"

definition at_failure where
  "at_failure stored S req st w \<longleftrightarrow> prepare_failed S req (stored w)"

lemmas stage_defs = at_start_def at_valid_def at_loaded_def at_fresh_def at_planned_def at_started_def
  at_mig_def at_vfio_def at_written_def at_end_def at_failure_def

lemma device_map_covers:
  assumes "dev \<in> set devs"
  shows "\<exists>dev'. mget (device_map devs) (pd_Device dev) = Some dev'"
proof -
  have "mget m n \<noteq> None \<or> (\<exists>d \<in> set ds. pd_Device d = n) \<Longrightarrow>
      mget (foldl (\<lambda>m dev. mput (pd_Device dev) dev m) m ds) n \<noteq> None" for m n and ds :: "'a PrepareDevice list"
    by (induction ds arbitrary: m) auto
  with assms show ?thesis unfolding device_map_def by blast
qed

lemma planned_device:
  assumes "planned opts req st" and "s \<in> set (ps_DeviceStates st)"
  obtains dev where "mget (ps_DeviceMap st) (dvs_Device s) = Some dev" and "dev \<in> set (pr_Devices req)"
proof -
  from assms have "state_id s \<in> device_id ` set (pr_Devices req)"
    unfolding planned_def by (metis image_eqI list.set_map)
  then obtain d where "d \<in> set (pr_Devices req)" "pd_Device d = dvs_Device s"
    by (auto simp: state_id_def device_id_def)
  with device_map_covers[of d "pr_Devices req"] assms(1) obtain dev
    where "mget (ps_DeviceMap st) (dvs_Device s) = Some dev"
    by (auto simp: planned_def)
  moreover from this assms(1) have "dev \<in> set (pr_Devices req)"
    by (auto simp: planned_def dest: device_map_member)
  ultimately show ?thesis by (rule that)
qed

lemma vfio_done_bound:
  assumes "planned opts req st" "pr_VFIO req" "list_all (vfio_done (ps_DeviceMap st)) (ps_DeviceStates st)"
  shows "list_all (\<lambda>s. dvs_VFIO s \<noteq> None) (ps_DeviceStates st)"
  unfolding list_all_iff
proof
  fix s assume s: "s \<in> set (ps_DeviceStates st)"
  from planned_device[OF assms(1) s] obtain dev
    where dev: "mget (ps_DeviceMap st) (dvs_Device s) = Some dev" "dev \<in> set (pr_Devices req)" .
  moreover have "IsPhysicalDevice (device_type dev)"
    using assms(1,2) dev(2) by (auto simp: planned_def vfio_allowed_def list_all_iff)
  ultimately show "dvs_VFIO s \<noteq> None"
    using assms(3) s by (auto simp: vfio_done_def list_all_iff)
qed

lemma at_vfio_materialised: "at_vfio opts stored S req st w \<Longrightarrow> materialised req (ps_DeviceStates st)"
  using vfio_done_bound[of opts req st]
  by (auto simp: at_vfio_def at_mig_def at_started_def materialised_def planned_def)

lemma planned_frame: "planned opts req st \<Longrightarrow> frame st st' \<Longrightarrow> planned opts req st'"
  using frame_ids[of st st'] by (auto simp: planned_def frame_def)

lemma at_started_frame:
  "at_started opts stored S req st w \<Longrightarrow> frame st st' \<Longrightarrow> stored w' = stored w \<Longrightarrow> at_started opts stored S req st' w'"
  using planned_frame[of opts req st st'] by (auto simp: at_started_def frame_def)

lemma at_mig_frame:
  "at_mig opts stored S req st w \<Longrightarrow> frame st st' \<Longrightarrow> stored w' = stored w \<Longrightarrow> at_mig opts stored S req st' w'"
  using at_started_frame frame_done(1) unfolding at_mig_def by (metis frame_def)

lemma at_vfio_frame:
  "at_vfio opts stored S req st w \<Longrightarrow> frame st st' \<Longrightarrow> stored w' = stored w \<Longrightarrow> at_vfio opts stored S req st' w'"
  using at_mig_frame frame_done(2) unfolding at_vfio_def by (metis frame_def)

lemma at_started_failure: "at_started opts stored S req st w \<Longrightarrow> at_failure stored S req st' w"
  by (auto simp: at_started_def at_failure_def prepare_failed_def)

lemma no_mig_done:
  assumes "planned opts req st" "opt_MIG opts = None"
  shows "list_all (mig_done (ps_DeviceMap st)) (ps_DeviceStates st)"
  unfolding list_all_iff
proof
  fix s assume s: "s \<in> set (ps_DeviceStates st)"
  from planned_device[OF assms(1) s] obtain dev
    where dev: "mget (ps_DeviceMap st) (dvs_Device s) = Some dev" "dev \<in> set (pr_Devices req)" .
  then show "mig_done (ps_DeviceMap st) s"
    using assms by (auto simp: planned_def mig_done_def list_all_iff)
qed

section \<open>The prepare pipeline\<close>

context prepare_node
begin

lemma unchanged_failure: "stored w = S \<Longrightarrow> at_failure stored S req st w"
  by (simp add: at_failure_def prepare_failed_def)

lemma validate_step: "step_valid (at_start stored S req) ValidatePrepareStep (at_valid stored S req) R (at_failure stored S req)"
  by (rule step_validI) (auto simp: ValidatePrepareStep_def at_start_def at_valid_def unchanged_failure split: if_splits)

lemma lock_stored: "opt_Locker opts = Some l \<Longrightarrow> lk_Lock l w = (r, w') \<Longrightarrow> stored w' = stored w"
  using lock_keeps[OF lock_leaves_store[of "stored w"]] by blast

lemma unlock_stored: "opt_Locker opts = Some l \<Longrightarrow> lk_Lock l w = (Inr u, w') \<Longrightarrow> stored (snd (u w1)) = stored w1"
  using unlock_keeps[OF lock_leaves_store[of "stored w1"]] by blast

lemma lock_step:
  "step_valid (at_valid stored S req) (LockPrepareStep (opt_Locker opts)) (at_valid stored S req) R (at_failure stored S req)"
proof (rule step_validI, goal_cases)
  case (1 st w r st' w')
  then have "stored w' = stored w"
    by (auto simp: LockPrepareStep_def split: option.splits prod.splits sum.splits dest: lock_stored)
  with 1 show ?case
    by (auto simp: LockPrepareStep_def at_valid_def at_start_def unchanged_failure
        split: option.splits prod.splits sum.splits)
qed

lemma load_step:
  "step_valid (at_valid stored S req) (LoadPrepareCheckpointStep (opt_Checkpoints opts)) (at_loaded stored S req) R
     (at_failure stored S req)"
proof (rule step_validI, goal_cases)
  case (1 st w r st' w')
  obtain lr w1 where load: "checkpoint_Load store w = (lr, w1)" by (metis surj_pair)
  show ?case
  proof (cases lr)
    case (Inl e)
    with load checkpoint_Load_err have "stored w1 = stored w" by blast
    with 1 load Inl show ?thesis
      by (auto simp: LoadPrepareCheckpointStep_def uses_store at_valid_def at_start_def intro!: unchanged_failure)
  next
    case (Inr cp)
    with load checkpoint_Load_ok have "claims_of cp = stored w" "stored w1 = stored w" "ck_Claims cp \<noteq> None"
      by blast+
    moreover from this(1,3) obtain m where "ck_Claims cp = Some m" "mget m (pr_ClaimUID req) = stored w (pr_ClaimUID req)"
      by (auto simp: claims_of_def fun_eq_iff)
    ultimately show ?thesis
      using 1 load Inr
      by (auto simp: LoadPrepareCheckpointStep_def uses_store at_valid_def at_start_def at_loaded_def Let_def
          split: option.splits)
  qed
qed

lemma short_circuit_step:
  "step_valid (at_loaded stored S req) ShortCircuitPrepareStep (at_fresh stored S req) (at_end stored S req)
     (at_failure stored S req)"
proof (rule step_validI, goal_cases)
  case (1 st w r st' w')
  show ?case
  proof (cases "cl_State (ps_Claim st) = PrepareStateCompleted")
    case False
    with 1 show ?thesis
      by (auto simp: ShortCircuitPrepareStep_def at_loaded_def at_fresh_def completed_def split: option.splits)
  next
    case True
    with 1(1) obtain c where c: "S (pr_ClaimUID req) = Some c" "ps_Claim st = c"
      by (auto simp: at_loaded_def no_claim_def split: option.splits)
    have "c = \<lparr> cl_State = PrepareStateCompleted, cl_Devices = cl_Devices c \<rparr>"
      using True c by simp
    with True c 1 show ?thesis
      by (auto simp: ShortCircuitPrepareStep_def at_loaded_def at_end_def prepare_done_def completed_def
          intro!: unchanged_failure exI[of _ "cl_Devices c"]
          split: sum.splits dest!: PreparedResultFromClaim_ok)
  qed
qed

lemma plan_step:
  "step_valid (at_fresh stored S req) (PlanPrepareStep (opt_MIG opts) (opt_VFIO opts)) (at_planned opts stored S req) R
     (at_failure stored S req)"
proof (rule step_validI, goal_cases)
  case (1 st w r st' w')
  show ?case
  proof (cases r)
    case (Inl e)
    with 1 show ?thesis
      by (auto simp: PlanPrepareStep_def at_fresh_def intro!: unchanged_failure split: prod.splits option.splits)
  next
    case (Inr x)
    with 1 have x: "x = None" by (auto simp: PlanPrepareStep_def split: prod.splits option.splits)
    with Inr 1(2) have "PlanPrepareStep (opt_MIG opts) (opt_VFIO opts) st w = (Inr None, st', w')" by simp
    from PlanPrepareStep_plan[OF this] 1(1) Inr x show ?thesis
      by (auto simp: at_planned_def at_fresh_def planned_def vfio_allowed_def list_all_iff plan_error_def
          split: if_splits)
  qed
qed

lemma ports_stored:
  "mig_keeps (\<lambda>w. stored w = S) (opt_MIG opts)" "vfio_keeps (\<lambda>w. stored w = S) (opt_VFIO opts)"
  "checker_keeps (\<lambda>w. stored w = S) (opt_GPUChecker opts)" "ts_keeps (\<lambda>w. stored w = S) (opt_TimeSlicing opts)"
  "mps_keeps (\<lambda>w. stored w = S) (opt_Mps opts)" "cdi_keeps (\<lambda>w. stored w = S) (opt_CDI opts)"
  "notifier_keeps (\<lambda>w. stored w = S) (opt_ResourcesNotifier opts)"
  using ports_leave_store[of S] unfolding ports_keep_def by blast+

lemma device_steps_stored:
  "MigPrepareStep (opt_MIG opts) st w = (r, st', w') \<Longrightarrow> stored w' = stored w"
  "VfioPrepareStep (opt_VFIO opts) st w = (r, st', w') \<Longrightarrow> stored w' = stored w"
  "TimeSlicingPrepareStep ord (opt_TimeSlicing opts) st w = (r, st', w') \<Longrightarrow> stored w' = stored w"
  "MpsPrepareStep marshal sha ord (opt_Mps opts) st w = (r, st', w') \<Longrightarrow> stored w' = stored w"
  "GPUFreeCheckStep (opt_GPUChecker opts) st w = (r, st', w') \<Longrightarrow> stored w' = stored w"
  by (rule device_steps_keep(1)[OF ports_stored(1) refl] device_steps_keep(2)[OF ports_stored(2) refl]
        device_steps_keep(3)[OF ports_stored(4) refl] device_steps_keep(4)[OF ports_stored(5) refl]
        device_steps_keep(5)[OF ports_stored(3) refl]; assumption)+

lemma free_step:
  "step_valid (at_planned opts stored S req) (GPUFreeCheckStep (opt_GPUChecker opts)) (at_planned opts stored S req) R
     (at_failure stored S req)"
proof (rule step_validI, goal_cases)
  case (1 st w r st' w')
  note step = device_steps_frame(5)[OF 1(2)] device_steps_stored(5)[OF 1(2)] device_steps_result(5)[OF 1(2)]
  from 1(1) step(1,2) have "at_planned opts stored S req st' w'"
    by (auto simp: at_planned_def at_fresh_def frame_def intro: planned_frame step(1))
  with step(3) show ?case
    by (auto simp: at_planned_def at_fresh_def intro: unchanged_failure split: sum.splits option.splits)
qed

lemma save_claim_ok:
  assumes "save_claim (opt_Checkpoints opts) state msg st w = (Inr x, st', w')"
    and "claims_of (ps_Checkpoint st) = S1"
  shows "x = None \<and> (\<exists>cp. st' = st\<lparr> ps_Checkpoint := cp \<rparr> \<and> claims_of cp = stored w' \<and> ck_Claims cp \<noteq> None) \<and>
         stored w' = S1(pr_ClaimUID (ps_Request st) \<mapsto> \<lparr> cl_State = state, cl_Devices = ps_DeviceStates st \<rparr>)"
  using assms
  by (auto simp: save_claim_def uses_store Let_def claims_of_def fun_eq_iff split: option.splits prod.splits
      dest!: save_ok)

lemma save_claim_err:
  "save_claim (opt_Checkpoints opts) state msg st w = (Inl e, st', w') \<Longrightarrow> stored w' = stored w"
  by (auto simp: save_claim_def uses_store Let_def split: option.splits prod.splits dest: save_err)

lemma started_step:
  "step_valid (at_planned opts stored S req) (SavePrepareStartedStep (opt_Checkpoints opts))
     (at_started opts stored S req) R (at_failure stored S req)"
proof (rule step_validI, goal_cases)
  case (1 st w r st' w')
  show ?case
  proof (cases r)
    case (Inl e)
    with 1 save_claim_err show ?thesis
      by (auto simp: SavePrepareStartedStep_def at_planned_def at_fresh_def intro!: unchanged_failure)
  next
    case (Inr x)
    with 1(2) have "save_claim (opt_Checkpoints opts) PrepareStateStarted ''save prepare checkpoint'' st w = (Inr x, st', w')"
      by (simp add: SavePrepareStartedStep_def)
    from save_claim_ok[OF this, of S] 1(1) Inr show ?thesis
      by (auto simp: at_planned_def at_fresh_def at_started_def planned_def)
  qed
qed

lemma mig_step:
  "step_valid (at_started opts stored S req) (MigPrepareStep (opt_MIG opts)) (at_mig opts stored S req) R
     (at_failure stored S req)"
proof (rule step_validI, goal_cases)
  case (1 st w r st' w')
  note step = device_steps_frame(1)[OF 1(2)] device_steps_stored(1)[OF 1(2)] device_steps_result(1)[OF 1(2)]
  have started: "at_started opts stored S req st' w'"
    using at_started_frame[OF 1(1) step(1,2)] .
  have "list_all (mig_done (ps_DeviceMap st')) (ps_DeviceStates st')" if "r = Inr None"
  proof (cases "opt_MIG opts")
    case None
    with started show ?thesis by (auto simp: at_started_def intro: no_mig_done)
  next
    case (Some m)
    with 1(2) that MigPrepareStep_done[of m st w st' w'] step(1) show ?thesis
      by (simp add: frame_def)
  qed
  with started step(3) show ?case
    by (auto simp: at_mig_def intro: at_started_failure split: sum.splits option.splits)
qed

lemma vfio_step:
  "step_valid (at_mig opts stored S req) (VfioPrepareStep (opt_VFIO opts)) (at_vfio opts stored S req) R
     (at_failure stored S req)"
proof (rule step_validI, goal_cases)
  case (1 st w r st' w')
  note step = device_steps_frame(2)[OF 1(2)] device_steps_stored(2)[OF 1(2)] device_steps_result(2)[OF 1(2)]
  have mig: "at_mig opts stored S req st' w'"
    using at_mig_frame[OF 1(1) step(1,2)] .
  have "list_all (vfio_done (ps_DeviceMap st')) (ps_DeviceStates st')" if "r = Inr None" "pr_VFIO req"
    using 1 that step(1) VfioPrepareStep_done[of st "opt_VFIO opts" w st' w']
    by (auto simp: frame_def at_mig_def at_started_def)
  with mig step(3) show ?case
    by (auto simp: at_vfio_def at_mig_def intro: at_started_failure split: sum.splits option.splits)
qed

lemma at_vfio_failure: "at_vfio opts stored S req st w \<Longrightarrow> at_failure stored S req st' w"
  by (auto simp: at_vfio_def at_mig_def intro: at_started_failure)

lemma sharing_steps:
  "step_valid (at_vfio opts stored S req) (TimeSlicingPrepareStep ord (opt_TimeSlicing opts)) (at_vfio opts stored S req) R
     (at_failure stored S req)"
  "step_valid (at_vfio opts stored S req) (MpsPrepareStep marshal sha ord (opt_Mps opts)) (at_vfio opts stored S req) R
     (at_failure stored S req)"
proof -
  have keep: "case r of Inl _ \<Rightarrow> at_failure stored S req st' w' | Inr None \<Rightarrow> at_vfio opts stored S req st' w' | Inr (Some _) \<Rightarrow> R st' w'"
    if "at_vfio opts stored S req st w" "frame st st'" "stored w' = stored w" "\<And>x. r \<noteq> Inr (Some x)" for st w r st' w'
    using at_vfio_frame[OF that(1-3)] that(4) at_vfio_failure by (auto split: sum.splits option.splits)
  show "step_valid (at_vfio opts stored S req) (TimeSlicingPrepareStep ord (opt_TimeSlicing opts)) (at_vfio opts stored S req) R
     (at_failure stored S req)"
    by (rule step_validI, rule keep, assumption) (auto dest: device_steps_frame device_steps_stored device_steps_result)
  show "step_valid (at_vfio opts stored S req) (MpsPrepareStep marshal sha ord (opt_Mps opts)) (at_vfio opts stored S req) R
     (at_failure stored S req)"
    by (rule step_validI, rule keep, assumption) (auto dest: device_steps_frame device_steps_stored device_steps_result)
qed

lemma cdi_stored: "opt_CDI opts = Some c \<Longrightarrow> cdi_Write c req w = (r, w') \<Longrightarrow> stored w' = stored w"
  using ports_stored(6)[of "stored w"] unfolding cdi_keeps_def keeps_def by blast

lemma notify_stored: "opt_ResourcesNotifier opts = Some n \<Longrightarrow> stored (nt_Notify n w) = stored w"
  using ports_stored(7)[of "stored w"] unfolding notifier_keeps_def by blast

lemma at_vfio_states:
  "at_vfio opts stored S req st w \<Longrightarrow> list_all2 grows (ps_DeviceStates st) states \<Longrightarrow> stored w' = stored w \<Longrightarrow>
     at_vfio opts stored S req (st\<lparr> ps_DeviceStates := states \<rparr>) w'"
  by (erule at_vfio_frame) (simp_all add: frame_def)

lemma cdi_step:
  "step_valid (at_vfio opts stored S req) (WriteCDIStep (opt_CDI opts)) (at_written opts stored S req) R
     (at_failure stored S req)"
proof (rule step_validI, goal_cases)
  case (1 st w r st' w')
  have same: "stored w' = stored w"
    using 1(2) by (auto simp: WriteCDIStep_def split: option.splits prod.splits sum.splits dest: cdi_stored)
  show ?case
  proof (cases r)
    case (Inl e)
    then show ?thesis
      using at_vfio_failure[OF 1(1)] same by (simp add: at_failure_def)
  next
    case (Inr x)
    with 1(2) obtain states where "x = None" "list_all2 grows (ps_DeviceStates st) states"
      and st': "st' = st\<lparr> ps_DeviceStates := states, ps_Result := result_of (pr_ClaimUID (ps_Request st)) states \<rparr>"
      by (auto simp: WriteCDIStep_def result_of_def split: option.splits prod.splits sum.splits dest!: cdi_loop_ok)
    moreover from this(2) have "at_vfio opts stored S req (st\<lparr> ps_DeviceStates := states \<rparr>) w'"
      by (rule at_vfio_states[OF 1(1) _ same])
    ultimately show ?thesis
      using Inr 1(1) by (auto simp: at_written_def at_vfio_def at_mig_def at_started_def planned_def)
  qed
qed

lemma completed_step:
  "step_valid (at_written opts stored S req) (SavePrepareCompletedStep (opt_Checkpoints opts)) (at_end stored S req) R
     (at_failure stored S req)"
proof (rule step_validI, goal_cases)
  case (1 st w r st' w')
  then have vfio: "at_vfio opts stored S req st w" by (simp add: at_written_def)
  then have started: "at_started opts stored S req st w" by (simp add: at_vfio_def at_mig_def)
  show ?case
  proof (cases r)
    case (Inl e)
    with 1(2) save_claim_err have "stored w' = stored w"
      by (auto simp: SavePrepareCompletedStep_def)
    with Inl at_vfio_failure[OF vfio] show ?thesis by (simp add: at_failure_def)
  next
    case (Inr x)
    with 1(2) have "save_claim (opt_Checkpoints opts) PrepareStateCompleted ''save completed checkpoint'' st w = (Inr x, st', w')"
      by (simp add: SavePrepareCompletedStep_def)
    from save_claim_ok[OF this refl] started have "x = None" "ps_Result st' = ps_Result st" "ps_DeviceStates st' = ps_DeviceStates st"
      and "stored w' = S(pr_ClaimUID req \<mapsto> \<lparr> cl_State = PrepareStateCompleted, cl_Devices = ps_DeviceStates st \<rparr>)"
      by (auto simp: at_started_def)
    with Inr 1(1) started at_vfio_materialised[OF vfio] show ?thesis
      by (auto simp: at_end_def prepare_done_def at_written_def at_started_def)
  qed
qed

lemma notify_step:
  "step_valid (at_end stored S req) (NotifyResourcesPrepareStep (opt_ResourcesNotifier opts)) (at_end stored S req) R E"
  by (rule step_validI)
     (auto simp: NotifyResourcesPrepareStep_def at_end_def notify_stored split: option.splits if_splits)

lemma final_step: "step_valid (at_end stored S req) FinalPrepareStep Q (at_end stored S req) E"
  by (rule step_validI)
     (auto simp: FinalPrepareStep_def at_end_def prepare_done_def result_of_def split: if_splits)

lemma prepare_run:
  "run_valid (at_start stored S req) (newPrepareSteps opts) (at_end stored S req) (at_failure stored S req)"
  unfolding newPrepareSteps_def
  by (intro run_Cons[OF validate_step] run_Cons[OF lock_step] run_Cons[OF load_step] run_Cons[OF short_circuit_step]
        run_Cons[OF plan_step] run_Cons[OF free_step] run_Cons[OF started_step] run_Cons[OF mig_step]
        run_Cons[OF vfio_step] run_Cons[OF sharing_steps(1)] run_Cons[OF sharing_steps(2)] run_Cons[OF cdi_step]
        run_Cons[OF completed_step] run_Cons[OF notify_step] run_Cons[OF final_step[where Q = "\<lambda>_ _. False"]] run_Nil) simp

text \<open>The unlock function a pipeline holds is the one its locker returned.\<close>

lemma unlock_kept:
  assumes "Run (newPrepareSteps opts) (NewPrepareState req) w = (r, st, w')"
  shows "stored (unlock_world (ps_Unlock st) w'') = stored w''"
proof -
  define I where "I = (\<lambda>(st :: ('q, 'w) PrepareState) (w :: 'w). \<forall>f. ps_Unlock st = Some f \<longrightarrow> (\<forall>w. stored (snd (f w)) = stored w))"
  have same: "step_valid I s I I I" if "\<And>st w r st' w'. s st w = (r, st', w') \<Longrightarrow> ps_Unlock st' = ps_Unlock st" for s
    by (rule step_validI) (auto simp: I_def dest: that split: sum.splits option.splits)
  have "step_valid I s I I I" if "s \<in> set (newPrepareSteps opts)" for s
  proof (cases "s = LockPrepareStep (opt_Locker opts)")
    case True
    then show ?thesis
      by (intro step_validI)
         (auto simp: LockPrepareStep_def I_def split: option.splits prod.splits sum.splits dest: unlock_stored)
  next
    case False
    with that show ?thesis
      by (auto simp: newPrepareSteps_def frame_def intro!: same dest!: prepare_steps_unlock)
  qed
  then have "run_valid I (newPrepareSteps opts) I I" by (rule run_invariant)
  moreover have "I (NewPrepareState req) w" by (simp add: I_def NewPrepareState_def)
  ultimately have "I st w'" using run_validD assms by (fastforce split: sum.splits)
  then show ?thesis by (auto simp: I_def unlock_world_def split: option.splits)
qed

lemma Prepare_stored:
  assumes "Prepare opts req w = (r, w')"
  shows "case r of Inl _ \<Rightarrow> prepare_failed (stored w) req (stored w') | Inr res \<Rightarrow> prepare_done (stored w) req res (stored w')"
proof (cases "opt_CDI opts")
  case None
  with assms show ?thesis by (auto simp: Prepare_def prepare_failed_def)
next
  case (Some c)
  obtain r1 st w1 where run: "Run (newPrepareSteps opts) (NewPrepareState req) w = (r1, st, w1)"
    by (metis prod_cases3)
  have "at_start stored (stored w) req (NewPrepareState req) w"
    by (simp add: at_start_def NewPrepareState_def)
  from run_validD[OF prepare_run this run] have
    "case r1 of Inl _ \<Rightarrow> prepare_failed (stored w) req (stored w1)
     | Inr _ \<Rightarrow> pr_ClaimUID req \<noteq> [] \<and> prepare_done (stored w) req (ps_Result st) (stored w1)"
    by (cases r1) (simp_all add: at_end_def at_failure_def)
  moreover have "stored w' = stored w1"
    using assms Some run unlock_kept[OF run] by (auto simp: Prepare_def Option.is_none_def)
  ultimately show ?thesis
    using assms Some run
    by (auto simp: Prepare_def Option.is_none_def prepare_done_def result_of_def split: sum.splits if_splits)
qed

end

end
