(* ===== verification/UnprepareSafety.thy ===== *)
theory UnprepareSafety
  imports PrepareSafety
begin

text \<open>
  The unprepare pipeline against the contract of the checkpoint store: a claim that was prepared is removed
  exactly when unprepare succeeds; a claim that is absent, empty or only started is passed over; a failure
  leaves the stored claims as they were.
\<close>

definition skipped :: "PreparedClaim option \<Rightarrow> bool" where
  "skipped c \<longleftrightarrow> (case c of None \<Rightarrow> True | Some c \<Rightarrow> cl_Devices c = [] \<or> cl_State c = PrepareStateStarted)"

definition unprepare_done :: "(string \<Rightarrow> PreparedClaim option) \<Rightarrow> string \<Rightarrow> (string \<Rightarrow> PreparedClaim option)" where
  "unprepare_done S uid = (if skipped (S uid) then S else S(uid := None))"

definition un_start where
  "un_start stored S uid st w \<longleftrightarrow>
     us_ClaimUID st = uid \<and> us_Claim st = no_claim \<and> \<not> us_Skip st \<and> stored w = S"

definition un_loaded where
  "un_loaded stored S uid st w \<longleftrightarrow>
     us_ClaimUID st = uid \<and> \<not> us_Skip st \<and> stored w = S \<and> claims_of (us_Checkpoint st) = S \<and>
     us_Claim st = (case S uid of None \<Rightarrow> no_claim | Some c \<Rightarrow> c)"

definition un_running where
  "un_running stored S uid st w \<longleftrightarrow> un_loaded stored S uid st w \<and> \<not> skipped (S uid)"

definition un_end where
  "un_end stored S uid st w \<longleftrightarrow> stored w = unprepare_done S uid"

definition un_failed where
  "un_failed stored S st w \<longleftrightarrow> stored w = S"

section \<open>What the teardown steps leave alone\<close>

definition un_frame :: "'w UnprepareState \<Rightarrow> 'w UnprepareState \<Rightarrow> bool" where
  "un_frame st st' \<longleftrightarrow>
     us_ClaimUID st' = us_ClaimUID st \<and> us_Checkpoint st' = us_Checkpoint st \<and> us_Claim st' = us_Claim st \<and>
     us_Skip st' = us_Skip st \<and> us_Unlock st' = us_Unlock st"

lemma mps_stop_loop_frame: "mps_stop_loop m ss st w = (r, st', w') \<Longrightarrow> st' = st"
  by (induction ss arbitrary: w) (auto split: prod.splits option.splits)

lemma mig_unprepare_loop_frame: "mig_unprepare_loop m ds st w = (r, st', w') \<Longrightarrow> un_frame st st'"
proof (induction ds arbitrary: st w)
  case (Cons d ds)
  from Cons.prems Cons.IH[of "st\<lparr> us_ResourcesChanged := True \<rparr>"] show ?case
    by (auto simp: un_frame_def split: prod.splits option.splits dest: Cons.IH)
qed (simp add: un_frame_def)

lemma vfio_unprepare_loop_frame: "vfio_unprepare_loop v ds st w = (r, st', w') \<Longrightarrow> un_frame st st'"
proof (induction ds arbitrary: st w)
  case (Cons d ds)
  from Cons.prems Cons.IH[of "st\<lparr> us_ResourcesChanged := True \<rparr>"] show ?case
    by (auto simp: un_frame_def split: prod.splits option.splits dest: Cons.IH)
qed (simp add: un_frame_def)

lemma un_frame_refl [simp]: "un_frame st st"
  by (simp add: un_frame_def)

lemma teardown_frame:
  "MpsUnprepareStep ord mps st w = (r, st', w') \<Longrightarrow> un_frame st st'"
  "TimeSlicingUnprepareStep ord ts st w = (r, st', w') \<Longrightarrow> un_frame st st'"
  "MigUnprepareStep mig st w = (r, st', w') \<Longrightarrow> un_frame st st'"
  "VfioUnprepareStep vfio st w = (r, st', w') \<Longrightarrow> un_frame st st'"
  "DeleteCDIStep cdi st w = (r, st', w') \<Longrightarrow> un_frame st st'"
  by (auto simp: MpsUnprepareStep_def TimeSlicingUnprepareStep_def MigUnprepareStep_def VfioUnprepareStep_def
        DeleteCDIStep_def Let_def
      split: option.splits if_splits prod.splits
      dest!: loop_stepD mps_stop_loop_frame mig_unprepare_loop_frame vfio_unprepare_loop_frame)

lemma teardown_result:
  "MpsUnprepareStep ord mps st w = (r, st', w') \<Longrightarrow> r \<noteq> Inr (Some x)"
  "TimeSlicingUnprepareStep ord ts st w = (r, st', w') \<Longrightarrow> r \<noteq> Inr (Some x)"
  "MigUnprepareStep mig st w = (r, st', w') \<Longrightarrow> r \<noteq> Inr (Some x)"
  "VfioUnprepareStep vfio st w = (r, st', w') \<Longrightarrow> r \<noteq> Inr (Some x)"
  "DeleteCDIStep cdi st w = (r, st', w') \<Longrightarrow> r \<noteq> Inr (Some x)"
  by (auto simp: MpsUnprepareStep_def TimeSlicingUnprepareStep_def MigUnprepareStep_def VfioUnprepareStep_def
        DeleteCDIStep_def Let_def loop_step_def
      split: option.splits if_splits prod.splits)

lemma cdi_Delete_keeps: "cdi_keeps I (Some c) \<Longrightarrow> I w \<Longrightarrow> cdi_Delete c u w = (r, w') \<Longrightarrow> I w'"
  unfolding cdi_keeps_def keeps_def by blast

lemma teardown_keep:
  "mps_keeps I mps \<Longrightarrow> I w \<Longrightarrow> MpsUnprepareStep ord mps st w = (r, st', w') \<Longrightarrow> I w'"
  "ts_keeps I ts \<Longrightarrow> I w \<Longrightarrow> TimeSlicingUnprepareStep ord ts st w = (r, st', w') \<Longrightarrow> I w'"
  "mig_keeps I mig \<Longrightarrow> I w \<Longrightarrow> MigUnprepareStep mig st w = (r, st', w') \<Longrightarrow> I w'"
  "vfio_keeps I vfio \<Longrightarrow> I w \<Longrightarrow> VfioUnprepareStep vfio st w = (r, st', w') \<Longrightarrow> I w'"
  "cdi_keeps I cdi \<Longrightarrow> I w \<Longrightarrow> DeleteCDIStep cdi st w = (r, st', w') \<Longrightarrow> I w'"
proof -
  show "mps_keeps I mps \<Longrightarrow> I w \<Longrightarrow> MpsUnprepareStep ord mps st w = (r, st', w') \<Longrightarrow> I w'"
    by (auto simp: mps_keeps_def MpsUnprepareStep_def Let_def split: if_splits option.splits
        dest!: loop_stepD dest: mps_stop_loop_keeps)
  show "ts_keeps I ts \<Longrightarrow> I w \<Longrightarrow> TimeSlicingUnprepareStep ord ts st w = (r, st', w') \<Longrightarrow> I w'"
    by (auto simp: ts_keeps_def keeps_def TimeSlicingUnprepareStep_def Let_def split: if_splits option.splits prod.splits)
  show "mig_keeps I mig \<Longrightarrow> I w \<Longrightarrow> MigUnprepareStep mig st w = (r, st', w') \<Longrightarrow> I w'"
    by (auto simp: mig_keeps_def MigUnprepareStep_def split: if_splits option.splits
        dest!: loop_stepD dest: mig_unprepare_loop_keeps)
  show "vfio_keeps I vfio \<Longrightarrow> I w \<Longrightarrow> VfioUnprepareStep vfio st w = (r, st', w') \<Longrightarrow> I w'"
    by (auto simp: vfio_keeps_def VfioUnprepareStep_def split: if_splits option.splits
        dest!: loop_stepD dest: vfio_unprepare_loop_keeps)
  show "cdi_keeps I cdi \<Longrightarrow> I w \<Longrightarrow> DeleteCDIStep cdi st w = (r, st', w') \<Longrightarrow> I w'"
    by (auto simp: DeleteCDIStep_def split: if_splits option.splits prod.splits dest: cdi_Delete_keeps)
qed

lemma un_plain_steps_unlock:
  "ValidateUnprepareStep st w = (r, st', w') \<Longrightarrow> us_Unlock st' = us_Unlock st"
  "LoadUnprepareCheckpointStep store st w = (r, st', w') \<Longrightarrow> us_Unlock st' = us_Unlock st"
  "ShortCircuitUnprepareStep st w = (r, st', w') \<Longrightarrow> us_Unlock st' = us_Unlock st"
  "CleanupCheckpointStep store st w = (r, st', w') \<Longrightarrow> us_Unlock st' = us_Unlock st"
  "NotifyResourcesUnprepareStep nt st w = (r, st', w') \<Longrightarrow> us_Unlock st' = us_Unlock st"
  "FinalUnprepareStep st w = (r, st', w') \<Longrightarrow> us_Unlock st' = us_Unlock st"
  by (auto simp: ValidateUnprepareStep_def LoadUnprepareCheckpointStep_def ShortCircuitUnprepareStep_def
        CleanupCheckpointStep_def NotifyResourcesUnprepareStep_def FinalUnprepareStep_def Let_def
      split: if_splits option.splits sum.splits prod.splits)

lemma un_frame_unlock: "un_frame st st' \<Longrightarrow> us_Unlock st' = us_Unlock st"
  by (simp add: un_frame_def)

lemmas unprepare_steps_unlock = un_plain_steps_unlock teardown_frame[THEN un_frame_unlock]

section \<open>What a successful teardown has given back\<close>

text \<open>
  \<open>torn_down opts uid c\<close>: the managers, where the service has them, reported success for every MIG
  instance and every VFIO binding recorded in the claim, and the CDI writer for the deletion of its file. A service without manager
  passes over the records it cannot undo.
\<close>

definition mig_down :: "'w MigManager option \<Rightarrow> PreparedDeviceState list \<Rightarrow> bool" where
  "mig_down mig devices \<longleftrightarrow>
     (\<forall>m dev s. mig = Some m \<and> dev \<in> set devices \<and> dvs_MIG dev = Some s \<longrightarrow> (\<exists>w w'. mig_Unprepare m s w = (None, w')))"

definition vfio_down :: "'w VfioManager option \<Rightarrow> PreparedDeviceState list \<Rightarrow> bool" where
  "vfio_down vfio devices \<longleftrightarrow>
     (\<forall>v dev s. vfio = Some v \<and> dev \<in> set devices \<and> dvs_VFIO dev = Some s \<longrightarrow> (\<exists>w w'. vfio_Unprepare v s w = (None, w')))"

definition cdi_down :: "('q, 'w) CDIWriter option \<Rightarrow> string \<Rightarrow> bool" where
  "cdi_down cdi uid \<longleftrightarrow> (\<exists>c w w'. cdi = Some c \<and> cdi_Delete c uid w = (None, w'))"

definition torn_down :: "('q, 'w) Options \<Rightarrow> string \<Rightarrow> PreparedClaim \<Rightarrow> bool" where
  "torn_down opts uid c \<longleftrightarrow> mig_down (opt_MIG opts) (cl_Devices c) \<and> vfio_down (opt_VFIO opts) (cl_Devices c) \<and>
     cdi_down (opt_CDI opts) uid"

lemma mig_unprepare_loop_down: "mig_unprepare_loop m ds st w = (None, st', w') \<Longrightarrow> mig_down (Some m) ds"
  by (induction ds arbitrary: st w) (fastforce simp: mig_down_def split: option.splits prod.splits)+

lemma vfio_unprepare_loop_down: "vfio_unprepare_loop v ds st w = (None, st', w') \<Longrightarrow> vfio_down (Some v) ds"
  by (induction ds arbitrary: st w) (fastforce simp: vfio_down_def split: option.splits prod.splits)+

lemma teardown_down:
  "MigUnprepareStep mig st w = (Inr None, st', w') \<Longrightarrow> \<not> us_Skip st \<Longrightarrow> mig_down mig (cl_Devices (us_Claim st))"
  "VfioUnprepareStep vfio st w = (Inr None, st', w') \<Longrightarrow> \<not> us_Skip st \<Longrightarrow> vfio_down vfio (cl_Devices (us_Claim st))"
  "DeleteCDIStep cdi st w = (Inr None, st', w') \<Longrightarrow> \<not> us_Skip st \<Longrightarrow> cdi_down cdi (us_ClaimUID st)"
proof -
  show "MigUnprepareStep mig st w = (Inr None, st', w') \<Longrightarrow> \<not> us_Skip st \<Longrightarrow> mig_down mig (cl_Devices (us_Claim st))"
    by (cases mig) (auto simp: MigUnprepareStep_def loop_step_def mig_down_def[of None]
        split: prod.splits option.splits intro: mig_unprepare_loop_down)
  show "VfioUnprepareStep vfio st w = (Inr None, st', w') \<Longrightarrow> \<not> us_Skip st \<Longrightarrow> vfio_down vfio (cl_Devices (us_Claim st))"
    by (cases vfio) (auto simp: VfioUnprepareStep_def loop_step_def vfio_down_def[of None]
        split: prod.splits option.splits intro: vfio_unprepare_loop_down)
  show "DeleteCDIStep cdi st w = (Inr None, st', w') \<Longrightarrow> \<not> us_Skip st \<Longrightarrow> cdi_down cdi (us_ClaimUID st)"
    by (cases cdi) (auto simp: DeleteCDIStep_def cdi_down_def split: prod.splits option.splits)
qed

section \<open>The pipeline\<close>

lemma un_frame_running:
  "un_running stored S uid st w \<Longrightarrow> un_frame st st' \<Longrightarrow> stored w' = stored w \<Longrightarrow> un_running stored S uid st' w'"
  by (auto simp: un_running_def un_loaded_def un_frame_def)

context prepare_node
begin

lemma un_validate_step:
  "step_valid (un_start stored S uid) ValidateUnprepareStep (un_start stored S uid) R (un_failed stored S)"
  by (rule step_validI) (auto simp: ValidateUnprepareStep_def un_start_def un_failed_def split: if_splits)

lemma un_lock_step:
  "step_valid (un_start stored S uid) (LockUnprepareStep (opt_Locker opts)) (un_start stored S uid) R (un_failed stored S)"
proof (rule step_validI, goal_cases)
  case (1 st w r st' w')
  then have "stored w' = stored w"
    by (auto simp: LockUnprepareStep_def split: option.splits prod.splits sum.splits dest: lock_stored)
  with 1 show ?case
    by (auto simp: LockUnprepareStep_def un_start_def un_failed_def split: option.splits prod.splits sum.splits)
qed

lemma un_load_step:
  "step_valid (un_start stored S uid) (LoadUnprepareCheckpointStep (opt_Checkpoints opts)) (un_loaded stored S uid) R
     (un_failed stored S)"
proof (rule step_validI, goal_cases)
  case (1 st w r st' w')
  obtain lr w1 where load: "checkpoint_Load store w = (lr, w1)" by (metis surj_pair)
  show ?case
  proof (cases lr)
    case (Inl e)
    with load checkpoint_Load_err have "stored w1 = stored w" by blast
    with 1 load Inl show ?thesis
      by (auto simp: LoadUnprepareCheckpointStep_def uses_store un_start_def un_failed_def)
  next
    case (Inr cp)
    with load checkpoint_Load_ok have "claims_of cp = stored w" "stored w1 = stored w" "ck_Claims cp \<noteq> None"
      by blast+
    moreover from this(1,3) obtain m where "ck_Claims cp = Some m" "mget m uid = stored w uid"
      by (auto simp: claims_of_def fun_eq_iff)
    ultimately show ?thesis
      using 1 load Inr
      by (auto simp: LoadUnprepareCheckpointStep_def uses_store un_start_def un_loaded_def Let_def split: option.splits)
  qed
qed

lemma un_short_circuit_step:
  "step_valid (un_loaded stored S uid) ShortCircuitUnprepareStep (un_running stored S uid) (un_end stored S uid) E"
  by (rule step_validI)
     (auto simp: ShortCircuitUnprepareStep_def un_loaded_def un_running_def un_end_def unprepare_done_def skipped_def
        no_claim_def
      split: if_splits option.splits)

lemma teardown_stored:
  "MpsUnprepareStep ord (opt_Mps opts) st w = (r, st', w') \<Longrightarrow> stored w' = stored w"
  "TimeSlicingUnprepareStep ord (opt_TimeSlicing opts) st w = (r, st', w') \<Longrightarrow> stored w' = stored w"
  "MigUnprepareStep (opt_MIG opts) st w = (r, st', w') \<Longrightarrow> stored w' = stored w"
  "VfioUnprepareStep (opt_VFIO opts) st w = (r, st', w') \<Longrightarrow> stored w' = stored w"
  "DeleteCDIStep (opt_CDI opts) st w = (r, st', w') \<Longrightarrow> stored w' = stored w"
  by (rule teardown_keep(1)[OF ports_stored(5) refl] teardown_keep(2)[OF ports_stored(4) refl]
        teardown_keep(3)[OF ports_stored(1) refl] teardown_keep(4)[OF ports_stored(2) refl]
        teardown_keep(5)[OF ports_stored(6) refl]; assumption)+

lemma teardown_valid:
  assumes "\<And>st w r st' w'. s st w = (r, st', w') \<Longrightarrow> un_frame st st' \<and> stored w' = stored w \<and> (\<forall>x. r \<noteq> Inr (Some x))"
  shows "step_valid (un_running stored S uid) s (un_running stored S uid) R (un_failed stored S)"
proof (rule step_validI, goal_cases)
  case (1 st w r st' w')
  from un_frame_running[OF 1(1)] assms[OF 1(2)] have "un_running stored S uid st' w'" by blast
  with assms[OF 1(2)] show ?case
    by (auto simp: un_running_def un_loaded_def un_failed_def split: sum.splits option.splits)
qed

lemma un_teardown_steps:
  "step_valid (un_running stored S uid) (MpsUnprepareStep ord (opt_Mps opts)) (un_running stored S uid) R (un_failed stored S)"
  "step_valid (un_running stored S uid) (TimeSlicingUnprepareStep ord (opt_TimeSlicing opts)) (un_running stored S uid) R (un_failed stored S)"
  "step_valid (un_running stored S uid) (MigUnprepareStep (opt_MIG opts)) (un_running stored S uid) R (un_failed stored S)"
  "step_valid (un_running stored S uid) (VfioUnprepareStep (opt_VFIO opts)) (un_running stored S uid) R (un_failed stored S)"
  "step_valid (un_running stored S uid) (DeleteCDIStep (opt_CDI opts)) (un_running stored S uid) R (un_failed stored S)"
  by (rule teardown_valid; auto dest: teardown_frame teardown_stored teardown_result)+

text \<open>The same steps with the facts they establish, which no longer depend on the state.\<close>

lemma teardown_collects:
  assumes "step_valid (un_running stored S uid) s (un_running stored S uid) R (un_failed stored S)"
    and "\<And>st w st' w'. un_running stored S uid st w \<Longrightarrow> s st w = (Inr None, st', w') \<Longrightarrow> B"
  shows "step_valid (\<lambda>st w. un_running stored S uid st w \<and> A) s (\<lambda>st w. un_running stored S uid st w \<and> A \<and> B)
     (\<lambda>st w. R st w \<and> A) (un_failed stored S)"
proof (rule step_validI, goal_cases)
  case (1 st w r st' w')
  with step_validD[OF assms(1), of st w r st' w'] assms(2)[of st w st' w'] show ?case
    by (auto split: sum.splits option.splits)
qed

lemma un_running_claim:
  "un_running stored S uid st w \<Longrightarrow> S uid = Some c \<Longrightarrow> us_Claim st = c \<and> us_ClaimUID st = uid \<and> \<not> us_Skip st"
  by (simp add: un_running_def un_loaded_def)

lemma un_collects:
  assumes "S uid = Some c"
  shows "step_valid (\<lambda>st w. un_running stored S uid st w \<and> A) (MigUnprepareStep (opt_MIG opts))
      (\<lambda>st w. un_running stored S uid st w \<and> A \<and> mig_down (opt_MIG opts) (cl_Devices c)) (\<lambda>_ _. False) (un_failed stored S)"
    and "step_valid (\<lambda>st w. un_running stored S uid st w \<and> A) (VfioUnprepareStep (opt_VFIO opts))
      (\<lambda>st w. un_running stored S uid st w \<and> A \<and> vfio_down (opt_VFIO opts) (cl_Devices c)) (\<lambda>_ _. False) (un_failed stored S)"
    and "step_valid (\<lambda>st w. un_running stored S uid st w \<and> A) (DeleteCDIStep (opt_CDI opts))
      (\<lambda>st w. un_running stored S uid st w \<and> A \<and> cdi_down (opt_CDI opts) uid) (\<lambda>_ _. False) (un_failed stored S)"
proof -
  note down = un_running_claim[where S = S and uid = uid and c = c, OF _ assms]
  show "step_valid (\<lambda>st w. un_running stored S uid st w \<and> A) (MigUnprepareStep (opt_MIG opts))
      (\<lambda>st w. un_running stored S uid st w \<and> A \<and> mig_down (opt_MIG opts) (cl_Devices c)) (\<lambda>_ _. False) (un_failed stored S)"
    by (rule teardown_collects[OF un_teardown_steps(3), where R = "\<lambda>_ _. False", simplified])
       (auto dest: down teardown_down(1))
  show "step_valid (\<lambda>st w. un_running stored S uid st w \<and> A) (VfioUnprepareStep (opt_VFIO opts))
      (\<lambda>st w. un_running stored S uid st w \<and> A \<and> vfio_down (opt_VFIO opts) (cl_Devices c)) (\<lambda>_ _. False) (un_failed stored S)"
    by (rule teardown_collects[OF un_teardown_steps(4), where R = "\<lambda>_ _. False", simplified])
       (auto dest: down teardown_down(2))
  show "step_valid (\<lambda>st w. un_running stored S uid st w \<and> A) (DeleteCDIStep (opt_CDI opts))
      (\<lambda>st w. un_running stored S uid st w \<and> A \<and> cdi_down (opt_CDI opts) uid) (\<lambda>_ _. False) (un_failed stored S)"
    by (rule teardown_collects[OF un_teardown_steps(5), where R = "\<lambda>_ _. False", simplified])
       (auto dest: down teardown_down(3))
qed

lemma un_cleanup_step:
  "step_valid (un_running stored S uid) (CleanupCheckpointStep (opt_Checkpoints opts)) (un_end stored S uid) R
     (un_failed stored S)"
proof (rule step_validI, goal_cases)
  case (1 st w r st' w')
  let ?cp = "(us_Checkpoint st)\<lparr> ck_Claims := map_option (mdel uid) (ck_Claims (us_Checkpoint st)) \<rparr>"
  have "claims_of ?cp = S(uid := None)"
    using 1(1) by (auto simp: un_running_def un_loaded_def claims_of_def fun_eq_iff split: option.splits)
  with 1 show ?case
    by (auto simp: CleanupCheckpointStep_def uses_store Let_def un_running_def un_loaded_def un_end_def
        unprepare_done_def un_failed_def
        split: prod.splits option.splits dest!: save_ok save_err)
qed

lemma un_notify_step:
  "step_valid (un_end stored S uid) (NotifyResourcesUnprepareStep (opt_ResourcesNotifier opts)) (un_end stored S uid) R E"
  by (rule step_validI) (auto simp: NotifyResourcesUnprepareStep_def un_end_def notify_stored split: option.splits if_splits)

lemma un_final_step: "step_valid (un_end stored S uid) FinalUnprepareStep (\<lambda>_ _. False) (un_end stored S uid) E"
  by (rule step_validI) (auto simp: FinalUnprepareStep_def)

lemma unprepare_run:
  "run_valid (un_start stored S uid) (newUnprepareSteps opts) (un_end stored S uid) (un_failed stored S)"
  unfolding newUnprepareSteps_def
  by (intro run_Cons[OF un_validate_step] run_Cons[OF un_lock_step] run_Cons[OF un_load_step]
        run_Cons[OF un_short_circuit_step] run_Cons[OF un_teardown_steps(1)] run_Cons[OF un_teardown_steps(2)]
        run_Cons[OF un_teardown_steps(3)] run_Cons[OF un_teardown_steps(4)] run_Cons[OF un_teardown_steps(5)]
        run_Cons[OF un_cleanup_step] run_Cons[OF un_notify_step] run_Cons[OF un_final_step] run_Nil) simp

lemma un_not_skipped:
  "\<not> skipped (S uid) \<Longrightarrow> step_valid (un_loaded stored S uid) ShortCircuitUnprepareStep (un_running stored S uid) (\<lambda>_ _. False) E"
  by (rule step_validI)
     (auto simp: ShortCircuitUnprepareStep_def un_loaded_def un_running_def skipped_def no_claim_def
      split: if_splits option.splits)

lemma un_tears_down:
  assumes "S uid = Some c" and "\<not> skipped (S uid)"
  shows "run_valid (un_start stored S uid) (newUnprepareSteps opts) (\<lambda>_ _. torn_down opts uid c) (\<lambda>_ _. True)"
proof -
  have rest: "run_valid (\<lambda>st w. un_running stored S uid st w \<and>
      ((True \<and> mig_down (opt_MIG opts) (cl_Devices c)) \<and> vfio_down (opt_VFIO opts) (cl_Devices c)) \<and> cdi_down (opt_CDI opts) uid)
    ss (\<lambda>_ _. torn_down opts uid c) (\<lambda>_ _. True)" for ss
    by (auto simp: run_valid_def torn_down_def split: sum.splits)
  have w: "step_valid P s Q R E \<Longrightarrow> R = (\<lambda>_ _. False) \<Longrightarrow> step_valid P s Q (\<lambda>_ _. torn_down opts uid c) (\<lambda>_ _. True)" for P s Q R E
    by (erule step_weaken) auto
  have s: "step_valid (un_running stored S uid) s (un_running stored S uid) R E \<Longrightarrow>
      step_valid (un_running stored S uid) s (\<lambda>st w. un_running stored S uid st w \<and> True) R E" for s R E
    by simp
  show ?thesis
    unfolding newUnprepareSteps_def
    by (rule run_Cons[OF w[OF un_validate_step refl]] run_Cons[OF w[OF un_lock_step refl]] run_Cons[OF w[OF un_load_step refl]]
        run_Cons[OF w[OF un_not_skipped[where S = S and uid = uid, OF assms(2)] refl]] run_Cons[OF w[OF un_teardown_steps(1) refl]]
        run_Cons[OF w[OF s[OF un_teardown_steps(2)] refl]] run_Cons[OF w[OF un_collects(1)[where S = S and uid = uid and c = c, OF assms(1)] refl]]
        run_Cons[OF w[OF un_collects(2)[where S = S and uid = uid and c = c, OF assms(1)] refl]] run_Cons[OF w[OF un_collects(3)[where S = S and uid = uid and c = c, OF assms(1)] refl]] rest)+
qed

lemma un_unlock_kept:
  assumes "Run (newUnprepareSteps opts) (NewUnprepareState uid) w = (r, st, w')"
  shows "stored (unlock_world (us_Unlock st) w'') = stored w''"
proof -
  define I where "I = (\<lambda>(st :: 'w UnprepareState) (w :: 'w). \<forall>f. us_Unlock st = Some f \<longrightarrow> (\<forall>w. stored (snd (f w)) = stored w))"
  have same: "step_valid I s I I I" if "\<And>st w r st' w'. s st w = (r, st', w') \<Longrightarrow> us_Unlock st' = us_Unlock st" for s
    by (rule step_validI) (auto simp: I_def dest: that split: sum.splits option.splits)
  have "step_valid I s I I I" if "s \<in> set (newUnprepareSteps opts)" for s
  proof (cases "s = LockUnprepareStep (opt_Locker opts)")
    case True
    then show ?thesis
      by (intro step_validI)
         (auto simp: LockUnprepareStep_def I_def split: option.splits prod.splits sum.splits dest: unlock_stored)
  next
    case False
    with that show ?thesis
      by (auto simp: newUnprepareSteps_def intro!: same dest!: unprepare_steps_unlock)
  qed
  then have "run_valid I (newUnprepareSteps opts) I I" by (rule run_invariant)
  moreover have "I (NewUnprepareState uid) w" by (simp add: I_def NewUnprepareState_def)
  ultimately have "I st w'" using run_validD assms by (fastforce split: sum.splits)
  then show ?thesis by (auto simp: I_def unlock_world_def split: option.splits)
qed

lemma Unprepare_stored:
  assumes "Unprepare opts uid w = (r, w')"
  shows "stored w' = (case r of None \<Rightarrow> unprepare_done (stored w) uid | Some _ \<Rightarrow> stored w)"
proof (cases "opt_CDI opts")
  case None
  with assms show ?thesis by (auto simp: Unprepare_def)
next
  case (Some c)
  obtain r1 st w1 where run: "Run (newUnprepareSteps opts) (NewUnprepareState uid) w = (r1, st, w1)"
    by (metis prod_cases3)
  have "un_start stored (stored w) uid (NewUnprepareState uid) w"
    by (simp add: un_start_def NewUnprepareState_def)
  from run_validD[OF unprepare_run this run] have
    "stored w1 = (case r1 of Inl _ \<Rightarrow> stored w | Inr _ \<Rightarrow> unprepare_done (stored w) uid)"
    by (cases r1) (simp_all add: un_end_def un_failed_def)
  with assms Some run un_unlock_kept[OF run] show ?thesis
    by (cases r1) (auto simp: Unprepare_def Option.is_none_def)
qed

lemma Unprepare_tears_down:
  assumes "Unprepare opts uid w = (None, w')" and "stored w uid = Some c" and "\<not> skipped (stored w uid)"
  shows "torn_down opts uid c"
proof -
  obtain r1 st w1 where run: "Run (newUnprepareSteps opts) (NewUnprepareState uid) w = (r1, st, w1)"
    by (metis prod_cases3)
  have "un_start stored (stored w) uid (NewUnprepareState uid) w"
    by (simp add: un_start_def NewUnprepareState_def)
  from run_validD[OF un_tears_down[where S = "stored w" and uid = uid and c = c, OF assms(2,3)] this run] assms(1) run show ?thesis
    by (auto simp: Unprepare_def split: if_splits sum.splits)
qed

end

end
