(* ===== verification/NodeStore.thy ===== *)
theory NodeStore
  imports CheckpointFile UnprepareSafety
begin

text \<open>
  The node around the prepare service: the checkpoint file, the lock file and, as an abstract value
  \<open>nd_host\<close>, everything else (devices, daemons, CDI files, the operating system). The system calls of the
  store may fail at any point; \<open>os_calls\<close> gives their outcome as a function of the host, which moves on with
  every operation of the store. The store's contract of the prepare service is proved here for the file
  store, whatever the system calls do.
\<close>

section \<open>Files and system calls\<close>

text \<open>A file holds a JSON document or some other text; a new file holds the empty text.\<close>

datatype filedata = Doc json | Raw string

type_synonym files = "(string, filedata) gomap"

record 'h os_calls =
  os_ReadFile :: "'h \<Rightarrow> string option"
  os_MkdirAll :: "'h \<Rightarrow> string option"
  os_CreateTemp :: "'h \<Rightarrow> string + string"
  os_Chmod :: "'h \<Rightarrow> string option"
  os_Write :: "'h \<Rightarrow> (string \<times> string) option"
  os_Close :: "'h \<Rightarrow> string option"
  os_Rename :: "'h \<Rightarrow> string option"
  os_Remove :: "'h \<Rightarrow> string option"
  os_next :: "'h \<Rightarrow> 'h"

text \<open>
  \<open>nd_locked\<close> is whether the lock of the node is held; \<open>nd_unguarded\<close> is a ghost variable that records
  whether a port or the store was ever used without it.
\<close>

record 'h node =
  nd_files :: files
  nd_locked :: bool
  nd_unguarded :: bool
  nd_host :: 'h

definition touch :: "'h node \<Rightarrow> 'h \<Rightarrow> 'h node" where
  "touch w h = w\<lparr> nd_unguarded := nd_unguarded w \<or> \<not> nd_locked w, nd_host := h \<rparr>"

section \<open>The store\<close>

definition temp_name :: "string \<Rightarrow> string \<Rightarrow> string" where
  "temp_name path random = path @ ''.'' @ random @ ''.tmp''"

definition remove_temp :: "'h os_calls \<Rightarrow> 'h \<Rightarrow> string \<Rightarrow> files \<Rightarrow> files" where
  "remove_temp os h tmp fs = (case os_Remove os h of Some _ \<Rightarrow> fs | None \<Rightarrow> mdel tmp fs)"

text \<open>
  The contents of the directory after each system call, the last one being the state the call leaves
  behind; a crash leaves one of these states. A name that is taken counts as a failure of \<open>CreateTemp\<close>,
  which gives up after trying other names.
\<close>

definition writeAtomically ::
  "'h os_calls \<Rightarrow> 'h \<Rightarrow> string \<Rightarrow> filedata \<Rightarrow> files \<Rightarrow> string option \<times> files list" where
  "writeAtomically os h path data fs =
     (case os_CreateTemp os h of
        Inl err \<Rightarrow> (Some (''create temp file: '' @ err), [fs])
      | Inr random \<Rightarrow>
          let tmp = temp_name path random in
          if mget fs tmp \<noteq> None then (Some ''create temp file: exists'', [fs])
          else
            let fs1 = mput tmp (Raw []) fs in
            (case os_Chmod os h of
               Some err \<Rightarrow> (Some (''chmod temp file: '' @ err), [fs, fs1, remove_temp os h tmp fs1])
             | None \<Rightarrow>
                 (case os_Write os h of
                    Some (err, part) \<Rightarrow>
                      let fs2 = mput tmp (Raw part) fs1 in
                      (Some (''write temp file: '' @ err), [fs, fs1, fs2, remove_temp os h tmp fs2])
                  | None \<Rightarrow>
                      let fs2 = mput tmp data fs1 in
                      (case os_Close os h of
                         Some err \<Rightarrow> (Some (''close temp file: '' @ err), [fs, fs1, fs2, remove_temp os h tmp fs2])
                       | None \<Rightarrow>
                           (case os_Rename os h of
                              Some err \<Rightarrow> (Some (''rename checkpoint: '' @ err), [fs, fs1, fs2, remove_temp os h tmp fs2])
                            | None \<Rightarrow>
                                let fs3 = mput path data (mdel tmp fs2) in
                                (None, [fs, fs1, fs2, fs3, remove_temp os h tmp fs3]))))))"

definition Store_Save ::
  "'h os_calls \<Rightarrow> string \<Rightarrow> PrepareCheckpoint \<Rightarrow> 'h node \<Rightarrow> string option \<times> 'h node" where
  "Store_Save os path cp w =
     (if path = [] then (Some ''checkpoint path is not configured'', w)
      else
        (case os_MkdirAll os (nd_host w) of
           Some err \<Rightarrow> (Some (''ensure checkpoint dir: '' @ err), touch w (os_next os (nd_host w)))
         | None \<Rightarrow>
             (case writeAtomically os (nd_host w) path (Doc (marshal_checkpoint cp)) (nd_files w) of
                (err, trace) \<Rightarrow> (err, (touch w (os_next os (nd_host w)))\<lparr> nd_files := last trace \<rparr>))))"

definition read_checkpoint :: "filedata option \<Rightarrow> string + PrepareCheckpoint" where
  "read_checkpoint data =
     (case data of
        None \<Rightarrow> Inr no_checkpoint
      | Some (Raw text) \<Rightarrow> if text = [] then Inr no_checkpoint else Inl ''decode checkpoint: not JSON''
      | Some (Doc j) \<Rightarrow> (case unmarshal_checkpoint j of Inl e \<Rightarrow> Inl (''decode checkpoint: '' @ e) | Inr cp \<Rightarrow> Inr cp))"

definition Store_Load :: "'h os_calls \<Rightarrow> string \<Rightarrow> 'h node \<Rightarrow> (string + PrepareCheckpoint) \<times> 'h node" where
  "Store_Load os path w =
     (if path = [] then (Inl ''checkpoint path is not configured'', w)
      else
        let w' = touch w (os_next os (nd_host w)) in
        if mget (nd_files w) path = None then (read_checkpoint None, w')
        else
          (case os_ReadFile os (nd_host w) of
             Some err \<Rightarrow> (Inl (''read checkpoint: '' @ err), w')
           | None \<Rightarrow> (read_checkpoint (mget (nd_files w) path), w')))"

definition file_store :: "'h os_calls \<Rightarrow> string \<Rightarrow> 'h node PrepareCheckpointStore" where
  "file_store os path = \<lparr> st_Load = Store_Load os path, st_Save = Store_Save os path \<rparr>"

text \<open>The claims on disk; an unreadable file holds none.\<close>

definition disk_claims :: "string \<Rightarrow> 'h node \<Rightarrow> string \<Rightarrow> PreparedClaim option" where
  "disk_claims path w =
     (case read_checkpoint (mget (nd_files w) path) of Inl _ \<Rightarrow> Map.empty | Inr cp \<Rightarrow> claims_of cp)"

section \<open>Atomic replacement\<close>

lemma temp_name_neq [simp]: "temp_name path r \<noteq> path" "path \<noteq> temp_name path r"
  by (simp_all add: temp_name_def)

lemma mget_remove_temp:
  "mget (remove_temp os h tmp fs) n = (if os_Remove os h = None \<and> n = tmp then None else mget fs n)"
  by (simp add: remove_temp_def split: option.split)

lemma atomic_last:
  assumes "writeAtomically os h path data fs = (err, trace)"
  shows "mget (last trace) path = (case err of None \<Rightarrow> Some data | Some _ \<Rightarrow> mget fs path)"
  using assms by (auto simp: writeAtomically_def Let_def mget_remove_temp split: sum.splits option.splits prod.splits if_splits)

text \<open>
  \<^bold>\<open>C14.\<close> Replacing the checkpoint is atomic: whatever system calls fail, in every state the directory goes
  through (so also after a crash) the checkpoint file has its old contents or the complete new ones. The
  call reports success exactly if it leaves the new contents, and an error only with the old ones. No other
  file that was there is touched.
\<close>

theorem writeAtomically_atomic:
  "(case writeAtomically os h path data fs of
      (err, trace) \<Rightarrow>
        list_all (\<lambda>fs'. mget fs' path = mget fs path \<or> mget fs' path = Some data) trace \<and>
        mget (last trace) path = (case err of None \<Rightarrow> Some data | Some _ \<Rightarrow> mget fs path) \<and>
        list_all (\<lambda>fs'. list_all (\<lambda>n. n = path \<or> mget fs' n = mget fs n) (mkeys fs)) trace)"
proof -
  have other: "(temp_name path r, b) \<notin> set fs" if "mget fs (temp_name path r) = None" for r b
    using that by (metis map_of_eq_None_iff fst_conv image_eqI)
  show ?thesis
    by (auto simp: writeAtomically_def Let_def mget_remove_temp list_all_iff
        split: sum.splits option.splits prod.splits dest: other)
qed

section \<open>The file store keeps the contract\<close>

lemma nd_files_touch [simp]: "nd_files (touch w h) = nd_files w"
  by (simp add: touch_def)

lemma disk_claims_simps [simp]:
  "disk_claims path (w\<lparr> nd_host := h \<rparr>) = disk_claims path w"
  "disk_claims path (w\<lparr> nd_locked := b \<rparr>) = disk_claims path w"
  "disk_claims path (touch w h) = disk_claims path w"
  by (simp_all add: disk_claims_def)

lemma read_marshalled:
  "\<exists>cp'. read_checkpoint (Some (Doc (marshal_checkpoint cp))) = Inr cp' \<and> claims_of cp' = claims_of cp"
  using unmarshal_checkpoint_marshal[of cp] by (auto simp: read_checkpoint_def claims_of_def fun_eq_iff split: option.split)

interpretation disk: checkpoint_store "disk_claims path" "file_store os path" for os path
proof
  show "claims_of cp = disk_claims path w \<and> disk_claims path w' = disk_claims path w"
    if "st_Load (file_store os path) w = (Inr cp, w')" for w cp w'
    using that by (auto simp: file_store_def Store_Load_def disk_claims_def Let_def split: if_splits option.splits)
  show "disk_claims path w' = disk_claims path w"
    if "st_Load (file_store os path) w = (Inl e, w')" for w e w'
    using that by (auto simp: file_store_def Store_Load_def disk_claims_def Let_def split: if_splits option.splits)
  show "disk_claims path w' = claims_of cp"
    if "st_Save (file_store os path) cp w = (None, w')" for w cp w'
    using that read_marshalled[of cp]
    by (auto simp: file_store_def Store_Save_def disk_claims_def split: if_splits option.splits prod.splits dest!: atomic_last)
  show "disk_claims path w' = disk_claims path w"
    if "st_Save (file_store os path) cp w = (Some e, w')" for w cp e w'
    using that
    by (auto simp: file_store_def Store_Save_def disk_claims_def split: if_splits option.splits prod.splits dest!: atomic_last)
qed

section \<open>The node as the world of the service\<close>

text \<open>
  A port of the host acts on the host only; it neither writes the checkpoint file nor holds the lock. The
  lock of the service is taken with the outcome the host gives and released by its unlock function, also
  where the release reports an error: closing the file drops the lock.
\<close>

definition on_host :: "('h \<Rightarrow> 'r \<times> 'h) \<Rightarrow> 'h node \<Rightarrow> 'r \<times> 'h node" where
  "on_host f w = (case f (nd_host w) of (r, h) \<Rightarrow> (r, touch w h))"

definition node_MIG :: "'h MigManager \<Rightarrow> 'h node MigManager" where
  "node_MIG m = \<lparr> mig_Prepare = (\<lambda>r. on_host (mig_Prepare m r)), mig_Unprepare = (\<lambda>s. on_host (mig_Unprepare m s)) \<rparr>"

definition node_VFIO :: "'h VfioManager \<Rightarrow> 'h node VfioManager" where
  "node_VFIO v = \<lparr> vfio_Prepare = (\<lambda>r. on_host (vfio_Prepare v r)), vfio_Unprepare = (\<lambda>s. on_host (vfio_Unprepare v s)) \<rparr>"

definition node_checker :: "'h GPUProcessChecker \<Rightarrow> 'h node GPUProcessChecker" where
  "node_checker c = \<lparr> gc_EnsureGPUFree = (\<lambda>p. on_host (gc_EnsureGPUFree c p)) \<rparr>"

definition node_TimeSlicing :: "'h TimeSlicingManager \<Rightarrow> 'h node TimeSlicingManager" where
  "node_TimeSlicing t = \<lparr> ts_SetTimeSlice = (\<lambda>us c. on_host (ts_SetTimeSlice t us c)) \<rparr>"

definition node_Mps :: "('q, 'h) MpsManager \<Rightarrow> ('q, 'h node) MpsManager" where
  "node_Mps m = \<lparr> mps_Start = (\<lambda>r. on_host (mps_Start m r)), mps_Stop = (\<lambda>s. on_host (mps_Stop m s)) \<rparr>"

definition node_CDI :: "('q, 'h) CDIWriter \<Rightarrow> ('q, 'h node) CDIWriter" where
  "node_CDI c = \<lparr> cdi_Write = (\<lambda>r. on_host (cdi_Write c r)), cdi_Delete = (\<lambda>u. on_host (cdi_Delete c u)) \<rparr>"

definition node_notifier :: "'h ResourcesChangeNotifier \<Rightarrow> 'h node ResourcesChangeNotifier" where
  "node_notifier n = \<lparr> nt_Notify = (\<lambda>w. touch w (nt_Notify n (nd_host w))) \<rparr>"

definition node_locker :: "'h PrepareLocker \<Rightarrow> 'h node PrepareLocker" where
  "node_locker l =
     \<lparr> lk_Lock = (\<lambda>w.
         (case lk_Lock l (nd_host w) of
            (Inl err, h) \<Rightarrow> (Inl err, w\<lparr> nd_host := h \<rparr>)
          | (Inr release, h) \<Rightarrow>
              (Inr (\<lambda>w. (case release (nd_host w) of (err, h) \<Rightarrow> (err, w\<lparr> nd_locked := False, nd_host := h \<rparr>))),
               w\<lparr> nd_locked := True, nd_host := h \<rparr>))) \<rparr>"

definition node_options :: "'h os_calls \<Rightarrow> string \<Rightarrow> ('q, 'h) Options \<Rightarrow> ('q, 'h node) Options" where
  "node_options os path host =
     \<lparr> opt_CDI = map_option node_CDI (opt_CDI host), opt_MIG = map_option node_MIG (opt_MIG host),
       opt_VFIO = map_option node_VFIO (opt_VFIO host),
       opt_TimeSlicing = map_option node_TimeSlicing (opt_TimeSlicing host),
       opt_Mps = map_option node_Mps (opt_Mps host), opt_Locker = map_option node_locker (opt_Locker host),
       opt_Checkpoints = Some (file_store os path), opt_GPUChecker = map_option node_checker (opt_GPUChecker host),
       opt_ResourcesNotifier = map_option node_notifier (opt_ResourcesNotifier host),
       marshal_mps = marshal_mps host, sha256hex = sha256hex host, range_order = range_order host \<rparr>"

lemma keeps_on_host: "(\<And>w h. I w \<Longrightarrow> I (touch w h)) \<Longrightarrow> keeps I (on_host f)"
  by (auto simp: keeps_def on_host_def split: prod.splits)

lemma node_ports_keep:
  assumes "\<And>w h. I w \<Longrightarrow> I (touch w h)"
  shows "ports_keep I (node_options os path host)"
  by (auto simp: assms keeps_on_host[where I = I, OF assms] ports_keep_def keeps_defs node_options_def node_MIG_def node_VFIO_def
      node_checker_def node_TimeSlicing_def node_Mps_def node_CDI_def node_notifier_def)

lemma node_lock_keeps:
  assumes "\<And>w h. I (w\<lparr> nd_host := h \<rparr>) = I w" and "\<And>w b. I (w\<lparr> nd_locked := b \<rparr>) = I w"
  shows "locker_keeps I (opt_Locker (node_options os path host))"
  by (auto simp: locker_keeps_def node_options_def node_locker_def keeps_def assms split: prod.splits sum.splits)

interpretation gpu_node: prepare_node "disk_claims path" "file_store os path" "node_options os path host" for os path host
proof unfold_locales
  show "opt_Checkpoints (node_options os path host) = Some (file_store os path)"
    by (simp add: node_options_def)
  show "ports_keep (\<lambda>w. disk_claims path w = S) (node_options os path host)" for S
    by (rule node_ports_keep) simp
  show "locker_keeps (\<lambda>w. disk_claims path w = S) (opt_Locker (node_options os path host))" for S
    by (rule node_lock_keeps) simp_all
qed

section \<open>Preparation on the node\<close>

text \<open>
  \<^bold>\<open>C11.\<close> Preparing a claim, whatever the host and the system calls do: if it succeeds, the claim is on disk as
  completed, with one entry per requested device, in order, from which the returned devices and CDI names are
  read off; every MIG device has its instance, and with VFIO every device is physical, exclusively allocated
  and bound. If it fails, the claims on disk are as before, or the claim, not completed before, is marked as
  started. A claim that was completed before is answered from disk. No other claim changes.
\<close>

theorem Prepare_on_disk:
  "(case Prepare (node_options os path host) req w of
      (Inl _, w') \<Rightarrow> prepare_failed (disk_claims path w) req (disk_claims path w')
    | (Inr res, w') \<Rightarrow> prepare_done (disk_claims path w) req res (disk_claims path w'))"
  using gpu_node.Prepare_stored[of os path host req w]
  by (auto split: prod.splits sum.splits)

lemma on_host_None: "on_host f w = (None, w') \<Longrightarrow> \<exists>h h'. f h = (None, h')"
  by (auto simp: on_host_def split: prod.splits)

lemma node_torn_down: "torn_down (node_options os path host) uid c \<Longrightarrow> torn_down host uid c"
  by (fastforce simp: torn_down_def mig_down_def vfio_down_def cdi_down_def node_options_def node_MIG_def node_VFIO_def
      node_CDI_def dest: on_host_None)

text \<open>
  What Unprepare does to the claims on disk in every case. A claim that is only started, or that has no devices,
  is passed over with success and stays on disk.
\<close>

lemma Unprepare_outcome:
  "(case Unprepare (node_options os path host) uid w of
      (r, w') \<Rightarrow> disk_claims path w' =
        (case r of None \<Rightarrow> unprepare_done (disk_claims path w) uid | Some _ \<Rightarrow> disk_claims path w))"
  using gpu_node.Unprepare_stored[of os path host uid w] by (auto split: prod.splits)

text \<open>
  \<^bold>\<open>C12.\<close> Unpreparing a claim that is absent or whose preparation was finished, whatever the host and the system
  calls do: if it succeeds, the managers the service is built with have reported success for every MIG instance and VFIO
  binding of the claim and the CDI writer for its file, and exactly this claim is gone from disk; if it fails, the claims on disk
  are as before, so that a retry sees what is left to do. No other claim changes.
\<close>

theorem Unprepare_on_disk:
  assumes "\<forall>c. disk_claims path w uid = Some c \<longrightarrow> cl_Devices c \<noteq> [] \<and> cl_State c \<noteq> PrepareStateStarted"
    and "Unprepare (node_options os path host) uid w = (r, w')"
  shows "case r of
      None \<Rightarrow> disk_claims path w' = (disk_claims path w)(uid := None) \<and>
        (\<forall>c. disk_claims path w uid = Some c \<longrightarrow> torn_down host uid c)
    | Some _ \<Rightarrow> disk_claims path w' = disk_claims path w"
proof (cases r)
  case None
  have "torn_down host uid c" if "disk_claims path w uid = Some c" for c
    using gpu_node.Unprepare_tears_down[OF assms(2)[unfolded None] that] assms(1) that
    by (auto simp: skipped_def intro: node_torn_down)
  moreover have "disk_claims path w' = (disk_claims path w)(uid := None)"
    using Unprepare_outcome[where os = os and path = path and host = host and uid = uid and w = w] assms None
    by (auto simp: unprepare_done_def skipped_def fun_eq_iff split: option.splits)
  ultimately show ?thesis using None by simp
qed (use Unprepare_outcome[where os = os and path = path and host = host and uid = uid and w = w] assms(2) in auto)

subsection \<open>Preparing again\<close>

lemma run_same_prefix:
  assumes "step_valid P s Q R E" "P obj w" and "\<And>obj w. Q obj w \<Longrightarrow> Run ss1 obj w = Run ss2 obj w"
  shows "Run (s # ss1) obj w = Run (s # ss2) obj w"
  using step_validD[OF assms(1,2)] assms(3) by (auto split: prod.splits sum.splits option.splits)

text \<open>
  \<open>same_frontend\<close>: two hosts that share the locker and are both able to write CDI files, but may differ in
  every port that touches devices.
\<close>

definition same_frontend :: "('q, 'h) Options \<Rightarrow> ('q, 'h) Options \<Rightarrow> bool" where
  "same_frontend host host' \<longleftrightarrow>
     opt_Locker host' = opt_Locker host \<and> Option.is_none (opt_CDI host') = Option.is_none (opt_CDI host)"

lemma completed_run:
  assumes "completed S (pr_ClaimUID req)" and "disk_claims path w = S" and "same_frontend host host'"
  shows "Run (newPrepareSteps (node_options os path host')) (NewPrepareState req) w =
         Run (newPrepareSteps (node_options os path host)) (NewPrepareState req) w"
proof -
  let ?o = "node_options os path host" and ?o' = "node_options os path host'"
  have same: "opt_Locker ?o' = opt_Locker ?o" "opt_Checkpoints ?o' = opt_Checkpoints ?o"
    using assms(3) by (simp_all add: same_frontend_def node_options_def)
  have start: "at_start (disk_claims path) S req (NewPrepareState req) w"
    using assms(2) by (simp add: at_start_def NewPrepareState_def)
  have never: "at_fresh (disk_claims path) S req st w \<Longrightarrow> Run ss1 st w = Run ss2 st w" for st w ss1 ss2
    using assms(1) by (simp add: at_fresh_def)
  show ?thesis
    unfolding newPrepareSteps_def same
    by (rule run_same_prefix[OF gpu_node.validate_step start],
        erule run_same_prefix[OF gpu_node.lock_step], erule run_same_prefix[OF gpu_node.load_step],
        erule run_same_prefix[OF gpu_node.short_circuit_step], erule never)
qed

text \<open>
  \<^bold>\<open>C13.\<close> Preparing a claim again is idempotent: once a claim is completed on disk, a later successful call for it
  returns the devices recorded there, changes nothing on disk, and uses no port that touches devices: with any
  other MIG, VFIO, sharing, CDI and notification ports the call has the same outcome and leaves the same node.
\<close>

theorem Prepare_idempotent:
  assumes "disk_claims path w (pr_ClaimUID req) = Some \<lparr> cl_State = PrepareStateCompleted, cl_Devices = states \<rparr>"
    and "same_frontend host host'"
  shows "Prepare (node_options os path host') req w = Prepare (node_options os path host) req w \<and>
    (case Prepare (node_options os path host) req w of
       (Inr res, w') \<Rightarrow> res = result_of (pr_ClaimUID req) states \<and> disk_claims path w' = disk_claims path w
     | (Inl _, w') \<Rightarrow> disk_claims path w' = disk_claims path w)"
proof -
  have c: "completed (disk_claims path w) (pr_ClaimUID req)"
    using assms(1) by (simp add: completed_def)
  have none: "Option.is_none (opt_CDI (node_options os path host')) = Option.is_none (opt_CDI (node_options os path host))"
    using assms(2) by (auto simp: same_frontend_def node_options_def Option.is_none_def)
  show ?thesis
    using completed_run[OF c refl assms(2)] none gpu_node.Prepare_stored[of os path host req w] c assms(1)
    by (auto simp: Prepare_def[of "node_options os path host'"] Prepare_def[of "node_options os path host"]
        prepare_done_def prepare_failed_def split: prod.splits sum.splits)
qed

subsection \<open>An example node\<close>

text \<open>A host that answers every call; its state is the list of the calls that reached it.\<close>

definition ex_host :: "(int64 \<times> qformat, string list) Options" where
  "ex_host =
     \<lparr> opt_CDI = Some \<lparr> cdi_Write = (\<lambda>r h. (Inr (map (\<lambda>d. (pd_Device d, [''gpu='' @ pd_Device d])) (pr_Devices r)), h @ [''cdi''])),
                        cdi_Delete = (\<lambda>u h. (None, h @ [''cdi-delete''])) \<rparr>,
       opt_MIG = Some \<lparr> mig_Prepare = (\<lambda>r h. (Inr \<lparr> pmd_PCIBusID = mpr_PCIBusID r, pmd_ProfileID = mpr_ProfileID r,
                            pmd_SliceStart = mpr_SliceStart r, pmd_SliceSize = mpr_SliceSize r, pmd_GPUInstanceID = 1,
                            pmd_ComputeInstanceID = 0, pmd_DeviceUUID = ''MIG-1'' \<rparr>, h @ [''mig''])),
                        mig_Unprepare = (\<lambda>s h. (None, h @ [''mig-delete''])) \<rparr>,
       opt_VFIO = None, opt_TimeSlicing = None, opt_Mps = None,
       opt_Locker = Some \<lparr> lk_Lock = (\<lambda>h. (Inr (\<lambda>h. (None, h)), h)) \<rparr>,
       opt_Checkpoints = None, opt_GPUChecker = None, opt_ResourcesNotifier = None,
       marshal_mps = (\<lambda>_. None), sha256hex = (\<lambda>s. s), range_order = (\<lambda>n. [0 ..< n]) \<rparr>"

definition ex_os :: "string list os_calls" where
  "ex_os = \<lparr> os_ReadFile = (\<lambda>_. None), os_MkdirAll = (\<lambda>_. None), os_CreateTemp = (\<lambda>_. Inr ''1''), os_Chmod = (\<lambda>_. None),
             os_Write = (\<lambda>_. None), os_Close = (\<lambda>_. None), os_Rename = (\<lambda>_. None), os_Remove = (\<lambda>_. None), os_next = (\<lambda>h. h) \<rparr>"

definition ex_device :: "(int64 \<times> qformat) PrepareDevice" where
  "ex_device =
     \<lparr> pd_Request = ''r'', pd_Driver = ''gpu'', pd_Pool = ''n1'', pd_Device = ''mig-0000-17-00-0-p14-s2-n1'', pd_ShareID = [],
       pd_ConsumedCapacity = [],
       pd_Attributes = [(AttrDeviceType, string_attr ''MIG''), (AttrPCIAddress, string_attr ''0000:17:00.0'')],
       pd_Config = None \<rparr>"

definition ex_request :: "(int64 \<times> qformat) PrepareRequest" where
  "ex_request = \<lparr> pr_ClaimUID = ''c1'', pr_NodeName = ''n1'', pr_VFIO = False, pr_Devices = [ex_device] \<rparr>"

definition ex_prepared :: PreparedDeviceState where
  "ex_prepared =
     \<lparr> dvs_Request = ''r'', dvs_Pool = ''n1'', dvs_Device = ''mig-0000-17-00-0-p14-s2-n1'',
       dvs_CDIDeviceIDs = [''gpu=mig-0000-17-00-0-p14-s2-n1''],
       dvs_MIG = Some \<lparr> pmd_PCIBusID = ''0000:17:00.0'', pmd_ProfileID = 14, pmd_SliceStart = 2, pmd_SliceSize = 1,
                       pmd_GPUInstanceID = 1, pmd_ComputeInstanceID = 0, pmd_DeviceUUID = ''MIG-1'' \<rparr>,
       dvs_VFIO = None, dvs_Sharing = None \<rparr>"

definition ex_node :: "string list node" where
  "ex_node = \<lparr> nd_files = [], nd_locked = False, nd_unguarded = False, nd_host = [] \<rparr>"

definition ex_prepared_node :: "string list node" where
  "ex_prepared_node = snd (Prepare (node_options ex_os ''cp'' ex_host) ex_request ex_node)"

lemma ex_Prepare:
  "Prepare (node_options ex_os ''cp'' ex_host) ex_request ex_node =
     (Inr (result_of ''c1'' [ex_prepared]),
      \<lparr> nd_files = [(''cp'', Doc (marshal_checkpoint \<lparr> ck_Version = ''v1'',
           ck_Claims = Some [(''c1'', \<lparr> cl_State = PrepareStateCompleted, cl_Devices = [ex_prepared] \<rparr>)] \<rparr>))],
        nd_locked = False, nd_unguarded = False, nd_host = [''mig'', ''cdi''] \<rparr>)"
  by code_simp

theorem Prepare_idempotent_witness:
  "Prepare (node_options ex_os ''cp'' (ex_host\<lparr> opt_MIG := None \<rparr>)) ex_request ex_prepared_node =
   Prepare (node_options ex_os ''cp'' ex_host) ex_request ex_prepared_node"
proof -
  have "disk_claims ''cp'' ex_prepared_node (pr_ClaimUID ex_request) =
      Some \<lparr> cl_State = PrepareStateCompleted, cl_Devices = [ex_prepared] \<rparr>"
    unfolding ex_prepared_node_def ex_Prepare by code_simp
  moreover have "same_frontend ex_host (ex_host\<lparr> opt_MIG := None \<rparr>)"
    by (simp add: same_frontend_def)
  ultimately show ?thesis
    using Prepare_idempotent by blast
qed

theorem Unprepare_on_disk_witness:
  "disk_claims ''cp'' ex_prepared_node ''c1'' \<noteq> None \<and>
   (case Unprepare (node_options ex_os ''cp'' ex_host) ''c1'' ex_prepared_node of
      (r, w') \<Rightarrow> r = None \<and> disk_claims ''cp'' w' ''c1'' = None)"
proof -
  have d: "disk_claims ''cp'' ex_prepared_node ''c1'' =
      Some \<lparr> cl_State = PrepareStateCompleted, cl_Devices = [ex_prepared] \<rparr>"
    unfolding ex_prepared_node_def ex_Prepare by code_simp
  then have p: "\<forall>c. disk_claims ''cp'' ex_prepared_node ''c1'' = Some c \<longrightarrow> cl_Devices c \<noteq> [] \<and> cl_State c \<noteq> PrepareStateStarted"
    by (simp add: PrepareStateCompleted_def PrepareStateStarted_def)
  have "fst (Unprepare (node_options ex_os ''cp'' ex_host) ''c1'' ex_prepared_node) = None"
    unfolding ex_prepared_node_def ex_Prepare by code_simp
  with Unprepare_on_disk[OF p, of ex_os ex_host] d show ?thesis
    by (auto split: prod.splits)
qed

end
