(* ===== verification/NodeLock.thy ===== *)
theory NodeLock
  imports NodeStore
begin

text \<open>
  The lock of the node: the waiting loop of \<open>pkg/dra/adapters/lock/fslock\<close>, and the proof that prepare and
  unprepare call ports only between taking the lock and releasing it, and always release it.
\<close>

section \<open>Waiting for the lock\<close>

text \<open>
  One round of the loop is one call of \<open>flock\<close> and, if another process holds the lock, one wait that ends
  with the retry delay or with the cancellation of the context. \<open>attempt n\<close> and \<open>cancelled n\<close> are what round
  \<open>n\<close> meets. The loop may run forever; then its value is \<open>None\<close>. The file handle itself is not part of the model: the
  code closes it on each path that returns an error, and the function it returns after success unlocks and closes it
  (\<open>Locker_release\<close>, from the outcomes of the two calls).
\<close>

datatype flock_result = FlockAcquired | FlockWouldBlock | FlockFailed string

partial_function (option) lock_loop ::
  "(nat \<Rightarrow> flock_result) \<Rightarrow> (nat \<Rightarrow> string option) \<Rightarrow> nat \<Rightarrow> (string + nat) option" where
  "lock_loop attempt cancelled n =
     (case attempt n of
        FlockAcquired \<Rightarrow> Some (Inr n)
      | FlockFailed err \<Rightarrow> Some (Inl (''acquire lock: '' @ err))
      | FlockWouldBlock \<Rightarrow>
          (case cancelled n of
             Some err \<Rightarrow> Some (Inl err)
           | None \<Rightarrow> lock_loop attempt cancelled (Suc n)))"

definition Locker_Lock ::
  "string \<Rightarrow> string option \<Rightarrow> (nat \<Rightarrow> flock_result) \<Rightarrow> (nat \<Rightarrow> string option) \<Rightarrow> (string + nat) option" where
  "Locker_Lock path open_error attempt cancelled =
     (if path = [] then Some (Inl ''lock path is not configured'')
      else
        (case open_error of
           Some err \<Rightarrow> Some (Inl (''open lock file: '' @ err))
         | None \<Rightarrow> lock_loop attempt cancelled 0))"

definition Locker_release :: "string option \<Rightarrow> string option \<Rightarrow> string option" where
  "Locker_release lockErr closeErr =
     (case lockErr of
        Some err \<Rightarrow> Some (''release lock: '' @ err)
      | None \<Rightarrow> (case closeErr of Some err \<Rightarrow> Some (''close lock file: '' @ err) | None \<Rightarrow> None))"

lemma lock_loop_waits:
  assumes "\<And>i. n \<le> i \<Longrightarrow> i < m \<Longrightarrow> attempt i = FlockWouldBlock \<and> cancelled i = None" and "n \<le> m"
  shows "lock_loop attempt cancelled n = lock_loop attempt cancelled m"
  using assms(2,1)
proof (induction rule: inc_induct)
  case (step n)
  then have "attempt n = FlockWouldBlock" "cancelled n = None" by auto
  then have "lock_loop attempt cancelled n = lock_loop attempt cancelled (Suc n)"
    by (subst lock_loop.simps) simp
  with step show ?case by simp
qed simp

definition decided :: "(nat \<Rightarrow> flock_result) \<Rightarrow> (nat \<Rightarrow> string option) \<Rightarrow> nat \<Rightarrow> bool" where
  "decided attempt cancelled i \<longleftrightarrow> attempt i \<noteq> FlockWouldBlock \<or> cancelled i \<noteq> None"

definition round_result :: "(nat \<Rightarrow> flock_result) \<Rightarrow> (nat \<Rightarrow> string option) \<Rightarrow> nat \<Rightarrow> string + nat" where
  "round_result attempt cancelled i =
     (case attempt i of
        FlockAcquired \<Rightarrow> Inr i
      | FlockFailed err \<Rightarrow> Inl (''acquire lock: '' @ err)
      | FlockWouldBlock \<Rightarrow> Inl (case cancelled i of Some err \<Rightarrow> err | None \<Rightarrow> []))"

lemma lock_loop_decided:
  assumes "decided attempt cancelled i" and "\<forall>j < i. \<not> decided attempt cancelled j"
  shows "lock_loop attempt cancelled 0 = Some (round_result attempt cancelled i)"
proof -
  have "lock_loop attempt cancelled 0 = lock_loop attempt cancelled i"
    using assms(2) by (intro lock_loop_waits) (auto simp: decided_def)
  also have "\<dots> = Some (round_result attempt cancelled i)"
    using assms(1) by (subst lock_loop.simps)
      (auto simp: decided_def round_result_def split: flock_result.split option.split)
  finally show ?thesis .
qed

lemma lock_loop_returns:
  assumes "lock_loop attempt cancelled n = Some r"
  shows "\<exists>i. decided attempt cancelled i"
proof -
  have "\<exists>i. decided attempt cancelled i" if "lock_loop attempt cancelled n = Some r" for n r
    using that
  proof (induction rule: lock_loop.raw_induct[rotated 1, consumes 1])
    case (1 lock_loop attempt cancelled n r)
    show ?case
    proof (cases "decided attempt cancelled n")
      case False
      with 1(2) have "lock_loop attempt cancelled (Suc n) = Some r" by (simp add: decided_def)
      then show ?thesis by (rule 1(1))
    qed blast
  qed
  with assms show ?thesis by blast
qed

text \<open>
  \<^bold>\<open>C16.\<close> When waiting for the lock ends: a call with a lock path and an open lock file returns exactly if some
  round acquires the lock, fails or finds its context cancelled; it returns the outcome of the first such
  round, so it holds the lock exactly if that round acquired it. As long as another process holds the lock
  and the context lives, the call waits.
\<close>

theorem Locker_Lock_waits:
  assumes "path \<noteq> []"
  shows "((\<exists>r. Locker_Lock path None attempt cancelled = Some r) \<longleftrightarrow> (\<exists>i. decided attempt cancelled i)) \<and>
         (\<forall>i. decided attempt cancelled i \<and> (\<forall>j < i. \<not> decided attempt cancelled j) \<longrightarrow>
            Locker_Lock path None attempt cancelled = Some (round_result attempt cancelled i))"
proof -
  have eq: "Locker_Lock path None attempt cancelled = lock_loop attempt cancelled 0"
    using assms by (simp add: Locker_Lock_def)
  have "\<exists>r. lock_loop attempt cancelled 0 = Some r" if "decided attempt cancelled i" for i
    using lock_loop_decided[OF LeastI[of "decided attempt cancelled", OF that]] not_less_Least by blast
  then show ?thesis
    unfolding eq using lock_loop_returns lock_loop_decided by blast
qed

theorem Locker_Lock_waits_witness:
  "Locker_Lock ''/run/lock'' None (\<lambda>n. if n < 2 then FlockWouldBlock else FlockAcquired) (\<lambda>_. None) = Some (Inr 2)"
proof -
  let ?a = "\<lambda>n. if n < 2 then FlockWouldBlock else FlockAcquired"
  have "decided ?a (\<lambda>_. None) 2 \<and> (\<forall>j < 2. \<not> decided ?a (\<lambda>_. None) j)"
    by (simp add: decided_def)
  then show ?thesis
    using Locker_Lock_waits[of "''/run/lock''" ?a "\<lambda>_. None"] by (simp add: round_result_def)
qed

section \<open>Ports are called under the lock\<close>

definition store_keeps :: "('w \<Rightarrow> bool) \<Rightarrow> 'w PrepareCheckpointStore option \<Rightarrow> bool" where
  "store_keeps I store \<longleftrightarrow> (\<forall>s. store = Some s \<longrightarrow> keeps I (st_Load s) \<and> (\<forall>cp. keeps I (st_Save s cp)))"

lemma Load_keeps: "store_keeps I (Some s) \<Longrightarrow> I w \<Longrightarrow> checkpoint_Load s w = (r, w') \<Longrightarrow> I w'"
  by (auto simp: store_keeps_def checkpoint_Load_def split: prod.splits sum.splits dest: keepsD[of I "st_Load s"])

lemma Save_keeps: "store_keeps I (Some s) \<Longrightarrow> I w \<Longrightarrow> st_Save s cp w = (r, w') \<Longrightarrow> I w'"
  by (auto simp: store_keeps_def dest: keepsD[of I "st_Save s cp"])

lemma cdi_Write_keeps: "cdi_keeps I (Some c) \<Longrightarrow> I w \<Longrightarrow> cdi_Write c q w = (r, w') \<Longrightarrow> I w'"
  unfolding cdi_keeps_def keeps_def by blast

lemma store_steps_keep:
  "store_keeps I store \<Longrightarrow> I w \<Longrightarrow> LoadPrepareCheckpointStep store st w = (r, st', w') \<Longrightarrow> I w'"
  "store_keeps I store \<Longrightarrow> I w \<Longrightarrow> save_claim store state msg st w = (r, st', w') \<Longrightarrow> I w'"
  "store_keeps I store \<Longrightarrow> I w \<Longrightarrow> LoadUnprepareCheckpointStep store ust w = (r, ust', w') \<Longrightarrow> I w'"
  "store_keeps I store \<Longrightarrow> I w \<Longrightarrow> CleanupCheckpointStep store ust w = (r, ust', w') \<Longrightarrow> I w'"
  by (auto simp: LoadPrepareCheckpointStep_def save_claim_def LoadUnprepareCheckpointStep_def CleanupCheckpointStep_def
        Let_def
      split: option.splits prod.splits sum.splits if_splits dest: Load_keeps Save_keeps)

lemma save_steps_keep:
  "store_keeps I store \<Longrightarrow> I w \<Longrightarrow> SavePrepareStartedStep store st w = (r, st', w') \<Longrightarrow> I w'"
  "store_keeps I store \<Longrightarrow> I w \<Longrightarrow> SavePrepareCompletedStep store st w = (r, st', w') \<Longrightarrow> I w'"
  unfolding SavePrepareStartedStep_def SavePrepareCompletedStep_def by (erule (2) store_steps_keep(2))+

lemma other_steps_keep:
  "I w \<Longrightarrow> ShortCircuitPrepareStep st w = (r, st', w') \<Longrightarrow> I w'"
  "I w \<Longrightarrow> PlanPrepareStep mig vfio st w = (r, st', w') \<Longrightarrow> I w'"
  "cdi_keeps I cdi \<Longrightarrow> I w \<Longrightarrow> WriteCDIStep cdi st w = (r, st', w') \<Longrightarrow> I w'"
  "notifier_keeps I nt \<Longrightarrow> I w \<Longrightarrow> NotifyResourcesPrepareStep nt st w = (r, st', w') \<Longrightarrow> I w'"
  "I w \<Longrightarrow> FinalPrepareStep st w = (r, st', w') \<Longrightarrow> I w'"
  "I w \<Longrightarrow> ShortCircuitUnprepareStep ust w = (r, ust', w') \<Longrightarrow> I w'"
  "notifier_keeps I nt \<Longrightarrow> I w \<Longrightarrow> NotifyResourcesUnprepareStep nt ust w = (r, ust', w') \<Longrightarrow> I w'"
  "I w \<Longrightarrow> FinalUnprepareStep ust w = (r, ust', w') \<Longrightarrow> I w'"
  by (auto simp: ShortCircuitPrepareStep_def PlanPrepareStep_def WriteCDIStep_def NotifyResourcesPrepareStep_def
        FinalPrepareStep_def ShortCircuitUnprepareStep_def NotifyResourcesUnprepareStep_def FinalUnprepareStep_def
        notifier_keeps_def
      split: option.splits prod.splits sum.splits if_splits dest: cdi_Write_keeps)

text \<open>
  The contract of the lock: taking it sets \<open>held\<close>, releasing it clears \<open>held\<close>, and all other ports keep
  \<open>held\<close>. The condition \<open>I\<close> is arbitrary, and the ports have to keep it only while the lock is held; so what
  is proved of \<open>I\<close> is proved of a service that calls no port without the lock.
\<close>

locale node_lock =
  fixes held :: "'w \<Rightarrow> bool" and I :: "'w \<Rightarrow> bool" and opts :: "('q, 'w) Options"
  assumes lock_ok: "opt_Locker opts = Some l \<Longrightarrow> lk_Lock l w = (Inr u, w') \<Longrightarrow> I w \<Longrightarrow> held w' \<and> I w'"
    and lock_err: "opt_Locker opts = Some l \<Longrightarrow> lk_Lock l w = (Inl e, w') \<Longrightarrow> \<not> held w \<and> I w \<Longrightarrow> \<not> held w' \<and> I w'"
    and unlock: "opt_Locker opts = Some l \<Longrightarrow> lk_Lock l w = (Inr u, w') \<Longrightarrow> held w1 \<and> I w1 \<Longrightarrow>
       \<not> held (snd (u w1)) \<and> I (snd (u w1))"
    and ports: "ports_keep (\<lambda>w. held w \<and> I w) opts"
    and store: "store_keeps (\<lambda>w. held w \<and> I w) (opt_Checkpoints opts)"
begin

lemma ports_held:
  "mig_keeps (\<lambda>w. held w \<and> I w) (opt_MIG opts)" "vfio_keeps (\<lambda>w. held w \<and> I w) (opt_VFIO opts)"
  "checker_keeps (\<lambda>w. held w \<and> I w) (opt_GPUChecker opts)" "ts_keeps (\<lambda>w. held w \<and> I w) (opt_TimeSlicing opts)"
  "mps_keeps (\<lambda>w. held w \<and> I w) (opt_Mps opts)" "cdi_keeps (\<lambda>w. held w \<and> I w) (opt_CDI opts)"
  "notifier_keeps (\<lambda>w. held w \<and> I w) (opt_ResourcesNotifier opts)"
  using ports unfolding ports_keep_def by blast+

definition ours :: "('w \<Rightarrow> string option \<times> 'w) option \<Rightarrow> 'w \<Rightarrow> bool" where
  "ours unlock w \<longleftrightarrow>
     (case unlock of
        None \<Rightarrow> \<not> held w \<and> I w
      | Some u \<Rightarrow> held w \<and> I w \<and> (\<exists>l w0 w1. opt_Locker opts = Some l \<and> lk_Lock l w0 = (Inr u, w1)))"

lemma released: "ours u w \<Longrightarrow> \<not> held (unlock_world u w) \<and> I (unlock_world u w)"
  using unlock by (auto simp: ours_def unlock_world_def split: option.splits)

definition lock_safe :: "('s \<Rightarrow> ('w \<Rightarrow> string option \<times> 'w) option) \<Rightarrow> ('s, 'w) StepTaker \<Rightarrow> bool" where
  "lock_safe get s \<longleftrightarrow>
     step_valid (\<lambda>st w. get st \<noteq> None \<and> ours (get st) w) s (\<lambda>st w. get st \<noteq> None \<and> ours (get st) w)
       (\<lambda>st w. ours (get st) w) (\<lambda>st w. ours (get st) w)"

lemma held_step:
  assumes "\<And>st w r st' w'. s st w = (r, st', w') \<Longrightarrow> get st' = get st"
    and "\<And>st w r st' w'. held w \<and> I w \<Longrightarrow> s st w = (r, st', w') \<Longrightarrow> held w' \<and> I w'"
  shows "lock_safe get s"
  unfolding lock_safe_def
proof (rule step_validI, goal_cases)
  case (1 st w r st' w')
  with assms(1)[OF 1(2)] assms(2)[OF _ 1(2)] have "get st' \<noteq> None \<and> ours (get st') w'"
    by (auto simp: ours_def)
  then show ?case by (auto split: sum.splits option.splits)
qed

lemma prepare_lock_step:
  "step_valid (\<lambda>st w. ps_Unlock st = None \<and> ours None w) (LockPrepareStep (opt_Locker opts))
     (\<lambda>st w. ps_Unlock st \<noteq> None \<and> ours (ps_Unlock st) w) (\<lambda>st w. ours (ps_Unlock st) w) (\<lambda>st w. ours (ps_Unlock st) w)"
  by (rule step_validI)
     (auto simp: LockPrepareStep_def ours_def split: option.splits prod.splits sum.splits dest: lock_ok lock_err)

lemma unprepare_lock_step:
  "step_valid (\<lambda>st w. us_Unlock st = None \<and> ours None w) (LockUnprepareStep (opt_Locker opts))
     (\<lambda>st w. us_Unlock st \<noteq> None \<and> ours (us_Unlock st) w) (\<lambda>st w. ours (us_Unlock st) w) (\<lambda>st w. ours (us_Unlock st) w)"
  by (rule step_validI)
     (auto simp: LockUnprepareStep_def ours_def split: option.splits prod.splits sum.splits dest: lock_ok lock_err)

lemmas other_held = other_steps_keep[where I = "\<lambda>w. held w \<and> I w"]

lemmas steps_held =
  device_steps_keep(1)[OF ports_held(1)] device_steps_keep(2)[OF ports_held(2)] device_steps_keep(3)[OF ports_held(4)]
  device_steps_keep(4)[OF ports_held(5)] device_steps_keep(5)[OF ports_held(3)]
  teardown_keep(1)[OF ports_held(5)] teardown_keep(2)[OF ports_held(4)] teardown_keep(3)[OF ports_held(1)]
  teardown_keep(4)[OF ports_held(2)] teardown_keep(5)[OF ports_held(6)]
  store_steps_keep(1)[OF store] save_steps_keep(1)[OF store] save_steps_keep(2)[OF store]
  store_steps_keep(3)[OF store] store_steps_keep(4)[OF store]
  other_held(1,2,5,6,8) other_held(3)[OF ports_held(6)] other_held(4)[OF ports_held(7)] other_held(7)[OF ports_held(7)]

lemma prepare_held_steps:
  "lock_safe ps_Unlock (LoadPrepareCheckpointStep (opt_Checkpoints opts))"
  "lock_safe ps_Unlock ShortCircuitPrepareStep"
  "lock_safe ps_Unlock (PlanPrepareStep (opt_MIG opts) (opt_VFIO opts))"
  "lock_safe ps_Unlock (GPUFreeCheckStep (opt_GPUChecker opts))"
  "lock_safe ps_Unlock (SavePrepareStartedStep (opt_Checkpoints opts))"
  "lock_safe ps_Unlock (MigPrepareStep (opt_MIG opts))"
  "lock_safe ps_Unlock (VfioPrepareStep (opt_VFIO opts))"
  "lock_safe ps_Unlock (TimeSlicingPrepareStep ord (opt_TimeSlicing opts))"
  "lock_safe ps_Unlock (MpsPrepareStep marshal sha ord (opt_Mps opts))"
  "lock_safe ps_Unlock (WriteCDIStep (opt_CDI opts))"
  "lock_safe ps_Unlock (SavePrepareCompletedStep (opt_Checkpoints opts))"
  "lock_safe ps_Unlock (NotifyResourcesPrepareStep (opt_ResourcesNotifier opts))"
  "lock_safe ps_Unlock FinalPrepareStep"
  by (rule held_step, erule prepare_steps_unlock, erule (1) steps_held)+

lemma unprepare_held_steps:
  "lock_safe us_Unlock (LoadUnprepareCheckpointStep (opt_Checkpoints opts))"
  "lock_safe us_Unlock ShortCircuitUnprepareStep"
  "lock_safe us_Unlock (MpsUnprepareStep ord (opt_Mps opts))"
  "lock_safe us_Unlock (TimeSlicingUnprepareStep ord (opt_TimeSlicing opts))"
  "lock_safe us_Unlock (MigUnprepareStep (opt_MIG opts))"
  "lock_safe us_Unlock (VfioUnprepareStep (opt_VFIO opts))"
  "lock_safe us_Unlock (DeleteCDIStep (opt_CDI opts))"
  "lock_safe us_Unlock (CleanupCheckpointStep (opt_Checkpoints opts))"
  "lock_safe us_Unlock (NotifyResourcesUnprepareStep (opt_ResourcesNotifier opts))"
  "lock_safe us_Unlock FinalUnprepareStep"
  by (rule held_step, erule unprepare_steps_unlock, erule (1) steps_held)+

lemma held_run: "(\<And>s. s \<in> set ss \<Longrightarrow> lock_safe get s) \<Longrightarrow>
   run_valid (\<lambda>st w. get st \<noteq> None \<and> ours (get st) w) ss (\<lambda>st w. ours (get st) w) (\<lambda>st w. ours (get st) w)"
  by (induction ss) (auto simp: lock_safe_def intro: run_Nil run_Cons)

lemma prepare_ours:
  "run_valid (\<lambda>st w. ps_Unlock st = None \<and> ours None w) (newPrepareSteps opts)
     (\<lambda>st w. ours (ps_Unlock st) w) (\<lambda>st w. ours (ps_Unlock st) w)"
proof -
  have "step_valid (\<lambda>st w. ps_Unlock st = None \<and> ours None w) ValidatePrepareStep
      (\<lambda>st w. ps_Unlock st = None \<and> ours None w) (\<lambda>st w. ours (ps_Unlock st) w) (\<lambda>st w. ours (ps_Unlock st) w)"
    by (rule step_validI) (auto simp: ValidatePrepareStep_def split: if_splits)
  then show ?thesis
    unfolding newPrepareSteps_def
    by (rule run_Cons) (rule run_Cons[OF prepare_lock_step], rule held_run, auto intro: prepare_held_steps)
qed

lemma unprepare_ours:
  "run_valid (\<lambda>st w. us_Unlock st = None \<and> ours None w) (newUnprepareSteps opts)
     (\<lambda>st w. ours (us_Unlock st) w) (\<lambda>st w. ours (us_Unlock st) w)"
proof -
  have "step_valid (\<lambda>st w. us_Unlock st = None \<and> ours None w) ValidateUnprepareStep
      (\<lambda>st w. us_Unlock st = None \<and> ours None w) (\<lambda>st w. ours (us_Unlock st) w) (\<lambda>st w. ours (us_Unlock st) w)"
    by (rule step_validI) (auto simp: ValidateUnprepareStep_def split: if_splits)
  then show ?thesis
    unfolding newUnprepareSteps_def
    by (rule run_Cons) (rule run_Cons[OF unprepare_lock_step], rule held_run, auto intro: unprepare_held_steps)
qed

lemma Prepare_released:
  assumes "\<not> held w \<and> I w" and "Prepare opts req w = (r, w')"
  shows "\<not> held w' \<and> I w'"
proof -
  obtain r1 st w1 where run: "Run (newPrepareSteps opts) (NewPrepareState req) w = (r1, st, w1)"
    by (metis prod_cases3)
  from assms(1) have "ps_Unlock (NewPrepareState req :: ('q, 'w) PrepareState) = None \<and> ours None w"
    by (simp add: NewPrepareState_def ours_def)
  from run_validD[OF prepare_ours this run] have "ours (ps_Unlock st) w1"
    by (cases r1) simp_all
  from released[OF this] assms run show ?thesis
    by (auto simp: Prepare_def split: if_splits)
qed

lemma Unprepare_released:
  assumes "\<not> held w \<and> I w" and "Unprepare opts uid w = (r, w')"
  shows "\<not> held w' \<and> I w'"
proof -
  obtain r1 st w1 where run: "Run (newUnprepareSteps opts) (NewUnprepareState uid) w = (r1, st, w1)"
    by (metis prod_cases3)
  from assms(1) have "us_Unlock (NewUnprepareState uid :: 'w UnprepareState) = None \<and> ours None w"
    by (simp add: NewUnprepareState_def ours_def)
  from run_validD[OF unprepare_ours this run] have "ours (us_Unlock st) w1"
    by (cases r1) simp_all
  from released[OF this] assms run show ?thesis
    by (auto simp: Unprepare_def split: if_splits)
qed

end

section \<open>The lock of the node\<close>

lemma Store_guarded:
  "Store_Load os path w = (r, w') \<Longrightarrow> nd_locked w \<and> \<not> nd_unguarded w \<Longrightarrow> nd_locked w' \<and> \<not> nd_unguarded w'"
  "Store_Save os path cp w = (e, w') \<Longrightarrow> nd_locked w \<and> \<not> nd_unguarded w \<Longrightarrow> nd_locked w' \<and> \<not> nd_unguarded w'"
  by (auto simp: Store_Load_def Store_Save_def touch_def Let_def split: if_splits option.splits prod.splits)

interpretation node_mutex: node_lock nd_locked "\<lambda>w. \<not> nd_unguarded w" "node_options os path host" for os path host
proof unfold_locales
  show "ports_keep (\<lambda>w. nd_locked w \<and> \<not> nd_unguarded w) (node_options os path host)"
    by (rule node_ports_keep) (simp add: touch_def)
  show "store_keeps (\<lambda>w. nd_locked w \<and> \<not> nd_unguarded w) (opt_Checkpoints (node_options os path host))"
    by (auto simp: store_keeps_def keeps_def node_options_def file_store_def dest: Store_guarded)
qed (auto simp: node_options_def node_locker_def split: prod.splits sum.splits)

text \<open>
  \<^bold>\<open>C15.\<close> Work on a node is serialised: starting from an unlocked node, prepare and unprepare use ports and
  checkpoint only while they hold the lock, and the lock is released when they return, however they end and
  whatever the ports, the store and the lock itself answer.
\<close>

theorem node_serialised:
  assumes "\<not> nd_locked w \<and> \<not> nd_unguarded w"
  shows "(case Prepare (node_options os path host) req w of (_, w') \<Rightarrow> \<not> nd_locked w' \<and> \<not> nd_unguarded w') \<and>
         (case Unprepare (node_options os path host) uid w of (_, w') \<Rightarrow> \<not> nd_locked w' \<and> \<not> nd_unguarded w')"
  using node_mutex.Prepare_released[of w os path host req] node_mutex.Unprepare_released[of w os path host uid] assms
  by (auto split: prod.splits)

theorem node_serialised_witness:
  "(case Prepare (node_options ex_os ''cp'' ex_host) ex_request ex_node of (_, w') \<Rightarrow> \<not> nd_locked w' \<and> \<not> nd_unguarded w') \<and>
   (case Unprepare (node_options ex_os ''cp'' ex_host) ''c1'' ex_node of (_, w') \<Rightarrow> \<not> nd_locked w' \<and> \<not> nd_unguarded w')"
  by (rule node_serialised) (simp add: ex_node_def)

end
