(* ===== verification/Inventory.thy ===== *)
theory Inventory
  imports NodeSafety ResourceSlices PrepareSteps
begin

text \<open>
  The inventory of a node, \<open>pkg/gpuhandler/internal/service/inventory\<close>: the offers built from the
  PhysicalGPU objects of a node. A GPU is offered whole, and with MIG also as one device per profile and
  placement; the MIG devices draw on a counter set of the GPU with one counter per memory slice. NVML is a
  parameter. Of a PhysicalGPU the model has the fields this code reads; \<open>int32\<close> values are \<open>int\<close> with the
  wrap-around of additions and multiplications written out.
\<close>

section \<open>Types\<close>

type_synonym int32 = int

definition wrap32 :: "int \<Rightarrow> int32" where
  "wrap32 x = (x + 2 ^ 31) mod 2 ^ 32 - 2 ^ 31"

definition in32 :: "int \<Rightarrow> bool" where
  "in32 x \<longleftrightarrow> - (2 ^ 31) \<le> x \<and> x < 2 ^ 31"

lemma wrap32_id: "- (2 ^ 31) \<le> x \<Longrightarrow> x < 2 ^ 31 \<Longrightarrow> wrap32 x = x"
  by (simp add: wrap32_def)

record PCINamed =
  pn_ID :: string
  pn_Name :: string

record PCIInfo =
  pci_Address :: string
  pci_Class :: "PCINamed option"
  pci_Vendor :: "PCINamed option"
  pci_Device :: "PCINamed option"

record NvidiaMIGProfile =
  mp_ProfileID :: int32
  mp_Name :: string
  mp_MemoryMiB :: int32
  mp_SliceCount :: int32
  mp_MaxInstances :: int32
  mp_Multiprocessors :: int32
  mp_CopyEngines :: int32
  mp_Decoders :: int32
  mp_Encoders :: int32
  mp_JpegEngines :: int32
  mp_OfaEngines :: int32

record NvidiaMIGCapabilities =
  nm_TotalSlices :: int32
  nm_Profiles :: "NvidiaMIGProfile list"

record NvidiaCapabilities =
  nc_ComputeCap :: string
  nc_MIGSupported :: "bool option"
  nc_MIG :: "NvidiaMIGCapabilities option"

record GPUCapabilities =
  gcap_MemoryMiB :: "int64 option"
  gcap_Vendor :: string
  gcap_Nvidia :: "NvidiaCapabilities option"

record NvidiaCurrentState =
  ncs_GPUUUID :: string
  ncs_DriverVersion :: string

record GPUCurrentState =
  gcs_DriverType :: string
  gcs_Nvidia :: "NvidiaCurrentState option"

datatype ConditionStatus = ConditionTrue | ConditionFalse | ConditionUnknown

record StatusCondition =
  sc_Type :: string
  sc_Status :: ConditionStatus
  sc_Reason :: string
  sc_Message :: string
  sc_ObservedGeneration :: int64

record OSInfo =
  os_ID :: string
  os_Version :: string
  os_Name :: string

record NodeInfo =
  ni_NodeName :: string
  ni_OS :: "OSInfo option"
  ni_KernelRelease :: string
  ni_BareMetal :: "bool option"

record PhysicalGPU =
  pg_Name :: string
  pg_Labels :: "(string, string) gomap"
  pg_NodeInfo :: "NodeInfo option"
  pg_PCIInfo :: "PCIInfo option"
  pg_Capabilities :: "GPUCapabilities option"
  pg_CurrentState :: "GPUCurrentState option"
  pg_Generation :: int64
  pg_Conditions :: "StatusCondition list"

definition VendorNvidia :: string where "VendorNvidia = ''Nvidia''"
definition VendorAMD :: string where "VendorAMD = ''Amd''"
definition VendorIntel :: string where "VendorIntel = ''Intel''"

record MigPlacement =
  pl_Start :: int32
  pl_Size :: int32

type_synonym placements = "(int32, MigPlacement list) gomap"
type_synonym MigPlacementSession = "string \<Rightarrow> int32 list \<Rightarrow> string + placements"

record BuildResult =
  br_Devices :: "deviceBase list"
  br_CounterSets :: "CounterSet list"

section \<open>Attributes and capacities\<close>

definition AttrVendor :: string where "AttrVendor = ''gpu.deckhouse.io/vendor''"
definition AttrDevice :: string where "AttrDevice = ''gpu.deckhouse.io/device''"
definition AttrDriverVer :: string where "AttrDriverVer = ''gpu.deckhouse.io/driverVersion''"
definition AttrCCMajor :: string where "AttrCCMajor = ''gpu.deckhouse.io/ccMajor''"
definition AttrCCMinor :: string where "AttrCCMinor = ''gpu.deckhouse.io/ccMinor''"
definition AttrMigProfile :: string where "AttrMigProfile = ''gpu.deckhouse.io/migProfile''"
definition CapMemory :: string where "CapMemory = ''memory''"
definition CapSharePercent :: string where "CapSharePercent = ''sharePercent''"

definition intAttr :: "int64 \<Rightarrow> AttributeValue" where
  "intAttr i = \<lparr> av_String = None, av_Int = Some i, av_Bool = None \<rparr>"

definition parseComputeCap :: "string \<Rightarrow> (int64 \<times> int64) option" where
  "parseComputeCap raw =
     (let raw = TrimSpace raw in
      if raw = [] then None
      else
        (case SplitN2 raw ''.'' of
           None \<Rightarrow> map_option (\<lambda>major. (major, 0)) (Atoi raw)
         | Some (a, b) \<Rightarrow>
             (case Atoi a of
                None \<Rightarrow> None
              | Some major \<Rightarrow> (case Atoi b of None \<Rightarrow> None | Some minor \<Rightarrow> Some (major, minor)))))"

definition normalizeLabelValue :: "string \<Rightarrow> string" where
  "normalizeLabelValue value =
     (let value = ToLower (TrimSpace value) in
      if value = [] then [] else TrimBoth (\<lambda>c. c = CHR ''-'') (sanitize_loop value False))"

definition label_value :: "PhysicalGPU \<Rightarrow> string \<Rightarrow> string" where
  "label_value pgpu k = TrimSpace (case mget (pg_Labels pgpu) k of None \<Rightarrow> [] | Some v \<Rightarrow> v)"

definition vendor_of_capabilities :: "PhysicalGPU \<Rightarrow> string" where
  "vendor_of_capabilities pgpu =
     (case pg_Capabilities pgpu of
        None \<Rightarrow> []
      | Some caps \<Rightarrow>
          if gcap_Vendor caps = VendorNvidia then ''nvidia''
          else if gcap_Vendor caps = VendorAMD then ''amd''
          else if gcap_Vendor caps = VendorIntel then ''intel'' else [])"

definition vendorAttribute :: "PhysicalGPU \<Rightarrow> string" where
  "vendorAttribute pgpu =
     (if label_value pgpu ''gpu.deckhouse.io/vendor'' \<noteq> [] then label_value pgpu ''gpu.deckhouse.io/vendor''
      else if vendor_of_capabilities pgpu \<noteq> [] then vendor_of_capabilities pgpu
      else
        (case pg_PCIInfo pgpu of
           None \<Rightarrow> []
         | Some p \<Rightarrow> (case pci_Vendor p of None \<Rightarrow> [] | Some v \<Rightarrow> normalizeLabelValue (pn_Name v))))"

definition deviceAttribute :: "PhysicalGPU \<Rightarrow> string" where
  "deviceAttribute pgpu =
     (if label_value pgpu ''gpu.deckhouse.io/device'' \<noteq> [] then label_value pgpu ''gpu.deckhouse.io/device''
      else
        (case pg_PCIInfo pgpu of
           None \<Rightarrow> []
         | Some p \<Rightarrow> (case pci_Device p of None \<Rightarrow> [] | Some v \<Rightarrow> normalizeLabelValue (pn_Name v))))"

definition PCIAddressFor :: "PhysicalGPU \<Rightarrow> string" where
  "PCIAddressFor pgpu = (case pg_PCIInfo pgpu of None \<Rightarrow> [] | Some p \<Rightarrow> TrimSpace (pci_Address p))"

definition DeviceName :: "string \<Rightarrow> string \<Rightarrow> string" where
  "DeviceName prefix pciAddress = SanitizeDNSLabel (prefix @ ''-'' @ pciAddress)"

definition put_nonempty :: "string \<Rightarrow> string \<Rightarrow> (string, AttributeValue) gomap \<Rightarrow> (string, AttributeValue) gomap" where
  "put_nonempty k v attrs = (if v \<noteq> [] then mput k (string_attr v) attrs else attrs)"

definition current_nvidia :: "PhysicalGPU \<Rightarrow> NvidiaCurrentState option" where
  "current_nvidia pgpu = (case pg_CurrentState pgpu of None \<Rightarrow> None | Some s \<Rightarrow> gcs_Nvidia s)"

definition BaseAttributes :: "PhysicalGPU \<Rightarrow> string \<Rightarrow> string \<Rightarrow> (string, AttributeValue) gomap" where
  "BaseAttributes pgpu deviceType migProfile =
     (let a1 = put_nonempty AttrVendor (vendorAttribute pgpu) [];
          a2 = put_nonempty AttrDevice (deviceAttribute pgpu) a1;
          a3 = mput AttrDeviceType (string_attr deviceType) a2;
          a4 = put_nonempty AttrPCIAddress (PCIAddressFor pgpu) a3;
          a5 = (case current_nvidia pgpu of
                  None \<Rightarrow> a4
                | Some n \<Rightarrow> put_nonempty AttrDriverVer (TrimSpace (ncs_DriverVersion n))
                             (put_nonempty AttrGPUUUID (TrimSpace (ncs_GPUUUID n)) a4));
          a6 = (case pg_Capabilities pgpu of
                  None \<Rightarrow> a5
                | Some caps \<Rightarrow>
                    (case gcap_Nvidia caps of
                       None \<Rightarrow> a5
                     | Some n \<Rightarrow>
                         (case parseComputeCap (nc_ComputeCap n) of
                            None \<Rightarrow> a5
                          | Some (major, minor) \<Rightarrow> mput AttrCCMinor (intAttr minor) (mput AttrCCMajor (intAttr major) a5))))
      in put_nonempty AttrMigProfile migProfile a6)"

definition MemoryCapacityMiB :: "int64 \<Rightarrow> CapacityValue" where
  "MemoryCapacityMiB memoryMiB = \<lparr> cv_Value = memoryMiB, cv_Unit = CapacityUnitMiB, cv_Policy = None \<rparr>"

definition ShareableMemoryCapacityMiB :: "int64 \<Rightarrow> CapacityValue" where
  "ShareableMemoryCapacityMiB memoryMiB =
     \<lparr> cv_Value = memoryMiB, cv_Unit = CapacityUnitMiB,
       cv_Policy = Some \<lparr> cp_Default = 0, cp_Min = 0, cp_Max = memoryMiB, cp_Step = 1, cp_Unit = CapacityUnitMiB \<rparr> \<rparr>"

definition SharePercentCapacity :: CapacityValue where
  "SharePercentCapacity =
     \<lparr> cv_Value = 100, cv_Unit = CapacityUnitPercent,
       cv_Policy = Some \<lparr> cp_Default = 100, cp_Min = 1, cp_Max = 100, cp_Step = 1, cp_Unit = CapacityUnitPercent \<rparr> \<rparr>"

section \<open>Whole GPUs\<close>

definition buildPhysicalDevice :: "PhysicalGPU \<Rightarrow> string + deviceBase" where
  "buildPhysicalDevice pgpu =
     (let pciAddress = PCIAddressFor pgpu in
      if pciAddress = [] then Inl (''missing pci address for '' @ pg_Name pgpu)
      else
        (case pg_Capabilities pgpu of
           None \<Rightarrow> Inl (''missing capabilities for '' @ pg_Name pgpu)
         | Some caps \<Rightarrow>
             if gcap_Vendor caps \<noteq> VendorNvidia then Inl (''unsupported vendor for '' @ pg_Name pgpu)
             else
               (case gcap_MemoryMiB caps of
                  None \<Rightarrow> Inl (''missing memoryMiB for '' @ pg_Name pgpu)
                | Some mem \<Rightarrow>
                    Inr (NewGPUDevice (DeviceName ''gpu'' pciAddress)
                           (case current_nvidia pgpu of None \<Rightarrow> [] | Some n \<Rightarrow> TrimSpace (ncs_GPUUUID n))
                           (BaseAttributes pgpu DeviceTypePhysical [])
                           [(CapMemory, ShareableMemoryCapacityMiB mem), (CapSharePercent, SharePercentCapacity)]
                           [] True))))"

definition physical_Build :: "PhysicalGPU \<Rightarrow> string + BuildResult" where
  "physical_Build pgpu =
     (case buildPhysicalDevice pgpu of
        Inl err \<Rightarrow> Inl err
      | Inr device \<Rightarrow> Inr \<lparr> br_Devices = [device], br_CounterSets = [] \<rparr>)"

section \<open>MIG devices\<close>

definition counterMemory :: string where "counterMemory = ''memory''"
definition counterMultiprocessor :: string where "counterMultiprocessor = ''multiprocessors''"
definition counterCopyEngines :: string where "counterCopyEngines = ''copy-engines''"
definition counterDecoders :: string where "counterDecoders = ''decoders''"
definition counterEncoders :: string where "counterEncoders = ''encoders''"
definition counterJpegEngines :: string where "counterJpegEngines = ''jpeg-engines''"
definition counterOfaEngines :: string where "counterOfaEngines = ''ofa-engines''"

lemmas counter_name_defs = counterMemory_def counterMultiprocessor_def counterCopyEngines_def counterDecoders_def
  counterEncoders_def counterJpegEngines_def counterOfaEngines_def

record migCountersTotal =
  mt_MemoryMiB :: int64
  mt_TotalSlices :: int32
  mt_Multiprocessors :: int32
  mt_CopyEngines :: int32
  mt_Decoders :: int32
  mt_Encoders :: int32
  mt_JpegEngines :: int32
  mt_OfaEngines :: int32

definition maxCounterTotal :: "int32 \<Rightarrow> int32 \<Rightarrow> int32 \<Rightarrow> int32" where
  "maxCounterTotal current perProfile instances =
     (if perProfile \<le> 0 then current
      else let total = wrap32 (perProfile * instances) in if total > current then total else current)"

definition add_profile :: "NvidiaMIGProfile \<Rightarrow> migCountersTotal \<Rightarrow> migCountersTotal" where
  "add_profile profile t =
     (let max = (if mp_MaxInstances profile < 1 then 1 else mp_MaxInstances profile) in
      t\<lparr> mt_Multiprocessors := maxCounterTotal (mt_Multiprocessors t) (mp_Multiprocessors profile) max,
         mt_CopyEngines := maxCounterTotal (mt_CopyEngines t) (mp_CopyEngines profile) max,
         mt_Decoders := maxCounterTotal (mt_Decoders t) (mp_Decoders profile) max,
         mt_Encoders := maxCounterTotal (mt_Encoders t) (mp_Encoders profile) max,
         mt_JpegEngines := maxCounterTotal (mt_JpegEngines t) (mp_JpegEngines profile) max,
         mt_OfaEngines := maxCounterTotal (mt_OfaEngines t) (mp_OfaEngines profile) max \<rparr>)"

definition totalsFromProfiles :: "int64 \<Rightarrow> int32 \<Rightarrow> NvidiaMIGProfile list \<Rightarrow> migCountersTotal" where
  "totalsFromProfiles memoryMiB totalSlices profiles =
     foldl (\<lambda>t p. add_profile p t)
       \<lparr> mt_MemoryMiB = memoryMiB, mt_TotalSlices = totalSlices, mt_Multiprocessors = 0, mt_CopyEngines = 0,
         mt_Decoders = 0, mt_Encoders = 0, mt_JpegEngines = 0, mt_OfaEngines = 0 \<rparr> profiles"

definition slice_name :: "int \<Rightarrow> string" where
  "slice_name i = ''memory-slice-'' @ int_string i"

definition one_slice :: CounterValue where
  "one_slice = \<lparr> ctr_Value = 1, ctr_Unit = CounterUnitCount \<rparr>"

definition put_slices :: "int list \<Rightarrow> (string, CounterValue) gomap \<Rightarrow> (string, CounterValue) gomap" where
  "put_slices is m = foldl (\<lambda>m i. mput (slice_name i) one_slice m) m is"

definition addCounterIfPositive :: "string \<Rightarrow> int32 \<Rightarrow> (string, CounterValue) gomap \<Rightarrow> (string, CounterValue) gomap" where
  "addCounterIfPositive name value target =
     (if value \<le> 0 then target else mput name \<lparr> ctr_Value = value, ctr_Unit = CounterUnitCount \<rparr> target)"

definition add_engines ::
  "int32 \<Rightarrow> int32 \<Rightarrow> int32 \<Rightarrow> int32 \<Rightarrow> int32 \<Rightarrow> int32 \<Rightarrow> (string, CounterValue) gomap \<Rightarrow> (string, CounterValue) gomap" where
  "add_engines mpr ce dec enc jpeg ofa m =
     addCounterIfPositive counterOfaEngines ofa (addCounterIfPositive counterJpegEngines jpeg
       (addCounterIfPositive counterEncoders enc (addCounterIfPositive counterDecoders dec
         (addCounterIfPositive counterCopyEngines ce (addCounterIfPositive counterMultiprocessor mpr m)))))"

definition buildMigCounters :: "migCountersTotal \<Rightarrow> (string, CounterValue) gomap" where
  "buildMigCounters totals =
     add_engines (mt_Multiprocessors totals) (mt_CopyEngines totals) (mt_Decoders totals) (mt_Encoders totals)
       (mt_JpegEngines totals) (mt_OfaEngines totals)
       (put_slices [0 .. mt_TotalSlices totals - 1]
          [(counterMemory, \<lparr> ctr_Value = mt_MemoryMiB totals, ctr_Unit = CounterUnitMiB \<rparr>)])"

definition buildMigConsumes :: "NvidiaMIGProfile \<Rightarrow> MigPlacement \<Rightarrow> (string, CounterValue) gomap" where
  "buildMigConsumes profile placement =
     add_engines (mp_Multiprocessors profile) (mp_CopyEngines profile) (mp_Decoders profile) (mp_Encoders profile)
       (mp_JpegEngines profile) (mp_OfaEngines profile)
       (put_slices [pl_Start placement .. wrap32 (pl_Start placement + pl_Size placement) - 1]
          [(counterMemory, \<lparr> ctr_Value = mp_MemoryMiB profile, ctr_Unit = CounterUnitMiB \<rparr>)])"

definition migDeviceName :: "string \<Rightarrow> int32 \<Rightarrow> MigPlacement \<Rightarrow> string" where
  "migDeviceName pciAddress profileID placement =
     SanitizeDNSLabel (''mig-'' @ pciAddress @ ''-p'' @ int_string profileID @ ''-s'' @ int_string (pl_Start placement) @
       ''-n'' @ int_string (pl_Size placement))"

definition Supported :: "PhysicalGPU \<Rightarrow> bool" where
  "Supported pgpu =
     (case pg_Capabilities pgpu of
        None \<Rightarrow> False
      | Some caps \<Rightarrow>
          (case gcap_Nvidia caps of
             None \<Rightarrow> False
           | Some n \<Rightarrow> (case nc_MIGSupported n of None \<Rightarrow> False | Some b \<Rightarrow> b)))"

definition AnySupported :: "PhysicalGPU list \<Rightarrow> bool" where
  "AnySupported devices = list_ex Supported devices"

definition maxMigSlices :: "placements \<Rightarrow> int32" where
  "maxMigSlices ps =
     foldl (\<lambda>m (_, pls). foldl (\<lambda>m p. let e = wrap32 (pl_Start p + pl_Size p) in if e > m then e else m) m pls) 0 ps"

definition mig_device :: "PhysicalGPU \<Rightarrow> string \<Rightarrow> string \<Rightarrow> NvidiaMIGProfile \<Rightarrow> MigPlacement \<Rightarrow> deviceBase" where
  "mig_device pgpu pciAddress counterSet profile placement =
     NewMIGDevice (migDeviceName pciAddress (mp_ProfileID profile) placement) []
       (BaseAttributes pgpu DeviceTypeMIG (mp_Name profile))
       [(CapMemory, MemoryCapacityMiB (mp_MemoryMiB profile))]
       [\<lparr> cc_CounterSet = counterSet, cc_Counters = buildMigConsumes profile placement \<rparr>]"

definition mig_capabilities :: "PhysicalGPU \<Rightarrow> (int64 \<times> NvidiaMIGCapabilities) option" where
  "mig_capabilities pgpu =
     (case pg_Capabilities pgpu of
        None \<Rightarrow> None
      | Some caps \<Rightarrow>
          (case gcap_MemoryMiB caps of
             None \<Rightarrow> None
           | Some mem \<Rightarrow>
               (case gcap_Nvidia caps of None \<Rightarrow> None | Some n \<Rightarrow> map_option (Pair mem) (nc_MIG n))))"

definition profile_devices :: "PhysicalGPU \<Rightarrow> string \<Rightarrow> string \<Rightarrow> placements \<Rightarrow> NvidiaMIGProfile \<Rightarrow> deviceBase list" where
  "profile_devices pgpu pciAddress counterSet ps profile =
     (if mp_MemoryMiB profile = 0 \<or> mp_SliceCount profile = 0 then []
      else map (mig_device pgpu pciAddress counterSet profile)
             (case mget ps (mp_ProfileID profile) of None \<Rightarrow> [] | Some pls \<Rightarrow> pls))"

definition buildMigDevices ::
  "PhysicalGPU \<Rightarrow> MigPlacementSession option \<Rightarrow> string + (CounterSet list \<times> deviceBase list)" where
  "buildMigDevices pgpu session =
     (if \<not> Supported pgpu then Inr ([], [])
      else
        (case mig_capabilities pgpu of
           None \<Rightarrow> Inl (''missing mig capabilities for '' @ pg_Name pgpu)
         | Some (mem, mig) \<Rightarrow>
             (case session of
                None \<Rightarrow> Inl (''mig placements unavailable for '' @ pg_Name pgpu)
              | Some ReadPlacements \<Rightarrow>
                  let pciAddress = PCIAddressFor pgpu; profiles = nm_Profiles mig in
                  if profiles = [] then Inr ([], [])
                  else
                    (case ReadPlacements pciAddress (map mp_ProfileID profiles) of
                       Inl err \<Rightarrow> Inl err
                     | Inr ps \<Rightarrow>
                         let totalSlices = (if maxMigSlices ps > nm_TotalSlices mig then maxMigSlices ps else nm_TotalSlices mig);
                             counterSet = \<lparr> cs_Name = CounterSetNameForPCI pciAddress,
                                            cs_Counters = buildMigCounters (totalsFromProfiles mem totalSlices profiles) \<rparr>
                         in Inr ([counterSet], concat (map (profile_devices pgpu pciAddress (cs_Name counterSet) ps) profiles))))))"

definition mig_Build :: "PhysicalGPU \<Rightarrow> MigPlacementSession option \<Rightarrow> string + BuildResult" where
  "mig_Build pgpu session =
     (case buildMigDevices pgpu session of
        Inl err \<Rightarrow> Inl err
      | Inr (counterSets, devices) \<Rightarrow> Inr \<lparr> br_Devices = devices, br_CounterSets = counterSets \<rparr>)"

section \<open>Placements from NVML\<close>

datatype nvml_failure = NotSupported | InvalidArgument | NvmlError string

record 'i nvml_device =
  nv_ProfileInfo :: "nat \<Rightarrow> nvml_failure + (nat \<times> 'i)"
  nv_PossiblePlacements :: "'i \<Rightarrow> nvml_failure + (nat \<times> nat) list"

definition add_placement :: "nat \<Rightarrow> placements \<Rightarrow> nat \<times> nat \<Rightarrow> placements" where
  "add_placement pid ps p =
     mput (wrap32 (int pid))
       ((case mget ps (wrap32 (int pid)) of None \<Rightarrow> [] | Some xs \<Rightarrow> xs) @
        [\<lparr> pl_Start = wrap32 (int (fst p)), pl_Size = wrap32 (int (snd p)) \<rparr>]) ps"

fun profile_loop :: "'i nvml_device \<Rightarrow> nat list \<Rightarrow> nat list \<Rightarrow> placements \<Rightarrow> string + placements" where
  "profile_loop dev target [] ps = Inr ps"
| "profile_loop dev target (profile # rest) ps =
     (case nv_ProfileInfo dev profile of
        Inl (NvmlError e) \<Rightarrow> Inl (''NVML profile info failed: '' @ e)
      | Inl _ \<Rightarrow> profile_loop dev target rest ps
      | Inr (pid, info) \<Rightarrow>
          if pid \<notin> set target then profile_loop dev target rest ps
          else
            (case nv_PossiblePlacements dev info of
               Inl (NvmlError e) \<Rightarrow> Inl (''NVML placements failed: '' @ e)
             | Inl _ \<Rightarrow> profile_loop dev target rest ps
             | Inr possible \<Rightarrow> profile_loop dev target rest (foldl (add_placement pid) ps possible)))"

definition ReadPlacements ::
  "(string \<Rightarrow> string + 'i nvml_device) \<Rightarrow> nat \<Rightarrow> MigPlacementSession" where
  "ReadPlacements DeviceByPCI profileCount pciAddress profileIDs =
     (if pciAddress = [] then Inl ''missing PCI address''
      else
        (case DeviceByPCI pciAddress of
           Inl e \<Rightarrow> Inl (''NVML device lookup failed: '' @ e)
         | Inr dev \<Rightarrow>
             let target = map nat (filter (\<lambda>i. i \<ge> 0) profileIDs) in
             if target = [] then Inr []
             else
               (case profile_loop dev target [0 ..< (if profileCount < 32 then 32 else profileCount)] [] of
                  Inl err \<Rightarrow> Inl err
                | Inr ps \<Rightarrow>
                    if list_all (\<lambda>i. mget ps (wrap32 (int i)) \<noteq> None) target then Inr ps
                    else Inl ''NVML placements missing for profile'')))"

section \<open>The inventory of a node\<close>

text \<open>\<open>Plan\<close>: the MIG builder runs only if a GPU supports MIG and a placement session could be opened.\<close>

record Plan =
  pn_mig :: "MigPlacementSession option"
  pn_Errs :: "string list"

definition DefaultFactory_Build :: "(string + MigPlacementSession) option \<Rightarrow> PhysicalGPU list \<Rightarrow> Plan" where
  "DefaultFactory_Build placements devices =
     (if \<not> AnySupported devices then \<lparr> pn_mig = None, pn_Errs = [] \<rparr>
      else
        (case placements of
           None \<Rightarrow> \<lparr> pn_mig = None, pn_Errs = [''mig placements reader is not configured''] \<rparr>
         | Some (Inl err) \<Rightarrow> \<lparr> pn_mig = None, pn_Errs = [err] \<rparr>
         | Some (Inr session) \<Rightarrow> \<lparr> pn_mig = Some session, pn_Errs = [] \<rparr>))"

definition add_result :: "string + BuildResult \<Rightarrow> Inventory \<times> string list \<Rightarrow> Inventory \<times> string list" where
  "add_result r acc =
     (case r of
        Inl err \<Rightarrow> (fst acc, snd acc @ [err])
      | Inr b \<Rightarrow> (\<lparr> iv_Devices = iv_Devices (fst acc) @ br_Devices b,
                    iv_CounterSets = iv_CounterSets (fst acc) @ br_CounterSets b \<rparr>, snd acc))"

definition add_gpu :: "MigPlacementSession option \<Rightarrow> Inventory \<times> string list \<Rightarrow> PhysicalGPU \<Rightarrow> Inventory \<times> string list" where
  "add_gpu mig acc pgpu =
     (let acc1 = add_result (physical_Build pgpu) acc in
      case mig of None \<Rightarrow> acc1 | Some session \<Rightarrow> add_result (mig_Build pgpu (Some session)) acc1)"

definition Builder_Build :: "(string + MigPlacementSession) option \<Rightarrow> PhysicalGPU list \<Rightarrow> Inventory \<times> string list" where
  "Builder_Build placements devices =
     (let plan = DefaultFactory_Build placements devices in
      foldl (add_gpu (pn_mig plan)) (\<lparr> iv_Devices = [], iv_CounterSets = [] \<rparr>, pn_Errs plan) devices)"

end
