(* ===== verification/MigSafety.thy ===== *)
theory MigSafety
  imports Inventory
begin

text \<open>
  MIG devices from offer to allocation to preparation: the slice counters keep the placements of allocated
  MIG devices disjoint, an offered MIG device fits an idle GPU, and its name tells the node which profile and
  placement to create.
\<close>

section \<open>Slice counters\<close>

definition slices :: "MigPlacement \<Rightarrow> int set" where
  "slices p = {pl_Start p ..< wrap32 (pl_Start p + pl_Size p)}"

lemma nat_string_inj: "nat_string m = nat_string n \<Longrightarrow> m = n"
  by (metis digits_value_nat_string)

lemma int_string_inj: "int_string i = int_string j \<longleftrightarrow> i = j"
proof
  assume eq: "int_string i = int_string j"
  have sign: "hd (nat_string n) \<noteq> CHR ''-''" for n
    using digit_not_sign[OF hd_nat_string[of n]] by blast
  then have no: "nat_string n \<noteq> CHR ''-'' # t" for n t
    by (metis list.sel(1))
  show "i = j"
  proof (cases "i < 0 \<longleftrightarrow> j < 0")
    case True
    with eq show ?thesis by (auto simp: int_string_def split: if_splits dest!: nat_string_inj)
  next
    case False
    with eq no no[symmetric] show ?thesis by (auto simp: int_string_def split: if_splits)
  qed
qed simp

lemma slice_name_inj [simp]: "slice_name i = slice_name j \<longleftrightarrow> i = j"
  by (simp add: slice_name_def int_string_inj)

lemma slice_name_other [simp]:
  "slice_name i \<noteq> counterMemory" "slice_name i \<noteq> counterMultiprocessor" "slice_name i \<noteq> counterCopyEngines"
  "slice_name i \<noteq> counterDecoders" "slice_name i \<noteq> counterEncoders" "slice_name i \<noteq> counterJpegEngines"
  "slice_name i \<noteq> counterOfaEngines"
  by (simp_all add: slice_name_def counter_name_defs)

lemma mget_put_slices:
  "mget (put_slices is m) k = (if \<exists>i \<in> set is. k = slice_name i then Some one_slice else mget m k)"
  unfolding put_slices_def by (induction "is" arbitrary: m) auto

lemma mget_addCounterIfPositive:
  "mget (addCounterIfPositive n v m) k =
     (if k = n \<and> v > 0 then Some \<lparr> ctr_Value = v, ctr_Unit = CounterUnitCount \<rparr> else mget m k)"
  by (simp add: addCounterIfPositive_def)

lemma counter_names_distinct [simp]:
  "distinct [counterMemory, counterMultiprocessor, counterCopyEngines, counterDecoders, counterEncoders,
     counterJpegEngines, counterOfaEngines]"
  by (simp add: counter_name_defs)

lemma slice_consumed:
  "counter_value (buildMigConsumes profile p) (slice_name i) = (if i \<in> slices p then 1 else 0)"
  by (auto simp: counter_value_def buildMigConsumes_def add_engines_def mget_addCounterIfPositive mget_put_slices
      slices_def one_slice_def)

lemma slice_offered:
  "counter_value (buildMigCounters totals) (slice_name i) = (if 0 \<le> i \<and> i < mt_TotalSlices totals then 1 else 0)"
  by (auto simp: counter_value_def buildMigCounters_def add_engines_def mget_addCounterIfPositive mget_put_slices
      one_slice_def)

section \<open>Allocated placements are disjoint\<close>

text \<open>\<open>mig_offer s d p\<close>: device \<open>d\<close> is an offer with placement \<open>p\<close> on the GPU whose counter set is \<open>s\<close>.\<close>

definition mig_offer :: "string \<Rightarrow> CandidateDevice \<Rightarrow> MigPlacement \<Rightarrow> bool" where
  "mig_offer s d p \<longleftrightarrow>
     (\<exists>profile. ds_Consumes (cd_Spec d) = [\<lparr> cc_CounterSet = s, cc_Counters = buildMigConsumes profile p \<rparr>])"

lemma mig_device_offer:
  "cd_Spec d = Spec (mig_device pgpu pci s profile p) \<Longrightarrow> mig_offer s d p"
  by (auto simp: mig_offer_def mig_device_def Spec_def NewMIGDevice_def)

lemma sum_list_two:
  fixes f :: "'a \<Rightarrow> int"
  assumes "i < length xs" "j < length xs" "i \<noteq> j" and "\<And>x. x \<in> set xs \<Longrightarrow> 0 \<le> f x"
  shows "f (xs ! i) + f (xs ! j) \<le> (\<Sum>x\<leftarrow>xs. f x)"
proof -
  have "f (xs ! i) + f (xs ! j) = (\<Sum>k \<in> {i, j}. f (xs ! k))"
    using assms(3) by simp
  also have "\<dots> \<le> (\<Sum>k \<in> {0 ..< length xs}. f (xs ! k))"
    using assms by (intro sum_mono2) auto
  also have "\<dots> = (\<Sum>x\<leftarrow>xs. f x)"
    by (simp add: sum_list_sum_nth)
  finally show ?thesis .
qed

lemma sum_list_one:
  fixes f :: "'a \<Rightarrow> int"
  assumes "x \<in> set xs" and "\<And>x. x \<in> set xs \<Longrightarrow> 0 \<le> f x"
  shows "f x \<le> (\<Sum>x\<leftarrow>xs. f x)"
proof -
  obtain i where i: "i < length xs" "xs ! i = x"
    using assms(1) by (auto simp: in_set_conv_nth)
  have "f (xs ! i) = (\<Sum>k \<in> {i}. f (xs ! k))"
    by simp
  also have "\<dots> \<le> (\<Sum>k \<in> {0 ..< length xs}. f (xs ! k))"
    using assms(2) i(1) by (intro sum_mono2) auto
  also have "\<dots> = (\<Sum>x\<leftarrow>xs. f x)"
    by (simp add: sum_list_sum_nth)
  finally show ?thesis
    using i(2) by simp
qed

lemma demand_nonneg:
  assumes "\<forall>d \<in> set devices. consumes_sane (ds_Consumes (cd_Spec d))"
  shows "0 \<le> demand_of devices key i"
  using assms indexDevices_in[of devices key] 
  by (auto simp: demand_of_def split: option.splits intro!: counter_demand_nonneg)

lemma mig_offer_demand:
  "mget (indexDevices devices) key = Some d \<Longrightarrow> mig_offer s d p \<Longrightarrow>
   demand_of devices key (s, slice_name k) = (if k \<in> slices p then 1 else 0)"
  by (auto simp: demand_of_def mig_offer_def counter_demand_def slice_consumed)

lemma slice_limit:
  "mget counterSets s = Some cs \<Longrightarrow> cs_Counters cs = buildMigCounters totals \<Longrightarrow>
   counter_limit counterSets (s, slice_name k) \<le> 1"
  by (simp add: counter_limit_def counters_of_def slice_offered)

text \<open>
  \<^bold>\<open>C17.\<close> MIG partitions never overlap: if an allocation on a node hands out a MIG device of a GPU whose counter
  set was built by \<open>buildMigCounters\<close>, then its placement has no memory slice in common with the placement
  of any other device of that GPU, neither of the same claim nor of a claim allocated before.
\<close>

theorem mig_slices_disjoint:
  assumes "allocateOnNode Q nodeName devices requests allocated counterSets = Inr (Some alloc)"
    and "candidates_wf devices" and "available_sane counterSets"
    and consumes: "\<forall>d \<in> set devices. consumes_sane (ds_Consumes (cd_Spec d))"
    and offered: "mget counterSets s = Some cs" "cs_Counters cs = buildMigCounters totals"
    and i: "i < length (ar_Devices alloc)"
    and d: "mget (indexDevices devices) (result_key (ar_Devices alloc ! i)) = Some d" "mig_offer s d p"
  shows "(\<forall>j e q. j < length (ar_Devices alloc) \<longrightarrow> j \<noteq> i \<longrightarrow>
            mget (indexDevices devices) (result_key (ar_Devices alloc ! j)) = Some e \<longrightarrow> mig_offer s e q \<longrightarrow>
            slices p \<inter> slices q = {})
       \<and> (\<forall>a e q. a \<in> set allocated \<longrightarrow> mget (indexDevices devices) (fst a) = Some e \<longrightarrow> mig_offer s e q \<longrightarrow>
            slices p \<inter> slices q = {})"
proof -
  let ?f = "\<lambda>k x. demand_of devices (result_key x) (s, slice_name k)"
  let ?g = "\<lambda>k a. demand_of devices (fst a) (s, slice_name k)"
  note nonneg = demand_nonneg[OF consumes]
  have total: "(\<Sum>a\<leftarrow>allocated. ?g k a) + (\<Sum>x\<leftarrow>ar_Devices alloc. ?f k x) \<le> 1" for k
    using allocation_counters[OF assms(1-4) nth_mem[OF i] d(1), of s "slice_name k"]
      slice_limit[OF offered, of k] d(2) by (auto simp: mig_offer_def)
  have mine: "?f k (ar_Devices alloc ! i) = (if k \<in> slices p then 1 else 0)" for k
    by (rule mig_offer_demand[OF d])
  have old: "0 \<le> (\<Sum>a\<leftarrow>allocated. ?g k a)" for k
    by (rule sum_list_nonneg) (auto simp: nonneg)
  have "slices p \<inter> slices q = {}"
    if "j < length (ar_Devices alloc)" "j \<noteq> i" "mget (indexDevices devices) (result_key (ar_Devices alloc ! j)) = Some e"
      "mig_offer s e q" for j e q
  proof (rule ccontr)
    assume "slices p \<inter> slices q \<noteq> {}"
    then obtain k where "k \<in> slices p" "k \<in> slices q" by blast
    with mine[of k] mig_offer_demand[OF that(3,4), of k] old[of k] total[of k]
      sum_list_two[OF i that(1), of "?f k"] that(2) nonneg
    show False by fastforce
  qed
  moreover have "slices p \<inter> slices q = {}"
    if "a \<in> set allocated" "mget (indexDevices devices) (fst a) = Some e" "mig_offer s e q" for a e q
  proof (rule ccontr)
    assume "slices p \<inter> slices q \<noteq> {}"
    then obtain k where "k \<in> slices p" "k \<in> slices q" by blast
    with mine[of k] mig_offer_demand[OF that(2,3), of k] total[of k] sum_list_one[OF that(1), of "?g k"]
      sum_list_one[OF nth_mem[OF i], of "?f k"] nonneg
    show False by fastforce
  qed
  ultimately show ?thesis by blast
qed

section \<open>Every offer fits the idle GPU\<close>

definition instances :: "NvidiaMIGProfile \<Rightarrow> int32" where
  "instances profile = (if mp_MaxInstances profile < 1 then 1 else mp_MaxInstances profile)"

lemma maxCounterTotal_ge: "current \<le> maxCounterTotal current per n"
  by (simp add: maxCounterTotal_def Let_def)

lemma maxCounterTotal_covers: "0 < per \<Longrightarrow> 1 \<le> n \<Longrightarrow> in32 (per * n) \<Longrightarrow> per \<le> maxCounterTotal current per n"
proof -
  assume a: "0 < per" "1 \<le> n" "in32 (per * n)"
  then have "per \<le> per * n" using mult_left_mono[of 1 n per] by simp
  moreover have "wrap32 (per * n) = per * n" using a(3) by (simp add: in32_def wrap32_id del: power_numeral)
  ultimately show ?thesis using a(1) by (auto simp only: maxCounterTotal_def Let_def split: if_split)
qed

text \<open>One counter of the totals, given how a profile changes it.\<close>

lemma total_covers:
  assumes "\<And>p t. get (add_profile p t) = maxCounterTotal (get t) (per p) (instances p)"
    and "p \<in> set profiles" "0 < per p" "in32 (per p * instances p)"
  shows "per p \<le> get (foldl (\<lambda>t p. add_profile p t) t profiles)"
  using assms(2)
proof (induction profiles arbitrary: t rule: list.induct)
  case (Cons q profiles)
  have mono: "get t \<le> get (foldl (\<lambda>t p. add_profile p t) t ps)" for t ps
  proof (induction ps arbitrary: t)
    case (Cons a ps)
    have "get t \<le> get (add_profile a t)" by (simp add: assms(1) maxCounterTotal_ge)
    also have "\<dots> \<le> get (foldl (\<lambda>t p. add_profile p t) t (a # ps))" using Cons by simp
    finally show ?case .
  qed simp
  have "per p \<le> get (add_profile p t)"
    unfolding assms(1) by (rule maxCounterTotal_covers) (use assms(3,4) in \<open>simp_all add: instances_def\<close>)
  with Cons mono[of "add_profile p t" profiles] show ?case by auto
qed simp

lemma add_profile_fields:
  "mt_Multiprocessors (add_profile p t) = maxCounterTotal (mt_Multiprocessors t) (mp_Multiprocessors p) (instances p)"
  "mt_CopyEngines (add_profile p t) = maxCounterTotal (mt_CopyEngines t) (mp_CopyEngines p) (instances p)"
  "mt_Decoders (add_profile p t) = maxCounterTotal (mt_Decoders t) (mp_Decoders p) (instances p)"
  "mt_Encoders (add_profile p t) = maxCounterTotal (mt_Encoders t) (mp_Encoders p) (instances p)"
  "mt_JpegEngines (add_profile p t) = maxCounterTotal (mt_JpegEngines t) (mp_JpegEngines p) (instances p)"
  "mt_OfaEngines (add_profile p t) = maxCounterTotal (mt_OfaEngines t) (mp_OfaEngines p) (instances p)"
  by (simp_all add: add_profile_def instances_def Let_def)

definition engines_ok :: "NvidiaMIGProfile \<Rightarrow> bool" where
  "engines_ok p \<longleftrightarrow> list_all (\<lambda>v. in32 (v * instances p))
     [mp_Multiprocessors p, mp_CopyEngines p, mp_Decoders p, mp_Encoders p, mp_JpegEngines p, mp_OfaEngines p]"

lemma engines_covered:
  assumes "p \<in> set profiles" "engines_ok p"
  shows "0 < mp_Multiprocessors p \<Longrightarrow> mp_Multiprocessors p \<le> mt_Multiprocessors (totalsFromProfiles m n profiles)"
    "0 < mp_CopyEngines p \<Longrightarrow> mp_CopyEngines p \<le> mt_CopyEngines (totalsFromProfiles m n profiles)"
    "0 < mp_Decoders p \<Longrightarrow> mp_Decoders p \<le> mt_Decoders (totalsFromProfiles m n profiles)"
    "0 < mp_Encoders p \<Longrightarrow> mp_Encoders p \<le> mt_Encoders (totalsFromProfiles m n profiles)"
    "0 < mp_JpegEngines p \<Longrightarrow> mp_JpegEngines p \<le> mt_JpegEngines (totalsFromProfiles m n profiles)"
    "0 < mp_OfaEngines p \<Longrightarrow> mp_OfaEngines p \<le> mt_OfaEngines (totalsFromProfiles m n profiles)"
  unfolding totalsFromProfiles_def using assms
  by (simp_all add: engines_ok_def total_covers[where get = mt_Multiprocessors] total_covers[where get = mt_CopyEngines]
      total_covers[where get = mt_Decoders] total_covers[where get = mt_Encoders]
      total_covers[where get = mt_JpegEngines] total_covers[where get = mt_OfaEngines] add_profile_fields)

lemma totals_kept:
  "mt_MemoryMiB (totalsFromProfiles m n profiles) = m" "mt_TotalSlices (totalsFromProfiles m n profiles) = n"
proof -
  have "mt_MemoryMiB (foldl (\<lambda>t p. add_profile p t) t ps) = mt_MemoryMiB t
      \<and> mt_TotalSlices (foldl (\<lambda>t p. add_profile p t) t ps) = mt_TotalSlices t" for t ps
    by (induction ps arbitrary: t) (simp_all add: add_profile_def Let_def)
  then show "mt_MemoryMiB (totalsFromProfiles m n profiles) = m" "mt_TotalSlices (totalsFromProfiles m n profiles) = n"
    by (simp_all add: totalsFromProfiles_def)
qed

text \<open>\<open>covered avail m\<close>: every counter of \<open>m\<close> exists in \<open>avail\<close>, in the same unit and at least as large.\<close>

definition covered :: "(string, CounterValue) gomap \<Rightarrow> (string, CounterValue) gomap \<Rightarrow> bool" where
  "covered avail m \<longleftrightarrow>
     (\<forall>c v. mget m c = Some v \<longrightarrow> (\<exists>a. mget avail c = Some a \<and> ctr_Unit v = ctr_Unit a \<and> ctr_Value v \<le> ctr_Value a))"

lemma mget_other:
  "k \<noteq> n \<Longrightarrow> mget (addCounterIfPositive n v m) k = mget m k"
  "(\<And>i. k \<noteq> slice_name i) \<Longrightarrow> mget (put_slices is m) k = mget m k"
  by (auto simp: mget_addCounterIfPositive mget_put_slices)

lemma counter_names_distinct_rev:
  "distinct (rev [counterMemory, counterMultiprocessor, counterCopyEngines, counterDecoders, counterEncoders,
     counterJpegEngines, counterOfaEngines])"
  unfolding distinct_rev by (rule counter_names_distinct)

lemmas counter_neq = counter_names_distinct[unfolded distinct.simps list.set, simplified]
  counter_names_distinct_rev[simplified] slice_name_other[THEN not_sym]

lemma covered_add:
  "covered avail m \<Longrightarrow> mget m n = None \<Longrightarrow> (0 < v \<Longrightarrow> v \<le> w) \<Longrightarrow>
   covered (addCounterIfPositive n w avail) (addCounterIfPositive n v m)"
  by (fastforce simp: covered_def mget_addCounterIfPositive)

lemma covered_slices:
  "covered avail m \<Longrightarrow> set is \<subseteq> set js \<Longrightarrow> (\<And>i. i \<in> set js \<Longrightarrow> mget m (slice_name i) = None) \<Longrightarrow>
   covered (put_slices js avail) (put_slices is m)"
  by (fastforce simp: covered_def mget_put_slices)

lemma covered_fits:
  assumes "covered avail m" and "mwf m"
  shows "fitsCounters avail [] m"
proof -
  have in_avail: "\<exists>a. mget avail n = Some a \<and> ctr_Unit v = ctr_Unit a \<and> ctr_Value v \<le> ctr_Value a"
    if "(n, v) \<in> set m" for n v
    using that assms(1) mget_eq_in[OF assms(2), of n v] by (simp add: covered_def)
  then have "fits_counter avail [] n v" if "(n, v) \<in> set m" for n v
    using that by (fastforce simp: fits_counter_def)
  moreover have "m = [] \<or> avail \<noteq> []"
    using in_avail by (cases m) fastforce+
  ultimately show ?thesis
    by (auto simp: fitsCounters_def list_all_iff)
qed

lemma mwf_consumes: "mwf (buildMigConsumes profile p)"
proof -
  have "mwf m \<Longrightarrow> mwf (put_slices is m)" for "is" m
    unfolding put_slices_def by (induction "is" arbitrary: m) auto
  then show ?thesis
    by (auto simp: buildMigConsumes_def add_engines_def addCounterIfPositive_def)
qed

lemma consumes_fit:
  assumes "p \<in> set profiles" "engines_ok p" "mp_MemoryMiB p \<le> mem"
    and "0 \<le> pl_Start pl" "wrap32 (pl_Start pl + pl_Size pl) \<le> n"
  shows "fitsCounters (buildMigCounters (totalsFromProfiles mem n profiles)) [] (buildMigConsumes p pl)"
proof -
  let ?t = "totalsFromProfiles mem n profiles"
  note covers = engines_covered[OF assms(1,2), of mem n]
  have "covered [(counterMemory, \<lparr> ctr_Value = mt_MemoryMiB ?t, ctr_Unit = CounterUnitMiB \<rparr>)]
      [(counterMemory, \<lparr> ctr_Value = mp_MemoryMiB p, ctr_Unit = CounterUnitMiB \<rparr>)]"
    using assms(3) by (simp add: covered_def totals_kept)
  then have "covered (buildMigCounters ?t) (buildMigConsumes p pl)"
    unfolding buildMigCounters_def buildMigConsumes_def add_engines_def
    using assms(4,5)
    by (intro covered_add covered_slices covers) (auto simp: mget_other totals_kept counter_neq)
  then show ?thesis
    by (rule covered_fits) (rule mwf_consumes)
qed

lemma maxMigSlices_ge:
  assumes "mget ps k = Some pls" "p \<in> set pls"
  shows "wrap32 (pl_Start p + pl_Size p) \<le> maxMigSlices ps"
proof -
  define pl_end :: "MigPlacement \<Rightarrow> int" where "pl_end = (\<lambda>p. wrap32 (pl_Start p + pl_Size p))"
  define step where "step = (\<lambda>m p. let e = pl_end p in if e > m then e else m)"
  have inner: "m \<le> foldl step m pls \<and> (\<forall>p \<in> set pls. pl_end p \<le> foldl step m pls)" for m pls
  proof (induction pls arbitrary: m)
    case (Cons a pls)
    have "m \<le> step m a" "pl_end a \<le> step m a" by (simp_all add: step_def Let_def)
    with Cons[of "step m a"] show ?case by auto
  qed simp
  have outer: "m \<le> foldl (\<lambda>m (_, pls). foldl step m pls) m ps
      \<and> (\<forall>(k, pls) \<in> set ps. \<forall>p \<in> set pls. pl_end p \<le> foldl (\<lambda>m (_, pls). foldl step m pls) m ps)" for m and ps :: placements
  proof (induction ps arbitrary: m)
    case (Cons x ps)
    obtain k pls where x: "x = (k, pls)" by (cases x)
    show ?case
      using inner[of m pls] Cons[of "foldl step m pls"] by (fastforce simp: x)
  qed simp
  show ?thesis
    using outer[of 0 ps] assms map_of_SomeD[OF assms(1)] by (fastforce simp: maxMigSlices_def pl_end_def step_def)
qed

text \<open>Sound MIG capabilities: no profile is larger than the GPU, and its engine totals fit 32 bits.\<close>

definition mig_sane :: "PhysicalGPU \<Rightarrow> bool" where
  "mig_sane pgpu \<longleftrightarrow>
     (case mig_capabilities pgpu of
        None \<Rightarrow> True
      | Some (mem, mig) \<Rightarrow> list_all (\<lambda>p. engines_ok p \<and> mp_MemoryMiB p \<le> mem) (nm_Profiles mig))"

definition counter_sets :: "CounterSet list \<Rightarrow> (string, CounterSet) gomap" where
  "counter_sets css = map (\<lambda>cs. (cs_Name cs, cs)) css"

lemma profile_devices_cases:
  assumes "d \<in> set (profile_devices pgpu pci s ps profile)"
  obtains pls p where "mget ps (mp_ProfileID profile) = Some pls" "p \<in> set pls" "d = mig_device pgpu pci s profile p"
  using assms by (cases "mget ps (mp_ProfileID profile)") (auto simp: profile_devices_def split: if_splits)

lemma mig_Build_offer:
  assumes "mig_Build pgpu (Some read) = Inr res" and "d \<in> set (br_Devices res)"
  obtains mem mig ps n where "mig_capabilities pgpu = Some (mem, mig)"
    "read (PCIAddressFor pgpu) (map mp_ProfileID (nm_Profiles mig)) = Inr ps" "maxMigSlices ps \<le> n"
    "br_CounterSets res = [\<lparr> cs_Name = CounterSetNameForPCI (PCIAddressFor pgpu),
       cs_Counters = buildMigCounters (totalsFromProfiles mem n (nm_Profiles mig)) \<rparr>]"
    "br_Devices res = concat (map (profile_devices pgpu (PCIAddressFor pgpu)
       (CounterSetNameForPCI (PCIAddressFor pgpu)) ps) (nm_Profiles mig))"
proof -
  obtain css ds where b: "buildMigDevices pgpu (Some read) = Inr (css, ds)" "br_Devices res = ds" "br_CounterSets res = css"
    using assms(1) by (auto simp: mig_Build_def split: sum.splits)
  obtain mem mig where m: "mig_capabilities pgpu = Some (mem, mig)"
    using b assms(2) by (auto simp: buildMigDevices_def split: if_splits option.splits)
  obtain ps where ps: "read (PCIAddressFor pgpu) (map mp_ProfileID (nm_Profiles mig)) = Inr ps"
    using b assms(2) m by (auto simp: buildMigDevices_def Let_def split: if_splits sum.splits)
  show thesis
  proof (rule that[OF m ps])
    show "maxMigSlices ps \<le> (if maxMigSlices ps > nm_TotalSlices mig then maxMigSlices ps else nm_TotalSlices mig)"
      by simp
  qed (use b assms(2) m ps in \<open>auto simp: buildMigDevices_def Let_def split: if_splits\<close>)
qed

lemma mig_Build_cases:
  assumes "mig_Build pgpu (Some read) = Inr res" and "d \<in> set (br_Devices res)"
  obtains mem mig ps n profile pls p where "mig_capabilities pgpu = Some (mem, mig)"
    "read (PCIAddressFor pgpu) (map mp_ProfileID (nm_Profiles mig)) = Inr ps" "maxMigSlices ps \<le> n"
    "br_CounterSets res = [\<lparr> cs_Name = CounterSetNameForPCI (PCIAddressFor pgpu),
       cs_Counters = buildMigCounters (totalsFromProfiles mem n (nm_Profiles mig)) \<rparr>]"
    "profile \<in> set (nm_Profiles mig)" "mget ps (mp_ProfileID profile) = Some pls" "p \<in> set pls"
    "d = mig_device pgpu (PCIAddressFor pgpu) (CounterSetNameForPCI (PCIAddressFor pgpu)) profile p"
proof -
  obtain mem mig ps n where o: "mig_capabilities pgpu = Some (mem, mig)"
    "read (PCIAddressFor pgpu) (map mp_ProfileID (nm_Profiles mig)) = Inr ps" "maxMigSlices ps \<le> n"
    "br_CounterSets res = [\<lparr> cs_Name = CounterSetNameForPCI (PCIAddressFor pgpu),
       cs_Counters = buildMigCounters (totalsFromProfiles mem n (nm_Profiles mig)) \<rparr>]"
    "br_Devices res = concat (map (profile_devices pgpu (PCIAddressFor pgpu)
       (CounterSetNameForPCI (PCIAddressFor pgpu)) ps) (nm_Profiles mig))"
    by (rule mig_Build_offer[OF assms])
  then obtain profile where "profile \<in> set (nm_Profiles mig)"
    "d \<in> set (profile_devices pgpu (PCIAddressFor pgpu) (CounterSetNameForPCI (PCIAddressFor pgpu)) ps profile)"
    using assms(2) by auto
  with o(1-4) show thesis
    by (elim profile_devices_cases) (rule that)
qed

lemma CounterSetNameForPCI_nonempty: "TrimSpace pci \<noteq> [] \<Longrightarrow> CounterSetNameForPCI pci \<noteq> []"
  using SanitizeDNSLabel_label[of "''pgpu-'' @ TrimSpace pci"] by (auto simp: CounterSetNameForPCI_def Let_def dns_label_def)

lemma TrimSpace_PCIAddressFor [simp]: "TrimSpace (PCIAddressFor pgpu) = PCIAddressFor pgpu"
  by (simp add: PCIAddressFor_def TrimSpace_def[of "[]"] TrimBoth_id split: option.split)

text \<open>
  \<^bold>\<open>C18.\<close> Every MIG device a node offers can be allocated: for a GPU with an address, whose profiles are not larger
  than the GPU and whose engine totals fit 32 bits, each device that \<open>mig_Build\<close> returns fits the counters it
  returns with it, as long as nothing else is allocated.
\<close>

theorem mig_Build_fits:
  assumes "mig_Build pgpu (Some read) = Inr res" and "mig_sane pgpu" and "PCIAddressFor pgpu \<noteq> []"
    and starts: "\<And>ids ps. read (PCIAddressFor pgpu) ids = Inr ps \<Longrightarrow>
      list_all (\<lambda>(_, pls). list_all (\<lambda>p. 0 \<le> pl_Start p) pls) ps"
  shows "list_all (\<lambda>d. consumeCounters [] (counter_sets (br_CounterSets res)) (ds_Consumes (Spec d)) \<noteq> None) (br_Devices res)"
  unfolding list_all_iff
proof
  fix d
  assume "d \<in> set (br_Devices res)"
  with assms(1) obtain mem mig ps n profile pls p where c: "mig_capabilities pgpu = Some (mem, mig)"
    "read (PCIAddressFor pgpu) (map mp_ProfileID (nm_Profiles mig)) = Inr ps" "maxMigSlices ps \<le> n"
    "br_CounterSets res = [\<lparr> cs_Name = CounterSetNameForPCI (PCIAddressFor pgpu),
       cs_Counters = buildMigCounters (totalsFromProfiles mem n (nm_Profiles mig)) \<rparr>]"
    "profile \<in> set (nm_Profiles mig)" "mget ps (mp_ProfileID profile) = Some pls" "p \<in> set pls"
    "d = mig_device pgpu (PCIAddressFor pgpu) (CounterSetNameForPCI (PCIAddressFor pgpu)) profile p"
    by (rule mig_Build_cases)
  have "0 \<le> pl_Start p"
    using starts[OF c(2)] map_of_SomeD[OF c(6)] c(7) by (auto simp: list_all_iff)
  moreover have "engines_ok profile" "mp_MemoryMiB profile \<le> mem"
    using assms(2) c(1,5) by (auto simp: mig_sane_def list_all_iff)
  moreover have "wrap32 (pl_Start p + pl_Size p) \<le> n"
    using maxMigSlices_ge[OF c(6,7)] c(3) by simp
  ultimately have "fitsCounters (buildMigCounters (totalsFromProfiles mem n (nm_Profiles mig))) [] (buildMigConsumes profile p)"
    using consumes_fit[OF c(5)] by simp
  then show "consumeCounters [] (counter_sets (br_CounterSets res)) (ds_Consumes (Spec d)) \<noteq> None"
    using assms(3)
    by (simp add: c(4,8) consumeCounters_def counter_sets_def mig_device_def NewMIGDevice_def Spec_def consumed_of_def
        CounterSetNameForPCI_nonempty)
qed

section \<open>The name of a MIG device tells what to create\<close>

definition pci_char :: "char \<Rightarrow> bool" where
  "pci_char c \<longleftrightarrow> c \<in> set ''0123456789abcdefABCDEF:.''"

definition pci_address :: "string \<Rightarrow> bool" where
  "pci_address pci \<longleftrightarrow> pci \<noteq> [] \<and> length pci \<le> 23 \<and> list_all pci_char pci \<and> is_digit (last pci)"

lemma sanitize_loop_append:
  "sanitize_loop (xs @ ys) d = sanitize_loop xs d @ sanitize_loop ys (if xs = [] then d else \<not> label_char (last xs))"
  by (induction xs d rule: sanitize_loop.induct) auto

lemma sanitize_loop_label: "list_all label_char xs \<Longrightarrow> sanitize_loop xs d = xs"
  by (induction xs arbitrary: d) auto

lemma digit_facts:
  "is_digit c \<Longrightarrow> label_char c" "is_digit c \<Longrightarrow> lower_char c = c" "is_digit c \<Longrightarrow> c \<noteq> CHR ''s''" "is_digit c \<Longrightarrow> c \<noteq> CHR ''n''"
  by (auto simp: is_digit_def label_char_def less_eq_char_def lower_char_def)

lemma digits_label: "list_all is_digit xs \<Longrightarrow> list_all label_char xs"
  by (auto simp: list_all_iff intro: digit_facts)

lemma ToLower_digits: "list_all is_digit xs \<Longrightarrow> map lower_char xs = xs"
  by (auto simp: list_all_iff intro: map_idI digit_facts)

lemma pci_no_p: "pci_char c \<Longrightarrow> lower_char c \<noteq> CHR ''p''"
  unfolding pci_char_def
  by (auto simp: lower_char_def of_char_of dest!: arg_cong[where f = "of_char :: char \<Rightarrow> nat"])

lemma set_sanitize_loop: "set (sanitize_loop xs d) \<subseteq> insert (CHR ''-'') (set xs)"
  by (induction xs d rule: sanitize_loop.induct) auto

lemma length_sanitize_loop: "length (sanitize_loop xs d) \<le> length xs"
  by (induction xs d rule: sanitize_loop.induct) auto

lemma SplitN2_first:
  "q \<notin> set y \<Longrightarrow> q \<noteq> CHR ''-'' \<Longrightarrow> SplitN2 (y @ CHR ''-'' # q # r) [CHR ''-'', q] = Some (y, r)"
proof (induction y)
  case (Cons c y)
  then have "\<not> HasPrefix (c # y @ CHR ''-'' # q # r) [CHR ''-'', q]"
    by (cases y) (auto simp: HasPrefix_def)
  with Cons show ?case by simp
qed (simp add: HasPrefix_def)

lemma length_nat_string: "n < 10 ^ Suc k \<Longrightarrow> length (nat_string n) \<le> Suc k"
proof (induction k arbitrary: n)
  case (Suc k)
  then have "length (nat_string (n div 10)) \<le> Suc k" by (simp add: less_mult_imp_div_less)
  then show ?case by (subst nat_string.simps) simp
qed (subst nat_string.simps, simp)

text \<open>A placement whose numbers are not negative, as NVML reports them, is printed with at most ten digits each.\<close>

definition numbers_ok :: "int32 \<Rightarrow> MigPlacement \<Rightarrow> bool" where
  "numbers_ok profileID p \<longleftrightarrow> list_all (\<lambda>i. 0 \<le> i \<and> i < 2 ^ 31) [profileID, pl_Start p, pl_Size p]"

lemma number_string:
  assumes "0 \<le> i" "i < 2 ^ 31"
  shows "list_all is_digit (int_string i)" "int_string i \<noteq> []" "length (int_string i) \<le> 10" "Atoi (int_string i) = Some i"
proof -
  have "nat i < 10 ^ Suc 9" using assms by simp
  from length_nat_string[OF this] show "length (int_string i) \<le> 10" using assms by (simp add: int_string_def)
  show "list_all is_digit (int_string i)" "int_string i \<noteq> []"
    using assms nat_string_digits by (simp_all add: int_string_def)
  show "Atoi (int_string i) = Some i" using assms by (simp add: Atoi_int_string in64_def)
qed

lemma migDeviceName_shape:
  assumes "pci_address pci" "numbers_ok profileID p"
  obtains x where "migDeviceName pci profileID p =
      (''mig-'' @ x) @ CHR ''-'' # CHR ''p'' # int_string profileID @ CHR ''-'' # CHR ''s'' # int_string (pl_Start p) @
      CHR ''-'' # CHR ''n'' # int_string (pl_Size p)" "CHR ''p'' \<notin> set x"
proof -
  let ?P = "int_string profileID" and ?S = "int_string (pl_Start p)" and ?N = "int_string (pl_Size p)"
  let ?tail = "''-p'' @ ?P @ ''-s'' @ ?S @ ''-n'' @ ?N"
  let ?x = "sanitize_loop (map lower_char pci) True"
  have nums: "list_all is_digit ?P" "list_all is_digit ?S" "list_all is_digit ?N" "?P \<noteq> []" "?S \<noteq> []" "?N \<noteq> []"
    "length ?P \<le> 10" "length ?S \<le> 10" "length ?N \<le> 10"
    using assms(2) by (simp_all add: numbers_ok_def number_string)
  have pci: "pci \<noteq> []" "length pci \<le> 23" "label_char (last (map lower_char pci))" "\<And>c. c \<in> set pci \<Longrightarrow> pci_char c"
    using assms(1) by (auto simp: pci_address_def last_map digit_facts list_all_iff)
  have last: "label_char (last ?P)" "label_char (last ?S)" "is_digit (last ?N)"
    using nums by (auto simp: list_all_iff digit_facts)
  have san: "sanitize_loop ?tail False = ?tail"
    using nums digits_label last by (simp add: sanitize_loop_append sanitize_loop_label label_char_def less_eq_char_def)
  let ?full = "''mig-'' @ pci @ ?tail"
  have "TrimSpace ?full = ?full"
    unfolding TrimSpace_def using nums last digit_facts(1) label_char_not_space
    by (intro TrimBoth_id) (auto simp: is_space_def)
  moreover have "ToLower ?full = ''mig-'' @ map lower_char pci @ ?tail"
    using nums by (simp add: ToLower_def ToLower_digits lower_char_def)
  moreover have "sanitize_loop (''mig-'' @ map lower_char pci @ ?tail) False = ''mig-'' @ ?x @ ?tail"
    using pci san by (simp add: sanitize_loop_append[of "map lower_char pci"] label_char_def less_eq_char_def)
  moreover have "TrimBoth (\<lambda>c. c = CHR ''-'') (''mig-'' @ ?x @ ?tail) = ''mig-'' @ ?x @ ?tail"
    using nums last digit_facts(1) label_char_neq_dash by (intro TrimBoth_id) auto
  moreover have "length (''mig-'' @ ?x @ ?tail) \<le> 63"
    using length_sanitize_loop[of "map lower_char pci" True] pci(2) nums by simp
  ultimately have "SanitizeDNSLabel ?full = ''mig-'' @ ?x @ ?tail"
    unfolding SanitizeDNSLabel_def Let_def by simp
  moreover have "CHR ''p'' \<notin> set ?x"
  proof
    assume "CHR ''p'' \<in> set ?x"
    then obtain c where "c \<in> set pci" "lower_char c = CHR ''p''"
      using set_sanitize_loop[of "map lower_char pci" True] by auto
    then show False using pci_no_p pci(4) by blast
  qed
  ultimately show thesis
    using that[of ?x] by (simp add: migDeviceName_def)
qed

lemma TrimSpace_dns_label: "dns_label s \<Longrightarrow> TrimSpace s = s"
  unfolding TrimSpace_def dns_label_def using label_char_not_space by (intro TrimBoth_id) blast

lemma parseMigDeviceName_migDeviceName:
  assumes "pci_address pci" "numbers_ok profileID p"
  shows "parseMigDeviceName (migDeviceName pci profileID p) = Inr (profileID, pl_Start p, pl_Size p)"
proof -
  let ?P = "int_string profileID" and ?S = "int_string (pl_Start p)" and ?N = "int_string (pl_Size p)"
  obtain x where x: "migDeviceName pci profileID p = (''mig-'' @ x) @ CHR ''-'' # CHR ''p'' # ?P @ CHR ''-'' # CHR ''s'' # ?S @
      CHR ''-'' # CHR ''n'' # ?N" "CHR ''p'' \<notin> set x"
    by (rule migDeviceName_shape[OF assms])
  have nums: "list_all is_digit ?P" "list_all is_digit ?S" "list_all is_digit ?N" "?N \<noteq> []"
    "Atoi ?P = Some profileID" "Atoi ?S = Some (pl_Start p)" "Atoi ?N = Some (pl_Size p)"
    using assms(2) by (simp_all add: numbers_ok_def number_string)
  have no: "CHR ''s'' \<notin> set ?P" "CHR ''n'' \<notin> set ?S"
    using nums(1,2) digit_facts(3,4) unfolding list_all_iff by blast+
  have "TrimSpace (migDeviceName pci profileID p) = migDeviceName pci profileID p"
    unfolding migDeviceName_def by (intro TrimSpace_dns_label SanitizeDNSLabel_label)
  moreover have "HasPrefix (migDeviceName pci profileID p) ''mig-''"
    by (simp add: x(1) HasPrefix_def)
  moreover have "SplitN2 (migDeviceName pci profileID p) ''-p'' = Some (''mig-'' @ x, ?P @ CHR ''-'' # CHR ''s'' # ?S @ CHR ''-'' # CHR ''n'' # ?N)"
    unfolding x(1) using x(2) by (intro SplitN2_first) auto
  ultimately show ?thesis
    using SplitN2_first[OF no(1)] SplitN2_first[OF no(2)] nums by (simp add: parseMigDeviceName_def)
qed

lemma AttrString_pci:
  assumes "PCIAddressFor pgpu \<noteq> []"
  shows "AttrString (BaseAttributes pgpu kind profile) AttrPCIAddress = PCIAddressFor pgpu"
proof -
  have neq: "AttrPCIAddress \<noteq> AttrDriverVer" "AttrPCIAddress \<noteq> AttrGPUUUID" "AttrPCIAddress \<noteq> AttrCCMajor"
    "AttrPCIAddress \<noteq> AttrCCMinor" "AttrPCIAddress \<noteq> AttrMigProfile"
    by (simp_all add: AttrPCIAddress_def AttrDriverVer_def AttrGPUUUID_def AttrCCMajor_def AttrCCMinor_def AttrMigProfile_def)
  have put: "k \<noteq> AttrPCIAddress \<Longrightarrow> mget (put_nonempty k v m) AttrPCIAddress = mget m AttrPCIAddress" for k v m
    by (simp add: put_nonempty_def)
  have "mget (BaseAttributes pgpu kind profile) AttrPCIAddress = Some (string_attr (PCIAddressFor pgpu))"
    using assms neq by (simp add: BaseAttributes_def Let_def put put_nonempty_def[of AttrPCIAddress] split: option.split)
  then show ?thesis
    by (simp add: AttrString_def string_attr_def)
qed

text \<open>
  \<^bold>\<open>C19.\<close> What a node prepares is what it offered: from the name and the attributes of an offered MIG device,
  \<open>BuildMigPrepareRequest\<close> recovers the address of the GPU, the profile and the placement of the offer. (The
  name survives \<open>SanitizeDNSLabel\<close>, because a PCI address has at most 23 characters and no letter after \<open>f\<close>.)
\<close>

theorem BuildMigPrepareRequest_offer:
  fixes dev :: "'q PrepareDevice"
  assumes "pci_address (PCIAddressFor pgpu)" and "numbers_ok (mp_ProfileID profile) p"
    and "pd_Device dev = ds_Name (Spec (mig_device pgpu (PCIAddressFor pgpu) s profile p))"
    and "pd_Attributes dev = ds_Attributes (Spec (mig_device pgpu (PCIAddressFor pgpu) s profile p))"
  shows "BuildMigPrepareRequest dev =
     Inr \<lparr> mpr_PCIBusID = PCIAddressFor pgpu, mpr_ProfileID = mp_ProfileID profile, mpr_SliceStart = pl_Start p,
           mpr_SliceSize = pl_Size p \<rparr>"
proof -
  have name: "pd_Device dev = migDeviceName (PCIAddressFor pgpu) (mp_ProfileID profile) p"
    and attrs: "AttrString (pd_Attributes dev) AttrPCIAddress = PCIAddressFor pgpu" "PCIAddressFor pgpu \<noteq> []"
    using assms(1,3,4) by (auto simp: mig_device_def NewMIGDevice_def Spec_def AttrString_pci pci_address_def)
  then show ?thesis
    by (simp add: BuildMigPrepareRequest_def parseMigDeviceName_migDeviceName[OF assms(1,2)])
qed

section \<open>An example GPU\<close>

text \<open>A GPU with seven slices and one profile of one slice, of which the placements 0 and 1 are offered.\<close>

definition ex_profile :: NvidiaMIGProfile where
  "ex_profile = \<lparr> mp_ProfileID = 19, mp_Name = ''1g.5gb'', mp_MemoryMiB = 4864, mp_SliceCount = 1, mp_MaxInstances = 7,
     mp_Multiprocessors = 14, mp_CopyEngines = 1, mp_Decoders = 0, mp_Encoders = 0, mp_JpegEngines = 0, mp_OfaEngines = 0 \<rparr>"

definition ex_pgpu :: PhysicalGPU where
  "ex_pgpu = \<lparr> pg_Name = ''gpu0'', pg_Labels = [],
     pg_NodeInfo = None, pg_PCIInfo = Some \<lparr> pci_Address = ''0000:01:00.0'', pci_Class = None, pci_Vendor = None, pci_Device = None \<rparr>,
     pg_Capabilities = Some \<lparr> gcap_MemoryMiB = Some 40960, gcap_Vendor = VendorNvidia,
       gcap_Nvidia = Some \<lparr> nc_ComputeCap = ''8.0'', nc_MIGSupported = Some True,
         nc_MIG = Some \<lparr> nm_TotalSlices = 7, nm_Profiles = [ex_profile] \<rparr> \<rparr> \<rparr>,
     pg_CurrentState = None, pg_Generation = 1, pg_Conditions = [] \<rparr>"

definition ex_placement :: "int \<Rightarrow> MigPlacement" where
  "ex_placement i = \<lparr> pl_Start = i, pl_Size = 1 \<rparr>"

definition ex_read :: MigPlacementSession where
  "ex_read pci ids = Inr [(19, [ex_placement 0, ex_placement 1])]"

definition ex_set :: string where
  "ex_set = ''pgpu-0000-01-00-0''"

definition ex_part :: "int \<Rightarrow> CandidateDevice" where
  "ex_part i = ex_candidate (Spec (mig_device ex_pgpu ''0000:01:00.0'' ex_set ex_profile (ex_placement i)))"

definition ex_totals :: migCountersTotal where
  "ex_totals = totalsFromProfiles 40960 7 [ex_profile]"

definition ex_sets :: "(string, CounterSet) gomap" where
  "ex_sets = [(ex_set, \<lparr> cs_Name = ex_set, cs_Counters = buildMigCounters ex_totals \<rparr>)]"

lemma ex_mig_Build:
  "mig_Build ex_pgpu (Some ex_read) = Inr \<lparr> br_Devices =
     map (mig_device ex_pgpu ''0000:01:00.0'' ex_set ex_profile) [ex_placement 0, ex_placement 1],
     br_CounterSets = [\<lparr> cs_Name = ex_set, cs_Counters = buildMigCounters ex_totals \<rparr>] \<rparr>"
  by code_simp

definition ex_two :: "(int64 \<times> qformat) Request list" where
  "ex_two = [\<lparr> rq_Name = ''r'', rq_Count = 2, rq_Selectors = [], rq_Capacity = None \<rparr>]"

definition ex_two_alloc :: "(int64 \<times> qformat) AllocationResult" where
  "ex_two_alloc = (case allocateOnNode int_quantity ''n1'' [ex_part 0, ex_part 1] ex_two [] ex_sets of
     Inr (Some alloc) \<Rightarrow> alloc | _ \<Rightarrow> undefined)"

lemma ex_two_allocation:
  "allocateOnNode int_quantity ''n1'' [ex_part 0, ex_part 1] ex_two [] ex_sets = Inr (Some ex_two_alloc)"
  "map ad_Device (ar_Devices ex_two_alloc) = map (ds_Name \<circ> cd_Spec) [ex_part 0, ex_part 1]"
  by code_simp+

theorem mig_slices_disjoint_witness:
  "length (ar_Devices ex_two_alloc) = 2 \<and> slices (ex_placement 0) = {0} \<and> slices (ex_placement 0) \<inter> slices (ex_placement 1) = {}"
proof -
  have sane: "candidates_wf [ex_part 0, ex_part 1]" "available_sane ex_sets"
    "\<forall>d \<in> set [ex_part 0, ex_part 1]. consumes_sane (ds_Consumes (cd_Spec d))"
    by code_simp+
  have found: "length (ar_Devices ex_two_alloc) = 2"
    "mget (indexDevices [ex_part 0, ex_part 1]) (result_key (ar_Devices ex_two_alloc ! 0)) = Some (ex_part 0)"
    "mget (indexDevices [ex_part 0, ex_part 1]) (result_key (ar_Devices ex_two_alloc ! 1)) = Some (ex_part 1)"
    by code_simp+
  have offer: "mig_offer ex_set (ex_part i) (ex_placement i)" for i
    by (rule mig_device_offer) (simp add: ex_part_def ex_candidate_def)
  have sets: "mget ex_sets ex_set = Some \<lparr> cs_Name = ex_set, cs_Counters = buildMigCounters ex_totals \<rparr>"
    by (simp add: ex_sets_def)
  show ?thesis
    using mig_slices_disjoint[OF ex_two_allocation(1) sane sets _ _ found(2) offer, of ex_totals] found offer[of 1]
    by (auto simp: slices_def ex_placement_def wrap32_def)
qed

theorem mig_Build_fits_witness:
  "consumeCounters [] (counter_sets [\<lparr> cs_Name = ex_set, cs_Counters = buildMigCounters ex_totals \<rparr>])
     (ds_Consumes (Spec (mig_device ex_pgpu ''0000:01:00.0'' ex_set ex_profile (ex_placement 1)))) \<noteq> None"
proof -
  have "mig_sane ex_pgpu" "PCIAddressFor ex_pgpu \<noteq> []" by code_simp+
  then show ?thesis
    using mig_Build_fits[OF ex_mig_Build] by (simp add: ex_read_def ex_placement_def)
qed

definition ex_dev :: "(int64 \<times> qformat) PrepareDevice" where
  "ex_dev = \<lparr> pd_Request = ''r'', pd_Driver = ''gpu'', pd_Pool = ''n1'',
     pd_Device = ''mig-0000-01-00-0-p19-s1-n1'', pd_ShareID = [], pd_ConsumedCapacity = [],
     pd_Attributes = ds_Attributes (Spec (mig_device ex_pgpu ''0000:01:00.0'' ex_set ex_profile (ex_placement 1))),
     pd_Config = None \<rparr>"

theorem BuildMigPrepareRequest_offer_witness:
  "BuildMigPrepareRequest ex_dev =
     Inr \<lparr> mpr_PCIBusID = ''0000:01:00.0'', mpr_ProfileID = 19, mpr_SliceStart = 1, mpr_SliceSize = 1 \<rparr>"
proof -
  have pci: "PCIAddressFor ex_pgpu = ''0000:01:00.0''"
    and ok: "pci_address (PCIAddressFor ex_pgpu)" "numbers_ok (mp_ProfileID ex_profile) (ex_placement 1)"
    and name: "pd_Device ex_dev = ds_Name (Spec (mig_device ex_pgpu (PCIAddressFor ex_pgpu) ex_set ex_profile (ex_placement 1)))"
    by code_simp+
  have attrs: "pd_Attributes ex_dev =
      ds_Attributes (Spec (mig_device ex_pgpu (PCIAddressFor ex_pgpu) ex_set ex_profile (ex_placement 1)))"
    by (simp add: ex_dev_def pci)
  show ?thesis
    using BuildMigPrepareRequest_offer[OF ok name attrs] by (simp add: pci ex_profile_def ex_placement_def)
qed

end
