(* ===== verification/KubeletDriver.thy ===== *)
theory KubeletDriver
  imports K8sAllocator NodeLock
begin

text \<open>
  The kubelet plugin of a node, \<open>pkg/dra/driver\<close> with \<open>pkg/dra/adapters/k8s/prepare\<close>: it turns an allocated
  claim into a prepare request (looking the devices up in the published slices, reading the opaque device
  configurations and the VFIO annotation), calls the prepare service and reports device statuses.

  The decoder of opaque configurations (\<open>runtime.Decode\<close>), the API client and \<open>retry.RetryOnConflict\<close> are
  parameters; the decoder returns \<open>None\<close> for an object that is not a device configuration. The state is a
  pair of the node, on which the prepare service works, and the cluster, on which the client works. Logging
  is left out.
\<close>

section \<open>Claims as the plugin sees them\<close>

record 't Condition =
  cn_Type :: string
  cn_Status :: bool
  cn_Reason :: string
  cn_Message :: string
  cn_LastTransitionTime :: 't

record 't AllocatedDeviceStatus =
  as_Driver :: string
  as_Pool :: string
  as_Device :: string
  as_ShareID :: "string option"
  as_Conditions :: "'t Condition list"

record ('q, 't) NodeClaim = "('q, 't) ResourceClaim" +
  cl_Annotations :: "(string, string) gomap"
  cl_DeviceStatuses :: "'t AllocatedDeviceStatus list"

record KubeletDevice =
  kd_Requests :: "string list"
  kd_PoolName :: string
  kd_DeviceName :: string
  kd_CDIDeviceIDs :: "string list"

datatype driver_error =
    ErrClaim string string
  | ErrPool string string
  | ErrMissingDevice string string
  | ErrSource string
  | ErrNotOpaque
  | ErrDecode string
  | ErrConfigType
  | ErrInvalidConfig config_error
  | ErrConfigMismatch string string
  | ErrClient string
  | ErrPrepare prepare_error

section \<open>The prepare request of a claim\<close>

definition filterResults ::
  "'q DeviceRequestAllocationResult list \<Rightarrow> string \<Rightarrow> 'q DeviceRequestAllocationResult list" where
  "filterResults results driverName =
     (if driverName = [] then results else filter (\<lambda>res. ra_Driver res = driverName) results)"

record 'q poolIndex =
  pi_generation :: int64
  pi_devices :: "(string, 'q Device) gomap"

definition index_slice ::
  "string \<Rightarrow> string \<Rightarrow> (string, 'q poolIndex) gomap \<Rightarrow> 'q ResourceSlice \<Rightarrow> (string, 'q poolIndex) gomap" where
  "index_slice driverName nodeName index slice =
     (if driverName \<noteq> [] \<and> rs_Driver slice \<noteq> driverName then index
      else if nodeName \<noteq> [] \<and> rs_NodeName slice \<noteq> None \<and> rs_NodeName slice \<noteq> Some nodeName then index
      else if rs_PoolName slice = [] then index
      else
        let gen = rs_Generation slice;
            fresh = \<lparr> pi_generation = gen, pi_devices = [] \<rparr>;
            entry = (case mget index (rs_PoolName slice) of
                       None \<Rightarrow> fresh | Some e \<Rightarrow> if gen > pi_generation e then fresh else e);
            index1 = mput (rs_PoolName slice) entry index
        in if gen < pi_generation entry then index1
           else mput (rs_PoolName slice)
                  (entry\<lparr> pi_devices := foldl (\<lambda>m dev. mput (dv_Name dev) dev m) (pi_devices entry) (rs_Devices slice) \<rparr>)
                  index1)"

definition prepare_indexDevices ::
  "'q ResourceSlice list \<Rightarrow> string \<Rightarrow> string \<Rightarrow> (string, 'q poolIndex) gomap" where
  "prepare_indexDevices slices driverName nodeName = foldl (index_slice driverName nodeName) [] slices"

definition shareID :: "string option \<Rightarrow> string" where
  "shareID i = (case i of None \<Rightarrow> [] | Some s \<Rightarrow> s)"

definition attributesFromDevice :: "'q Device \<Rightarrow> (string, AttributeValue) gomap" where
  "attributesFromDevice device =
     map (\<lambda>(key, attr). (key, \<lparr> av_String = da_StringValue attr, av_Int = da_IntValue attr, av_Bool = da_BoolValue attr \<rparr>))
       (dv_Attributes device)"

definition prepare_device ::
  "(string, 'q poolIndex) gomap \<Rightarrow> 'q DeviceRequestAllocationResult \<Rightarrow> driver_error + 'q PrepareDevice" where
  "prepare_device index res =
     (case mget index (ra_Pool res) of
        None \<Rightarrow> Inl (ErrPool (ra_Pool res) (ra_Device res))
      | Some pool \<Rightarrow>
          (case mget (pi_devices pool) (ra_Device res) of
             None \<Rightarrow> Inl (ErrMissingDevice (ra_Device res) (ra_Pool res))
           | Some dev \<Rightarrow>
               Inr \<lparr> pd_Request = ra_Request res, pd_Driver = ra_Driver res, pd_Pool = ra_Pool res,
                     pd_Device = ra_Device res, pd_ShareID = shareID (ra_ShareID res),
                     pd_ConsumedCapacity = ra_ConsumedCapacity res, pd_Attributes = attributesFromDevice dev,
                     pd_Config = None \<rparr>))"

definition BuildPrepareRequest ::
  "('q, 't) NodeClaim option \<Rightarrow> string \<Rightarrow> string \<Rightarrow> 'q ResourceSlice list \<Rightarrow> driver_error + 'q PrepareRequest" where
  "BuildPrepareRequest claim driverName nodeName slices =
     (case claim of
        None \<Rightarrow> Inl (ErrClaim [] ''claim is nil'')
      | Some c \<Rightarrow>
          if cl_UID c = [] then Inl (ErrClaim (cl_Name c) ''claim UID is empty'')
          else
            (case cl_Allocation c of
               None \<Rightarrow> Inl (ErrClaim (cl_Name c) ''has no allocation'')
             | Some a \<Rightarrow>
                 if aa_Results a = [] then Inl (ErrClaim (cl_Name c) ''has no allocated devices'')
                 else
                   let filtered = filterResults (aa_Results a) driverName in
                   if filtered = [] then Inl (ErrClaim (cl_Name c) ''has no devices for driver'')
                   else
                     (case map_res (prepare_device (prepare_indexDevices slices driverName nodeName)) filtered of
                        Inl err \<Rightarrow> Inl err
                      | Inr devices \<Rightarrow>
                          Inr \<lparr> pr_ClaimUID = cl_UID c, pr_NodeName = nodeName, pr_VFIO = False, pr_Devices = devices \<rparr>)))"

section \<open>Device configurations\<close>

type_synonym 'q decoder = "string \<Rightarrow> string + 'q config option"

record 'q OpaqueDeviceConfig =
  oc_Requests :: "string list"
  oc_Config :: "'q config"

definition decode_config ::
  "'q decoder \<Rightarrow> string \<Rightarrow> DeviceAllocationConfiguration \<Rightarrow> driver_error + 'q OpaqueDeviceConfig option" where
  "decode_config decode driverName cfg =
     (case dac_Opaque cfg of
        None \<Rightarrow> Inl ErrNotOpaque
      | Some opaque \<Rightarrow>
          if od_Driver opaque \<noteq> driverName then Inr None
          else
            (case decode (od_Raw opaque) of
               Inl err \<Rightarrow> Inl (ErrDecode err)
             | Inr None \<Rightarrow> Inl ErrConfigType
             | Inr (Some config) \<Rightarrow>
                 let config = Normalize config in
                 (case Validate config of
                    Some err \<Rightarrow> Inl (ErrInvalidConfig err)
                  | None \<Rightarrow> Inr (Some \<lparr> oc_Requests = dac_Requests cfg, oc_Config = config \<rparr>))))"

definition config_sources :: "DeviceAllocationConfiguration list \<Rightarrow> driver_error + DeviceAllocationConfiguration list" where
  "config_sources configs =
     (case find (\<lambda>cfg. dac_Source cfg \<notin> {AllocationConfigSourceClass, AllocationConfigSourceClaim}) configs of
        Some cfg \<Rightarrow> Inl (ErrSource (case dac_Source cfg of AllocationConfigSourceOther s \<Rightarrow> s | _ \<Rightarrow> []))
      | None \<Rightarrow> Inr (filter (\<lambda>cfg. dac_Source cfg = AllocationConfigSourceClass) configs
                     @ filter (\<lambda>cfg. dac_Source cfg = AllocationConfigSourceClaim) configs))"

definition decodeDeviceConfigs ::
  "'q decoder \<Rightarrow> DeviceAllocationConfiguration list \<Rightarrow> string \<Rightarrow> driver_error + 'q OpaqueDeviceConfig list" where
  "decodeDeviceConfigs decode configs driverName =
     (if configs = [] then Inr []
      else
        (case config_sources configs of
           Inl err \<Rightarrow> Inl err
         | Inr candidates \<Rightarrow>
             (case map_res (decode_config decode driverName) candidates of
                Inl err \<Rightarrow> Inl err
              | Inr decoded \<Rightarrow> Inr (map the (filter (\<lambda>c. c \<noteq> None) decoded)))))"

definition configAppliesToRequest :: "string list \<Rightarrow> string \<Rightarrow> bool" where
  "configAppliesToRequest configRequests request =
     (let request = TrimSpace request in
      if request = [] then False
      else if configRequests = [] then True
      else list_ex (\<lambda>name. let name = TrimSpace name in
             name \<noteq> [] \<and> (name = request \<or> HasPrefix request (name @ ''/''))) configRequests)"

definition configApplies :: "string list \<Rightarrow> string list \<Rightarrow> bool" where
  "configApplies configRequests allocated =
     (configRequests = [] \<or> list_ex (configAppliesToRequest configRequests) allocated)"

definition defaultConfigForDevice :: "string \<Rightarrow> 'q config option" where
  "defaultConfigForDevice deviceType =
     (if IsPhysicalDevice deviceType then Some (ConfigGpu DefaultGpuConfig)
      else if IsMigDevice deviceType then Some (ConfigMig DefaultMigDeviceConfig) else None)"

definition configMatchesDeviceType :: "'q config \<Rightarrow> string \<Rightarrow> bool" where
  "configMatchesDeviceType cfg deviceType =
     (case cfg of ConfigGpu _ \<Rightarrow> IsPhysicalDevice deviceType | ConfigMig _ \<Rightarrow> IsMigDevice deviceType | ConfigVfio _ \<Rightarrow> False)"

fun select_config ::
  "'q PrepareDevice \<Rightarrow> 'q OpaqueDeviceConfig list \<Rightarrow> 'q config option \<Rightarrow> driver_error + 'q config option" where
  "select_config dev [] selected = Inr selected"
| "select_config dev (cfg # rest) selected =
     (case oc_Config cfg of
        ConfigVfio _ \<Rightarrow> select_config dev rest selected
      | config \<Rightarrow>
          if \<not> configAppliesToRequest (oc_Requests cfg) (pd_Request dev) then select_config dev rest selected
          else if \<not> configMatchesDeviceType config (device_type dev)
          then Inl (ErrConfigMismatch (pd_Device dev) (device_type dev))
          else select_config dev rest (Some config))"

definition apply_device_config :: "'q OpaqueDeviceConfig list \<Rightarrow> 'q PrepareDevice \<Rightarrow> driver_error + 'q PrepareDevice" where
  "apply_device_config configs dev =
     (case select_config dev configs (defaultConfigForDevice (device_type dev)) of
        Inl err \<Rightarrow> Inl err | Inr selected \<Rightarrow> Inr (dev\<lparr> pd_Config := selected \<rparr>))"

definition applyDeviceConfigs :: "'q PrepareRequest \<Rightarrow> 'q OpaqueDeviceConfig list \<Rightarrow> driver_error + 'q PrepareRequest" where
  "applyDeviceConfigs req configs =
     (case map_res (apply_device_config configs) (pr_Devices req) of
        Inl err \<Rightarrow> Inl err | Inr devices \<Rightarrow> Inr (req\<lparr> pr_Devices := devices \<rparr>))"

definition VfioAnnotationKey :: string where
  "VfioAnnotationKey = ''gpu.deckhouse.io/vfio''"

definition VFIORequested :: "(string, string) gomap \<Rightarrow> bool" where
  "VFIORequested annotations =
     (let raw = TrimSpace (case mget annotations VfioAnnotationKey of None \<Rightarrow> [] | Some v \<Rightarrow> v) in
      raw \<noteq> [] \<and> ToLower raw \<in> set [''true'', ''1'', ''yes'', ''y''])"

definition vfioRequestedFromConfig :: "'q decoder \<Rightarrow> ('q, 't) NodeClaim \<Rightarrow> string \<Rightarrow> driver_error + bool" where
  "vfioRequestedFromConfig decode claim driverName =
     (case cl_Allocation claim of
        None \<Rightarrow> Inr False
      | Some a \<Rightarrow>
          let requests = map ra_Request (filter (\<lambda>res. ra_Driver res = driverName) (aa_Results a)) in
          if requests = [] then Inr False
          else
            (case decodeDeviceConfigs decode (aa_Config a) driverName of
               Inl err \<Rightarrow> Inl err
             | Inr configs \<Rightarrow>
                 Inr (list_ex (\<lambda>cfg. configApplies (oc_Requests cfg) requests \<and>
                        (case oc_Config cfg of ConfigVfio _ \<Rightarrow> True | _ \<Rightarrow> False)) configs)))"

section \<open>Device statuses\<close>

definition deviceStatusReasonPrepared :: string where "deviceStatusReasonPrepared = ''Prepared''"
definition deviceStatusMessagePrepared :: string where "deviceStatusMessagePrepared = ''device prepared''"

definition appendCondition ::
  "'t \<Rightarrow> 't Condition list \<times> string list \<Rightarrow> string \<Rightarrow> 't Condition list \<times> string list" where
  "appendCondition now acc condType = (case acc of (out, seen) \<Rightarrow>
     if condType = [] then (out, seen)
     else if condType \<in> set seen then (out, seen)
     else (out @ [\<lparr> cn_Type = condType, cn_Status = True, cn_Reason = deviceStatusReasonPrepared,
                    cn_Message = deviceStatusMessagePrepared, cn_LastTransitionTime = now \<rparr>],
           condType # seen))"

definition buildDeviceConditions :: "'q DeviceRequestAllocationResult \<Rightarrow> 't \<Rightarrow> 't Condition list" where
  "buildDeviceConditions result now =
     fst (foldl (appendCondition now) (appendCondition now ([], []) DeviceConditionReady) (ra_BindingConditions result))"

definition buildDeviceStatuses :: "('q, 't) NodeClaim \<Rightarrow> string \<Rightarrow> 't \<Rightarrow> 't AllocatedDeviceStatus list" where
  "buildDeviceStatuses claim driverName now =
     (case cl_Allocation claim of
        None \<Rightarrow> []
      | Some a \<Rightarrow>
          map (\<lambda>result. \<lparr> as_Driver = ra_Driver result, as_Pool = ra_Pool result, as_Device = ra_Device result,
                          as_ShareID = ra_ShareID result, as_Conditions = buildDeviceConditions result now \<rparr>)
            (filter (\<lambda>result. ra_Driver result = driverName) (aa_Results a)))"

definition mergeDeviceStatuses ::
  "'t AllocatedDeviceStatus list \<Rightarrow> 't AllocatedDeviceStatus list \<Rightarrow> string \<Rightarrow> 't AllocatedDeviceStatus list" where
  "mergeDeviceStatuses existing desired driverName =
     (if existing = [] \<and> desired = [] then []
      else filter (\<lambda>status. as_Driver status \<noteq> driverName) existing @ desired)"

datatype api_error = NotFound | Conflict | ApiError string

record ('q, 't, 'k) kube_client =
  ku_ListSlices :: "string \<Rightarrow> string \<Rightarrow> 'k \<Rightarrow> (string + 'q ResourceSlice list) \<times> 'k"
  ku_GetClaim :: "string \<Rightarrow> string \<Rightarrow> 'k \<Rightarrow> (api_error + ('q, 't) NodeClaim) \<times> 'k"
  ku_UpdateStatus :: "('q, 't) NodeClaim \<Rightarrow> 'k \<Rightarrow> api_error option \<times> 'k"

type_synonym 'k retry = "('k \<Rightarrow> api_error option \<times> 'k) \<Rightarrow> 'k \<Rightarrow> api_error option \<times> 'k"

record ('q, 't, 'w, 'k) Driver =
  drv_driverName :: string
  drv_nodeName :: string
  drv_kubeClient :: "('q, 't, 'k) kube_client option"
  drv_prepareService :: "('q, 'w) Options option"
  drv_deviceStatusEnabled :: bool
  drv_decoder :: "'q decoder"
  drv_retry :: "'k retry"
  drv_now :: "'k \<Rightarrow> 't"

definition update_statuses ::
  "('q, 't, 'k) kube_client \<Rightarrow> string \<Rightarrow> string \<Rightarrow> string \<Rightarrow> 't AllocatedDeviceStatus list \<Rightarrow> 'k \<Rightarrow> api_error option \<times> 'k" where
  "update_statuses client driverName namespace name statuses k =
     (case ku_GetClaim client namespace name k of
        (Inl NotFound, k1) \<Rightarrow> (None, k1)
      | (Inl err, k1) \<Rightarrow> (Some err, k1)
      | (Inr current, k1) \<Rightarrow>
          ku_UpdateStatus client
            (current\<lparr> cl_DeviceStatuses := mergeDeviceStatuses (cl_DeviceStatuses current) statuses driverName \<rparr>) k1)"

definition patchClaimDeviceStatuses ::
  "('q, 't, 'w, 'k) Driver \<Rightarrow> ('q, 't, 'k) kube_client \<Rightarrow> string \<Rightarrow> string \<Rightarrow> 't AllocatedDeviceStatus list \<Rightarrow> 'k \<Rightarrow>
   api_error option \<times> 'k" where
  "patchClaimDeviceStatuses d client namespace name statuses k =
     (if namespace = [] \<or> name = [] then (None, k)
      else drv_retry d (update_statuses client (drv_driverName d) namespace name statuses) k)"

definition updateClaimDeviceStatus ::
  "('q, 't, 'w, 'k) Driver \<Rightarrow> ('q, 't) NodeClaim \<Rightarrow> 'k \<Rightarrow> api_error option \<times> 'k" where
  "updateClaimDeviceStatus d claim k =
     (case drv_kubeClient d of
        None \<Rightarrow> (None, k)
      | Some client \<Rightarrow>
          let statuses = buildDeviceStatuses claim (drv_driverName d) (drv_now d k) in
          if statuses = [] then (None, k)
          else patchClaimDeviceStatuses d client (cl_Namespace claim) (cl_Name claim) statuses k)"

definition clearClaimDeviceStatus ::
  "('q, 't, 'w, 'k) Driver \<Rightarrow> string \<Rightarrow> string \<Rightarrow> 'k \<Rightarrow> api_error option \<times> 'k" where
  "clearClaimDeviceStatus d namespace name k =
     (case drv_kubeClient d of
        None \<Rightarrow> (None, k)
      | Some client \<Rightarrow> patchClaimDeviceStatuses d client namespace name [] k)"

section \<open>Preparing and unpreparing claims\<close>

definition listResourceSlices :: "('q, 't, 'w, 'k) Driver \<Rightarrow> 'k \<Rightarrow> (driver_error + 'q ResourceSlice list) \<times> 'k" where
  "listResourceSlices d k =
     (case drv_kubeClient d of
        None \<Rightarrow> (Inl (ErrClient ''kube client is required''), k)
      | Some client \<Rightarrow>
          (case ku_ListSlices client (drv_driverName d) (drv_nodeName d) k of
             (Inl err, k1) \<Rightarrow> (Inl (ErrClient err), k1)
           | (Inr slices, k1) \<Rightarrow> (Inr slices, k1)))"

definition claim_request ::
  "('q, 't, 'w, 'k) Driver \<Rightarrow> ('q, 't) NodeClaim option \<Rightarrow> 'q ResourceSlice list \<Rightarrow> driver_error + 'q PrepareRequest" where
  "claim_request d claim slices =
     (case BuildPrepareRequest claim (drv_driverName d) (drv_nodeName d) slices of
        Inl err \<Rightarrow> Inl err
      | Inr req \<Rightarrow>
          (case claim of
             None \<Rightarrow> Inl (ErrClaim [] ''claim is nil'')
           | Some c \<Rightarrow>
               (case vfioRequestedFromConfig (drv_decoder d) c (drv_driverName d) of
                  Inl err \<Rightarrow> Inl err
                | Inr vfio \<Rightarrow>
                    let req = req\<lparr> pr_VFIO := VFIORequested (cl_Annotations c) \<or> vfio \<rparr> in
                    (case decodeDeviceConfigs (drv_decoder d) (case cl_Allocation c of None \<Rightarrow> [] | Some a \<Rightarrow> aa_Config a)
                            (drv_driverName d) of
                       Inl err \<Rightarrow> Inl err
                     | Inr configs \<Rightarrow> applyDeviceConfigs req configs))))"

definition service_Prepare ::
  "('q, 'w) Options option \<Rightarrow> 'q PrepareRequest \<Rightarrow> 'w \<Rightarrow> (prepare_error + PrepareResult) \<times> 'w" where
  "service_Prepare s req w =
     (case s of None \<Rightarrow> (Inl (ErrMsg ''CDI writer is not configured''), w) | Some opts \<Rightarrow> Prepare opts req w)"

definition kubelet_device :: "PreparedDevice \<Rightarrow> KubeletDevice" where
  "kubelet_device dev = \<lparr> kd_Requests = [pv_Request dev], kd_PoolName = pv_Pool dev, kd_DeviceName = pv_Device dev,
     kd_CDIDeviceIDs = pv_CDIDeviceIDs dev \<rparr>"

definition prepareClaim ::
  "('q, 't, 'w, 'k) Driver \<Rightarrow> ('q, 't) NodeClaim option \<Rightarrow> 'q ResourceSlice list \<Rightarrow> 'w \<times> 'k \<Rightarrow>
   (driver_error + KubeletDevice list) \<times> 'w \<times> 'k" where
  "prepareClaim d claim slices s = (case s of (w, k) \<Rightarrow>
     (case claim of
        None \<Rightarrow> (Inl (ErrClaim [] ''claim is nil''), w, k)
      | Some c \<Rightarrow>
          (case claim_request d claim slices of
             Inl err \<Rightarrow> (Inl err, w, k)
           | Inr req \<Rightarrow>
               (case service_Prepare (drv_prepareService d) req w of
                  (Inl err, w1) \<Rightarrow> (Inl (ErrPrepare err), w1, k)
                | (Inr result, w1) \<Rightarrow>
                    (Inr (map kubelet_device (pres_Devices result)), w1,
                     if drv_deviceStatusEnabled d then snd (updateClaimDeviceStatus d c k) else k)))))"

fun prepare_claims ::
  "('q, 't, 'w, 'k) Driver \<Rightarrow> 'q ResourceSlice list \<Rightarrow> ('q, 't) NodeClaim list \<Rightarrow>
   (string, driver_error + KubeletDevice list) gomap \<Rightarrow> 'w \<times> 'k \<Rightarrow>
   (string, driver_error + KubeletDevice list) gomap \<times> 'w \<times> 'k" where
  "prepare_claims d slices [] results s = (results, s)"
| "prepare_claims d slices (claim # rest) results s =
     (case prepareClaim d (Some claim) slices s of
        (r, s1) \<Rightarrow> prepare_claims d slices rest (mput (cl_UID claim) r results) s1)"

definition PrepareResourceClaims ::
  "('q, 't, 'w, 'k) Driver \<Rightarrow> ('q, 't) NodeClaim list \<Rightarrow> 'w \<times> 'k \<Rightarrow>
   (string, driver_error + KubeletDevice list) gomap \<times> 'w \<times> 'k" where
  "PrepareResourceClaims d claims s = (case s of (w, k) \<Rightarrow>
     if claims = [] then ([], w, k)
     else
       (case listResourceSlices d k of
          (Inl err, k1) \<Rightarrow> (foldl (\<lambda>m claim. mput (cl_UID claim) (Inl err) m) [] claims, w, k1)
        | (Inr slices, k1) \<Rightarrow> prepare_claims d slices claims [] (w, k1)))"

record ClaimRef =
  cf_Namespace :: string
  cf_Name :: string
  cf_UID :: string

definition unprepareClaim ::
  "('q, 't, 'w, 'k) Driver \<Rightarrow> ClaimRef \<Rightarrow> 'w \<times> 'k \<Rightarrow> prepare_error option \<times> 'w \<times> 'k" where
  "unprepareClaim d claim s = (case s of (w, k) \<Rightarrow>
     (case drv_prepareService d of
        None \<Rightarrow> (Some (ErrMsg ''prepare service is not configured''), w, k)
      | Some opts \<Rightarrow>
          (case Unprepare opts (cf_UID claim) w of
             (Some err, w1) \<Rightarrow> (Some err, w1, k)
           | (None, w1) \<Rightarrow>
               (None, w1,
                if drv_deviceStatusEnabled d then snd (clearClaimDeviceStatus d (cf_Namespace claim) (cf_Name claim) k) else k))))"

fun UnprepareResourceClaims ::
  "('q, 't, 'w, 'k) Driver \<Rightarrow> ClaimRef list \<Rightarrow> (string, prepare_error option) gomap \<Rightarrow> 'w \<times> 'k \<Rightarrow>
   (string, prepare_error option) gomap \<times> 'w \<times> 'k" where
  "UnprepareResourceClaims d [] results s = (results, s)"
| "UnprepareResourceClaims d (claim # rest) results s =
     (case unprepareClaim d claim s of
        (r, s1) \<Rightarrow> UnprepareResourceClaims d rest (mput (cf_UID claim) r results) s1)"

end
