(* ===== verification/KubeletSafety.thy ===== *)
theory KubeletSafety
  imports KubeletDriver
begin

text \<open>
  Correctness of the kubelet plugin (\<open>KubeletDriver\<close>): which configuration a device gets, and what is on
  disk and answered to kubelet after a call for several claims.
\<close>

section \<open>Which configuration a device gets\<close>

text \<open>
  The specification: of the configurations of the claim for this driver that apply to the request of the
  device, the last one; if there is none, the last one of the device class; if there is none, the default
  of the device type. VFIO configurations choose the mode of the whole claim and are passed over here.
\<close>

definition decoded_config :: "'q decoder \<Rightarrow> string \<Rightarrow> DeviceAllocationConfiguration \<Rightarrow> 'q config option" where
  "decoded_config decode driverName cfg =
     (case dac_Opaque cfg of
        None \<Rightarrow> None
      | Some opaque \<Rightarrow>
          if od_Driver opaque \<noteq> driverName then None
          else (case decode (od_Raw opaque) of Inr (Some c) \<Rightarrow> Some (Normalize c) | _ \<Rightarrow> None))"

definition device_config :: "'q config option \<Rightarrow> bool" where
  "device_config c = (case c of Some (ConfigGpu _) \<Rightarrow> True | Some (ConfigMig _) \<Rightarrow> True | _ \<Rightarrow> False)"

lemma device_config_simps [simp]:
  "\<not> device_config None" "device_config (Some (ConfigGpu g))" "device_config (Some (ConfigMig m))"
  "\<not> device_config (Some (ConfigVfio v))"
  by (simp_all add: device_config_def)

definition applicable :: "'q decoder \<Rightarrow> string \<Rightarrow> 'q PrepareDevice \<Rightarrow> DeviceAllocationConfiguration \<Rightarrow> bool" where
  "applicable decode driverName dev cfg \<longleftrightarrow>
     device_config (decoded_config decode driverName cfg) \<and> configAppliesToRequest (dac_Requests cfg) (pd_Request dev)"

definition applicable_from ::
  "'q decoder \<Rightarrow> string \<Rightarrow> 'q PrepareDevice \<Rightarrow> AllocationConfigSource \<Rightarrow> DeviceAllocationConfiguration list \<Rightarrow>
   DeviceAllocationConfiguration list" where
  "applicable_from decode driverName dev source configs =
     filter (\<lambda>cfg. dac_Source cfg = source \<and> applicable decode driverName dev cfg) configs"

definition expected_config ::
  "'q decoder \<Rightarrow> string \<Rightarrow> DeviceAllocationConfiguration list \<Rightarrow> 'q PrepareDevice \<Rightarrow> 'q config option" where
  "expected_config decode driverName configs dev =
     (let claim = applicable_from decode driverName dev AllocationConfigSourceClaim configs;
          cls = applicable_from decode driverName dev AllocationConfigSourceClass configs
      in if claim \<noteq> [] then decoded_config decode driverName (last claim)
         else if cls \<noteq> [] then decoded_config decode driverName (last cls)
         else defaultConfigForDevice (device_type dev))"

definition selectable :: "'q PrepareDevice \<Rightarrow> 'q OpaqueDeviceConfig \<Rightarrow> bool" where
  "selectable dev cfg \<longleftrightarrow> device_config (Some (oc_Config cfg)) \<and> configAppliesToRequest (oc_Requests cfg) (pd_Request dev)"

lemma select_config_last:
  "select_config dev configs selected = Inr r \<Longrightarrow>
   r = (if filter (selectable dev) configs = [] then selected else Some (oc_Config (last (filter (selectable dev) configs)))) \<and>
   list_all (\<lambda>cfg. configMatchesDeviceType (oc_Config cfg) (device_type dev)) (filter (selectable dev) configs)"
proof (induction dev configs selected rule: select_config.induct)
  case (2 dev cfg rest selected)
  then show ?case
    by (cases "oc_Config cfg")
       (auto simp: selectable_def[of dev cfg] split: if_splits)
qed simp

lemma decode_config_ok:
  assumes "decode_config decode driverName cfg = Inr r"
  shows "r = map_option (\<lambda>c. \<lparr> oc_Requests = dac_Requests cfg, oc_Config = c \<rparr>) (decoded_config decode driverName cfg)
    \<and> (case r of None \<Rightarrow> True | Some c \<Rightarrow> Validate (oc_Config c) = None)"
  using assms
  by (auto simp: decode_config_def decoded_config_def Let_def split: option.splits if_splits sum.splits)

lemma decoded_selectable:
  assumes "map_res (decode_config decode driverName) candidates = Inr decoded"
  shows "map oc_Config (filter (selectable dev) (map the (filter (\<lambda>c. c \<noteq> None) decoded))) =
      map (the \<circ> decoded_config decode driverName) (filter (applicable decode driverName dev) candidates)
    \<and> list_all (\<lambda>c. Validate (oc_Config c) = None) (map the (filter (\<lambda>c. c \<noteq> None) decoded))"
  using assms
proof (induction candidates arbitrary: decoded)
  case (Cons cfg rest)
  then obtain r rs where r: "decode_config decode driverName cfg = Inr r" "map_res (decode_config decode driverName) rest = Inr rs"
    "decoded = r # rs"
    by (auto split: sum.splits)
  then show ?case
    using Cons.IH[OF r(2)] decode_config_ok[OF r(1)]
    by (cases "decoded_config decode driverName cfg")
       (auto simp: applicable_def[of _ _ _ cfg] selectable_def)
qed simp

lemma config_sources_ok:
  "config_sources configs = Inr cs \<Longrightarrow>
   cs = filter (\<lambda>cfg. dac_Source cfg = AllocationConfigSourceClass) configs
        @ filter (\<lambda>cfg. dac_Source cfg = AllocationConfigSourceClaim) configs"
  by (auto simp: config_sources_def split: option.splits)

lemma apply_device_config_ok:
  assumes decode: "decodeDeviceConfigs decode configs driverName = Inr cs"
    and apply_dev: "apply_device_config cs dev = Inr dev'"
  shows "dev' = dev\<lparr> pd_Config := expected_config decode driverName configs dev \<rparr>
    \<and> (case pd_Config dev' of
         None \<Rightarrow> \<not> IsPhysicalDevice (device_type dev) \<and> \<not> IsMigDevice (device_type dev)
       | Some cfg \<Rightarrow> configMatchesDeviceType cfg (device_type dev) \<and> Validate cfg = None)"
proof -
  let ?a = "\<lambda>src. applicable_from decode driverName dev src configs"
  let ?sel = "filter (selectable dev) cs"
  obtain sel where sel: "select_config dev cs (defaultConfigForDevice (device_type dev)) = Inr sel" "dev' = dev\<lparr> pd_Config := sel \<rparr>"
    using apply_dev by (auto simp: apply_device_config_def split: sum.splits)
  have cs: "map oc_Config ?sel = map (the \<circ> decoded_config decode driverName)
      (?a AllocationConfigSourceClass @ ?a AllocationConfigSourceClaim)"
    and valid: "list_all (\<lambda>c. Validate (oc_Config c) = None) cs"
    using decode
    by (auto simp: decodeDeviceConfigs_def applicable_from_def conj_commute split: if_splits sum.splits
        dest!: config_sources_ok decoded_selectable[where dev = dev])
  have last: "?sel \<noteq> [] \<Longrightarrow> oc_Config (last ?sel) = (the \<circ> decoded_config decode driverName)
      (last (?a AllocationConfigSourceClass @ ?a AllocationConfigSourceClaim))"
    using arg_cong[OF cs, of last] cs by (metis last_map map_is_Nil_conv)
  have some: "cfg \<in> set (?a src) \<Longrightarrow> decoded_config decode driverName cfg \<noteq> None" for cfg src
    by (auto simp: applicable_from_def applicable_def device_config_def split: option.splits)
  have sel_eq: "sel = expected_config decode driverName configs dev"
  proof (cases "?sel = []")
    case True
    then show ?thesis
      using select_config_last[OF sel(1)] cs by (simp add: expected_config_def)
  next
    case False
    then have "?a AllocationConfigSourceClass \<noteq> [] \<or> ?a AllocationConfigSourceClaim \<noteq> []"
      using cs by auto
    then show ?thesis
      using select_config_last[OF sel(1)] False last some[OF last_in_set] by (auto simp: expected_config_def last_append)
  qed
  have "case sel of None \<Rightarrow> \<not> IsPhysicalDevice (device_type dev) \<and> \<not> IsMigDevice (device_type dev)
      | Some cfg \<Rightarrow> configMatchesDeviceType cfg (device_type dev) \<and> Validate cfg = None"
  proof (cases "?sel = []")
    case True
    then show ?thesis
      using select_config_last[OF sel(1)]
      by (auto simp: defaultConfigForDevice_def configMatchesDeviceType_def Validate_def GpuConfig_Validate_def
          MigDeviceConfig_Validate_def DefaultGpuConfig_def DefaultMigDeviceConfig_def)
  next
    case False
    then have "last ?sel \<in> set cs" "last ?sel \<in> set ?sel"
      using last_in_set[OF False] by auto
    then show ?thesis
      using select_config_last[OF sel(1)] False valid by (auto simp: list_all_iff)
  qed
  then show ?thesis
    using sel(2) sel_eq by simp
qed

section \<open>From the claim to the disk and back to kubelet\<close>

definition result_id :: "'q DeviceRequestAllocationResult \<Rightarrow> string \<times> string \<times> string" where
  "result_id res = (ra_Request res, ra_Pool res, ra_Device res)"

definition allocated_ids :: "('q, 't, 'w, 'k) Driver \<Rightarrow> ('q, 't) NodeClaim \<Rightarrow> (string \<times> string \<times> string) list" where
  "allocated_ids d claim =
     (case cl_Allocation claim of None \<Rightarrow> [] | Some a \<Rightarrow> map result_id (filterResults (aa_Results a) (drv_driverName d)))"

lemma map_res_map:
  assumes "map_res f xs = Inr ys" and "\<And>x y. x \<in> set xs \<Longrightarrow> f x = Inr y \<Longrightarrow> g y = h x"
  shows "map g ys = map h xs"
  using assms by (induction xs arbitrary: ys) (auto split: sum.splits)

lemma prepare_device_id: "prepare_device index res = Inr dev \<Longrightarrow> device_id dev = result_id res"
  by (auto simp: prepare_device_def device_id_def result_id_def split: option.splits)

lemma config_irrelevant:
  "expected_config decode drv cfgs (dev\<lparr> pd_Config := v \<rparr>) = expected_config decode drv cfgs dev"
  "device_type (dev\<lparr> pd_Config := v \<rparr>) = device_type dev"
  by (simp_all add: expected_config_def applicable_from_def applicable_def device_type_def Let_def)

definition claim_configs :: "('q, 't) NodeClaim \<Rightarrow> DeviceAllocationConfiguration list" where
  "claim_configs claim = (case cl_Allocation claim of None \<Rightarrow> [] | Some a \<Rightarrow> aa_Config a)"

text \<open>A configuration that fits the type of its device and is valid; no configuration only for other types.\<close>

definition well_configured :: "'q PrepareDevice \<Rightarrow> bool" where
  "well_configured dev \<longleftrightarrow>
     (case pd_Config dev of
        None \<Rightarrow> \<not> IsPhysicalDevice (device_type dev) \<and> \<not> IsMigDevice (device_type dev)
      | Some cfg \<Rightarrow> configMatchesDeviceType cfg (device_type dev) \<and> Validate cfg = None)"

lemma claim_request_ok:
  assumes "claim_request d (Some c) slices = Inr req"
  shows "pr_ClaimUID req = cl_UID c" and "map device_id (pr_Devices req) = allocated_ids d c"
    and "list_all (\<lambda>dev. pd_Config dev = expected_config (drv_decoder d) (drv_driverName d) (claim_configs c) dev
           \<and> well_configured dev) (pr_Devices req)"
proof -
  obtain req0 vfio configs where r: "BuildPrepareRequest (Some c) (drv_driverName d) (drv_nodeName d) slices = Inr req0"
    and cfg: "decodeDeviceConfigs (drv_decoder d) (claim_configs c) (drv_driverName d) = Inr configs"
    and apply_all: "applyDeviceConfigs (req0\<lparr> pr_VFIO := vfio \<rparr>) configs = Inr req"
    using assms by (auto simp: claim_request_def claim_configs_def Let_def split: sum.splits)
  obtain devs where devs: "map_res (apply_device_config configs) (pr_Devices req0) = Inr devs"
    and req: "req = req0\<lparr> pr_VFIO := vfio, pr_Devices := devs \<rparr>"
    using apply_all by (auto simp: applyDeviceConfigs_def split: sum.splits)
  note dev = apply_device_config_ok[OF cfg]
  have "map device_id devs = map device_id (pr_Devices req0)"
    using devs by (rule map_res_map) (use dev in \<open>fastforce simp: device_id_def\<close>)
  moreover have "pr_ClaimUID req0 = cl_UID c" "map device_id (pr_Devices req0) = allocated_ids d c"
    using r by (auto simp: BuildPrepareRequest_def Let_def allocated_ids_def split: if_splits option.splits sum.splits
        intro: map_res_map prepare_device_id)
  ultimately show "pr_ClaimUID req = cl_UID c" "map device_id (pr_Devices req) = allocated_ids d c"
    by (simp_all add: req)
  have "pd_Config y = expected_config (drv_decoder d) (drv_driverName d) (claim_configs c) y \<and> well_configured y"
    if "y \<in> set devs" for y
  proof -
    from that obtain x where "apply_device_config configs x = Inr y"
      using list_all2_right[OF map_res_list_all2[OF devs]] by blast
    from dev[OF this] show ?thesis
      by (auto simp: config_irrelevant well_configured_def split: option.splits)
  qed
  then show "list_all (\<lambda>dev. pd_Config dev = expected_config (drv_decoder d) (drv_driverName d) (claim_configs c) dev
      \<and> well_configured dev) (pr_Devices req)"
    by (simp add: req list_all_iff)
qed

text \<open>
  \<^bold>\<open>C21.\<close> Every device the plugin asks the prepare service for is configured as specified: with the last
  applicable configuration of the claim, else the last of the device class, else the default of its type. The
  configuration always has the type of the device and passes validation, and only devices that are neither
  physical nor MIG have none.
\<close>

theorem claim_request_configured:
  assumes "claim_request d (Some claim) slices = Inr req"
  shows "list_all (\<lambda>dev. pd_Config dev = expected_config (drv_decoder d) (drv_driverName d) (claim_configs claim) dev
    \<and> well_configured dev) (pr_Devices req)"
  by (rule claim_request_ok(3)[OF assms])

definition claim_answer ::
  "(string \<times> string \<times> string) list \<Rightarrow> string \<Rightarrow> (string \<Rightarrow> PreparedClaim option) \<Rightarrow> (string \<Rightarrow> PreparedClaim option) \<Rightarrow>
   driver_error + KubeletDevice list \<Rightarrow> bool" where
  "claim_answer ids uid S S' r \<longleftrightarrow>
     (completed S uid \<longrightarrow> S' uid = S uid) \<and>
     (case r of
        Inl _ \<Rightarrow> True
      | Inr devs \<Rightarrow>
          \<exists>states. S' uid = Some \<lparr> cl_State = PrepareStateCompleted, cl_Devices = states \<rparr> \<and>
            devs = map (kubelet_device \<circ> prepared_device) states \<and> (\<not> completed S uid \<longrightarrow> map state_id states = ids))"

lemma claim_answer_cong:
  assumes "S uid = T uid" "S' uid = T' uid"
  shows "claim_answer ids uid S S' r = claim_answer ids uid T T' r"
proof -
  have "completed S uid = completed T uid"
    using assms(1) by (simp add: completed_def)
  with assms show ?thesis
    by (simp only: claim_answer_def)
qed

lemma prepareClaim_answer:
  assumes "drv_prepareService d = Some (node_options os path host)"
    and "prepareClaim d (Some claim) slices (w, k) = (r, w', k')"
  shows "claim_answer (allocated_ids d claim) (cl_UID claim) (disk_claims path w) (disk_claims path w') r
    \<and> (\<forall>uid. uid \<noteq> cl_UID claim \<longrightarrow> disk_claims path w' uid = disk_claims path w uid)"
proof (cases "claim_request d (Some claim) slices")
  case (Inl err)
  then show ?thesis
    using assms by (auto simp: prepareClaim_def claim_answer_def)
next
  case (Inr req)
  note req = claim_request_ok(1,2)[OF Inr]
  obtain p w1 where p: "Prepare (node_options os path host) req w = (p, w1)"
    by fastforce
  have w': "w' = w1" and r: "r = (case p of Inl err \<Rightarrow> Inl (ErrPrepare err)
      | Inr res \<Rightarrow> Inr (map kubelet_device (pres_Devices res)))"
    using assms Inr p by (auto simp: prepareClaim_def service_Prepare_def split: sum.splits)
  show ?thesis
  proof (cases p)
    case (Inl err)
    with gpu_node.Prepare_stored[of os path host req w] p req show ?thesis
      by (auto simp: w' r claim_answer_def prepare_failed_def)
  next
    case (Inr res)
    with gpu_node.Prepare_stored[of os path host req w] p req show ?thesis
      by (auto simp: w' r claim_answer_def prepare_done_def result_of_def materialised_def split: if_splits)
  qed
qed

lemma prepare_claims_other:
  "prepare_claims d slices claims results s = (results', s') \<Longrightarrow> uid \<notin> cl_UID ` set claims \<Longrightarrow>
   mget results' uid = mget results uid"
  by (induction d slices claims results s rule: prepare_claims.induct) (auto split: prod.splits)

lemma mget_foldl_mput:
  "mget (foldl (\<lambda>m x. mput (f x) v m) m xs) u = (if u \<in> f ` set xs then Some v else mget m u)"
  by (induction xs arbitrary: m) auto

lemma prepare_claims_answers:
  assumes "drv_prepareService d = Some (node_options os path host)" and "distinct (map cl_UID claims)"
    and "prepare_claims d slices claims results (w, k) = (results', w', k')"
  shows "(\<forall>claim \<in> set claims. \<exists>r. mget results' (cl_UID claim) = Some r \<and>
      claim_answer (allocated_ids d claim) (cl_UID claim) (disk_claims path w) (disk_claims path w') r)
    \<and> (\<forall>uid. uid \<notin> cl_UID ` set claims \<longrightarrow> disk_claims path w' uid = disk_claims path w uid)"
  using assms(2,3)
proof (induction claims arbitrary: results w k)
  case (Cons claim rest)
  obtain r w1 k1 where step: "prepareClaim d (Some claim) slices (w, k) = (r, w1, k1)"
    by (metis prod_cases3)
  then have run: "prepare_claims d slices rest (mput (cl_UID claim) r results) (w1, k1) = (results', w', k')"
    using Cons.prems by simp
  from Cons.prems have new: "cl_UID claim \<notin> cl_UID ` set rest" and dist: "distinct (map cl_UID rest)" by auto
  note one = prepareClaim_answer[OF assms(1) step]
  note IH = Cons.IH[OF dist run]
  have own: "mget results' (cl_UID claim) = Some r" "disk_claims path w' (cl_UID claim) = disk_claims path w1 (cl_UID claim)"
    using prepare_claims_other[OF run new] IH new by auto
  have others: "uid \<noteq> cl_UID claim \<Longrightarrow> disk_claims path w1 uid = disk_claims path w uid" for uid
    using one by blast
  have mine: "claim_answer (allocated_ids d claim) (cl_UID claim) (disk_claims path w) (disk_claims path w') r"
    using one own(2) claim_answer_cong by blast
  have theirs: "\<exists>r. mget results' (cl_UID c) = Some r \<and>
      claim_answer (allocated_ids d c) (cl_UID c) (disk_claims path w) (disk_claims path w') r" if "c \<in> set rest" for c
  proof -
    have "cl_UID c \<noteq> cl_UID claim" using that new by (metis imageI)
    then show ?thesis
      using IH that claim_answer_cong[of "disk_claims path w1" "cl_UID c" "disk_claims path w" "disk_claims path w'"]
        others[of "cl_UID c"] by fastforce
  qed
  show ?case
    using mine own(1) theirs IH others by auto
qed simp

text \<open>
  \<^bold>\<open>C22.\<close> A call of kubelet for several claims answers every claim and keeps them apart: a claim that is answered
  with devices is on disk as completed with exactly these devices and CDI names, and if it was not completed
  before, they are the devices of this driver in its allocation, in order; a completed claim is never changed;
  an error of one claim does not touch the others, and no claim outside the call changes on disk.
\<close>

theorem PrepareResourceClaims_answers:
  assumes "drv_prepareService d = Some (node_options os path host)" and "distinct (map cl_UID claims)"
    and "PrepareResourceClaims d claims (w, k) = (results, w', k')"
  shows "(\<forall>claim \<in> set claims. \<exists>r. mget results (cl_UID claim) = Some r \<and>
      claim_answer (allocated_ids d claim) (cl_UID claim) (disk_claims path w) (disk_claims path w') r)
    \<and> (\<forall>uid. uid \<notin> cl_UID ` set claims \<longrightarrow> disk_claims path w' uid = disk_claims path w uid)"
proof (cases "claims = []")
  case True
  then show ?thesis
    using assms(3) by (auto simp: PrepareResourceClaims_def)
next
  case False
  obtain l k1 where l: "listResourceSlices d k = (l, k1)" by fastforce
  show ?thesis
  proof (cases l)
    case (Inl err)
    with False l assms(3) show ?thesis
      by (auto simp: PrepareResourceClaims_def claim_answer_def mget_foldl_mput)
  next
    case (Inr slices)
    with False l assms(3) have "prepare_claims d slices claims [] (w, k1) = (results, w', k')"
      by (simp add: PrepareResourceClaims_def)
    from prepare_claims_answers[OF assms(1,2) this] show ?thesis .
  qed
qed

section \<open>Device statuses\<close>

lemma buildDeviceConditions_types:
  "distinct (map cn_Type (buildDeviceConditions result now))"
  "cn_Type ` set (buildDeviceConditions result now) = insert DeviceConditionReady (set (ra_BindingConditions result) - {[]})"
proof -
  let ?ok = "\<lambda>acc. distinct (map cn_Type (fst acc)) \<and> set (map cn_Type (fst acc)) = set (snd acc)"
  have step: "?ok acc \<Longrightarrow> ?ok (appendCondition now acc c) \<and> set (snd (appendCondition now acc c)) = set (snd acc) \<union> ({c} - {[]})" for acc c
    by (auto simp: appendCondition_def split: prod.splits)
  have fold: "?ok acc \<Longrightarrow> ?ok (foldl (appendCondition now) acc cs) \<and>
      set (snd (foldl (appendCondition now) acc cs)) = set (snd acc) \<union> (set cs - {[]})" for acc cs
  proof (induction cs arbitrary: acc)
    case (Cons c cs)
    from Cons.IH[of "appendCondition now acc c"] step[OF Cons.prems, of c] show ?case by auto
  qed simp
  have ready: "DeviceConditionReady \<noteq> []" by (simp add: DeviceConditionReady_def)
  from step[of "([], [])" DeviceConditionReady] fold[of "appendCondition now ([], []) DeviceConditionReady" "ra_BindingConditions result"] ready
  show "distinct (map cn_Type (buildDeviceConditions result now))"
    "cn_Type ` set (buildDeviceConditions result now) = insert DeviceConditionReady (set (ra_BindingConditions result) - {[]})"
    by (auto simp: buildDeviceConditions_def)
qed

lemma buildDeviceStatuses_own:
  "st \<in> set (buildDeviceStatuses claim driverName now) \<Longrightarrow> as_Driver st = driverName"
  by (auto simp: buildDeviceStatuses_def split: option.splits)

text \<open>
  Writing device statuses leaves the statuses of other drivers as they are, in order, and replaces those of
  this driver by one status per device it has in the claim, each with a Ready condition and every condition
  type at most once.
\<close>

theorem mergeDeviceStatuses_own:
  "filter (\<lambda>st. as_Driver st \<noteq> driverName) (mergeDeviceStatuses existing (buildDeviceStatuses claim driverName now) driverName) =
     filter (\<lambda>st. as_Driver st \<noteq> driverName) existing
   \<and> filter (\<lambda>st. as_Driver st = driverName) (mergeDeviceStatuses existing (buildDeviceStatuses claim driverName now) driverName) =
     buildDeviceStatuses claim driverName now
   \<and> list_all (\<lambda>st. DeviceConditionReady \<in> set (map cn_Type (as_Conditions st)) \<and> distinct (map cn_Type (as_Conditions st)))
       (buildDeviceStatuses claim driverName now)"
  by (auto simp: buildDeviceConditions_types mergeDeviceStatuses_def buildDeviceStatuses_def list_all_iff filter_empty_conv filter_id_conv
      split: option.splits)

section \<open>An example plugin\<close>

text \<open>A plugin on the example node, with a claim that has one MIG device and a configuration from class and claim.\<close>

definition ex_slice :: "(int64 \<times> qformat) ResourceSlice" where
  "ex_slice = \<lparr> rs_Name = ''s'', rs_Driver = ''gpu'', rs_PoolName = ''n1'', rs_Generation = 1, rs_ResourceSliceCount = 1,
     rs_NodeName = Some ''n1'', rs_PerDeviceNodeSelection = None,
     rs_Devices = [\<lparr> dv_Name = pd_Device ex_device, dv_Attributes = RenderAttributes (pd_Attributes ex_device), dv_Capacity = [],
       dv_ConsumesCounters = [], dv_NodeName = None, dv_AllowMultipleAllocations = None, dv_BindingConditions = [],
       dv_BindingFailureConditions = [] \<rparr>],
     rs_SharedCounters = [] \<rparr>"

definition ex_config :: "AllocationConfigSource \<Rightarrow> string \<Rightarrow> DeviceAllocationConfiguration" where
  "ex_config source raw = \<lparr> dac_Source = source, dac_Requests = [], dac_Opaque = Some \<lparr> od_Driver = ''gpu'', od_Raw = raw \<rparr> \<rparr>"

definition ex_decode :: "(int64 \<times> qformat) decoder" where
  "ex_decode raw =
     (if raw = ''shared'' then Inr (Some (ConfigMig (DefaultMigDeviceConfig
        \<lparr> mg_Sharing := Some \<lparr> msh_Strategy = TimeSlicingStrategy, msh_MpsConfig = None \<rparr> \<rparr>)))
      else if raw = ''plain'' then Inr (Some (ConfigMig DefaultMigDeviceConfig)) else Inl ''unknown'')"

definition ex_claim :: "(int64 \<times> qformat, nat) NodeClaim" where
  "ex_claim = \<lparr> cl_Namespace = ''ns'', cl_Name = ''claim'', cl_UID = ''c1'', cl_Requests = [], cl_Constraints = [], cl_Config = [],
     cl_Allocation = Some \<lparr> aa_Results = [\<lparr> ra_Request = ''r'', ra_Driver = ''gpu'', ra_Pool = ''n1'',
         ra_Device = pd_Device ex_device, ra_ShareID = None, ra_ConsumedCapacity = [], ra_BindingConditions = [],
         ra_BindingFailureConditions = [] \<rparr>],
       aa_Config = [ex_config AllocationConfigSourceClaim ''plain'', ex_config AllocationConfigSourceClass ''shared''],
       aa_NodeSelector = None, aa_AllocationTimestamp = None \<rparr>,
     cl_Annotations = [], cl_DeviceStatuses = [] \<rparr>"

definition ex_driver :: "(int64 \<times> qformat, nat, string list node, unit) Driver" where
  "ex_driver = \<lparr> drv_driverName = ''gpu'', drv_nodeName = ''n1'',
     drv_kubeClient = Some \<lparr> ku_ListSlices = (\<lambda>_ _ k. (Inr [ex_slice], k)), ku_GetClaim = (\<lambda>_ _ k. (Inl NotFound, k)),
       ku_UpdateStatus = (\<lambda>_ k. (None, k)) \<rparr>,
     drv_prepareService = Some (node_options ex_os ''cp'' ex_host), drv_deviceStatusEnabled = True,
     drv_decoder = ex_decode, drv_retry = (\<lambda>f. f), drv_now = (\<lambda>_. 0) \<rparr>"

definition ex_claim_request :: "(int64 \<times> qformat) PrepareRequest" where
  "ex_claim_request = ex_request\<lparr> pr_Devices := [ex_device\<lparr> pd_Config := Some (ConfigMig DefaultMigDeviceConfig) \<rparr>] \<rparr>"

lemma ex_claim_request: "claim_request ex_driver (Some ex_claim) [ex_slice] = Inr ex_claim_request"
  by code_simp

theorem claim_request_configured_witness:
  "expected_config ex_decode ''gpu'' (claim_configs ex_claim) ex_device = Some (ConfigMig DefaultMigDeviceConfig)"
  using claim_request_configured[OF ex_claim_request]
  by (simp add: ex_claim_request_def ex_driver_def config_irrelevant)

lemma ex_PrepareResourceClaims:
  "PrepareResourceClaims ex_driver [ex_claim] (ex_node, ()) =
     ([(''c1'', Inr [\<lparr> kd_Requests = [''r''], kd_PoolName = ''n1'', kd_DeviceName = pd_Device ex_device,
        kd_CDIDeviceIDs = [''gpu='' @ pd_Device ex_device] \<rparr>])], ex_prepared_node, ())"
  by code_simp

theorem PrepareResourceClaims_answers_witness:
  "\<exists>states. disk_claims ''cp'' ex_prepared_node ''c1'' = Some \<lparr> cl_State = PrepareStateCompleted, cl_Devices = states \<rparr>
     \<and> map state_id states = [(''r'', ''n1'', pd_Device ex_device)]"
proof -
  have c: "drv_prepareService ex_driver = Some (node_options ex_os ''cp'' ex_host)"
    "distinct (map cl_UID [ex_claim])" "\<not> completed (disk_claims ''cp'' ex_node) ''c1''"
    "allocated_ids ex_driver ex_claim = [(''r'', ''n1'', pd_Device ex_device)]" "cl_UID ex_claim = ''c1''"
    by (simp add: ex_driver_def, simp, code_simp, code_simp, simp add: ex_claim_def)
  show ?thesis
    using PrepareResourceClaims_answers[OF c(1,2) ex_PrepareResourceClaims] c(3-5) by (auto simp: claim_answer_def)
qed

end
