(* ===== verification/GpuAgent.thy ===== *)
theory GpuAgent
  imports Inventory
begin

text \<open>
  The agent that publishes the GPUs of a node, \<open>pkg/gpuhandler\<close>: one sync lists the \<open>PhysicalGPU\<close> objects of
  the node, marks those whose driver is not ready, reads the capabilities of the others through NVML (with a
  tracker that delays retries and forgives short failures), and publishes the healthy ones as resource slices.
  A publish error that names features the API server dropped switches these features off and asks for
  another sync.

  The state is the snapshot of one sync (\<open>State\<close>) and the agent (\<open>Agent\<close>): the world behind the API client,
  NVML, the event recorder and the publisher, the failure tracker, the feature set of the slice builder, the
  features already reported and the pending notification. Errors joined by \<open>errors.Join\<close> are a list, empty for
  no error. \<open>meta.SetStatusCondition\<close> of the API machinery replaces the condition of the same type or appends;
  its transition time is left out. Logging is left out; where the code reacts only if a logger is set (a part of
  \<open>HandleError\<close>), the model always reacts.
\<close>

section \<open>Failure tracker\<close>

type_synonym time = int

definition second :: time where "second = 10 ^ 9"
definition nvmlFailureGrace :: time where "nvmlFailureGrace = 30 * second"
definition nvmlFailureBackoff :: "time list" where
  "nvmlFailureBackoff = [5 * second, 10 * second, 30 * second, 60 * second, 5 * 60 * second]"

record nvmlFailureState =
  nf_firstFailure :: time
  nf_nextAttempt :: "time option"
  nf_backoffIndex :: nat

type_synonym failures = "(string, nvmlFailureState) gomap"

definition ShouldAttempt :: "time \<Rightarrow> string \<Rightarrow> failures \<Rightarrow> bool" where
  "ShouldAttempt now name failures =
     (case mget failures name of
        None \<Rightarrow> True
      | Some entry \<Rightarrow> (case nf_nextAttempt entry of None \<Rightarrow> True | Some t \<Rightarrow> \<not> now < t))"

definition RecordFailure :: "time \<Rightarrow> string \<Rightarrow> failures \<Rightarrow> bool \<times> failures" where
  "RecordFailure now name failures =
     (let entry = (case mget failures name of
                     None \<Rightarrow> \<lparr> nf_firstFailure = now, nf_nextAttempt = None, nf_backoffIndex = 0 \<rparr> | Some e \<Rightarrow> e);
          backoffIndex = (if nf_backoffIndex entry \<ge> length nvmlFailureBackoff then length nvmlFailureBackoff - 1
                          else nf_backoffIndex entry);
          entry' = entry\<lparr> nf_nextAttempt := Some (now + nvmlFailureBackoff ! backoffIndex),
                          nf_backoffIndex := nf_backoffIndex entry + 1 \<rparr>
      in (now - nf_firstFailure entry \<ge> nvmlFailureGrace, mput name entry' failures))"

definition Clear :: "string \<Rightarrow> failures \<Rightarrow> failures" where
  "Clear name failures = mdel name failures"

section \<open>Conditions\<close>

definition DriverReadyType :: string where "DriverReadyType = ''DriverReady''"
definition HardwareHealthyType :: string where "HardwareHealthyType = ''HardwareHealthy''"
definition DriverTypeNvidia :: string where "DriverTypeNvidia = ''Nvidia''"

definition FindStatusCondition :: "StatusCondition list \<Rightarrow> string \<Rightarrow> StatusCondition option" where
  "FindStatusCondition conds t = find (\<lambda>c. sc_Type c = t) conds"

fun SetStatusCondition :: "StatusCondition \<Rightarrow> StatusCondition list \<Rightarrow> StatusCondition list" where
  "SetStatusCondition c [] = [c]"
| "SetStatusCondition c (d # conds) = (if sc_Type d = sc_Type c then c # conds else d # SetStatusCondition c conds)"

definition condition_true :: "string \<Rightarrow> PhysicalGPU \<Rightarrow> bool" where
  "condition_true t pgpu =
     (case FindStatusCondition (pg_Conditions pgpu) t of None \<Rightarrow> False | Some c \<Rightarrow> sc_Status c = ConditionTrue)"

definition setHardwareCondition :: "ConditionStatus \<Rightarrow> string \<Rightarrow> string \<Rightarrow> PhysicalGPU \<Rightarrow> PhysicalGPU" where
  "setHardwareCondition status reason message obj =
     obj\<lparr> pg_Conditions := SetStatusCondition
       \<lparr> sc_Type = HardwareHealthyType, sc_Status = status, sc_Reason = reason, sc_Message = message,
         sc_ObservedGeneration = pg_Generation obj \<rparr> (pg_Conditions obj) \<rparr>"

definition hardwareConditionChanged :: "PhysicalGPU \<Rightarrow> PhysicalGPU \<Rightarrow> bool" where
  "hardwareConditionChanged prev nxt =
     (case FindStatusCondition (pg_Conditions nxt) HardwareHealthyType of
        None \<Rightarrow> False
      | Some newCond \<Rightarrow>
          (case FindStatusCondition (pg_Conditions prev) HardwareHealthyType of
             None \<Rightarrow> True
           | Some oldCond \<Rightarrow>
               sc_Status oldCond \<noteq> sc_Status newCond \<or> sc_Reason oldCond \<noteq> sc_Reason newCond \<or>
               sc_Message oldCond \<noteq> sc_Message newCond \<or> sc_ObservedGeneration oldCond \<noteq> sc_ObservedGeneration newCond))"

section \<open>The agent and its surroundings\<close>

record State =
  st_NodeName :: string
  st_All :: "PhysicalGPU list"
  st_Ready :: "PhysicalGPU list"

record 'w Agent =
  ag_world :: 'w
  ag_failures :: failures
  ag_features :: FeatureSet
  ag_disabled :: "string list"
  ag_notified :: bool

datatype read_error = ErrMissingPCIAddress string | ErrNVMLUnavailable string | ErrNVMLQueryFailed string | OtherReadError string

fun error_text :: "read_error \<Rightarrow> string" where
  "error_text (ErrMissingPCIAddress e) = e"
| "error_text (ErrNVMLUnavailable e) = e"
| "error_text (ErrNVMLQueryFailed e) = e"
| "error_text (OtherReadError e) = e"

record DeviceSnapshot =
  sn_Capabilities :: "GPUCapabilities option"
  sn_CurrentState :: "GPUCurrentState option"

type_synonym 'w CapabilitiesSession = "string \<Rightarrow> 'w \<Rightarrow> (read_error + DeviceSnapshot) \<times> 'w"

datatype publish_error = DroppedFields string "string list" | OtherPublishError string

type_synonym 'q DriverResources = "(string, 'q Slice list) gomap"

record BaseDevice =
  bd_Name :: string
  bd_UUID :: string

record ('q, 'w) AgentPorts =
  ap_now :: "'w \<Rightarrow> time"
  ap_ListByNode :: "string \<Rightarrow> 'w \<Rightarrow> (string + PhysicalGPU list) \<times> 'w"
  ap_PatchStatus :: "PhysicalGPU \<Rightarrow> PhysicalGPU \<Rightarrow> 'w \<Rightarrow> string option \<times> 'w"
  ap_Event :: "(PhysicalGPU \<Rightarrow> string \<Rightarrow> string \<Rightarrow> 'w \<Rightarrow> 'w) option"
  ap_Open :: "'w \<Rightarrow> (read_error + 'w CapabilitiesSession) \<times> 'w"
  ap_placements :: "'w \<Rightarrow> (string + MigPlacementSession) option"
  ap_quantity :: "'q quantity_api"
  ap_WriteBase :: "(BaseDevice list \<Rightarrow> 'w \<Rightarrow> publish_error option \<times> 'w) option"
  ap_PublishResources :: "'q DriverResources \<Rightarrow> 'w \<Rightarrow> publish_error option \<times> 'w"

definition on_world :: "('w \<Rightarrow> 'r \<times> 'w) \<Rightarrow> 'w Agent \<Rightarrow> 'r \<times> 'w Agent" where
  "on_world f a = (case f (ag_world a) of (r, w) \<Rightarrow> (r, a\<lparr> ag_world := w \<rparr>))"

definition emit :: "('q, 'w) AgentPorts \<Rightarrow> PhysicalGPU \<Rightarrow> string \<Rightarrow> string \<Rightarrow> 'w Agent \<Rightarrow> 'w Agent" where
  "emit p obj reason msg a =
     (case ap_Event p of None \<Rightarrow> a | Some f \<Rightarrow> a\<lparr> ag_world := f obj reason msg (ag_world a) \<rparr>)"

definition patch_errors :: "('q, 'w) AgentPorts \<Rightarrow> PhysicalGPU \<Rightarrow> PhysicalGPU \<Rightarrow> 'w Agent \<Rightarrow> string list \<times> 'w Agent" where
  "patch_errors p obj base a =
     (case on_world (ap_PatchStatus p obj base) a of (None, a') \<Rightarrow> ([], a') | (Some e, a') \<Rightarrow> ([e], a'))"

section \<open>Handlers\<close>

type_synonym 'w handler = "State \<Rightarrow> 'w Agent \<Rightarrow> string list \<times> State \<times> 'w Agent"

definition DiscoverHandler :: "('q, 'w) AgentPorts \<Rightarrow> 'w handler" where
  "DiscoverHandler p st a =
     (case on_world (ap_ListByNode p (st_NodeName st)) a of
        (Inl err, a') \<Rightarrow> ([err], st, a')
      | (Inr devices, a') \<Rightarrow> ([], st\<lparr> st_All := devices \<rparr>, a'))"

definition reasonDriverNotReady :: string where "reasonDriverNotReady = ''DriverNotReady''"
definition reasonToolkitNotReady :: string where "reasonToolkitNotReady = ''ToolkitNotReady''"
definition reasonNVMLHealthy :: string where "reasonNVMLHealthy = ''NVMLHealthy''"
definition reasonNVMLUnavailable :: string where "reasonNVMLUnavailable = ''NVMLUnavailable''"
definition reasonNVMLQueryFailed :: string where "reasonNVMLQueryFailed = ''NVMLQueryFailed''"
definition reasonDriverTypeNotNvidia :: string where "reasonDriverTypeNotNvidia = ''DriverTypeNotNvidia''"
definition reasonMissingPCIAddress :: string where "reasonMissingPCIAddress = ''MissingPCIAddress''"

definition record_changed ::
  "('q, 'w) AgentPorts \<Rightarrow> PhysicalGPU \<Rightarrow> PhysicalGPU \<Rightarrow> string \<Rightarrow> string \<Rightarrow> 'w Agent \<Rightarrow> 'w Agent" where
  "record_changed p obj base reason msg a = (if hardwareConditionChanged base obj then emit p obj reason msg a else a)"

definition mark_not_ready :: "('q, 'w) AgentPorts \<Rightarrow> PhysicalGPU \<Rightarrow> 'w Agent \<Rightarrow> string list \<times> 'w Agent" where
  "mark_not_ready p pgpu a =
     (if condition_true DriverReadyType pgpu then ([], a)
      else
        let a1 = a\<lparr> ag_failures := Clear (pg_Name pgpu) (ag_failures a) \<rparr>;
            obj = setHardwareCondition ConditionUnknown reasonDriverNotReady ''driver is not ready'' pgpu
        in patch_errors p obj pgpu (record_changed p obj pgpu reasonToolkitNotReady ''driver is not ready'' a1))"

fun for_each :: "('g \<Rightarrow> 'w Agent \<Rightarrow> string list \<times> 'w Agent) \<Rightarrow> 'g list \<Rightarrow> 'w Agent \<Rightarrow> string list \<times> 'w Agent" where
  "for_each f [] a = ([], a)"
| "for_each f (g # gs) a =
     (case f g a of (errs, a1) \<Rightarrow> (case for_each f gs a1 of (errs', a2) \<Rightarrow> (errs @ errs', a2)))"

definition MarkNotReadyHandler :: "('q, 'w) AgentPorts \<Rightarrow> 'w handler" where
  "MarkNotReadyHandler p st a = (case for_each (mark_not_ready p) (st_All st) a of (errs, a') \<Rightarrow> (errs, st, a'))"

definition FilterReadyHandler :: "'w handler" where
  "FilterReadyHandler st a = ([], st\<lparr> st_Ready := filter (condition_true DriverReadyType) (st_All st) \<rparr>, a)"

definition failureReason :: "read_error \<Rightarrow> string" where
  "failureReason err = (case err of ErrMissingPCIAddress _ \<Rightarrow> reasonMissingPCIAddress
     | ErrNVMLUnavailable _ \<Rightarrow> reasonNVMLUnavailable | _ \<Rightarrow> reasonNVMLQueryFailed)"

definition mergeCurrentState :: "GPUCurrentState option \<Rightarrow> GPUCurrentState option \<Rightarrow> GPUCurrentState option" where
  "mergeCurrentState existing snapshot =
     (let driverType = (case existing of None \<Rightarrow> [] | Some e \<Rightarrow> gcs_DriverType e);
          s = (case snapshot of None \<Rightarrow> \<lparr> gcs_DriverType = [], gcs_Nvidia = None \<rparr> | Some s \<Rightarrow> s)
      in Some (s\<lparr> gcs_DriverType := driverType \<rparr>))"

definition isDriverTypeNvidia :: "PhysicalGPU \<Rightarrow> bool" where
  "isDriverTypeNvidia pgpu =
     (case pg_CurrentState pgpu of None \<Rightarrow> False | Some s \<Rightarrow> gcs_DriverType s = DriverTypeNvidia)"

definition applyDeviceFailure :: "('q, 'w) AgentPorts \<Rightarrow> read_error \<Rightarrow> PhysicalGPU \<Rightarrow> 'w Agent \<Rightarrow> string list \<times> 'w Agent" where
  "applyDeviceFailure p err pgpu a =
     (case RecordFailure (ap_now p (ag_world a)) (pg_Name pgpu) (ag_failures a) of
        (elapsed, failures) \<Rightarrow>
          let a1 = a\<lparr> ag_failures := failures \<rparr> in
          if \<not> elapsed then ([], a1)
          else
            let obj = setHardwareCondition ConditionUnknown (failureReason err) (error_text err) pgpu
            in patch_errors p obj pgpu (record_changed p obj pgpu (failureReason err) (error_text err) a1))"

definition markDriverTypeNotNvidia :: "('q, 'w) AgentPorts \<Rightarrow> PhysicalGPU \<Rightarrow> 'w Agent \<Rightarrow> string list \<times> 'w Agent" where
  "markDriverTypeNotNvidia p pgpu a =
     (let obj = pgpu\<lparr> pg_CurrentState := map_option (\<lambda>s. s\<lparr> gcs_Nvidia := None \<rparr>) (pg_CurrentState pgpu) \<rparr>
      in patch_errors p
           (setHardwareCondition ConditionUnknown reasonDriverTypeNotNvidia ''current driver is not Nvidia'' obj) pgpu a)"

definition updateDevice ::
  "('q, 'w) AgentPorts \<Rightarrow> 'w CapabilitiesSession \<Rightarrow> PhysicalGPU \<Rightarrow> 'w Agent \<Rightarrow> string list \<times> PhysicalGPU option \<times> 'w Agent" where
  "updateDevice p session pgpu a =
     (case on_world (session (case pg_PCIInfo pgpu of None \<Rightarrow> [] | Some i \<Rightarrow> pci_Address i)) a of
        (Inl err, a1) \<Rightarrow> (case applyDeviceFailure p err pgpu a1 of (errs, a2) \<Rightarrow> (errs, None, a2))
      | (Inr snapshot, a1) \<Rightarrow>
          let obj = setHardwareCondition ConditionTrue reasonNVMLHealthy ''NVML is available''
                      (pgpu\<lparr> pg_Capabilities := sn_Capabilities snapshot,
                             pg_CurrentState := mergeCurrentState (pg_CurrentState pgpu) (sn_CurrentState snapshot) \<rparr>);
              a2 = a1\<lparr> ag_failures := Clear (pg_Name pgpu) (ag_failures a1) \<rparr>
          in (case patch_errors p obj pgpu a2 of
                ([], a3) \<Rightarrow> ([], Some obj, a3)
              | (errs, a3) \<Rightarrow> (errs, None, a3)))"

text \<open>The first loop of the capabilities handler: GPUs kept as they are, GPUs to read, and errors.\<close>

fun select_nvidia ::
  "('q, 'w) AgentPorts \<Rightarrow> PhysicalGPU list \<Rightarrow> 'w Agent \<Rightarrow> string list \<times> PhysicalGPU list \<times> PhysicalGPU list \<times> 'w Agent" where
  "select_nvidia p [] a = ([], [], [], a)"
| "select_nvidia p (pgpu # rest) a =
     (if \<not> isDriverTypeNvidia pgpu then
        (case markDriverTypeNotNvidia p pgpu a of
           (errs, a1) \<Rightarrow>
             (case select_nvidia p rest (a1\<lparr> ag_failures := Clear (pg_Name pgpu) (ag_failures a1) \<rparr>) of
                (errs', updated, nvidia, a2) \<Rightarrow> (errs @ errs', pgpu # updated, nvidia, a2)))
      else if \<not> ShouldAttempt (ap_now p (ag_world a)) (pg_Name pgpu) (ag_failures a) then
        (case select_nvidia p rest a of (errs, updated, nvidia, a1) \<Rightarrow> (errs, pgpu # updated, nvidia, a1))
      else
        (case select_nvidia p rest a of (errs, updated, nvidia, a1) \<Rightarrow> (errs, updated, pgpu # nvidia, a1)))"

fun read_devices ::
  "('q, 'w) AgentPorts \<Rightarrow> 'w CapabilitiesSession \<Rightarrow> PhysicalGPU list \<Rightarrow> 'w Agent \<Rightarrow>
   string list \<times> PhysicalGPU list \<times> 'w Agent" where
  "read_devices p session [] a = ([], [], a)"
| "read_devices p session (pgpu # rest) a =
     (case updateDevice p session pgpu a of
        (errs, obj, a1) \<Rightarrow>
          (case read_devices p session rest a1 of
             (errs', updated, a2) \<Rightarrow>
               (errs @ errs', (case obj of None \<Rightarrow> pgpu | Some o' \<Rightarrow> o') # updated, a2)))"

definition CapabilitiesHandler :: "('q, 'w) AgentPorts \<Rightarrow> 'w handler" where
  "CapabilitiesHandler p st a =
     (if st_Ready st = [] then ([], st, a)
      else
        (case select_nvidia p (st_Ready st) a of
           (errs, updated, nvidia, a1) \<Rightarrow>
             if nvidia = [] then (errs, st, a1)
             else
               (case on_world (ap_Open p) a1 of
                  (Inl err, a2) \<Rightarrow>
                    (case for_each (applyDeviceFailure p err) nvidia a2 of (errs', a3) \<Rightarrow> (errs @ errs', st, a3))
                | (Inr session, a2) \<Rightarrow>
                    (case read_devices p session nvidia a2 of
                       (errs', read, a3) \<Rightarrow>
                         (errs @ errs', if updated @ read \<noteq> [] then st\<lparr> st_Ready := updated @ read \<rparr> else st, a3)))))"

definition FilterHealthyHandler :: "'w handler" where
  "FilterHealthyHandler st a = ([], st\<lparr> st_Ready := filter (condition_true HardwareHealthyType) (st_Ready st) \<rparr>, a)"

section \<open>Feature gates\<close>

definition featurePartitionable :: string where "featurePartitionable = ''DRAPartitionableDevices''"
definition featureConsumableCapacity :: string where "featureConsumableCapacity = ''DRAConsumableCapacity''"
definition featureBindingConditions :: string where "featureBindingConditions = ''DRADeviceBindingConditions''"
definition reasonFeatureGateDisabled :: string where "reasonFeatureGateDisabled = ''FeatureGateDisabled''"
definition reasonExclusiveFallback :: string where "reasonExclusiveFallback = ''ExclusiveFallback''"

definition known_feature :: "string \<Rightarrow> bool" where
  "known_feature feature \<longleftrightarrow> feature \<in> {featurePartitionable, featureConsumableCapacity, featureBindingConditions}"

definition splitFeatures :: "string list \<Rightarrow> string list \<times> string list" where
  "splitFeatures features = (filter known_feature features, filter (\<lambda>f. \<not> known_feature f) features)"

definition mark_step :: "string list \<times> string list \<Rightarrow> string \<Rightarrow> string list \<times> string list" where
  "mark_step acc feature = (case acc of (disabled, newly) \<Rightarrow>
     if feature \<in> set disabled then (disabled, newly) else (feature # disabled, newly @ [feature]))"

definition MarkDisabled :: "string list \<Rightarrow> string list \<Rightarrow> string list \<times> string list" where
  "MarkDisabled features disabled = foldl mark_step (disabled, []) features"

definition feature_events :: "('q, 'w) AgentPorts \<Rightarrow> PhysicalGPU list \<Rightarrow> string \<Rightarrow> 'w Agent \<Rightarrow> 'w Agent" where
  "feature_events p gpus feature a =
     (let a1 = foldl (\<lambda>a g. emit p g reasonFeatureGateDisabled (feature @ '' is disabled on apiserver'') a) a gpus
      in if feature = featurePartitionable
         then foldl (\<lambda>a g. emit p g reasonExclusiveFallback
                             ''publishing exclusive Physical offers only (no MIG profiles)'' a) a1 gpus
         else a1)"

definition pool_node :: "string \<Rightarrow> string \<Rightarrow> string" where
  "pool_node poolName nodeName =
     (let n = (if HasPrefix poolName ''gpus/'' then drop 5 poolName else poolName)
      in if n = [] \<or> n = poolName then nodeName else n)"

definition recordFeatureGateEvents ::
  "('q, 'w) AgentPorts \<Rightarrow> string \<Rightarrow> string \<Rightarrow> string list \<Rightarrow> 'w Agent \<Rightarrow> 'w Agent" where
  "recordFeatureGateEvents p nodeName poolName features a =
     (if ap_Event p = None \<or> features = [] then a
      else
        (case MarkDisabled features (ag_disabled a) of
           (disabled, newly) \<Rightarrow>
             let a1 = a\<lparr> ag_disabled := disabled \<rparr> in
             if newly = [] then a1
             else
               (case on_world (ap_ListByNode p (pool_node poolName nodeName)) a1 of
                  (Inl _, a2) \<Rightarrow> a2
                | (Inr gpus, a2) \<Rightarrow> if gpus = [] then a2 else foldl (\<lambda>a f. feature_events p gpus f a) a2 newly)))"

definition DisableFeatures :: "string list \<Rightarrow> 'w Agent \<Rightarrow> bool \<times> 'w Agent" where
  "DisableFeatures features a =
     (case Disable (ag_features a) features of
        (updated, changed) \<Rightarrow> (changed, if changed then a\<lparr> ag_features := updated \<rparr> else a))"

definition HandleError :: "('q, 'w) AgentPorts \<Rightarrow> string \<Rightarrow> publish_error \<Rightarrow> 'w Agent \<Rightarrow> 'w Agent" where
  "HandleError p nodeName err a =
     (case err of
        OtherPublishError _ \<Rightarrow> a
      | DroppedFields poolName disabled \<Rightarrow>
          if disabled = [] then a
          else
            let known = fst (splitFeatures disabled);
                a1 = (if known = [] then a
                      else (case DisableFeatures known a of
                              (changed, a') \<Rightarrow> if changed then a'\<lparr> ag_notified := True \<rparr> else a'))
            in recordFeatureGateEvents p nodeName poolName known a1)"

section \<open>Publishing\<close>

definition PoolName :: "string \<Rightarrow> string" where
  "PoolName nodeName = (let name = TrimSpace nodeName in ''gpus/'' @ (if name = [] then ''unknown'' else name))"

definition slices_Build ::
  "('q, 'w) AgentPorts \<Rightarrow> string \<Rightarrow> PhysicalGPU list \<Rightarrow> 'w Agent \<Rightarrow> 'q DriverResources \<times> string list" where
  "slices_Build p nodeName devices a =
     (case Builder_Build (ap_placements p (ag_world a)) devices of
        (invt, errs) \<Rightarrow> (BuildDriverResources (ap_quantity p) (PoolName nodeName) invt (ag_features a), errs))"

definition pci_address_of :: "PhysicalGPU \<Rightarrow> string" where
  "pci_address_of pgpu = (case pg_PCIInfo pgpu of None \<Rightarrow> [] | Some i \<Rightarrow> pci_Address i)"

definition migTotalSlices :: "PhysicalGPU \<Rightarrow> int32" where
  "migTotalSlices pgpu =
     (case pg_Capabilities pgpu of
        None \<Rightarrow> 0
      | Some caps \<Rightarrow> (case gcap_Nvidia caps of None \<Rightarrow> 0
          | Some n \<Rightarrow> (case nc_MIG n of None \<Rightarrow> 0 | Some m \<Rightarrow> nm_TotalSlices m)))"

definition slice_index :: "string \<Rightarrow> int32 option" where
  "slice_index name =
     (if HasPrefix name ''memory-slice-'' then map_option wrap32 (Atoi (drop 13 name)) else None)"

definition maxMemorySliceIndex :: "'q DeviceCounterConsumption list \<Rightarrow> int32 option" where
  "maxMemorySliceIndex consumes =
     (let maxIdx = foldl (\<lambda>m name. case slice_index name of None \<Rightarrow> m | Some i \<Rightarrow> if i > m then i else m) (- 1)
                     (concat (map (\<lambda>c. map fst (xc_Counters c)) consumes))
      in if maxIdx < 0 then None else Some maxIdx)"

definition devicePCI :: "'q Device \<Rightarrow> string" where
  "devicePCI dev =
     (case mget (dv_Attributes dev) AttrPCIAddress of
        None \<Rightarrow> [] | Some attr \<Rightarrow> (case da_StringValue attr of None \<Rightarrow> [] | Some s \<Rightarrow> TrimSpace s))"

definition deviceIsMIG :: "'q Device \<Rightarrow> bool" where
  "deviceIsMIG dev =
     (case mget (dv_Attributes dev) AttrDeviceType of None \<Rightarrow> False | Some attr \<Rightarrow> da_StringValue attr = Some DeviceTypeMIG)"

definition published_devices :: "'q DriverResources \<Rightarrow> 'q Device list" where
  "published_devices resources = concat (map (\<lambda>(_, slices). concat (map sl_Devices slices)) resources)"

definition mismatch_step ::
  "(string, int32) gomap \<Rightarrow> (string, int32) gomap \<Rightarrow> 'q Device \<Rightarrow> (string, int32) gomap" where
  "mismatch_step totals maxBy dev =
     (if \<not> deviceIsMIG dev \<or> devicePCI dev = [] then maxBy
      else
        (case mget totals (devicePCI dev) of
           None \<Rightarrow> maxBy
         | Some total' \<Rightarrow>
             (case maxMemorySliceIndex (dv_ConsumesCounters dev) of
                None \<Rightarrow> maxBy
              | Some i \<Rightarrow>
                  if i < total' then maxBy
                  else (case mget maxBy (devicePCI dev) of
                          None \<Rightarrow> mput (devicePCI dev) i maxBy
                        | Some current \<Rightarrow> if i > current then mput (devicePCI dev) i maxBy else maxBy))))"

definition recordMigPlacementMismatch ::
  "('q, 'w) AgentPorts \<Rightarrow> State \<Rightarrow> 'q DriverResources \<Rightarrow> 'w Agent \<Rightarrow> 'w Agent" where
  "recordMigPlacementMismatch p st resources a =
     (let relevant = filter (\<lambda>g. TrimSpace (pci_address_of g) \<noteq> [] \<and> migTotalSlices g \<noteq> 0) (st_Ready st);
          totals = foldl (\<lambda>m g. mput (TrimSpace (pci_address_of g)) (migTotalSlices g) m) [] relevant;
          gpus = foldl (\<lambda>m g. mput (TrimSpace (pci_address_of g)) g m) [] relevant
      in if totals = [] then a
         else foldl (\<lambda>a (pci, i).
                case (mget gpus pci, mget totals pci) of
                  (Some g, Some t) \<Rightarrow>
                    emit p g ''MigPlacementMismatch''
                      (''MIG placements require memory-slice-'' @ int_string i @ '' but totalSlices='' @ int_string t @
                       ''; check driver/NVML placement data'') a
                | _ \<Rightarrow> a)
              a (foldl (mismatch_step totals) [] (published_devices resources)))"

definition recordPublish :: "('q, 'w) AgentPorts \<Rightarrow> State \<Rightarrow> string list \<Rightarrow> 'w Agent \<Rightarrow> 'w Agent" where
  "recordPublish p st errs a =
     foldl (\<lambda>a g. if errs = [] then emit p g ''ResourceSlicePublished'' ''resource slices published'' a
                  else emit p g ''ResourceSlicePublishFailed'' (''resource slice publish failed: '' @ Join errs [CHR 0x0A]) a)
       a (st_Ready st)"

definition cdi_attrString :: "(string, DeviceAttribute) gomap \<Rightarrow> string \<Rightarrow> string" where
  "cdi_attrString attrs key =
     (case mget attrs key of None \<Rightarrow> [] | Some attr \<Rightarrow> (case da_StringValue attr of None \<Rightarrow> [] | Some s \<Rightarrow> TrimSpace s))"

definition cdi_isPhysicalDevice :: "(string, DeviceAttribute) gomap \<Rightarrow> bool" where
  "cdi_isPhysicalDevice attrs \<longleftrightarrow> ToLower (cdi_attrString attrs AttrDeviceType) = ''physical''"

definition base_step :: "(string, BaseDevice) gomap \<Rightarrow> 'q Device \<Rightarrow> (string, BaseDevice) gomap" where
  "base_step seen device =
     (let uuid = cdi_attrString (dv_Attributes device) AttrGPUUUID; name = TrimSpace (dv_Name device) in
      if \<not> cdi_isPhysicalDevice (dv_Attributes device) \<or> uuid = [] \<or> name = [] then seen
      else mput name \<lparr> bd_Name = name, bd_UUID = uuid \<rparr> seen)"

definition baseDevices :: "'q DriverResources \<Rightarrow> BaseDevice list" where
  "baseDevices resources = map snd (foldl base_step [] (published_devices resources))"

definition BaseSpecSyncer_Sync ::
  "(BaseDevice list \<Rightarrow> 'w \<Rightarrow> publish_error option \<times> 'w) \<Rightarrow> 'q DriverResources \<Rightarrow> 'w \<Rightarrow> publish_error option \<times> 'w" where
  "BaseSpecSyncer_Sync writeBase resources w =
     (if baseDevices resources = [] then (None, w) else writeBase (baseDevices resources) w)"

fun publish_error_text :: "publish_error \<Rightarrow> string" where
  "publish_error_text (DroppedFields pool features) = ''fields dropped in pool '' @ pool"
| "publish_error_text (OtherPublishError e) = e"

definition with_error_handler ::
  "('q, 'w) AgentPorts \<Rightarrow> string \<Rightarrow> ('w \<Rightarrow> publish_error option \<times> 'w) \<Rightarrow> 'w Agent \<Rightarrow> string list \<times> 'w Agent" where
  "with_error_handler p nodeName f a =
     (case on_world f a of
        (None, a1) \<Rightarrow> ([], a1)
      | (Some err, a1) \<Rightarrow> ([publish_error_text err], HandleError p nodeName err a1))"

definition PublishResourcesHandler :: "('q, 'w) AgentPorts \<Rightarrow> 'w handler" where
  "PublishResourcesHandler p st a =
     (case slices_Build p (st_NodeName st) (st_Ready st) a of
        (resources, buildErr) \<Rightarrow>
          let a1 = recordMigPlacementMismatch p st resources a in
          (case (case ap_WriteBase p of None \<Rightarrow> ([], a1)
                 | Some f \<Rightarrow> with_error_handler p (st_NodeName st) (BaseSpecSyncer_Sync f resources) a1) of
             (cdiErr, a2) \<Rightarrow>
               (case with_error_handler p (st_NodeName st) (ap_PublishResources p resources) a2 of
                  (publishErr, a3) \<Rightarrow>
                    let errs = buildErr @ cdiErr @ publishErr in (errs, st, recordPublish p st errs a3))))"

section \<open>One sync\<close>

definition handler_step :: "string \<Rightarrow> 'w handler \<Rightarrow> (State, 'w Agent) StepTaker" where
  "handler_step name h st a =
     (case h st a of
        ([], st', a') \<Rightarrow> (Inr None, st', a')
      | (errs, st', a') \<Rightarrow> (Inl (ErrPort name (Join errs [CHR 0x0A])), st', a'))"

definition finalStep :: "(State, 'w Agent) StepTaker" where
  "finalStep st a = (Inr (Some zero_result), st, a)"

definition NewSteps :: "('q, 'w) AgentPorts \<Rightarrow> (State, 'w Agent) StepTaker list" where
  "NewSteps p =
     [handler_step ''discover'' (DiscoverHandler p), handler_step ''mark-not-ready'' (MarkNotReadyHandler p),
      handler_step ''filter-ready'' FilterReadyHandler, handler_step ''capabilities'' (CapabilitiesHandler p),
      handler_step ''filter-healthy'' FilterHealthyHandler, handler_step ''publish-resources'' (PublishResourcesHandler p),
      finalStep]"

definition agent_sync :: "('q, 'w) AgentPorts \<Rightarrow> string \<Rightarrow> 'w Agent \<Rightarrow> (prepare_error + Result) \<times> State \<times> 'w Agent" where
  "agent_sync p nodeName a = Run (NewSteps p) \<lparr> st_NodeName = nodeName, st_All = [], st_Ready = [] \<rparr> a"

end
