(* ===== verification/GpuAgentSafety.thy ===== *)
theory GpuAgentSafety
  imports GpuAgent
begin

text \<open>
  Correctness of the GPU agent (\<open>GpuAgent\<close>): the failure tracker, what a sync publishes, and that switching
  off features the API server rejects comes to an end.
\<close>

section \<open>Failures\<close>

definition record_failures :: "string \<Rightarrow> time list \<Rightarrow> failures \<Rightarrow> bool \<times> failures" where
  "record_failures name ts failures = foldl (\<lambda>acc t. RecordFailure t name (snd acc)) (False, failures) ts"

definition backoff :: "nat \<Rightarrow> time" where
  "backoff n = nvmlFailureBackoff ! min n 4"

lemma record_failures_snoc:
  "record_failures name (ts @ [t]) failures = RecordFailure t name (snd (record_failures name ts failures))"
  by (simp add: record_failures_def)

lemma record_failures_entry:
  assumes "mget failures name = None" and "ts \<noteq> []"
  shows "mget (snd (record_failures name ts failures)) name =
      Some \<lparr> nf_firstFailure = hd ts, nf_nextAttempt = Some (last ts + backoff (length ts - 1)), nf_backoffIndex = length ts \<rparr>
    \<and> (fst (record_failures name ts failures) \<longleftrightarrow> nvmlFailureGrace \<le> last ts - hd ts)
    \<and> (\<forall>other. other \<noteq> name \<longrightarrow> mget (snd (record_failures name ts failures)) other = mget failures other)"
  using assms(2)
proof (induction ts rule: rev_induct)
  case (snoc t ts)
  have five: "length nvmlFailureBackoff = 5" by (simp add: nvmlFailureBackoff_def)
  show ?case
  proof (cases "ts = []")
    case True
    with assms(1) five show ?thesis
      by (simp add: record_failures_def RecordFailure_def backoff_def)
  next
    case False
    with snoc.IH five show ?thesis
      by (auto simp: record_failures_snoc RecordFailure_def backoff_def Let_def min_def)
  qed
qed simp

text \<open>
  Failures of NVML are forgiven for thirty seconds and retried with growing pauses: after a series of
  failures of a GPU without a success, the GPU is reported exactly if the first failure is at least thirty
  seconds old, it is tried again exactly from the pause of its place in the series on (5, 10, 30, 60 and then
  300 seconds), hence always again after five minutes, and the records of other GPUs are untouched.
\<close>

theorem RecordFailure_backoff:
  assumes "mget failures name = None" and "ts \<noteq> []"
  shows "(fst (record_failures name ts failures) \<longleftrightarrow> 30 * second \<le> last ts - hd ts)
    \<and> (ShouldAttempt now name (snd (record_failures name ts failures)) \<longleftrightarrow> last ts + backoff (length ts - 1) \<le> now)
    \<and> (last ts + 300 * second \<le> now \<longrightarrow> ShouldAttempt now name (snd (record_failures name ts failures)))
    \<and> (\<forall>other. other \<noteq> name \<longrightarrow> mget (snd (record_failures name ts failures)) other = mget failures other)"
proof -
  have "backoff n \<le> 300 * second" for n
  proof -
    have "min n 4 \<in> {0, 1, 2, 3, 4}" by auto
    then show ?thesis by (auto simp: backoff_def nvmlFailureBackoff_def second_def)
  qed
  from this[of "length ts - 1"] record_failures_entry[OF assms] show ?thesis
    by (auto simp: ShouldAttempt_def nvmlFailureGrace_def)
qed

theorem RecordFailure_backoff_witness:
  "\<not> fst (record_failures ''g'' [0, 6 * second] []) \<and> \<not> ShouldAttempt (10 * second) ''g'' (snd (record_failures ''g'' [0, 6 * second] []))
   \<and> ShouldAttempt (16 * second) ''g'' (snd (record_failures ''g'' [0, 6 * second] []))"
  using RecordFailure_backoff[of "[]" "''g''" "[0, 6 * second]" "10 * second"]
    RecordFailure_backoff[of "[]" "''g''" "[0, 6 * second]" "16 * second"]
  by (simp add: backoff_def nvmlFailureBackoff_def second_def)

section \<open>Features\<close>

definition features_on :: "FeatureSet \<Rightarrow> nat" where
  "features_on f = of_bool (fs_PartitionableDevices f) + of_bool (fs_ConsumableCapacity f) + of_bool (fs_BindingConditions f)"

definition feature_off :: "FeatureSet \<Rightarrow> string \<Rightarrow> bool" where
  "feature_off f name \<longleftrightarrow>
     (name = featurePartitionable \<longrightarrow> \<not> fs_PartitionableDevices f) \<and>
     (name = featureConsumableCapacity \<longrightarrow> \<not> fs_ConsumableCapacity f) \<and>
     (name = featureBindingConditions \<longrightarrow> \<not> fs_BindingConditions f)"

definition features_le :: "FeatureSet \<Rightarrow> FeatureSet \<Rightarrow> bool" where
  "features_le f g \<longleftrightarrow> (fs_PartitionableDevices f \<longrightarrow> fs_PartitionableDevices g) \<and>
     (fs_ConsumableCapacity f \<longrightarrow> fs_ConsumableCapacity g) \<and> (fs_BindingConditions f \<longrightarrow> fs_BindingConditions g)"

lemma features_le_refl [simp]: "features_le f f"
  by (simp add: features_le_def)

lemma features_le_trans: "features_le f g \<Longrightarrow> features_le g h \<Longrightarrow> features_le f h"
  by (auto simp: features_le_def)

lemma feature_off_le: "features_le f g \<Longrightarrow> feature_off g name \<Longrightarrow> feature_off f name"
  by (auto simp: feature_off_def features_le_def)

lemma features_on_le: "features_le f g \<Longrightarrow> features_on f \<le> features_on g"
  by (auto simp: features_on_def features_le_def)

lemmas feature_names = featurePartitionable_def featureConsumableCapacity_def featureBindingConditions_def

lemma disable_step_le:
  assumes "disable_step (f, c) name = (f', c')"
  shows "features_le f' f" "feature_off f' name" "c' \<Longrightarrow> \<not> c \<Longrightarrow> features_on f' < features_on f" "c \<Longrightarrow> c'" 
    "\<not> c' \<Longrightarrow> f' = f"
  using assms
  by (auto simp: disable_step_def features_le_def feature_off_def features_on_def feature_names split: if_splits)

lemma disable_fold:
  assumes "foldl disable_step (f, c) names = (f', c')"
  shows "features_le f' f \<and> (\<forall>n \<in> set names. feature_off f' n) \<and> (c \<longrightarrow> c') \<and>
    (c' \<and> \<not> c \<longrightarrow> features_on f' < features_on f) \<and> (\<not> c' \<longrightarrow> f' = f)"
  using assms
proof (induction names arbitrary: f c)
  case (Cons n names)
  obtain f1 c1 where s: "disable_step (f, c) n = (f1, c1)" by fastforce
  note step = disable_step_le[OF s]
  from Cons.prems s have "foldl disable_step (f1, c1) names = (f', c')" by simp
  note IH = Cons.IH[OF this]
  have "features_le f' f" using IH step(1) features_le_trans by blast
  moreover have "feature_off f' n" using IH step(2) feature_off_le by blast
  moreover have "c' \<and> \<not> c \<Longrightarrow> features_on f' < features_on f"
  proof (cases c1)
    case True
    moreover assume "c' \<and> \<not> c"
    ultimately have "features_on f1 < features_on f" using step(3) by simp
    with IH features_on_le[of f' f1] show ?thesis by simp
  next
    case False
    moreover assume "c' \<and> \<not> c"
    ultimately show ?thesis using IH step(5) by auto
  qed
  ultimately show ?case using IH step(4,5) by auto
qed simp

lemma emit_features [simp]:
  "ag_features (emit p g r m a) = ag_features a" "ag_notified (emit p g r m a) = ag_notified a"
  by (simp_all add: emit_def split: option.split)

lemma emits_features [simp]:
  "ag_features (foldl (\<lambda>a g. emit p g (r g) (m g) a) a gs) = ag_features a"
  "ag_notified (foldl (\<lambda>a g. emit p g (r g) (m g) a) a gs) = ag_notified a"
  by (induction gs arbitrary: a) simp_all

lemma on_world_features:
  "on_world f a = (r, a') \<Longrightarrow> ag_features a' = ag_features a \<and> ag_notified a' = ag_notified a"
  by (auto simp: on_world_def split: prod.splits)

lemma feature_events_features [simp]:
  "ag_features (feature_events p gpus f a) = ag_features a" "ag_notified (feature_events p gpus f a) = ag_notified a"
  by (simp_all add: feature_events_def Let_def)

lemma recordFeatureGateEvents_features [simp]:
  "ag_features (recordFeatureGateEvents p n pool fs a) = ag_features a"
  "ag_notified (recordFeatureGateEvents p n pool fs a) = ag_notified a"
proof -
  have "ag_features (foldl (\<lambda>a f. feature_events p gpus f a) a fs) = ag_features a \<and>
      ag_notified (foldl (\<lambda>a f. feature_events p gpus f a) a fs) = ag_notified a" for gpus fs a
    by (induction fs arbitrary: a) simp_all
  then show "ag_features (recordFeatureGateEvents p n pool fs a) = ag_features a"
    "ag_notified (recordFeatureGateEvents p n pool fs a) = ag_notified a"
    by (auto simp: recordFeatureGateEvents_def Let_def split: prod.splits sum.splits dest!: on_world_features)
qed

lemma DisableFeatures_effect:
  assumes "DisableFeatures names a = (changed, a')"
  shows "features_le (ag_features a') (ag_features a)" "ag_notified a' = ag_notified a"
    "changed \<Longrightarrow> features_on (ag_features a') < features_on (ag_features a)"
    "n \<in> set names \<Longrightarrow> feature_off (ag_features a') n"
proof -
  obtain f c where "foldl disable_step (ag_features a, False) names = (f, c)" by fastforce
  with disable_fold[OF this] assms show "features_le (ag_features a') (ag_features a)" "ag_notified a' = ag_notified a"
    "changed \<Longrightarrow> features_on (ag_features a') < features_on (ag_features a)"
    "n \<in> set names \<Longrightarrow> feature_off (ag_features a') n"
    by (auto simp: DisableFeatures_def Disable_def split: if_splits)
qed

lemma HandleError_features:
  fixes p :: "('q, 'w) AgentPorts"
  assumes "\<not> ag_notified a"
  shows "features_le (ag_features (HandleError p n err a)) (ag_features a)"
    and "ag_notified (HandleError p n err a) \<Longrightarrow> features_on (ag_features (HandleError p n err a)) < features_on (ag_features a)"
    and "err = DroppedFields pool fs \<Longrightarrow> f \<in> set fs \<Longrightarrow> known_feature f \<Longrightarrow> feature_off (ag_features (HandleError p n err a)) f"
proof -
  have "features_le (ag_features (HandleError p n err a)) (ag_features a) \<and>
      (ag_notified (HandleError p n err a) \<longrightarrow> features_on (ag_features (HandleError p n err a)) < features_on (ag_features a)) \<and>
      (\<forall>pool fs. err = DroppedFields pool fs \<longrightarrow> (\<forall>f \<in> set fs. known_feature f \<longrightarrow> feature_off (ag_features (HandleError p n err a)) f))"
  proof (cases err)
    case (DroppedFields pool fs)
    let ?known = "fst (splitFeatures fs)"
    obtain changed a' where d: "DisableFeatures ?known a = (changed, a')" by fastforce
    show ?thesis
      using DroppedFields d assms DisableFeatures_effect[OF d]
      by (auto simp: HandleError_def Let_def splitFeatures_def filter_empty_conv)
  next
    case (OtherPublishError e)
    with assms show ?thesis by (simp add: HandleError_def)
  qed
  then show "features_le (ag_features (HandleError p n err a)) (ag_features a)"
    "ag_notified (HandleError p n err a) \<Longrightarrow> features_on (ag_features (HandleError p n err a)) < features_on (ag_features a)"
    "err = DroppedFields pool fs \<Longrightarrow> f \<in> set fs \<Longrightarrow> known_feature f \<Longrightarrow> feature_off (ag_features (HandleError p n err a)) f"
    by blast+
qed

text \<open>A series of publish errors, each after the notification of the previous one was consumed by a sync.\<close>

fun report_errors :: "('q, 'w) AgentPorts \<Rightarrow> string \<Rightarrow> publish_error list \<Rightarrow> 'w Agent \<Rightarrow> nat \<times> 'w Agent" where
  "report_errors p n [] a = (0, a)"
| "report_errors p n (err # errs) a =
     (let a1 = HandleError p n err (a\<lparr> ag_notified := False \<rparr>) in
      case report_errors p n errs a1 of (k, a2) \<Rightarrow> (k + of_bool (ag_notified a1), a2))"

lemma report_errors_le:
  "report_errors p n errs a = (k, a') \<Longrightarrow>
   k + features_on (ag_features a') \<le> features_on (ag_features a) \<and> features_le (ag_features a') (ag_features a) \<and>
   (\<forall>pool fs f. DroppedFields pool fs \<in> set errs \<longrightarrow> f \<in> set fs \<longrightarrow> known_feature f \<longrightarrow> feature_off (ag_features a') f)"
proof (induction errs arbitrary: a k)
  case (Cons err errs)
  let ?a = "a\<lparr> ag_notified := False \<rparr>" and ?a1 = "HandleError p n err (a\<lparr> ag_notified := False \<rparr>)"
  obtain k1 where k1: "report_errors p n errs ?a1 = (k1, a')" "k = k1 + of_bool (ag_notified ?a1)"
    using Cons.prems by (auto simp: Let_def split: prod.splits)
  have not: "\<not> ag_notified ?a" by simp
  note step = HandleError_features[OF not, where p = p and n = n and err = err]
  note IH = Cons.IH[OF k1(1)]
  have "k + features_on (ag_features a') \<le> features_on (ag_features a)"
    using IH k1(2) step(2) features_on_le[OF step(1)] by (cases "ag_notified ?a1") auto
  moreover have "features_le (ag_features a') (ag_features a)"
    using IH step(1) features_le_trans[of "ag_features a'" "ag_features ?a1"] by simp
  moreover have "feature_off (ag_features a') f"
    if "DroppedFields pool fs \<in> set (err # errs)" "f \<in> set fs" "known_feature f" for pool fs f
    using that IH step(3)[of pool fs f] feature_off_le[of "ag_features a'" "ag_features ?a1"] by auto
  ultimately show ?case by blast
qed simp

text \<open>
  \<^bold>\<open>C24.\<close> Adapting to the features of the API server ends: whatever errors publishing reports, features are only
  switched off, every known feature the server complained about is off in the end, and at most three of the
  errors trigger another sync, one per feature that was on.
\<close>

theorem HandleError_converges:
  "(case report_errors p nodeName errs a of
      (notifications, a') \<Rightarrow>
        notifications \<le> features_on (ag_features a) - features_on (ag_features a') \<and> notifications \<le> 3
        \<and> features_le (ag_features a') (ag_features a)
        \<and> list_all (\<lambda>err. case err of OtherPublishError _ \<Rightarrow> True
            | DroppedFields _ fs \<Rightarrow> list_all (feature_off (ag_features a')) (filter known_feature fs)) errs)"
proof -
  obtain k a' where r: "report_errors p nodeName errs a = (k, a')" by fastforce
  have "features_on (ag_features a) \<le> 3" by (simp add: features_on_def)
  with report_errors_le[OF r] r show ?thesis
    by (auto simp: list_all_iff split: publish_error.splits)
qed

section \<open>What a sync publishes\<close>

text \<open>
  \<open>nvml_read p g g'\<close>: NVML was opened and answered for the GPU, and \<open>g'\<close> is the object with the capabilities
  and the state it reported, its hardware condition true. \<open>sync_outcome p all us\<close>: the GPUs \<open>us\<close> are those of
  \<open>all\<close> with a ready driver, each once, either as listed or as just read.
\<close>

definition nvml_read :: "('q, 'w) AgentPorts \<Rightarrow> PhysicalGPU \<Rightarrow> PhysicalGPU \<Rightarrow> bool" where
  "nvml_read p g g' \<longleftrightarrow> isDriverTypeNvidia g \<and>
     (\<exists>session w w' w1 w2 snapshot. ap_Open p w = (Inr session, w') \<and>
        session (pci_address_of g) w1 = (Inr snapshot, w2) \<and>
        g' = setHardwareCondition ConditionTrue reasonNVMLHealthy ''NVML is available''
               (g\<lparr> pg_Capabilities := sn_Capabilities snapshot,
                   pg_CurrentState := mergeCurrentState (pg_CurrentState g) (sn_CurrentState snapshot) \<rparr>))"

definition sync_outcome :: "('q, 'w) AgentPorts \<Rightarrow> PhysicalGPU list \<Rightarrow> PhysicalGPU list \<Rightarrow> bool" where
  "sync_outcome p gs us \<longleftrightarrow> (\<exists>hs. mset hs = mset gs \<and> list_all2 (\<lambda>g g'. g' = g \<or> nvml_read p g g') hs us)"

lemma find_SetStatusCondition:
  "sc_Type c \<noteq> t \<Longrightarrow> FindStatusCondition (SetStatusCondition c conds) t = FindStatusCondition conds t"
  "FindStatusCondition (SetStatusCondition c conds) (sc_Type c) = Some c"
  unfolding FindStatusCondition_def by (induction conds) auto

lemma setHardwareCondition_ready [simp]:
  "condition_true DriverReadyType (setHardwareCondition s r m g) = condition_true DriverReadyType g"
  "pg_Name (setHardwareCondition s r m g) = pg_Name g"
  by (simp_all add: condition_true_def setHardwareCondition_def find_SetStatusCondition(1) DriverReadyType_def HardwareHealthyType_def)

lemma nvml_read_ready:
  assumes "nvml_read p g g'"
  shows "condition_true DriverReadyType g' = condition_true DriverReadyType g" "pg_Name g' = pg_Name g"
    "condition_true HardwareHealthyType g'"
proof -
  have "condition_true DriverReadyType (g\<lparr> pg_Capabilities := c, pg_CurrentState := s \<rparr>) = condition_true DriverReadyType g" for c s
    by (simp add: condition_true_def)
  with assms show "condition_true DriverReadyType g' = condition_true DriverReadyType g" "pg_Name g' = pg_Name g"
    by (auto simp: nvml_read_def)
  show "condition_true HardwareHealthyType g'"
    using assms find_SetStatusCondition(2)[of "\<lparr> sc_Type = HardwareHealthyType, sc_Status = ConditionTrue,
        sc_Reason = reasonNVMLHealthy, sc_Message = ''NVML is available'', sc_ObservedGeneration = pg_Generation g \<rparr>"]
    by (auto simp: nvml_read_def condition_true_def setHardwareCondition_def)
qed

lemma updateDevice_read:
  assumes "updateDevice p session g a = (errs, obj, a')" and "ap_Open p w = (Inr session, w')" and "isDriverTypeNvidia g"
  shows "(case obj of None \<Rightarrow> g | Some o' \<Rightarrow> o') = g \<or> nvml_read p g (case obj of None \<Rightarrow> g | Some o' \<Rightarrow> o')"
proof -
  obtain r w2 where s: "session (pci_address_of g) (ag_world a) = (r, w2)" by fastforce
  show ?thesis
  proof (cases r)
    case (Inl e)
    with s assms(1) show ?thesis
      by (auto simp: updateDevice_def on_world_def pci_address_of_def split: prod.splits)
  next
    case (Inr snapshot)
    let ?obj = "setHardwareCondition ConditionTrue reasonNVMLHealthy ''NVML is available''
      (g\<lparr> pg_Capabilities := sn_Capabilities snapshot, pg_CurrentState := mergeCurrentState (pg_CurrentState g) (sn_CurrentState snapshot) \<rparr>)"
    have "nvml_read p g ?obj"
      using assms(2,3) s[unfolded Inr] unfolding nvml_read_def by blast
    moreover have "obj = None \<or> obj = Some ?obj"
      using assms(1) s Inr
      by (auto simp: updateDevice_def on_world_def pci_address_of_def Let_def split: prod.splits list.splits)
    ultimately show ?thesis by auto
  qed
qed

lemma select_nvidia_all:
  "select_nvidia p gs a = (errs, updated, nvidia, a') \<Longrightarrow>
   mset updated + mset nvidia = mset gs \<and> list_all isDriverTypeNvidia nvidia"
  by (induction gs arbitrary: a errs updated nvidia a') (fastforce split: if_splits prod.splits)+

lemma read_devices_read:
  "read_devices p session gs a = (errs, read, a') \<Longrightarrow> ap_Open p w = (Inr session, w') \<Longrightarrow> list_all isDriverTypeNvidia gs \<Longrightarrow>
   list_all2 (\<lambda>g g'. g' = g \<or> nvml_read p g g') gs read"
proof (induction gs arbitrary: a errs read)
  case (Cons g gs)
  obtain errs1 obj a1 where u: "updateDevice p session g a = (errs1, obj, a1)" by (metis prod_cases3)
  with Cons show ?case
    using updateDevice_read[OF u Cons.prems(2)] by (auto split: prod.splits)
qed simp

lemma CapabilitiesHandler_outcome:
  assumes "CapabilitiesHandler p st a = (errs, st', a')"
  shows "sync_outcome p (st_Ready st) (st_Ready st') \<and> st_NodeName st' = st_NodeName st"
proof -
  have same: "sync_outcome p gs gs" for gs
    by (auto simp: sync_outcome_def list_all2_same intro!: exI[of _ gs])
  obtain es updated nvidia a1 where s: "select_nvidia p (st_Ready st) a = (es, updated, nvidia, a1)" by (metis prod_cases4)
  have "sync_outcome p (st_Ready st) (updated @ read)"
    if "read_devices p session nvidia a2 = (errs', read, a3)" "ap_Open p w = (Inr session, w')" for session a2 errs' read a3 w w'
    unfolding sync_outcome_def
    using select_nvidia_all[OF s] read_devices_read[OF that]
    by (intro exI[of _ "updated @ nvidia"]) (auto intro!: list_all2_appendI simp: list_all2_same)
  with assms s same show ?thesis
    by (auto simp: CapabilitiesHandler_def on_world_def split: if_splits prod.splits sum.splits)
qed

text \<open>No handler before the last one changes the feature set.\<close>

lemma patch_errors_features: "patch_errors p obj base a = (errs, a') \<Longrightarrow> ag_features a' = ag_features a"
  by (auto simp: patch_errors_def split: prod.splits option.splits dest: on_world_features)

lemma record_changed_features [simp]: "ag_features (record_changed p obj base r m a) = ag_features a"
  by (simp add: record_changed_def)

lemma for_each_features:
  assumes "\<And>g a errs a'. f g a = (errs, a') \<Longrightarrow> ag_features a' = ag_features a"
  shows "for_each f gs a = (errs, a') \<Longrightarrow> ag_features a' = ag_features a"
  by (induction gs arbitrary: a errs) (auto split: prod.splits dest: assms)

lemma device_features:
  "mark_not_ready p g a = (errs, a') \<Longrightarrow> ag_features a' = ag_features a"
  "applyDeviceFailure p err g a = (errs, a') \<Longrightarrow> ag_features a' = ag_features a"
  "markDriverTypeNotNvidia p g a = (errs, a') \<Longrightarrow> ag_features a' = ag_features a"
  by (auto simp: mark_not_ready_def applyDeviceFailure_def markDriverTypeNotNvidia_def Let_def
      split: if_splits prod.splits dest!: patch_errors_features)

lemma updateDevice_features: "updateDevice p s g a = (errs, obj, a') \<Longrightarrow> ag_features a' = ag_features a"
  by (auto simp: updateDevice_def Let_def split: prod.splits sum.splits list.splits
      dest!: patch_errors_features on_world_features device_features(2))

lemma select_nvidia_features: "select_nvidia p gs a = (errs, updated, nvidia, a') \<Longrightarrow> ag_features a' = ag_features a"
  by (induction gs arbitrary: a errs updated nvidia) (auto split: if_splits prod.splits dest!: device_features(3))

lemma read_devices_features: "read_devices p s gs a = (errs, read, a') \<Longrightarrow> ag_features a' = ag_features a"
  by (induction gs arbitrary: a errs read) (auto split: prod.splits dest!: updateDevice_features)

lemma applyDeviceFailures_features:
  "for_each (applyDeviceFailure p err) gs a = (errs, a') \<Longrightarrow> ag_features a' = ag_features a"
  by (rule for_each_features[of "applyDeviceFailure p err"]) (rule device_features(2))

lemma CapabilitiesHandler_features: "CapabilitiesHandler p st a = (errs, st', a') \<Longrightarrow> ag_features a' = ag_features a"
  by (auto simp: CapabilitiesHandler_def split: if_splits prod.splits sum.splits
      dest!: select_nvidia_features on_world_features read_devices_features applyDeviceFailures_features)

lemma CapabilitiesHandler_All: "CapabilitiesHandler p st a = (errs, st', a') \<Longrightarrow> st_All st' = st_All st"
  by (auto simp: CapabilitiesHandler_def split: if_splits prod.splits sum.splits)

definition sync_inv :: "string \<Rightarrow> FeatureSet \<Rightarrow> (PhysicalGPU list \<Rightarrow> PhysicalGPU list \<Rightarrow> bool) \<Rightarrow> State \<Rightarrow> 'w Agent \<Rightarrow> bool" where
  "sync_inv nodeName features P st a \<longleftrightarrow>
     st_NodeName st = nodeName \<and> ag_features a = features \<and> P (st_All st) (st_Ready st)"

definition node_listed :: "('q, 'w) AgentPorts \<Rightarrow> string \<Rightarrow> PhysicalGPU list \<Rightarrow> bool" where
  "node_listed p nodeName gpus \<longleftrightarrow> (\<exists>w w'. ap_ListByNode p nodeName w = (Inr gpus, w'))"

definition ready_gpus :: "('q, 'w) AgentPorts \<Rightarrow> string \<Rightarrow> PhysicalGPU list \<Rightarrow> PhysicalGPU list \<Rightarrow> bool" where
  "ready_gpus p n gpus ready \<longleftrightarrow> node_listed p n gpus \<and> ready = filter (condition_true DriverReadyType) gpus"

definition read_gpus :: "('q, 'w) AgentPorts \<Rightarrow> string \<Rightarrow> PhysicalGPU list \<Rightarrow> PhysicalGPU list \<Rightarrow> bool" where
  "read_gpus p n gpus ready \<longleftrightarrow> node_listed p n gpus \<and> sync_outcome p (filter (condition_true DriverReadyType) gpus) ready"

definition healthy_gpus :: "('q, 'w) AgentPorts \<Rightarrow> string \<Rightarrow> PhysicalGPU list \<Rightarrow> PhysicalGPU list \<Rightarrow> bool" where
  "healthy_gpus p n gpus ready \<longleftrightarrow>
     (\<exists>us. read_gpus p n gpus us \<and> ready = filter (condition_true HardwareHealthyType) us)"

text \<open>\<open>published p node gpus features\<close>: slices of exactly these GPUs were built without error and accepted.\<close>

definition published :: "('q, 'w) AgentPorts \<Rightarrow> string \<Rightarrow> PhysicalGPU list \<Rightarrow> FeatureSet \<Rightarrow> bool" where
  "published p nodeName gpus features \<longleftrightarrow>
     (\<exists>w w1 w2 invt. Builder_Build (ap_placements p w) gpus = (invt, []) \<and>
        ap_PublishResources p (BuildDriverResources (ap_quantity p) (PoolName nodeName) invt features) w1 = (None, w2))"

lemma handler_step_validI:
  assumes "\<And>st a st' a'. P st a \<Longrightarrow> h st a = ([], st', a') \<Longrightarrow> Q st' a'"
  shows "step_valid P (handler_step name h) Q R (\<lambda>_ _. True)"
  by (rule step_validI) (auto simp: handler_step_def assms split: prod.splits list.splits)

lemma discover_step:
  "step_valid (sync_inv n f (\<lambda>_ _. True)) (handler_step s (DiscoverHandler p)) (sync_inv n f (\<lambda>gs _. node_listed p n gs)) R (\<lambda>_ _. True)"
  by (rule handler_step_validI)
     (auto simp: DiscoverHandler_def sync_inv_def node_listed_def on_world_def split: prod.splits sum.splits, blast)

lemma mark_step_valid:
  "step_valid (sync_inv n f P) (handler_step s (MarkNotReadyHandler p)) (sync_inv n f P) R (\<lambda>_ _. True)"
  using for_each_features[of "mark_not_ready p", OF device_features(1)]
  by (intro handler_step_validI) (auto simp: MarkNotReadyHandler_def sync_inv_def split: prod.splits)

lemma filter_ready_step:
  "step_valid (sync_inv n f (\<lambda>gs _. node_listed p n gs)) (handler_step s FilterReadyHandler) (sync_inv n f (ready_gpus p n)) R (\<lambda>_ _. True)"
  by (rule handler_step_validI) (auto simp: FilterReadyHandler_def sync_inv_def ready_gpus_def)

lemma capabilities_step:
  "step_valid (sync_inv n f (ready_gpus p n)) (handler_step s (CapabilitiesHandler p)) (sync_inv n f (read_gpus p n)) R (\<lambda>_ _. True)"
proof (rule handler_step_validI)
  fix st a st' a'
  assume "sync_inv n f (ready_gpus p n) st a" and h: "CapabilitiesHandler p st a = ([], st', a')"
  with CapabilitiesHandler_features[OF h] CapabilitiesHandler_All[OF h] CapabilitiesHandler_outcome[OF h]
  show "sync_inv n f (read_gpus p n) st' a'"
    by (simp add: sync_inv_def ready_gpus_def read_gpus_def)
qed

lemma filter_healthy_step:
  "step_valid (sync_inv n f (read_gpus p n)) (handler_step s FilterHealthyHandler) (sync_inv n f (healthy_gpus p n)) R (\<lambda>_ _. True)"
  by (rule handler_step_validI) (auto simp: FilterHealthyHandler_def sync_inv_def healthy_gpus_def)

lemma with_error_handler_ok:
  "with_error_handler p n f a = ([], a') \<Longrightarrow>
   ag_features a' = ag_features a \<and> (\<exists>w w'. f w = (None, w'))"
  by (auto simp: with_error_handler_def on_world_def split: prod.splits option.splits)

lemma foldl_features:
  assumes "\<And>a x. ag_features (f a x) = ag_features a"
  shows "ag_features (foldl f a xs) = ag_features a"
  by (induction xs arbitrary: a) (simp_all add: assms)

lemma recordMigPlacementMismatch_features [simp]: "ag_features (recordMigPlacementMismatch p st r a) = ag_features a"
  unfolding recordMigPlacementMismatch_def Let_def
  by (auto intro!: foldl_features split: option.splits)

lemma recordPublish_features [simp]: "ag_features (recordPublish p st errs a) = ag_features a"
  unfolding recordPublish_def by (cases "errs = []") simp_all

lemma PublishResourcesHandler_published:
  assumes "PublishResourcesHandler p st a = ([], st', a')"
  shows "published p (st_NodeName st) (st_Ready st) (ag_features a) \<and> st' = st \<and> ag_features a' = ag_features a"
proof -
  obtain invt errs where b: "Builder_Build (ap_placements p (ag_world a)) (st_Ready st) = (invt, errs)" by fastforce
  let ?r = "BuildDriverResources (ap_quantity p) (PoolName (st_NodeName st)) invt (ag_features a)"
  let ?a1 = "recordMigPlacementMismatch p st ?r a"
  obtain cdi a2 where c: "(case ap_WriteBase p of None \<Rightarrow> ([], ?a1)
      | Some f \<Rightarrow> with_error_handler p (st_NodeName st) (BaseSpecSyncer_Sync f ?r) ?a1) = (cdi, a2)" by fastforce
  obtain pub a3 where d: "with_error_handler p (st_NodeName st) (ap_PublishResources p ?r) a2 = (pub, a3)" by fastforce
  from assms b c d have none: "errs = []" "cdi = []" "pub = []" and fin: "st' = st" "a' = recordPublish p st [] a3"
    by (auto simp: PublishResourcesHandler_def slices_Build_def Let_def split: prod.splits)
  from c none have "ag_features a2 = ag_features a"
    using with_error_handler_ok[of p _ "BaseSpecSyncer_Sync _ ?r" ?a1 a2] by (auto split: option.splits)
  with b none fin with_error_handler_ok[of p "st_NodeName st" "ap_PublishResources p ?r" a2 a3] d show ?thesis
    by (auto simp: published_def)
qed

lemma publish_step:
  "step_valid (sync_inv n f P) (handler_step s (PublishResourcesHandler p))
     (\<lambda>st a. sync_inv n f P st a \<and> published p n (st_Ready st) f) R (\<lambda>_ _. True)"
  by (rule handler_step_validI) (auto simp: sync_inv_def dest!: PublishResourcesHandler_published)

lemma NewSteps_valid:
  "run_valid (sync_inv n f (\<lambda>_ _. True)) (NewSteps p)
     (\<lambda>st a. sync_inv n f (healthy_gpus p n) st a \<and> published p n (st_Ready st) f) (\<lambda>_ _. True)"
  unfolding NewSteps_def
  by (rule run_Cons[OF discover_step] run_Cons[OF mark_step_valid] run_Cons[OF filter_ready_step] run_Cons[OF capabilities_step]
      run_Cons[OF filter_healthy_step] run_Cons[OF publish_step] run_Cons[where Q = "\<lambda>_ _. False"] run_Nil
      | simp add: step_valid_def finalStep_def)+

lemma list_all2_source: "list_all2 P xs ys \<Longrightarrow> y \<in> set ys \<Longrightarrow> \<exists>x \<in> set xs. P x y"
  by (induction rule: list_all2_induct) auto


definition ex_condition :: "string \<Rightarrow> StatusCondition" where
  "ex_condition t = \<lparr> sc_Type = t, sc_Status = ConditionTrue, sc_Reason = [], sc_Message = [], sc_ObservedGeneration = 1 \<rparr>"

definition ex_gpu :: "string \<Rightarrow> StatusCondition list \<Rightarrow> PhysicalGPU" where
  "ex_gpu name conds = \<lparr> pg_Name = name, pg_Labels = [],
     pg_NodeInfo = None, pg_PCIInfo = Some \<lparr> pci_Address = ''0000:01:00.0'', pci_Class = None, pci_Vendor = None, pci_Device = None \<rparr>, pg_Capabilities = None,
     pg_CurrentState = Some \<lparr> gcs_DriverType = DriverTypeNvidia, gcs_Nvidia = None \<rparr>, pg_Generation = 1, pg_Conditions = conds \<rparr>"

definition ex_capabilities :: GPUCapabilities where
  "ex_capabilities = \<lparr> gcap_MemoryMiB = Some 40960, gcap_Vendor = VendorNvidia,
     gcap_Nvidia = Some \<lparr> nc_ComputeCap = ''8.0'', nc_MIGSupported = Some False, nc_MIG = None \<rparr> \<rparr>"

definition ex_ports :: "(int64 \<times> qformat, nat) AgentPorts" where
  "ex_ports = \<lparr> ap_now = (\<lambda>_. 0),
     ap_ListByNode = (\<lambda>_ w. (Inr [ex_gpu ''g1'' [ex_condition DriverReadyType], ex_gpu ''g2'' []], w)),
     ap_PatchStatus = (\<lambda>_ _ w. (None, w)), ap_Event = None,
     ap_Open = (\<lambda>w. (Inr (\<lambda>_ w. (Inr \<lparr> sn_Capabilities = Some ex_capabilities,
       sn_CurrentState = Some \<lparr> gcs_DriverType = [], gcs_Nvidia = Some \<lparr> ncs_GPUUUID = ''GPU-1'', ncs_DriverVersion = ''535'' \<rparr> \<rparr> \<rparr>, w)), w)),
     ap_placements = (\<lambda>_. None), ap_quantity = int_quantity, ap_WriteBase = None,
     ap_PublishResources = (\<lambda>_ w. (None, Suc w)) \<rparr>"

definition ex_agent :: "nat Agent" where
  "ex_agent = \<lparr> ag_world = 0, ag_failures = [], ag_features = DefaultFeatures, ag_disabled = [], ag_notified = False \<rparr>"

lemma ex_sync:
  "case agent_sync ex_ports ''n1'' ex_agent of (r, st, a) \<Rightarrow>
     r = Inr zero_result \<and> map pg_Name (st_Ready st) = [''g1''] \<and> ag_world a = 1"
  by code_simp


end
