(* ===== verification/FeatureGates.thy ===== *)
theory FeatureGates
  imports GpuAgentSafety
begin

text \<open>
  Feature gates at start-up: \<open>pkg/dra/featuregates\<close>, \<open>pkg/gpuhandler/featuregates\<close> and the part of
  \<open>bootstrap_start.go\<close> that applies them to the slice builder. The version library of the API machinery
  (\<open>ParseGeneric\<close>, \<open>MustParseGeneric\<close>, \<open>AtLeast\<close>) is the parameter \<open>version_api\<close>; a kube client is absent or
  answers the version query with an error or with the version of the server. A resolution is the decision, its
  source, the version of the server and the error, if any.
\<close>

record 'v version_api =
  va_ParseGeneric :: "string \<Rightarrow> string + 'v"
  va_MustParseGeneric :: "string \<Rightarrow> 'v"
  va_AtLeast :: "'v \<Rightarrow> 'v \<Rightarrow> bool"

type_synonym kube_server = "(string + string) option"
type_synonym 'd resolution = "'d \<times> string \<times> string \<times> string option"

datatype gate_mode = ModeAuto | ModeEnabled | ModeDisabled

definition deviceStatusMinVersion :: string where "deviceStatusMinVersion = ''v1.32.0''"
definition extendedResourceMinVersion :: string where "extendedResourceMinVersion = ''v1.34.0''"
definition consumableCapacityMinVersion :: string where "consumableCapacityMinVersion = ''v1.34.0''"
definition partitionableMinVersion :: string where "partitionableMinVersion = ''v1.34.0''"
definition sharedCountersSeparateMinVersion :: string where "sharedCountersSeparateMinVersion = ''v1.35.0''"

text \<open>The version query all resolutions share: the decision for a server from \<open>minVersion\<close> on, and the one for older servers and errors.\<close>

definition detect_version :: "'v version_api \<Rightarrow> kube_server \<Rightarrow> string \<Rightarrow> 'd \<Rightarrow> 'd \<Rightarrow> 'd resolution" where
  "detect_version V kube minVersion supported unsupported =
     (case kube of
        None \<Rightarrow> (unsupported, ''auto'', [], Some ''kube client is nil'')
      | Some (Inl err) \<Rightarrow> (unsupported, ''auto'', [], Some (''detect server version: '' @ err))
      | Some (Inr git) \<Rightarrow>
          (case va_ParseGeneric V git of
             Inl err \<Rightarrow> (unsupported, ''auto'', git, Some (''parse server version '' @ git @ '': '' @ err))
           | Inr parsed \<Rightarrow>
               (if va_AtLeast V parsed (va_MustParseGeneric V minVersion) then supported else unsupported, ''auto'', git, None)))"

definition parse_mode :: "string \<Rightarrow> string \<Rightarrow> gate_mode \<times> string option" where
  "parse_mode message raw =
     (let val = TrimSpace (ToLower raw) in
      if val \<in> set [[], ''auto''] then (ModeAuto, None)
      else if val \<in> set [''true'', ''enabled'', ''enable'', ''on'', ''1'', ''yes''] then (ModeEnabled, None)
      else if val \<in> set [''false'', ''disabled'', ''disable'', ''off'', ''0'', ''no''] then (ModeDisabled, None)
      else (ModeAuto, Some (message @ raw)))"

definition parseDeviceStatusMode :: "string \<Rightarrow> gate_mode \<times> string option" where
  "parseDeviceStatusMode raw = parse_mode ''unsupported device status mode '' raw"

definition parseConsumableCapacityMode :: "string \<Rightarrow> gate_mode \<times> string option" where
  "parseConsumableCapacityMode raw = parse_mode ''unsupported consumable capacity mode '' raw"

definition resolve_mode :: "'v version_api \<Rightarrow> kube_server \<Rightarrow> string \<Rightarrow> gate_mode \<Rightarrow> bool resolution" where
  "resolve_mode V kube minVersion mode =
     (case mode of
        ModeEnabled \<Rightarrow> (True, ''config'', [], None)
      | ModeDisabled \<Rightarrow> (False, ''config'', [], None)
      | ModeAuto \<Rightarrow> detect_version V kube minVersion True False)"

definition ResolveDeviceStatus :: "'v version_api \<Rightarrow> kube_server \<Rightarrow> string \<Rightarrow> bool resolution" where
  "ResolveDeviceStatus V kube rawMode =
     (case parseDeviceStatusMode rawMode of
        (_, Some err) \<Rightarrow> (False, ''auto'', [], Some err)
      | (mode, None) \<Rightarrow> resolve_mode V kube deviceStatusMinVersion mode)"

definition ResolveExtendedResource :: "'v version_api \<Rightarrow> kube_server \<Rightarrow> bool resolution" where
  "ResolveExtendedResource V kube = detect_version V kube extendedResourceMinVersion True False"

definition resolveConsumableCapacity :: "'v version_api \<Rightarrow> kube_server \<Rightarrow> gate_mode \<Rightarrow> bool resolution" where
  "resolveConsumableCapacity V kube mode = resolve_mode V kube consumableCapacityMinVersion mode"

definition resolvePartitionableSupport :: "'v version_api \<Rightarrow> kube_server \<Rightarrow> bool resolution" where
  "resolvePartitionableSupport V kube = detect_version V kube partitionableMinVersion True False"

definition resolveSharedCountersLayout :: "'v version_api \<Rightarrow> kube_server \<Rightarrow> SharedCountersLayout resolution" where
  "resolveSharedCountersLayout V kube =
     detect_version V kube sharedCountersSeparateMinVersion SharedCountersSeparate SharedCountersInline"

section \<open>The slice builder\<close>

definition EnableFeatures :: "string list \<Rightarrow> 'w Agent \<Rightarrow> bool \<times> 'w Agent" where
  "EnableFeatures features a =
     (case Enable (ag_features a) features of
        (updated, changed) \<Rightarrow> (changed, if changed then a\<lparr> ag_features := updated \<rparr> else a))"

definition SetSharedCountersLayout :: "SharedCountersLayout \<Rightarrow> 'w Agent \<Rightarrow> bool \<times> 'w Agent" where
  "SetSharedCountersLayout layout a =
     (case WithSharedCountersLayout (ag_features a) layout of
        (updated, changed) \<Rightarrow> (changed, if changed then a\<lparr> ag_features := updated \<rparr> else a))"

definition SetBindingConditionsEnabled :: "bool \<Rightarrow> 'w Agent \<Rightarrow> bool \<times> 'w Agent" where
  "SetBindingConditionsEnabled enabled a =
     (case WithBindingConditions (ag_features a) enabled of
        (updated, changed) \<Rightarrow> (changed, if changed then a\<lparr> ag_features := updated \<rparr> else a))"

section \<open>Configuration at start-up\<close>

definition ConfigurePartitionableDevices ::
  "'v version_api \<Rightarrow> ('q, 'w) AgentPorts \<Rightarrow> string \<Rightarrow> kube_server \<Rightarrow> 'w Agent \<Rightarrow> 'w Agent" where
  "ConfigurePartitionableDevices V p nodeName kube a =
     (if fst (resolvePartitionableSupport V kube) then a
      else
        let a1 = snd (DisableFeatures [featurePartitionable] a) in
        (case ap_Event p of
           None \<Rightarrow> a1
         | Some _ \<Rightarrow> recordFeatureGateEvents p nodeName (''gpus/'' @ nodeName) [featurePartitionable] a1))"

definition ConfigureConsumableCapacity :: "'v version_api \<Rightarrow> kube_server \<Rightarrow> string \<Rightarrow> 'w Agent \<Rightarrow> 'w Agent" where
  "ConfigureConsumableCapacity V kube modeRaw a =
     (if fst (resolveConsumableCapacity V kube (fst (parseConsumableCapacityMode modeRaw)))
      then snd (EnableFeatures [featureConsumableCapacity] a) else a)"

definition ConfigureSharedCountersLayout :: "'v version_api \<Rightarrow> kube_server \<Rightarrow> 'w Agent \<Rightarrow> 'w Agent" where
  "ConfigureSharedCountersLayout V kube a =
     snd (SetSharedCountersLayout (fst (resolveSharedCountersLayout V kube)) a)"

definition initFeatureGates ::
  "'v version_api \<Rightarrow> ('q, 'w) AgentPorts \<Rightarrow> string \<Rightarrow> string \<Rightarrow> kube_server \<Rightarrow> 'w Agent \<Rightarrow> 'w Agent" where
  "initFeatureGates V p nodeName capacityMode kube a =
     ConfigureSharedCountersLayout V kube
       (ConfigureConsumableCapacity V kube capacityMode (ConfigurePartitionableDevices V p nodeName kube a))"

definition resolveDeviceStatus :: "'v version_api \<Rightarrow> kube_server \<Rightarrow> string \<Rightarrow> bool" where
  "resolveDeviceStatus V kube statusMode = fst (ResolveDeviceStatus V kube statusMode)"

text \<open>The features with which the agent begins: a new builder, the gates, and the binding conditions.\<close>

definition start_agent ::
  "'v version_api \<Rightarrow> ('q, 'w) AgentPorts \<Rightarrow> string \<Rightarrow> string \<Rightarrow> string \<Rightarrow> kube_server \<Rightarrow> 'w Agent \<Rightarrow> 'w Agent" where
  "start_agent V p nodeName capacityMode statusMode kube a =
     snd (SetBindingConditionsEnabled (resolveDeviceStatus V kube statusMode)
       (initFeatureGates V p nodeName capacityMode kube (a\<lparr> ag_features := DefaultFeatures \<rparr>)))"

section \<open>Properties\<close>

text \<open>\<open>server_since V kube v\<close>: the server answers with a version that parses and is at least \<open>v\<close>.\<close>

definition server_since :: "'v version_api \<Rightarrow> kube_server \<Rightarrow> string \<Rightarrow> bool" where
  "server_since V kube v =
     (case kube of
        Some (Inr git) \<Rightarrow>
          (case va_ParseGeneric V git of Inr parsed \<Rightarrow> va_AtLeast V parsed (va_MustParseGeneric V v) | Inl _ \<Rightarrow> False)
      | _ \<Rightarrow> False)"

lemma detect_version_fst: "fst (detect_version V kube v yes no) = (if server_since V kube v then yes else no)"
  by (simp add: detect_version_def server_since_def split: option.split sum.split)

lemma gate_switches:
  "ag_features (snd (EnableFeatures [featureConsumableCapacity] a)) = (ag_features a)\<lparr> fs_ConsumableCapacity := True \<rparr>"
  "ag_features (snd (DisableFeatures [featurePartitionable] a)) = (ag_features a)\<lparr> fs_PartitionableDevices := False \<rparr>"
  "ag_features (snd (SetSharedCountersLayout layout a)) = (ag_features a)\<lparr> fs_SharedCountersLayout := layout \<rparr>"
  "ag_features (snd (SetBindingConditionsEnabled on a)) = (ag_features a)\<lparr> fs_BindingConditions := on \<rparr>"
  by (auto simp: EnableFeatures_def Enable_def enable_step_def DisableFeatures_def Disable_def disable_step_def
      SetSharedCountersLayout_def WithSharedCountersLayout_def SetBindingConditionsEnabled_def WithBindingConditions_def
      feature_names split: if_splits)

lemma configure_features:
  "ag_features (ConfigurePartitionableDevices V p n kube a) =
     (if server_since V kube ''v1.34.0'' then ag_features a else (ag_features a)\<lparr> fs_PartitionableDevices := False \<rparr>)"
  "ag_features (ConfigureSharedCountersLayout V kube a) = (ag_features a)\<lparr> fs_SharedCountersLayout :=
     if server_since V kube ''v1.35.0'' then SharedCountersSeparate else SharedCountersInline \<rparr>"
  by (simp_all add: ConfigurePartitionableDevices_def resolvePartitionableSupport_def detect_version_fst gate_switches Let_def
      partitionableMinVersion_def ConfigureSharedCountersLayout_def resolveSharedCountersLayout_def
      sharedCountersSeparateMinVersion_def split: option.split)

definition gate_open :: "'v version_api \<Rightarrow> kube_server \<Rightarrow> string \<Rightarrow> gate_mode \<Rightarrow> bool" where
  "gate_open V kube v mode \<longleftrightarrow> (case mode of ModeEnabled \<Rightarrow> True | ModeDisabled \<Rightarrow> False | ModeAuto \<Rightarrow> server_since V kube v)"

lemma resolve_mode_fst: "fst (resolve_mode V kube v mode) = gate_open V kube v mode"
  by (simp add: resolve_mode_def gate_open_def detect_version_fst split: gate_mode.split)

lemma consumable_features:
  "ag_features (ConfigureConsumableCapacity V kube mode a) =
     (if gate_open V kube ''v1.34.0'' (fst (parseConsumableCapacityMode mode))
      then (ag_features a)\<lparr> fs_ConsumableCapacity := True \<rparr> else ag_features a)"
  by (simp add: ConfigureConsumableCapacity_def resolveConsumableCapacity_def resolve_mode_fst gate_switches
      consumableCapacityMinVersion_def)

text \<open>
  The features an agent starts with follow from the server and the configuration alone: MIG partitions are
  offered exactly for servers from 1.34 on; consumable capacity is on exactly if the configuration forces it
  or leaves it to the server and the server is at least 1.34 (an unknown mode counts as automatic); binding
  conditions likewise with 1.32, but an unknown mode switches them off; counter sets are published in their own
  slices exactly from 1.35 on. A server that cannot be asked counts as too old.
\<close>

theorem start_features:
  "ag_features (start_agent V p nodeName capacityMode statusMode kube a) =
     \<lparr> fs_PartitionableDevices = server_since V kube ''v1.34.0'',
       fs_ConsumableCapacity = gate_open V kube ''v1.34.0'' (fst (parseConsumableCapacityMode capacityMode)),
       fs_BindingConditions =
         (case parseDeviceStatusMode statusMode of
            (mode, None) \<Rightarrow> gate_open V kube ''v1.32.0'' mode | (_, Some _) \<Rightarrow> False),
       fs_SharedCountersLayout = (if server_since V kube ''v1.35.0'' then SharedCountersSeparate else SharedCountersInline) \<rparr>"
proof -
  have "resolveDeviceStatus V kube statusMode = (case parseDeviceStatusMode statusMode of
      (mode, None) \<Rightarrow> gate_open V kube ''v1.32.0'' mode | (_, Some _) \<Rightarrow> False)"
    by (simp add: resolveDeviceStatus_def ResolveDeviceStatus_def resolve_mode_fst deviceStatusMinVersion_def
        split: prod.split option.split)
  then show ?thesis
    by (simp add: start_agent_def initFeatureGates_def gate_switches configure_features consumable_features DefaultFeatures_def)
qed

end
