(* ===== verification/SyncLoop.thy ===== *)
theory SyncLoop
  imports Prelude
begin

text \<open>
  The loop that runs syncs (\<open>loop.go\<close>) as a state machine. The notifier is a channel of one element
  (\<open>lo_pending\<close>); the quiet-period timer is armed, has expired with its tick unread, or is idle; \<open>lo_syncing\<close>
  says that the loop is inside \<open>syncFn\<close>. \<open>lo_dirty\<close> is a ghost: something has happened since the last sync began
  that a sync has to see (a reported change, or the failure of that sync).

  The machine describes the loop while it runs. The two cases of the \<open>select\<close> that end it (the context is done, or a
  watch reports an error on \<open>errCh\<close>, which ends the process) are not steps of the machine; after them there is no
  loop left to make a promise.
\<close>

datatype timer = TimerArmed | TimerExpired | TimerIdle

record loop_state =
  lo_pending :: bool
  lo_timer :: timer
  lo_syncing :: bool
  lo_dirty :: bool

datatype loop_action = Change | Heartbeat | Receive | Expire | SyncStart | SyncOk | SyncFailed

definition Notify :: "loop_state \<Rightarrow> loop_state" where
  "Notify s = s\<lparr> lo_pending := True \<rparr>"

definition loop_init :: loop_state where
  "loop_init = \<lparr> lo_pending = False, lo_timer = TimerArmed, lo_syncing = False, lo_dirty = True \<rparr>"

inductive syncLoop_step :: "loop_state \<Rightarrow> loop_action \<Rightarrow> loop_state \<Rightarrow> bool" where
  change: "syncLoop_step s Change (Notify (s\<lparr> lo_dirty := True \<rparr>))"
| heartbeat: "\<not> lo_syncing s \<Longrightarrow> syncLoop_step s Heartbeat (Notify s)"
| receive: "\<not> lo_syncing s \<Longrightarrow> lo_pending s \<Longrightarrow> syncLoop_step s Receive (s\<lparr> lo_pending := False, lo_timer := TimerArmed \<rparr>)"
| expire: "lo_timer s = TimerArmed \<Longrightarrow> syncLoop_step s Expire (s\<lparr> lo_timer := TimerExpired \<rparr>)"
| start: "\<not> lo_syncing s \<Longrightarrow> lo_timer s = TimerExpired \<Longrightarrow>
    syncLoop_step s SyncStart (s\<lparr> lo_timer := TimerIdle, lo_syncing := True, lo_dirty := False \<rparr>)"
| ok: "lo_syncing s \<Longrightarrow> syncLoop_step s SyncOk (s\<lparr> lo_syncing := False \<rparr>)"
| failed: "lo_syncing s \<Longrightarrow> syncLoop_step s SyncFailed (Notify (s\<lparr> lo_syncing := False, lo_dirty := True \<rparr>))"

inductive syncLoop_run :: "loop_state \<Rightarrow> loop_action list \<Rightarrow> loop_state \<Rightarrow> bool" where
  nil: "syncLoop_run s [] s"
| cons: "syncLoop_step s x s' \<Longrightarrow> syncLoop_run s' xs t \<Longrightarrow> syncLoop_run s (x # xs) t"

code_pred (modes: i \<Rightarrow> i \<Rightarrow> o \<Rightarrow> bool) syncLoop_step .
code_pred (modes: i \<Rightarrow> i \<Rightarrow> o \<Rightarrow> bool) syncLoop_run .

inductive_cases syncLoop_run_consE: "syncLoop_run s (x # xs) t"
inductive_simps syncLoop_run_simps [simp]: "syncLoop_run s [] t" "syncLoop_run s (x # xs) t"
inductive_simps syncLoop_step_simps:
  "syncLoop_step s Change t" "syncLoop_step s Heartbeat t" "syncLoop_step s Receive t" "syncLoop_step s Expire t"
  "syncLoop_step s SyncStart t" "syncLoop_step s SyncOk t" "syncLoop_step s SyncFailed t"

definition loop_inv :: "loop_state \<Rightarrow> bool" where
  "loop_inv s \<longleftrightarrow> (lo_dirty s \<longrightarrow> lo_pending s \<or> lo_timer s \<noteq> TimerIdle)"

lemma syncLoop_step_inv: "syncLoop_step s x t \<Longrightarrow> loop_inv s \<Longrightarrow> loop_inv t"
  by (induction rule: syncLoop_step.induct) (auto simp: loop_inv_def Notify_def)

lemma syncLoop_run_inv: "syncLoop_run s xs t \<Longrightarrow> loop_inv s \<Longrightarrow> loop_inv t"
  by (induction rule: syncLoop_run.induct) (auto dest: syncLoop_step_inv)

lemma loop_init_inv: "loop_inv loop_init"
  by (simp add: loop_inv_def loop_init_def)

text \<open>Steps of the loop itself between syncs; each one brings the start of a sync nearer.\<close>

definition quiet :: "loop_action \<Rightarrow> bool" where
  "quiet x \<longleftrightarrow> x \<in> {Receive, Expire, SyncStart}"

definition waiting :: "loop_state \<Rightarrow> nat" where
  "waiting s = (if lo_pending s then (if lo_timer s = TimerArmed then 4 else 3)
     else (case lo_timer s of TimerArmed \<Rightarrow> 2 | TimerExpired \<Rightarrow> 1 | TimerIdle \<Rightarrow> 0))"

lemma quiet_progress:
  assumes "syncLoop_step s x t" "quiet x" "x \<noteq> SyncStart" "\<not> lo_syncing s"
  shows "waiting t < waiting s \<and> \<not> lo_syncing t"
  using assms by (cases rule: syncLoop_step.cases) (auto simp: waiting_def quiet_def split: timer.splits)

lemma quiet_run:
  "syncLoop_run s xs t \<Longrightarrow> \<not> lo_syncing s \<Longrightarrow> list_all quiet xs \<Longrightarrow> SyncStart \<notin> set xs \<Longrightarrow> length xs + waiting t \<le> waiting s"
proof (induction rule: syncLoop_run.induct)
  case (cons s x s' xs t)
  with quiet_progress[of s x s'] show ?case by auto
qed simp

lemma quiet_enabled:
  assumes "loop_inv s" "lo_dirty s" "\<not> lo_syncing s"
  shows "\<exists>x t. quiet x \<and> syncLoop_step s x t"
  using assms syncLoop_step.receive[of s] syncLoop_step.expire[of s] syncLoop_step.start[of s]
  by (cases "lo_timer s") (auto simp: loop_inv_def quiet_def)

text \<open>
  \<^bold>\<open>C25.\<close> While the sync loop runs, no wake-up is lost. Whatever notifications, heartbeats, timer ticks and syncs have
  happened, if since the last sync began a change was reported or that sync failed, and no sync is running,
  then the loop is not stuck, and left to itself (no further notifications) it starts a sync within four steps:
  a longer series of its own steps contains the start of a sync.
\<close>

theorem loop_no_lost_wakeup:
  assumes "syncLoop_run loop_init xs s" and "lo_dirty s" and "\<not> lo_syncing s"
  shows "(\<exists>x t. quiet x \<and> syncLoop_step s x t)
    \<and> (\<forall>ys t. syncLoop_run s ys t \<longrightarrow> list_all quiet ys \<longrightarrow> 4 < length ys \<longrightarrow> SyncStart \<in> set ys)"
proof -
  have "waiting s \<le> 4" by (simp add: waiting_def split: timer.split)
  with quiet_run[OF _ assms(3)] have "\<forall>ys t. syncLoop_run s ys t \<longrightarrow> list_all quiet ys \<longrightarrow> 4 < length ys \<longrightarrow> SyncStart \<in> set ys"
    by (meson add_leE leD le_trans)
  with quiet_enabled[OF syncLoop_run_inv[OF assms(1) loop_init_inv] assms(2,3)] show ?thesis by blast
qed

definition ex_failed :: loop_state where
  "ex_failed = \<lparr> lo_pending = True, lo_timer = TimerIdle, lo_syncing = False, lo_dirty = True \<rparr>"

theorem loop_no_lost_wakeup_witness:
  "\<exists>x t. quiet x \<and> syncLoop_step ex_failed x t"
proof -
  have "syncLoop_run loop_init [Expire, SyncStart, SyncFailed] ex_failed"
    by (simp add: syncLoop_step_simps loop_init_def ex_failed_def Notify_def)
  from loop_no_lost_wakeup[OF this] show ?thesis by (simp add: ex_failed_def)
qed

end
