(* ===== verification/Admission.thy ===== *)
theory Admission
  imports KubeletDriver
begin

text \<open>
  The admission webhook of \<open>pkg/controller/dra/webhook\<close>: it decodes, normalises and validates the opaque
  device configurations of claims and claim templates before they are stored. The node repeats this work when
  it prepares a claim (\<open>decodeDeviceConfigs\<close>), so the two have to agree.

  The API machinery that decodes a request object and converts it to the current version is the parameter
  \<open>codec\<close>; the decoder of configurations is the one of the node. Texts of error messages are kept as values
  of \<open>admission_error\<close>, with the path of the configuration.
\<close>

record GroupVersionResource =
  gvr_Group :: string
  gvr_Version :: string
  gvr_Resource :: string

definition resourceClaimResourceV1 :: GroupVersionResource where
  "resourceClaimResourceV1 = \<lparr> gvr_Group = ''resource.k8s.io'', gvr_Version = ''v1'', gvr_Resource = ''resourceclaims'' \<rparr>"
definition resourceClaimTemplateResourceV1 :: GroupVersionResource where
  "resourceClaimTemplateResourceV1 =
     \<lparr> gvr_Group = ''resource.k8s.io'', gvr_Version = ''v1'', gvr_Resource = ''resourceclaimtemplates'' \<rparr>"
definition resourceClaimResourceV1Beta1 :: GroupVersionResource where
  "resourceClaimResourceV1Beta1 = \<lparr> gvr_Group = ''resource.k8s.io'', gvr_Version = ''v1beta1'', gvr_Resource = ''resourceclaims'' \<rparr>"
definition resourceClaimTemplateResourceV1Beta1 :: GroupVersionResource where
  "resourceClaimTemplateResourceV1Beta1 =
     \<lparr> gvr_Group = ''resource.k8s.io'', gvr_Version = ''v1beta1'', gvr_Resource = ''resourceclaimtemplates'' \<rparr>"
definition resourceClaimResourceV1Beta2 :: GroupVersionResource where
  "resourceClaimResourceV1Beta2 = \<lparr> gvr_Group = ''resource.k8s.io'', gvr_Version = ''v1beta2'', gvr_Resource = ''resourceclaims'' \<rparr>"
definition resourceClaimTemplateResourceV1Beta2 :: GroupVersionResource where
  "resourceClaimTemplateResourceV1Beta2 =
     \<lparr> gvr_Group = ''resource.k8s.io'', gvr_Version = ''v1beta2'', gvr_Resource = ''resourceclaimtemplates'' \<rparr>"

definition claim_resources :: "GroupVersionResource list" where
  "claim_resources = [resourceClaimResourceV1, resourceClaimResourceV1Beta1, resourceClaimResourceV1Beta2]"

definition template_resources :: "GroupVersionResource list" where
  "template_resources =
     [resourceClaimTemplateResourceV1, resourceClaimTemplateResourceV1Beta1, resourceClaimTemplateResourceV1Beta2]"

datatype Operation = Create | Update | OtherOperation string

record AdmissionRequest =
  adm_Operation :: Operation
  adm_Resource :: GroupVersionResource
  adm_Raw :: string

record ('o, 'q, 't) codec =
  co_Decode :: "GroupVersionResource \<Rightarrow> string \<Rightarrow> string + 'o"
  co_ConvertClaim :: "'o \<Rightarrow> string + ('q, 't) ResourceClaim"
  co_ConvertTemplate :: "'o \<Rightarrow> string + DeviceClaimConfiguration list"

datatype admission_error =
    AdmDecode string nat string
  | AdmType string nat
  | AdmInvalid string nat config_error

datatype admission_request_error =
    EmptyObject
  | UnsupportedVersion GroupVersionResource
  | UnsupportedResource GroupVersionResource
  | DecodeFailed string
  | ConvertFailed string

datatype admission_response =
    Allowed string
  | Denied "admission_error list"
  | Errored nat admission_request_error

definition extract_object ::
  "GroupVersionResource list \<Rightarrow> (GroupVersionResource \<Rightarrow> string \<Rightarrow> string + 'o) \<Rightarrow> ('o \<Rightarrow> string + 'a) \<Rightarrow>
   AdmissionRequest \<Rightarrow> admission_request_error + 'a" where
  "extract_object resources decode convert req =
     (if adm_Raw req = [] then Inl EmptyObject
      else if adm_Resource req \<notin> set resources then Inl (UnsupportedVersion (adm_Resource req))
      else
        (case decode (adm_Resource req) (adm_Raw req) of
           Inl err \<Rightarrow> Inl (DecodeFailed err)
         | Inr obj \<Rightarrow> (case convert obj of Inl err \<Rightarrow> Inl (ConvertFailed err) | Inr v1 \<Rightarrow> Inr v1)))"

definition extractResourceClaim ::
  "('o, 'q, 't) codec \<Rightarrow> AdmissionRequest \<Rightarrow> admission_request_error + ('q, 't) ResourceClaim" where
  "extractResourceClaim co req = extract_object claim_resources (co_Decode co) (co_ConvertClaim co) req"

definition extractResourceClaimTemplate ::
  "('o, 'q, 't) codec \<Rightarrow> AdmissionRequest \<Rightarrow> admission_request_error + DeviceClaimConfiguration list" where
  "extractResourceClaimTemplate co req = extract_object template_resources (co_Decode co) (co_ConvertTemplate co) req"

definition validate_config ::
  "'q decoder \<Rightarrow> string \<Rightarrow> string \<Rightarrow> nat \<Rightarrow> DeviceClaimConfiguration \<Rightarrow> admission_error option" where
  "validate_config decode specPath driverName idx cfg =
     (case cc_Opaque cfg of
        None \<Rightarrow> None
      | Some opaque \<Rightarrow>
          if od_Driver opaque \<noteq> driverName then None
          else
            (case decode (od_Raw opaque) of
               Inl err \<Rightarrow> Some (AdmDecode specPath idx err)
             | Inr None \<Rightarrow> Some (AdmType specPath idx)
             | Inr (Some config) \<Rightarrow> map_option (AdmInvalid specPath idx) (Validate (Normalize config))))"

definition validateDeviceConfigs ::
  "'q decoder \<Rightarrow> DeviceClaimConfiguration list \<Rightarrow> string \<Rightarrow> string \<Rightarrow> admission_error list" where
  "validateDeviceConfigs decode configs specPath driverName =
     List.map_filter (\<lambda>(idx, cfg). validate_config decode specPath driverName idx cfg) (enumerate 0 configs)"

definition validate_response ::
  "'q decoder \<Rightarrow> string \<Rightarrow> DeviceClaimConfiguration list \<Rightarrow> string \<Rightarrow> admission_response" where
  "validate_response decode driverName configs specPath =
     (if configs = [] then Allowed ''no device configurations''
      else
        (case validateDeviceConfigs decode configs specPath driverName of
           [] \<Rightarrow> Allowed ''device configurations are valid''
         | errs \<Rightarrow> Denied errs))"

definition ParametersHandler_Handle ::
  "('o, 'q, 't) codec \<Rightarrow> 'q decoder \<Rightarrow> string \<Rightarrow> AdmissionRequest \<Rightarrow> admission_response" where
  "ParametersHandler_Handle co decode driverName req =
     (if adm_Operation req \<noteq> Create \<and> adm_Operation req \<noteq> Update then Allowed ''operation ignored''
      else if adm_Resource req \<in> set claim_resources then
        (case extractResourceClaim co req of
           Inl err \<Rightarrow> Errored 400 err
         | Inr claim \<Rightarrow> validate_response decode driverName (cl_Config claim) ''spec'')
      else if adm_Resource req \<in> set template_resources then
        (case extractResourceClaimTemplate co req of
           Inl err \<Rightarrow> Errored 400 err
         | Inr configs \<Rightarrow> validate_response decode driverName configs ''spec.spec'')
      else Errored 400 (UnsupportedResource (adm_Resource req)))"

section \<open>Agreement with the node\<close>

definition decodes :: "'q decoder \<Rightarrow> string \<Rightarrow> DeviceAllocationConfiguration \<Rightarrow> bool" where
  "decodes decode driverName cfg = (case decode_config decode driverName cfg of Inl _ \<Rightarrow> False | Inr _ \<Rightarrow> True)"

definition claim_config :: "DeviceClaimConfiguration \<Rightarrow> DeviceAllocationConfiguration" where
  "claim_config k = \<lparr> dac_Source = AllocationConfigSourceClaim, dac_Requests = cc_Requests k, dac_Opaque = cc_Opaque k \<rparr>"

lemma validate_config_decodes:
  "decodes decode driverName (claim_config k) \<longleftrightarrow>
   cc_Opaque k \<noteq> None \<and> validate_config decode specPath driverName idx k = None"
  by (auto simp: decodes_def claim_config_def decode_config_def validate_config_def Let_def split: option.splits sum.splits)

lemma map_filter_empty: "List.map_filter f xs = [] \<longleftrightarrow> (\<forall>x \<in> set xs. f x = None)"
  by (auto simp: List.map_filter_def filter_empty_conv)

lemma validate_config_index:
  "validate_config decode specPath driverName i k = None \<longleftrightarrow> validate_config decode specPath driverName 0 k = None"
  by (simp add: validate_config_def split: option.split sum.split)

lemma validateDeviceConfigs_none:
  "validateDeviceConfigs decode configs specPath driverName = [] \<longleftrightarrow>
   (\<forall>k \<in> set configs. validate_config decode specPath driverName 0 k = None)"
proof -
  have "validateDeviceConfigs decode configs specPath driverName = [] \<longleftrightarrow>
      (\<forall>x \<in> set (enumerate 0 configs). validate_config decode specPath driverName 0 (snd x) = None)"
    unfolding validateDeviceConfigs_def map_filter_empty
    by (rule ball_cong[OF refl]) (simp add: case_prod_unfold validate_config_index[of _ _ _ "fst _"])
  also have "\<dots> \<longleftrightarrow> (\<forall>k \<in> set (map snd (enumerate 0 configs)). validate_config decode specPath driverName 0 k = None)"
    by (simp only: set_map ball_simps)
  finally show ?thesis by simp
qed

lemma validate_response_allowed:
  "(\<exists>m. validate_response decode driverName configs specPath = Allowed m) \<longleftrightarrow>
   validateDeviceConfigs decode configs specPath driverName = []"
  by (auto simp: validate_response_def validateDeviceConfigs_def map_filter_simps split: list.split)

lemma class_configs_source:
  "class_configs classes reqs = Inr cfg \<Longrightarrow> \<forall>k \<in> set cfg. dac_Source k = AllocationConfigSourceClass"
proof (induction reqs arbitrary: cfg)
  case (Cons r reqs)
  then show ?case
    by (auto simp: class_configs.simps split: option.splits sum.splits if_splits)
qed (simp add: class_configs.simps)

lemma map_res_ok: "(\<exists>ys. map_res f xs = Inr ys) \<longleftrightarrow> (\<forall>x \<in> set xs. \<exists>y. f x = Inr y)"
  by (induction xs) (auto split: sum.splits)

lemma decodeDeviceConfigs_ok:
  assumes "\<forall>cfg \<in> set configs. dac_Source cfg \<in> {AllocationConfigSourceClass, AllocationConfigSourceClaim}"
  shows "(\<exists>decoded. decodeDeviceConfigs decode configs driverName = Inr decoded) \<longleftrightarrow>
    (\<forall>cfg \<in> set configs. decodes decode driverName cfg)"
proof -
  let ?c = "filter (\<lambda>cfg. dac_Source cfg = AllocationConfigSourceClass) configs
    @ filter (\<lambda>cfg. dac_Source cfg = AllocationConfigSourceClaim) configs"
  from assms have "config_sources configs = Inr ?c"
    by (auto simp: config_sources_def find_None_iff split: option.split)
  moreover have "set ?c = set configs" using assms by auto
  moreover have "decodes decode driverName cfg \<longleftrightarrow> (\<exists>r. decode_config decode driverName cfg = Inr r)" for cfg
    by (auto simp: decodes_def split: sum.split)
  ultimately show ?thesis
    using map_res_ok[of "decode_config decode driverName" ?c]
    by (auto simp: decodeDeviceConfigs_def split: sum.splits)
qed

text \<open>
  \<^bold>\<open>C28.\<close> Admission and node agree on device configurations. For a claim that is created or updated, and whatever
  device classes it is allocated with, the node can decode the configurations of the allocation exactly if
  the webhook has allowed the claim, every configuration of the claim is opaque, and the configurations of
  the classes decode: a claim the webhook accepts never fails at the node for a bad configuration of its
  own, and nothing the node could use is rejected.
\<close>

theorem admission_agrees_with_node:
  assumes "adm_Operation req \<in> {Create, Update}" and "adm_Resource req \<in> set claim_resources"
    and "extractResourceClaim co req = Inr claim" and "cl_Requests claim \<noteq> []"
    and "buildAllocationConfig (Some claim) classes = Inr configs"
  shows "(\<exists>decoded. decodeDeviceConfigs decode configs driverName = Inr decoded) \<longleftrightarrow>
    (\<exists>reason. ParametersHandler_Handle co decode driverName req = Allowed reason)
    \<and> (\<forall>cfg \<in> set (cl_Config claim). cc_Opaque cfg \<noteq> None)
    \<and> (\<forall>cfg \<in> set configs. dac_Source cfg = AllocationConfigSourceClass \<longrightarrow> decodes decode driverName cfg)"
proof -
  obtain cfg where c: "class_configs classes (cl_Requests claim) = Inr cfg"
    "configs = map claim_config (cl_Config claim) @ cfg"
    using assms(4,5) by (auto simp: buildAllocationConfig_def claim_config_def Let_def split: sum.splits)
  note src = class_configs_source[OF c(1)]
  have "\<forall>k \<in> set configs. dac_Source k \<in> {AllocationConfigSourceClass, AllocationConfigSourceClaim}"
    using src by (auto simp: c(2) claim_config_def)
  note dec = decodeDeviceConfigs_ok[OF this, of decode driverName]
  have allowed: "(\<exists>reason. ParametersHandler_Handle co decode driverName req = Allowed reason) \<longleftrightarrow>
      (\<forall>k \<in> set (cl_Config claim). validate_config decode ''spec'' driverName 0 k = None)"
    using assms(1-3) validate_response_allowed[of decode driverName "cl_Config claim" "''spec''"]
    by (auto simp: ParametersHandler_Handle_def validateDeviceConfigs_none)
  have "(\<forall>k \<in> set configs. decodes decode driverName k) \<longleftrightarrow>
      (\<forall>k \<in> set (cl_Config claim). decodes decode driverName (claim_config k)) \<and> (\<forall>k \<in> set cfg. decodes decode driverName k)"
    by (simp only: c(2) set_append set_map ball_Un ball_simps)
  moreover have "(\<forall>k \<in> set configs. dac_Source k = AllocationConfigSourceClass \<longrightarrow> decodes decode driverName k) \<longleftrightarrow>
      (\<forall>k \<in> set cfg. decodes decode driverName k)"
    using src by (auto simp: c(2) claim_config_def)
  ultimately show ?thesis
    unfolding dec allowed validate_config_decodes[of decode driverName _ "''spec''" 0] by blast
qed

definition ex_codec :: "(nat, int64 \<times> qformat, nat) codec" where
  "ex_codec = \<lparr> co_Decode = (\<lambda>_ _. Inr 0),
     co_ConvertClaim = (\<lambda>_. Inr \<lparr> cl_Namespace = ''ns'', cl_Name = ''c'', cl_UID = ''u'',
       cl_Requests = [\<lparr> dr_Name = ''r'', dr_Exactly = None, dr_FirstAvailable = [] \<rparr>], cl_Constraints = [],
       cl_Config = [\<lparr> cc_Requests = [], cc_Opaque = Some \<lparr> od_Driver = ''gpu'', od_Raw = ''mig'' \<rparr> \<rparr>], cl_Allocation = None \<rparr>),
     co_ConvertTemplate = (\<lambda>_. Inr []) \<rparr>"

definition ex_admission :: AdmissionRequest where
  "ex_admission = \<lparr> adm_Operation = Create, adm_Resource = resourceClaimResourceV1, adm_Raw = ''x'' \<rparr>"

definition ex_configs :: "DeviceAllocationConfiguration list" where
  "ex_configs = [\<lparr> dac_Source = AllocationConfigSourceClaim, dac_Requests = [],
     dac_Opaque = Some \<lparr> od_Driver = ''gpu'', od_Raw = ''mig'' \<rparr> \<rparr>]"

definition ex_mig_decode :: "(int64 \<times> qformat) decoder" where
  "ex_mig_decode raw = (if raw = ''mig'' then Inr (Some (ConfigMig DefaultMigDeviceConfig)) else Inl ''unknown'')"

lemma ex_admission_allowed:
  "ParametersHandler_Handle ex_codec ex_mig_decode ''gpu'' ex_admission = Allowed ''device configurations are valid''"
  by code_simp

theorem admission_agrees_with_node_witness:
  "\<exists>decoded. decodeDeviceConfigs ex_mig_decode ex_configs ''gpu'' = Inr decoded"
proof -
  obtain claim where claim: "extractResourceClaim ex_codec ex_admission = Inr claim" "cl_Requests claim \<noteq> []"
    "list_all (\<lambda>cfg. cc_Opaque cfg \<noteq> None) (cl_Config claim)" "buildAllocationConfig (Some claim) [] = Inr ex_configs"
    by (simp add: extractResourceClaim_def extract_object_def ex_admission_def ex_codec_def claim_resources_def
        buildAllocationConfig_def ex_configs_def)
  have req: "adm_Operation ex_admission \<in> {Create, Update}" "adm_Resource ex_admission \<in> set claim_resources"
    by (simp_all add: ex_admission_def claim_resources_def)
  from admission_agrees_with_node[OF req claim(1,2,4), of ex_mig_decode "''gpu''"] claim(3) ex_admission_allowed
  show ?thesis
    by (auto simp: list_all_iff ex_configs_def)
qed

end
