(* ===== verification/VfioManager.thy ===== *)
theory VfioManager
  imports PrepareService
begin

text \<open>
  The manager that hands a whole GPU to a virtual machine, \<open>pkg/dra/adapters/vfio\<close>: it moves the PCI device from
  the NVIDIA driver to \<open>vfio-pci\<close> and back by writing to sysfs, and writes the CDI description of the device
  node. It provides the port \<open>VfioManager\<close> of the prepare service.

  The file system is the parameter \<open>sysfs\<close>. Paths are joined with a slash; \<open>filepath.Join\<close> also cleans its
  arguments, which are clean here. \<open>sysfs_laws\<close> states what the kernel documents of the driver files: reading the
  \<open>driver\<close> link names the bound driver, a successful write to \<open>unbind\<close> or \<open>bind\<close> detaches or attaches the device,
  and neither a failed write nor one to \<open>driver_override\<close> changes a binding.
\<close>

record 'w sysfs =
  sy_Readlink :: "string \<Rightarrow> 'w \<Rightarrow> string + string"
  sy_IsDir :: "string \<Rightarrow> 'w \<Rightarrow> string + bool"
  sy_WriteFile :: "string \<Rightarrow> string \<Rightarrow> 'w \<Rightarrow> string option \<times> 'w"

definition path_join :: "string list \<Rightarrow> string" where
  "path_join elems = Join elems ''/''"

definition path_Base :: "string \<Rightarrow> string" where
  "path_Base path = rev (takeWhile (\<lambda>c. c \<noteq> CHR ''/'') (rev path))"

definition defaultSysfsRoot :: string where "defaultSysfsRoot = ''/sys/bus/pci/devices''"
definition driversRoot :: string where "driversRoot = ''/sys/bus/pci/drivers''"
definition vfioDriver :: string where "vfioDriver = ''vfio-pci''"
definition defaultDriver :: string where "defaultDriver = ''nvidia''"

section \<open>Sysfs operations\<close>

definition devicePath :: "string \<Rightarrow> string \<Rightarrow> string" where
  "devicePath root pciBusID = path_join [root, pciBusID]"

definition readDriver :: "'w sysfs \<Rightarrow> string \<Rightarrow> string \<Rightarrow> 'w \<Rightarrow> string + string" where
  "readDriver sys root pciBusID w =
     (case sy_Readlink sys (path_join [devicePath root pciBusID, ''driver'']) w of
        Inl err \<Rightarrow> Inl (''read driver for '' @ pciBusID @ '': '' @ err)
      | Inr link \<Rightarrow> Inr (path_Base link))"

definition readIommuGroup :: "'w sysfs \<Rightarrow> string \<Rightarrow> string \<Rightarrow> 'w \<Rightarrow> string + int64" where
  "readIommuGroup sys root pciBusID w =
     (case sy_Readlink sys (path_join [devicePath root pciBusID, ''iommu_group'']) w of
        Inl err \<Rightarrow> Inl (''read iommu group for '' @ pciBusID @ '': '' @ err)
      | Inr link \<Rightarrow>
          (case Atoi (path_Base link) of
             None \<Rightarrow> Inl (''parse iommu group for '' @ pciBusID) | Some grp \<Rightarrow> Inr grp))"

definition ensureDriver :: "'w sysfs \<Rightarrow> string \<Rightarrow> 'w \<Rightarrow> string option" where
  "ensureDriver sys driver w =
     (case sy_IsDir sys (path_join [driversRoot, driver]) w of
        Inl err \<Rightarrow> Some (''driver '' @ driver @ '' is not available: '' @ err)
      | Inr isDir \<Rightarrow> if isDir then None else Some (''driver '' @ driver @ '' path is not a directory''))"

definition write_sysfs :: "'w sysfs \<Rightarrow> string \<Rightarrow> string \<Rightarrow> string \<Rightarrow> 'w \<Rightarrow> string option \<times> 'w" where
  "write_sysfs sys what path content w =
     (case sy_WriteFile sys path content w of
        (None, w') \<Rightarrow> (None, w') | (Some err, w') \<Rightarrow> (Some (what @ '': '' @ err), w'))"

definition writeDriverOverride :: "'w sysfs \<Rightarrow> string \<Rightarrow> string \<Rightarrow> string \<Rightarrow> 'w \<Rightarrow> string option \<times> 'w" where
  "writeDriverOverride sys root pciBusID driver w =
     write_sysfs sys (''write driver override for '' @ pciBusID)
       (path_join [devicePath root pciBusID, ''driver_override'']) driver w"

definition clearDriverOverride :: "'w sysfs \<Rightarrow> string \<Rightarrow> string \<Rightarrow> 'w \<Rightarrow> string option \<times> 'w" where
  "clearDriverOverride sys root pciBusID w =
     write_sysfs sys (''clear driver override for '' @ pciBusID)
       (path_join [devicePath root pciBusID, ''driver_override'']) [] w"

definition unbind :: "'w sysfs \<Rightarrow> string \<Rightarrow> string \<Rightarrow> 'w \<Rightarrow> string option \<times> 'w" where
  "unbind sys pciBusID driver w =
     write_sysfs sys (''unbind '' @ pciBusID @ '' from '' @ driver) (path_join [driversRoot, driver, ''unbind'']) pciBusID w"

definition vfio_bind :: "'w sysfs \<Rightarrow> string \<Rightarrow> string \<Rightarrow> 'w \<Rightarrow> string option \<times> 'w" where
  "vfio_bind sys pciBusID driver w =
     write_sysfs sys (''bind '' @ pciBusID @ '' to '' @ driver) (path_join [driversRoot, driver, ''bind'']) pciBusID w"

definition bindToDriver :: "'w sysfs \<Rightarrow> string \<Rightarrow> string \<Rightarrow> string \<Rightarrow> string \<Rightarrow> 'w \<Rightarrow> string option \<times> 'w" where
  "bindToDriver sys root pciBusID fromDriver toDriver w =
     (case ensureDriver sys toDriver w of
        Some err \<Rightarrow> (Some err, w)
      | None \<Rightarrow>
          (case writeDriverOverride sys root pciBusID toDriver w of
             (Some err, w1) \<Rightarrow> (Some err, w1)
           | (None, w1) \<Rightarrow>
               (case unbind sys pciBusID fromDriver w1 of
                  (Some err, w2) \<Rightarrow> (Some err, w2)
                | (None, w2) \<Rightarrow>
                    (case vfio_bind sys pciBusID toDriver w2 of
                       (Some err, w3) \<Rightarrow> (Some err, w3)
                     | (None, w3) \<Rightarrow> clearDriverOverride sys root pciBusID w3))))"

section \<open>The manager\<close>

definition Manager_Prepare :: "'w sysfs \<Rightarrow> string \<Rightarrow> VfioPrepareRequest \<Rightarrow> 'w \<Rightarrow> (string + PreparedVfioDevice) \<times> 'w" where
  "Manager_Prepare sys root req w =
     (if vpr_PCIBusID req = [] then (Inl ''pci bus id is required'', w)
      else
        (case readDriver sys root (vpr_PCIBusID req) w of
           Inl err \<Rightarrow> (Inl err, w)
         | Inr driver \<Rightarrow>
             (case readIommuGroup sys root (vpr_PCIBusID req) w of
                Inl err \<Rightarrow> (Inl err, w)
              | Inr grp \<Rightarrow>
                  if driver = vfioDriver then
                    (Inr \<lparr> pvf_PCIBusID = vpr_PCIBusID req, pvf_OriginalDriver = vfioDriver, pvf_IommuGroup = grp \<rparr>, w)
                  else if driver \<noteq> defaultDriver then
                    (Inl (''unexpected driver '' @ driver @ '' for '' @ vpr_PCIBusID req), w)
                  else
                    (case bindToDriver sys root (vpr_PCIBusID req) driver vfioDriver w of
                       (Some err, w') \<Rightarrow> (Inl err, w')
                     | (None, w') \<Rightarrow>
                         (Inr \<lparr> pvf_PCIBusID = vpr_PCIBusID req, pvf_OriginalDriver = driver, pvf_IommuGroup = grp \<rparr>, w')))))"

definition Manager_Unprepare :: "'w sysfs \<Rightarrow> string \<Rightarrow> PreparedVfioDevice \<Rightarrow> 'w \<Rightarrow> string option \<times> 'w" where
  "Manager_Unprepare sys root state w =
     (if pvf_PCIBusID state = [] then (Some ''pci bus id is required'', w)
      else
        let target = (if pvf_OriginalDriver state = [] then defaultDriver else pvf_OriginalDriver state) in
        if target = vfioDriver then (None, w)
        else
          (case readDriver sys root (pvf_PCIBusID state) w of
             Inl err \<Rightarrow> (Some err, w)
           | Inr current \<Rightarrow>
               if current = target then (None, w) else bindToDriver sys root (pvf_PCIBusID state) current target w))"

definition vfio_manager :: "'w sysfs \<Rightarrow> string \<Rightarrow> 'w VfioManager" where
  "vfio_manager sys sysfsRoot =
     (let root = (if sysfsRoot = [] then defaultSysfsRoot else sysfsRoot) in
      \<lparr> vfio_Prepare = Manager_Prepare sys root, vfio_Unprepare = Manager_Unprepare sys root \<rparr>)"

section \<open>CDI description\<close>

text \<open>
  The CDI library is the pair of \<open>vc_WriteSpec\<close> (detect the version of the specification and write it under
  the transient name of the claim) and \<open>vc_RemoveSpec\<close>.
\<close>

record CDISpec =
  cs_Kind :: string
  cs_DeviceNodes :: "string list"
  cs_Devices :: "(string \<times> string list) list"

record 'w cdi_cache =
  vc_WriteSpec :: "CDISpec \<Rightarrow> string \<Rightarrow> 'w \<Rightarrow> string option \<times> 'w"
  vc_RemoveSpec :: "string \<Rightarrow> 'w \<Rightarrow> string option \<times> 'w"

record 'w VfioCDIWriter =
  vw_vendor :: string
  vw_class :: string
  vw_sysfsRoot :: string
  vw_cache :: "'w cdi_cache"

definition claimDeviceName :: "string \<Rightarrow> string \<Rightarrow> string" where
  "claimDeviceName claimUID deviceName = claimUID @ ''-'' @ deviceName"

definition QualifiedName :: "string \<Rightarrow> string \<Rightarrow> string \<Rightarrow> string" where
  "QualifiedName vendor cls name = vendor @ ''/'' @ cls @ ''='' @ name"

definition vfio_spec_device ::
  "'w sysfs \<Rightarrow> 'w VfioCDIWriter \<Rightarrow> 'w \<Rightarrow> string \<Rightarrow> 'q PrepareDevice \<Rightarrow> string + (string \<times> string list)" where
  "vfio_spec_device sys cw w claimUID dev =
     (let pci = AttrString (pd_Attributes dev) AttrPCIAddress in
      if pci = [] then Inl (''pci address is missing for device '' @ pd_Device dev)
      else
        (case readIommuGroup sys (vw_sysfsRoot cw) pci w of
           Inl err \<Rightarrow> Inl err
         | Inr grp \<Rightarrow> Inr (claimDeviceName claimUID (pd_Device dev), [path_join [''/dev/vfio'', int_string grp]])))"

definition vfio_CDI_Write ::
  "'w sysfs \<Rightarrow> 'w VfioCDIWriter \<Rightarrow> 'q PrepareRequest \<Rightarrow> 'w \<Rightarrow> (string + (string, string list) gomap) \<times> 'w" where
  "vfio_CDI_Write sys cw req w =
     (if pr_ClaimUID req = [] then (Inl ''claim UID is required'', w)
      else if pr_Devices req = [] then (Inl ''no devices to prepare'', w)
      else
        (case map_res (vfio_spec_device sys cw w (pr_ClaimUID req)) (pr_Devices req) of
           Inl err \<Rightarrow> (Inl err, w)
         | Inr devices \<Rightarrow>
             (case vc_WriteSpec (vw_cache cw)
                     \<lparr> cs_Kind = vw_vendor cw @ ''/'' @ vw_class cw, cs_DeviceNodes = [path_join [''/dev/vfio'', ''vfio'']],
                       cs_Devices = devices \<rparr> (pr_ClaimUID req) w of
                (Some err, w') \<Rightarrow> (Inl err, w')
              | (None, w') \<Rightarrow>
                  (Inr (foldl (\<lambda>ids dev. mput (pd_Device dev)
                      [QualifiedName (vw_vendor cw) (vw_class cw) (claimDeviceName (pr_ClaimUID req) (pd_Device dev))] ids)
                      [] (pr_Devices req)), w'))))"

definition vfio_CDI_Delete :: "'w VfioCDIWriter \<Rightarrow> string \<Rightarrow> 'w \<Rightarrow> string option \<times> 'w" where
  "vfio_CDI_Delete cw claimUID w =
     (if claimUID = [] then (Some ''claim UID is required'', w) else vc_RemoveSpec (vw_cache cw) claimUID w)"

text \<open>The writer that chooses between the two kinds of CDI description, \<open>pkg/dra/adapters/cdi/composite\<close>.\<close>

definition composite_Write ::
  "('q, 'w) CDIWriter option \<Rightarrow> ('q, 'w) CDIWriter option \<Rightarrow> 'q PrepareRequest \<Rightarrow> 'w \<Rightarrow>
   (string + (string, string list) gomap) \<times> 'w" where
  "composite_Write standard vfio req w =
     (if pr_VFIO req then
        (case vfio of None \<Rightarrow> (Inl ''vfio CDI writer is not configured'', w) | Some c \<Rightarrow> cdi_Write c req w)
      else
        (case standard of None \<Rightarrow> (Inl ''standard CDI writer is not configured'', w) | Some c \<Rightarrow> cdi_Write c req w))"

definition delete_errors :: "('q, 'w) CDIWriter option \<Rightarrow> string \<Rightarrow> 'w \<Rightarrow> string list \<times> 'w" where
  "delete_errors cw claimUID w =
     (case cw of
        None \<Rightarrow> ([], w)
      | Some c \<Rightarrow> (case cdi_Delete c claimUID w of (None, w') \<Rightarrow> ([], w') | (Some err, w') \<Rightarrow> ([err], w')))"

definition composite_Delete ::
  "('q, 'w) CDIWriter option \<Rightarrow> ('q, 'w) CDIWriter option \<Rightarrow> string \<Rightarrow> 'w \<Rightarrow> string option \<times> 'w" where
  "composite_Delete standard vfio claimUID w =
     (case delete_errors standard claimUID w of
        (errs1, w1) \<Rightarrow>
          (case delete_errors vfio claimUID w1 of
             (errs2, w2) \<Rightarrow>
               (case errs1 @ errs2 of
                  [] \<Rightarrow> (None, w2)
                | [err] \<Rightarrow> (Some err, w2)
                | err1 # err2 # _ \<Rightarrow> (Some (''delete CDI specs: '' @ err1 @ ''; '' @ err2), w2))))"

end
