(* ===== verification/VfioSafety.thy ===== *)
theory VfioSafety
  imports VfioManager
begin

text \<open>
  Correctness of the VFIO manager under the kernel's contract for driver files: taking a device and giving it
  back restores its driver; and a run of the prepare service that shows how a retry loses the driver to restore.
\<close>

type_synonym 'w binding = "'w \<Rightarrow> string \<Rightarrow> string option"

definition sysfs_laws :: "'w sysfs \<Rightarrow> string \<Rightarrow> 'w binding \<Rightarrow> bool" where
  "sysfs_laws sys root drv \<longleftrightarrow>
     (\<forall>pci w. case drv w pci of
        Some d \<Rightarrow> (\<exists>link. sy_Readlink sys (path_join [devicePath root pci, ''driver'']) w = Inr link \<and> path_Base link = d)
      | None \<Rightarrow> (\<exists>err. sy_Readlink sys (path_join [devicePath root pci, ''driver'']) w = Inl err)) \<and>
     (\<forall>pci content w e w'. sy_WriteFile sys (path_join [devicePath root pci, ''driver_override'']) content w = (e, w') \<longrightarrow>
        drv w' = drv w) \<and>
     (\<forall>d pci w e w'. sy_WriteFile sys (path_join [driversRoot, d, ''unbind'']) pci w = (e, w') \<longrightarrow>
        drv w' = (if e = None then (drv w)(pci := None) else drv w)) \<and>
     (\<forall>d pci w e w'. sy_WriteFile sys (path_join [driversRoot, d, ''bind'']) pci w = (e, w') \<longrightarrow>
        (if e = None then (\<forall>other. other \<noteq> pci \<longrightarrow> drv w' other = drv w other) \<and> (CHR ''/'' \<notin> set d \<longrightarrow> drv w' pci = Some d)
         else drv w' = drv w))"

lemma readDriver_ok:
  assumes "sysfs_laws sys root drv"
  shows "readDriver sys root pci w = Inr d \<longleftrightarrow> drv w pci = Some d"
proof -
  from assms have "case drv w pci of
        Some d \<Rightarrow> (\<exists>link. sy_Readlink sys (path_join [devicePath root pci, ''driver'']) w = Inr link \<and> path_Base link = d)
      | None \<Rightarrow> (\<exists>err. sy_Readlink sys (path_join [devicePath root pci, ''driver'']) w = Inl err)"
    unfolding sysfs_laws_def by blast
  then show ?thesis
    by (auto simp: readDriver_def split: option.splits)
qed

lemma write_sysfs_cases:
  "write_sysfs sys what path content w = (e, w') \<Longrightarrow> \<exists>e0. sy_WriteFile sys path content w = (e0, w') \<and> (e0 = None \<longleftrightarrow> e = None)"
  by (auto simp: write_sysfs_def split: prod.splits option.splits)

lemma sysfs_writes:
  assumes "sysfs_laws sys root drv"
  shows "sy_WriteFile sys (path_join [devicePath root pci, ''driver_override'']) content w = (e, w') \<Longrightarrow> drv w' = drv w"
    and "sy_WriteFile sys (path_join [driversRoot, d, ''unbind'']) pci w = (e, w') \<Longrightarrow>
      drv w' = (if e = None then (drv w)(pci := None) else drv w)"
    and "sy_WriteFile sys (path_join [driversRoot, d, ''bind'']) pci w = (e, w') \<Longrightarrow>
      (if e = None then (\<forall>other. other \<noteq> pci \<longrightarrow> drv w' other = drv w other) \<and> (CHR ''/'' \<notin> set d \<longrightarrow> drv w' pci = Some d)
       else drv w' = drv w)"
  using assms unfolding sysfs_laws_def by blast+

lemma binding_steps:
  assumes "sysfs_laws sys root drv"
  shows "writeDriverOverride sys root pci d w = (e, w') \<Longrightarrow> drv w' = drv w"
    and "clearDriverOverride sys root pci w = (e, w') \<Longrightarrow> drv w' = drv w"
    and "unbind sys pci d w = (e, w') \<Longrightarrow> drv w' = (if e = None then (drv w)(pci := None) else drv w)"
    and "vfio_bind sys pci d w = (e, w') \<Longrightarrow>
      (if e = None then (\<forall>other. other \<noteq> pci \<longrightarrow> drv w' other = drv w other) \<and> (CHR ''/'' \<notin> set d \<longrightarrow> drv w' pci = Some d)
       else drv w' = drv w)"
  unfolding writeDriverOverride_def clearDriverOverride_def unbind_def vfio_bind_def
  by (drule write_sysfs_cases; auto dest!: sysfs_writes[OF assms] split: if_splits)+

lemma bindToDriver_binding:
  assumes laws: "sysfs_laws sys root drv" and b: "bindToDriver sys root pci from to w = (e, w')"
  shows "e = None \<Longrightarrow> CHR ''/'' \<notin> set to \<Longrightarrow> drv w' = (drv w)(pci := Some to)"
    and "other \<noteq> pci \<Longrightarrow> drv w' other = drv w other"
proof -
  note steps = binding_steps[OF laws]
  have "(e = None \<longrightarrow> CHR ''/'' \<notin> set to \<longrightarrow> drv w' pci = Some to) \<and> (\<forall>other. other \<noteq> pci \<longrightarrow> drv w' other = drv w other)"
    using b by (auto simp: bindToDriver_def split: option.splits prod.splits if_splits dest!: steps)
  then show "e = None \<Longrightarrow> CHR ''/'' \<notin> set to \<Longrightarrow> drv w' = (drv w)(pci := Some to)" "other \<noteq> pci \<Longrightarrow> drv w' other = drv w other"
    by (auto simp: fun_eq_iff)
qed

lemma driver_names:
  "vfioDriver \<noteq> []" "defaultDriver \<noteq> []" "defaultDriver \<noteq> vfioDriver"
  "CHR ''/'' \<notin> set vfioDriver" "CHR ''/'' \<notin> set defaultDriver"
  by (simp_all add: vfioDriver_def defaultDriver_def)

lemma Manager_Prepare_ok:
  assumes laws: "sysfs_laws sys root drv" and p: "Manager_Prepare sys root req w = (Inr st, w')"
  shows "drv w' = (drv w)(vpr_PCIBusID req := Some vfioDriver)" "pvf_PCIBusID st = vpr_PCIBusID req" "vpr_PCIBusID req \<noteq> []"
    "drv w (vpr_PCIBusID req) = Some (pvf_OriginalDriver st)" "pvf_OriginalDriver st \<in> {vfioDriver, defaultDriver}"
  using p bindToDriver_binding(1)[OF laws, of "vpr_PCIBusID req"] driver_names
  by (auto simp: Manager_Prepare_def readDriver_ok[OF laws] fun_upd_idem split: if_splits sum.splits prod.splits option.splits)

lemma Manager_Unprepare_ok:
  assumes laws: "sysfs_laws sys root drv" and "Manager_Unprepare sys root st w = (None, w')"
    and "pvf_OriginalDriver st = defaultDriver"
  shows "drv w' = (drv w)(pvf_PCIBusID st := Some defaultDriver)"
  using assms(2,3) bindToDriver_binding(1)[OF laws, of "pvf_PCIBusID st"] driver_names
  by (auto simp: Manager_Unprepare_def readDriver_ok[OF laws] fun_upd_idem Let_def split: if_splits sum.splits)

lemma Manager_frame:
  assumes laws: "sysfs_laws sys root drv"
  shows "Manager_Prepare sys root req w = (r, w') \<Longrightarrow> pci \<noteq> vpr_PCIBusID req \<Longrightarrow> drv w' pci = drv w pci"
    and "Manager_Unprepare sys root st w = (e, w') \<Longrightarrow> pci \<noteq> pvf_PCIBusID st \<Longrightarrow> drv w' pci = drv w pci"
  using bindToDriver_binding(2)[OF laws]
  by (auto simp: Manager_Prepare_def Manager_Unprepare_def Let_def split: if_splits sum.splits prod.splits option.splits)

text \<open>
  \<^bold>\<open>C29.\<close> A GPU lent to a virtual machine comes back. When the manager takes a device that the NVIDIA driver held, it
  is bound to \<open>vfio-pci\<close> afterwards and the answer names the driver to restore; giving it back from whatever driver
  holds it by then, if that succeeds, binds it to the NVIDIA driver again. Neither operation, successful or not,
  changes the binding of any other device.
\<close>

theorem vfio_restores_driver:
  assumes "sysfs_laws sys root drv" and "Manager_Prepare sys root req w = (r, w1)"
    and "Manager_Unprepare sys root st w2 = (e, w3)"
  shows "(\<forall>pci. pci \<noteq> vpr_PCIBusID req \<longrightarrow> drv w1 pci = drv w pci)
    \<and> (\<forall>pci. pci \<noteq> pvf_PCIBusID st \<longrightarrow> drv w3 pci = drv w2 pci)
    \<and> (r = Inr st \<and> drv w (vpr_PCIBusID req) = Some defaultDriver \<longrightarrow>
        drv w1 (vpr_PCIBusID req) = Some vfioDriver \<and> pvf_OriginalDriver st = defaultDriver \<and>
        (e = None \<longrightarrow> drv w3 (vpr_PCIBusID req) = Some defaultDriver))"
proof -
  have "drv w1 (vpr_PCIBusID req) = Some vfioDriver \<and> pvf_OriginalDriver st = defaultDriver \<and>
      (e = None \<longrightarrow> drv w3 (vpr_PCIBusID req) = Some defaultDriver)"
    if "r = Inr st" "drv w (vpr_PCIBusID req) = Some defaultDriver"
  proof -
    note p = Manager_Prepare_ok[OF assms(1) assms(2)[unfolded that(1)]]
    from p(4) that(2) have "pvf_OriginalDriver st = defaultDriver" by simp
    with p Manager_Unprepare_ok[OF assms(1)] assms(3) show ?thesis by auto
  qed
  with Manager_frame[OF assms(1)] assms(2,3) show ?thesis by blast
qed

text \<open>A PCI bus: the driver links of its devices.\<close>

type_synonym ex_bus = "string \<Rightarrow> string option"

definition ex_sys :: "ex_bus sysfs" where
  "ex_sys = \<lparr>
     sy_Readlink = (\<lambda>path bus.
       if path_Base path = ''iommu_group'' then Inr ''groups/7''
       else (case bus (take (length path - 9) (drop 2 path)) of None \<Rightarrow> Inl ''no such file'' | Some d \<Rightarrow> Inr d)),
     sy_IsDir = (\<lambda>_ _. Inr True),
     sy_WriteFile = (\<lambda>path content bus.
       if path_Base path = ''unbind'' then (None, bus(content := None))
       else if path_Base path = ''bind'' then (None, bus(content \<mapsto> path_Base (take (length path - 5) path)))
       else (None, bus)) \<rparr>"

lemma path_Base_append: "CHR ''/'' \<notin> set b \<Longrightarrow> path_Base (a @ CHR ''/'' # b) = b"
  by (induction b rule: rev_induct) (auto simp: path_Base_def takeWhile_append takeWhile_eq_all_conv)

lemma path_Base_device: "CHR ''/'' \<notin> set b \<Longrightarrow> path_Base (x # y # a @ CHR ''/'' # b) = b"
  using path_Base_append[of b "x # y # a"] by simp

lemma ex_paths:
  "path_join [devicePath ''r'' pci, name] = CHR ''r'' # CHR ''/'' # pci @ CHR ''/'' # name"
  "path_join [driversRoot, d, name] = (driversRoot @ CHR ''/'' # d) @ CHR ''/'' # name"
  by (simp_all add: path_join_def devicePath_def)

lemma ex_sys_eval:
  "sy_Readlink ex_sys (path_join [devicePath ''r'' pci, ''driver'']) bus =
     (case bus pci of None \<Rightarrow> Inl ''no such file'' | Some d \<Rightarrow> Inr d)"
  "sy_WriteFile ex_sys (path_join [devicePath ''r'' pci, ''driver_override'']) content bus = (None, bus)"
  "sy_WriteFile ex_sys (path_join [driversRoot, d, ''unbind'']) pci bus = (None, bus(pci := None))"
  "sy_WriteFile ex_sys (path_join [driversRoot, d, ''bind'']) pci bus =
     (None, bus(pci \<mapsto> path_Base (driversRoot @ CHR ''/'' # d)))"
  unfolding ex_paths ex_sys_def by (simp_all add: path_Base_append path_Base_device del: append_assoc)

lemma path_Base_id: "CHR ''/'' \<notin> set d \<Longrightarrow> path_Base d = d"
  unfolding path_Base_def by (subst takeWhile_eq_all_conv[THEN iffD2]) auto

lemma ex_bind_law: "CHR ''/'' \<notin> set d \<Longrightarrow> path_Base (path_Base (driversRoot @ CHR ''/'' # d)) = d"
  by (simp add: path_Base_append path_Base_id)

lemma ex_sys_laws: "sysfs_laws ex_sys ''r'' (\<lambda>bus pci. map_option path_Base (bus pci))"
  unfolding sysfs_laws_def ex_sys_eval by (auto simp: ex_bind_law split: option.split)

definition ex_lent :: PreparedVfioDevice where
  "ex_lent = \<lparr> pvf_PCIBusID = ''g1'', pvf_OriginalDriver = defaultDriver, pvf_IommuGroup = 7 \<rparr>"

lemma ex_prepare:
  "\<exists>bus. Manager_Prepare ex_sys ''r'' \<lparr> vpr_PCIBusID = ''g1'' \<rparr> [''g1'' \<mapsto> ''drivers/nvidia'', ''g2'' \<mapsto> ''x''] = (Inr ex_lent, bus)"
proof -
  have "fst (Manager_Prepare ex_sys ''r'' \<lparr> vpr_PCIBusID = ''g1'' \<rparr> [''g1'' \<mapsto> ''drivers/nvidia'', ''g2'' \<mapsto> ''x'']) = Inr ex_lent"
    by code_simp
  then show ?thesis by (metis prod.collapse)
qed

theorem vfio_restores_driver_witness:
  "\<exists>bus. Manager_Prepare ex_sys ''r'' \<lparr> vpr_PCIBusID = ''g1'' \<rparr> [''g1'' \<mapsto> ''drivers/nvidia'', ''g2'' \<mapsto> ''x''] = (Inr ex_lent, bus)
     \<and> map_option path_Base (bus ''g1'') = Some vfioDriver \<and> map_option path_Base (bus ''g2'') = Some ''x''"
proof -
  let ?bus = "[''g1'' \<mapsto> ''drivers/nvidia'', ''g2'' \<mapsto> ''x'']"
  obtain bus where p: "Manager_Prepare ex_sys ''r'' \<lparr> vpr_PCIBusID = ''g1'' \<rparr> ?bus = (Inr ex_lent, bus)"
    using ex_prepare by blast
  obtain e bus3 where u: "Manager_Unprepare ex_sys ''r'' ex_lent bus = (e, bus3)" by fastforce
  have names: "path_Base ''drivers/nvidia'' = defaultDriver" "path_Base ''x'' = ''x''"
    by (simp_all add: path_Base_def defaultDriver_def)
  note restored = vfio_restores_driver[OF ex_sys_laws p u]
  from restored have "map_option path_Base (bus ''g2'') = map_option path_Base (?bus ''g2'')"
    by simp
  moreover from restored names(1) have "map_option path_Base (bus ''g1'') = Some vfioDriver" by simp
  ultimately show ?thesis using p names(2) by auto
qed

section \<open>A retry loses the driver\<close>

text \<open>
  A node whose CDI writer fails once. The first \<open>Prepare\<close> binds the GPU to \<open>vfio-pci\<close> and then fails; the record of
  the claim says nothing of the binding. The second one finds the GPU on \<open>vfio-pci\<close> and stores that as the driver to
  restore, so that \<open>Unprepare\<close> succeeds and leaves it there.
\<close>

type_synonym ex_vm = "ex_bus \<times> PrepareCheckpoint \<times> bool"

definition on_bus :: "(ex_bus \<Rightarrow> 'r \<times> ex_bus) \<Rightarrow> ex_vm \<Rightarrow> 'r \<times> ex_vm" where
  "on_bus f w = (case f (fst w) of (r, bus) \<Rightarrow> (r, bus, snd w))"

definition ex_vm_options :: "(int64 \<times> qformat, ex_vm) Options" where
  "ex_vm_options =
     \<lparr> opt_CDI = Some \<lparr> cdi_Write = (\<lambda>r (bus, cp, ok).
                          (if ok then Inr (map (\<lambda>d. (pd_Device d, [''gpu='' @ pd_Device d])) (pr_Devices r)) else Inl ''disk full'',
                           bus, cp, True)),
                        cdi_Delete = (\<lambda>_ w. (None, w)) \<rparr>,
       opt_MIG = None,
       opt_VFIO = Some \<lparr> vfio_Prepare = (\<lambda>r. on_bus (vfio_Prepare (vfio_manager ex_sys ''r'') r)),
                         vfio_Unprepare = (\<lambda>s. on_bus (vfio_Unprepare (vfio_manager ex_sys ''r'') s)) \<rparr>,
       opt_TimeSlicing = None, opt_Mps = None,
       opt_Locker = Some \<lparr> lk_Lock = (\<lambda>w. (Inr (\<lambda>w. (None, w)), w)) \<rparr>,
       opt_Checkpoints = Some \<lparr> st_Load = (\<lambda>(bus, cp, ok). (Inr cp, bus, cp, ok)),
                                st_Save = (\<lambda>cp (bus, _, ok). (None, bus, cp, ok)) \<rparr>,
       opt_GPUChecker = Some \<lparr> gc_EnsureGPUFree = (\<lambda>_ w. (None, w)) \<rparr>, opt_ResourcesNotifier = None,
       marshal_mps = (\<lambda>_. None), sha256hex = (\<lambda>s. s), range_order = (\<lambda>n. [0 ..< n]) \<rparr>"

definition ex_vm_request :: "(int64 \<times> qformat) PrepareRequest" where
  "ex_vm_request = \<lparr> pr_ClaimUID = ''vm1'', pr_NodeName = ''n1'', pr_VFIO = True,
     pr_Devices = [\<lparr> pd_Request = ''r'', pd_Driver = ''gpu'', pd_Pool = ''n1'', pd_Device = ''gpu-1'', pd_ShareID = [],
       pd_ConsumedCapacity = [], pd_Attributes = [(AttrDeviceType, string_attr ''Physical''), (AttrPCIAddress, string_attr ''g1'')],
       pd_Config = None \<rparr>] \<rparr>"

definition ex_vm_start :: ex_vm where
  "ex_vm_start = ([''g1'' \<mapsto> ''drivers/nvidia''], \<lparr> ck_Version = ''v1'', ck_Claims = Some [] \<rparr>, False)"

definition ex_vm_retry :: "(prepare_error + PrepareResult) \<times> ex_vm" where
  "ex_vm_retry = Prepare ex_vm_options ex_vm_request (snd (Prepare ex_vm_options ex_vm_request ex_vm_start))"

lemma vfio_retry_loses_driver:
  "fst (Prepare ex_vm_options ex_vm_request ex_vm_start) = Inl (ErrPort ''cdi write'' ''disk full'')
   \<and> fst ex_vm_retry = Inr \<lparr> pres_ClaimUID = ''vm1'', pres_Devices = [\<lparr> pv_Request = ''r'', pv_Pool = ''n1'', pv_Device = ''gpu-1'',
       pv_CDIDeviceIDs = [''gpu=gpu-1''] \<rparr>] \<rparr>
   \<and> fst (Unprepare ex_vm_options ''vm1'' (snd ex_vm_retry)) = None
   \<and> fst (snd (Unprepare ex_vm_options ''vm1'' (snd ex_vm_retry))) ''g1'' = Some vfioDriver"
  by code_simp

end
