(* ===== verification/MigInstances.thy ===== *)
theory MigInstances
  imports PrepareService
begin

text \<open>
  The manager of MIG instances, \<open>pkg/dra/adapters/mig/nvml\<close>, which provides the port \<open>MigManager\<close> of the prepare
  service: it switches MIG mode on, reuses an instance at the requested placement or creates a GPU instance with
  one compute instance, and destroys what it has created when a later call fails.

  NVML is the parameter \<open>nvml\<close>: calls that read take the world and answer a value or the return code, calls
  that change something also give the new world. \<open>DEVICE_MIG_ENABLE\<close> is \<open>True\<close>; the constants that number the
  compute profiles by slices are \<open>nv_profile\<close>. Slice positions of a request go to NVML as 32-bit values.
\<close>

datatype nvml_return = NVML_SUCCESS | ALREADY_INITIALIZED | NOT_FOUND | INVALID_ARGUMENT | NVML_ERROR string

record ProfileInfo =
  gp_Id :: int
  gp_SliceCount :: int

record ComputeProfile =
  cp_Id :: int
  cp_SliceCount :: int

record GpuInstanceInfo =
  gi_Id :: int
  gi_Start :: int
  gi_Size :: int

record 'd ComputeInstanceInfo =
  ci_Id :: int
  ci_Device :: 'd

record ('d, 'g, 'c, 'w) nvml =
  nv_ErrorString :: "nvml_return \<Rightarrow> string"
  nv_profile :: "int \<Rightarrow> int"
  nv_Init :: "'w \<Rightarrow> nvml_return \<times> 'w"
  nv_Shutdown :: "'w \<Rightarrow> 'w"
  nv_DeviceGetHandleByPciBusId :: "string \<Rightarrow> 'w \<Rightarrow> nvml_return + 'd"
  nv_DeviceGetMigMode :: "'d \<Rightarrow> 'w \<Rightarrow> nvml_return + bool"
  nv_DeviceSetMigMode :: "'d \<Rightarrow> bool \<Rightarrow> 'w \<Rightarrow> (nvml_return \<times> nvml_return) \<times> 'w"
  nv_ProfileInfoById :: "'d \<Rightarrow> int64 \<Rightarrow> 'w \<Rightarrow> nvml_return + ProfileInfo"
  nv_CreateGpuInstance :: "'d \<Rightarrow> int \<Rightarrow> int \<Rightarrow> int \<Rightarrow> 'w \<Rightarrow> (nvml_return + 'g) \<times> 'w"
  nv_ComputeProfileInfo :: "'g \<Rightarrow> int \<Rightarrow> 'w \<Rightarrow> nvml_return + ComputeProfile"
  nv_CreateComputeInstance :: "'g \<Rightarrow> ComputeProfile \<Rightarrow> int \<Rightarrow> int \<Rightarrow> 'w \<Rightarrow> (nvml_return + 'c) \<times> 'w"
  nv_GpuInstanceGetInfo :: "'g \<Rightarrow> 'w \<Rightarrow> nvml_return + GpuInstanceInfo"
  nv_ComputeInstanceGetInfo :: "'c \<Rightarrow> 'w \<Rightarrow> nvml_return + 'd ComputeInstanceInfo"
  nv_DeviceGetUUID :: "'d \<Rightarrow> 'w \<Rightarrow> nvml_return + string"
  nv_ComputeInstanceDestroy :: "'c \<Rightarrow> 'w \<Rightarrow> nvml_return \<times> 'w"
  nv_GpuInstanceDestroy :: "'g \<Rightarrow> 'w \<Rightarrow> nvml_return \<times> 'w"
  nv_GetGpuInstances :: "'d \<Rightarrow> int \<Rightarrow> 'w \<Rightarrow> nvml_return + 'g list"
  nv_GetComputeInstances :: "'g \<Rightarrow> ComputeProfile \<Rightarrow> 'w \<Rightarrow> nvml_return + 'c list"
  nv_GpuInstanceById :: "'d \<Rightarrow> int64 \<Rightarrow> 'w \<Rightarrow> nvml_return + 'g"
  nv_ComputeInstanceById :: "'g \<Rightarrow> int64 \<Rightarrow> 'w \<Rightarrow> nvml_return + 'c"

definition validatePrepareRequest :: "MigPrepareRequest \<Rightarrow> string option" where
  "validatePrepareRequest req =
     (if mpr_PCIBusID req = [] then Some ''pci bus id is required''
      else if mpr_SliceSize req \<le> 0 then Some ''mig placement size is required'' else None)"

definition initNVML :: "('d, 'g, 'c, 'w) nvml \<Rightarrow> 'w \<Rightarrow> string option \<times> 'w" where
  "initNVML n w =
     (case nv_Init n w of
        (ret, w') \<Rightarrow>
          (if ret = NVML_SUCCESS \<or> ret = ALREADY_INITIALIZED then None else Some (''NVML init failed: '' @ nv_ErrorString n ret), w'))"

definition ensureMigMode :: "('d, 'g, 'c, 'w) nvml \<Rightarrow> 'd \<Rightarrow> 'w \<Rightarrow> string option \<times> 'w" where
  "ensureMigMode n device w =
     (case nv_DeviceGetMigMode n device w of
        Inl ret \<Rightarrow> (Some (''get mig mode: '' @ nv_ErrorString n ret), w)
      | Inr current \<Rightarrow>
          if current then (None, w)
          else
            (case nv_DeviceSetMigMode n device True w of
               ((activation, setRet), w') \<Rightarrow>
                 if setRet \<noteq> NVML_SUCCESS then (Some (''enable mig mode: '' @ nv_ErrorString n setRet), w')
                 else if activation \<noteq> NVML_SUCCESS then (Some (''mig mode activation pending: '' @ nv_ErrorString n activation), w')
                 else (None, w')))"

definition lookupProfile :: "('d, 'g, 'c, 'w) nvml \<Rightarrow> 'd \<Rightarrow> int64 \<Rightarrow> 'w \<Rightarrow> string + ProfileInfo" where
  "lookupProfile n device profileID w =
     (case nv_ProfileInfoById n device profileID w of
        Inl ret \<Rightarrow> Inl (''get mig profile info: '' @ nv_ErrorString n ret) | Inr info \<Rightarrow> Inr info)"

definition computeProfileBySliceCount :: "('d, 'g, 'c, 'w) nvml \<Rightarrow> int \<Rightarrow> int option" where
  "computeProfileBySliceCount n sliceCount =
     (if sliceCount \<in> set [1, 2, 3, 4, 6, 7, 8] then Some (nv_profile n sliceCount) else None)"

definition computeProfileForSlices ::
  "('d, 'g, 'c, 'w) nvml \<Rightarrow> int \<Rightarrow> 'g option \<Rightarrow> 'w \<Rightarrow> nvml_return + ComputeProfile" where
  "computeProfileForSlices n sliceCount gpuInstance w =
     (case computeProfileBySliceCount n sliceCount of
        None \<Rightarrow> Inl INVALID_ARGUMENT
      | Some profile \<Rightarrow>
          (case gpuInstance of
             None \<Rightarrow> Inr \<lparr> cp_Id = profile, cp_SliceCount = 0 \<rparr>
           | Some g \<Rightarrow> nv_ComputeProfileInfo n g profile w))"

definition selectComputePlacement :: "ComputeProfile \<Rightarrow> int \<times> int" where
  "selectComputePlacement info = (0, cp_SliceCount info)"

definition uint32 :: "int \<Rightarrow> int" where
  "uint32 i = i mod 2 ^ 32"

definition prepared_mig :: "MigPrepareRequest \<Rightarrow> int \<Rightarrow> int \<Rightarrow> string \<Rightarrow> PreparedMigDevice" where
  "prepared_mig req gi ci uuid =
     \<lparr> pmd_PCIBusID = mpr_PCIBusID req, pmd_ProfileID = mpr_ProfileID req, pmd_SliceStart = mpr_SliceStart req,
       pmd_SliceSize = mpr_SliceSize req, pmd_GPUInstanceID = gi, pmd_ComputeInstanceID = ci, pmd_DeviceUUID = uuid \<rparr>"

definition destroy_both :: "('d, 'g, 'c, 'w) nvml \<Rightarrow> 'g \<Rightarrow> 'c \<Rightarrow> 'w \<Rightarrow> 'w" where
  "destroy_both n g c w = snd (nv_GpuInstanceDestroy n g (snd (nv_ComputeInstanceDestroy n c w)))"

text \<open>The queries after both instances exist; a failure is the error text.\<close>

definition describe_instances ::
  "('d, 'g, 'c, 'w) nvml \<Rightarrow> MigPrepareRequest \<Rightarrow> 'g \<Rightarrow> 'c \<Rightarrow> 'w \<Rightarrow> string + PreparedMigDevice" where
  "describe_instances n req g c w =
     (case nv_GpuInstanceGetInfo n g w of
        Inl ret \<Rightarrow> Inl (''get gpu instance info: '' @ nv_ErrorString n ret)
      | Inr gpuInfo \<Rightarrow>
          (case nv_ComputeInstanceGetInfo n c w of
             Inl ret \<Rightarrow> Inl (''get compute instance info: '' @ nv_ErrorString n ret)
           | Inr computeInfo \<Rightarrow>
               (case nv_DeviceGetUUID n (ci_Device computeInfo) w of
                  Inl ret \<Rightarrow> Inl (''get mig uuid: '' @ nv_ErrorString n ret)
                | Inr uuid \<Rightarrow> Inr (prepared_mig req (gi_Id gpuInfo) (ci_Id computeInfo) uuid))))"

definition createMigDevice ::
  "('d, 'g, 'c, 'w) nvml \<Rightarrow> 'd \<Rightarrow> ProfileInfo \<Rightarrow> MigPrepareRequest \<Rightarrow> 'w \<Rightarrow> (string + PreparedMigDevice) \<times> 'w" where
  "createMigDevice n device profileInfo req w =
     (case nv_CreateGpuInstance n device (gp_Id profileInfo) (uint32 (mpr_SliceStart req)) (uint32 (mpr_SliceSize req)) w of
        (Inl ret, w1) \<Rightarrow> (Inl (''create gpu instance: '' @ nv_ErrorString n ret), w1)
      | (Inr g, w1) \<Rightarrow>
          (case computeProfileForSlices n (gp_SliceCount profileInfo) (Some g) w1 of
             Inl ret \<Rightarrow> (Inl (''get compute profile: '' @ nv_ErrorString n ret), snd (nv_GpuInstanceDestroy n g w1))
           | Inr ciInfo \<Rightarrow>
               (case nv_CreateComputeInstance n g ciInfo (fst (selectComputePlacement ciInfo)) (snd (selectComputePlacement ciInfo)) w1 of
                  (Inl ret, w2) \<Rightarrow> (Inl (''create compute instance: '' @ nv_ErrorString n ret), snd (nv_GpuInstanceDestroy n g w2))
                | (Inr c, w2) \<Rightarrow>
                    (case describe_instances n req g c w2 of
                       Inl err \<Rightarrow> (Inl err, destroy_both n g c w2)
                     | Inr dev \<Rightarrow> (Inr dev, w2)))))"

text \<open>The first instance at the requested placement that has a compute instance with a UUID.\<close>

definition existing_instance ::
  "('d, 'g, 'c, 'w) nvml \<Rightarrow> ComputeProfile \<Rightarrow> MigPrepareRequest \<Rightarrow> 'w \<Rightarrow> 'g \<Rightarrow> PreparedMigDevice option" where
  "existing_instance n ciInfo req w g =
     (case nv_GpuInstanceGetInfo n g w of
        Inl _ \<Rightarrow> None
      | Inr info \<Rightarrow>
          if gi_Start info \<noteq> mpr_SliceStart req \<or> gi_Size info \<noteq> mpr_SliceSize req then None
          else
            (case nv_GetComputeInstances n g ciInfo w of
               Inr (c # _) \<Rightarrow>
                 (case nv_ComputeInstanceGetInfo n c w of
                    Inl _ \<Rightarrow> None
                  | Inr computeInfo \<Rightarrow>
                      (case nv_DeviceGetUUID n (ci_Device computeInfo) w of
                         Inl _ \<Rightarrow> None
                       | Inr uuid \<Rightarrow> Some (prepared_mig req (gi_Id info) (ci_Id computeInfo) uuid)))
             | _ \<Rightarrow> None))"

fun first_existing :: "('g \<Rightarrow> 'r option) \<Rightarrow> 'g list \<Rightarrow> 'r option" where
  "first_existing f [] = None"
| "first_existing f (g # gs) = (case f g of Some r \<Rightarrow> Some r | None \<Rightarrow> first_existing f gs)"

definition findExisting ::
  "('d, 'g, 'c, 'w) nvml \<Rightarrow> 'd \<Rightarrow> ProfileInfo \<Rightarrow> MigPrepareRequest \<Rightarrow> 'w \<Rightarrow> PreparedMigDevice option" where
  "findExisting n device profile req w =
     (case nv_GetGpuInstances n device (gp_Id profile) w of
        Inl _ \<Rightarrow> None
      | Inr gpuInstances \<Rightarrow>
          (case computeProfileForSlices n (gp_SliceCount profile) None w of
             Inl _ \<Rightarrow> None
           | Inr ciInfo \<Rightarrow> first_existing (existing_instance n ciInfo req w) gpuInstances))"

definition mig_instance ::
  "('d, 'g, 'c, 'w) nvml \<Rightarrow> MigPrepareRequest \<Rightarrow> 'w \<Rightarrow> (string + PreparedMigDevice) \<times> 'w" where
  "mig_instance n req w =
     (case nv_DeviceGetHandleByPciBusId n (mpr_PCIBusID req) w of
        Inl ret \<Rightarrow> (Inl (''get device by pci '' @ mpr_PCIBusID req @ '': '' @ nv_ErrorString n ret), w)
      | Inr device \<Rightarrow>
          (case ensureMigMode n device w of
             (Some err, w1) \<Rightarrow> (Inl err, w1)
           | (None, w1) \<Rightarrow>
               (case lookupProfile n device (mpr_ProfileID req) w1 of
                  Inl err \<Rightarrow> (Inl err, w1)
                | Inr profileInfo \<Rightarrow>
                    (case findExisting n device profileInfo req w1 of
                       Some existing \<Rightarrow> (Inr existing, w1)
                     | None \<Rightarrow> createMigDevice n device profileInfo req w1))))"

definition mig_Manager_Prepare ::
  "('d, 'g, 'c, 'w) nvml \<Rightarrow> MigPrepareRequest \<Rightarrow> 'w \<Rightarrow> (string + PreparedMigDevice) \<times> 'w" where
  "mig_Manager_Prepare n req w =
     (case validatePrepareRequest req of
        Some err \<Rightarrow> (Inl err, w)
      | None \<Rightarrow>
          (case initNVML n w of
             (Some err, w1) \<Rightarrow> (Inl err, w1)
           | (None, w1) \<Rightarrow> (case mig_instance n req w1 of (r, w2) \<Rightarrow> (r, nv_Shutdown n w2))))"

definition destroy_instances ::
  "('d, 'g, 'c, 'w) nvml \<Rightarrow> PreparedMigDevice \<Rightarrow> 'g \<Rightarrow> 'w \<Rightarrow> string option \<times> 'w" where
  "destroy_instances n state g w =
     (let destroy_gi = (\<lambda>w. case nv_GpuInstanceDestroy n g w of
            (ret, w') \<Rightarrow>
              (if ret \<noteq> NVML_SUCCESS \<and> ret \<noteq> NOT_FOUND then Some (''destroy gpu instance: '' @ nv_ErrorString n ret) else None, w'))
      in (case nv_ComputeInstanceById n g (pmd_ComputeInstanceID state) w of
            Inr c \<Rightarrow>
              (case nv_ComputeInstanceDestroy n c w of
                 (ret, w1) \<Rightarrow>
                   if ret \<noteq> NVML_SUCCESS then (Some (''destroy compute instance: '' @ nv_ErrorString n ret), w1) else destroy_gi w1)
          | Inl ret \<Rightarrow>
              if ret \<noteq> NOT_FOUND then (Some (''get compute instance: '' @ nv_ErrorString n ret), w) else destroy_gi w))"

definition mig_Manager_Unprepare ::
  "('d, 'g, 'c, 'w) nvml \<Rightarrow> PreparedMigDevice \<Rightarrow> 'w \<Rightarrow> string option \<times> 'w" where
  "mig_Manager_Unprepare n state w =
     (if pmd_PCIBusID state = [] then (Some ''pci bus id is required'', w)
      else
        (case initNVML n w of
           (Some err, w1) \<Rightarrow> (Some err, w1)
         | (None, w1) \<Rightarrow>
             (case (case nv_DeviceGetHandleByPciBusId n (pmd_PCIBusID state) w1 of
                      Inl ret \<Rightarrow> (Some (''get device by pci '' @ pmd_PCIBusID state @ '': '' @ nv_ErrorString n ret), w1)
                    | Inr device \<Rightarrow>
                        (case nv_GpuInstanceById n device (pmd_GPUInstanceID state) w1 of
                           Inl ret \<Rightarrow>
                             (if ret = NOT_FOUND then None else Some (''get gpu instance: '' @ nv_ErrorString n ret), w1)
                         | Inr g \<Rightarrow> destroy_instances n state g w1)) of
                (r, w2) \<Rightarrow> (r, nv_Shutdown n w2))))"

definition mig_manager :: "('d, 'g, 'c, 'w) nvml \<Rightarrow> 'w MigManager" where
  "mig_manager n = \<lparr> mig_Prepare = mig_Manager_Prepare n, mig_Unprepare = mig_Manager_Unprepare n \<rparr>"

section \<open>What NVML promises\<close>

text \<open>
  \<open>mig_laws n gis cis\<close>, with the GPU instances \<open>gis\<close> and the compute instances \<open>cis\<close> that exist in a world:
  creating adds a fresh instance or, on failure, nothing; destroying removes exactly that instance if it
  succeeds and changes nothing if it fails, for whatever reason NVML may have (the instance is in use, no
  permission, the GPU is lost); a GPU instance reported as not found does not exist; looking up by identifier
  finds existing instances; switching modes, starting and stopping NVML create and destroy nothing.
\<close>

definition mig_laws :: "('d, 'g, 'c, 'w) nvml \<Rightarrow> ('w \<Rightarrow> 'g set) \<Rightarrow> ('w \<Rightarrow> 'c set) \<Rightarrow> bool" where
  "mig_laws n gis cis \<longleftrightarrow>
     (\<forall>d i s z w r w'. nv_CreateGpuInstance n d i s z w = (r, w') \<longrightarrow> cis w' = cis w \<and>
        (case r of Inl _ \<Rightarrow> gis w' = gis w | Inr g \<Rightarrow> g \<notin> gis w \<and> gis w' = insert g (gis w))) \<and>
     (\<forall>g p s z w r w'. nv_CreateComputeInstance n g p s z w = (r, w') \<longrightarrow> gis w' = gis w \<and>
        (case r of Inl _ \<Rightarrow> cis w' = cis w | Inr c \<Rightarrow> c \<notin> cis w \<and> cis w' = insert c (cis w))) \<and>
     (\<forall>c w r w'. nv_ComputeInstanceDestroy n c w = (r, w') \<longrightarrow> gis w' = gis w \<and>
        cis w' = (if r = NVML_SUCCESS then cis w - {c} else cis w)) \<and>
     (\<forall>g w r w'. nv_GpuInstanceDestroy n g w = (r, w') \<longrightarrow> cis w' = cis w \<and>
        gis w' = (if r = NVML_SUCCESS then gis w - {g} else gis w) \<and> (r = NOT_FOUND \<longrightarrow> g \<notin> gis w)) \<and>
     (\<forall>d i w g. nv_GpuInstanceById n d i w = Inr g \<longrightarrow> g \<in> gis w) \<and>
     (\<forall>g i w c. nv_ComputeInstanceById n g i w = Inr c \<longrightarrow> c \<in> cis w) \<and>
     (\<forall>w r w'. nv_Init n w = (r, w') \<longrightarrow> gis w' = gis w \<and> cis w' = cis w) \<and>
     (\<forall>w. gis (nv_Shutdown n w) = gis w \<and> cis (nv_Shutdown n w) = cis w) \<and>
     (\<forall>d b w r w'. nv_DeviceSetMigMode n d b w = (r, w') \<longrightarrow> gis w' = gis w \<and> cis w' = cis w)"

lemma mig_lawsD:
  assumes "mig_laws n gis cis"
  shows "(\<forall>d i s z w r w'. nv_CreateGpuInstance n d i s z w = (r, w') \<longrightarrow> cis w' = cis w \<and>
        (case r of Inl _ \<Rightarrow> gis w' = gis w | Inr g \<Rightarrow> g \<notin> gis w \<and> gis w' = insert g (gis w)))"
    and "(\<forall>g p s z w r w'. nv_CreateComputeInstance n g p s z w = (r, w') \<longrightarrow> gis w' = gis w \<and>
        (case r of Inl _ \<Rightarrow> cis w' = cis w | Inr c \<Rightarrow> c \<notin> cis w \<and> cis w' = insert c (cis w)))"
    and "(\<forall>c w r w'. nv_ComputeInstanceDestroy n c w = (r, w') \<longrightarrow> gis w' = gis w \<and>
        cis w' = (if r = NVML_SUCCESS then cis w - {c} else cis w))"
    and "(\<forall>g w r w'. nv_GpuInstanceDestroy n g w = (r, w') \<longrightarrow> cis w' = cis w \<and>
        gis w' = (if r = NVML_SUCCESS then gis w - {g} else gis w) \<and> (r = NOT_FOUND \<longrightarrow> g \<notin> gis w))"
    and "(\<forall>d i w g. nv_GpuInstanceById n d i w = Inr g \<longrightarrow> g \<in> gis w)"
    and "(\<forall>g i w c. nv_ComputeInstanceById n g i w = Inr c \<longrightarrow> c \<in> cis w)"
    and "(\<forall>w r w'. nv_Init n w = (r, w') \<longrightarrow> gis w' = gis w \<and> cis w' = cis w)"
    and "(\<forall>w. gis (nv_Shutdown n w) = gis w \<and> cis (nv_Shutdown n w) = cis w)"
    and "(\<forall>d b w r w'. nv_DeviceSetMigMode n d b w = (r, w') \<longrightarrow> gis w' = gis w \<and> cis w' = cis w)"
  by (insert assms, unfold mig_laws_def, (elim conjE)?, assumption)+

lemma create_laws:
  assumes "mig_laws n gis cis"
  shows "nv_CreateGpuInstance n d i s z w = (Inl e, w') \<Longrightarrow> gis w' = gis w \<and> cis w' = cis w"
    and "nv_CreateGpuInstance n d i s z w = (Inr g, w') \<Longrightarrow> g \<notin> gis w \<and> gis w' = insert g (gis w) \<and> cis w' = cis w"
    and "nv_CreateComputeInstance n h p s z w = (Inl e, w') \<Longrightarrow> gis w' = gis w \<and> cis w' = cis w"
    and "nv_CreateComputeInstance n h p s z w = (Inr c, w') \<Longrightarrow> c \<notin> cis w \<and> cis w' = insert c (cis w) \<and> gis w' = gis w"
  by (drule mig_lawsD(1,2)[OF assms, rule_format], simp)+

lemmas destroy_laws = mig_lawsD(3-6)[rule_format]

lemma neutral_laws:
  assumes "mig_laws n gis cis"
  shows "initNVML n w = (e, w') \<Longrightarrow> gis w' = gis w \<and> cis w' = cis w"
    and "gis (nv_Shutdown n w) = gis w" "cis (nv_Shutdown n w) = cis w"
    and "ensureMigMode n d w = (e, w') \<Longrightarrow> gis w' = gis w \<and> cis w' = cis w"
proof -
  have "\<forall>w r w'. nv_Init n w = (r, w') \<longrightarrow> gis w' = gis w \<and> cis w' = cis w"
    and "\<forall>d b w r w'. nv_DeviceSetMigMode n d b w = (r, w') \<longrightarrow> gis w' = gis w \<and> cis w' = cis w"
    and sd: "\<forall>w. gis (nv_Shutdown n w) = gis w \<and> cis (nv_Shutdown n w) = cis w"
    using mig_lawsD(7-9)[OF assms] by blast+
  then show "initNVML n w = (e, w') \<Longrightarrow> gis w' = gis w \<and> cis w' = cis w"
    "ensureMigMode n d w = (e, w') \<Longrightarrow> gis w' = gis w \<and> cis w' = cis w"
    by (auto simp: initNVML_def ensureMigMode_def split: prod.splits sum.splits if_splits)
  show "gis (nv_Shutdown n w) = gis w" "cis (nv_Shutdown n w) = cis w" using sd by blast+
qed

section \<open>No instance is leaked\<close>

text \<open>
  What may be left behind: instances that did not exist before and whose destruction NVML refused.
\<close>

definition left_behind :: "('x \<Rightarrow> 'w \<Rightarrow> nvml_return \<times> 'w) \<Rightarrow> ('w \<Rightarrow> 'x set) \<Rightarrow> 'w \<Rightarrow> 'w \<Rightarrow> bool" where
  "left_behind destroy xs w w' \<longleftrightarrow>
     xs w' = xs w \<or> (\<exists>x w1. x \<notin> xs w \<and> xs w' = insert x (xs w) \<and> xs w1 = xs w' \<and> fst (destroy x w1) \<noteq> NVML_SUCCESS)"

definition cleaned :: "('d, 'g, 'c, 'w) nvml \<Rightarrow> ('w \<Rightarrow> 'g set) \<Rightarrow> ('w \<Rightarrow> 'c set) \<Rightarrow> 'w \<Rightarrow> 'w \<Rightarrow> bool" where
  "cleaned n gis cis w w' \<longleftrightarrow>
     left_behind (nv_GpuInstanceDestroy n) gis w w' \<and> left_behind (nv_ComputeInstanceDestroy n) cis w w'"

lemma left_behind_destroy:
  assumes "x \<notin> xs w" "xs w1 = insert x (xs w)" "destroy x w1 = (r, w2)"
    and "xs w2 = (if r = NVML_SUCCESS then xs w1 - {x} else xs w1)"
  shows "left_behind destroy xs w w2"
proof (cases "r = NVML_SUCCESS")
  case False
  then have "xs w1 = xs w2" "fst (destroy x w1) \<noteq> NVML_SUCCESS" using assms(3,4) by simp_all
  with assms(1,2) show ?thesis unfolding left_behind_def by metis
qed (use assms in \<open>auto simp: left_behind_def\<close>)

lemma destroy_gi_cleaned:
  assumes "mig_laws n gis cis" "g \<notin> gis w" "gis w1 = insert g (gis w)" "cis w1 = cis w"
  shows "cleaned n gis cis w (snd (nv_GpuInstanceDestroy n g w1))"
proof -
  obtain r w2 where d: "nv_GpuInstanceDestroy n g w1 = (r, w2)" by fastforce
  with left_behind_destroy[where xs = gis and destroy = "nv_GpuInstanceDestroy n", OF assms(2,3) d] destroy_laws(2)[OF assms(1) d] assms(4) show ?thesis
    by (auto simp: cleaned_def left_behind_def)
qed

lemma destroy_both_cleaned:
  assumes "mig_laws n gis cis" "g \<notin> gis w" "gis w1 = insert g (gis w)" "c \<notin> cis w" "cis w1 = insert c (cis w)"
  shows "cleaned n gis cis w (destroy_both n g c w1)"
proof -
  obtain r w2 where d: "nv_ComputeInstanceDestroy n c w1 = (r, w2)" by fastforce
  note ci = destroy_laws(1)[OF assms(1) d]
  obtain r' w3 where d': "nv_GpuInstanceDestroy n g w2 = (r', w3)" by fastforce
  note gi = destroy_laws(2)[OF assms(1) d']
  have "left_behind (nv_ComputeInstanceDestroy n) cis w w2"
    using left_behind_destroy[where xs = cis and destroy = "nv_ComputeInstanceDestroy n", OF assms(4,5) d] ci by simp
  moreover have "left_behind (nv_GpuInstanceDestroy n) gis w w3"
    using left_behind_destroy[where xs = gis and destroy = "nv_GpuInstanceDestroy n", OF assms(2) _ d'] gi ci assms(3) by simp
  ultimately show ?thesis
    using gi by (simp add: cleaned_def destroy_both_def d d' left_behind_def)
qed

definition created :: "('w \<Rightarrow> 'g set) \<Rightarrow> ('w \<Rightarrow> 'c set) \<Rightarrow> 'w \<Rightarrow> 'w \<Rightarrow> bool" where
  "created gis cis w w' \<longleftrightarrow> (\<exists>g c. g \<notin> gis w \<and> c \<notin> cis w \<and> gis w' = insert g (gis w) \<and> cis w' = insert c (cis w))"

definition unchanged :: "('w \<Rightarrow> 'g set) \<Rightarrow> ('w \<Rightarrow> 'c set) \<Rightarrow> 'w \<Rightarrow> 'w \<Rightarrow> bool" where
  "unchanged gis cis w w' \<longleftrightarrow> gis w' = gis w \<and> cis w' = cis w"

definition for_request :: "MigPrepareRequest \<Rightarrow> PreparedMigDevice \<Rightarrow> bool" where
  "for_request req dev \<longleftrightarrow> pmd_PCIBusID dev = mpr_PCIBusID req \<and> pmd_ProfileID dev = mpr_ProfileID req \<and>
     pmd_SliceStart dev = mpr_SliceStart req \<and> pmd_SliceSize dev = mpr_SliceSize req"

lemma describe_instances_request: "describe_instances n req g c w = Inr dev \<Longrightarrow> for_request req dev"
  by (auto simp: describe_instances_def prepared_mig_def for_request_def split: sum.splits)

lemma findExisting_request: "findExisting n d p req w = Some dev \<Longrightarrow> for_request req dev"
proof -
  have "existing_instance n ci req w g = Some dev \<Longrightarrow> for_request req dev" for ci g
    by (auto simp: existing_instance_def prepared_mig_def for_request_def split: sum.splits if_splits list.splits)
  then have "first_existing (existing_instance n ci req w) gs = Some dev \<Longrightarrow> for_request req dev" for ci gs
    by (induction gs) (auto split: option.splits)
  then show "findExisting n d p req w = Some dev \<Longrightarrow> for_request req dev"
    by (auto simp: findExisting_def split: sum.splits)
qed

lemma createMigDevice_effect:
  assumes laws: "mig_laws n gis cis" and c: "createMigDevice n d p req w = (r, w')"
  shows "case r of Inl _ \<Rightarrow> cleaned n gis cis w w' | Inr dev \<Rightarrow> created gis cis w w' \<and> for_request req dev"
proof (cases "nv_CreateGpuInstance n d (gp_Id p) (uint32 (mpr_SliceStart req)) (uint32 (mpr_SliceSize req)) w")
  case (Pair r1 w1)
  show ?thesis
  proof (cases r1)
    case (Inl e)
    with Pair c create_laws(1)[OF laws] show ?thesis
      by (auto simp: createMigDevice_def cleaned_def left_behind_def)
  next
    case (Inr g)
    note g = create_laws(2)[OF laws Pair[unfolded Inr]]
    show ?thesis
    proof (cases "computeProfileForSlices n (gp_SliceCount p) (Some g) w1")
      case (Inl e)
      with c Pair \<open>r1 = Inr g\<close> g destroy_gi_cleaned[OF laws, of g w w1] show ?thesis
        by (auto simp: createMigDevice_def)
    next
      case (Inr ci)
      obtain r2 w2 where ci: "nv_CreateComputeInstance n g ci (fst (selectComputePlacement ci)) (snd (selectComputePlacement ci)) w1 = (r2, w2)"
        by fastforce
      show ?thesis
      proof (cases r2)
        case (Inl e)
        with create_laws(3)[OF laws ci[unfolded Inl]] c Pair \<open>r1 = Inr g\<close> g Inr ci destroy_gi_cleaned[OF laws, of g w w2] show ?thesis
          by (auto simp: createMigDevice_def)
      next
        case (Inr k)
        note k = create_laws(4)[OF laws ci[unfolded Inr]]
        from k g destroy_both_cleaned[OF laws, of g w w2 k]
        have "cleaned n gis cis w (destroy_both n g k w2)" and "created gis cis w w2"
          by (auto simp: created_def)
        with c Pair \<open>r1 = Inr g\<close> \<open>computeProfileForSlices n (gp_SliceCount p) (Some g) w1 = Inr ci\<close> ci Inr
          describe_instances_request[of n req g k w2]
        show ?thesis
          by (cases "describe_instances n req g k w2") (auto simp: createMigDevice_def split: sum.splits)
      qed
    qed
  qed
qed

lemma mig_instance_effect:
  assumes laws: "mig_laws n gis cis" and m: "mig_instance n req w = (r, w')"
  shows "case r of Inl _ \<Rightarrow> cleaned n gis cis w w'
    | Inr dev \<Rightarrow> (created gis cis w w' \<or> unchanged gis cis w w') \<and> for_request req dev"
proof (cases "nv_DeviceGetHandleByPciBusId n (mpr_PCIBusID req) w")
  case (Inr d)
  obtain e w1 where mode: "ensureMigMode n d w = (e, w1)" by fastforce
  note same = neutral_laws(4)[OF laws mode]
  have trans: "cleaned n gis cis w1 w2 = cleaned n gis cis w w2" "created gis cis w1 w2 = created gis cis w w2" for w2
    using same by (simp_all add: cleaned_def left_behind_def created_def)
  have same': "unchanged gis cis w w1" "cleaned n gis cis w w1"
    using same by (simp_all add: unchanged_def cleaned_def left_behind_def)
  show ?thesis
  proof (cases "e = None \<and> (\<exists>p. lookupProfile n d (mpr_ProfileID req) w1 = Inr p \<and> findExisting n d p req w1 = None)")
    case True
    then obtain p where p: "e = None" "lookupProfile n d (mpr_ProfileID req) w1 = Inr p" "findExisting n d p req w1 = None"
      by blast
    with m Inr mode have "createMigDevice n d p req w1 = (r, w')" by (simp add: mig_instance_def)
    from createMigDevice_effect[OF laws this] show ?thesis
      by (auto simp: trans split: sum.splits)
  next
    case False
    with m Inr mode have "w' = w1 \<and> (\<forall>dev. r = Inr dev \<longrightarrow> (\<exists>p. findExisting n d p req w1 = Some dev))"
      by (auto simp: mig_instance_def split: option.splits sum.splits)
    with same' findExisting_request[of n d _ req w1] show ?thesis
      by (auto split: sum.split)
  qed
qed (use m in \<open>auto simp: mig_instance_def cleaned_def left_behind_def\<close>)

text \<open>
  \<^bold>\<open>C30.\<close> MIG preparation cleans up behind itself. Whatever NVML call fails, a failed preparation leaves the GPU and
  compute instances that existed before, and of those it has created at most one of each kind, and only if
  NVML refused to destroy it; a successful one answers for the requested GPU, profile and placement and has
  created at most one GPU instance with one compute instance.
\<close>

theorem mig_Prepare_no_leak:
  assumes "mig_laws n gis cis" and "mig_Prepare (mig_manager n) req w = (r, w')"
  shows "case r of
      Inl _ \<Rightarrow>
        (gis w' = gis w \<or> (\<exists>g w1. g \<notin> gis w \<and> gis w' = insert g (gis w) \<and>
           gis w1 = gis w' \<and> fst (nv_GpuInstanceDestroy n g w1) \<noteq> NVML_SUCCESS))
        \<and> (cis w' = cis w \<or> (\<exists>c w1. c \<notin> cis w \<and> cis w' = insert c (cis w) \<and>
           cis w1 = cis w' \<and> fst (nv_ComputeInstanceDestroy n c w1) \<noteq> NVML_SUCCESS))
    | Inr dev \<Rightarrow> pmd_PCIBusID dev = mpr_PCIBusID req \<and> pmd_ProfileID dev = mpr_ProfileID req
        \<and> pmd_SliceStart dev = mpr_SliceStart req \<and> pmd_SliceSize dev = mpr_SliceSize req
        \<and> ((gis w' = gis w \<and> cis w' = cis w) \<or>
           (\<exists>g c. g \<notin> gis w \<and> c \<notin> cis w \<and> gis w' = insert g (gis w) \<and> cis w' = insert c (cis w)))"
proof (cases "validatePrepareRequest req")
  case None
  obtain e w1 where i: "initNVML n w = (e, w1)" by fastforce
  note same = neutral_laws(1)[OF assms(1) i]
  obtain r2 w2 where m: "mig_instance n req w1 = (r2, w2)" by fastforce
  from mig_instance_effect[OF assms(1) m] same assms(2) None i m neutral_laws(2,3)[OF assms(1), of w2] show ?thesis
    by (cases e; cases r2)
       (auto simp: mig_manager_def mig_Manager_Prepare_def unchanged_def created_def for_request_def
          cleaned_def left_behind_def)
qed (use assms(2) in \<open>auto simp: mig_manager_def mig_Manager_Prepare_def\<close>)

lemma destroy_instances_effect:
  assumes laws: "mig_laws n gis cis" and "g \<in> gis w" and d: "destroy_instances n st g w = (None, w')"
  shows "gis w' = gis w - {g} \<and> cis w' = cis w - {c. nv_ComputeInstanceById n g (pmd_ComputeInstanceID st) w = Inr c}"
proof (cases "nv_ComputeInstanceById n g (pmd_ComputeInstanceID st) w")
  case (Inl ret)
  obtain r w1 where "nv_GpuInstanceDestroy n g w = (r, w1)" by fastforce
  with destroy_laws(2)[OF laws this] assms(2) Inl d show ?thesis
    by (auto simp: destroy_instances_def Let_def split: if_splits)
next
  case (Inr c)
  obtain r w1 where w1: "nv_ComputeInstanceDestroy n c w = (r, w1)" by fastforce
  obtain r2 w2 where w2: "nv_GpuInstanceDestroy n g w1 = (r2, w2)" by fastforce
  with destroy_laws(1)[OF laws w1] destroy_laws(2)[OF laws w2] w1 assms(2) Inr d show ?thesis
    by (auto simp: destroy_instances_def Let_def split: if_splits)
qed

text \<open>
  \<^bold>\<open>C31.\<close> A teardown of a MIG device that reports success has removed its GPU instance and its compute instance,
  as far as NVML knows one, and nothing else, although NVML may refuse any destruction; if NVML no longer knows
  the GPU instance, nothing changes and that counts as success.
\<close>

theorem mig_Unprepare_exact:
  assumes "mig_laws n gis cis" and "mig_Unprepare (mig_manager n) dev w = (None, w')"
  shows "\<exists>w0 d. nv_DeviceGetHandleByPciBusId n (pmd_PCIBusID dev) w0 = Inr d \<and> gis w0 = gis w \<and>
    (case nv_GpuInstanceById n d (pmd_GPUInstanceID dev) w0 of
       Inl _ \<Rightarrow> gis w' = gis w \<and> cis w' = cis w
     | Inr g \<Rightarrow> g \<in> gis w \<and> gis w' = gis w - {g} \<and>
         cis w' = cis w - {c. nv_ComputeInstanceById n g (pmd_ComputeInstanceID dev) w0 = Inr c})"
proof -
  obtain e w1 where i: "initNVML n w = (e, w1)" by fastforce
  note same = neutral_laws(1)[OF assms(1) i]
  note shut = neutral_laws(2,3)[OF assms(1)]
  from assms(2) i obtain d where d: "nv_DeviceGetHandleByPciBusId n (pmd_PCIBusID dev) w1 = Inr d" "e = None" "pmd_PCIBusID dev \<noteq> []"
    by (auto simp: mig_manager_def mig_Manager_Unprepare_def split: if_splits option.splits sum.splits prod.splits)
  show ?thesis
  proof (cases "nv_GpuInstanceById n d (pmd_GPUInstanceID dev) w1")
    case (Inl ret)
    with assms(2) i d same shut show ?thesis
      by (intro exI[of _ w1] exI[of _ d]) (auto simp: mig_manager_def mig_Manager_Unprepare_def split: if_splits)
  next
    case (Inr g)
    obtain r w2 where di: "destroy_instances n dev g w1 = (r, w2)" by fastforce
    with assms(2) i d Inr have "r = None" "w' = nv_Shutdown n w2"
      by (auto simp: mig_manager_def mig_Manager_Unprepare_def)
    with destroy_instances_effect[OF assms(1) destroy_laws(3)[OF assms(1) Inr]] di d(1) same shut Inr
      destroy_laws(3)[OF assms(1) Inr]
    show ?thesis
      by (intro exI[of _ w1] exI[of _ d]) auto
  qed
qed

text \<open>A GPU whose world is the list of its GPU instances and of its compute instances.\<close>

type_synonym ex_gpu = "nat list \<times> nat list"

definition ex_nvml :: "int \<Rightarrow> (unit, nat, nat, ex_gpu) nvml" where
  "ex_nvml slices = \<lparr> nv_ErrorString = (\<lambda>_. ''error''), nv_profile = (\<lambda>i. i), nv_Init = (\<lambda>w. (NVML_SUCCESS, w)), nv_Shutdown = (\<lambda>w. w),
     nv_DeviceGetHandleByPciBusId = (\<lambda>_ _. Inr ()), nv_DeviceGetMigMode = (\<lambda>_ _. Inr True),
     nv_DeviceSetMigMode = (\<lambda>_ _ w. ((NVML_SUCCESS, NVML_SUCCESS), w)),
     nv_ProfileInfoById = (\<lambda>_ i _. Inr \<lparr> gp_Id = i, gp_SliceCount = slices \<rparr>),
     nv_CreateGpuInstance = (\<lambda>_ _ _ _ (gs, cs). let g = Suc (sum_list gs) in (Inr g, g # gs, cs)),
     nv_ComputeProfileInfo = (\<lambda>_ p _. Inr \<lparr> cp_Id = p, cp_SliceCount = slices \<rparr>),
     nv_CreateComputeInstance = (\<lambda>_ _ _ _ (gs, cs). let c = Suc (sum_list cs) in (Inr c, gs, c # cs)),
     nv_GpuInstanceGetInfo = (\<lambda>g _. Inr \<lparr> gi_Id = int g, gi_Start = 0, gi_Size = 1 \<rparr>),
     nv_ComputeInstanceGetInfo = (\<lambda>c _. Inr \<lparr> ci_Id = int c, ci_Device = () \<rparr>), nv_DeviceGetUUID = (\<lambda>_ _. Inr ''MIG-1''),
     nv_ComputeInstanceDestroy = (\<lambda>c (gs, cs). (NVML_SUCCESS, gs, removeAll c cs)),
     nv_GpuInstanceDestroy = (\<lambda>g (gs, cs). (NVML_SUCCESS, removeAll g gs, cs)),
     nv_GetGpuInstances = (\<lambda>_ _ w. Inr []), nv_GetComputeInstances = (\<lambda>_ _ _. Inr []),
     nv_GpuInstanceById = (\<lambda>_ i (gs, _). if nat i \<in> set gs then Inr (nat i) else Inl NOT_FOUND),
     nv_ComputeInstanceById = (\<lambda>_ i (_, cs). if nat i \<in> set cs then Inr (nat i) else Inl NOT_FOUND) \<rparr>"

lemma fresh_instance: "Suc (sum_list xs) \<notin> set (xs :: nat list)"
  using member_le_sum_list by fastforce

lemma ex_nvml_laws: "mig_laws (ex_nvml slices) (set \<circ> fst) (set \<circ> snd)"
  unfolding mig_laws_def ex_nvml_def
  by (auto simp: Let_def fresh_instance split: prod.splits if_splits)

text \<open>The clean-up ignores what NVML answers: if it refuses, the failed preparation leaves an instance.\<close>

lemma refused_cleanup_leaks:
  "mig_Prepare (mig_manager ((ex_nvml 5)\<lparr> nv_GpuInstanceDestroy := (\<lambda>_ w. (NVML_ERROR ''in use'', w)) \<rparr>))
     \<lparr> mpr_PCIBusID = ''g1'', mpr_ProfileID = 9, mpr_SliceStart = 0, mpr_SliceSize = 4 \<rparr> ([3], [2]) =
   (Inl ''get compute profile: error'', [4, 3], [2])"
  by code_simp

theorem mig_Prepare_no_leak_witness:
  "\<exists>gs cs. mig_Prepare (mig_manager (ex_nvml 5)) \<lparr> mpr_PCIBusID = ''g1'', mpr_ProfileID = 9, mpr_SliceStart = 0, mpr_SliceSize = 4 \<rparr>
     ([3], [2]) = (Inl ''get compute profile: error'', gs, cs) \<and> set gs = {3} \<and> set cs = {2}"
proof -
  have "mig_Prepare (mig_manager (ex_nvml 5)) \<lparr> mpr_PCIBusID = ''g1'', mpr_ProfileID = 9, mpr_SliceStart = 0, mpr_SliceSize = 4 \<rparr>
      ([3], [2]) = (Inl ''get compute profile: error'', [3], [2])"
    by code_simp
  from mig_Prepare_no_leak[OF ex_nvml_laws this] this show ?thesis by simp
qed

theorem mig_Unprepare_exact_witness:
  "\<exists>gs cs. mig_Unprepare (mig_manager (ex_nvml 1)) \<lparr> pmd_PCIBusID = ''g1'', pmd_ProfileID = 9, pmd_SliceStart = 0, pmd_SliceSize = 4,
     pmd_GPUInstanceID = 3, pmd_ComputeInstanceID = 2, pmd_DeviceUUID = [] \<rparr> ([3, 4], [2]) = (None, gs, cs) \<and> set gs = {4}"
proof -
  let ?dev = "\<lparr> pmd_PCIBusID = ''g1'', pmd_ProfileID = 9, pmd_SliceStart = 0, pmd_SliceSize = 4,
     pmd_GPUInstanceID = 3, pmd_ComputeInstanceID = 2, pmd_DeviceUUID = [] \<rparr>"
  have u: "mig_Unprepare (mig_manager (ex_nvml 1)) ?dev ([3, 4], [2]) = (None, [4], [])"
    by code_simp
  from mig_Unprepare_exact[OF ex_nvml_laws u] obtain w0 :: ex_gpu where "set (fst w0) = {3, 4}"
    by auto
  with u show ?thesis by auto
qed

end
