(* ===== verification/NodeAgent.thy ===== *)
theory NodeAgent
  imports Inventory
begin

text \<open>
  The node agent, \<open>pkg/nodeagent\<close> with \<open>pkg/sys/pci\<close>: a sync scans the PCI bus of the node for NVIDIA GPUs and
  keeps one \<open>PhysicalGPU\<close> object per GPU: it creates or updates the objects of the GPUs found and deletes the
  objects of the node whose GPU is gone.

  Parameters are the files of sysfs (\<open>sys_files\<close>), the resolver of PCI names, the host information, the sort
  of the scan (\<open>sort.Slice\<close> by address) and the object store. A store call answers an error or, for calls that fill
  in the object they are given, the object as stored. Maps and pointers that the code shares between an object
  and the base of its patch are written out: \<open>ensureLabels\<close> and \<open>buildCurrentState\<close> change the object before its copy
  is taken as base. A label map is nil exactly if it is empty. Logging is left out.
\<close>

section \<open>The PCI bus\<close>

record sys_files =
  sf_Exists :: "string \<Rightarrow> bool"
  sf_ReadDir :: "string \<Rightarrow> string + string list"
  sf_ReadFile :: "string \<Rightarrow> string option"
  sf_Readlink :: "string \<Rightarrow> string option"

record RawDevice =
  rw_Address :: string
  rw_ClassCode :: string
  rw_VendorID :: string
  rw_DeviceID :: string
  rw_DriverName :: string

definition normalizeHexID :: "string \<Rightarrow> string" where
  "normalizeHexID raw =
     (let value = ToLower (TrimSpace raw) in if HasPrefix value ''0x'' then drop 2 value else value)"

definition normalizeClassCode :: "string \<Rightarrow> string" where
  "normalizeClassCode raw = (let value = normalizeHexID raw in if length value < 4 then [] else take 4 value)"

definition readTrim :: "sys_files \<Rightarrow> string \<Rightarrow> string option" where
  "readTrim fs path = map_option TrimSpace (sf_ReadFile fs path)"

definition file_base :: "string \<Rightarrow> string" where
  "file_base path = rev (takeWhile (\<lambda>c. c \<noteq> CHR ''/'') (rev path))"

definition readDriverName :: "sys_files \<Rightarrow> string \<Rightarrow> string" where
  "readDriverName fs devicePath =
     (case sf_Readlink fs (devicePath @ ''/driver'') of None \<Rightarrow> [] | Some link \<Rightarrow> file_base link)"

definition read_raw_device :: "sys_files \<Rightarrow> string \<Rightarrow> string \<Rightarrow> RawDevice option" where
  "read_raw_device fs base addr =
     (let devicePath = base @ ''/'' @ addr in
      case readTrim fs (devicePath @ ''/class'') of
        None \<Rightarrow> None
      | Some classRaw \<Rightarrow>
          if normalizeClassCode classRaw = [] then None
          else
            (case readTrim fs (devicePath @ ''/vendor'') of
               None \<Rightarrow> None
             | Some vendorRaw \<Rightarrow>
                 (case readTrim fs (devicePath @ ''/device'') of
                    None \<Rightarrow> None
                  | Some deviceRaw \<Rightarrow>
                      Some \<lparr> rw_Address = addr, rw_ClassCode = normalizeClassCode classRaw, rw_VendorID = normalizeHexID vendorRaw,
                             rw_DeviceID = normalizeHexID deviceRaw, rw_DriverName = readDriverName fs devicePath \<rparr>)))"

definition SysfsReader_List :: "sys_files \<Rightarrow> string \<Rightarrow> string + RawDevice list" where
  "SysfsReader_List fs sysRoot =
     (let root = (if sysRoot = [] then ''/host-sys'' else sysRoot);
          base = (if sf_Exists fs (root @ ''/bus/pci/devices'') then root @ ''/bus/pci/devices'' else ''/sys/bus/pci/devices'')
      in case sf_ReadDir fs base of
           Inl err \<Rightarrow> Inl (''read pci devices: '' @ err)
         | Inr entries \<Rightarrow> Inr (List.map_filter (read_raw_device fs base) entries))"

record NodeDevice =
  nd_Address :: string
  nd_ClassCode :: string
  nd_ClassName :: string
  nd_Index :: string
  nd_VendorID :: string
  nd_VendorName :: string
  nd_DeviceID :: string
  nd_DeviceName :: string
  nd_DriverName :: string

record Resolver =
  rv_ClassName :: "string \<Rightarrow> string"
  rv_VendorName :: "string \<Rightarrow> string"
  rv_DeviceName :: "string \<Rightarrow> string \<Rightarrow> string"

definition nvidiaVendorID :: string where "nvidiaVendorID = ''10de''"

definition isGPUClass :: "string \<Rightarrow> bool" where
  "isGPUClass classCode = HasPrefix (ToLower classCode) ''03''"

definition scan_device :: "Resolver option \<Rightarrow> RawDevice \<Rightarrow> NodeDevice" where
  "scan_device resolver raw =
     \<lparr> nd_Address = rw_Address raw, nd_ClassCode = rw_ClassCode raw,
       nd_ClassName = (case resolver of None \<Rightarrow> [] | Some r \<Rightarrow> rv_ClassName r (rw_ClassCode raw)),
       nd_Index = [], nd_VendorID = rw_VendorID raw,
       nd_VendorName = (case resolver of None \<Rightarrow> [] | Some r \<Rightarrow> rv_VendorName r (rw_VendorID raw)),
       nd_DeviceID = rw_DeviceID raw,
       nd_DeviceName = (case resolver of None \<Rightarrow> [] | Some r \<Rightarrow> rv_DeviceName r (rw_VendorID raw) (rw_DeviceID raw)),
       nd_DriverName = rw_DriverName raw \<rparr>"

type_synonym scan_sort = "NodeDevice list \<Rightarrow> NodeDevice list"

definition Scan :: "scan_sort \<Rightarrow> Resolver option \<Rightarrow> string + RawDevice list \<Rightarrow> string + NodeDevice list" where
  "Scan sorter resolver listed =
     (case listed of
        Inl err \<Rightarrow> Inl (''list pci devices: '' @ err)
      | Inr rawDevices \<Rightarrow>
          let devices = sorter (map (scan_device resolver)
                (filter (\<lambda>raw. isGPUClass (rw_ClassCode raw) \<and> rw_VendorID raw = nvidiaVendorID) rawDevices))
          in Inr (map (\<lambda>(i, dev). dev\<lparr> nd_Index := int_string (int i) \<rparr>) (enumerate 0 devices)))"

section \<open>Names and labels\<close>

definition LabelNode :: string where "LabelNode = ''gpu.deckhouse.io/node''"
definition LabelVendor :: string where "LabelVendor = ''gpu.deckhouse.io/vendor''"
definition LabelDevice :: string where "LabelDevice = ''gpu.deckhouse.io/device''"
definition maxNameLength :: nat where "maxNameLength = 253"

definition VendorLabel :: "NodeDevice \<Rightarrow> string" where
  "VendorLabel dev =
     (let vid = ToLower (nd_VendorID dev); name = ToLower (nd_VendorName dev) in
      if vid = ''10de'' then ''nvidia''
      else if vid = ''1002'' then ''amd''
      else if vid = ''8086'' then ''intel''
      else if Contains name ''nvidia'' then ''nvidia''
      else if Contains name ''advanced micro devices'' \<or> Contains name ''amd'' then ''amd''
      else if Contains name ''intel'' then ''intel'' else [])"

fun str_Index :: "string \<Rightarrow> char \<Rightarrow> nat option" where
  "str_Index [] c = None"
| "str_Index (x # xs) c = (if x = c then Some 0 else map_option Suc (str_Index xs c))"

definition bracketed :: "string \<Rightarrow> string option" where
  "bracketed s =
     (case str_Index s (CHR 0x5B) of
        None \<Rightarrow> None
      | Some start \<Rightarrow>
          (case str_Index (drop (Suc start) s) (CHR 0x5D) of
             None \<Rightarrow> None
           | Some stop \<Rightarrow> (let candidate = TrimSpace (take stop (drop (Suc start) s)) in if candidate = [] then None else Some candidate)))"

definition DeviceLabel :: "string \<Rightarrow> string" where
  "DeviceLabel deviceName =
     (let deviceName = TrimSpace deviceName in
      if deviceName = [] then []
      else normalizeLabelValue (case bracketed deviceName of None \<Rightarrow> deviceName | Some candidate \<Rightarrow> candidate))"

definition put_label :: "string \<Rightarrow> string \<Rightarrow> (string, string) gomap \<Rightarrow> (string, string) gomap" where
  "put_label key value m = (if value = [] then m else mput key value m)"

definition LabelsForDevice :: "string \<Rightarrow> NodeDevice \<Rightarrow> (string, string) gomap" where
  "LabelsForDevice nodeName dev =
     put_label LabelDevice (DeviceLabel (nd_DeviceName dev)) (put_label LabelVendor (VendorLabel dev) [(LabelNode, nodeName)])"

definition sanitizeName :: "string \<Rightarrow> string" where
  "sanitizeName name = normalizeLabelValue name"

definition truncateName :: "string \<Rightarrow> nat \<Rightarrow> string" where
  "truncateName name limit =
     (if limit = 0 then [] else if length name \<le> limit then name else TrimBoth (\<lambda>c. c = CHR ''-'') (take limit name))"

definition PhysicalGPUName :: "string \<Rightarrow> NodeDevice \<Rightarrow> string" where
  "PhysicalGPUName nodeName dev =
     (let index = (if nd_Index dev = [] then ''0'' else nd_Index dev);
          parts = [nodeName, index] @ (if nd_VendorID dev = [] then [] else [ToLower (nd_VendorID dev)])
                  @ (if nd_DeviceID dev = [] then [] else [ToLower (nd_DeviceID dev)]);
          name = sanitizeName (Join parts ''-'')
      in if name = [] then ''pgpu''
         else if length name > maxNameLength
         then (if truncateName name maxNameLength = [] then ''pgpu'' else truncateName name maxNameLength)
         else name)"

section \<open>State and store\<close>

record NodeState =
  ns_NodeName :: string
  ns_NodeInfo :: "NodeInfo option"
  ns_Devices :: "NodeDevice list"
  ns_Expected :: "(string, NodeDevice) gomap"

definition SetDevices :: "NodeDevice list \<Rightarrow> NodeState \<Rightarrow> NodeState" where
  "SetDevices devices s =
     s\<lparr> ns_Devices := devices,
        ns_Expected := foldl (\<lambda>m dev. mput (PhysicalGPUName (ns_NodeName s) dev) dev m) [] devices \<rparr>"

datatype store_error = StoreNotFound | StoreError string

fun store_error_text :: "store_error \<Rightarrow> string" where
  "store_error_text StoreNotFound = ''not found''"
| "store_error_text (StoreError e) = e"

record 'w Store =
  so_Get :: "string \<Rightarrow> 'w \<Rightarrow> (store_error + PhysicalGPU) \<times> 'w"
  so_Create :: "PhysicalGPU \<Rightarrow> 'w \<Rightarrow> (store_error + PhysicalGPU) \<times> 'w"
  so_Patch :: "PhysicalGPU \<Rightarrow> PhysicalGPU \<Rightarrow> 'w \<Rightarrow> (store_error + PhysicalGPU) \<times> 'w"
  so_PatchStatus :: "PhysicalGPU \<Rightarrow> PhysicalGPU \<Rightarrow> 'w \<Rightarrow> (store_error + PhysicalGPU) \<times> 'w"
  so_ListByNode :: "string \<Rightarrow> 'w \<Rightarrow> (store_error + PhysicalGPU list) \<times> 'w"
  so_Delete :: "PhysicalGPU \<Rightarrow> 'w \<Rightarrow> store_error option \<times> 'w"
  so_Event :: "(PhysicalGPU \<Rightarrow> bool \<Rightarrow> string \<Rightarrow> string \<Rightarrow> 'w \<Rightarrow> 'w) option"

definition recordEvent :: "'w Store \<Rightarrow> PhysicalGPU \<Rightarrow> bool \<Rightarrow> string \<Rightarrow> string \<Rightarrow> 'w \<Rightarrow> 'w" where
  "recordEvent S obj warning reason message w =
     (case so_Event S of None \<Rightarrow> w | Some f \<Rightarrow> f obj warning reason message w)"

section \<open>Applying a device\<close>

definition driverTypeFromName :: "string \<Rightarrow> string" where
  "driverTypeFromName name =
     (if ToLower name = ''nvidia'' then ''Nvidia''
      else if ToLower name = ''vfio-pci'' then ''VFIO''
      else if ToLower name = ''amdgpu'' then ''ROCm'' else [])"

definition buildPCIInfo :: "NodeDevice \<Rightarrow> PCIInfo" where
  "buildPCIInfo dev =
     (let named = (\<lambda>code name. if code = [] \<and> name = [] then None else Some \<lparr> pn_ID = code, pn_Name = name \<rparr>) in
      \<lparr> pci_Address = nd_Address dev, pci_Class = named (nd_ClassCode dev) (nd_ClassName dev),
        pci_Vendor = named (nd_VendorID dev) (nd_VendorName dev), pci_Device = named (nd_DeviceID dev) (nd_DeviceName dev) \<rparr>)"

definition buildCurrentState :: "GPUCurrentState option \<Rightarrow> string \<Rightarrow> GPUCurrentState option" where
  "buildCurrentState existing driverName =
     (let driverType = driverTypeFromName driverName in
      case existing of
        None \<Rightarrow> if driverType = [] then None else Some \<lparr> gcs_DriverType = driverType, gcs_Nvidia = None \<rparr>
      | Some current \<Rightarrow> Some (if driverType = [] then current else current\<lparr> gcs_DriverType := driverType \<rparr>))"

definition no_node_info :: NodeInfo where
  "no_node_info = \<lparr> ni_NodeName = [], ni_OS = None, ni_KernelRelease = [], ni_BareMetal = None \<rparr>"

text \<open>
  \<open>buildStatus\<close> answers the object with its new status and the object as it is left behind, whose current state,
  if there is one, is the very state that was updated.
\<close>

definition buildStatus :: "PhysicalGPU \<Rightarrow> NodeDevice \<Rightarrow> string \<Rightarrow> NodeInfo option \<Rightarrow> PhysicalGPU \<times> PhysicalGPU" where
  "buildStatus obj dev nodeName nodeInfo =
     (let info = (case nodeInfo of None \<Rightarrow> no_node_info | Some i \<Rightarrow> i)\<lparr> ni_NodeName := nodeName \<rparr>;
          current = buildCurrentState (pg_CurrentState obj) (nd_DriverName dev);
          left = (case pg_CurrentState obj of None \<Rightarrow> obj | Some _ \<Rightarrow> obj\<lparr> pg_CurrentState := current \<rparr>)
      in (obj\<lparr> pg_NodeInfo := Some info, pg_PCIInfo := Some (buildPCIInfo dev), pg_CurrentState := current \<rparr>, left))"

definition label_at :: "(string, string) gomap \<Rightarrow> string \<Rightarrow> string" where
  "label_at labels key = (case mget labels key of None \<Rightarrow> [] | Some v \<Rightarrow> v)"

definition ensureLabels :: "'w Store \<Rightarrow> PhysicalGPU \<Rightarrow> string \<Rightarrow> NodeDevice \<Rightarrow> 'w \<Rightarrow> (store_error + PhysicalGPU) \<times> 'w" where
  "ensureLabels S obj nodeName dev w =
     (let desired = LabelsForDevice nodeName dev;
          labels = foldl (\<lambda>m (k, v). if label_at m k = v then m else mput k v m) (pg_Labels obj) desired;
          changed = list_ex (\<lambda>(k, v). label_at (pg_Labels obj) k \<noteq> v) desired
      in if \<not> changed then (Inr obj, w)
         else
           let updated = obj\<lparr> pg_Labels := labels \<rparr>;
               base = (if pg_Labels obj = [] then obj else updated)
           in so_Patch S updated base w)"

definition new_PhysicalGPU :: "string \<Rightarrow> (string, string) gomap \<Rightarrow> PhysicalGPU" where
  "new_PhysicalGPU name labels = \<lparr> pg_Name = name, pg_Labels = labels, pg_NodeInfo = None, pg_PCIInfo = None,
     pg_Capabilities = None, pg_CurrentState = None, pg_Generation = 0, pg_Conditions = [] \<rparr>"

definition patch_device ::
  "'w Store \<Rightarrow> bool \<Rightarrow> PhysicalGPU \<Rightarrow> string \<Rightarrow> NodeDevice \<Rightarrow> NodeInfo option \<Rightarrow> 'w \<Rightarrow> string option \<times> 'w" where
  "patch_device S created obj nodeName dev nodeInfo w =
     (case buildStatus obj dev nodeName nodeInfo of
        (updated, base) \<Rightarrow>
          (case so_PatchStatus S updated base w of
             (Inl err, w') \<Rightarrow>
               (Some (''patch PhysicalGPU status: '' @ store_error_text err),
                recordEvent S updated True ''PhysicalGPUStatusUpdateFailed''
                  (''PhysicalGPU status update failed: '' @ store_error_text err) w')
           | (Inr stored, w') \<Rightarrow>
               (None, if created then recordEvent S stored False ''PhysicalGPUCreated'' ''PhysicalGPU created from PCI scan'' w'
                      else w')))"

definition applyDevice ::
  "'w Store \<Rightarrow> string \<Rightarrow> string \<Rightarrow> NodeInfo option \<Rightarrow> NodeDevice \<Rightarrow> 'w \<Rightarrow> string option \<times> 'w" where
  "applyDevice S name nodeName nodeInfo dev w =
     (case so_Get S name w of
        (Inl (StoreError e), w1) \<Rightarrow> (Some (''get PhysicalGPU: '' @ e), w1)
      | (Inl StoreNotFound, w1) \<Rightarrow>
          (case so_Create S (new_PhysicalGPU name (LabelsForDevice nodeName dev)) w1 of
             (Inl err, w2) \<Rightarrow> (Some (''create PhysicalGPU: '' @ store_error_text err), w2)
           | (Inr obj, w2) \<Rightarrow> patch_device S True obj nodeName dev nodeInfo w2)
      | (Inr obj, w1) \<Rightarrow>
          (case ensureLabels S obj nodeName dev w1 of
             (Inl err, w2) \<Rightarrow>
               (Some (''update PhysicalGPU labels: '' @ store_error_text err),
                recordEvent S obj True ''PhysicalGPULabelUpdateFailed''
                  (''PhysicalGPU labels update failed: '' @ store_error_text err) w2)
           | (Inr obj', w2) \<Rightarrow> patch_device S False obj' nodeName dev nodeInfo w2))"

section \<open>Handlers\<close>

datatype handler_outcome = HandlerOk | HandlerStop string | HandlerFailed "string list"

type_synonym 'w node_handler = "NodeState \<Rightarrow> 'w \<Rightarrow> handler_outcome \<times> NodeState \<times> 'w"

definition outcome_of :: "string list \<Rightarrow> handler_outcome" where
  "outcome_of errs = (if errs = [] then HandlerOk else HandlerFailed errs)"

definition Node_DiscoverHandler :: "('w \<Rightarrow> (string + NodeDevice list) \<times> 'w) \<Rightarrow> ('w \<Rightarrow> NodeInfo option) \<Rightarrow> 'w node_handler" where
  "Node_DiscoverHandler scan hostInfo st w =
     (if ns_NodeName st = [] then (HandlerStop ''node name is empty'', st, w)
      else
        (case scan w of
           (Inl err, w') \<Rightarrow> (HandlerStop err, st, w')
         | (Inr devices, w') \<Rightarrow> (HandlerOk, (SetDevices devices st)\<lparr> ns_NodeInfo := hostInfo w' \<rparr>, w')))"

fun apply_devices :: "'w Store \<Rightarrow> NodeState \<Rightarrow> NodeDevice list \<Rightarrow> 'w \<Rightarrow> string list \<times> 'w" where
  "apply_devices S st [] w = ([], w)"
| "apply_devices S st (dev # rest) w =
     (let name = PhysicalGPUName (ns_NodeName st) dev in
      case applyDevice S name (ns_NodeName st) (ns_NodeInfo st) dev w of
        (e, w1) \<Rightarrow>
          (case apply_devices S st rest w1 of
             (errs, w2) \<Rightarrow> ((case e of None \<Rightarrow> errs | Some err \<Rightarrow> (name @ '': '' @ err) # errs), w2)))"

definition ApplyHandler :: "'w Store \<Rightarrow> 'w node_handler" where
  "ApplyHandler S st w = (case apply_devices S st (ns_Devices st) w of (errs, w') \<Rightarrow> (outcome_of errs, st, w'))"

fun cleanup_items :: "'w Store \<Rightarrow> (string, NodeDevice) gomap \<Rightarrow> PhysicalGPU list \<Rightarrow> 'w \<Rightarrow> string list \<times> 'w" where
  "cleanup_items S expected [] w = ([], w)"
| "cleanup_items S expected (obj # rest) w =
     (if mget expected (pg_Name obj) \<noteq> None then cleanup_items S expected rest w
      else
        (case so_Delete S obj w of
           (Some (StoreError e), w1) \<Rightarrow>
             (case cleanup_items S expected rest
                     (recordEvent S obj True ''PhysicalGPUDeleteFailed'' (''PhysicalGPU delete failed: '' @ e) w1) of
                (errs, w2) \<Rightarrow> ((''delete '' @ pg_Name obj @ '': '' @ e) # errs, w2))
         | (_, w1) \<Rightarrow>
             cleanup_items S expected rest (recordEvent S obj False ''PhysicalGPUDeleted'' ''PhysicalGPU removed from PCI scan'' w1)))"

definition CleanupHandler :: "'w Store \<Rightarrow> 'w node_handler" where
  "CleanupHandler S st w =
     (case so_ListByNode S (ns_NodeName st) w of
        (Inl err, w1) \<Rightarrow> (HandlerFailed [''list PhysicalGPU: '' @ store_error_text err], st, w1)
      | (Inr items, w1) \<Rightarrow>
          (case cleanup_items S (ns_Expected st) items w1 of (errs, w2) \<Rightarrow> (outcome_of errs, st, w2)))"

definition node_step :: "string \<Rightarrow> 'w node_handler \<Rightarrow> (NodeState, 'w) StepTaker" where
  "node_step name h st w =
     (case h st w of
        (HandlerOk, st', w') \<Rightarrow> (Inr None, st', w')
      | (HandlerStop _, st', w') \<Rightarrow> (Inr (Some zero_result), st', w')
      | (HandlerFailed errs, st', w') \<Rightarrow> (Inl (ErrPort name (Join errs [CHR 0x0A])), st', w'))"

definition node_final :: "(NodeState, 'w) StepTaker" where
  "node_final st w = (Inr (Some zero_result), st, w)"

definition node_steps ::
  "('w \<Rightarrow> (string + NodeDevice list) \<times> 'w) \<Rightarrow> ('w \<Rightarrow> NodeInfo option) \<Rightarrow> 'w Store \<Rightarrow> (NodeState, 'w) StepTaker list" where
  "node_steps scan hostInfo S =
     [node_step ''Discover'' (Node_DiscoverHandler scan hostInfo), node_step ''Apply'' (ApplyHandler S),
      node_step ''Cleanup'' (CleanupHandler S), node_final]"

definition node_sync ::
  "('w \<Rightarrow> (string + NodeDevice list) \<times> 'w) \<Rightarrow> ('w \<Rightarrow> NodeInfo option) \<Rightarrow> 'w Store \<Rightarrow> string \<Rightarrow> 'w \<Rightarrow>
   (prepare_error + Result) \<times> NodeState \<times> 'w" where
  "node_sync scan hostInfo S nodeName w =
     Run (node_steps scan hostInfo S) \<lparr> ns_NodeName = nodeName, ns_NodeInfo = None, ns_Devices = [], ns_Expected = [] \<rparr> w"

end
