(* ===== verification/NodeAgentSafety.thy ===== *)
theory NodeAgentSafety
  imports NodeAgent
begin

text \<open>
  Correctness of the node agent (\<open>NodeAgent\<close>): after a successful sync the objects of the node are exactly those
  of the GPUs found, whatever the API server did in between; and the limits of what it writes.
\<close>

section \<open>What the store promises\<close>

text \<open>
  \<open>store_laws S objs\<close>, with the objects \<open>objs\<close> stored in a world: a call that fails changes nothing; otherwise
  it has the effect its name says on the object with the given name and on no other. Listing answers the objects
  that carry the label of the node. Events do not change objects.
\<close>

type_synonym 'w objects = "'w \<Rightarrow> string \<Rightarrow> PhysicalGPU option"

definition writes :: "'w objects \<Rightarrow> (PhysicalGPU \<Rightarrow> 'w \<Rightarrow> (store_error + PhysicalGPU) \<times> 'w) \<Rightarrow> bool" where
  "writes objs call \<longleftrightarrow>
     (\<forall>obj w r w'. call obj w = (r, w') \<longrightarrow>
        (case r of
           Inl _ \<Rightarrow> objs w' = objs w
         | Inr stored \<Rightarrow> objs w' = (objs w)(pg_Name obj \<mapsto> stored) \<and> pg_Name stored = pg_Name obj))"

definition reads :: "'w objects \<Rightarrow> ('w \<Rightarrow> (store_error + 'a) \<times> 'w) \<Rightarrow> ('w \<Rightarrow> 'a \<Rightarrow> bool) \<Rightarrow> bool" where
  "reads objs call answer \<longleftrightarrow>
     (\<forall>w r w'. call w = (r, w') \<longrightarrow> objs w' = objs w \<and> (case r of Inl _ \<Rightarrow> True | Inr x \<Rightarrow> answer w x))"

definition deletes :: "'w objects \<Rightarrow> (PhysicalGPU \<Rightarrow> 'w \<Rightarrow> store_error option \<times> 'w) \<Rightarrow> bool" where
  "deletes objs call \<longleftrightarrow>
     (\<forall>obj w e w'. call obj w = (e, w') \<longrightarrow>
        (case e of
           None \<Rightarrow> objs w' = (objs w)(pg_Name obj := None)
         | Some StoreNotFound \<Rightarrow> objs w' = objs w \<and> objs w (pg_Name obj) = None
         | Some (StoreError _) \<Rightarrow> objs w' = objs w))"

definition of_node :: "'w objects \<Rightarrow> string \<Rightarrow> 'w \<Rightarrow> PhysicalGPU \<Rightarrow> bool" where
  "of_node objs node w obj \<longleftrightarrow> objs w (pg_Name obj) = Some obj \<and> mget (pg_Labels obj) LabelNode = Some node"

definition store_laws :: "'w Store \<Rightarrow> 'w objects \<Rightarrow> bool" where
  "store_laws S objs \<longleftrightarrow>
     (\<forall>w name obj. objs w name = Some obj \<longrightarrow> pg_Name obj = name) \<and>
     (\<forall>name. reads objs (so_Get S name) (\<lambda>w obj. objs w name = Some obj \<and> pg_Name obj = name)) \<and>
     (\<forall>node. reads objs (so_ListByNode S node) (\<lambda>w items. set items = {obj. of_node objs node w obj})) \<and>
     writes objs (so_Create S) \<and>
     (\<forall>base. writes objs (\<lambda>obj. so_Patch S obj base)) \<and>
     (\<forall>base. writes objs (\<lambda>obj. so_PatchStatus S obj base)) \<and>
     deletes objs (so_Delete S) \<and>
     (\<forall>obj warning reason msg w. objs (recordEvent S obj warning reason msg w) = objs w)"

lemma readsD:
  assumes "reads objs call answer" "call w = (r, w')"
  shows "objs w' = objs w" "r = Inr x \<Longrightarrow> answer w x"
proof -
  have "objs w' = objs w \<and> (case r of Inl _ \<Rightarrow> True | Inr x \<Rightarrow> answer w x)"
    using assms unfolding reads_def by blast
  then show "objs w' = objs w" "r = Inr x \<Longrightarrow> answer w x" by simp_all
qed

lemma writesD:
  assumes "writes objs call" "call obj w = (r, w')"
  shows "r = Inl e \<Longrightarrow> objs w' = objs w"
    and "r = Inr stored \<Longrightarrow> objs w' = (objs w)(pg_Name obj \<mapsto> stored) \<and> pg_Name stored = pg_Name obj"
proof -
  have "case r of Inl _ \<Rightarrow> objs w' = objs w
      | Inr stored \<Rightarrow> objs w' = (objs w)(pg_Name obj \<mapsto> stored) \<and> pg_Name stored = pg_Name obj"
    using assms unfolding writes_def by blast
  then show "r = Inl e \<Longrightarrow> objs w' = objs w"
    "r = Inr stored \<Longrightarrow> objs w' = (objs w)(pg_Name obj \<mapsto> stored) \<and> pg_Name stored = pg_Name obj" by simp_all
qed

lemma deletesD:
  assumes "deletes objs call" "call obj w = (e, w')"
  shows "e = Some (StoreError err) \<Longrightarrow> objs w' = objs w"
    and "(\<And>err. e \<noteq> Some (StoreError err)) \<Longrightarrow> objs w' = (objs w)(pg_Name obj := None)"
proof -
  have "case e of None \<Rightarrow> objs w' = (objs w)(pg_Name obj := None)
      | Some StoreNotFound \<Rightarrow> objs w' = objs w \<and> objs w (pg_Name obj) = None | Some (StoreError _) \<Rightarrow> objs w' = objs w"
    using assms unfolding deletes_def by blast
  then show "e = Some (StoreError err) \<Longrightarrow> objs w' = objs w"
    "(\<And>err. e \<noteq> Some (StoreError err)) \<Longrightarrow> objs w' = (objs w)(pg_Name obj := None)"
    by (auto simp: fun_upd_idem split: option.splits store_error.splits)
qed

lemma store_lawsD:
  assumes "store_laws S objs"
  shows "reads objs (so_Get S name) (\<lambda>w obj. objs w name = Some obj \<and> pg_Name obj = name)"
    and "reads objs (so_ListByNode S node) (\<lambda>w items. set items = {obj. of_node objs node w obj})"
    and "writes objs (so_Create S)" and "writes objs (\<lambda>obj. so_Patch S obj base)"
    and "writes objs (\<lambda>obj. so_PatchStatus S obj base)" and "deletes objs (so_Delete S)"
    and "objs (recordEvent S obj warning reason msg w) = objs w"
    and "objs w name = Some obj \<Longrightarrow> pg_Name obj = name"
  using assms by (simp_all add: store_laws_def)

section \<open>Applying\<close>

text \<open>\<open>only_at objs names w w'\<close>: nothing outside \<open>names\<close> changes.\<close>

definition only_at :: "'w objects \<Rightarrow> string set \<Rightarrow> 'w \<Rightarrow> 'w \<Rightarrow> bool" where
  "only_at objs names w w' \<longleftrightarrow> (\<forall>name. name \<notin> names \<longrightarrow> objs w' name = objs w name)"

lemma only_at_trans: "only_at objs A w w1 \<Longrightarrow> only_at objs A w1 w2 \<Longrightarrow> only_at objs A w w2"
  by (simp add: only_at_def)

lemma write_effect:
  assumes "writes objs call" "call updated w = (r, w')" "pg_Name updated = name" "objs w name \<noteq> None"
  shows "only_at objs {name} w w' \<and> objs w' name \<noteq> None"
proof (cases r)
  case (Inl e)
  from writesD(1)[OF assms(1,2) Inl] assms(4) show ?thesis by (simp add: only_at_def)
next
  case (Inr stored)
  from writesD(2)[OF assms(1,2) Inr] assms(3) show ?thesis by (simp add: only_at_def)
qed

lemma buildStatus_name:
  "buildStatus obj dev nodeName info = (updated, base) \<Longrightarrow> pg_Name updated = pg_Name obj"
  by (auto simp: buildStatus_def Let_def)

lemma patch_device_effect:
  assumes laws: "store_laws S objs" and p: "patch_device S created obj nodeName dev info w = (e, w')" and "objs w (pg_Name obj) \<noteq> None"
  shows "only_at objs {pg_Name obj} w w' \<and> objs w' (pg_Name obj) \<noteq> None"
proof -
  obtain updated base where b: "buildStatus obj dev nodeName info = (updated, base)" by fastforce
  obtain r w1 where c: "so_PatchStatus S updated base w = (r, w1)" by fastforce
  have "objs w' = objs w1"
    using p b c store_lawsD(7)[OF laws] by (auto simp: patch_device_def split: sum.splits)
  moreover have "only_at objs {pg_Name obj} w w1 \<and> objs w1 (pg_Name obj) \<noteq> None"
    by (rule write_effect[OF store_lawsD(5)[OF laws] c buildStatus_name[OF b] assms(3)])
  ultimately show ?thesis by (simp add: only_at_def)
qed

lemma ensureLabels_effect:
  assumes laws: "store_laws S objs" and p: "ensureLabels S obj nodeName dev w = (r, w')" and "objs w (pg_Name obj) = Some obj"
  shows "only_at objs {pg_Name obj} w w'" and "r = Inr stored \<Longrightarrow> pg_Name stored = pg_Name obj \<and> objs w' (pg_Name obj) \<noteq> None"
proof -
  have "only_at objs {pg_Name obj} w w' \<and> (\<forall>stored. r = Inr stored \<longrightarrow> pg_Name stored = pg_Name obj \<and> objs w' (pg_Name obj) \<noteq> None)"
  proof (cases "(r, w') = (Inr obj, w)")
    case False
    let ?labels = "foldl (\<lambda>m (k, v). if label_at m k = v then m else mput k v m) (pg_Labels obj) (LabelsForDevice nodeName dev)"
    obtain base where "so_Patch S (obj\<lparr> pg_Labels := ?labels \<rparr>) base w = (r, w')"
      using p False by (auto simp: ensureLabels_def Let_def split: if_splits)
    note written = this
    have "pg_Name (obj\<lparr> pg_Labels := ?labels \<rparr>) = pg_Name obj" "objs w (pg_Name obj) \<noteq> None" using assms(3) by simp_all
    note effect = write_effect[OF store_lawsD(4)[OF laws] written this]
    have "pg_Name stored = pg_Name obj" if "r = Inr stored" for stored
      using writesD(2)[OF store_lawsD(4)[OF laws] written that] by simp
    with effect show ?thesis by blast
  qed (use assms(3) in \<open>auto simp: only_at_def\<close>)
  then show "only_at objs {pg_Name obj} w w'" "r = Inr stored \<Longrightarrow> pg_Name stored = pg_Name obj \<and> objs w' (pg_Name obj) \<noteq> None"
    by blast+
qed

lemma applyDevice_effect:
  assumes laws: "store_laws S objs" and a: "applyDevice S name nodeName info dev w = (e, w')"
  shows "only_at objs {name} w w'" and "objs w name \<noteq> None \<or> e = None \<Longrightarrow> objs w' name \<noteq> None"
proof -
  obtain r w1 where g: "so_Get S name w = (r, w1)" by fastforce
  note same = readsD[OF store_lawsD(1)[OF laws] g]
  have "only_at objs {name} w w' \<and> (objs w name \<noteq> None \<or> e = None \<longrightarrow> objs w' name \<noteq> None)"
  proof (cases r)
    case (Inr obj)
    from same(2)[OF Inr] have o: "objs w name = Some obj" "pg_Name obj = name" by simp_all
    obtain r2 w2 where l: "ensureLabels S obj nodeName dev w1 = (r2, w2)" by fastforce
    note el = ensureLabels_effect[OF laws l]
    show ?thesis
    proof (cases r2)
      case (Inl err)
      with a g Inr l have "e \<noteq> None" "objs w' = objs w2" using store_lawsD(7)[OF laws] by (auto simp: applyDevice_def)
      moreover have "objs w2 name \<noteq> None \<or> objs w name = None"
      proof -
        from l Inl obtain o' base where "so_Patch S o' base w1 = (Inl err, w2)"
          by (auto simp: ensureLabels_def Let_def split: if_splits)
        from writesD(1)[OF store_lawsD(4)[OF laws] this refl] same(1) o show ?thesis by simp
      qed
      ultimately show ?thesis using el(1) same(1) o by (auto simp: only_at_def)
    next
      case (Inr obj')
      with a g \<open>r = Inr obj\<close> l have p: "patch_device S False obj' nodeName dev info w2 = (e, w')" by (simp add: applyDevice_def)
      from el(2)[OF _ Inr] same(1) o have "pg_Name obj' = name" "objs w2 (pg_Name obj') \<noteq> None" by auto
      with patch_device_effect[OF laws p] el(1) same(1) o show ?thesis by (auto simp: only_at_def)
    qed
  next
    case (Inl err)
    show ?thesis
    proof (cases err)
      case (StoreError x)
      with a g Inl same(1) show ?thesis by (auto simp: applyDevice_def only_at_def)
    next
      case StoreNotFound
      let ?obj = "new_PhysicalGPU name (LabelsForDevice nodeName dev)"
      have n: "pg_Name ?obj = name" by (simp add: new_PhysicalGPU_def)
      obtain r2 w2 where c: "so_Create S ?obj w1 = (r2, w2)" by fastforce
      note cr = writesD[OF store_lawsD(3)[OF laws] c]
      show ?thesis
      proof (cases r2)
        case (Inl e2)
        with a g \<open>r = Inl err\<close> StoreNotFound c cr(1) same(1) show ?thesis by (auto simp: applyDevice_def only_at_def)
      next
        case (Inr obj)
        with a g \<open>r = Inl err\<close> StoreNotFound c have p: "patch_device S True obj nodeName dev info w2 = (e, w')"
          by (simp add: applyDevice_def)
        from cr(2)[OF Inr] n have "pg_Name obj = name" "objs w2 (pg_Name obj) \<noteq> None" "only_at objs {name} w1 w2"
          by (auto simp: only_at_def)
        with patch_device_effect[OF laws p] same(1) show ?thesis by (auto simp: only_at_def)
      qed
    qed
  qed
  then show "only_at objs {name} w w'" "objs w name \<noteq> None \<or> e = None \<Longrightarrow> objs w' name \<noteq> None" by blast+
qed

definition names_of :: "string \<Rightarrow> NodeDevice list \<Rightarrow> string set" where
  "names_of nodeName devices = PhysicalGPUName nodeName ` set devices"

lemma apply_devices_effect:
  assumes laws: "store_laws S objs"
  shows "apply_devices S st devs w = (errs, w') \<Longrightarrow>
    only_at objs (names_of (ns_NodeName st) devs) w w' \<and> (\<forall>name. objs w name \<noteq> None \<longrightarrow> objs w' name \<noteq> None)
    \<and> (errs = [] \<longrightarrow> (\<forall>name \<in> names_of (ns_NodeName st) devs. objs w' name \<noteq> None))"
proof (induction devs arbitrary: w errs)
  case (Cons dev devs)
  let ?name = "PhysicalGPUName (ns_NodeName st) dev"
  obtain e w1 where a: "applyDevice S ?name (ns_NodeName st) (ns_NodeInfo st) dev w = (e, w1)" by fastforce
  obtain errs' where r: "apply_devices S st devs w1 = (errs', w')" "errs = [] \<longleftrightarrow> e = None \<and> errs' = []"
    using Cons.prems a by (auto simp: Let_def split: prod.splits option.splits)
  note one = applyDevice_effect[OF laws a] and IH = Cons.IH[OF r(1)]
  have kept: "objs w1 name \<noteq> None" if "objs w name \<noteq> None" for name
    using that one by (cases "name = ?name") (auto simp: only_at_def)
  have "only_at objs (names_of (ns_NodeName st) (dev # devs)) w w'"
    using one(1) IH by (auto simp: only_at_def names_of_def)
  moreover have "objs w' ?name \<noteq> None" if "errs = []"
    using that r(2) one(2) IH by blast
  ultimately show ?case
    using IH kept r(2) by (auto simp: names_of_def)
qed (simp add: only_at_def names_of_def)

section \<open>Cleaning up\<close>

lemma cleanup_items_effect:
  assumes laws: "store_laws S objs"
  shows "cleanup_items S expected items w = ([], w') \<Longrightarrow>
    objs w' = (\<lambda>name. if mget expected name = None \<and> name \<in> pg_Name ` set items then None else objs w name)"
proof (induction items arbitrary: w)
  case (Cons obj items)
  show ?case
  proof (cases "mget expected (pg_Name obj)")
    case (Some x)
    with Cons.prems have "cleanup_items S expected items w = ([], w')" by simp
    from Cons.IH[OF this] Some show ?thesis by (auto simp: fun_eq_iff)
  next
    case None
    obtain e w1 where d: "so_Delete S obj w = (e, w1)" by fastforce
    have ok: "e \<noteq> Some (StoreError err)" for err
      using Cons.prems None d by (auto split: prod.splits)
    define w2 where "w2 = recordEvent S obj False ''PhysicalGPUDeleted'' ''PhysicalGPU removed from PCI scan'' w1"
    have w2: "cleanup_items S expected items w2 = ([], w')" "objs w2 = objs w1"
    proof -
      have "e = None \<or> e = Some StoreNotFound" using ok by (metis not_Some_eq store_error.exhaust)
      then show "cleanup_items S expected items w2 = ([], w')"
        using Cons.prems None d by (auto simp: w2_def)
    qed (simp add: w2_def store_lawsD(7)[OF laws])
    have "objs w1 = (objs w)(pg_Name obj := None)"
      by (rule deletesD(2)[OF store_lawsD(6)[OF laws] d ok])
    with Cons.IH[OF w2(1)] w2(2) None show ?thesis by (auto simp: fun_eq_iff)
  qed
qed simp

lemma mget_expected:
  "mget (foldl (\<lambda>m dev. mput (f dev) dev m) m devs) name = None \<longleftrightarrow> mget m name = None \<and> name \<notin> f ` set devs"
  by (induction devs arbitrary: m) auto

lemma listed_names:
  assumes "store_laws S objs" and "set items = {obj. of_node objs node w obj}"
  shows "name \<in> pg_Name ` set items \<longleftrightarrow> (\<exists>obj. objs w name = Some obj \<and> mget (pg_Labels obj) LabelNode = Some node)"
  using store_lawsD(8)[OF assms(1), of w name] by (auto simp: assms(2) of_node_def image_iff)

text \<open>
  \<^bold>\<open>C26.\<close> The objects of a node follow its PCI bus. If a sync succeeds after a scan that found some GPUs, then each of
  them has an object, every object labelled with the node belongs to one of them, and an object that is labelled with
  another node and whose name is not the name of one of these GPUs is as before, whatever calls of the API server failed
  and were reported. (Names are built from node and bus address and can coincide for two nodes, see \<open>names_collide\<close>; such
  an object is overwritten.) If the scan fails, nothing is created, changed or deleted.
\<close>

theorem node_sync_inventory:
  assumes "store_laws S objs" and "nodeName \<noteq> []" and "node_sync scan hostInfo S nodeName w = (Inr res, st, w')"
  shows "case scan w of
      (Inl _, w0) \<Rightarrow> w' = w0
    | (Inr devices, w0) \<Rightarrow>
        (\<forall>name \<in> PhysicalGPUName nodeName ` set devices. objs w' name \<noteq> None)
        \<and> (\<forall>name obj. objs w' name = Some obj \<and> mget (pg_Labels obj) LabelNode = Some nodeName \<longrightarrow>
              name \<in> PhysicalGPUName nodeName ` set devices)
        \<and> (\<forall>name. name \<notin> PhysicalGPUName nodeName ` set devices \<and>
              (\<forall>obj. objs w0 name = Some obj \<longrightarrow> mget (pg_Labels obj) LabelNode \<noteq> Some nodeName) \<longrightarrow> objs w' name = objs w0 name)"
proof (cases "scan w")
  case (Pair r w0)
  show ?thesis
  proof (cases r)
    case (Inl err)
    with Pair assms(2,3) show ?thesis
      by (simp add: node_sync_def node_steps_def node_step_def Node_DiscoverHandler_def)
  next
    case (Inr devices)
    define st0 where "st0 = (SetDevices devices \<lparr> ns_NodeName = nodeName, ns_NodeInfo = None, ns_Devices = [], ns_Expected = [] \<rparr>)
        \<lparr> ns_NodeInfo := hostInfo w0 \<rparr>"
    let ?names = "names_of nodeName devices"
    have st0: "ns_NodeName st0 = nodeName" "ns_Devices st0 = devices" "mget (ns_Expected st0) name = None \<longleftrightarrow> name \<notin> ?names" for name
      using mget_expected[of "PhysicalGPUName nodeName" "[]" devices name]
      by (simp_all add: st0_def SetDevices_def names_of_def)
    obtain errs w1 where a: "apply_devices S st0 devices w0 = (errs, w1)" by fastforce
    obtain l w2 where l: "so_ListByNode S nodeName w1 = (l, w2)" by fastforce
    have run: "node_sync scan hostInfo S nodeName w =
        Run [node_step ''Apply'' (ApplyHandler S), node_step ''Cleanup'' (CleanupHandler S), node_final] st0 w0"
      using Pair Inr assms(2) by (simp add: node_sync_def node_steps_def node_step_def Node_DiscoverHandler_def st0_def)
    with assms(3) a st0(2) have errs: "errs = []"
      by (cases "errs = []") (simp_all add: node_step_def ApplyHandler_def outcome_of_def)
    obtain items where items: "l = Inr items"
      using assms(3) run a errs st0(1,2) l by (cases l) (simp_all add: node_step_def ApplyHandler_def CleanupHandler_def outcome_of_def)
    obtain errs2 w3 where c: "cleanup_items S (ns_Expected st0) items w2 = (errs2, w3)" by fastforce
    have "errs2 = [] \<and> w' = w3"
      using assms(3) unfolding run
      by (cases "errs2 = []")
        (simp_all add: node_step_def ApplyHandler_def CleanupHandler_def outcome_of_def node_final_def st0(1,2) a errs l items c)
    then have fin: "errs2 = []" "w' = w3" by blast+
    note applied = apply_devices_effect[OF assms(1) a]
    note listed = readsD[OF store_lawsD(2)[OF assms(1)] l]
    have after: "objs w' name = (if name \<notin> ?names \<and> (\<exists>obj. objs w1 name = Some obj \<and> mget (pg_Labels obj) LabelNode = Some nodeName)
        then None else objs w1 name)" for name
      unfolding fin(2) cleanup_items_effect[OF assms(1) c[unfolded fin(1)]]
        listed_names[OF assms(1) listed(2)[OF items]] st0(3) listed(1) by (rule refl)
    from applied errs st0(1) have exist: "\<forall>name \<in> ?names. objs w1 name \<noteq> None" and frame: "only_at objs ?names w0 w1" by auto
    show ?thesis
      unfolding Pair Inr prod.case sum.case names_of_def[symmetric]
    proof (intro conjI ballI allI impI)
      show "objs w' name \<noteq> None" if "name \<in> ?names" for name using that exist after[of name] by simp
      show "name \<in> ?names" if "objs w' name = Some obj \<and> mget (pg_Labels obj) LabelNode = Some nodeName" for name obj
        using that after[of name] by (simp split: if_splits)
      show "objs w' name = objs w0 name"
        if "name \<notin> ?names \<and> (\<forall>obj. objs w0 name = Some obj \<longrightarrow> mget (pg_Labels obj) LabelNode \<noteq> Some nodeName)" for name
        using that after[of name] frame[unfolded only_at_def] by auto
    qed
  qed
qed

text \<open>
  The laws hold for a store that is a list of objects, in which the first with a name counts. On it, a node that has
  lost one GPU and gained another ends with the object of the one it has.
\<close>

definition list_objs :: "PhysicalGPU list objects" where
  "list_objs w name = find (\<lambda>obj. pg_Name obj = name) w"

definition list_store :: "PhysicalGPU list Store" where
  "list_store =
     (let write = (\<lambda>obj base w. if list_objs w (pg_Name obj) = None then (Inl StoreNotFound, w) else (Inr obj, obj # w)) in
      \<lparr> so_Get = (\<lambda>name w. (case list_objs w name of None \<Rightarrow> Inl StoreNotFound | Some obj \<Rightarrow> Inr obj, w)),
        so_Create = (\<lambda>obj w. if list_objs w (pg_Name obj) = None then (Inr obj, obj # w) else (Inl (StoreError ''exists''), w)),
        so_Patch = write, so_PatchStatus = write,
        so_ListByNode = (\<lambda>node w. (Inr (filter (\<lambda>obj. list_objs w (pg_Name obj) = Some obj
          \<and> mget (pg_Labels obj) LabelNode = Some node) w), w)),
        so_Delete = (\<lambda>obj w. (None, filter (\<lambda>o'. pg_Name o' \<noteq> pg_Name obj) w)), so_Event = None \<rparr>)"

lemma list_objs_Cons [simp]: "list_objs (obj # w) = (list_objs w)(pg_Name obj \<mapsto> obj)"
  by (auto simp: list_objs_def fun_eq_iff)

lemma list_objs_delete: "list_objs (filter (\<lambda>o'. pg_Name o' \<noteq> name) w) = (list_objs w)(name := None)"
  by (induction w) (auto simp: list_objs_def fun_eq_iff)

lemma list_objs_Some: "list_objs w name = Some obj \<Longrightarrow> pg_Name obj = name \<and> obj \<in> set w"
  by (auto simp: list_objs_def find_Some_iff)

lemma list_store_laws: "store_laws list_store list_objs"
  unfolding store_laws_def
proof (intro conjI allI impI)
  show "writes list_objs (so_Create list_store)" "writes list_objs (\<lambda>obj. so_Patch list_store obj base)"
    "writes list_objs (\<lambda>obj. so_PatchStatus list_store obj base)" for base
    by (auto simp: writes_def list_store_def Let_def split: if_splits)
  show "deletes list_objs (so_Delete list_store)"
    by (simp add: deletes_def list_store_def Let_def list_objs_delete)
  show "reads list_objs (so_ListByNode list_store node) (\<lambda>w items. set items = {obj. of_node list_objs node w obj})" for node
    by (auto simp: reads_def list_store_def Let_def of_node_def dest: list_objs_Some)
qed (auto simp: reads_def list_store_def Let_def recordEvent_def dest: list_objs_Some split: option.splits)

definition found_gpu :: NodeDevice where
  "found_gpu = \<lparr> nd_Address = ''0000:01:00.0'', nd_ClassCode = ''0302'', nd_ClassName = [], nd_Index = ''0'', nd_VendorID = ''10de'',
     nd_VendorName = [], nd_DeviceID = ''20b5'', nd_DeviceName = [], nd_DriverName = ''nvidia'' \<rparr>"

definition gpus_before :: "PhysicalGPU list" where
  "gpus_before = [new_PhysicalGPU ''n1-0-10de-1eb8'' [(LabelNode, ''n1'')], new_PhysicalGPU ''n2-0-10de-1eb8'' [(LabelNode, ''n2'')]]"

lemma node_sync_example:
  "(case node_sync (\<lambda>w. (Inr [found_gpu], w)) (\<lambda>_. None) list_store ''n1'' gpus_before of
      (r, st, w) \<Rightarrow> r = Inr zero_result \<and> map pg_Name w = [''n1-0-10de-20b5'', ''n1-0-10de-20b5'', ''n2-0-10de-1eb8''])"
  by code_simp

theorem node_sync_inventory_witness:
  "\<exists>st w'. node_sync (\<lambda>w. (Inr [found_gpu], w)) (\<lambda>_. None) list_store ''n1'' gpus_before = (Inr zero_result, st, w')
    \<and> list_objs w' (PhysicalGPUName ''n1'' found_gpu) \<noteq> None"
proof -
  obtain r st w' where eq: "node_sync (\<lambda>w. (Inr [found_gpu], w)) (\<lambda>_. None) list_store ''n1'' gpus_before = (r, st, w')"
    using prod_cases3 by blast
  from node_sync_example[unfolded eq prod.case] have "r = Inr zero_result" by (rule conjunct1)
  note run = eq[unfolded this]
  have "''n1'' \<noteq> []" by simp
  from node_sync_inventory[OF list_store_laws this run, unfolded prod.case sum.case]
  have "\<forall>name \<in> PhysicalGPUName ''n1'' ` set [found_gpu]. list_objs w' name \<noteq> None" by (rule conjunct1)
  then have "list_objs w' (PhysicalGPUName ''n1'' found_gpu) \<noteq> None" by (rule bspec) (simp only: list.set image_insert insertI1)
  with run show ?thesis by (intro exI conjI)
qed

section \<open>Limits\<close>

text \<open>
  The patch of the status of an object that has a current state never contains a new driver type, because
  \<open>buildStatus\<close> has written it into the base as well; and the patch of the labels of an object that has labels
  never contains anything.
\<close>

lemma status_patch_without_driver:
  assumes "buildStatus obj dev nodeName info = (updated, base)" and "pg_CurrentState obj \<noteq> None"
  shows "pg_CurrentState updated = pg_CurrentState base"
  using assms by (auto simp: buildStatus_def Let_def)

lemma label_patch_empty:
  assumes "pg_Labels obj \<noteq> []" and "ensureLabels S obj nodeName dev w \<noteq> (Inr obj, w)"
  shows "\<exists>updated. ensureLabels S obj nodeName dev w = so_Patch S updated updated w"
  using assms by (auto simp: ensureLabels_def Let_def split: if_splits)

text \<open>Nodes whose names differ in a dot and a dash give their GPUs the same names.\<close>

lemma names_collide:
  "PhysicalGPUName ''gpu.1'' dev = PhysicalGPUName ''gpu-1'' dev"
proof -
  have "sanitizeName (''gpu.1'' @ CHR ''-'' # rest) = sanitizeName (''gpu-1'' @ CHR ''-'' # rest)" for rest
    by (simp add: sanitizeName_def normalizeLabelValue_def TrimSpace_def TrimBoth_def dropWhile_append ToLower_def
        lower_char_def is_space_def label_char_def less_eq_char_def)
  then show ?thesis
    by (simp add: PhysicalGPUName_def Let_def)
qed

end
