(* ===== verification/ResourceUpdate.thy ===== *)
theory ResourceUpdate
  imports Reconciler
begin

text \<open>
  The typed wrapper around an API object, \<open>pkg/controller/reconciler/resource.go\<close> and \<open>resource_update.go\<close> with
  \<open>pkg/common/object\<close>: an object is fetched, handlers change a copy of it, and the update writes what changed.

  The object type is a parameter: \<open>resource_object\<close> holds the accessors the code uses of it. A nil label or annotation map is
  \<open>None\<close>. The client is a parameter as well; its write calls answer an error or the object as the server left it.
\<close>

section \<open>The resource\<close>

datatype resource_error = ApiNotFound string | ApiConflict string | ApiOther string

fun resource_error_text :: "resource_error \<Rightarrow> string" where
  "resource_error_text (ApiNotFound e) = e"
| "resource_error_text (ApiConflict e) = e"
| "resource_error_text (ApiOther e) = e"

text \<open>\<open>wrapped text err\<close> is \<open>fmt.Errorf\<close> with \<open>%w\<close>: a conflict stays recognisable.\<close>

definition wrapped :: "string \<Rightarrow> resource_error \<Rightarrow> handler_error" where
  "wrapped text err =
     (case err of ApiConflict e \<Rightarrow> ConflictError (text @ e) | _ \<Rightarrow> OtherError (text @ resource_error_text err))"

record 'o resource_object =
  ro_SameStatus :: "'o \<Rightarrow> 'o \<Rightarrow> bool"
  ro_Finalizers :: "'o \<Rightarrow> string list"
  ro_Labels :: "'o \<Rightarrow> (string, string) gomap option"
  ro_Annotations :: "'o \<Rightarrow> (string, string) gomap option"
  ro_Deleting :: "'o \<Rightarrow> bool"
  ro_SetMeta :: "string list \<Rightarrow> (string, string) gomap option \<Rightarrow> (string, string) gomap option \<Rightarrow> 'o \<Rightarrow> 'o"

record ('o, 'w) resource_client =
  rc_Get :: "string \<Rightarrow> 'w \<Rightarrow> (resource_error + 'o) \<times> 'w"
  rc_StatusUpdate :: "'o \<Rightarrow> 'w \<Rightarrow> (resource_error + 'o) \<times> 'w"
  rc_Patch :: "'o \<Rightarrow> JSONPatchOperation list \<Rightarrow> 'w \<Rightarrow> (resource_error + 'o) \<times> 'w"

record 'o Resource =
  rs_currentObj :: "'o option"
  rs_changedObj :: "'o option"

definition FetchObject :: "('o, 'w) resource_client \<Rightarrow> string \<Rightarrow> 'w \<Rightarrow> (resource_error + 'o option) \<times> 'w" where
  "FetchObject C key w =
     (case rc_Get C key w of
        (Inl (ApiNotFound _), w') \<Rightarrow> (Inr None, w')
      | (Inl err, w') \<Rightarrow> (Inl err, w')
      | (Inr obj, w') \<Rightarrow> (Inr (Some obj), w'))"

definition Resource_Fetch :: "('o, 'w) resource_client \<Rightarrow> string \<Rightarrow> 'w \<Rightarrow> (resource_error + 'o Resource) \<times> 'w" where
  "Resource_Fetch C name w =
     (case FetchObject C name w of
        (Inl err, w') \<Rightarrow> (Inl err, w')
      | (Inr obj, w') \<Rightarrow> (Inr \<lparr> rs_currentObj = obj, rs_changedObj = obj \<rparr>, w'))"

definition IsEmpty :: "'o Resource \<Rightarrow> bool" where
  "IsEmpty r = (rs_currentObj r = None)"

section \<open>Update\<close>

definition entries :: "(string, string) gomap option \<Rightarrow> (string, string) gomap" where
  "entries m = (case m of None \<Rightarrow> [] | Some es \<Rightarrow> es)"

definition maps_Equal :: "(string, string) gomap option \<Rightarrow> (string, string) gomap option \<Rightarrow> bool" where
  "maps_Equal a b = list_all (\<lambda>(k, _). mget (entries a) k = mget (entries b) k) (entries a @ entries b)"

definition metadata_patch :: "'o resource_object \<Rightarrow> 'o \<Rightarrow> 'o \<Rightarrow> JSONPatchOperation list" where
  "metadata_patch R current changed =
     (if ro_Finalizers R current = ro_Finalizers R changed then []
      else jsonPatchOpsForFinalizers (ro_Finalizers R current) (ro_Finalizers R changed)) @
     (if maps_Equal (ro_Annotations R current) (ro_Annotations R changed) then []
      else jsonPatchOpsForMap ''/metadata/annotations'' (ro_Annotations R current) (ro_Annotations R changed)) @
     (if maps_Equal (ro_Labels R current) (ro_Labels R changed) then []
      else jsonPatchOpsForMap ''/metadata/labels'' (ro_Labels R current) (ro_Labels R changed))"

definition patch_metadata ::
  "'o resource_object \<Rightarrow> ('o, 'w) resource_client \<Rightarrow> 'o \<Rightarrow> 'o \<Rightarrow> 'w \<Rightarrow> handler_error option \<times> 'o \<times> 'w" where
  "patch_metadata R C current changed w =
     (let ops = metadata_patch R current changed in
      if ops = [] then (None, changed, w)
      else
        (case rc_Patch C changed ops w of
           (Inr patched, w') \<Rightarrow> (None, patched, w')
         | (Inl err, w') \<Rightarrow>
             if ro_Deleting R changed \<and> ro_Finalizers R changed = [] \<and> (case err of ApiNotFound _ \<Rightarrow> True | _ \<Rightarrow> False)
             then (None, changed, w')
             else (Some (wrapped ''error patching metadata: '' err), changed, w')))"

definition Resource_Update ::
  "'o resource_object \<Rightarrow> ('o, 'w) resource_client \<Rightarrow> 'o Resource \<Rightarrow> 'w \<Rightarrow> handler_error option \<times> 'o Resource \<times> 'w" where
  "Resource_Update R C r w =
     (case (rs_currentObj r, rs_changedObj r) of
        (Some current, Some changed) \<Rightarrow>
          if ro_SameStatus R current changed
          then (case patch_metadata R C current changed w of
                  (err, changed', w') \<Rightarrow> (err, r\<lparr> rs_changedObj := Some changed' \<rparr>, w'))
          else
            (case rc_StatusUpdate C changed w of
               (Inl err, w') \<Rightarrow> (Some (wrapped ''error updating status subresource: '' err), r, w')
             | (Inr stored, w') \<Rightarrow>
                 (case patch_metadata R C current
                         (ro_SetMeta R (ro_Finalizers R changed) (ro_Labels R changed) (ro_Annotations R changed) stored) w' of
                    (err, changed', w2) \<Rightarrow> (err, r\<lparr> rs_changedObj := Some changed' \<rparr>, w2)))
      | _ \<Rightarrow> (None, r, w))"

section \<open>What the update writes\<close>

text \<open>\<open>meta_laws R\<close>: setting the metadata of an object on another one gives it that metadata.\<close>

definition meta_laws :: "'o resource_object \<Rightarrow> bool" where
  "meta_laws R \<longleftrightarrow>
     (\<forall>obj stored. let set = ro_SetMeta R (ro_Finalizers R obj) (ro_Labels R obj) (ro_Annotations R obj) stored in
        ro_Finalizers R set = ro_Finalizers R obj \<and> ro_Labels R set = ro_Labels R obj \<and> ro_Annotations R set = ro_Annotations R obj)"

lemma maps_Equal_refl [simp]: "maps_Equal m m"
  by (simp add: maps_Equal_def list_all_iff)

lemma metadata_patch_same:
  assumes "ro_Finalizers R changed = ro_Finalizers R current" "ro_Labels R changed = ro_Labels R current"
    and "ro_Annotations R changed = ro_Annotations R current"
  shows "metadata_patch R current changed = []"
  using assms by (simp add: metadata_patch_def)

text \<open>An object that was not changed is not written.\<close>

lemma Resource_Update_unchanged:
  assumes "rs_currentObj r = Some current" "rs_changedObj r = Some current" "ro_SameStatus R current current"
  shows "Resource_Update R C r w = (None, r, w)"
proof -
  have "patch_metadata R C current current w = (None, current, w)"
    by (simp add: patch_metadata_def metadata_patch_same)
  with assms show ?thesis by (simp add: Resource_Update_def)
qed

text \<open>If only the status changed, the one call made is the status update, on the changed object.\<close>

lemma Resource_Update_status:
  assumes "meta_laws R" "rs_currentObj r = Some current" "rs_changedObj r = Some changed" "\<not> ro_SameStatus R current changed"
    and "ro_Finalizers R changed = ro_Finalizers R current" "ro_Labels R changed = ro_Labels R current"
    and "ro_Annotations R changed = ro_Annotations R current"
  shows "Resource_Update R C r w =
    (case rc_StatusUpdate C changed w of
       (Inl err, w') \<Rightarrow> (Some (wrapped ''error updating status subresource: '' err), r, w')
     | (Inr stored, w') \<Rightarrow>
         (None, r\<lparr> rs_changedObj := Some (ro_SetMeta R (ro_Finalizers R current) (ro_Labels R current) (ro_Annotations R current) stored) \<rparr>, w'))"
proof -
  have "patch_metadata R C current (ro_SetMeta R (ro_Finalizers R current) (ro_Labels R current) (ro_Annotations R current) stored) w'
      = (None, ro_SetMeta R (ro_Finalizers R current) (ro_Labels R current) (ro_Annotations R current) stored, w')" for stored w'
    using assms(1) by (simp add: patch_metadata_def metadata_patch_same meta_laws_def Let_def)
  with assms(2-) show ?thesis by (auto simp: Resource_Update_def split: prod.splits sum.splits)
qed

end
