(* ===== verification/PhysicalGpuController.thy ===== *)
theory PhysicalGpuController
  imports GpuAgent NodeAgent ResourceUpdate
begin

text \<open>
  The controller of \<open>PhysicalGPU\<close> objects, \<open>pkg/controller/physicalgpu\<close> with \<open>pkg/controller/conditions\<close>: it sets the
  condition \<open>DriverReady\<close> of a GPU from the state of the validator pods of its node.

  The API server is a parameter. An object is its content together with its resource version (\<open>gpu_object\<close>), so that a status
  update names the version it is based on. Between two calls other programs may change objects: listing the pods may leave any
  objects behind. Finalizers and annotations, which no handler of this controller changes, and the transition times of
  conditions are left out, as are the creation of the controller and its watches.
\<close>

section \<open>Conditions\<close>

record ConditionBuilder =
  cb_status :: ConditionStatus
  cb_conditionType :: string
  cb_reason :: string
  cb_message :: string
  cb_generation :: int64

definition NewConditionBuilder :: "string \<Rightarrow> ConditionBuilder" where
  "NewConditionBuilder t = \<lparr> cb_status = ConditionUnknown, cb_conditionType = t, cb_reason = ''Unknown'', cb_message = [], cb_generation = 0 \<rparr>"

definition cb_Condition :: "ConditionBuilder \<Rightarrow> StatusCondition" where
  "cb_Condition c = \<lparr> sc_Type = cb_conditionType c, sc_Status = cb_status c, sc_Reason = cb_reason c, sc_Message = cb_message c,
     sc_ObservedGeneration = cb_generation c \<rparr>"

definition cb_Status :: "ConditionStatus \<Rightarrow> ConditionBuilder \<Rightarrow> ConditionBuilder" where
  "cb_Status status c = c\<lparr> cb_status := status \<rparr>"

definition cb_Reason :: "string \<Rightarrow> ConditionBuilder \<Rightarrow> ConditionBuilder" where
  "cb_Reason reason c = (if reason \<noteq> [] then c\<lparr> cb_reason := reason \<rparr> else c)"

definition cb_Message :: "string \<Rightarrow> ConditionBuilder \<Rightarrow> ConditionBuilder" where
  "cb_Message msg c = c\<lparr> cb_message := msg \<rparr>"

definition cb_Generation :: "int64 \<Rightarrow> ConditionBuilder \<Rightarrow> ConditionBuilder" where
  "cb_Generation generation c = c\<lparr> cb_generation := generation \<rparr>"

definition RemoveCondition :: "string \<Rightarrow> StatusCondition list \<Rightarrow> StatusCondition list" where
  "RemoveCondition t conds = filter (\<lambda>c. sc_Type c \<noteq> t) conds"

text \<open>The condition manager holds a copy of the conditions.\<close>

definition Manager_Add :: "StatusCondition \<Rightarrow> StatusCondition list \<Rightarrow> bool \<times> StatusCondition list" where
  "Manager_Add c conds =
     (case FindStatusCondition conds (sc_Type c) of
        Some _ \<Rightarrow> (False, conds)
      | None \<Rightarrow> (True, SetStatusCondition c conds))"

definition Manager_Update :: "StatusCondition \<Rightarrow> StatusCondition list \<Rightarrow> StatusCondition list" where
  "Manager_Update c conds = SetStatusCondition c conds"

section \<open>Validator pods\<close>

record PodCondition =
  pc_Type :: string
  pc_Status :: ConditionStatus

record Pod =
  pod_NodeName :: string
  pod_Conditions :: "PodCondition list"

record ValidationResult =
  vr_Present :: bool
  vr_Ready :: bool
  vr_Message :: string

definition filterPodsByNode :: "Pod list \<Rightarrow> string \<Rightarrow> Pod list" where
  "filterPodsByNode pods nodeName = (if nodeName = [] then pods else filter (\<lambda>pod. pod_NodeName pod = nodeName) pods)"

fun pod_ready_loop :: "PodCondition list \<Rightarrow> bool" where
  "pod_ready_loop [] = False"
| "pod_ready_loop (cond # rest) = (if pc_Type cond = ''Ready'' then pc_Status cond = ConditionTrue else pod_ready_loop rest)"

definition podReady :: "Pod \<Rightarrow> bool" where
  "podReady pod = pod_ready_loop (pod_Conditions pod)"

type_synonym version = string
type_synonym gpu_object = "PhysicalGPU \<times> version"

record 'w GpuClient =
  gc_client :: "(gpu_object, 'w) resource_client"
  gc_ListPods :: "string \<Rightarrow> (string, string) gomap \<Rightarrow> 'w \<Rightarrow> (handler_error + Pod list) \<times> 'w"
  gc_ListGPUs :: "string \<Rightarrow> 'w \<Rightarrow> (handler_error + PhysicalGPU list) \<times> 'w"
  gc_Event :: "(PhysicalGPU \<Rightarrow> bool \<Rightarrow> string \<Rightarrow> string \<Rightarrow> 'w \<Rightarrow> 'w) option"

definition validator_labels :: "(string, string) gomap" where
  "validator_labels = [(''module'', ''gpu-control-plane''), (''component'', ''validator''), (''app'', ''nvidia-operator-validator'')]"

definition validation_of :: "Pod list \<Rightarrow> string \<Rightarrow> ValidationResult" where
  "validation_of pods nodeName =
     (if pods = [] then \<lparr> vr_Present = False, vr_Ready = False, vr_Message = ''validator pods not found'' \<rparr>
      else
        let nodePods = filterPodsByNode pods nodeName in
        if nodePods = []
        then \<lparr> vr_Present = True, vr_Ready = False, vr_Message = ''validator pod not found on node '' @ CHR 0x22 # nodeName @ [CHR 0x22] \<rparr>
        else if list_ex podReady nodePods then \<lparr> vr_Present = True, vr_Ready = True, vr_Message = [] \<rparr>
        else \<lparr> vr_Present = True, vr_Ready = False, vr_Message = ''validator pod is not ready'' \<rparr>)"

definition Validator_Status :: "'w GpuClient \<Rightarrow> string \<Rightarrow> string \<Rightarrow> 'w \<Rightarrow> (handler_error + ValidationResult) \<times> 'w" where
  "Validator_Status C namespace nodeName w =
     (case gc_ListPods C namespace validator_labels w of
        (Inl err, w') \<Rightarrow> (Inl err, w')
      | (Inr pods, w') \<Rightarrow> (Inr (validation_of pods nodeName), w'))"

section \<open>The handler\<close>

record 'w gpu_state =
  gr_resource :: "gpu_object Resource"
  gr_world :: 'w

definition driver_condition :: "int64 \<Rightarrow> ValidationResult \<Rightarrow> StatusCondition" where
  "driver_condition gen res =
     (let driverReady = cb_Generation gen (NewConditionBuilder DriverReadyType) in
      cb_Condition
        (if \<not> vr_Present res
         then cb_Message (vr_Message res) (cb_Reason ''ValidatorMissing'' (cb_Status ConditionUnknown driverReady))
         else if vr_Ready res
         then cb_Message ''validator is ready'' (cb_Reason ''ValidatorReady'' (cb_Status ConditionTrue driverReady))
         else cb_Message (vr_Message res) (cb_Reason ''ValidatorNotReady'' (cb_Status ConditionFalse driverReady))))"

definition recordDriverReadyEvent :: "'w GpuClient \<Rightarrow> PhysicalGPU \<Rightarrow> PhysicalGPU \<Rightarrow> 'w \<Rightarrow> 'w" where
  "recordDriverReadyEvent C obj prev w =
     (case gc_Event C of
        None \<Rightarrow> w
      | Some event \<Rightarrow>
          (case FindStatusCondition (pg_Conditions obj) DriverReadyType of
             None \<Rightarrow> w
           | Some newCond \<Rightarrow>
               if (case FindStatusCondition (pg_Conditions prev) DriverReadyType of
                     None \<Rightarrow> False
                   | Some oldCond \<Rightarrow> sc_Status oldCond = sc_Status newCond \<and> sc_Reason oldCond = sc_Reason newCond
                       \<and> sc_Message oldCond = sc_Message newCond)
               then w
               else event obj (sc_Status newCond \<noteq> ConditionTrue) (sc_Reason newCond) (sc_Message newCond) w))"

definition ValidatorHandler_Handle :: "'w GpuClient \<Rightarrow> string option \<Rightarrow> 'w gpu_state Handler" where
  "ValidatorHandler_Handle C validator st =
     (case (validator, rs_currentObj (gr_resource st), rs_changedObj (gr_resource st)) of
        (Some namespace, Some (prev, _), Some (obj, v)) \<Rightarrow>
          let nodeName = (case pg_NodeInfo obj of None \<Rightarrow> [] | Some info \<Rightarrow> ni_NodeName info);
              set_conditions = (\<lambda>conds. (gr_resource st)\<lparr> rs_changedObj := Some (obj\<lparr> pg_Conditions := conds \<rparr>, v) \<rparr>)
          in
          if nodeName = [] then ((zero_result, None), st)
          else if label_at (pg_Labels obj) LabelVendor \<noteq> ''nvidia''
          then ((zero_result, None), st\<lparr> gr_resource := set_conditions (RemoveCondition DriverReadyType (pg_Conditions obj)) \<rparr>)
          else
            (case Validator_Status C namespace nodeName (gr_world st) of
               (Inl err, w') \<Rightarrow> ((zero_result, Some err), st\<lparr> gr_world := w' \<rparr>)
             | (Inr res, w') \<Rightarrow>
                 let conds = Manager_Update (driver_condition (pg_Generation obj) res) (pg_Conditions obj)
                 in ((zero_result, None),
                     st\<lparr> gr_resource := set_conditions conds,
                         gr_world := recordDriverReadyEvent C (obj\<lparr> pg_Conditions := conds \<rparr>) prev w' \<rparr>))
      | _ \<Rightarrow> ((zero_result, None), st))"

section \<open>Reconciliation\<close>

definition pg_status :: "PhysicalGPU \<Rightarrow> NodeInfo option \<times> PCIInfo option \<times> GPUCapabilities option \<times> GPUCurrentState option \<times> StatusCondition list" where
  "pg_status obj = (pg_NodeInfo obj, pg_PCIInfo obj, pg_Capabilities obj, pg_CurrentState obj, pg_Conditions obj)"

definition gpu_resource :: "gpu_object resource_object" where
  "gpu_resource = \<lparr> ro_SameStatus = (\<lambda>a b. pg_status (fst a) = pg_status (fst b)), ro_Finalizers = (\<lambda>_. []),
     ro_Labels = (\<lambda>o'. if pg_Labels (fst o') = [] then None else Some (pg_Labels (fst o'))), ro_Annotations = (\<lambda>_. None),
     ro_Deleting = (\<lambda>_. False), ro_SetMeta = (\<lambda>_ ls _ o'. ((fst o')\<lparr> pg_Labels := entries ls \<rparr>, snd o')) \<rparr>"

definition gpu_update :: "'w GpuClient \<Rightarrow> 'w gpu_state Updater" where
  "gpu_update C st =
     (case Resource_Update gpu_resource (gc_client C) (gr_resource st) (gr_world st) of
        (err, r, w) \<Rightarrow> (err, st\<lparr> gr_resource := r, gr_world := w \<rparr>))"

definition pgpu_Reconcile :: "'w GpuClient \<Rightarrow> string \<Rightarrow> string \<Rightarrow> 'w \<Rightarrow> (Result \<times> string list) \<times> 'w" where
  "pgpu_Reconcile C namespace name w =
     (case Resource_Fetch (gc_client C) name w of
        (Inl err, w') \<Rightarrow> ((zero_result, [resource_error_text err]), w')
      | (Inr r, w') \<Rightarrow>
          if IsEmpty r then ((zero_result, []), w')
          else
            (case Reconcile [ValidatorHandler_Handle C (Some namespace)] (gpu_update C) [] \<lparr> gr_resource = r, gr_world = w' \<rparr> of
               (res, st) \<Rightarrow> (res, gr_world st)))"

text \<open>A change of a node enqueues the GPUs that the index lists under its name.\<close>

definition node_index :: "PhysicalGPU \<Rightarrow> string list" where
  "node_index pgpu = (case pg_NodeInfo pgpu of None \<Rightarrow> [] | Some info \<Rightarrow> if ni_NodeName info = [] then [] else [ni_NodeName info])"

definition EnqueueRequests :: "'w GpuClient \<Rightarrow> string \<Rightarrow> 'w \<Rightarrow> string list \<times> 'w" where
  "EnqueueRequests C nodeName w =
     (if nodeName = [] then ([], w)
      else (case gc_ListGPUs C nodeName w of (Inl _, w') \<Rightarrow> ([], w') | (Inr items, w') \<Rightarrow> (map pg_Name items, w')))"

section \<open>Correctness\<close>

lemma Find_Set:
  "FindStatusCondition (SetStatusCondition c conds) t = (if t = sc_Type c then Some c else FindStatusCondition conds t)"
  by (induction conds) (auto simp: FindStatusCondition_def)

lemma driver_condition_type [simp]: "sc_Type (driver_condition gen res) = DriverReadyType"
  by (simp add: driver_condition_def Let_def cb_Condition_def cb_Message_def cb_Reason_def cb_Status_def cb_Generation_def
      NewConditionBuilder_def)

lemma driver_condition_true:
  assumes "nodeName \<noteq> []"
  shows "sc_Status (driver_condition gen (validation_of pods nodeName)) = ConditionTrue \<longleftrightarrow>
    (\<exists>pod \<in> set pods. pod_NodeName pod = nodeName \<and> podReady pod)"
  using assms
  by (auto simp: driver_condition_def Let_def cb_Condition_def cb_Message_def cb_Reason_def cb_Status_def cb_Generation_def
      NewConditionBuilder_def validation_of_def filterPodsByNode_def list_ex_iff filter_empty_conv)

text \<open>
  What the API server promises about the objects \<open>objs w\<close>, each with its version: reading answers the object of that name; a
  status update that fails changes nothing; one that succeeds was based on the stored version and replaces the status alone; a
  version identifies a content. Events do not change objects. Nothing is said of the listing of pods.
\<close>

definition gpu_client_laws :: "'w GpuClient \<Rightarrow> ('w \<Rightarrow> string \<Rightarrow> gpu_object option) \<Rightarrow> bool" where
  "gpu_client_laws C objs \<longleftrightarrow>
     (\<forall>name w obj v w'. rc_Get (gc_client C) name w = (Inr (obj, v), w') \<longrightarrow> objs w' name = Some (obj, v) \<and> pg_Name obj = name) \<and>
     (\<forall>obj v w e w'. rc_StatusUpdate (gc_client C) (obj, v) w = (Inl e, w') \<longrightarrow> objs w' = objs w) \<and>
     (\<forall>obj v w stored v' w'. rc_StatusUpdate (gc_client C) (obj, v) w = (Inr (stored, v'), w') \<longrightarrow>
        (\<exists>cur. objs w (pg_Name obj) = Some (cur, v) \<and> objs w' = (objs w)(pg_Name obj \<mapsto> (stored, v'))
           \<and> pg_status stored = pg_status obj \<and> pg_Name stored = pg_Name cur \<and> pg_Labels stored = pg_Labels cur
           \<and> pg_Generation stored = pg_Generation cur)) \<and>
     (\<forall>w w' name a b v. objs w name = Some (a, v) \<longrightarrow> objs w' name = Some (b, v) \<longrightarrow> a = b) \<and>
     (\<forall>event obj warning reason msg w. gc_Event C = Some event \<longrightarrow> objs (event obj warning reason msg w) = objs w)"

lemma gpu_client_lawsD:
  assumes "gpu_client_laws C objs"
  shows "rc_Get (gc_client C) name w = (Inr (obj, v), w') \<Longrightarrow> objs w' name = Some (obj, v) \<and> pg_Name obj = name"
    and "rc_StatusUpdate (gc_client C) (obj, v) w = (Inl e, w') \<Longrightarrow> objs w' = objs w"
    and "rc_StatusUpdate (gc_client C) (obj, v) w = (Inr (stored, v'), w') \<Longrightarrow>
      \<exists>cur. objs w (pg_Name obj) = Some (cur, v) \<and> objs w' = (objs w)(pg_Name obj \<mapsto> (stored, v'))
         \<and> pg_status stored = pg_status obj \<and> pg_Name stored = pg_Name cur \<and> pg_Labels stored = pg_Labels cur
         \<and> pg_Generation stored = pg_Generation cur"
    and "objs w name = Some (a, v) \<Longrightarrow> objs w' name = Some (b, v) \<Longrightarrow> a = b"
    and "gc_Event C = Some event \<Longrightarrow> objs (event obj warning reason msg w) = objs w"
  using assms by (simp_all only: gpu_client_laws_def)

lemma event_objs:
  assumes "gpu_client_laws C objs"
  shows "objs (recordDriverReadyEvent C obj prev w) = objs w"
  using gpu_client_lawsD(5)[OF assms] by (auto simp: recordDriverReadyEvent_def split: option.splits)

lemma status_write_effect:
  assumes laws: "gpu_client_laws C objs" and known: "objs w1 name = Some (obj, v)" "pg_Name obj = name"
    and written: "rc_StatusUpdate (gc_client C) (obj\<lparr> pg_Conditions := conds \<rparr>, v) w = (Inr (stored, v'), w')"
  shows "objs w name = Some (obj, v) \<and> objs w' = (objs w)(name \<mapsto> (obj\<lparr> pg_Conditions := conds \<rparr>, v'))"
proof -
  from gpu_client_lawsD(3)[OF laws written] known(2) obtain cur where
    c: "objs w name = Some (cur, v)" "objs w' = (objs w)(name \<mapsto> (stored, v'))"
      "pg_status stored = pg_status (obj\<lparr> pg_Conditions := conds \<rparr>)" "pg_Name stored = pg_Name cur" "pg_Labels stored = pg_Labels cur"
      "pg_Generation stored = pg_Generation cur" by auto
  have "cur = obj" by (rule gpu_client_lawsD(4)[OF laws c(1) known(1)])
  with c(3-) have "stored = obj\<lparr> pg_Conditions := conds \<rparr>" by (simp add: pg_status_def)
  with c(1,2) \<open>cur = obj\<close> show ?thesis by simp
qed

lemma gpu_resource_simps:
  "ro_SameStatus gpu_resource (a, v) (b, v') \<longleftrightarrow> pg_status a = pg_status b"
  "ro_Finalizers gpu_resource o' = []" "ro_Annotations gpu_resource o' = None"
  "ro_Labels gpu_resource (a\<lparr> pg_Conditions := conds \<rparr>, v) = ro_Labels gpu_resource (a, v')"
  "pg_status a = pg_status (a\<lparr> pg_Conditions := conds \<rparr>) \<longleftrightarrow> pg_Conditions a = conds"
  by (auto simp: gpu_resource_def pg_status_def)

lemma meta_laws_gpu: "meta_laws gpu_resource"
  by (simp add: meta_laws_def gpu_resource_def entries_def)

lemma gpu_update_same:
  assumes "rs_currentObj (gr_resource st) = Some (obj, v)" and "rs_changedObj (gr_resource st) = Some (obj, v)"
  shows "gpu_update C st = (None, st)"
proof -
  have "ro_SameStatus gpu_resource (obj, v) (obj, v)" by (simp add: gpu_resource_simps)
  from Resource_Update_unchanged[OF assms this, of "gc_client C" "gr_world st"] show ?thesis by (simp add: gpu_update_def)
qed

lemma gpu_update_conditions:
  assumes "rs_currentObj (gr_resource st) = Some (obj, v)" and "rs_changedObj (gr_resource st) = Some (obj\<lparr> pg_Conditions := conds \<rparr>, v)"
    and "conds \<noteq> pg_Conditions obj"
    and "rc_StatusUpdate (gc_client C) (obj\<lparr> pg_Conditions := conds \<rparr>, v) (gr_world st) = (r, w')"
  shows "\<exists>st'. gpu_update C st =
      (case r of Inl err \<Rightarrow> Some (wrapped ''error updating status subresource: '' err) | Inr _ \<Rightarrow> None, st') \<and> gr_world st' = w'"
proof -
  have "\<not> ro_SameStatus gpu_resource (obj, v) (obj\<lparr> pg_Conditions := conds \<rparr>, v)"
    using assms(3) by (auto simp: gpu_resource_simps)
  from Resource_Update_status[OF meta_laws_gpu assms(1,2) this, of "gc_client C" "gr_world st"] assms(4)
  show ?thesis by (cases r) (auto simp: gpu_update_def gpu_resource_simps(2-4))
qed

definition reconcile_outcome ::
  "('w \<Rightarrow> string \<Rightarrow> gpu_object option) \<Rightarrow> StatusCondition \<Rightarrow> gpu_object \<Rightarrow> 'w \<Rightarrow> Result \<Rightarrow> 'w \<Rightarrow> bool" where
  "reconcile_outcome objs want fetched w res w' \<longleftrightarrow>
     (case fetched of (obj, v) \<Rightarrow>
       objs w' = objs w \<and> (r_RequeueAfter res > 0 \<or> FindStatusCondition (pg_Conditions obj) DriverReadyType = Some want)
       \<or> (\<exists>v'. objs w (pg_Name obj) = Some (obj, v)
            \<and> objs w' = (objs w)(pg_Name obj \<mapsto> (obj\<lparr> pg_Conditions := SetStatusCondition want (pg_Conditions obj) \<rparr>, v'))))"

lemma updateResource_requeue:
  assumes "updateResource update zero_result st = ((res, None), st')" and "update st = (Some e, st'')"
  shows "r_RequeueAfter res > 0 \<and> st' = st''"
  using assms by (auto simp: updateResource_def conflictDelay_def split: handler_error.splits if_splits)

lemma update_outcome:
  assumes laws: "gpu_client_laws C objs" and known: "objs w1 (pg_Name obj) = Some (obj, v)"
    and st: "gr_resource st = \<lparr> rs_currentObj = Some (obj, v),
        rs_changedObj = Some (obj\<lparr> pg_Conditions := SetStatusCondition want (pg_Conditions obj) \<rparr>, v) \<rparr>"
    and want: "sc_Type want = DriverReadyType"
    and run: "updateResource (gpu_update C) zero_result st = ((res, None), st')"
  shows "reconcile_outcome objs want (obj, v) (gr_world st) res (gr_world st')"
proof (cases "SetStatusCondition want (pg_Conditions obj) = pg_Conditions obj")
  case True
  then have "obj\<lparr> pg_Conditions := SetStatusCondition want (pg_Conditions obj) \<rparr> = obj" by simp
  then have "gpu_update C st = (None, st)" using st by (intro gpu_update_same) simp_all
  with run have "st' = st" by (simp add: updateResource_def)
  moreover have "FindStatusCondition (pg_Conditions obj) DriverReadyType = Some want"
    using Find_Set[of want "pg_Conditions obj" DriverReadyType] True want by simp
  ultimately show ?thesis by (simp add: reconcile_outcome_def)
next
  case False
  let ?obj = "obj\<lparr> pg_Conditions := SetStatusCondition want (pg_Conditions obj) \<rparr>"
  obtain r w' where u: "rc_StatusUpdate (gc_client C) (?obj, v) (gr_world st) = (r, w')" by fastforce
  from st have "rs_currentObj (gr_resource st) = Some (obj, v)" "rs_changedObj (gr_resource st) = Some (?obj, v)" by simp_all
  from gpu_update_conditions[OF this False u] obtain st2 where
    s2: "gpu_update C st = (case r of Inl err \<Rightarrow> Some (wrapped ''error updating status subresource: '' err) | Inr _ \<Rightarrow> None, st2)"
      "gr_world st2 = w'" by blast
  show ?thesis
  proof (cases r)
    case (Inl err)
    with updateResource_requeue[OF run] s2 gpu_client_lawsD(2)[OF laws u[unfolded Inl]] show ?thesis
      by (simp add: reconcile_outcome_def)
  next
    case (Inr stored)
    with run s2(1) have "st' = st2" by (simp add: updateResource_def)
    moreover obtain o' v' where "stored = (o', v')" by fastforce
    ultimately show ?thesis
      using status_write_effect[OF laws known refl u[unfolded Inr \<open>stored = (o', v')\<close>]] s2(2) by (auto simp: reconcile_outcome_def)
  qed
qed

text \<open>
  \<^bold>\<open>C27.\<close> \<open>DriverReady\<close> says what the validator pods say, and nothing else is written. If the reconciliation of an NVIDIA GPU that knows
  its node ends without error after the pods were listed, then it had nothing to change, or is repeated after a conflict, or it
  replaced the condition in the very version of the object it had read, leaving every other field and condition and every
  other object alone, whatever other programs did in the meantime. The condition is true exactly if a validator pod on the node is ready.
\<close>

theorem pgpu_Reconcile_driver_ready:
  assumes "gpu_client_laws C objs" and "pgpu_Reconcile C namespace name w = ((res, []), w')"
    and "rc_Get (gc_client C) name w = (Inr (obj, v), w1)"
    and "pg_NodeInfo obj = Some info" and "ni_NodeName info \<noteq> []" and "label_at (pg_Labels obj) LabelVendor = ''nvidia''"
    and "gc_ListPods C namespace validator_labels w1 = (Inr pods, w2)"
  shows "\<exists>want. sc_Type want = DriverReadyType
    \<and> (sc_Status want = ConditionTrue \<longleftrightarrow> (\<exists>pod \<in> set pods. pod_NodeName pod = ni_NodeName info \<and> podReady pod))
    \<and> reconcile_outcome objs want (obj, v) w2 res w'"
proof -
  define want where "want = driver_condition (pg_Generation obj) (validation_of pods (ni_NodeName info))"
  define obj' where "obj' = obj\<lparr> pg_Conditions := SetStatusCondition want (pg_Conditions obj) \<rparr>"
  define st where "st = \<lparr> gr_resource = \<lparr> rs_currentObj = Some (obj, v), rs_changedObj = Some (obj', v) \<rparr>,
    gr_world = recordDriverReadyEvent C obj' obj w2 \<rparr>"
  from gpu_client_lawsD(1)[OF assms(1,3)] have known: "objs w1 (pg_Name obj) = Some (obj, v)" by simp
  have handled: "ValidatorHandler_Handle C (Some namespace)
      \<lparr> gr_resource = \<lparr> rs_currentObj = Some (obj, v), rs_changedObj = Some (obj, v) \<rparr>, gr_world = w1 \<rparr> = ((zero_result, None), st)"
    using assms(4-7)
    by (simp add: ValidatorHandler_Handle_def Validator_Status_def Manager_Update_def st_def obj'_def want_def Let_def)
  obtain r u st' where u: "updateResource (gpu_update C) zero_result st = ((r, u), st')" by (metis prod.collapse)
  have "u = None \<and> r = res \<and> gr_world st' = w'"
    using assms(2) handled u
    by (cases u) (auto simp: pgpu_Reconcile_def Resource_Fetch_def FetchObject_def assms(3) IsEmpty_def Reconcile_def runHandlers_def
        MergeResults_def)
  with u update_outcome[OF assms(1) known, of st want res st'] event_objs[OF assms(1)]
  have "reconcile_outcome objs want (obj, v) w2 res w'"
    by (auto simp: st_def obj'_def want_def reconcile_outcome_def)
  moreover have "sc_Type want = DriverReadyType" by (simp add: want_def)
  moreover have "sc_Status want = ConditionTrue \<longleftrightarrow> (\<exists>pod \<in> set pods. pod_NodeName pod = ni_NodeName info \<and> podReady pod)"
    unfolding want_def by (rule driver_condition_true[OF assms(5)])
  ultimately show ?thesis by blast
qed

text \<open>A server with one GPU, whose world says whether its condition has been set, and a ready validator pod.\<close>

definition ex_gpu :: "bool \<Rightarrow> PhysicalGPU" where
  "ex_gpu ready = (new_PhysicalGPU ''g1'' [(LabelVendor, ''nvidia'')])\<lparr> pg_NodeInfo := Some (no_node_info\<lparr> ni_NodeName := ''n1'' \<rparr>),
     pg_Conditions := (if ready then [driver_condition 0 \<lparr> vr_Present = True, vr_Ready = True, vr_Message = [] \<rparr>] else []) \<rparr>"

definition ex_version :: "bool \<Rightarrow> version" where
  "ex_version ready = (if ready then ''2'' else ''1'')"

definition ex_objs :: "bool \<Rightarrow> string \<Rightarrow> gpu_object option" where
  "ex_objs w = [''g1'' \<mapsto> (ex_gpu w, ex_version w)]"

definition ex_pod :: Pod where
  "ex_pod = \<lparr> pod_NodeName = ''n1'', pod_Conditions = [\<lparr> pc_Type = ''Ready'', pc_Status = ConditionTrue \<rparr>] \<rparr>"

definition ex_client :: "bool GpuClient" where
  "ex_client = \<lparr> gc_client = \<lparr>
       rc_Get = (\<lambda>name w. (if name = ''g1'' then Inr (ex_gpu w, ex_version w) else Inl (ApiNotFound name), w)),
       rc_StatusUpdate = (\<lambda>o' w. if o' = (ex_gpu True, ex_version w) then (Inr (ex_gpu True, ex_version True), True) else (Inl (ApiConflict ''changed''), w)),
       rc_Patch = (\<lambda>o' ops w. (Inl (ApiOther ''not allowed''), w)) \<rparr>,
     gc_ListPods = (\<lambda>_ _ w. (Inr [ex_pod], w)), gc_ListGPUs = (\<lambda>_ w. (Inr [], w)), gc_Event = None \<rparr>"

lemma ex_gpu_name [simp]: "pg_Name (ex_gpu w) = ''g1''" "ex_version w = ex_version w' \<longleftrightarrow> w = w'"
  by (simp_all add: ex_gpu_def new_PhysicalGPU_def ex_version_def)

lemma ex_client_laws: "gpu_client_laws ex_client ex_objs"
  by (auto simp: gpu_client_laws_def ex_client_def ex_objs_def ex_gpu_def new_PhysicalGPU_def split: if_splits)

theorem pgpu_Reconcile_driver_ready_witness:
  "\<exists>want. reconcile_outcome ex_objs want (ex_gpu False, ''1'') False zero_result True"
proof -
  have "pgpu_Reconcile ex_client ''ns'' ''g1'' False = ((zero_result, []), True)" by code_simp
  moreover have "rc_Get (gc_client ex_client) ''g1'' False = (Inr (ex_gpu False, ''1''), False)"
    by (simp add: ex_client_def ex_version_def)
  moreover have "pg_NodeInfo (ex_gpu False) = Some (no_node_info\<lparr> ni_NodeName := ''n1'' \<rparr>)"
    "label_at (pg_Labels (ex_gpu False)) LabelVendor = ''nvidia''" by (simp_all add: ex_gpu_def new_PhysicalGPU_def label_at_def)
  moreover have "gc_ListPods ex_client ''ns'' validator_labels False = (Inr [ex_pod], False)" by (simp add: ex_client_def)
  ultimately show ?thesis
    using pgpu_Reconcile_driver_ready[OF ex_client_laws, of "''ns''" "''g1''" False zero_result True] by fastforce
qed

end
