(* ===== verification/Sharing.thy ===== *)
theory Sharing
  imports PrepareService GoPaths
begin

text \<open>
  The managers of shared GPUs: \<open>pkg/dra/adapters/mps\<close>, which starts and stops control daemons of the CUDA multi-process service,
  \<open>pkg/dra/adapters/timeslicing\<close>, which sets time slices through \<open>nvidia-smi\<close>, and \<open>pkg/dra/adapters/nvml/checker.go\<close>, which
  refuses GPUs that run processes.

  Parameters are the file system and the programs that are run (\<open>MpsHost\<close>) and NVML. An environment is a list of \<open>KEY=value\<close>
  entries, of which the last one for a key counts. Paths are joined with a slash; formatting of error texts is abbreviated.
\<close>

section \<open>Environment variables\<close>

record 'w MpsHost =
  mh_Environ :: "string list"
  mh_isRegularFile :: "string \<Rightarrow> bool"
  mh_isDir :: "string \<Rightarrow> bool"
  mh_LookPath :: "string \<Rightarrow> string option"
  mh_exists :: "string \<Rightarrow> 'w \<Rightarrow> bool"
  mh_MkdirAll :: "string \<Rightarrow> 'w \<Rightarrow> string option \<times> 'w"
  mh_WriteFile :: "string \<Rightarrow> string \<Rightarrow> 'w \<Rightarrow> string option \<times> 'w"
  mh_RemoveAll :: "string \<Rightarrow> 'w \<Rightarrow> string option \<times> 'w"
  mh_Exec :: "string \<Rightarrow> string list \<Rightarrow> string list \<Rightarrow> string \<Rightarrow> 'w \<Rightarrow> string option \<times> 'w"

fun setEnv :: "string list \<Rightarrow> string \<Rightarrow> string \<Rightarrow> string list" where
  "setEnv [] key val = [key @ ''='' @ val]"
| "setEnv (entry # env) key val =
     (if HasPrefix entry (key @ ''='') then (key @ ''='' @ val) # env else entry # setEnv env key val)"

text \<open>\<open>prependEnv\<close> is the loop that \<open>withLDLibraryPath\<close> and \<open>withLDPreload\<close> share.\<close>

fun prependEnv :: "string list \<Rightarrow> string \<Rightarrow> string \<Rightarrow> string list" where
  "prependEnv [] key val = [key @ ''='' @ val]"
| "prependEnv (entry # env) key val =
     (if HasPrefix entry (key @ ''='')
      then (let current = drop (length (key @ ''='')) entry in
            (if current = [] then key @ ''='' @ val else key @ ''='' @ val @ '':'' @ current) # env)
      else entry # prependEnv env key val)"

definition library_dirs :: "string list" where
  "library_dirs = [''usr/lib64'', ''usr/lib/x86_64-linux-gnu'', ''usr/lib/aarch64-linux-gnu'', ''lib64'', ''lib/x86_64-linux-gnu'',
     ''lib/aarch64-linux-gnu'']"

definition withLDLibraryPath :: "'w MpsHost \<Rightarrow> string list \<Rightarrow> string \<Rightarrow> string list" where
  "withLDLibraryPath H env driverRoot =
     (let driverRoot = TrimSpace driverRoot;
          paths = filter (mh_isDir H) (map (\<lambda>dir. driverRoot @ ''/'' @ dir) library_dirs)
      in if driverRoot = [] \<or> paths = [] then env else prependEnv env ''LD_LIBRARY_PATH'' (Join paths '':''))"

definition withLDPreload :: "string list \<Rightarrow> string \<Rightarrow> string list" where
  "withLDPreload env libPath = (if libPath = [] then env else prependEnv env ''LD_PRELOAD'' libPath)"

definition resolveBinary :: "'w MpsHost \<Rightarrow> string \<Rightarrow> string list \<Rightarrow> string \<Rightarrow> string" where
  "resolveBinary H root relDirs name =
     (let root = TrimSpace root in
      if root = [] then []
      else (case find (mh_isRegularFile H) (map (\<lambda>rel. root @ ''/'' @ rel @ ''/'' @ name) relDirs) of None \<Rightarrow> [] | Some path \<Rightarrow> path))"

section \<open>The MPS manager\<close>

record mps_options =
  mo_PluginPath :: string
  mo_DriverRoot :: string
  mo_ControlBinPath :: string
  mo_ShmDir :: string

record mps_manager =
  mm_controlBinary :: string
  mm_pluginPath :: string
  mm_driverRoot :: string
  mm_shmDir :: string

definition mps_New :: "'w MpsHost \<Rightarrow> mps_options \<Rightarrow> mps_manager" where
  "mps_New H opts =
     (let given = TrimSpace (mo_ControlBinPath opts);
          found = resolveBinary H (mo_DriverRoot opts) [''usr/bin'', ''usr/sbin'', ''bin'', ''sbin''] ''nvidia-cuda-mps-control'';
          path = (if given \<noteq> [] then given
                  else if found \<noteq> [] then found
                  else case mh_LookPath H ''nvidia-cuda-mps-control'' of None \<Rightarrow> [] | Some p \<Rightarrow> p);
          shm = TrimSpace (mo_ShmDir opts)
      in \<lparr> mm_controlBinary = path, mm_pluginPath = TrimSpace (mo_PluginPath opts), mm_driverRoot = TrimSpace (mo_DriverRoot opts),
           mm_shmDir = (if shm = [] then ''/dev/shm'' else shm) \<rparr>)"

fun mps_unique :: "string list \<Rightarrow> string list \<Rightarrow> string list" where
  "mps_unique [] seen = []"
| "mps_unique (v # vs) seen =
     (let val = TrimSpace v in
      if val = [] \<or> val \<in> set seen then mps_unique vs seen else val # mps_unique vs (val # seen))"

definition controlEnv :: "'w MpsHost \<Rightarrow> mps_manager \<Rightarrow> string list \<Rightarrow> string \<Rightarrow> string \<Rightarrow> string list" where
  "controlEnv H m deviceUUIDs pipeDir logDir =
     (let env = mh_Environ H;
          env1 = (if deviceUUIDs \<noteq> [] then setEnv env ''CUDA_VISIBLE_DEVICES'' (Join deviceUUIDs '','') else env);
          env2 = (if pipeDir \<noteq> [] then setEnv env1 ''CUDA_MPS_PIPE_DIRECTORY'' pipeDir else env1);
          env3 = (if logDir \<noteq> [] then setEnv env2 ''CUDA_MPS_LOG_DIRECTORY'' logDir else env2)
      in withLDLibraryPath H env3 (mm_driverRoot m))"

definition runCommand :: "'w MpsHost \<Rightarrow> mps_manager \<Rightarrow> string \<Rightarrow> string \<Rightarrow> string \<Rightarrow> 'w \<Rightarrow> string option \<times> 'w" where
  "runCommand H m pipeDir logDir command w =
     (if TrimSpace command = [] then (None, w)
      else
        (case mh_Exec H (mm_controlBinary m) [] (controlEnv H m [] pipeDir logDir) (command @ [CHR 0x0A]) w of
           (None, w') \<Rightarrow> (None, w')
         | (Some output, w') \<Rightarrow> (Some (''MPS command '' @ command @ '' failed: '' @ TrimSpace output), w')))"

fun run_commands :: "'w MpsHost \<Rightarrow> mps_manager \<Rightarrow> string \<Rightarrow> string \<Rightarrow> string list \<Rightarrow> 'w \<Rightarrow> string option \<times> 'w" where
  "run_commands H m pipeDir logDir [] w = (None, w)"
| "run_commands H m pipeDir logDir (command # rest) w =
     (case runCommand H m pipeDir logDir command w of
        (None, w') \<Rightarrow> run_commands H m pipeDir logDir rest w'
      | (Some err, w') \<Rightarrow> (Some err, w'))"

definition percentage_commands :: "'q MpsConfig \<Rightarrow> string list" where
  "percentage_commands cfg =
     (case mc_DefaultActiveThreadPercentage cfg of
        None \<Rightarrow> []
      | Some p \<Rightarrow> [''set_default_active_thread_percentage '' @ int_string p])"

definition limit_commands :: "(string, string) gomap \<Rightarrow> string list" where
  "limit_commands limits =
     map (\<lambda>uuid. ''set_default_device_pinned_mem_limit '' @ uuid @ '' '' @ (case mget limits uuid of None \<Rightarrow> [] | Some l \<Rightarrow> l))
       (sort (map fst limits))"

definition applyConfig ::
  "'q quantity_api \<Rightarrow> 'w MpsHost \<Rightarrow> mps_manager \<Rightarrow> string list \<Rightarrow> string \<Rightarrow> string \<Rightarrow> 'q MpsConfig option \<Rightarrow> 'w \<Rightarrow> string option \<times> 'w" where
  "applyConfig Q H m deviceUUIDs pipeDir logDir config w =
     (case config of
        None \<Rightarrow> (None, w)
      | Some cfg \<Rightarrow>
          (case run_commands H m pipeDir logDir (percentage_commands cfg) w of
             (Some err, w1) \<Rightarrow> (Some err, w1)
           | (None, w1) \<Rightarrow>
               (case MpsPerDevicePinnedMemoryLimit_Normalize Q (mc_DefaultPerDevicePinnedMemoryLimit cfg) deviceUUIDs
                       (mc_DefaultPinnedDeviceMemoryLimit cfg) of
                  Inl _ \<Rightarrow> (Some ''normalize MPS memory limits'', w1)
                | Inr limits \<Rightarrow> run_commands H m pipeDir logDir (limit_commands limits) w1)))"

definition rootDir :: "mps_manager \<Rightarrow> string \<Rightarrow> string" where
  "rootDir m controlID = mm_pluginPath m @ ''/mps/'' @ controlID"

definition startupLog :: "mps_manager \<Rightarrow> string \<Rightarrow> string" where
  "startupLog m controlID = rootDir m controlID @ ''/log/startup.log''"

definition mps_state :: "mps_manager \<Rightarrow> string \<Rightarrow> PreparedMpsState" where
  "mps_state m controlID =
     \<lparr> pms_ControlID = controlID, pms_PipeDir = rootDir m controlID @ ''/pipe'', pms_ShmDir = mm_shmDir m,
       pms_LogDir = rootDir m controlID @ ''/log'' \<rparr>"

definition start_daemon ::
  "'q quantity_api \<Rightarrow> 'w MpsHost \<Rightarrow> mps_manager \<Rightarrow> string \<Rightarrow> string list \<Rightarrow> 'q MpsConfig option \<Rightarrow> 'w \<Rightarrow> (string + PreparedMpsState) \<times> 'w" where
  "start_daemon Q H m controlID deviceUUIDs config w =
     (let pipeDir = rootDir m controlID @ ''/pipe''; logDir = rootDir m controlID @ ''/log'' in
      case mh_Exec H (mm_controlBinary m) [''-d''] (controlEnv H m deviceUUIDs pipeDir logDir) [] w of
        (Some output, w1) \<Rightarrow> (Inl (''start MPS control daemon: '' @ TrimSpace output), w1)
      | (None, w1) \<Rightarrow>
          (case applyConfig Q H m deviceUUIDs pipeDir logDir config w1 of
             (Some err, w2) \<Rightarrow> (Inl err, w2)
           | (None, w2) \<Rightarrow>
               (case mh_WriteFile H (startupLog m controlID) (''startup complete'' @ [CHR 0x0A]) w2 of
                  (Some err, w3) \<Rightarrow> (Inl (''write MPS startup log: '' @ err), w3)
                | (None, w3) \<Rightarrow> (Inr (mps_state m controlID), w3))))"

definition mps_Manager_Start ::
  "'q quantity_api \<Rightarrow> 'w MpsHost \<Rightarrow> mps_manager \<Rightarrow> 'q MpsPrepareRequest \<Rightarrow> 'w \<Rightarrow> (string + PreparedMpsState) \<times> 'w" where
  "mps_Manager_Start Q H m req w =
     (let controlID = TrimSpace (mpq_ControlID req); deviceUUIDs = mps_unique (mpq_DeviceUUIDs req) [] in
      if mm_controlBinary m = [] then (Inl ''mps control binary is not configured'', w)
      else if mm_pluginPath m = [] then (Inl ''plugin path is not configured'', w)
      else if controlID = [] then (Inl ''mps control id is empty'', w)
      else if deviceUUIDs = [] then (Inl ''no device UUIDs provided for MPS'', w)
      else
        (case mh_MkdirAll H (rootDir m controlID @ ''/pipe'') w of
           (Some err, w1) \<Rightarrow> (Inl (''create MPS pipe dir: '' @ err), w1)
         | (None, w1) \<Rightarrow>
             (case mh_MkdirAll H (rootDir m controlID @ ''/log'') w1 of
                (Some err, w2) \<Rightarrow> (Inl (''create MPS log dir: '' @ err), w2)
              | (None, w2) \<Rightarrow>
                  if mh_exists H (startupLog m controlID) w2 then (Inr (mps_state m controlID), w2)
                  else start_daemon Q H m controlID deviceUUIDs (mpq_Config req) w2)))"

definition mps_Manager_Stop :: "'w MpsHost \<Rightarrow> mps_manager \<Rightarrow> PreparedMpsState \<Rightarrow> 'w \<Rightarrow> string option \<times> 'w" where
  "mps_Manager_Stop H m state w =
     (let controlID = TrimSpace (pms_ControlID state);
          pipeDir = (let p = TrimSpace (pms_PipeDir state) in if p = [] then rootDir m controlID @ ''/pipe'' else p);
          logDir = (let l = TrimSpace (pms_LogDir state) in if l = [] then rootDir m controlID @ ''/log'' else l)
      in if controlID = [] then (None, w)
         else
           (case runCommand H m pipeDir logDir ''quit'' w of
              (Some err, w1) \<Rightarrow> (Some err, w1)
            | (None, w1) \<Rightarrow>
                if mm_pluginPath m = [] then (None, w1)
                else
                  (case mh_RemoveAll H (rootDir m controlID) w1 of
                     (Some err, w2) \<Rightarrow> (Some (''remove MPS control dir: '' @ err), w2)
                   | (None, w2) \<Rightarrow> (None, w2))))"

definition mps_ports :: "'q quantity_api \<Rightarrow> 'w MpsHost \<Rightarrow> mps_manager \<Rightarrow> ('q, 'w) MpsManager" where
  "mps_ports Q H m = \<lparr> mps_Start = mps_Manager_Start Q H m, mps_Stop = mps_Manager_Stop H m \<rparr>"

section \<open>The time-slicing manager\<close>

record ts_manager =
  tm_nvidiaSMIPath :: string
  tm_nvmlLibPath :: string

definition ts_New :: "'w MpsHost \<Rightarrow> string \<Rightarrow> string \<Rightarrow> string \<Rightarrow> ts_manager" where
  "ts_New H driverRoot nvidiaSMIPath nvmlLibPath =
     (let given = TrimSpace nvidiaSMIPath;
          found = resolveBinary H driverRoot [''opt/bin'', ''usr/bin'', ''usr/sbin'', ''bin'', ''sbin''] ''nvidia-smi'';
          lib = TrimSpace nvmlLibPath
      in \<lparr> tm_nvidiaSMIPath = (if given \<noteq> [] then given else if found \<noteq> [] then found
             else case mh_LookPath H ''nvidia-smi'' of None \<Rightarrow> [] | Some p \<Rightarrow> p),
           tm_nvmlLibPath = (if lib \<noteq> [] then lib else resolveBinary H driverRoot library_dirs ''libnvidia-ml.so.1'') \<rparr>)"

definition smi_run :: "'w MpsHost \<Rightarrow> ts_manager \<Rightarrow> string list \<Rightarrow> 'w \<Rightarrow> string option \<times> 'w" where
  "smi_run H m args w =
     (case mh_Exec H (tm_nvidiaSMIPath m) args (withLDPreload (mh_Environ H) (tm_nvmlLibPath m)) [] w of
        (None, w') \<Rightarrow> (None, w')
      | (Some output, w') \<Rightarrow> (Some (''nvidia-smi failed: '' @ TrimSpace output), w'))"

fun slice_loop :: "'w MpsHost \<Rightarrow> ts_manager \<Rightarrow> int64 \<Rightarrow> string list \<Rightarrow> string list \<Rightarrow> 'w \<Rightarrow> string option \<times> 'w" where
  "slice_loop H m interval [] seen w = (None, w)"
| "slice_loop H m interval (raw # rest) seen w =
     (let uuid = TrimSpace raw in
      if uuid = [] \<or> uuid \<in> set seen then slice_loop H m interval rest seen w
      else
        (case smi_run H m [''-i'', uuid, ''-c'', ''DEFAULT''] w of
           (Some err, w1) \<Rightarrow> (Some (''set compute mode for '' @ uuid @ '': '' @ err), w1)
         | (None, w1) \<Rightarrow>
             (case smi_run H m [''compute-policy'', ''-i'', uuid, ''--set-timeslice'', int_string interval] w1 of
                (Some err, w2) \<Rightarrow> (Some (''set time-slice for '' @ uuid @ '': '' @ err), w2)
              | (None, w2) \<Rightarrow> slice_loop H m interval rest (uuid # seen) w2)))"

definition SetTimeSlice :: "'w MpsHost \<Rightarrow> ts_manager \<Rightarrow> string list \<Rightarrow> TimeSlicingConfig option \<Rightarrow> 'w \<Rightarrow> string option \<times> 'w" where
  "SetTimeSlice H m deviceUUIDs config w =
     (if tm_nvidiaSMIPath m = [] then (Some ''nvidia-smi path is not configured'', w)
      else
        (case Option.bind config ts_Interval of
           None \<Rightarrow> (Some ''time-slicing interval is not set'', w)
         | Some i \<Rightarrow>
             if TimeSliceInterval_Int i < 0 then (Some (''unsupported time-slice interval '' @ i), w)
             else slice_loop H m (TimeSliceInterval_Int i) deviceUUIDs [] w))"

section \<open>The process checker\<close>

record 'w NvmlChecker =
  nc_Init :: "'w \<Rightarrow> string option \<times> 'w"
  nc_Shutdown :: "'w \<Rightarrow> 'w"
  nc_Device :: "string \<Rightarrow> 'w \<Rightarrow> string + nat"
  nc_Compute :: "nat \<Rightarrow> 'w \<Rightarrow> string + nat list"
  nc_Graphics :: "nat \<Rightarrow> 'w \<Rightarrow> string + nat list"

definition hex_digit :: "char \<Rightarrow> nat option" where
  "hex_digit c =
     (let n = of_char c :: nat in
      if 48 \<le> n \<and> n \<le> 57 then Some (n - 48)
      else if 97 \<le> n \<and> n \<le> 102 then Some (n - 87)
      else if 65 \<le> n \<and> n \<le> 70 then Some (n - 55) else None)"

fun parse_hex :: "string \<Rightarrow> nat \<Rightarrow> nat option" where
  "parse_hex [] acc = Some acc"
| "parse_hex (c # s) acc = (case hex_digit c of None \<Rightarrow> None | Some d \<Rightarrow> parse_hex s (16 * acc + d))"

definition hex_char :: "nat \<Rightarrow> char" where
  "hex_char d = (char_of (if d < 10 then 48 + d else 87 + d) :: char)"

fun hex8 :: "nat \<Rightarrow> nat \<Rightarrow> string" where
  "hex8 0 v = []"
| "hex8 (Suc n) v = hex8 n (v div 16) @ [hex_char (v mod 16)]"

text \<open>\<open>strconv.ParseUint\<close> with base 16 and 32 bits on at most seven digits cannot overflow; \<open>%08x\<close> of its value is \<open>hex8 8\<close>.\<close>

definition normalizePCIBusID :: "string \<Rightarrow> string" where
  "normalizePCIBusID raw =
     (let busID = TrimSpace raw in
      case Split (CHR '':'') busID of
        [domain, bus, dev] \<Rightarrow>
          if length domain < 8 \<and> domain \<noteq> []
          then (case parse_hex domain 0 of None \<Rightarrow> busID | Some v \<Rightarrow> Join [hex8 8 v, bus, dev] '':'')
          else busID
      | _ \<Rightarrow> busID)"

definition gpu_processes :: "'w NvmlChecker \<Rightarrow> string \<Rightarrow> 'w \<Rightarrow> string option" where
  "gpu_processes N pciBusID w =
     (case nc_Device N (normalizePCIBusID pciBusID) w of
        Inl err \<Rightarrow> Some (''nvml device lookup failed for '' @ pciBusID @ '': '' @ err)
      | Inr dev \<Rightarrow>
          (case nc_Compute N dev w of
             Inl err \<Rightarrow> Some (''nvml compute process query failed for '' @ pciBusID @ '': '' @ err)
           | Inr compute \<Rightarrow>
               if compute \<noteq> [] then Some (''gpu '' @ pciBusID @ '' has running compute processes'')
               else
                 (case nc_Graphics N dev w of
                    Inl err \<Rightarrow> Some (''nvml graphics process query failed for '' @ pciBusID @ '': '' @ err)
                  | Inr graphics \<Rightarrow>
                      if graphics \<noteq> [] then Some (''gpu '' @ pciBusID @ '' has running graphics processes'') else None)))"

definition EnsureGPUFree :: "'w NvmlChecker option \<Rightarrow> string option \<Rightarrow> string \<Rightarrow> 'w \<Rightarrow> string option \<times> 'w" where
  "EnsureGPUFree checker cancelled pciBusID w =
     (case checker of
        None \<Rightarrow> (Some ''nvml checker is not configured'', w)
      | Some N \<Rightarrow>
          (case cancelled of
             Some err \<Rightarrow> (Some err, w)
           | None \<Rightarrow>
               (case nc_Init N w of
                  (Some err, w1) \<Rightarrow> (Some (''nvml init failed: '' @ err), w1)
                | (None, w1) \<Rightarrow> (gpu_processes N pciBusID w1, nc_Shutdown N w1))))"


end
