(* ===== verification/SharingSafety.thy ===== *)
theory SharingSafety
  imports Sharing
begin

text \<open>
  Correctness of the managers of shared GPUs (\<open>Sharing\<close>): the startup log of an MPS daemon appears only once the daemon has
  accepted its whole configuration; time slices are set once per GPU; a GPU passes the process check only if it is idle.
\<close>

section \<open>Environment variables\<close>

definition entries_of :: "string list \<Rightarrow> string \<Rightarrow> string list" where
  "entries_of env key = filter (\<lambda>e. HasPrefix e (key @ ''='')) env"

definition env_get :: "string list \<Rightarrow> string \<Rightarrow> string option" where
  "env_get env key = (if entries_of env key = [] then None else Some (drop (length key + 1) (last (entries_of env key))))"

definition env_unique :: "string list \<Rightarrow> string \<Rightarrow> bool" where
  "env_unique env key \<longleftrightarrow> length (entries_of env key) \<le> 1"

lemma HasPrefix_append [simp]: "HasPrefix (key @ CHR ''='' # val) (key @ ''='')"
  by (simp add: HasPrefix_def)

lemma HasPrefix_split: "HasPrefix s p \<Longrightarrow> \<exists>rest. s = p @ rest"
  unfolding HasPrefix_def by (metis append_take_drop_id)

lemma takeWhile_key: "CHR ''='' \<notin> set key \<Longrightarrow> takeWhile (\<lambda>c. c \<noteq> CHR ''='') (key @ CHR ''='' # rest) = key"
  by (induction key) auto

lemma HasPrefix_key:
  assumes "HasPrefix e (key @ ''='')" "HasPrefix e (key' @ ''='')" "CHR ''='' \<notin> set key" "CHR ''='' \<notin> set key'"
  shows "key = key'"
proof -
  obtain r where "e = key @ CHR ''='' # r" using HasPrefix_split[OF assms(1)] by auto
  moreover obtain r' where "e = key' @ CHR ''='' # r'" using HasPrefix_split[OF assms(2)] by auto
  ultimately show ?thesis using takeWhile_key[OF assms(3), of r] takeWhile_key[OF assms(4), of r'] by simp
qed

lemma entries_setEnv: "env_unique env key \<Longrightarrow> entries_of (setEnv env key val) key = [key @ CHR ''='' # val]"
  by (induction env) (auto simp: entries_of_def env_unique_def)

lemma entries_set_other:
  assumes "key \<noteq> key'" "CHR ''='' \<notin> set key" "CHR ''='' \<notin> set key'"
  shows "entries_of (setEnv env key val) key' = entries_of env key'"
    and "entries_of (prependEnv env key val) key' = entries_of env key'"
proof -
  have no: "\<not> HasPrefix e (key' @ ''='')" if "HasPrefix e (key @ ''='')" for e
    using HasPrefix_key[OF that] assms by blast
  have new: "\<not> HasPrefix (key @ CHR ''='' # v) (key' @ ''='')" for v
    by (rule no) simp
  show "entries_of (setEnv env key val) key' = entries_of env key'"
    by (induction env) (auto simp: entries_of_def no new)
  show "entries_of (prependEnv env key val) key' = entries_of env key'"
    by (induction env) (auto simp: entries_of_def Let_def no new)
qed

definition PipeKey :: string where "PipeKey = ''CUDA_MPS_PIPE_DIRECTORY''"

lemma controlEnv_pipe:
  assumes "env_unique (mh_Environ H) PipeKey" "pipeDir \<noteq> []"
  shows "env_get (controlEnv H m uuids pipeDir logDir) PipeKey = Some pipeDir"
proof -
  have "env_unique (setEnv (mh_Environ H) ''CUDA_VISIBLE_DEVICES'' v) PipeKey" for v
    using assms(1) by (simp add: env_unique_def entries_set_other PipeKey_def)
  with assms have "entries_of (controlEnv H m uuids pipeDir logDir) PipeKey = [PipeKey @ CHR ''='' # pipeDir]"
    by (simp add: controlEnv_def withLDLibraryPath_def Let_def entries_set_other PipeKey_def entries_setEnv)
  then show ?thesis by (simp add: env_get_def)
qed

section \<open>Starting a daemon\<close>

text \<open>
  What the host promises, with the commands \<open>served w pipe\<close> the daemon behind a pipe directory has accepted since it was started:
  a program that fails leaves them as they are; the control program started with \<open>-d\<close> begins a daemon that has accepted none, and
  without arguments it passes on its input. It creates no file called \<open>startup.log\<close>; neither do \<open>MkdirAll\<close>, except that it may
  create directories on its path, and writing other files.
\<close>

type_synonym 'w served = "'w \<Rightarrow> string option \<Rightarrow> string list"

definition exec_laws :: "'w MpsHost \<Rightarrow> string \<Rightarrow> 'w served \<Rightarrow> bool" where
  "exec_laws H bin served \<longleftrightarrow>
     (\<forall>args env stdin w e w'. mh_Exec H bin args env stdin w = (e, w') \<longrightarrow>
        (\<forall>dir. mh_exists H (dir @ ''/startup.log'') w' = mh_exists H (dir @ ''/startup.log'') w) \<and>
        (e \<noteq> None \<longrightarrow> served w' = served w) \<and>
        (e = None \<and> args = [''-d''] \<longrightarrow> served w' = (served w)(env_get env PipeKey := [])) \<and>
        (e = None \<and> args = [] \<longrightarrow>
           served w' = (served w)(env_get env PipeKey := served w (env_get env PipeKey) @ [stdin])))"

definition file_laws :: "'w MpsHost \<Rightarrow> 'w served \<Rightarrow> bool" where
  "file_laws H served \<longleftrightarrow>
     (\<forall>path w e w'. mh_MkdirAll H path w = (e, w') \<longrightarrow>
        served w' = served w \<and> (\<forall>p. \<not> HasPrefix path p \<longrightarrow> mh_exists H p w' = mh_exists H p w)) \<and>
     (\<forall>path text w e w'. mh_WriteFile H path text w = (e, w') \<longrightarrow>
        served w' = served w \<and> (e = None \<longrightarrow> mh_exists H path w')) \<and>
     (\<forall>path w w'. mh_RemoveAll H path w = (None, w') \<longrightarrow> (\<forall>rest. \<not> mh_exists H (path @ CHR ''/'' # rest) w'))"

lemma exec_lawsD:
  assumes "exec_laws H bin served" "mh_Exec H bin args env stdin w = (e, w')"
  shows "mh_exists H (dir @ ''/startup.log'') w' = mh_exists H (dir @ ''/startup.log'') w"
    and "e \<noteq> None \<Longrightarrow> served w' = served w"
    and "e = None \<Longrightarrow> args = [''-d''] \<Longrightarrow> served w' = (served w)(env_get env PipeKey := [])"
    and "e = None \<Longrightarrow> args = [] \<Longrightarrow> served w' = (served w)(env_get env PipeKey := served w (env_get env PipeKey) @ [stdin])"
proof -
  from assms have "(\<forall>dir. mh_exists H (dir @ ''/startup.log'') w' = mh_exists H (dir @ ''/startup.log'') w) \<and>
      (e \<noteq> None \<longrightarrow> served w' = served w) \<and>
      (e = None \<and> args = [''-d''] \<longrightarrow> served w' = (served w)(env_get env PipeKey := [])) \<and>
      (e = None \<and> args = [] \<longrightarrow> served w' = (served w)(env_get env PipeKey := served w (env_get env PipeKey) @ [stdin]))"
    unfolding exec_laws_def by blast
  then show "mh_exists H (dir @ ''/startup.log'') w' = mh_exists H (dir @ ''/startup.log'') w"
    "e \<noteq> None \<Longrightarrow> served w' = served w"
    "e = None \<Longrightarrow> args = [''-d''] \<Longrightarrow> served w' = (served w)(env_get env PipeKey := [])"
    "e = None \<Longrightarrow> args = [] \<Longrightarrow> served w' = (served w)(env_get env PipeKey := served w (env_get env PipeKey) @ [stdin])"
    by simp_all
qed

lemma TrimSpace_Cons: "\<not> is_space c \<Longrightarrow> TrimSpace (c # s) \<noteq> []"
  by (auto simp: TrimSpace_def TrimBoth_def dropWhile_append dropWhile_eq_Nil_conv)

text \<open>Running commands appends them to what the daemon accepted, and touches no startup log, whether they succeed or not.\<close>

lemma run_commands_effect:
  assumes laws: "exec_laws H (mm_controlBinary m) served" and env: "env_unique (mh_Environ H) PipeKey" "pipeDir \<noteq> []"
  shows "run_commands H m pipeDir logDir cmds w = (e, w') \<Longrightarrow> list_all (\<lambda>c. TrimSpace c \<noteq> []) cmds \<Longrightarrow>
    mh_exists H (dir @ ''/startup.log'') w' = mh_exists H (dir @ ''/startup.log'') w
    \<and> (e = None \<longrightarrow> served w' (Some pipeDir) = served w (Some pipeDir) @ map (\<lambda>c. c @ [CHR 0x0A]) cmds)"
proof (induction cmds arbitrary: w)
  case (Cons c cmds)
  obtain e1 w1 where x: "mh_Exec H (mm_controlBinary m) [] (controlEnv H m [] pipeDir logDir) (c @ [CHR 0x0A]) w = (e1, w1)" by fastforce
  note eff = exec_lawsD[OF laws x]
  show ?case
  proof (cases e1)
    case None
    with Cons.prems x have "run_commands H m pipeDir logDir cmds w1 = (e, w')" by (simp add: runCommand_def)
    from Cons.IH[OF this] Cons.prems(2) eff(1) eff(4)[OF None refl] show ?thesis
      by (simp add: controlEnv_pipe[OF env])
  next
    case (Some out)
    with Cons.prems x eff(1) show ?thesis by (auto simp: runCommand_def)
  qed
qed simp

text \<open>The commands of a configuration, as lines: the percentage if there is one, then one limit per device, by UUID.\<close>

definition config_lines :: "'q quantity_api \<Rightarrow> string list \<Rightarrow> 'q MpsConfig option \<Rightarrow> string list \<Rightarrow> bool" where
  "config_lines Q uuids config lines \<longleftrightarrow>
     (case config of
        None \<Rightarrow> lines = []
      | Some cfg \<Rightarrow> \<exists>limits. MpsPerDevicePinnedMemoryLimit_Normalize Q (mc_DefaultPerDevicePinnedMemoryLimit cfg) uuids
            (mc_DefaultPinnedDeviceMemoryLimit cfg) = Inr limits
          \<and> lines = map (\<lambda>c. c @ [CHR 0x0A]) (percentage_commands cfg @ limit_commands limits))"

lemma commands_nonempty:
  "list_all (\<lambda>c. TrimSpace c \<noteq> []) (percentage_commands cfg)" "list_all (\<lambda>c. TrimSpace c \<noteq> []) (limit_commands limits)"
  using TrimSpace_Cons[of "CHR ''s''"]
  by (auto simp: percentage_commands_def limit_commands_def list_all_iff is_space_def split: option.splits)

lemma applyConfig_effect:
  assumes laws: "exec_laws H (mm_controlBinary m) served" and env: "env_unique (mh_Environ H) PipeKey" "pipeDir \<noteq> []"
    and run: "applyConfig Q H m uuids pipeDir logDir config w = (e, w')"
  shows "mh_exists H (dir @ ''/startup.log'') w' = mh_exists H (dir @ ''/startup.log'') w"
    and "e = None \<Longrightarrow> \<exists>lines. config_lines Q uuids config lines \<and> served w' (Some pipeDir) = served w (Some pipeDir) @ lines"
proof -
  have "mh_exists H (dir @ ''/startup.log'') w' = mh_exists H (dir @ ''/startup.log'') w
    \<and> (e = None \<longrightarrow> (\<exists>lines. config_lines Q uuids config lines \<and> served w' (Some pipeDir) = served w (Some pipeDir) @ lines))"
  proof (cases config)
    case None
    with run show ?thesis by (simp add: applyConfig_def config_lines_def)
  next
    case (Some cfg)
    obtain e1 w1 where p: "run_commands H m pipeDir logDir (percentage_commands cfg) w = (e1, w1)" by fastforce
    note first = run_commands_effect[OF laws env p commands_nonempty(1)]
    show ?thesis
    proof (cases "e1 = None \<and> (\<exists>limits. MpsPerDevicePinnedMemoryLimit_Normalize Q (mc_DefaultPerDevicePinnedMemoryLimit cfg) uuids
            (mc_DefaultPinnedDeviceMemoryLimit cfg) = Inr limits)")
      case True
      then obtain limits where n: "e1 = None" "MpsPerDevicePinnedMemoryLimit_Normalize Q (mc_DefaultPerDevicePinnedMemoryLimit cfg) uuids
            (mc_DefaultPinnedDeviceMemoryLimit cfg) = Inr limits" by blast
      with run Some p have l: "run_commands H m pipeDir logDir (limit_commands limits) w1 = (e, w')" by (simp add: applyConfig_def)
      from first run_commands_effect[OF laws env l commands_nonempty(2)] n Some show ?thesis
        by (simp add: config_lines_def)
    next
      case False
      with run Some p have "w' = w1 \<and> e \<noteq> None" by (auto simp: applyConfig_def split: option.splits sum.splits)
      with first show ?thesis by auto
    qed
  qed
  then show "mh_exists H (dir @ ''/startup.log'') w' = mh_exists H (dir @ ''/startup.log'') w"
    "e = None \<Longrightarrow> \<exists>lines. config_lines Q uuids config lines \<and> served w' (Some pipeDir) = served w (Some pipeDir) @ lines"
    by blast+
qed

lemma start_daemon_effect:
  assumes exec: "exec_laws H (mm_controlBinary m) served" and files: "file_laws H served"
    and env: "env_unique (mh_Environ H) PipeKey"
    and none: "\<not> mh_exists H (startupLog m cid) w"
    and run: "start_daemon Q H m cid uuids config w = (r, w')"
  shows "mh_exists H (startupLog m cid) w' \<Longrightarrow> config_lines Q uuids config (served w' (Some (rootDir m cid @ ''/pipe'')))"
    and "r = Inr st \<Longrightarrow> mh_exists H (startupLog m cid) w' \<and> st = mps_state m cid"
proof -
  let ?pipe = "rootDir m cid @ ''/pipe''" and ?log = "rootDir m cid @ ''/log''"
  have marker: "startupLog m cid = ?log @ ''/startup.log''" by (simp add: startupLog_def)
  obtain e1 w1 where d: "mh_Exec H (mm_controlBinary m) [''-d''] (controlEnv H m uuids ?pipe ?log) [] w = (e1, w1)" by fastforce
  note daemon = exec_lawsD[OF exec d]
  obtain e2 w2 where c: "applyConfig Q H m uuids ?pipe ?log config w1 = (e2, w2)" by fastforce
  have pipe: "?pipe \<noteq> []" by simp
  note config = applyConfig_effect(1)[OF exec env pipe c, of ?log] applyConfig_effect(2)[OF exec env pipe c] and log_same = daemon(1)[of ?log]
  obtain e3 w3 where f: "mh_WriteFile H (startupLog m cid) (''startup complete'' @ [CHR 0x0A]) w2 = (e3, w3)" by fastforce
  from files f have written: "served w3 = served w2" "e3 = None \<Longrightarrow> mh_exists H (startupLog m cid) w3"
    unfolding file_laws_def by blast+
  have "(mh_exists H (startupLog m cid) w' \<longrightarrow> config_lines Q uuids config (served w' (Some ?pipe)))
      \<and> (\<forall>st. r = Inr st \<longrightarrow> mh_exists H (startupLog m cid) w' \<and> st = mps_state m cid)"
  proof (cases "e1 = None \<and> e2 = None")
    case True
    with run d c f have "w' = w3 \<and> (e3 = None \<longrightarrow> r = Inr (mps_state m cid)) \<and> (e3 \<noteq> None \<longrightarrow> (\<exists>err. r = Inl err))"
      by (cases e3) (auto simp: start_daemon_def Let_def)
    moreover have "config_lines Q uuids config (served w2 (Some ?pipe))"
      using config(2) daemon(3) True by (auto simp: controlEnv_pipe[OF env pipe])
    ultimately show ?thesis using written by auto
  next
    case False
    with run d c have "(w' = w1 \<or> w' = w2) \<and> (\<exists>err. r = Inl err)" by (cases e1; cases e2) (auto simp: start_daemon_def Let_def)
    with none config(1) log_same marker show ?thesis by auto
  qed
  then show "mh_exists H (startupLog m cid) w' \<Longrightarrow> config_lines Q uuids config (served w' (Some ?pipe))"
    "r = Inr st \<Longrightarrow> mh_exists H (startupLog m cid) w' \<and> st = mps_state m cid" by blast+
qed

lemma mps_Start_cases:
  assumes "mps_Manager_Start Q H m req w = (r, w')"
    and "mh_MkdirAll H (rootDir m (TrimSpace (mpq_ControlID req)) @ ''/pipe'') w = (e1, w1)"
    and "mh_MkdirAll H (rootDir m (TrimSpace (mpq_ControlID req)) @ ''/log'') w1 = (e2, w2)"
  shows "(\<exists>err. r = Inl err \<and> (w' = w \<or> w' = w1 \<or> w' = w2))
    \<or> (r = Inr (mps_state m (TrimSpace (mpq_ControlID req))) \<and> w' = w2 \<and> mh_exists H (startupLog m (TrimSpace (mpq_ControlID req))) w2)
    \<or> (start_daemon Q H m (TrimSpace (mpq_ControlID req)) (mps_unique (mpq_DeviceUUIDs req) []) (mpq_Config req) w2 = (r, w')
        \<and> \<not> mh_exists H (startupLog m (TrimSpace (mpq_ControlID req))) w2)"
  using assms by (cases e1; cases e2) (auto simp: mps_Manager_Start_def Let_def split: if_splits)

text \<open>
  \<^bold>\<open>C32.\<close> The startup log stands for a configured daemon. Whatever call of the host fails, starting a daemon that has no startup log
  leaves one only if the daemon has been started afresh and has accepted exactly the commands of the requested configuration, in order; a
  successful start always leaves one and answers the directories of the control id. If there is a startup log already, no program is run.
\<close>

theorem mps_Start_marker:
  assumes "exec_laws H (mm_controlBinary m) served" and "file_laws H served" and "env_unique (mh_Environ H) PipeKey"
    and "mps_Manager_Start Q H m req w = (r, w')"
  shows "let cid = TrimSpace (mpq_ControlID req); pipe = Some (rootDir m cid @ ''/pipe'') in
    (\<forall>st. r = Inr st \<longrightarrow> mh_exists H (startupLog m cid) w' \<and> st = mps_state m cid)
    \<and> (mh_exists H (startupLog m cid) w' \<longrightarrow>
        (if mh_exists H (startupLog m cid) w then served w' = served w
         else config_lines Q (mps_unique (mpq_DeviceUUIDs req) []) (mpq_Config req) (served w' pipe)))"
proof -
  let ?cid = "TrimSpace (mpq_ControlID req)" and ?uuids = "mps_unique (mpq_DeviceUUIDs req) []"
  let ?log = "startupLog m ?cid"
  obtain e1 w1 where p: "mh_MkdirAll H (rootDir m ?cid @ ''/pipe'') w = (e1, w1)" by fastforce
  obtain e2 w2 where l: "mh_MkdirAll H (rootDir m ?cid @ ''/log'') w1 = (e2, w2)" by fastforce
  have dirs: "\<not> HasPrefix (rootDir m ?cid @ ''/pipe'') ?log" "\<not> HasPrefix (rootDir m ?cid @ ''/log'') ?log"
    by (auto simp: HasPrefix_def startupLog_def)
  from assms(2) p l dirs have same: "served w1 = served w" "served w2 = served w1"
    "mh_exists H ?log w1 = mh_exists H ?log w" "mh_exists H ?log w2 = mh_exists H ?log w1"
    unfolding file_laws_def by blast+
  from mps_Start_cases[OF assms(4) p l] same
  consider (early) err where "r = Inl err" "served w' = served w" "mh_exists H ?log w' = mh_exists H ?log w"
    | (kept) "r = Inr (mps_state m ?cid)" "w' = w2" "mh_exists H ?log w2"
    | (fresh) "start_daemon Q H m ?cid ?uuids (mpq_Config req) w2 = (r, w')" "\<not> mh_exists H ?log w2"
    by metis
  then show ?thesis
  proof cases
    case early
    then show ?thesis by (simp add: Let_def)
  next
    case kept
    with same show ?thesis by (simp add: Let_def)
  next
    case fresh
    with same start_daemon_effect[OF assms(1-3) fresh(2,1)] show ?thesis by (simp add: Let_def)
  qed
qed

text \<open>A successful stop leaves no startup log, so that the next start begins a daemon afresh.\<close>

lemma mps_Stop_unmarks:
  assumes "file_laws H served" and "mps_Manager_Stop H m st w = (None, w')" and "TrimSpace (pms_ControlID st) \<noteq> []" and "mm_pluginPath m \<noteq> []"
  shows "\<not> mh_exists H (startupLog m (TrimSpace (pms_ControlID st))) w'"
proof -
  let ?cid = "TrimSpace (pms_ControlID st)"
  obtain w1 where "mh_RemoveAll H (rootDir m ?cid) w1 = (None, w')"
    using assms(2-) by (auto simp: mps_Manager_Stop_def Let_def split: prod.splits option.splits if_splits)
  with assms(1) have "\<not> mh_exists H (rootDir m ?cid @ CHR ''/'' # ''log/startup.log'') w'"
    unfolding file_laws_def by blast
  then show ?thesis by (simp add: startupLog_def)
qed

text \<open>A host whose world is its files and the lines accepted per pipe, with programs that never fail.\<close>

type_synonym ex_host = "string list \<times> (string option \<times> string list) list"

definition ex_served :: "ex_host served" where
  "ex_served w pipe = (case mget (snd w) pipe of None \<Rightarrow> [] | Some lines \<Rightarrow> lines)"

definition ex_mps_host :: "ex_host MpsHost" where
  "ex_mps_host = \<lparr> mh_Environ = [''PATH=/bin''], mh_isRegularFile = (\<lambda>_. False), mh_isDir = (\<lambda>_. False), mh_LookPath = (\<lambda>_. None),
     mh_exists = (\<lambda>path w. path \<in> set (fst w)), mh_MkdirAll = (\<lambda>path w. (None, w)),
     mh_WriteFile = (\<lambda>path text w. (None, (path # fst w, snd w))),
     mh_RemoveAll = (\<lambda>path w. (None, (filter (\<lambda>p. \<not> HasPrefix p (path @ ''/'')) (fst w), snd w))),
     mh_Exec = (\<lambda>bin args env stdin w.
       let pipe = env_get env PipeKey in
       (None, (fst w, mput pipe (if args = [''-d''] then [] else ex_served w pipe @ [stdin]) (snd w)))) \<rparr>"

definition ex_mps :: mps_manager where
  "ex_mps = \<lparr> mm_controlBinary = ''mps'', mm_pluginPath = ''/p'', mm_driverRoot = [], mm_shmDir = ''/dev/shm'' \<rparr>"

definition ex_mps_request :: "(int64 \<times> qformat) MpsPrepareRequest" where
  "ex_mps_request = \<lparr> mpq_ControlID = ''c1'', mpq_DeviceUUIDs = [''GPU-1'', ''GPU-1''], mpq_Config = Some \<lparr>
     mc_DefaultActiveThreadPercentage = Some 50, mc_DefaultPinnedDeviceMemoryLimit = None, mc_DefaultPerDevicePinnedMemoryLimit = [] \<rparr> \<rparr>"

lemma ex_mps_laws: "exec_laws ex_mps_host bin ex_served" "file_laws ex_mps_host ex_served" "env_unique (mh_Environ ex_mps_host) PipeKey"
proof -
  show "exec_laws ex_mps_host bin ex_served"
    by (auto simp: exec_laws_def ex_mps_host_def ex_served_def Let_def fun_eq_iff)
  show "file_laws ex_mps_host ex_served"
    by (auto simp: file_laws_def ex_mps_host_def ex_served_def HasPrefix_def fun_eq_iff)
  show "env_unique (mh_Environ ex_mps_host) PipeKey"
    by (simp add: env_unique_def entries_of_def ex_mps_host_def HasPrefix_def PipeKey_def)
qed

definition ex_after :: ex_host where
  "ex_after = ([''/p/mps/c1/log/startup.log''],
     [(Some ''/p/mps/c1/pipe'', [''set_default_active_thread_percentage 50'' @ [CHR 0x0A]])])"

theorem mps_Start_marker_witness:
  "mps_Manager_Start int_quantity ex_mps_host ex_mps ex_mps_request ([], []) = (Inr (mps_state ex_mps ''c1''), ex_after)
    \<and> config_lines int_quantity [''GPU-1''] (mpq_Config ex_mps_request) (ex_served ex_after (Some ''/p/mps/c1/pipe''))"
proof -
  have run: "mps_Manager_Start int_quantity ex_mps_host ex_mps ex_mps_request ([], []) = (Inr (mps_state ex_mps ''c1''), ex_after)"
    by code_simp
  have facts: "TrimSpace (mpq_ControlID ex_mps_request) = ''c1''" "mps_unique (mpq_DeviceUUIDs ex_mps_request) [] = [''GPU-1'']"
    "rootDir ex_mps ''c1'' @ ''/pipe'' = ''/p/mps/c1/pipe''" "\<not> mh_exists ex_mps_host (startupLog ex_mps ''c1'') ([], [])"
    "mh_exists ex_mps_host (startupLog ex_mps ''c1'') ex_after"
    by code_simp+
  from mps_Start_marker[OF ex_mps_laws run, unfolded Let_def facts(1-3)] facts(4,5)
  have "config_lines int_quantity [''GPU-1''] (mpq_Config ex_mps_request) (ex_served ex_after (Some ''/p/mps/c1/pipe''))"
    by (simp only: if_False HOL.simp_thms)
  with run show ?thesis by (rule conjI)
qed

section \<open>Time slices\<close>

text \<open>\<open>smi_runs H m calls w w'\<close>: the given calls of \<open>nvidia-smi\<close> were made in this order and succeeded.\<close>

fun smi_runs :: "'w MpsHost \<Rightarrow> ts_manager \<Rightarrow> string list list \<Rightarrow> 'w \<Rightarrow> 'w option" where
  "smi_runs H m [] w = Some w"
| "smi_runs H m (args # calls) w = (case smi_run H m args w of (None, w') \<Rightarrow> smi_runs H m calls w' | (Some _, _) \<Rightarrow> None)"

definition slice_calls :: "int64 \<Rightarrow> string \<Rightarrow> string list list" where
  "slice_calls interval uuid =
     [[''-i'', uuid, ''-c'', ''DEFAULT''], [''compute-policy'', ''-i'', uuid, ''--set-timeslice'', int_string interval]]"

lemma slice_loop_calls:
  "slice_loop H m interval uuids seen w = (None, w') \<longleftrightarrow>
     smi_runs H m (concat (map (slice_calls interval) (mps_unique uuids seen))) w = Some w'"
  by (induction uuids arbitrary: seen w) (auto simp: Let_def slice_calls_def split: prod.splits option.splits)

lemma mps_unique_distinct: "distinct (mps_unique uuids seen) \<and> set (mps_unique uuids seen) = TrimSpace ` set uuids - {[]} - set seen"
  by (induction uuids arbitrary: seen) (auto simp: Let_def)

text \<open>
  A successful \<open>SetTimeSlice\<close> has set the compute mode and the time slice of every named GPU exactly once, the GPUs in the order they
  are first named; intervals outside the four known ones are refused before any GPU is touched.
\<close>

lemma SetTimeSlice_sets:
  assumes "SetTimeSlice H m uuids config w = (None, w')"
  shows "\<exists>cfg i gpus. config = Some cfg \<and> ts_Interval cfg = Some i \<and> TimeSliceInterval_Validate i = None
    \<and> distinct gpus \<and> set gpus = TrimSpace ` set uuids - {[]}
    \<and> smi_runs H m (concat (map (slice_calls (TimeSliceInterval_Int i)) gpus)) w = Some w'"
proof -
  from assms obtain cfg i where "config = Some cfg" "ts_Interval cfg = Some i" "0 \<le> TimeSliceInterval_Int i"
    "slice_loop H m (TimeSliceInterval_Int i) uuids [] w = (None, w')"
    by (auto simp: SetTimeSlice_def bind_eq_Some_conv split: if_splits option.splits)
  then show ?thesis
    using mps_unique_distinct[of uuids "[]"] slice_loop_calls[of H m "TimeSliceInterval_Int i" uuids "[]" w w']
      TimeSliceInterval_Int_valid[of i] by auto
qed

section \<open>The process check\<close>

text \<open>A GPU passes only if NVML knows it and it runs no process; NVML is shut down again once it was initialised.\<close>

lemma EnsureGPUFree_idle:
  "EnsureGPUFree (Some N) None pciBusID w = (None, w') \<longleftrightarrow>
     (\<exists>w1 dev. nc_Init N w = (None, w1) \<and> w' = nc_Shutdown N w1 \<and> nc_Device N (normalizePCIBusID pciBusID) w1 = Inr dev
        \<and> nc_Compute N dev w1 = Inr [] \<and> nc_Graphics N dev w1 = Inr [])"
  by (auto simp: EnsureGPUFree_def gpu_processes_def split: prod.splits option.splits sum.splits if_splits)

lemma hex_digit_char: "d < 16 \<Longrightarrow> hex_digit (hex_char d) = Some d"
  by (auto simp: hex_digit_def hex_char_def Let_def)

lemma parse_hex_append:
  "parse_hex (xs @ ys) acc = (case parse_hex xs acc of None \<Rightarrow> None | Some a \<Rightarrow> parse_hex ys a)"
  by (induction xs arbitrary: acc) (auto split: option.splits)

lemma parse_hex8: "parse_hex (hex8 n v) acc = Some (16 ^ n * acc + v mod 16 ^ n)"
proof (induction n arbitrary: v acc)
  case (Suc n)
  have "v mod 16 ^ Suc n = 16 * (v div 16 mod 16 ^ n) + v mod 16"
    by (simp add: mod_mult2_eq)
  with Suc show ?case by (simp add: parse_hex_append hex_digit_char algebra_simps)
qed simp

lemma hex8_length [simp]: "length (hex8 n v) = n"
  by (induction n arbitrary: v) auto

lemma parse_hex_bound: "parse_hex s acc = Some v \<Longrightarrow> v < 16 ^ length s * (acc + 1)"
proof (induction s arbitrary: acc)
  case (Cons c s)
  from Cons.prems obtain d where d: "hex_digit c = Some d" "parse_hex s (16 * acc + d) = Some v" by (auto split: option.splits)
  from d(1) have "d < 16" by (auto simp: hex_digit_def Let_def split: if_splits)
  then have "16 * acc + d + 1 \<le> 16 * (acc + 1)" by simp
  then have "16 ^ length s * (16 * acc + d + 1) \<le> 16 ^ length s * (16 * (acc + 1))" by (rule mult_le_mono2)
  with Cons.IH[OF d(2)] have "v < 16 ^ length s * (16 * (acc + 1))" by (rule less_le_trans)
  then show ?case by (simp add: algebra_simps)
qed simp

text \<open>The bus id passed to NVML has an eight-digit domain of the same value.\<close>

lemma normalizePCIBusID_domain:
  assumes "Split (CHR '':'') (TrimSpace raw) = [domain, bus, dev]" and "domain \<noteq> []" and "length domain < 8" and "parse_hex domain 0 = Some v"
  shows "\<exists>domain'. normalizePCIBusID raw = Join [domain', bus, dev] '':'' \<and> length domain' = 8 \<and> parse_hex domain' 0 = Some v"
proof -
  have "(16::nat) ^ length domain \<le> 16 ^ 8" using assms(3) by (intro power_increasing) auto
  with parse_hex_bound[OF assms(4)] have "v < 16 ^ 8" by simp
  then have "parse_hex (hex8 8 v) 0 = Some v" by (simp only: parse_hex8) simp
  with assms show ?thesis by (intro exI[of _ "hex8 8 v"]) (simp add: normalizePCIBusID_def Let_def)
qed

end
