(* ===== verification/NameRewriter.thy ===== *)
theory NameRewriter
  imports GoStrings
begin

text \<open>
  Names in the API proxy, \<open>kube-api-rewriter/pkg/rewriter\<close>: \<open>prefixed_name_rewriter.go\<close> renames labels, annotations and finalizers on
  the way to the API server and restores them on the way back; \<open>indexer/map_indexer.go\<close> does the same for API groups, and
  \<open>rules.go\<close> adds and strips prefixes of resources, kinds and short names.

  A rewrite is meant to be invisible: what a client reads and writes back is what the server had. The locale \<open>renaming\<close> states
  this contract once; the four kinds of names are its interpretations. Lookups that iterate over a Go map take the order of
  the association list for the order of the iteration.
\<close>

section \<open>The contract\<close>

locale renaming =
  fixes rename restore :: "'a \<Rightarrow> 'a" and stored :: "'a \<Rightarrow> bool"
  assumes returns: "stored x \<Longrightarrow> rename (restore x) = x"
begin

lemma restore_inj: "stored x \<Longrightarrow> stored y \<Longrightarrow> restore x = restore y \<Longrightarrow> x = y"
  by (metis returns)

lemma inj_on_restore: "inj_on restore {x. stored x}"
  by (auto intro: inj_onI restore_inj)

lemma list_returns: "list_all stored xs \<Longrightarrow> map rename (map restore xs) = xs"
  by (induction xs) (simp_all add: returns)

lemma distinct_restore: "list_all stored xs \<Longrightarrow> distinct xs \<Longrightarrow> distinct (map restore xs)"
  by (auto simp: distinct_map list_all_iff intro!: inj_onI restore_inj)

end

section \<open>Labels, annotations and finalizers\<close>

definition Cut :: "char \<Rightarrow> string \<Rightarrow> string \<times> string \<times> bool" where
  "Cut sep s = (let before = takeWhile (\<lambda>c. c \<noteq> sep) s in (before, drop (length before + 1) s, sep \<in> set s))"

record MetadataReplaceRule =
  mr_Original :: string
  mr_Renamed :: string
  mr_OriginalValue :: string
  mr_RenamedValue :: string

record MetadataReplace =
  mr_Prefixes :: "MetadataReplaceRule list"
  mr_Names :: "MetadataReplaceRule list"

type_synonym name_index = "(string, string) gomap"

record PrefixedNameRewriter =
  namesRenameIdx :: name_index
  namesRestoreIdx :: name_index
  prefixRenameIdx :: name_index
  prefixRestoreIdx :: name_index

definition PreservedPrefix :: string where "PreservedPrefix = ''preserved-original-''"

definition joinKV :: "string \<Rightarrow> string \<Rightarrow> string" where
  "joinKV name val = name @ CHR ''='' # val"

definition splitKV :: "string \<Rightarrow> string \<times> string" where
  "splitKV idxValue = (case Cut (CHR ''='') idxValue of (name, val, _) \<Rightarrow> (name, val))"

definition has_values :: "MetadataReplaceRule \<Rightarrow> bool" where
  "has_values rule \<longleftrightarrow> mr_OriginalValue rule \<noteq> [] \<and> mr_RenamedValue rule \<noteq> []"

definition rename_key :: "MetadataReplaceRule \<Rightarrow> string" where
  "rename_key rule = (if has_values rule then joinKV (mr_Original rule) (mr_OriginalValue rule) else mr_Original rule)"

definition restore_key :: "MetadataReplaceRule \<Rightarrow> string" where
  "restore_key rule = (if has_values rule then joinKV (mr_Renamed rule) (mr_RenamedValue rule) else mr_Renamed rule)"

definition indexRules :: "MetadataReplaceRule list \<Rightarrow> name_index" where
  "indexRules rules = foldl (\<lambda>idx rule. mput (rename_key rule) (restore_key rule) idx) [] rules"

definition indexRulesReverse :: "MetadataReplaceRule list \<Rightarrow> name_index" where
  "indexRulesReverse rules = foldl (\<lambda>idx rule. mput (restore_key rule) (rename_key rule) idx) [] rules"

definition NewPrefixedNameRewriter :: "MetadataReplace \<Rightarrow> PrefixedNameRewriter" where
  "NewPrefixedNameRewriter replaceRules =
     \<lparr> namesRenameIdx = indexRules (mr_Names replaceRules), namesRestoreIdx = indexRulesReverse (mr_Names replaceRules),
       prefixRenameIdx = indexRules (mr_Prefixes replaceRules), prefixRestoreIdx = indexRulesReverse (mr_Prefixes replaceRules) \<rparr>"

definition isPreserved :: "string \<Rightarrow> bool" where
  "isPreserved name = HasPrefix name PreservedPrefix"

definition preserveName :: "string \<Rightarrow> string" where
  "preserveName name = PreservedPrefix @ name"

definition TrimPrefix :: "string \<Rightarrow> string \<Rightarrow> string" where
  "TrimPrefix s p = (if HasPrefix s p then drop (length p) s else s)"

definition restorePreservedName :: "string \<Rightarrow> string" where
  "restorePreservedName name = TrimPrefix name PreservedPrefix"

definition by_prefix :: "name_index \<Rightarrow> string \<Rightarrow> string option" where
  "by_prefix idx name =
     (case Cut (CHR ''/'') name of
        (prefix, remainder, found) \<Rightarrow>
          if \<not> found then None else map_option (\<lambda>p. p @ CHR ''/'' # remainder) (mget idx prefix))"

text \<open>\<open>apply_index names prefixes\<close> is the lookup that \<open>rename\<close> and \<open>restore\<close> share: name and value, then name, then prefix.\<close>

definition apply_index :: "name_index \<Rightarrow> name_index \<Rightarrow> string \<times> string \<Rightarrow> string \<times> string" where
  "apply_index names prefixes = (\<lambda>(name, val).
     (case (if val \<noteq> [] then mget names (joinKV name val) else None) of
        Some idxValue \<Rightarrow> splitKV idxValue
      | None \<Rightarrow>
          (case mget names name of
             Some other \<Rightarrow> (other, val)
           | None \<Rightarrow> (case by_prefix prefixes name of Some other \<Rightarrow> (other, val) | None \<Rightarrow> (name, val)))))"

definition isOriginal :: "PrefixedNameRewriter \<Rightarrow> string \<times> string \<Rightarrow> bool" where
  "isOriginal p = (\<lambda>(name, val).
     (val \<noteq> [] \<and> mget (namesRenameIdx p) (joinKV name val) \<noteq> None) \<or> mget (namesRenameIdx p) name \<noteq> None
     \<or> by_prefix (prefixRenameIdx p) name \<noteq> None)"

definition rename :: "PrefixedNameRewriter \<Rightarrow> string \<times> string \<Rightarrow> string \<times> string" where
  "rename p = (\<lambda>(name, val).
     if isPreserved name then (restorePreservedName name, val)
     else apply_index (namesRenameIdx p) (prefixRenameIdx p) (name, val))"

definition restore :: "PrefixedNameRewriter \<Rightarrow> string \<times> string \<Rightarrow> string \<times> string" where
  "restore p = (\<lambda>(name, val).
     if isOriginal p (name, val) then (preserveName name, val)
     else apply_index (namesRestoreIdx p) (prefixRestoreIdx p) (name, val))"

datatype Action = Restore | Rename

fun rewriter_fn :: "PrefixedNameRewriter \<Rightarrow> Action \<Rightarrow> string \<times> string \<Rightarrow> string \<times> string" where
  "rewriter_fn p Rename = rename p"
| "rewriter_fn p Restore = restore p"

definition Rewrite :: "PrefixedNameRewriter \<Rightarrow> string \<Rightarrow> Action \<Rightarrow> string" where
  "Rewrite p name action = fst (rewriter_fn p action (name, []))"

definition RewriteNameValue :: "PrefixedNameRewriter \<Rightarrow> string \<Rightarrow> string \<Rightarrow> Action \<Rightarrow> string \<times> string" where
  "RewriteNameValue p name val action = rewriter_fn p action (name, val)"

fun name_values_loop :: "(string \<times> string \<Rightarrow> string \<times> string) \<Rightarrow> string \<Rightarrow> string list \<Rightarrow> string \<Rightarrow> string \<times> string list" where
  "name_values_loop fn name [] rwrName = (rwrName, [])"
| "name_values_loop fn name (val # vals) rwrName =
     (let (n, v) = fn (name, val);
          (rwrName', rest) = name_values_loop fn name vals (if n \<noteq> name \<and> rwrName = name then n else rwrName)
      in (rwrName', v # rest))"

definition RewriteNameValues :: "PrefixedNameRewriter \<Rightarrow> string \<Rightarrow> string list \<Rightarrow> Action \<Rightarrow> string \<times> string list" where
  "RewriteNameValues p name vals action =
     (if vals = [] then (Rewrite p name action, vals) else name_values_loop (rewriter_fn p action) name vals name)"

definition rewriteSlice :: "(string \<times> string \<Rightarrow> string \<times> string) \<Rightarrow> string list \<Rightarrow> string list" where
  "rewriteSlice fn names = map (\<lambda>name. fst (fn (name, []))) names"

definition rewriteMap :: "(string \<times> string \<Rightarrow> string \<times> string) \<Rightarrow> (string, string) gomap \<Rightarrow> (string, string) gomap" where
  "rewriteMap fn names = foldl (\<lambda>result entry. case fn entry of (rwrName, rwrValue) \<Rightarrow> mput rwrName rwrValue result) [] names"

definition RewriteSlice :: "PrefixedNameRewriter \<Rightarrow> string list \<Rightarrow> Action \<Rightarrow> string list" where
  "RewriteSlice p names action = rewriteSlice (rewriter_fn p action) names"

definition RewriteMap :: "PrefixedNameRewriter \<Rightarrow> (string, string) gomap \<Rightarrow> Action \<Rightarrow> (string, string) gomap" where
  "RewriteMap p names action = rewriteMap (rewriter_fn p action) names"

subsection \<open>Well-formed rules\<close>

text \<open>
  \<open>rules_ok R\<close>: no rule is shadowed by another one, in either direction. Keys are distinct; names contain no equals sign, prefixes no
  slash; nothing original looks like a preserved name; a name with a rule of its own has no rule for some of its values, and no
  rule for its prefix.
\<close>

definition clear_of :: "MetadataReplace \<Rightarrow> string \<Rightarrow> bool" where
  "clear_of R name \<longleftrightarrow> CHR ''='' \<notin> set name \<and> \<not> isPreserved name
     \<and> (CHR ''/'' \<in> set name \<longrightarrow> takeWhile (\<lambda>c. c \<noteq> CHR ''/'') name \<notin> mr_Original ` set (mr_Prefixes R))"

definition rules_ok :: "MetadataReplace \<Rightarrow> bool" where
  "rules_ok R \<longleftrightarrow>
     distinct (map rename_key (mr_Names R)) \<and> distinct (map restore_key (mr_Names R)) \<and>
     distinct (map rename_key (mr_Prefixes R)) \<and> distinct (map restore_key (mr_Prefixes R)) \<and>
     list_all (\<lambda>r. clear_of R (mr_Original r) \<and> CHR ''='' \<notin> set (mr_Renamed r)) (mr_Names R) \<and>
     list_all (\<lambda>r. list_all (\<lambda>s. has_values r \<or> \<not> has_values s \<or> mr_Original r \<noteq> mr_Original s) (mr_Names R)) (mr_Names R) \<and>
     list_all (\<lambda>r. \<not> has_values r \<and> CHR ''='' \<notin> set (mr_Original r) \<and> CHR ''/'' \<notin> set (mr_Original r) \<and> \<not> isPreserved (mr_Original r))
       (mr_Prefixes R)"

text \<open>A name as the API server may store it: no equals sign, and not one that this proxy would take for a preserved name.\<close>

definition server_name :: "string \<Rightarrow> bool" where
  "server_name name \<longleftrightarrow> CHR ''='' \<notin> set name \<and> \<not> isPreserved name"

subsection \<open>Indexes\<close>

lemma index_get:
  assumes "distinct (map f rules)"
  shows "mget (foldl (\<lambda>idx rule. mput (f rule) (g rule) idx) [] rules) k = Some v \<longleftrightarrow> (\<exists>r \<in> set rules. f r = k \<and> g r = v)"
  using assms
proof (induction rules rule: rev_induct)
  case (snoc x xs)
  then have "f r \<noteq> f x" if "r \<in> set xs" for r using that by (auto simp: image_iff)
  with snoc show ?case by auto
qed simp

lemma index_none:
  "mget (foldl (\<lambda>idx rule. mput (f rule) (g rule) idx) [] rules) k = None \<longleftrightarrow> k \<notin> f ` set rules"
  by (induction rules rule: rev_induct) auto

lemma takeWhile_sep: "sep \<notin> set a \<Longrightarrow> takeWhile (\<lambda>c. c \<noteq> sep) (a @ sep # b) = a"
  by (induction a) auto

lemma Cut_append: "sep \<notin> set a \<Longrightarrow> Cut sep (a @ sep # b) = (a, b, True)"
  by (simp add: Cut_def Let_def takeWhile_sep)

lemma Cut_found: "Cut sep s = (a, b, True) \<Longrightarrow> s = a @ sep # b \<and> sep \<notin> set a"
  by (induction s arbitrary: a) (auto simp: Cut_def Let_def split: if_splits)

lemma splitKV_joinKV: "CHR ''='' \<notin> set name \<Longrightarrow> splitKV (joinKV name val) = (name, val)"
  by (simp add: splitKV_def joinKV_def Cut_append)

lemma joinKV_inject:
  assumes "CHR ''='' \<notin> set n" "CHR ''='' \<notin> set n'"
  shows "joinKV n v = joinKV n' v' \<longleftrightarrow> n = n' \<and> v = v'"
  by (metis assms prod.inject splitKV_joinKV)

lemma joinKV_eq: "CHR ''='' \<in> set (joinKV n v)"
  by (simp add: joinKV_def)

lemma by_prefix_some:
  "by_prefix idx name = Some other \<longleftrightarrow>
     (\<exists>a rem q. name = a @ CHR ''/'' # rem \<and> CHR ''/'' \<notin> set a \<and> mget idx a = Some q \<and> other = q @ CHR ''/'' # rem)"
proof
  assume "by_prefix idx name = Some other"
  then obtain a rem q where "Cut (CHR ''/'') name = (a, rem, True)" "mget idx a = Some q" "other = q @ CHR ''/'' # rem"
    by (auto simp: by_prefix_def split: prod.splits if_splits)
  with Cut_found show "\<exists>a rem q. name = a @ CHR ''/'' # rem \<and> CHR ''/'' \<notin> set a \<and> mget idx a = Some q \<and> other = q @ CHR ''/'' # rem"
    by blast
qed (auto simp: by_prefix_def Cut_append)

lemma preserved_prefix:
  assumes "CHR ''/'' \<notin> set PreservedPrefix"
  shows "isPreserved (a @ CHR ''/'' # rem) \<longleftrightarrow> isPreserved a"
proof
  assume p: "isPreserved (a @ CHR ''/'' # rem)"
  have "length PreservedPrefix \<le> length a"
  proof (rule ccontr)
    assume "\<not> length PreservedPrefix \<le> length a"
    with p have "PreservedPrefix ! length a = CHR ''/''"
      by (metis HasPrefix_def isPreserved_def leI nth_append_length nth_take)
    with \<open>\<not> length PreservedPrefix \<le> length a\<close> assms show False by (metis leI nth_mem)
  qed
  with p show "isPreserved a" by (simp add: isPreserved_def HasPrefix_def)
qed (auto simp: isPreserved_def HasPrefix_def dest: arg_cong[of _ _ length])

lemma no_slash: "CHR ''/'' \<notin> set PreservedPrefix"
  by (simp add: PreservedPrefix_def)

lemma restorePreserved_preserve: "isPreserved (preserveName n)" "restorePreservedName (preserveName n) = n"
  by (simp_all add: isPreserved_def preserveName_def restorePreservedName_def TrimPrefix_def HasPrefix_def)

subsection \<open>Round trip\<close>

lemma rules_okD:
  assumes "rules_ok R" "r \<in> set (mr_Names R)"
  shows "CHR ''='' \<notin> set (mr_Original r)" "CHR ''='' \<notin> set (mr_Renamed r)" "\<not> isPreserved (mr_Original r)"
    "\<And>a rem. mr_Original r = a @ CHR ''/'' # rem \<Longrightarrow> CHR ''/'' \<notin> set a \<Longrightarrow> a \<notin> mr_Original ` set (mr_Prefixes R)"
    "\<And>s. s \<in> set (mr_Names R) \<Longrightarrow> has_values s \<Longrightarrow> mr_Original r = mr_Original s \<Longrightarrow> has_values r"
  using assms by (auto simp: rules_ok_def list_all_iff clear_of_def takeWhile_sep)

lemma prefix_okD:
  assumes "rules_ok R" "r \<in> set (mr_Prefixes R)"
  shows "rename_key r = mr_Original r" "restore_key r = mr_Renamed r" "CHR ''/'' \<notin> set (mr_Original r)" "\<not> isPreserved (mr_Original r)"
    "CHR ''='' \<notin> set (mr_Original r)"
  using assms by (auto simp: rules_ok_def list_all_iff rename_key_def restore_key_def)

lemma kv_rule:
  assumes "rules_ok R" "r \<in> set (mr_Names R)" "CHR ''='' \<notin> set n"
  shows "rename_key r = joinKV n v \<longleftrightarrow> has_values r \<and> mr_Original r = n \<and> mr_OriginalValue r = v"
    and "restore_key r = joinKV n v \<longleftrightarrow> has_values r \<and> mr_Renamed r = n \<and> mr_RenamedValue r = v"
    and "rename_key r = n \<longleftrightarrow> \<not> has_values r \<and> mr_Original r = n"
    and "restore_key r = n \<longleftrightarrow> \<not> has_values r \<and> mr_Renamed r = n"
  using rules_okD(1,2)[OF assms(1,2)] assms(3) joinKV_eq
  by (auto simp: rename_key_def restore_key_def joinKV_inject)

lemma NewRewriter_get:
  assumes "rules_ok R"
  shows "mget (namesRenameIdx (NewPrefixedNameRewriter R)) k = Some v \<longleftrightarrow> (\<exists>r \<in> set (mr_Names R). rename_key r = k \<and> restore_key r = v)"
    and "mget (namesRestoreIdx (NewPrefixedNameRewriter R)) k = Some v \<longleftrightarrow> (\<exists>r \<in> set (mr_Names R). restore_key r = k \<and> rename_key r = v)"
    and "mget (prefixRenameIdx (NewPrefixedNameRewriter R)) k = Some v \<longleftrightarrow> (\<exists>r \<in> set (mr_Prefixes R). rename_key r = k \<and> restore_key r = v)"
    and "mget (prefixRestoreIdx (NewPrefixedNameRewriter R)) k = Some v \<longleftrightarrow> (\<exists>r \<in> set (mr_Prefixes R). restore_key r = k \<and> rename_key r = v)"
  using assms by (auto simp: NewPrefixedNameRewriter_def indexRules_def indexRulesReverse_def rules_ok_def index_get)

text \<open>What a client has restored from a rule is renamed by the same rule.\<close>

lemma rename_kv_rule:
  assumes "rules_ok R" "r \<in> set (mr_Names R)" "has_values r"
  shows "rename (NewPrefixedNameRewriter R) (mr_Original r, mr_OriginalValue r) = (mr_Renamed r, mr_RenamedValue r)"
proof -
  have "mget (namesRenameIdx (NewPrefixedNameRewriter R)) (joinKV (mr_Original r) (mr_OriginalValue r)) = Some (joinKV (mr_Renamed r) (mr_RenamedValue r))"
    using assms by (auto simp: NewRewriter_get(1)[OF assms(1)] rename_key_def restore_key_def)
  with assms rules_okD[OF assms(1,2)] show ?thesis
    by (simp add: rename_def apply_index_def splitKV_joinKV has_values_def)
qed

lemma rename_name_rule:
  assumes "rules_ok R" "r \<in> set (mr_Names R)" "\<not> has_values r"
  shows "rename (NewPrefixedNameRewriter R) (mr_Original r, val) = (mr_Renamed r, val)"
proof -
  have "mget (namesRenameIdx (NewPrefixedNameRewriter R)) (joinKV (mr_Original r) val) = None"
    using rules_okD(1,5)[OF assms(1,2)] assms(3)
    by (fastforce simp: NewRewriter_get(1)[OF assms(1)] kv_rule[OF assms(1)] simp flip: not_Some_eq)
  moreover have "mget (namesRenameIdx (NewPrefixedNameRewriter R)) (mr_Original r) = Some (mr_Renamed r)"
    using assms by (auto simp: NewRewriter_get(1)[OF assms(1)] rename_key_def restore_key_def)
  ultimately show ?thesis using rules_okD(3)[OF assms(1,2)] by (simp add: rename_def apply_index_def)
qed

lemma rename_prefix_rule:
  assumes "rules_ok R" "r \<in> set (mr_Prefixes R)" "CHR ''='' \<notin> set rem"
  shows "rename (NewPrefixedNameRewriter R) (mr_Original r @ CHR ''/'' # rem, val) = (mr_Renamed r @ CHR ''/'' # rem, val)"
proof -
  let ?name = "mr_Original r @ CHR ''/'' # rem"
  note p = prefix_okD[OF assms(1,2)]
  have eq: "CHR ''='' \<notin> set ?name" using p(5) assms(3) by simp
  have no: "mr_Original s \<noteq> ?name" if "s \<in> set (mr_Names R)" for s
    using rules_okD(4)[OF assms(1) that _ p(3)] assms(2) by blast
  have "mget (namesRenameIdx (NewPrefixedNameRewriter R)) (joinKV ?name val) = None"
    "mget (namesRenameIdx (NewPrefixedNameRewriter R)) ?name = None"
    using no by (auto simp: NewRewriter_get(1)[OF assms(1)] kv_rule[OF assms(1) _ eq] simp flip: not_Some_eq)
  moreover have "by_prefix (prefixRenameIdx (NewPrefixedNameRewriter R)) ?name = Some (mr_Renamed r @ CHR ''/'' # rem)"
    using assms(2) p by (auto simp: by_prefix_some NewRewriter_get(3)[OF assms(1)])
  ultimately show ?thesis using p(4) by (simp add: rename_def apply_index_def preserved_prefix[OF no_slash])
qed

lemma rename_unknown:
  assumes "\<not> isOriginal p (name, val)" "\<not> isPreserved name"
  shows "rename p (name, val) = (name, val)"
  using assms by (auto simp: rename_def apply_index_def isOriginal_def split: option.splits)

lemma rename_restore:
  assumes ok: "rules_ok R" and name: "server_name name"
  shows "rename (NewPrefixedNameRewriter R) (restore (NewPrefixedNameRewriter R) (name, val)) = (name, val)"
proof -
  let ?p = "NewPrefixedNameRewriter R"
  have eq: "CHR ''='' \<notin> set name" and np: "\<not> isPreserved name" using name by (simp_all add: server_name_def)
  show ?thesis
  proof (cases "isOriginal ?p (name, val)")
    case True
    then show ?thesis by (simp add: restore_def rename_def restorePreserved_preserve)
  next
    case False
    then have res: "restore ?p (name, val) = apply_index (namesRestoreIdx ?p) (prefixRestoreIdx ?p) (name, val)"
      by (simp add: restore_def)
    show ?thesis
    proof (cases "if val \<noteq> [] then mget (namesRestoreIdx ?p) (joinKV name val) else None")
      case (Some x)
      then obtain r where r: "r \<in> set (mr_Names R)" "has_values r" "mr_Renamed r = name" "mr_RenamedValue r = val" "x = rename_key r"
        by (auto simp: NewRewriter_get(2)[OF ok] kv_rule[OF ok _ eq] split: if_splits)
      with Some res have "restore ?p (name, val) = (mr_Original r, mr_OriginalValue r)"
        using rules_okD(1)[OF ok r(1)] by (simp add: apply_index_def rename_key_def splitKV_joinKV)
      with rename_kv_rule[OF ok r(1,2)] r show ?thesis by simp
    next
      case None
      note kv = None
      show ?thesis
      proof (cases "mget (namesRestoreIdx ?p) name")
        case (Some x)
        then obtain r where r: "r \<in> set (mr_Names R)" "\<not> has_values r" "mr_Renamed r = name" "x = mr_Original r"
          by (auto simp: NewRewriter_get(2)[OF ok] kv_rule[OF ok _ eq] rename_key_def)
        with Some kv res rename_name_rule[OF ok r(1,2), of val] show ?thesis by (simp add: apply_index_def split: if_splits)
      next
        case none: None
        show ?thesis
        proof (cases "by_prefix (prefixRestoreIdx ?p) name")
          case (Some other)
          then obtain r rem where r: "r \<in> set (mr_Prefixes R)" "name = mr_Renamed r @ CHR ''/'' # rem" "other = mr_Original r @ CHR ''/'' # rem"
            using prefix_okD(1,2)[OF ok] by (auto simp: by_prefix_some NewRewriter_get(4)[OF ok])
          have "CHR ''='' \<notin> set rem" using eq r(2) by simp
          from rename_prefix_rule[OF ok r(1) this, of val] Some kv none res r show ?thesis
            by (simp add: apply_index_def split: if_splits)
        next
          case None
          with kv none res rename_unknown[OF False np] show ?thesis by (simp add: apply_index_def split: if_splits)
        qed
      qed
    qed
  qed
qed

interpretation labels: renaming
  "rename (NewPrefixedNameRewriter R)" "restore (NewPrefixedNameRewriter R)" "\<lambda>entry. rules_ok R \<and> server_name (fst entry)" for R
  by unfold_locales (use rename_restore in \<open>auto simp: prod_eq_iff\<close>)

subsection \<open>Maps of labels\<close>

text \<open>
  For maps, two entries must not be restored to the same name. That is the case if no rule depends on values: then the restored
  name depends on the name alone.
\<close>

definition plain_rules :: "MetadataReplace \<Rightarrow> bool" where
  "plain_rules R \<longleftrightarrow> rules_ok R \<and> list_all (\<lambda>r. \<not> has_values r) (mr_Names R)"

lemma restore_plain:
  assumes "plain_rules R" "server_name name"
  shows "restore (NewPrefixedNameRewriter R) (name, val) = (fst (restore (NewPrefixedNameRewriter R) (name, [])), val)"
proof -
  have ok: "rules_ok R" and eq: "CHR ''='' \<notin> set name" using assms by (simp_all add: plain_rules_def server_name_def)
  have "mget (namesRestoreIdx (NewPrefixedNameRewriter R)) (joinKV name val) = None"
    "mget (namesRenameIdx (NewPrefixedNameRewriter R)) (joinKV name val) = None"
    using assms(1) by (auto simp: NewRewriter_get[OF ok] kv_rule[OF ok _ eq] plain_rules_def list_all_iff simp flip: not_Some_eq)
  then show ?thesis by (auto simp: restore_def isOriginal_def apply_index_def split: option.splits)
qed

lemma mput_new: "k \<notin> fst ` set m \<Longrightarrow> mput k v m = m @ [(k, v)]"
  by (induction m) auto

lemma rewriteMap_inj:
  assumes "inj_on (fst \<circ> fn) (set m)"
  shows "set (rewriteMap fn m) = fn ` set m" and "distinct (map fst (rewriteMap fn m))"
proof -
  have "inj_on (fst \<circ> fn) (set m) \<Longrightarrow> set (rewriteMap fn m) = fn ` set m \<and> distinct (map fst (rewriteMap fn m))"
  proof (induction m rule: rev_induct)
    case (snoc e m)
    then have IH: "set (rewriteMap fn m) = fn ` set m" "distinct (map fst (rewriteMap fn m))" by (auto intro: inj_on_subset)
    obtain n v where e: "fn e = (n, v)" by fastforce
    show ?case
    proof (cases "e \<in> set m")
      case True
      then have "(n, v) \<in> set (rewriteMap fn m)" using IH(1) e by force
      then have "mget (rewriteMap fn m) n = Some v" using IH(2) by simp
      then have "mput n v (rewriteMap fn m) = rewriteMap fn m" by (rule update_triv)
      moreover have "(n, v) \<in> fn ` set m" using imageI[OF True, of fn] e by simp
      ultimately show ?thesis using e IH by (simp add: rewriteMap_def insert_absorb)
    next
      case False
      have "n \<notin> fst ` set (rewriteMap fn m)"
      proof
        assume "n \<in> fst ` set (rewriteMap fn m)"
        then have "n \<in> fst ` fn ` set m" using IH(1) by simp
        then obtain e' where "e' \<in> set m" "fst (fn e') = n" by blast
        with snoc.prems e False show False by (auto dest: inj_onD[of _ _ e e'])
      qed
      then have "mput n v (rewriteMap fn m) = rewriteMap fn m @ [(n, v)]" by (rule mput_new)
      with e IH \<open>n \<notin> _\<close> show ?thesis by (auto simp: rewriteMap_def)
    qed
  qed (simp add: rewriteMap_def)
  with assms show "set (rewriteMap fn m) = fn ` set m" "distinct (map fst (rewriteMap fn m))" by blast+
qed

text \<open>
  \<^bold>\<open>C33.\<close> Labels survive the proxy. If no rule shadows another and none depends on values, then a map of labels (or annotations) that the
  API server stores comes back unchanged when a client reads it through the proxy and writes it back: no label is lost, merged
  with another or renamed, whether it has a rule, is the target of a rule, carries an original name on the server or is unknown.
\<close>

theorem RewriteMap_returns:
  assumes "plain_rules R" and "mwf m" and "list_all (\<lambda>entry. server_name (fst entry)) m"
  shows "mget (RewriteMap (NewPrefixedNameRewriter R) (RewriteMap (NewPrefixedNameRewriter R) m Restore) Rename) k = mget m k"
proof -
  let ?restore = "restore (NewPrefixedNameRewriter R)" and ?rename = "rename (NewPrefixedNameRewriter R)"
  have ok: "rules_ok R" using assms(1) by (simp add: plain_rules_def)
  have ret: "?rename (?restore e) = e" if "e \<in> set m" for e
    by (rule labels.returns) (use that ok assms(3) in \<open>auto simp: list_all_iff\<close>)
  have inj: "inj_on (fst \<circ> ?restore) (set m)"
  proof (rule inj_onI)
    fix e e' assume e: "e \<in> set m" "e' \<in> set m" "(fst \<circ> ?restore) e = (fst \<circ> ?restore) e'"
    have s: "server_name (fst e)" "server_name (fst e')" using e assms(3) by (auto simp: list_all_iff)
    have "?restore (fst e, []) = ?restore (fst e', [])"
      using e(3) restore_plain[OF assms(1) s(1)] restore_plain[OF assms(1) s(2)]
      by (metis comp_apply fst_conv prod.collapse)
    then have "(fst e, []) = (fst e', [] :: string)"
      by (rule labels.restore_inj[rotated 2]) (use ok s in auto)
    then show "e = e'" using e(1,2) assms(2) by (auto simp: distinct_map dest: inj_onD)
  qed
  have s1: "set (rewriteMap ?restore m) = ?restore ` set m" by (rule rewriteMap_inj(1)[OF inj])
  have inj2: "inj_on (fst \<circ> ?rename) (set (rewriteMap ?restore m))"
  proof (rule inj_onI)
    fix x y assume xy: "x \<in> set (rewriteMap ?restore m)" "y \<in> set (rewriteMap ?restore m)" "(fst \<circ> ?rename) x = (fst \<circ> ?rename) y"
    from xy(1,2) obtain e e' where e: "e \<in> set m" "x = ?restore e" "e' \<in> set m" "y = ?restore e'" unfolding s1 by blast
    with xy(3) ret have "fst e = fst e'" by simp
    with e assms(2) have "e = e'" by (auto simp: distinct_map dest: inj_onD)
    with e show "x = y" by simp
  qed
  have s2: "set (rewriteMap ?rename (rewriteMap ?restore m)) = set m"
    by (simp add: rewriteMap_inj(1)[OF inj2] s1 image_image ret)
  have "mwf (rewriteMap ?rename (rewriteMap ?restore m))" by (rule rewriteMap_inj(2)[OF inj2])
  then have "mget (rewriteMap ?rename (rewriteMap ?restore m)) k = Some v \<longleftrightarrow> mget m k = Some v" for v
    using assms(2) s2 by (simp add: mget_eq_in)
  then show ?thesis by (metis (lifting) RewriteMap_def not_Some_eq rewriter_fn.simps)
qed

definition ex_rules :: MetadataReplace where
  "ex_rules = \<lparr>
     mr_Prefixes = [\<lparr> mr_Original = ''nvidia.com'', mr_Renamed = ''gpu.deckhouse.io'', mr_OriginalValue = [], mr_RenamedValue = [] \<rparr>],
     mr_Names = [\<lparr> mr_Original = ''gpu-present'', mr_Renamed = ''d8-gpu-present'', mr_OriginalValue = [], mr_RenamedValue = [] \<rparr>] \<rparr>"

definition ex_labels :: "(string, string) gomap" where
  "ex_labels = [(''gpu.deckhouse.io/model'', ''a30''), (''nvidia.com/model'', ''t4''), (''d8-gpu-present'', ''true''), (''app'', ''x'')]"

theorem RewriteMap_returns_witness:
  "plain_rules ex_rules \<and>
   RewriteMap (NewPrefixedNameRewriter ex_rules) ex_labels Restore =
     [(''nvidia.com/model'', ''a30''), (''preserved-original-nvidia.com/model'', ''t4''), (''gpu-present'', ''true''), (''app'', ''x'')] \<and>
   mget (RewriteMap (NewPrefixedNameRewriter ex_rules) (RewriteMap (NewPrefixedNameRewriter ex_rules) ex_labels Restore) Rename) ''app'' = Some ''x''"
proof -
  have "plain_rules ex_rules" "mwf ex_labels" "list_all (\<lambda>entry. server_name (fst entry)) ex_labels" "mget ex_labels ''app'' = Some ''x''"
    by code_simp+
  moreover have "RewriteMap (NewPrefixedNameRewriter ex_rules) ex_labels Restore =
     [(''nvidia.com/model'', ''a30''), (''preserved-original-nvidia.com/model'', ''t4''), (''gpu-present'', ''true''), (''app'', ''x'')]"
    by code_simp
  ultimately show ?thesis using RewriteMap_returns[of ex_rules ex_labels "''app''"] by metis
qed

text \<open>Without that restriction a label can be lost: with a rule for one value, two labels of an object are restored to one name.\<close>

definition value_rules :: MetadataReplace where
  "value_rules = \<lparr> mr_Prefixes = [],
     mr_Names = [\<lparr> mr_Original = ''o'', mr_Renamed = ''r'', mr_OriginalValue = ''a'', mr_RenamedValue = ''b'' \<rparr>] \<rparr>"

lemma value_rule_loses_label:
  "rules_ok value_rules"
  "RewriteMap (NewPrefixedNameRewriter value_rules) [(''r'', ''b''), (''o'', ''d'')] Restore = [(''o'', ''d'')]"
  by code_simp+

section \<open>API groups\<close>

record MapIndexer =
  mi_idx :: name_index
  mi_reverse :: name_index

definition NewMapIndexer :: MapIndexer where
  "NewMapIndexer = \<lparr> mi_idx = [], mi_reverse = [] \<rparr>"

definition AddPair :: "string \<Rightarrow> string \<Rightarrow> MapIndexer \<Rightarrow> MapIndexer" where
  "AddPair original renamed m = m\<lparr> mi_idx := mput original renamed (mi_idx m), mi_reverse := mput renamed original (mi_reverse m) \<rparr>"

definition MapIndexer_Rename :: "MapIndexer \<Rightarrow> string \<Rightarrow> string" where
  "MapIndexer_Rename m original = (case mget (mi_idx m) original of Some renamed \<Rightarrow> renamed | None \<Rightarrow> original)"

definition MapIndexer_Restore :: "MapIndexer \<Rightarrow> string \<Rightarrow> string" where
  "MapIndexer_Restore m renamed = (case mget (mi_reverse m) renamed of Some original \<Rightarrow> original | None \<Rightarrow> renamed)"

definition IsOriginal :: "MapIndexer \<Rightarrow> string \<Rightarrow> bool" where
  "IsOriginal m original = (mget (mi_idx m) original \<noteq> None)"

definition IsRenamed :: "MapIndexer \<Rightarrow> string \<Rightarrow> bool" where
  "IsRenamed m renamed = (mget (mi_reverse m) renamed \<noteq> None)"

definition index_pairs :: "(string \<times> string) list \<Rightarrow> MapIndexer" where
  "index_pairs pairs = foldl (\<lambda>m (original, renamed). AddPair original renamed m) NewMapIndexer pairs"

lemma index_pairs_get:
  "mi_idx (index_pairs pairs) = foldl (\<lambda>m p. mput (fst p) (snd p) m) [] pairs"
  "mi_reverse (index_pairs pairs) = foldl (\<lambda>m p. mput (snd p) (fst p) m) [] pairs"
  by (induction pairs rule: rev_induct) (auto simp: index_pairs_def NewMapIndexer_def AddPair_def split: prod.splits)

text \<open>A group the server knows comes back unless it is an original name without being renamed itself.\<close>

definition pairs_ok :: "(string \<times> string) list \<Rightarrow> bool" where
  "pairs_ok pairs \<longleftrightarrow> distinct (map fst pairs) \<and> distinct (map snd pairs)"

lemma MapIndexer_returns:
  assumes "pairs_ok pairs" "g \<in> snd ` set pairs \<or> g \<notin> fst ` set pairs"
  shows "MapIndexer_Rename (index_pairs pairs) (MapIndexer_Restore (index_pairs pairs) g) = g"
proof (cases "mget (mi_reverse (index_pairs pairs)) g")
  case (Some original)
  then have "(original, g) \<in> set pairs" using assms(1) by (auto simp: index_pairs_get index_get pairs_ok_def)
  then have "mget (mi_idx (index_pairs pairs)) original = Some g"
    using assms(1) by (force simp: index_pairs_get index_get pairs_ok_def)
  with Some show ?thesis by (simp add: MapIndexer_Rename_def MapIndexer_Restore_def)
next
  case None
  then have "g \<notin> snd ` set pairs" by (simp add: index_pairs_get index_none)
  with assms(2) have "mget (mi_idx (index_pairs pairs)) g = None" by (simp add: index_pairs_get index_none)
  with None show ?thesis by (simp add: MapIndexer_Rename_def MapIndexer_Restore_def)
qed

interpretation groups: renaming
  "MapIndexer_Rename (index_pairs pairs)" "MapIndexer_Restore (index_pairs pairs)"
  "\<lambda>g. pairs_ok pairs \<and> (g \<in> snd ` set pairs \<or> g \<notin> fst ` set pairs)" for pairs
  by unfold_locales (rule MapIndexer_returns; simp)

section \<open>Prefixes of resources, kinds and short names\<close>

interpretation prefixes: renaming "\<lambda>s. p @ s" "\<lambda>s. TrimPrefix s p" "\<lambda>s. HasPrefix s p" for p
  by unfold_locales (simp add: TrimPrefix_def HasPrefix_def, metis append_take_drop_id)

lemma TrimPrefix_append [simp]: "TrimPrefix (p @ s) p = s"
  by (simp add: TrimPrefix_def HasPrefix_def)

end
