(* ===== verification/RequestRewriter.thy ===== *)
theory RequestRewriter
  imports NameRewriter GoPaths Reconciler
begin

text \<open>
  Requests in the API proxy, \<open>kube-api-rewriter/pkg/rewriter\<close>: the rules and their lookups (\<open>rules.go\<close>), the parts of a request path
  (\<open>api_endpoint.go\<close>), the rewriting of paths and queries (\<open>rule_rewriter.go\<close>) and the decisions on payloads (\<open>target_request.go\<close>).

  Payloads are JSON documents rewritten with third-party libraries and are not modelled; the exclude rules are, on the values they
  read of an object. Parsing and printing of label selectors is a parameter (\<open>selector_api\<close>). Maps of rules are association lists,
  whose order stands for the order in which Go iterates.
\<close>

section \<open>Rules\<close>

record GroupRule =
  gr_Group :: string
  gr_Versions :: "string list"
  gr_PreferredVersion :: string
  gr_Renamed :: string

record ResourceRule =
  rr_Kind :: string
  rr_ListKind :: string
  rr_Plural :: string
  rr_Singular :: string
  rr_ShortNames :: "string list"
  rr_Categories :: "string list"
  rr_Versions :: "string list"
  rr_PreferredVersion :: string

record APIGroupRule =
  ag_GroupRule :: GroupRule
  ag_ResourceRules :: "(string, ResourceRule) gomap"

record WebhookRule =
  wr_Path :: string
  wr_Group :: string
  wr_Resource :: string

record ExcludeRule =
  er_Kinds :: "string list"
  er_MatchNames :: "string list"
  er_MatchLabels :: "(string, string) gomap"

record RewriteRules =
  rw_KindPrefix :: string
  rw_ResourceTypePrefix :: string
  rw_ShortNamePrefix :: string
  rw_Categories :: "string list"
  rw_Rules :: "(string, APIGroupRule) gomap"
  rw_Webhooks :: "(string, WebhookRule) gomap"
  rw_Labels :: MetadataReplace
  rw_Annotations :: MetadataReplace
  rw_Finalizers :: MetadataReplace
  rw_Excludes :: "ExcludeRule list"

definition labelsRewriter :: "RewriteRules \<Rightarrow> PrefixedNameRewriter" where
  "labelsRewriter rr = NewPrefixedNameRewriter (rw_Labels rr)"

definition group_pairs :: "RewriteRules \<Rightarrow> (string \<times> string) list" where
  "group_pairs rr = map (\<lambda>(_, g). (gr_Group (ag_GroupRule g), gr_Renamed (ag_GroupRule g))) (rw_Rules rr)"

definition apiGroupsIndex :: "RewriteRules \<Rightarrow> MapIndexer" where
  "apiGroupsIndex rr = index_pairs (group_pairs rr)"

text \<open>\<open>Init\<close> adds the original kinds as an implicit exclude; the indexes are computed from the rules where they are used.\<close>

definition original_kinds :: "RewriteRules \<Rightarrow> string list" where
  "original_kinds rr = concat (map (\<lambda>(_, g). concat (map (\<lambda>(_, res). [rr_Kind res, rr_ListKind res]) (ag_ResourceRules g))) (rw_Rules rr))"

definition Init :: "RewriteRules \<Rightarrow> RewriteRules" where
  "Init rr =
     (if original_kinds rr = [] then rr
      else rr\<lparr> rw_Excludes := rw_Excludes rr @ [\<lparr> er_Kinds = original_kinds rr, er_MatchNames = [], er_MatchLabels = [] \<rparr>] \<rparr>)"

definition cut_first :: "char \<Rightarrow> string \<Rightarrow> string" where
  "cut_first sep s = fst (Cut sep s)"

fun resource_by_kind :: "(string, ResourceRule) gomap \<Rightarrow> string \<Rightarrow> (string \<times> bool) option" where
  "resource_by_kind [] kind = None"
| "resource_by_kind ((name, res) # rest) kind =
     (if rr_Kind res = kind then Some (name, False)
      else if rr_ListKind res = kind then Some (name, True) else resource_by_kind rest kind)"

fun ResourceByKind_loop :: "(string, APIGroupRule) gomap \<Rightarrow> string \<Rightarrow> string \<times> string \<times> bool" where
  "ResourceByKind_loop [] kind = ([], [], False)"
| "ResourceByKind_loop ((groupName, g) # rest) kind =
     (case resource_by_kind (ag_ResourceRules g) kind of
        Some (resName, isList) \<Rightarrow> (groupName, resName, isList)
      | None \<Rightarrow> ResourceByKind_loop rest kind)"

definition ResourceByKind :: "RewriteRules \<Rightarrow> string \<Rightarrow> string \<times> string \<times> bool" where
  "ResourceByKind rr kind = ResourceByKind_loop (rw_Rules rr) kind"

definition get_WebhookRule :: "RewriteRules \<Rightarrow> string \<Rightarrow> WebhookRule option" where
  "get_WebhookRule rr path = mget (rw_Webhooks rr) path"

definition IsRenamedGroup :: "RewriteRules \<Rightarrow> string \<Rightarrow> bool" where
  "IsRenamedGroup rr apiGroup = IsRenamed (apiGroupsIndex rr) (cut_first (CHR ''/'') apiGroup)"

definition HasGroup :: "RewriteRules \<Rightarrow> string \<Rightarrow> bool" where
  "HasGroup rr apiGroup = (mget (rw_Rules rr) (cut_first (CHR ''/'') apiGroup) \<noteq> None)"

definition get_GroupRule :: "RewriteRules \<Rightarrow> string \<Rightarrow> GroupRule option" where
  "get_GroupRule rr apiGroup = map_option ag_GroupRule (mget (rw_Rules rr) apiGroup)"

definition KindRules :: "RewriteRules \<Rightarrow> string \<Rightarrow> string \<Rightarrow> (GroupRule \<times> ResourceRule) option" where
  "KindRules rr apiGroup kind =
     (case mget (rw_Rules rr) (cut_first (CHR ''/'') apiGroup) of
        None \<Rightarrow> None
      | Some g \<Rightarrow> map_option (\<lambda>(_, res). (ag_GroupRule g, res))
          (find (\<lambda>(_, res). rr_Kind res = kind \<or> rr_ListKind res = kind) (ag_ResourceRules g)))"

definition get_ResourceRules :: "RewriteRules \<Rightarrow> string \<Rightarrow> string \<Rightarrow> (GroupRule \<times> ResourceRule) option" where
  "get_ResourceRules rr apiGroup resource =
     (case mget (rw_Rules rr) (cut_first (CHR ''/'') apiGroup) of
        None \<Rightarrow> None
      | Some g \<Rightarrow> map_option (\<lambda>res. (ag_GroupRule g, res)) (mget (ag_ResourceRules g) (cut_first (CHR ''/'') resource)))"

definition find_resource :: "RewriteRules \<Rightarrow> (ResourceRule \<Rightarrow> bool) \<Rightarrow> (GroupRule \<times> ResourceRule) option" where
  "find_resource rr p =
     find (\<lambda>(_, res). p res) (concat (map (\<lambda>(_, g). map (\<lambda>(_, res). (ag_GroupRule g, res)) (ag_ResourceRules g)) (rw_Rules rr)))"

definition GroupResourceRules :: "RewriteRules \<Rightarrow> string \<Rightarrow> (GroupRule \<times> ResourceRule) option" where
  "GroupResourceRules rr resourceType = find_resource rr (\<lambda>res. rr_Plural res = cut_first (CHR ''/'') resourceType)"

definition GroupResourceRulesByKind :: "RewriteRules \<Rightarrow> string \<Rightarrow> (GroupRule \<times> ResourceRule) option" where
  "GroupResourceRulesByKind rr kind = find_resource rr (\<lambda>res. rr_Kind res = kind)"

definition RenameResource :: "RewriteRules \<Rightarrow> string \<Rightarrow> string" where
  "RenameResource rr resource = rw_ResourceTypePrefix rr @ resource"

definition RenameKind :: "RewriteRules \<Rightarrow> string \<Rightarrow> string" where
  "RenameKind rr kind = rw_KindPrefix rr @ kind"

definition RestoreResource :: "RewriteRules \<Rightarrow> string \<Rightarrow> string" where
  "RestoreResource rr resource = TrimPrefix resource (rw_ResourceTypePrefix rr)"

definition RestoreKind :: "RewriteRules \<Rightarrow> string \<Rightarrow> string" where
  "RestoreKind rr kind = TrimPrefix kind (rw_KindPrefix rr)"

definition on_group :: "(string \<Rightarrow> string) \<Rightarrow> string \<Rightarrow> string" where
  "on_group f apiVersion =
     (case Cut (CHR ''/'') apiVersion of
        (apiGroup, version, found) \<Rightarrow> if \<not> found then f apiVersion else f apiGroup @ CHR ''/'' # version)"

definition RestoreApiVersion :: "RewriteRules \<Rightarrow> string \<Rightarrow> string" where
  "RestoreApiVersion rr apiVersion = on_group (MapIndexer_Restore (apiGroupsIndex rr)) apiVersion"

definition RenameApiVersion :: "RewriteRules \<Rightarrow> string \<Rightarrow> string" where
  "RenameApiVersion rr apiVersion = on_group (MapIndexer_Rename (apiGroupsIndex rr)) apiVersion"

definition RenameCategories :: "RewriteRules \<Rightarrow> string list \<Rightarrow> string list" where
  "RenameCategories rr categories = (if categories = [] then [] else rw_Categories rr)"

definition RestoreCategories :: "ResourceRule option \<Rightarrow> string list" where
  "RestoreCategories resourceRule = (case resourceRule of None \<Rightarrow> [] | Some r \<Rightarrow> rr_Categories r)"

definition RenameShortNames :: "RewriteRules \<Rightarrow> string list \<Rightarrow> string list" where
  "RenameShortNames rr shortNames = map (\<lambda>s. rw_ShortNamePrefix rr @ s) shortNames"

definition RestoreShortNames :: "RewriteRules \<Rightarrow> string list \<Rightarrow> string list" where
  "RestoreShortNames rr shortNames = map (\<lambda>s. TrimPrefix s (rw_ShortNamePrefix rr)) shortNames"

text \<open>Exclude rules on the kind, the labels and the name of an object.\<close>

definition mapContainsMap :: "(string, string) gomap \<Rightarrow> (string, string) gomap \<Rightarrow> bool" where
  "mapContainsMap obj match = list_all (\<lambda>(k, v). (case mget obj k of None \<Rightarrow> [] | Some x \<Rightarrow> x) = v) match"

definition Exclude_Match :: "ExcludeRule \<Rightarrow> string \<Rightarrow> (string, string) gomap \<Rightarrow> string \<Rightarrow> bool" where
  "Exclude_Match r objKind objLabels objName \<longleftrightarrow>
     (er_Kinds r = [] \<or> objKind \<in> set (er_Kinds r)) \<and> (er_MatchLabels r = [] \<or> mapContainsMap objLabels (er_MatchLabels r))
     \<and> (er_MatchNames r = [] \<or> objName \<in> set (er_MatchNames r))"

definition ShouldExclude :: "RewriteRules \<Rightarrow> string \<Rightarrow> (string, string) gomap \<Rightarrow> string \<Rightarrow> bool" where
  "ShouldExclude rr objKind objLabels objName = list_ex (\<lambda>r. Exclude_Match r objKind objLabels objName) (rw_Excludes rr)"

text \<open>\<open>RewriteGVK\<close> on the fields for kind and group of an object; the answer is the pair of new values.\<close>

fun RewriteGVK :: "RewriteRules \<Rightarrow> Action \<Rightarrow> string \<times> string \<Rightarrow> string \<times> string" where
  "RewriteGVK rr Rename (groupVersion, kind) =
     (if KindRules rr groupVersion kind = None then (groupVersion, kind)
      else (RenameApiVersion rr groupVersion, RenameKind rr kind))"
| "RewriteGVK rr Restore (groupVersion, kind) =
     (if \<not> IsRenamedGroup rr groupVersion then (groupVersion, kind)
      else
        let restored = (RestoreApiVersion rr groupVersion, RestoreKind rr kind) in
        if KindRules rr (fst restored) (snd restored) = None then (groupVersion, kind) else restored)"

section \<open>Endpoints\<close>

record APIEndpoint =
  ep_IsUnknown :: bool
  ep_RawPath :: string
  ep_IsRoot :: bool
  ep_Prefix :: string
  ep_IsCore :: bool
  ep_Group :: string
  ep_Version :: string
  ep_Namespace :: string
  ep_ResourceType :: string
  ep_Name :: string
  ep_Subresource :: string
  ep_Remainder :: "string list"
  ep_IsCRD :: bool
  ep_CRDResourceType :: string
  ep_CRDGroup :: string
  ep_IsWatch :: bool
  ep_RawQuery :: string

definition no_endpoint :: APIEndpoint where
  "no_endpoint = \<lparr> ep_IsUnknown = False, ep_RawPath = [], ep_IsRoot = False, ep_Prefix = [], ep_IsCore = False, ep_Group = [],
     ep_Version = [], ep_Namespace = [], ep_ResourceType = [], ep_Name = [], ep_Subresource = [], ep_Remainder = [], ep_IsCRD = False,
     ep_CRDResourceType = [], ep_CRDGroup = [], ep_IsWatch = False, ep_RawQuery = [] \<rparr>"

fun Shift :: "string list \<Rightarrow> string \<times> bool \<times> string list" where
  "Shift [] = ([], True, [])"
| "Shift (x # xs) = (x, xs = [], xs)"

text \<open>\<open>parse_tail\<close> is what both parsers do once the fifth or sixth item is read.\<close>

definition parse_tail :: "string list \<Rightarrow> APIEndpoint \<Rightarrow> APIEndpoint" where
  "parse_tail items ae =
     (case Shift items of (name, isLast, items') \<Rightarrow>
        let ae1 = ae\<lparr> ep_Name := name \<rparr> in
        if isLast then ae1
        else
          (case Shift items' of (sub, isLast', items'') \<Rightarrow>
             let ae2 = ae1\<lparr> ep_Subresource := sub \<rparr> in
             if isLast' then ae2 else ae2\<lparr> ep_Remainder := items'' \<rparr>))"

definition as_namespaced :: "APIEndpoint \<Rightarrow> APIEndpoint" where
  "as_namespaced ae = ae\<lparr> ep_Namespace := ep_Name ae, ep_ResourceType := ep_Subresource ae, ep_Name := [], ep_Subresource := [] \<rparr>"

definition parseCoreEndpoint :: "string list \<Rightarrow> APIEndpoint" where
  "parseCoreEndpoint items =
     (let ae = no_endpoint\<lparr> ep_IsCore := True \<rparr> in
      case Shift items of (prefix, l1, i1) \<Rightarrow>
      let ae = ae\<lparr> ep_Prefix := prefix \<rparr> in if l1 then ae else
      case Shift i1 of (version, l2, i2) \<Rightarrow>
      let ae = ae\<lparr> ep_Version := version \<rparr> in if l2 then ae else
      case Shift i2 of (resourceType, l3, i3) \<Rightarrow>
      let ae = ae\<lparr> ep_ResourceType := resourceType \<rparr> in if l3 then ae else
      case Shift i3 of (name, l4, i4) \<Rightarrow>
      let ae = ae\<lparr> ep_Name := name \<rparr> in if l4 then ae else
      case Shift i4 of (sub, l5, i5) \<Rightarrow>
      let ae = ae\<lparr> ep_Subresource := sub \<rparr>;
          ae = (if resourceType = ''namespaces'' \<and> sub \<noteq> ''status'' then as_namespaced ae else ae)
      in if l5 then ae else parse_tail i5 ae)"

definition CRDGroup :: string where "CRDGroup = ''apiextensions.k8s.io''"
definition CRDResourceType :: string where "CRDResourceType = ''customresourcedefinitions''"

definition parseAPIsEndpoint :: "string list \<Rightarrow> APIEndpoint" where
  "parseAPIsEndpoint items =
     (case Shift items of (prefix, l1, i1) \<Rightarrow>
      let ae = no_endpoint\<lparr> ep_Prefix := prefix \<rparr> in if l1 then ae else
      case Shift i1 of (grp, l2, i2) \<Rightarrow>
      let ae = ae\<lparr> ep_Group := grp \<rparr> in if l2 then ae else
      case Shift i2 of (version, l3, i3) \<Rightarrow>
      let ae = ae\<lparr> ep_Version := version \<rparr> in if l3 then ae else
      case Shift i3 of (resourceType, l4, i4) \<Rightarrow>
      let ae = ae\<lparr> ep_ResourceType := resourceType, ep_IsCRD := (grp = CRDGroup \<and> resourceType = CRDResourceType) \<rparr> in
      if l4 then ae else
      case Shift i4 of (name, l5, i5) \<Rightarrow>
      let ae = ae\<lparr> ep_Name := name \<rparr>;
          ae = (if ep_IsCRD ae then (case Cut (CHR ''.'') name of (rt, g, _) \<Rightarrow> ae\<lparr> ep_CRDResourceType := rt, ep_CRDGroup := g \<rparr>) else ae)
      in if l5 then ae else
      case Shift i5 of (sub, l6, i6) \<Rightarrow>
      let ae = ae\<lparr> ep_Subresource := sub \<rparr>;
          ae = (if resourceType = ''namespaces'' then as_namespaced ae else ae)
      in if l6 then ae else parse_tail i6 ae)"

definition ParseAPIEndpoint :: "string \<Rightarrow> string \<Rightarrow> APIEndpoint" where
  "ParseAPIEndpoint rawPath rawQuery =
     (let isWatch = Contains rawQuery ''watch=true'';
          cleanedPath = TrimBoth (\<lambda>c. c = CHR ''/'') rawPath;
          pathItems = Split (CHR ''/'') cleanedPath;
          ae = (if hd pathItems = ''api'' then Some (parseCoreEndpoint pathItems)
                else if hd pathItems = ''apis'' then Some (parseAPIsEndpoint pathItems) else None)
      in if cleanedPath = [] then no_endpoint\<lparr> ep_IsRoot := True, ep_IsWatch := isWatch, ep_RawPath := rawPath, ep_RawQuery := rawQuery \<rparr>
         else
           (case ae of
              None \<Rightarrow> no_endpoint\<lparr> ep_IsUnknown := True, ep_RawPath := rawPath, ep_RawQuery := rawQuery \<rparr>
            | Some ae \<Rightarrow> ae\<lparr> ep_IsWatch := isWatch, ep_RawPath := rawPath, ep_RawQuery := rawQuery \<rparr>))"

definition Endpoint_Path :: "APIEndpoint \<Rightarrow> string" where
  "Endpoint_Path a =
     (if ep_IsRoot a \<or> ep_IsCore a \<or> ep_IsUnknown a then ep_RawPath a
      else
        let ns = (if ep_Namespace a \<noteq> [] then ''namespaces/'' @ ep_Namespace a else []);
            parts = [ep_Prefix a, ep_Group a, ep_Version a, ns, ep_ResourceType a, ep_Name a, ep_Subresource a] @ ep_Remainder a
        in CHR ''/'' # Join (filter (\<lambda>part. part \<noteq> []) parts) ''/'')"

section \<open>Rewriting of requests\<close>

record LabelSelectorRequirement =
  ls_Key :: string
  ls_Operator :: string
  ls_Values :: "string list"

record LabelSelector =
  ls_MatchLabels :: "(string, string) gomap"
  ls_MatchExpressions :: "LabelSelectorRequirement list"

record selector_api =
  sa_Get :: "string \<Rightarrow> string option"
  sa_Parse :: "string \<Rightarrow> LabelSelector option"
  sa_Print :: "LabelSelector \<Rightarrow> string option"
  sa_Set :: "string \<Rightarrow> string \<Rightarrow> string"

definition rewriteLabelSelector :: "selector_api \<Rightarrow> RewriteRules \<Rightarrow> string \<Rightarrow> string" where
  "rewriteLabelSelector A rr rawQuery =
     (case sa_Get A rawQuery of
        None \<Rightarrow> rawQuery
      | Some lsq \<Rightarrow>
          if lsq = [] then rawQuery
          else
            (case sa_Parse A lsq of
               None \<Rightarrow> rawQuery
             | Some sel \<Rightarrow>
                 let sel' = \<lparr> ls_MatchLabels = RewriteMap (labelsRewriter rr) (ls_MatchLabels sel) Rename,
                       ls_MatchExpressions = map (\<lambda>expr.
                         case RewriteNameValues (labelsRewriter rr) (ls_Key expr) (ls_Values expr) Rename of
                           (key, vals) \<Rightarrow> expr\<lparr> ls_Key := key, ls_Values := vals \<rparr>) (ls_MatchExpressions sel) \<rparr>
                 in (case sa_Print A sel' of None \<Rightarrow> rawQuery | Some res \<Rightarrow> sa_Set A rawQuery res)))"

text \<open>The pattern \<open>metadata.name\%3D([a-z0-9-]+)((\.[a-z0-9-]+)*)\<close>, in which the first dot stands for any character but a newline.\<close>

definition name_char :: "char \<Rightarrow> bool" where
  "name_char c \<longleftrightarrow> (let n = of_char c :: nat in (97 \<le> n \<and> n \<le> 122) \<or> (48 \<le> n \<and> n \<le> 57) \<or> n = 45)"

function dotted :: "string \<Rightarrow> string" where
  "dotted s =
     (case s of
        [] \<Rightarrow> []
      | c # rest \<Rightarrow>
          if c \<noteq> CHR ''.'' \<or> takeWhile name_char rest = [] then []
          else c # takeWhile name_char rest @ dotted (dropWhile name_char rest))"
  by pat_completeness auto
termination
  by (relation "measure length") (auto simp: less_Suc_eq_le length_dropWhile_le)

declare dotted.simps [simp del]

definition match_here :: "string \<Rightarrow> (string \<times> string) option" where
  "match_here s =
     (let rest = drop 16 s; resourceType = takeWhile name_char rest in
      if take 8 s = ''metadata'' \<and> take 7 (drop 9 s) = ''name%3D'' \<and> s ! 8 \<noteq> CHR 0x0A \<and> resourceType \<noteq> []
      then Some (resourceType, dotted (dropWhile name_char rest)) else None)"

fun find_match :: "string \<Rightarrow> (string \<times> string) option" where
  "find_match [] = None"
| "find_match (c # s) = (case match_here (c # s) of Some m \<Rightarrow> Some m | None \<Rightarrow> find_match s)"

fun replace_matches :: "string \<Rightarrow> nat \<Rightarrow> string \<Rightarrow> string" where
  "replace_matches new skip [] = []"
| "replace_matches new skip (c # s) =
     (if skip > 0 then replace_matches new (skip - 1) s
      else (case match_here (c # s) of
              Some (a, b) \<Rightarrow> new @ replace_matches new (15 + length a + length b) s
            | None \<Rightarrow> c # replace_matches new 0 s))"

definition rewriteFieldSelector :: "RewriteRules \<Rightarrow> string \<Rightarrow> string" where
  "rewriteFieldSelector rr rawQuery =
     (case find_match rawQuery of
        None \<Rightarrow> []
      | Some (resourceType, dottedGroup) \<Rightarrow>
          let grp = TrimPrefix dottedGroup ''.'' in
          if get_ResourceRules rr grp resourceType = None then []
          else replace_matches (''metadata.name%3D'' @ RenameResource rr resourceType @ CHR ''.'' # RenameApiVersion rr grp) 0 rawQuery)"

definition rewriteCRDEndpoint :: "RewriteRules \<Rightarrow> APIEndpoint \<Rightarrow> APIEndpoint option" where
  "rewriteCRDEndpoint rr ep =
     (if ep_CRDGroup ep = [] \<and> ep_CRDResourceType ep = []
      then if Contains (ep_RawQuery ep) ''metadata.name'' \<and> rewriteFieldSelector rr (ep_RawQuery ep) \<noteq> []
           then Some (ep\<lparr> ep_RawQuery := rewriteFieldSelector rr (ep_RawQuery ep) \<rparr>) else None
      else if get_ResourceRules rr (ep_CRDGroup ep) (ep_CRDResourceType ep) = None then None
      else
        let g = RenameApiVersion rr (ep_CRDGroup ep); rt = RenameResource rr (ep_CRDResourceType ep)
        in Some (ep\<lparr> ep_CRDGroup := g, ep_CRDResourceType := rt, ep_Name := rt @ CHR ''.'' # g \<rparr>))"

definition rewriteCRApiEndpoint :: "RewriteRules \<Rightarrow> APIEndpoint \<Rightarrow> APIEndpoint option" where
  "rewriteCRApiEndpoint rr ep =
     (if ep_Group ep = [] \<or> get_GroupRule rr (ep_Group ep) = None then None
      else if ep_ResourceType ep \<noteq> [] \<and> get_ResourceRules rr (ep_Group ep) (ep_ResourceType ep) = None then None
      else
        let newGroup = RenameApiVersion rr (ep_Group ep);
            newResource = (if ep_ResourceType ep \<noteq> [] then RenameResource rr (ep_ResourceType ep) else [])
        in if newGroup = [] \<and> newResource = [] then None
           else Some (ep\<lparr> ep_Group := (if newGroup \<noteq> [] then newGroup else ep_Group ep),
                         ep_ResourceType := (if newResource \<noteq> [] then newResource else ep_ResourceType ep) \<rparr>))"

definition RewriteAPIEndpoint :: "selector_api \<Rightarrow> RewriteRules \<Rightarrow> APIEndpoint \<Rightarrow> APIEndpoint option" where
  "RewriteAPIEndpoint A rr ep =
     (let rwr = (if ep_IsRoot ep \<or> ep_IsCore ep \<or> ep_IsUnknown ep then None
                 else if ep_IsCRD ep then rewriteCRDEndpoint rr ep else rewriteCRApiEndpoint rr ep);
          ep' = (case rwr of None \<Rightarrow> ep | Some e \<Rightarrow> e);
          query = (if Contains (ep_RawQuery ep) ''labelSelector'' then rewriteLabelSelector A rr (ep_RawQuery ep') else ep_RawQuery ep')
      in if query \<noteq> ep_RawQuery ep' then Some (ep'\<lparr> ep_RawQuery := query \<rparr>) else rwr)"

record TargetRequest =
  tr_originEndpoint :: "APIEndpoint option"
  tr_targetEndpoint :: "APIEndpoint option"
  tr_webhookRule :: "WebhookRule option"

definition NewTargetRequest :: "selector_api \<Rightarrow> RewriteRules \<Rightarrow> string \<Rightarrow> string \<Rightarrow> TargetRequest" where
  "NewTargetRequest A rr path query =
     (case get_WebhookRule rr path of
        Some rule \<Rightarrow> \<lparr> tr_originEndpoint = None, tr_targetEndpoint = None, tr_webhookRule = Some rule \<rparr>
      | None \<Rightarrow>
          let ep = ParseAPIEndpoint path query
          in \<lparr> tr_originEndpoint = Some ep, tr_targetEndpoint = RewriteAPIEndpoint A rr ep, tr_webhookRule = None \<rparr>)"

definition Target_Path :: "TargetRequest \<Rightarrow> string" where
  "Target_Path tr =
     (case tr_targetEndpoint tr of
        Some ep \<Rightarrow> Endpoint_Path ep
      | None \<Rightarrow>
          (case tr_originEndpoint tr of
             Some ep \<Rightarrow> Endpoint_Path ep
           | None \<Rightarrow> (case tr_webhookRule tr of Some rule \<Rightarrow> wr_Path rule | None \<Rightarrow> [])))"

definition Target_RawQuery :: "TargetRequest \<Rightarrow> string" where
  "Target_RawQuery tr =
     (case tr_targetEndpoint tr of
        Some ep \<Rightarrow> ep_RawQuery ep
      | None \<Rightarrow> (case tr_originEndpoint tr of Some ep \<Rightarrow> ep_RawQuery ep | None \<Rightarrow> []))"

definition RequestURI :: "TargetRequest \<Rightarrow> string" where
  "RequestURI tr = (if Target_RawQuery tr = [] then Target_Path tr else Target_Path tr @ ''?'' @ Target_RawQuery tr)"

definition Target_IsCRD :: "TargetRequest \<Rightarrow> bool" where
  "Target_IsCRD tr = (case tr_originEndpoint tr of Some ep \<Rightarrow> ep_IsCRD ep | None \<Rightarrow> False)"

definition OrigGroup :: "TargetRequest \<Rightarrow> string" where
  "OrigGroup tr =
     (case tr_originEndpoint tr of
        Some ep \<Rightarrow> if ep_IsCRD ep then ep_CRDGroup ep else ep_Group ep
      | None \<Rightarrow> (case tr_webhookRule tr of Some rule \<Rightarrow> wr_Group rule | None \<Rightarrow> []))"

definition OrigResourceType :: "TargetRequest \<Rightarrow> string" where
  "OrigResourceType tr =
     (case tr_originEndpoint tr of
        Some ep \<Rightarrow> if ep_IsCRD ep then ep_CRDResourceType ep else ep_ResourceType ep
      | None \<Rightarrow> (case tr_webhookRule tr of Some rule \<Rightarrow> wr_Resource rule | None \<Rightarrow> []))"

definition shouldRewriteResource :: "string \<Rightarrow> bool" where
  "shouldRewriteResource resourceType = (resourceType \<in> set [''nodes'', ''pods'', ''configmaps'', ''secrets'', ''services'',
     ''serviceaccounts'', ''mutatingwebhookconfigurations'', ''validatingwebhookconfigurations'', ''clusterroles'', ''roles'', ''rolebindings'',
     ''clusterrolebindings'', ''deployments'', ''statefulsets'', ''daemonsets'', ''jobs'', ''persistentvolumeclaims'', ''prometheusrules'',
     ''servicemonitors'', ''poddisruptionbudgets'', ''controllerrevisions'', ''apiservices'', ''validatingadmissionpolicybindings'',
     ''validatingadmissionpolicies'', ''events''])"

definition ShouldRewriteRequest :: "TargetRequest \<Rightarrow> bool" where
  "ShouldRewriteRequest tr =
     (if tr_webhookRule tr \<noteq> None then True
      else
        (case tr_originEndpoint tr of
           None \<Rightarrow> True
         | Some ep \<Rightarrow>
             if ep_IsRoot ep \<or> ep_IsUnknown ep then False
             else if tr_targetEndpoint tr = None
             then (ep_ResourceType ep = ''customresourcedefinitions'' \<and> ep_Name ep = []) \<or> shouldRewriteResource (ep_ResourceType ep)
             else True))"

definition ShouldRewriteResponse :: "TargetRequest \<Rightarrow> bool" where
  "ShouldRewriteResponse tr =
     (if tr_webhookRule tr \<noteq> None then True
      else
        (case tr_originEndpoint tr of
           None \<Rightarrow> False
         | Some ep \<Rightarrow>
             if ep_IsRoot ep \<or> ep_IsUnknown ep then False
             else if ep_IsCRD ep then ep_Name ep = [] \<or> tr_targetEndpoint tr \<noteq> None
             else tr_targetEndpoint tr \<noteq> None \<or> ep_Group ep = [] \<or> shouldRewriteResource (ep_ResourceType ep)))"

section \<open>Rewriting of paths\<close>

text \<open>
  The reference: \<open>renamed_items rr items\<close> replaces, in the items of a path below \<open>/apis\<close>, the group and the resource type if there are rules for
  them, or the name of a custom resource definition, and leaves everything else alone.
\<close>

definition resource_position :: "string list \<Rightarrow> nat" where
  "resource_position items = (if length items \<ge> 6 \<and> items ! 3 = ''namespaces'' then 5 else 3)"

definition renamed_items :: "RewriteRules \<Rightarrow> string list \<Rightarrow> string list" where
  "renamed_items rr items =
     (if length items < 2 then items
      else if items ! 1 = CRDGroup \<and> length items \<ge> 4 \<and> items ! 3 = CRDResourceType
      then if length items < 5 then items
           else (case Cut (CHR ''.'') (items ! 4) of (rt, g, _) \<Rightarrow>
                   if get_ResourceRules rr g rt = None then items
                   else items[4 := RenameResource rr rt @ CHR ''.'' # RenameApiVersion rr g])
      else if get_GroupRule rr (items ! 1) = None then items
      else if length items < 4 then items[1 := RenameApiVersion rr (items ! 1)]
      else if get_ResourceRules rr (items ! 1) (items ! resource_position items) = None then items
      else items[1 := RenameApiVersion rr (items ! 1), resource_position items := RenameResource rr (items ! resource_position items)])"

text \<open>
  Paths the parser keeps apart: no empty items, and at most a name and a subresource after a resource type without namespace.
  Rules name their groups, before and after.
\<close>

definition api_items :: "string list \<Rightarrow> bool" where
  "api_items items \<longleftrightarrow> items \<noteq> [] \<and> hd items = ''apis'' \<and> list_all (\<lambda>x. x \<noteq> [] \<and> CHR ''/'' \<notin> set x) items
     \<and> (length items \<le> 6 \<or> items ! 3 = ''namespaces'')"

definition rules_named :: "RewriteRules \<Rightarrow> bool" where
  "rules_named rr \<longleftrightarrow> mget (rw_Rules rr) [] = None \<and> list_all (\<lambda>(_, g). gr_Renamed (ag_GroupRule g) \<noteq> []) (rw_Rules rr)"

lemma MapIndexer_Rename_nonempty:
  assumes "rules_named rr" "g \<noteq> []"
  shows "MapIndexer_Rename (apiGroupsIndex rr) g \<noteq> []"
proof (cases "mget (mi_idx (apiGroupsIndex rr)) g")
  case (Some renamed)
  have "mget (foldl (\<lambda>m p. mput (fst p) (snd p) m) [] pairs) g = Some renamed \<Longrightarrow> renamed \<in> snd ` set pairs" for pairs
    by (induction pairs rule: rev_induct) (auto split: if_splits)
  with Some have "renamed \<in> snd ` set (group_pairs rr)" by (simp add: apiGroupsIndex_def index_pairs_get)
  with assms(1) have "renamed \<noteq> []" by (auto simp: group_pairs_def rules_named_def list_all_iff)
  with Some show ?thesis by (simp add: MapIndexer_Rename_def)
qed (simp add: MapIndexer_Rename_def assms(2))

lemma RenameApiVersion_nonempty:
  assumes "rules_named rr" "g \<noteq> []" "CHR ''/'' \<notin> set g"
  shows "RenameApiVersion rr g \<noteq> []"
  using MapIndexer_Rename_nonempty[OF assms(1,2)] assms(3) by (simp add: RenameApiVersion_def on_group_def Cut_def Let_def)

lemma Join_ends:
  assumes "list_all (\<lambda>x. x \<noteq> [] \<and> CHR ''/'' \<notin> set x) items" "items \<noteq> []"
  shows "Join items ''/'' \<noteq> [] \<and> hd (Join items ''/'') \<noteq> CHR ''/'' \<and> last (Join items ''/'') \<noteq> CHR ''/''"
  using assms
proof (induction items rule: induct_list012)
  case (2 x)
  then show ?case by (auto dest: hd_in_set last_in_set)
next
  case (3 x y zs)
  then show ?case by (auto dest: hd_in_set)
qed simp

lemma parse_items:
  assumes "api_items items"
  shows "ParseAPIEndpoint (CHR ''/'' # Join items ''/'') query =
    (parseAPIsEndpoint items)\<lparr> ep_IsWatch := Contains query ''watch=true'', ep_RawPath := CHR ''/'' # Join items ''/'', ep_RawQuery := query \<rparr>"
proof -
  let ?p = "\<lambda>c. c = CHR ''/''"
  have ends: "Join items ''/'' \<noteq> []" "hd (Join items ''/'') \<noteq> CHR ''/''" "last (Join items ''/'') \<noteq> CHR ''/''"
    using Join_ends assms by (auto simp: api_items_def)
  then have "TrimBoth ?p (CHR ''/'' # Join items ''/'') = TrimBoth ?p (Join items ''/'')"
    by (simp add: TrimBoth_def)
  also have "\<dots> = Join items ''/''" by (rule TrimBoth_id) (use ends in simp)
  finally have trim: "TrimBoth ?p (CHR ''/'' # Join items ''/'') = Join items ''/''" .
  have "Split (CHR ''/'') (Join items ''/'') = items"
    by (rule Split_Join) (use assms in \<open>auto simp: api_items_def list_all_iff\<close>)
  with trim ends assms show ?thesis by (simp add: ParseAPIEndpoint_def Let_def api_items_def)
qed

lemma Join_namespaces:
  "Join (a # b # c # (''namespaces'' @ CHR ''/'' # ns) # xs) ''/'' = Join (a # b # c # ''namespaces'' # ns # xs) ''/''"
  by (cases xs) simp_all

lemma Endpoint_Path_items:
  assumes "\<not> ep_IsRoot a" "\<not> ep_IsCore a" "\<not> ep_IsUnknown a" "ep_Prefix a \<noteq> []"
    and "ep_Namespace a \<noteq> [] \<Longrightarrow> ep_Group a \<noteq> [] \<and> ep_Version a \<noteq> []"
  shows "Endpoint_Path a = CHR ''/'' # Join (filter (\<lambda>part. part \<noteq> [])
    ([ep_Prefix a, ep_Group a, ep_Version a] @ (if ep_Namespace a = [] then [] else [''namespaces'', ep_Namespace a])
      @ [ep_ResourceType a, ep_Name a, ep_Subresource a] @ ep_Remainder a)) ''/''"
proof (cases "ep_Namespace a = []")
  case False
  with assms show ?thesis
    using Join_namespaces[of "ep_Prefix a" "ep_Group a" "ep_Version a" "ep_Namespace a"
        "filter (\<lambda>part. part \<noteq> []) ([ep_ResourceType a, ep_Name a, ep_Subresource a] @ ep_Remainder a)"]
    by (simp add: Endpoint_Path_def Let_def)
qed (use assms in \<open>simp add: Endpoint_Path_def Let_def\<close>)

lemma api_items_cases:
  assumes "api_items items"
  obtains (root) "items = [''apis'']" | (grp) g where "items = [''apis'', g]" | (version) g v where "items = [''apis'', g, v]"
    | (resource) g v r where "items = [''apis'', g, v, r]" | (name) g v r n where "items = [''apis'', g, v, r, n]"
    | (sub) g v r n s where "items = [''apis'', g, v, r, n, s]" "r \<noteq> ''namespaces''"
    | (namespaced) g v ns r rest where "items = [''apis'', g, v, ''namespaces'', ns, r] @ rest"
proof -
  obtain xs where xs: "items = ''apis'' # xs" using assms by (cases items) (auto simp: api_items_def)
  show thesis
  proof (cases "length xs \<ge> 5")
    case False
    then have "length xs = 0 \<or> length xs = 1 \<or> length xs = 2 \<or> length xs = 3 \<or> length xs = 4" by linarith
    moreover have "thesis" if "length xs = 0" using that xs by (intro root) simp
    moreover have "thesis" if len: "length xs = 1"
    proof -
      obtain g where "xs = [g]" using len by (auto simp: length_Suc_conv numeral_eq_Suc)
      with xs show thesis by (intro grp) simp
    qed
    moreover have "thesis" if len: "length xs = 2"
    proof -
      obtain g v where "xs = [g, v]" using len by (auto simp: length_Suc_conv numeral_eq_Suc)
      with xs show thesis by (intro version) simp
    qed
    moreover have "thesis" if len: "length xs = 3"
    proof -
      obtain g v r where "xs = [g, v, r]" using len by (auto simp: length_Suc_conv numeral_eq_Suc)
      with xs show thesis by (intro resource) simp
    qed
    moreover have "thesis" if len: "length xs = 4"
    proof -
      obtain g v r n where "xs = [g, v, r, n]" using len by (auto simp: length_Suc_conv numeral_eq_Suc)
      with xs show thesis by (intro name) simp
    qed
    ultimately show thesis by blast
  next
    case True
    then obtain g v r n s rest where ys: "xs = g # v # r # n # s # rest"
      by (auto simp: Suc_le_length_iff numeral_eq_Suc)
    show thesis
    proof (cases "r = ''namespaces''")
      case True
      with xs ys namespaced[of g v n s rest] show thesis by simp
    next
      case False
      with assms xs ys have "rest = []" by (auto simp: api_items_def)
      with False xs ys sub show thesis by blast
    qed
  qed
qed

definition rewritten :: "RewriteRules \<Rightarrow> APIEndpoint \<Rightarrow> APIEndpoint" where
  "rewritten rr ep =
     (case (if ep_IsRoot ep \<or> ep_IsCore ep \<or> ep_IsUnknown ep then None
            else if ep_IsCRD ep then rewriteCRDEndpoint rr ep else rewriteCRApiEndpoint rr ep) of None \<Rightarrow> ep | Some e \<Rightarrow> e)"

lemma Endpoint_Path_query: "Endpoint_Path (ep\<lparr> ep_RawQuery := q \<rparr>) = Endpoint_Path ep"
  by (simp add: Endpoint_Path_def)

lemma Target_Path_rewritten:
  assumes "get_WebhookRule rr path = None"
  shows "Target_Path (NewTargetRequest A rr path query) = Endpoint_Path (rewritten rr (ParseAPIEndpoint path query))"
  using assms by (auto simp: NewTargetRequest_def Target_Path_def RewriteAPIEndpoint_def rewritten_def Let_def Endpoint_Path_query
      split: option.splits)

text \<open>The parts of the endpoint that matter for its path, for each shape of a path.\<close>

definition path_parts :: "APIEndpoint \<Rightarrow> string list" where
  "path_parts a = [ep_Prefix a, ep_Group a, ep_Version a] @ (if ep_Namespace a = [] then [] else [''namespaces'', ep_Namespace a])
      @ [ep_ResourceType a, ep_Name a, ep_Subresource a] @ ep_Remainder a"

lemmas parse_simps = parseAPIsEndpoint_def no_endpoint_def Let_def as_namespaced_def parse_tail_def

lemmas rewrite_simps = rewritten_def rewriteCRDEndpoint_def rewriteCRApiEndpoint_def renamed_items_def path_parts_def

lemma rewrite_short:
  assumes "rules_named rr" "g \<noteq> []" "CHR ''/'' \<notin> set g" "v \<noteq> []" "r \<noteq> []"
  shows "filter (\<lambda>x. x \<noteq> []) (path_parts (rewritten rr (parseAPIsEndpoint [''apis'']))) = renamed_items rr [''apis'']"
    "filter (\<lambda>x. x \<noteq> []) (path_parts (rewritten rr (parseAPIsEndpoint [''apis'', g]))) = renamed_items rr [''apis'', g]"
    "filter (\<lambda>x. x \<noteq> []) (path_parts (rewritten rr (parseAPIsEndpoint [''apis'', g, v]))) = renamed_items rr [''apis'', g, v]"
    "filter (\<lambda>x. x \<noteq> []) (path_parts (rewritten rr (parseAPIsEndpoint [''apis'', g, v, r]))) = renamed_items rr [''apis'', g, v, r]"
  using assms RenameApiVersion_nonempty[OF assms(1-3)]
  by (auto simp: parse_simps rewrite_simps resource_position_def RenameResource_def CRDGroup_def split: option.splits)

lemma no_rule_for_empty: "rules_named rr \<Longrightarrow> get_ResourceRules rr [] rt = None"
  by (simp add: get_ResourceRules_def rules_named_def cut_first_def Cut_def Let_def)

lemma parse_plain:
  assumes "\<not> (g = CRDGroup \<and> r = CRDResourceType)"
  shows "parseAPIsEndpoint [''apis'', g, v, r, n] =
      no_endpoint\<lparr> ep_Prefix := ''apis'', ep_Group := g, ep_Version := v, ep_ResourceType := r, ep_Name := n \<rparr>"
    and "r \<noteq> ''namespaces'' \<Longrightarrow> parseAPIsEndpoint [''apis'', g, v, r, n, s] =
      no_endpoint\<lparr> ep_Prefix := ''apis'', ep_Group := g, ep_Version := v, ep_ResourceType := r, ep_Name := n, ep_Subresource := s \<rparr>"
  using assms by (cases "g = CRDGroup"; simp add: parseAPIsEndpoint_def Let_def no_endpoint_def)+

lemma parse_crd:
  assumes "Cut (CHR ''.'') n = (rt, cg, found)"
  shows "parseAPIsEndpoint [''apis'', CRDGroup, v, CRDResourceType, n] =
      no_endpoint\<lparr> ep_Prefix := ''apis'', ep_Group := CRDGroup, ep_Version := v, ep_ResourceType := CRDResourceType, ep_Name := n,
        ep_IsCRD := True, ep_CRDResourceType := rt, ep_CRDGroup := cg \<rparr>"
    and "parseAPIsEndpoint [''apis'', CRDGroup, v, CRDResourceType, n, s] =
      no_endpoint\<lparr> ep_Prefix := ''apis'', ep_Group := CRDGroup, ep_Version := v, ep_ResourceType := CRDResourceType, ep_Name := n,
        ep_IsCRD := True, ep_CRDResourceType := rt, ep_CRDGroup := cg, ep_Subresource := s \<rparr>"
  using assms by (simp_all add: parseAPIsEndpoint_def Let_def no_endpoint_def CRDResourceType_def)

lemma rewrite_plain_fields:
  assumes "\<not> ep_IsRoot ep" "\<not> ep_IsCore ep" "\<not> ep_IsUnknown ep" "\<not> ep_IsCRD ep" "ep_Group ep \<noteq> []" "ep_ResourceType ep \<noteq> []"
    "RenameApiVersion rr (ep_Group ep) \<noteq> []"
  shows "rewritten rr ep =
    (if get_GroupRule rr (ep_Group ep) = None \<or> get_ResourceRules rr (ep_Group ep) (ep_ResourceType ep) = None then ep
     else ep\<lparr> ep_Group := RenameApiVersion rr (ep_Group ep), ep_ResourceType := RenameResource rr (ep_ResourceType ep) \<rparr>)"
  using assms by (simp add: rewritten_def rewriteCRApiEndpoint_def Let_def RenameResource_def)

lemma rewrite_crd_fields:
  assumes "\<not> ep_IsRoot ep" "\<not> ep_IsCore ep" "\<not> ep_IsUnknown ep" "ep_IsCRD ep" "rules_named rr"
  shows "path_parts (rewritten rr ep) =
    path_parts (if get_ResourceRules rr (ep_CRDGroup ep) (ep_CRDResourceType ep) = None then ep
     else ep\<lparr> ep_Name := RenameResource rr (ep_CRDResourceType ep) @ CHR ''.'' # RenameApiVersion rr (ep_CRDGroup ep) \<rparr>)"
proof (cases "ep_CRDGroup ep = [] \<and> ep_CRDResourceType ep = []")
  case True
  with assms no_rule_for_empty[OF assms(5), of "[]"] show ?thesis
    by (simp add: rewritten_def rewriteCRDEndpoint_def path_parts_def)
next
  case False
  with assms show ?thesis
    by (cases "get_ResourceRules rr (ep_CRDGroup ep) (ep_CRDResourceType ep)")
      (auto simp add: rewritten_def rewriteCRDEndpoint_def path_parts_def Let_def)
qed

lemma rewrite_named:
  assumes "rules_named rr" "g \<noteq> []" "CHR ''/'' \<notin> set g" "v \<noteq> []" "r \<noteq> []" "n \<noteq> []" "s \<noteq> []"
  shows "filter (\<lambda>x. x \<noteq> []) (path_parts (rewritten rr (parseAPIsEndpoint [''apis'', g, v, r, n]))) = renamed_items rr [''apis'', g, v, r, n]"
    and "r \<noteq> ''namespaces'' \<Longrightarrow>
      filter (\<lambda>x. x \<noteq> []) (path_parts (rewritten rr (parseAPIsEndpoint [''apis'', g, v, r, n, s]))) = renamed_items rr [''apis'', g, v, r, n, s]"
proof -
  obtain rt cg found where c: "Cut (CHR ''.'') n = (rt, cg, found)" by (metis prod_cases3)
  note ne = RenameApiVersion_nonempty[OF assms(1-3)]
  show "filter (\<lambda>x. x \<noteq> []) (path_parts (rewritten rr (parseAPIsEndpoint [''apis'', g, v, r, n]))) = renamed_items rr [''apis'', g, v, r, n]"
  proof (cases "g = CRDGroup \<and> r = CRDResourceType")
    case True
    with assms(2-) c show ?thesis
      by (simp add: parse_crd[OF c] rewrite_crd_fields[OF _ _ _ _ assms(1)] no_endpoint_def) (simp add: path_parts_def renamed_items_def)
  next
    case False
    then show ?thesis
      using assms(2-) ne unfolding parse_plain(1)[OF False]
      by (cases "g = CRDGroup"; simp add: rewrite_plain_fields no_endpoint_def;
          simp add: path_parts_def renamed_items_def resource_position_def RenameResource_def)
  qed
  assume r: "r \<noteq> ''namespaces''"
  show "filter (\<lambda>x. x \<noteq> []) (path_parts (rewritten rr (parseAPIsEndpoint [''apis'', g, v, r, n, s]))) = renamed_items rr [''apis'', g, v, r, n, s]"
  proof (cases "g = CRDGroup \<and> r = CRDResourceType")
    case True
    with assms(2-) c show ?thesis
      by (simp add: parse_crd[OF c] rewrite_crd_fields[OF _ _ _ _ assms(1)] no_endpoint_def) (simp add: path_parts_def renamed_items_def)
  next
    case False
    then show ?thesis
      using assms(2-) ne r unfolding parse_plain(2)[OF False r]
      by (cases "g = CRDGroup"; simp add: rewrite_plain_fields no_endpoint_def;
          simp add: path_parts_def renamed_items_def resource_position_def RenameResource_def)
  qed
qed

lemma rewrite_namespaced:
  assumes "rules_named rr" "g \<noteq> []" "CHR ''/'' \<notin> set g" "v \<noteq> []" "ns \<noteq> []" "r \<noteq> []" "list_all (\<lambda>x. x \<noteq> []) rest"
  shows "filter (\<lambda>x. x \<noteq> []) (path_parts (rewritten rr (parseAPIsEndpoint ([''apis'', g, v, ''namespaces'', ns, r] @ rest))))
    = renamed_items rr ([''apis'', g, v, ''namespaces'', ns, r] @ rest)"
proof -
  note ne = RenameApiVersion_nonempty[OF assms(1-3)]
  have crd: "''namespaces'' \<noteq> CRDResourceType" by (simp add: CRDResourceType_def)
  have rest: "filter (\<lambda>x. x \<noteq> []) rest = rest" using assms(7) by (simp add: filter_id_conv list_all_iff)
  have "ep_Namespace (parseAPIsEndpoint ([''apis'', g, v, ''namespaces'', ns, r] @ rest)) = ns"
    "ep_Group (parseAPIsEndpoint ([''apis'', g, v, ''namespaces'', ns, r] @ rest)) = g"
    "ep_Version (parseAPIsEndpoint ([''apis'', g, v, ''namespaces'', ns, r] @ rest)) = v"
    "ep_Prefix (parseAPIsEndpoint ([''apis'', g, v, ''namespaces'', ns, r] @ rest)) = ''apis''"
    "ep_ResourceType (parseAPIsEndpoint ([''apis'', g, v, ''namespaces'', ns, r] @ rest)) = r"
    "\<not> ep_IsCRD (parseAPIsEndpoint ([''apis'', g, v, ''namespaces'', ns, r] @ rest))"
    "\<not> ep_IsRoot (parseAPIsEndpoint ([''apis'', g, v, ''namespaces'', ns, r] @ rest))"
    "\<not> ep_IsCore (parseAPIsEndpoint ([''apis'', g, v, ''namespaces'', ns, r] @ rest))"
    "\<not> ep_IsUnknown (parseAPIsEndpoint ([''apis'', g, v, ''namespaces'', ns, r] @ rest))"
    "filter (\<lambda>x. x \<noteq> []) ([ep_Name (parseAPIsEndpoint ([''apis'', g, v, ''namespaces'', ns, r] @ rest)),
       ep_Subresource (parseAPIsEndpoint ([''apis'', g, v, ''namespaces'', ns, r] @ rest))] @
       ep_Remainder (parseAPIsEndpoint ([''apis'', g, v, ''namespaces'', ns, r] @ rest))) = rest"
    using crd assms(7)
    by (cases rest rule: remdups_adj.cases; simp add: parse_simps filter_id_conv list_all_iff)+
  with assms(2-6) ne show ?thesis
    by (cases "get_GroupRule rr g"; cases "get_ResourceRules rr g r")
      (simp_all add: rewrite_simps resource_position_def RenameResource_def crd Let_def)
qed

lemma rewritten_flags:
  "ep_IsRoot (rewritten rr ep) = ep_IsRoot ep" "ep_IsCore (rewritten rr ep) = ep_IsCore ep" "ep_IsUnknown (rewritten rr ep) = ep_IsUnknown ep"
  "ep_Prefix (rewritten rr ep) = ep_Prefix ep" "ep_Version (rewritten rr ep) = ep_Version ep" "ep_Namespace (rewritten rr ep) = ep_Namespace ep"
  by (auto simp: rewritten_def rewriteCRDEndpoint_def rewriteCRApiEndpoint_def Let_def split: option.splits if_splits)

lemma rewritten_group: "ep_Group ep \<noteq> [] \<Longrightarrow> ep_Group (rewritten rr ep) \<noteq> []"
  by (auto simp: rewritten_def rewriteCRDEndpoint_def rewriteCRApiEndpoint_def Let_def split: option.splits if_splits)

lemma rewriteCRApi_meta:
  "rewriteCRApiEndpoint rr (ep\<lparr> ep_IsWatch := w, ep_RawPath := p, ep_RawQuery := q \<rparr>) =
     map_option (\<lambda>e. e\<lparr> ep_IsWatch := w, ep_RawPath := p, ep_RawQuery := q \<rparr>) (rewriteCRApiEndpoint rr ep)"
  by (cases ep) (simp add: rewriteCRApiEndpoint_def Let_def)

lemma rewritten_meta:
  assumes "\<not> ep_IsRoot ep" "\<not> ep_IsCore ep" "\<not> ep_IsUnknown ep"
  shows "Endpoint_Path (rewritten rr (ep\<lparr> ep_IsWatch := w, ep_RawPath := p, ep_RawQuery := q \<rparr>)) = Endpoint_Path (rewritten rr ep)"
proof (cases "ep_IsCRD ep")
  case True
  with assms show ?thesis
    by (cases "ep_CRDGroup ep = []"; cases "ep_CRDResourceType ep = []";
        cases "get_ResourceRules rr (ep_CRDGroup ep) (ep_CRDResourceType ep)")
      (simp_all add: rewritten_def rewriteCRDEndpoint_def Let_def Endpoint_Path_def)
next
  case False
  with assms have "rewritten rr (ep\<lparr> ep_IsWatch := w, ep_RawPath := p, ep_RawQuery := q \<rparr>) =
      (rewritten rr ep)\<lparr> ep_IsWatch := w, ep_RawPath := p, ep_RawQuery := q \<rparr>"
    by (cases "rewriteCRApiEndpoint rr ep") (simp_all add: rewritten_def rewriteCRApi_meta)
  moreover have "Endpoint_Path (e\<lparr> ep_IsWatch := w, ep_RawPath := p, ep_RawQuery := q \<rparr>) = Endpoint_Path e"
    if "\<not> ep_IsRoot e" "\<not> ep_IsCore e" "\<not> ep_IsUnknown e" for e :: APIEndpoint
    using that by (simp add: Endpoint_Path_def)
  ultimately show ?thesis using assms by (simp add: rewritten_flags)
qed

lemma parse_flags:
  assumes "api_items items"
  shows "\<not> ep_IsRoot (parseAPIsEndpoint items) \<and> \<not> ep_IsCore (parseAPIsEndpoint items) \<and> \<not> ep_IsUnknown (parseAPIsEndpoint items)
      \<and> ep_Prefix (parseAPIsEndpoint items) = ''apis'' \<and> (ep_Namespace (parseAPIsEndpoint items) \<noteq> [] \<longrightarrow>
        ep_Group (parseAPIsEndpoint items) \<noteq> [] \<and> ep_Version (parseAPIsEndpoint items) \<noteq> [])"
  using assms
proof (cases rule: api_items_cases)
  case (namespaced g v ns r rest)
  with assms show ?thesis
    by (cases rest rule: remdups_adj.cases) (simp_all add: parse_simps api_items_def CRDResourceType_def)
qed (simp_all add: parse_simps split: prod.splits)

lemma path_of_items:
  assumes "api_items items"
  shows "Endpoint_Path (rewritten rr (parseAPIsEndpoint items)) =
    CHR ''/'' # Join (filter (\<lambda>x. x \<noteq> []) (path_parts (rewritten rr (parseAPIsEndpoint items)))) ''/''"
  unfolding path_parts_def using parse_flags[OF assms]
  by (intro Endpoint_Path_items) (simp_all add: rewritten_flags rewritten_group)

text \<open>
  The proxy forwards a request to the resource it was made for. For every path below \<open>/apis\<close> that the parser can keep apart
  (\<^const>\<open>api_items\<close>: at most six items unless it is namespaced; longer ones are garbled, see \<open>long_path_garbled\<close>), with named rules, the
  path of the forwarded request is the original one with exactly the group and the resource type replaced by their renamed
  forms if both have rules (or, for a custom resource definition, its name), and is otherwise unchanged; namespaces, names, subresources
  and everything below them pass through, whatever the query is.
\<close>

theorem Target_Path_renames:
  assumes "api_items items" and "rules_named rr" and "get_WebhookRule rr (CHR ''/'' # Join items ''/'') = None"
  shows "Target_Path (NewTargetRequest A rr (CHR ''/'' # Join items ''/'') query) = CHR ''/'' # Join (renamed_items rr items) ''/''"
proof -
  let ?ep = "parseAPIsEndpoint items"
  let ?parsed = "?ep\<lparr> ep_IsWatch := Contains query ''watch=true'', ep_RawPath := CHR ''/'' # Join items ''/'', ep_RawQuery := query \<rparr>"
  have ne: "x \<noteq> [] \<and> CHR ''/'' \<notin> set x" if "x \<in> set items" for x
    using that assms(1) by (simp add: api_items_def list_all_iff)
  have flags: "\<not> ep_IsRoot ?ep" "\<not> ep_IsCore ?ep" "\<not> ep_IsUnknown ?ep"
    using parse_flags[OF assms(1)] by simp_all
  have "Endpoint_Path (rewritten rr ?parsed) = Endpoint_Path (rewritten rr ?ep)"
    by (rule rewritten_meta[OF flags])
  also have "\<dots> = CHR ''/'' # Join (filter (\<lambda>x. x \<noteq> []) (path_parts (rewritten rr ?ep))) ''/''"
    by (rule path_of_items[OF assms(1)])
  also have "filter (\<lambda>x. x \<noteq> []) (path_parts (rewritten rr ?ep)) = renamed_items rr items"
    using assms(1)
  proof (cases rule: api_items_cases)
    case root
    then show ?thesis using rewrite_short(1)[OF assms(2), of "''a''" "''a''" "''a''"] by simp
  next
    case (grp g)
    then show ?thesis using rewrite_short(2)[OF assms(2), of g "''a''" "''a''"] ne by simp
  next
    case (version g v)
    then show ?thesis using rewrite_short(3)[OF assms(2), of g v "''a''"] ne by simp
  next
    case (resource g v r)
    then show ?thesis using rewrite_short(4)[OF assms(2), of g v r] ne by simp
  next
    case (name g v r n)
    then show ?thesis using rewrite_named(1)[OF assms(2), of g v r n "''a''"] ne by simp
  next
    case (sub g v r n s)
    then show ?thesis using rewrite_named(2)[OF assms(2), of g v r n s] ne by simp
  next
    case (namespaced g v ns r rest)
    then show ?thesis using rewrite_namespaced[OF assms(2), of g v ns r rest] ne by (simp add: list_all_iff)
  qed
  finally show ?thesis
    by (simp only: Target_Path_rewritten[OF assms(3)] parse_items[OF assms(1)])
qed

definition ex_rewrite_rules :: RewriteRules where
  "ex_rewrite_rules = \<lparr> rw_KindPrefix = ''D8'', rw_ResourceTypePrefix = ''d8'', rw_ShortNamePrefix = [], rw_Categories = [],
     rw_Rules = [(''nvidia.com'', \<lparr> ag_GroupRule = \<lparr> gr_Group = ''nvidia.com'', gr_Versions = [''v1''], gr_PreferredVersion = ''v1'', gr_Renamed = ''gpu.io'' \<rparr>,
       ag_ResourceRules = [(''pools'', \<lparr> rr_Kind = ''Pool'', rr_ListKind = ''PoolList'', rr_Plural = ''pools'', rr_Singular = ''pool'', rr_ShortNames = [],
         rr_Categories = [], rr_Versions = [''v1''], rr_PreferredVersion = ''v1'' \<rparr>)] \<rparr>)],
     rw_Webhooks = [], rw_Labels = ex_rules, rw_Annotations = ex_rules, rw_Finalizers = ex_rules, rw_Excludes = [] \<rparr>"

definition ex_items :: "string list" where
  "ex_items = [''apis'', ''nvidia.com'', ''v1'', ''namespaces'', ''ns1'', ''pools'', ''a'', ''status'']"

definition no_selectors :: selector_api where
  "no_selectors = \<lparr> sa_Get = (\<lambda>_. None), sa_Parse = (\<lambda>_. None), sa_Print = (\<lambda>_. None), sa_Set = (\<lambda>q _. q) \<rparr>"

theorem Target_Path_renames_witness:
  "Target_Path (NewTargetRequest no_selectors ex_rewrite_rules ''/apis/nvidia.com/v1/namespaces/ns1/pools/a/status'' []) =
     ''/apis/gpu.io/v1/namespaces/ns1/d8pools/a/status''"
proof -
  have "api_items ex_items" "rules_named ex_rewrite_rules" "get_WebhookRule ex_rewrite_rules (CHR ''/'' # Join ex_items ''/'') = None"
    "CHR ''/'' # Join ex_items ''/'' = ''/apis/nvidia.com/v1/namespaces/ns1/pools/a/status''"
    "CHR ''/'' # Join (renamed_items ex_rewrite_rules ex_items) ''/'' = ''/apis/gpu.io/v1/namespaces/ns1/d8pools/a/status''"
    by code_simp+
  with Target_Path_renames[of ex_items ex_rewrite_rules no_selectors "[]"] show ?thesis by metis
qed

text \<open>
  Longer paths of resources without namespace are not kept apart: the items after the subresource overwrite the name and the
  subresource, also if there is no rule at all.
\<close>

lemma long_path_garbled:
  "Target_Path (NewTargetRequest no_selectors (ex_rewrite_rules\<lparr> rw_Rules := [] \<rparr>) ''/apis/g/v1/things/a/proxy/metrics'' []) =
     ''/apis/g/v1/things/metrics/proxy''"
  by code_simp

section \<open>Kinds and groups\<close>

text \<open>
  \<open>group_rules_ok rr\<close>: groups are filed under their names, renamed groups are distinct and are not original groups.
  Then a kind with a rule that is renamed on the way to the server is restored on the way back.
\<close>

definition group_rules_ok :: "RewriteRules \<Rightarrow> bool" where
  "group_rules_ok rr \<longleftrightarrow> mwf (rw_Rules rr) \<and>
     list_all (\<lambda>(name, g). gr_Group (ag_GroupRule g) = name \<and> CHR ''/'' \<notin> set (gr_Renamed (ag_GroupRule g))) (rw_Rules rr) \<and>
     distinct (map (\<lambda>(_, g). gr_Renamed (ag_GroupRule g)) (rw_Rules rr))"

lemma group_pairs_ok: "group_rules_ok rr \<Longrightarrow> pairs_ok (group_pairs rr)"
proof -
  assume ok: "group_rules_ok rr"
  have "map fst (group_pairs rr) = map fst (rw_Rules rr)"
    using ok by (auto simp: group_pairs_def group_rules_ok_def list_all_iff split: prod.splits)
  moreover have "map snd (group_pairs rr) = map (\<lambda>(_, g). gr_Renamed (ag_GroupRule g)) (rw_Rules rr)"
    by (auto simp: group_pairs_def split: prod.splits)
  ultimately show ?thesis using ok by (simp add: pairs_ok_def group_rules_ok_def)
qed

lemma rename_known_group:
  assumes "group_rules_ok rr" "mget (rw_Rules rr) g = Some rule"
  shows "MapIndexer_Rename (apiGroupsIndex rr) g = gr_Renamed (ag_GroupRule rule)"
    and "IsRenamed (apiGroupsIndex rr) (gr_Renamed (ag_GroupRule rule))"
    and "MapIndexer_Restore (apiGroupsIndex rr) (gr_Renamed (ag_GroupRule rule)) = g"
proof -
  have "(g, rule) \<in> set (rw_Rules rr)" using assms by (auto simp: group_rules_ok_def mget_eq_in)
  then have pair: "(g, gr_Renamed (ag_GroupRule rule)) \<in> set (group_pairs rr)"
    using assms(1) by (force simp: group_pairs_def group_rules_ok_def list_all_iff)
  with group_pairs_ok[OF assms(1)] have "mget (mi_idx (apiGroupsIndex rr)) g = Some (gr_Renamed (ag_GroupRule rule))"
    "mget (mi_reverse (apiGroupsIndex rr)) (gr_Renamed (ag_GroupRule rule)) = Some g"
    by (force simp: apiGroupsIndex_def index_pairs_get index_get pairs_ok_def)+
  then show "MapIndexer_Rename (apiGroupsIndex rr) g = gr_Renamed (ag_GroupRule rule)"
    "IsRenamed (apiGroupsIndex rr) (gr_Renamed (ag_GroupRule rule))"
    "MapIndexer_Restore (apiGroupsIndex rr) (gr_Renamed (ag_GroupRule rule)) = g"
    by (simp_all add: MapIndexer_Rename_def IsRenamed_def MapIndexer_Restore_def)
qed

lemma on_group_append: "CHR ''/'' \<notin> set a \<Longrightarrow> on_group f (a @ CHR ''/'' # v) = f a @ CHR ''/'' # v"
  by (simp add: on_group_def Cut_append)

lemma on_group_plain: "CHR ''/'' \<notin> set a \<Longrightarrow> on_group f a = f a"
  by (simp add: on_group_def Cut_def Let_def)

lemma cut_first_simps: "sep \<notin> set a \<Longrightarrow> cut_first sep a = a" "sep \<notin> set a \<Longrightarrow> cut_first sep (a @ sep # v) = a"
proof -
  assume "sep \<notin> set a"
  then have "takeWhile (\<lambda>c. c \<noteq> sep) a = a" by (auto simp: takeWhile_eq_all_conv)
  then show "cut_first sep a = a" by (simp add: cut_first_def Cut_def Let_def)
qed (simp add: cut_first_def Cut_append)

lemma group_version_cases:
  obtains "CHR ''/'' \<notin> set gv" "cut_first (CHR ''/'') gv = gv"
    | g v where "gv = g @ CHR ''/'' # v" "CHR ''/'' \<notin> set g" "cut_first (CHR ''/'') gv = g"
proof (cases "CHR ''/'' \<in> set gv")
  case True
  then obtain g v where "gv = g @ CHR ''/'' # v" "CHR ''/'' \<notin> set g" by (metis split_list_first)
  with that(2) show thesis by (simp add: cut_first_simps)
qed (use that(1) in \<open>simp add: cut_first_simps\<close>)

lemma RewriteGVK_returns:
  assumes ok: "group_rules_ok rr" and known: "KindRules rr groupVersion kind \<noteq> None"
  shows "RewriteGVK rr Restore (RewriteGVK rr Rename (groupVersion, kind)) = (groupVersion, kind)"
proof -
  obtain rule where rule: "mget (rw_Rules rr) (cut_first (CHR ''/'') groupVersion) = Some rule"
    using known by (auto simp: KindRules_def split: option.splits)
  define r where "r = gr_Renamed (ag_GroupRule rule)"
  have slash: "CHR ''/'' \<notin> set r" using ok mget_in[OF rule] by (auto simp: group_rules_ok_def list_all_iff r_def)
  note names = rename_known_group[OF ok rule, folded r_def]
  have renamed: "RewriteGVK rr Rename (groupVersion, kind) = (RenameApiVersion rr groupVersion, RenameKind rr kind)"
    using known by auto
  have "IsRenamedGroup rr (RenameApiVersion rr groupVersion) \<and>
    RestoreApiVersion rr (RenameApiVersion rr groupVersion) = groupVersion"
  proof (cases rule: group_version_cases[of groupVersion])
    case 1
    then have "RenameApiVersion rr groupVersion = r" using names by (simp add: RenameApiVersion_def on_group_plain)
    with 1 names slash show ?thesis
      by (simp add: RestoreApiVersion_def on_group_plain IsRenamedGroup_def cut_first_simps)
  next
    case (2 g v)
    then have "RenameApiVersion rr groupVersion = r @ CHR ''/'' # v" using names(1)
      by (simp add: RenameApiVersion_def on_group_append cut_first_simps)
    with 2 names slash show ?thesis
      by (simp add: RestoreApiVersion_def on_group_append IsRenamedGroup_def cut_first_simps)
  qed
  with known show ?thesis unfolding renamed by (auto simp: RestoreKind_def RenameKind_def Let_def)
qed

end
