(* ===== verification/PoolTypes.thy ===== *)
theory PoolTypes
  imports GpuAgent GoPaths
begin

text \<open>
  GPU pools of the control plane controller (\<open>src/images/gpu-control-plane-artifact\<close>): the objects of
  \<open>src/api/gpu/v1alpha1/types.go\<close>, the helpers of \<open>pkg/controller/service/pool/common\<close> (keys, names, references between devices
  and pools, the device selector) and the indexes of \<open>pkg/controller/indexer\<close>. Of the objects the model keeps the fields that
  the modelled code reads or writes. Label selectors are of an arbitrary type \<open>'s\<close>; compiling one is a parameter of the code
  that does it. A state of a device is a string in Go; here it is a datatype with the known states, the empty string and the
  rest. \<open>int32\<close> values are integers with the wrap-around written out.
\<close>

section \<open>32-bit integers\<close>

lemma wrap32_in32: "in32 x \<Longrightarrow> wrap32 x = x"
  by (simp add: wrap32_def in32_def)

lemma in32_wrap32 [simp]: "in32 (wrap32 x)"
proof -
  have "0 \<le> (x + 2 ^ 31) mod 2 ^ 32" and "(x + 2 ^ 31) mod 2 ^ 32 < 2 ^ 32" by simp_all
  then show ?thesis unfolding wrap32_def in32_def by simp
qed

lemma wrap32_add: "wrap32 (wrap32 x + y) = wrap32 (x + y)"
  by (simp add: wrap32_def mod_simps algebra_simps)

section \<open>Devices\<close>

datatype GPUDeviceState = StateUnset
  | GPUDeviceStateDiscovered | GPUDeviceStateValidating | GPUDeviceStateReady
  | GPUDeviceStatePendingAssignment | GPUDeviceStateAssigned | GPUDeviceStateReserved
  | GPUDeviceStateInUse | GPUDeviceStateFaulted | StateOther string

record GPUPoolReference =
  pr_Name :: string
  pr_Namespace :: string

record PCIAddress =
  pci_Vendor :: string
  pci_Device :: string
  pci_Class :: string
  pci_Address :: string

record GPUMIGTypeCapacity =
  mt_Name :: string
  mt_Count :: int32

record GPUMIGConfig =
  mg_Capable :: bool
  mg_Strategy :: string
  mg_ProfilesSupported :: "string list"
  mg_Types :: "GPUMIGTypeCapacity list"

record GPUDeviceHardware =
  hw_UUID :: string
  hw_Product :: string
  hw_PCI :: PCIAddress
  hw_MIG :: GPUMIGConfig

record GPUDevice =
  gd_Name :: string
  gd_Labels :: "(string, string) gomap"
  gd_Annotations :: "(string, string) gomap"
  gd_NodeName :: string
  gd_InventoryID :: string
  gd_Managed :: bool
  gd_State :: GPUDeviceState
  gd_AutoAttach :: bool
  gd_PoolRef :: "GPUPoolReference option"
  gd_Hardware :: GPUDeviceHardware

record GPUNodeState =
  gn_Name :: string
  gn_NodeName :: string
  gn_Generation :: int64
  gn_Conditions :: "StatusCondition list"

section \<open>Pools\<close>

record GPUPoolResourceSpec =
  rs_Unit :: string
  rs_MIGProfile :: string
  rs_MaxDevicesPerNode :: "int32 option"
  rs_SlicesPerUnit :: int32

record GPUPoolSelectorRules =
  sr_InventoryIDs :: "string list"
  sr_Products :: "string list"
  sr_PCIVendors :: "string list"
  sr_PCIDevices :: "string list"
  sr_MIGCapable :: "bool option"
  sr_MIGProfiles :: "string list"

record GPUPoolDeviceSelector =
  ds_Include :: GPUPoolSelectorRules
  ds_Exclude :: GPUPoolSelectorRules

record 's GPUPoolAssignmentSpec =
  as_RequireAnnotation :: bool
  as_AutoApproveSelector :: "'s option"

record GPUPoolTaintSpec =
  ta_Key :: string
  ta_Value :: string
  ta_Effect :: string

record GPUPoolSchedulingSpec =
  sh_Strategy :: string
  sh_TopologyKey :: string
  sh_TaintsEnabled :: "bool option"
  sh_Taints :: "GPUPoolTaintSpec list"

record 's GPUPoolSpec =
  ps_Provider :: string
  ps_Backend :: string
  ps_Resource :: GPUPoolResourceSpec
  ps_NodeSelector :: "'s option"
  ps_DeviceSelector :: "GPUPoolDeviceSelector option"
  ps_DeviceAssignment :: "'s GPUPoolAssignmentSpec"
  ps_Scheduling :: GPUPoolSchedulingSpec

record GPUPoolCapacityStatus =
  cp_Total :: int32
  cp_Available :: int32
  cp_Used :: int32

record GPUPoolStatus =
  st_Capacity :: GPUPoolCapacityStatus
  st_Conditions :: "StatusCondition list"

record 's GPUPool =
  gp_Kind :: string
  gp_Name :: string
  gp_Namespace :: string
  gp_Generation :: int64
  gp_Labels :: "(string, string) gomap"
  gp_Annotations :: "(string, string) gomap"
  gp_Spec :: "'s GPUPoolSpec"
  gp_Status :: GPUPoolStatus

text \<open>A \<open>ClusterGPUPool\<close> has the same fields as a pool, without a namespace.\<close>

type_synonym 's ClusterGPUPool = "'s GPUPool"

definition GPUPoolSchedulingBinPack :: string where "GPUPoolSchedulingBinPack = ''BinPack''"
definition GPUPoolSchedulingSpread :: string where "GPUPoolSchedulingSpread = ''Spread''"

section \<open>Reading objects\<close>

text \<open>
  Errors of the API client as far as the code tells them apart; \<open>FetchObject\<close> turns a missing object into a nil one.
\<close>

datatype client_error = ErrNotFound | ErrConflict | ErrOther string

fun FetchObject :: "client_error + 'o \<Rightarrow> client_error + 'o option" where
  "FetchObject (Inl ErrNotFound) = Inr None"
| "FetchObject (Inl err) = Inl err"
| "FetchObject (Inr obj) = Inr (Some obj)"

definition DeleteObject :: "('w \<Rightarrow> client_error option \<times> 'w) \<Rightarrow> 'w \<Rightarrow> client_error option \<times> 'w" where
  "DeleteObject delete w = (case delete w of (err, w') \<Rightarrow> (if err = Some ErrNotFound then None else err, w'))"

section \<open>Keys and names\<close>

definition NamespacedPoolResourcePrefix :: string where "NamespacedPoolResourcePrefix = ''gpu.deckhouse.io''"
definition ClusterPoolResourcePrefix :: string where "ClusterPoolResourcePrefix = ''cluster.gpu.deckhouse.io''"
definition DeviceIgnoreKey :: string where "DeviceIgnoreKey = ''gpu.deckhouse.io/ignore''"
definition NamespacedAssignmentAnnotation :: string where "NamespacedAssignmentAnnotation = ''gpu.deckhouse.io/assignment''"
definition ClusterAssignmentAnnotation :: string where "ClusterAssignmentAnnotation = ''cluster.gpu.deckhouse.io/assignment''"

definition PoolNameKey :: string where "PoolNameKey = ''gpu-control-plane.deckhouse.io/pool''"
definition PoolScopeKey :: string where "PoolScopeKey = ''gpu-control-plane.deckhouse.io/pool-scope''"
definition PoolScopeNamespaced :: string where "PoolScopeNamespaced = ''namespaced''"
definition PoolScopeCluster :: string where "PoolScopeCluster = ''cluster''"

definition sget :: "(string, string) gomap \<Rightarrow> string \<Rightarrow> string" where
  "sget m k = (case mget m k of None \<Rightarrow> [] | Some v \<Rightarrow> v)"

definition isClusterPool :: "'s GPUPool \<Rightarrow> bool" where
  "isClusterPool pool \<longleftrightarrow> gp_Kind pool = ''ClusterGPUPool''"

definition PoolResourcePrefixFor :: "'s GPUPool \<Rightarrow> string" where
  "PoolResourcePrefixFor pool = (if isClusterPool pool then ClusterPoolResourcePrefix else NamespacedPoolResourcePrefix)"

definition AssignmentAnnotationKey :: "'s GPUPool \<Rightarrow> string" where
  "AssignmentAnnotationKey pool = (if isClusterPool pool then ClusterAssignmentAnnotation else NamespacedAssignmentAnnotation)"

definition PoolRefMatchesPool :: "'s GPUPool \<Rightarrow> GPUPoolReference option \<Rightarrow> bool" where
  "PoolRefMatchesPool pool ref =
     (case ref of None \<Rightarrow> False
      | Some r \<Rightarrow>
          pr_Name r = gp_Name pool \<and>
          (if isClusterPool pool \<or> gp_Namespace pool = [] then TrimSpace (pr_Namespace r) = []
           else pr_Namespace r = gp_Namespace pool))"

definition PoolLabelKey :: "'s GPUPool \<Rightarrow> string" where
  "PoolLabelKey pool = PoolResourcePrefixFor pool @ ''/'' @ gp_Name pool"

definition PoolValueFromKey :: "string \<Rightarrow> string" where
  "PoolValueFromKey key = last (Split (CHR ''/'') key)"

definition ResolveResourceName :: "'s GPUPool option \<Rightarrow> string \<Rightarrow> string" where
  "ResolveResourceName pool rawName =
     (let trimmed = TrimSpace rawName;
          named = (if trimmed = [] then (case pool of None \<Rightarrow> trimmed | Some p \<Rightarrow> gp_Name p) else trimmed)
      in if CHR ''/'' \<in> set named then last (Split (CHR ''/'') named) else named)"

definition PoolResourceName :: "'s GPUPool \<Rightarrow> string" where
  "PoolResourceName pool = PoolResourcePrefixFor pool @ ''/'' @ ResolveResourceName (Some pool) (gp_Name pool)"

definition IsDeviceIgnored :: "GPUDevice \<Rightarrow> bool" where
  "IsDeviceIgnored dev \<longleftrightarrow> EqualFold (sget (gd_Labels dev) DeviceIgnoreKey) ''true''"

definition DeviceNodeName :: "GPUDevice \<Rightarrow> string" where
  "DeviceNodeName dev = TrimSpace (gd_NodeName dev)"

section \<open>The device selector\<close>

definition device_id :: "GPUDevice \<Rightarrow> string" where
  "device_id dev = (let inventoryID = TrimSpace (gd_InventoryID dev) in if inventoryID = [] then gd_Name dev else inventoryID)"

definition migProfiles :: "GPUMIGConfig \<Rightarrow> string list" where
  "migProfiles m =
     (if mg_ProfilesSupported m \<noteq> [] then mg_ProfilesSupported m
      else filter (\<lambda>p. p \<noteq> []) (map (\<lambda>t. TrimSpace (mt_Name t)) (mg_Types m)))"

definition anyMIGProfile :: "string list \<Rightarrow> string list \<Rightarrow> bool" where
  "anyMIGProfile want supported = list_ex (\<lambda>x. List.member supported x) want"

definition matchesInclude :: "GPUPoolSelectorRules \<Rightarrow> GPUDevice \<Rightarrow> bool" where
  "matchesInclude inc dev =
     (if sr_InventoryIDs inc = [] \<and> sr_Products inc = [] \<and> sr_PCIVendors inc = [] \<and> sr_PCIDevices inc = [] \<and>
         sr_MIGProfiles inc = [] \<and> sr_MIGCapable inc = None then True
      else if sr_InventoryIDs inc \<noteq> [] \<and> \<not> List.member (sr_InventoryIDs inc) (device_id dev) then False
      else if sr_Products inc \<noteq> [] \<and> \<not> List.member (sr_Products inc) (hw_Product (gd_Hardware dev)) then False
      else if sr_PCIVendors inc \<noteq> [] \<and> \<not> List.member (sr_PCIVendors inc) (pci_Vendor (hw_PCI (gd_Hardware dev))) then False
      else if sr_PCIDevices inc \<noteq> [] \<and> \<not> List.member (sr_PCIDevices inc) (pci_Device (hw_PCI (gd_Hardware dev))) then False
      else if (case sr_MIGCapable inc of None \<Rightarrow> False | Some b \<Rightarrow> mg_Capable (hw_MIG (gd_Hardware dev)) \<noteq> b) then False
      else if sr_MIGProfiles inc \<noteq> [] \<and> \<not> anyMIGProfile (sr_MIGProfiles inc) (migProfiles (hw_MIG (gd_Hardware dev))) then False
      else True)"

definition matchesExclude :: "GPUPoolSelectorRules \<Rightarrow> GPUDevice \<Rightarrow> bool" where
  "matchesExclude exc dev =
     (if sr_InventoryIDs exc \<noteq> [] \<and> List.member (sr_InventoryIDs exc) (device_id dev) then True
      else if sr_Products exc \<noteq> [] \<and> List.member (sr_Products exc) (hw_Product (gd_Hardware dev)) then True
      else if sr_PCIVendors exc \<noteq> [] \<and> List.member (sr_PCIVendors exc) (pci_Vendor (hw_PCI (gd_Hardware dev))) then True
      else if sr_PCIDevices exc \<noteq> [] \<and> List.member (sr_PCIDevices exc) (pci_Device (hw_PCI (gd_Hardware dev))) then True
      else if (case sr_MIGCapable exc of None \<Rightarrow> False | Some b \<Rightarrow> mg_Capable (hw_MIG (gd_Hardware dev)) = b) then True
      else if sr_MIGProfiles exc \<noteq> [] \<and> anyMIGProfile (sr_MIGProfiles exc) (migProfiles (hw_MIG (gd_Hardware dev))) then True
      else False)"

definition FilterDevices :: "GPUDevice list \<Rightarrow> GPUPoolDeviceSelector option \<Rightarrow> GPUDevice list" where
  "FilterDevices devices sel =
     (case sel of None \<Rightarrow> devices
      | Some s \<Rightarrow> filter (\<lambda>dev. \<not> matchesExclude (ds_Exclude s) dev \<and> matchesInclude (ds_Include s) dev) devices)"

definition device_selected :: "GPUPoolDeviceSelector option \<Rightarrow> GPUDevice \<Rightarrow> bool" where
  "device_selected sel dev =
     (case sel of None \<Rightarrow> True | Some s \<Rightarrow> \<not> matchesExclude (ds_Exclude s) dev \<and> matchesInclude (ds_Include s) dev)"

lemma FilterDevices_filter: "FilterDevices devices sel = filter (device_selected sel) devices"
  by (auto simp: FilterDevices_def device_selected_def fun_eq_iff intro: filter_cong split: option.splits)

section \<open>Indexes\<close>

definition IndexGPUDeviceByNode :: "GPUDevice \<Rightarrow> string list" where
  "IndexGPUDeviceByNode dev = (if gd_NodeName dev = [] then [] else [gd_NodeName dev])"

definition IndexGPUDeviceByPoolRefName :: "GPUDevice \<Rightarrow> string list" where
  "IndexGPUDeviceByPoolRefName dev =
     (case gd_PoolRef dev of None \<Rightarrow> [] | Some r \<Rightarrow> if pr_Name r = [] then [] else [pr_Name r])"

definition index_annotation :: "string \<Rightarrow> GPUDevice \<Rightarrow> string list" where
  "index_annotation key dev = (let v = sget (gd_Annotations dev) key in if v = [] then [] else [v])"

definition IndexGPUDeviceByNamespacedAssignment :: "GPUDevice \<Rightarrow> string list" where
  "IndexGPUDeviceByNamespacedAssignment dev = index_annotation NamespacedAssignmentAnnotation dev"

definition IndexGPUDeviceByClusterAssignment :: "GPUDevice \<Rightarrow> string list" where
  "IndexGPUDeviceByClusterAssignment dev = index_annotation ClusterAssignmentAnnotation dev"

definition IndexGPUPoolByName :: "'s GPUPool \<Rightarrow> string list" where
  "IndexGPUPoolByName pool = (if gp_Name pool = [] then [] else [gp_Name pool])"

definition AssignmentIndex :: "'s GPUPool \<Rightarrow> GPUDevice \<Rightarrow> string list" where
  "AssignmentIndex pool =
     (if AssignmentAnnotationKey pool = ClusterAssignmentAnnotation
      then IndexGPUDeviceByClusterAssignment else IndexGPUDeviceByNamespacedAssignment)"

lemma keys_differ [simp]: "NamespacedAssignmentAnnotation \<noteq> ClusterAssignmentAnnotation"
  by (simp add: NamespacedAssignmentAnnotation_def ClusterAssignmentAnnotation_def)

lemma AssignmentIndex_annotation: "AssignmentIndex pool dev = index_annotation (AssignmentAnnotationKey pool) dev"
  by (simp add: AssignmentIndex_def AssignmentAnnotationKey_def IndexGPUDeviceByClusterAssignment_def
      IndexGPUDeviceByNamespacedAssignment_def)

lemma in_index_annotation: "v \<noteq> [] \<Longrightarrow> v \<in> set (index_annotation key dev) \<longleftrightarrow> sget (gd_Annotations dev) key = v"
  by (auto simp: index_annotation_def Let_def)

lemma Split_two: "\<exists>p q ps. Split sep (a @ sep # b) = p # q # ps \<and> last (q # ps) = last (Split sep b)"
proof (induction a)
  case Nil
  obtain q ps where "Split sep b = q # ps" by (cases "Split sep b") auto
  then show ?case by simp
next
  case (Cons c a)
  then obtain p q ps where "Split sep (a @ sep # b) = p # q # ps" "last (q # ps) = last (Split sep b)" by blast
  then show ?case by auto
qed

lemma Split_last_plain: "sep \<notin> set b \<Longrightarrow> last (Split sep (a @ sep # b)) = b"
  using Split_two[of sep a b] by (auto simp: Split_plain)

text \<open>The label of a pool on its nodes names the pool: its value is the pool name whenever the name has no slash.\<close>

lemma PoolValueFromKey_name: "CHR ''/'' \<notin> set (gp_Name pool) \<Longrightarrow> PoolValueFromKey (PoolLabelKey pool) = gp_Name pool"
  by (simp add: PoolValueFromKey_def PoolLabelKey_def Split_last_plain)

end
