(* ===== verification/PoolAdmission.thy ===== *)
theory PoolAdmission
  imports PoolTypes Reconciler
begin

text \<open>
  Admission of pools and of the assignment of devices to pools: defaults and validators
  (\<open>service/pool/admission\<close>), the webhooks of \<open>GPUPool\<close> and \<open>ClusterGPUPool\<close> with the rule that pool names are unique in the
  cluster, and the webhook for the assignment annotations of devices (\<open>inventory/internal/webhook\<close>). A validator changes the spec it
  checks, so it returns the changed spec or an error. Compiling a label selector and the API client are parameters. Objects of a wrong
  type, which the webhook library never passes, are not modelled.
\<close>

section \<open>Defaults and validators\<close>

datatype pool_error =
    NameMissing | UnsupportedProvider string
  | UnitMissing | ProfileNotAllowed | ProfileRequired | ProfileInvalid string | UnsupportedUnit string
  | SlicesTooSmall | SlicesTooLarge | DRAUnit | DRASlices
  | VendorNotHex string | DeviceNotHex string | InvalidNodeSelector string | InvalidAutoApproveSelector string
  | UnsupportedStrategy string | TopologyKeyMissing | TaintKeyMissing nat
  | ImmutableChanged | ClientMissing | CheckFailed client_error | ListFailed client_error
  | NameTakenByClusterPool string | NameTaken string "string list"
  | TwoAssignments | DeviceIgnored | DeviceNotReady GPUDeviceState | InventoryIncomplete
  | PoolNotFound string | PoolAmbiguous string "string list" | SelectorMismatch string | PoolNameEmpty

type_synonym 's SpecValidator = "'s GPUPoolSpec \<Rightarrow> pool_error + 's GPUPoolSpec"
type_synonym 's selector_compiler = "'s \<Rightarrow> string + ((string, string) gomap \<Rightarrow> bool)"

definition defaultProvider :: string where "defaultProvider = ''Nvidia''"
definition defaultBackend :: string where "defaultBackend = ''DevicePlugin''"

definition apply_scheduling_defaults :: "GPUPoolSchedulingSpec \<Rightarrow> GPUPoolSchedulingSpec" where
  "apply_scheduling_defaults s =
     (let strategy = (if sh_Strategy s = [] then GPUPoolSchedulingSpread else sh_Strategy s)
      in s\<lparr> sh_Strategy := strategy,
            sh_TopologyKey := (if sh_TopologyKey s = [] \<and> strategy = GPUPoolSchedulingSpread
                               then ''topology.kubernetes.io/zone'' else sh_TopologyKey s) \<rparr>)"

definition applyDefaults :: "'s GPUPoolSpec \<Rightarrow> 's GPUPoolSpec" where
  "applyDefaults spec = spec
     \<lparr> ps_Provider := (if ps_Provider spec = [] then defaultProvider else ps_Provider spec),
       ps_Backend := (if ps_Backend spec = [] then defaultBackend else ps_Backend spec),
       ps_Resource := (if rs_SlicesPerUnit (ps_Resource spec) = 0 then (ps_Resource spec)\<lparr> rs_SlicesPerUnit := 1 \<rparr> else ps_Resource spec),
       ps_Scheduling := apply_scheduling_defaults (ps_Scheduling spec) \<rparr>"

definition migProfileRE :: "string \<Rightarrow> bool" where
  "migProfileRE s =
     (let a = takeWhile is_digit s; r = dropWhile is_digit s; b = takeWhile is_digit (drop 2 r)
      in a \<noteq> [] \<and> take 2 r = ''g.'' \<and> b \<noteq> [] \<and> dropWhile is_digit (drop 2 r) = ''gb'')"

definition isValidMIGProfile :: "string \<Rightarrow> bool" where
  "isValidMIGProfile s = migProfileRE (ToLower s)"

definition isHex4 :: "string \<Rightarrow> bool" where
  "isHex4 s \<longleftrightarrow> length s = 4 \<and> list_all (\<lambda>c. List.member ''0123456789abcdefABCDEF'' c) s"

fun dedup_loop :: "string list \<Rightarrow> string list \<Rightarrow> string list" where
  "dedup_loop [] seen = []"
| "dedup_loop (v # items) seen =
     (let t = TrimSpace v in
      if t = [] \<or> List.member seen t then dedup_loop items seen else t # dedup_loop items (t # seen))"

definition dedupStrings :: "string list \<Rightarrow> string list" where
  "dedupStrings items = sort (dedup_loop items [])"

definition Provider :: "string \<Rightarrow> 's SpecValidator" where
  "Provider expected spec =
     (if ps_Provider spec \<noteq> expected then Inl (UnsupportedProvider (ps_Provider spec)) else Inr spec)"

definition check_unit :: "GPUPoolResourceSpec \<Rightarrow> pool_error option" where
  "check_unit r =
     (if rs_Unit r = [] then Some UnitMissing
      else if rs_Unit r = ''Card'' then if rs_MIGProfile r \<noteq> [] then Some ProfileNotAllowed else None
      else if rs_Unit r = ''MIG'' then
        if rs_MIGProfile r = [] then Some ProfileRequired
        else if \<not> isValidMIGProfile (rs_MIGProfile r) then Some (ProfileInvalid (rs_MIGProfile r)) else None
      else Some (UnsupportedUnit (rs_Unit r)))"

definition Resource_validator :: "'s SpecValidator" where
  "Resource_validator spec =
     (let r = ps_Resource spec in
      case check_unit r of Some e \<Rightarrow> Inl e
      | None \<Rightarrow>
          if rs_SlicesPerUnit r < 1 then Inl SlicesTooSmall
          else if rs_SlicesPerUnit r > 64 then Inl SlicesTooLarge
          else if ps_Backend spec = ''DRA'' \<and> rs_Unit r \<noteq> ''Card'' then Inl DRAUnit
          else if ps_Backend spec = ''DRA'' \<and> rs_SlicesPerUnit r > 1 then Inl DRASlices
          else Inr spec)"

definition empty_rules :: GPUPoolSelectorRules where
  "empty_rules = \<lparr> sr_InventoryIDs = [], sr_Products = [], sr_PCIVendors = [], sr_PCIDevices = [], sr_MIGCapable = None,
     sr_MIGProfiles = [] \<rparr>"

definition dedup_rules :: "GPUPoolSelectorRules \<Rightarrow> GPUPoolSelectorRules" where
  "dedup_rules r = r\<lparr> sr_InventoryIDs := dedupStrings (sr_InventoryIDs r), sr_Products := dedupStrings (sr_Products r),
     sr_PCIVendors := dedupStrings (sr_PCIVendors r), sr_PCIDevices := dedupStrings (sr_PCIDevices r),
     sr_MIGProfiles := dedupStrings (sr_MIGProfiles r) \<rparr>"

definition normal_selector :: "GPUPoolDeviceSelector option \<Rightarrow> GPUPoolDeviceSelector" where
  "normal_selector sel =
     (let s = (case sel of None \<Rightarrow> \<lparr> ds_Include = empty_rules, ds_Exclude = empty_rules \<rparr> | Some s \<Rightarrow> s)
      in \<lparr> ds_Include = dedup_rules (ds_Include s), ds_Exclude = dedup_rules (ds_Exclude s) \<rparr>)"

definition first_bad :: "(string \<Rightarrow> bool) \<Rightarrow> (string \<Rightarrow> pool_error) \<Rightarrow> string list \<Rightarrow> pool_error option" where
  "first_bad ok err xs = map_option err (find (\<lambda>x. \<not> ok x) xs)"

definition check_selector :: "GPUPoolDeviceSelector \<Rightarrow> pool_error option" where
  "check_selector s =
     (case first_bad isHex4 VendorNotHex (sr_PCIVendors (ds_Include s) @ sr_PCIVendors (ds_Exclude s)) of Some e \<Rightarrow> Some e
      | None \<Rightarrow>
          (case first_bad isHex4 DeviceNotHex (sr_PCIDevices (ds_Include s) @ sr_PCIDevices (ds_Exclude s)) of Some e \<Rightarrow> Some e
           | None \<Rightarrow> first_bad isValidMIGProfile ProfileInvalid (sr_MIGProfiles (ds_Include s) @ sr_MIGProfiles (ds_Exclude s))))"

definition compile_error :: "'s selector_compiler \<Rightarrow> 's option \<Rightarrow> string option" where
  "compile_error L sel = (case sel of None \<Rightarrow> None | Some s \<Rightarrow> (case L s of Inl e \<Rightarrow> Some e | Inr _ \<Rightarrow> None))"

definition Selectors :: "'s selector_compiler \<Rightarrow> 's SpecValidator" where
  "Selectors L spec =
     (let spec1 = spec\<lparr> ps_DeviceSelector := Some (normal_selector (ps_DeviceSelector spec)) \<rparr> in
      case check_selector (normal_selector (ps_DeviceSelector spec)) of Some e \<Rightarrow> Inl e
      | None \<Rightarrow>
          (case compile_error L (ps_NodeSelector spec) of Some e \<Rightarrow> Inl (InvalidNodeSelector e)
           | None \<Rightarrow>
               (case compile_error L (as_AutoApproveSelector (ps_DeviceAssignment spec)) of Some e \<Rightarrow> Inl (InvalidAutoApproveSelector e)
                | None \<Rightarrow> Inr spec1)))"

fun trim_taints :: "nat \<Rightarrow> GPUPoolTaintSpec list \<Rightarrow> pool_error + GPUPoolTaintSpec list" where
  "trim_taints i [] = Inr []"
| "trim_taints i (t # ts) =
     (if TrimSpace (ta_Key t) = [] then Inl (TaintKeyMissing i)
      else map_sum id (\<lambda>rest. \<lparr> ta_Key = TrimSpace (ta_Key t), ta_Value = TrimSpace (ta_Value t), ta_Effect = TrimSpace (ta_Effect t) \<rparr> # rest)
             (trim_taints (Suc i) ts))"

definition Scheduling :: "'s SpecValidator" where
  "Scheduling spec =
     (let s = ps_Scheduling spec in
      if \<not> (sh_Strategy s = [] \<or> sh_Strategy s = GPUPoolSchedulingBinPack \<or> sh_Strategy s = GPUPoolSchedulingSpread)
      then Inl (UnsupportedStrategy (sh_Strategy s))
      else if sh_Strategy s = GPUPoolSchedulingSpread \<and> sh_TopologyKey s = [] then Inl TopologyKeyMissing
      else
        case trim_taints 0 (sh_Taints s) of Inl e \<Rightarrow> Inl e
        | Inr taints \<Rightarrow>
            Inr (spec\<lparr> ps_Scheduling := s
              \<lparr> sh_TaintsEnabled := (case sh_TaintsEnabled s of None \<Rightarrow> Some True | Some b \<Rightarrow> Some b), sh_Taints := taints \<rparr> \<rparr>))"

definition run_validators :: "'s SpecValidator list \<Rightarrow> 's GPUPoolSpec \<Rightarrow> pool_error + 's GPUPoolSpec" where
  "run_validators checks spec = fold_res (\<lambda>v. v) checks spec"

definition SyncPool :: "'s selector_compiler \<Rightarrow> 's GPUPool \<Rightarrow> pool_error + 's GPUPool" where
  "SyncPool L pool =
     (if TrimSpace (gp_Name pool) = [] then Inl NameMissing
      else map_sum id (\<lambda>spec. pool\<lparr> gp_Spec := spec \<rparr>)
        (run_validators [Provider defaultProvider, Resource_validator, Selectors L, Scheduling] (applyDefaults (gp_Spec pool))))"

section \<open>Webhooks of pools\<close>

text \<open>The reads of the webhooks; a missing request in the context is \<open>None\<close>.\<close>

record 's pool_reader =
  rd_GetClusterPool :: "string \<Rightarrow> client_error + 's ClusterGPUPool"
  rd_ListPools :: "client_error + 's GPUPool list"
  rd_ListPoolsByName :: "string \<Rightarrow> client_error + 's GPUPool list"

type_synonym 's AdmissionHandler = "'s GPUPool \<Rightarrow> pool_error + 's GPUPool"

definition run_admission :: "'s AdmissionHandler list \<Rightarrow> 's GPUPool \<Rightarrow> pool_error + 's GPUPool" where
  "run_admission handlers pool = fold_res (\<lambda>h. h) handlers pool"

definition admission_namespace :: "string option \<Rightarrow> 's GPUPool \<Rightarrow> string" where
  "admission_namespace req pool =
     (if gp_Namespace pool \<noteq> [] then gp_Namespace pool else (case req of None \<Rightarrow> [] | Some ns \<Rightarrow> ns))"

definition validateNamespacedPoolNameUnique :: "'s pool_reader option \<Rightarrow> 's GPUPool \<Rightarrow> string \<Rightarrow> pool_error option" where
  "validateNamespacedPoolNameUnique client pool admissionNamespace =
     (case client of None \<Rightarrow> Some ClientMissing
      | Some c \<Rightarrow>
          let ns = (if gp_Namespace pool = [] then admissionNamespace else gp_Namespace pool);
              name = TrimSpace (gp_Name pool)
          in if name = [] then None
             else
               case FetchObject (rd_GetClusterPool c name) of
                 Inl err \<Rightarrow> Some (CheckFailed err)
               | Inr (Some _) \<Rightarrow> Some (NameTakenByClusterPool name)
               | Inr None \<Rightarrow>
                   (case rd_ListPools c of
                      Inl err \<Rightarrow> Some (ListFailed err)
                    | Inr items \<Rightarrow>
                        let namespaces = map gp_Namespace (filter (\<lambda>item. gp_Name item = name \<and> gp_Namespace item \<noteq> ns) items)
                        in if namespaces = [] then None else Some (NameTaken name (sort namespaces))))"

definition validateClusterPoolNameUnique :: "'s pool_reader option \<Rightarrow> 's ClusterGPUPool \<Rightarrow> pool_error option" where
  "validateClusterPoolNameUnique client pool =
     (case client of None \<Rightarrow> Some ClientMissing
      | Some c \<Rightarrow>
          let name = TrimSpace (gp_Name pool)
          in if name = [] then None
             else
               case rd_ListPools c of
                 Inl err \<Rightarrow> Some (ListFailed err)
               | Inr items \<Rightarrow>
                   let namespaces = map gp_Namespace (filter (\<lambda>item. gp_Name item = name) items)
                   in if namespaces = [] then None else Some (NameTaken name (sort namespaces)))"

text \<open>\<open>reflect.DeepEqual\<close> on the immutable parts of the specs.\<close>

definition immutableView ::
    "'s GPUPool \<Rightarrow> string \<times> string \<times> GPUPoolResourceSpec \<times> GPUPoolDeviceSelector option \<times> 's option \<times> GPUPoolSchedulingSpec" where
  "immutableView p =
     (ps_Provider (gp_Spec p), ps_Backend (gp_Spec p), ps_Resource (gp_Spec p), ps_DeviceSelector (gp_Spec p),
      ps_NodeSelector (gp_Spec p), ps_Scheduling (gp_Spec p))"

definition immutableEqual :: "'s GPUPool \<Rightarrow> 's GPUPool \<Rightarrow> bool" where
  "immutableEqual old cur \<longleftrightarrow> immutableView old = immutableView cur"

definition handlers_error :: "'s AdmissionHandler list \<Rightarrow> 's GPUPool \<Rightarrow> pool_error option" where
  "handlers_error handlers pool = (case run_admission handlers pool of Inl e \<Rightarrow> Some e | Inr _ \<Rightarrow> None)"

definition GPUPool_ValidateCreate ::
    "'s pool_reader option \<Rightarrow> 's AdmissionHandler list \<Rightarrow> string option \<Rightarrow> 's GPUPool \<Rightarrow> pool_error option" where
  "GPUPool_ValidateCreate client handlers req pool =
     (case validateNamespacedPoolNameUnique client pool (admission_namespace req pool) of
        Some e \<Rightarrow> Some e | None \<Rightarrow> handlers_error handlers pool)"

definition GPUPool_ValidateUpdate ::
    "'s pool_reader option \<Rightarrow> 's AdmissionHandler list \<Rightarrow> string option \<Rightarrow> 's GPUPool \<Rightarrow> 's GPUPool \<Rightarrow> pool_error option" where
  "GPUPool_ValidateUpdate client handlers req oldPool newPool =
     (if \<not> immutableEqual oldPool newPool then Some ImmutableChanged
      else GPUPool_ValidateCreate client handlers req newPool)"

definition GPUPool_Default :: "'s AdmissionHandler list \<Rightarrow> 's GPUPool \<Rightarrow> pool_error + 's GPUPool" where
  "GPUPool_Default handlers pool = run_admission handlers pool"

definition clusterPoolAsGPUPool :: "'s ClusterGPUPool \<Rightarrow> 's GPUPool" where
  "clusterPoolAsGPUPool pool = (if gp_Kind pool = [] then pool\<lparr> gp_Kind := ''ClusterGPUPool'' \<rparr> else pool)"

definition ClusterGPUPool_ValidateCreate ::
    "'s pool_reader option \<Rightarrow> 's AdmissionHandler list \<Rightarrow> 's ClusterGPUPool \<Rightarrow> pool_error option" where
  "ClusterGPUPool_ValidateCreate client handlers clusterPool =
     (case validateClusterPoolNameUnique client clusterPool of
        Some e \<Rightarrow> Some e | None \<Rightarrow> handlers_error handlers (clusterPoolAsGPUPool clusterPool))"

definition ClusterGPUPool_ValidateUpdate ::
    "'s pool_reader option \<Rightarrow> 's AdmissionHandler list \<Rightarrow> 's ClusterGPUPool \<Rightarrow> 's ClusterGPUPool \<Rightarrow> pool_error option" where
  "ClusterGPUPool_ValidateUpdate client handlers oldPool newPool =
     (if \<not> immutableEqual (clusterPoolAsGPUPool oldPool) (clusterPoolAsGPUPool newPool) then Some ImmutableChanged
      else ClusterGPUPool_ValidateCreate client handlers newPool)"

definition ClusterGPUPool_Default :: "'s AdmissionHandler list \<Rightarrow> 's ClusterGPUPool \<Rightarrow> pool_error + 's ClusterGPUPool" where
  "ClusterGPUPool_Default handlers clusterPool =
     map_sum id (\<lambda>pool. clusterPool\<lparr> gp_Labels := gp_Labels pool, gp_Annotations := gp_Annotations pool, gp_Spec := gp_Spec pool \<rparr>)
       (run_admission handlers (clusterPoolAsGPUPool clusterPool))"

section \<open>Assignment of devices\<close>

definition client_error_text :: "client_error \<Rightarrow> string" where
  "client_error_text err = (case err of ErrNotFound \<Rightarrow> ''not found'' | ErrConflict \<Rightarrow> ''conflict'' | ErrOther s \<Rightarrow> s)"

definition isMissingIndexError :: "client_error \<Rightarrow> bool" where
  "isMissingIndexError err \<longleftrightarrow>
     Contains (client_error_text err) ''no index with name'' \<and> Contains (client_error_text err) ''has been registered''"

definition list_pools_named :: "'s pool_reader \<Rightarrow> string \<Rightarrow> client_error + 's GPUPool list" where
  "list_pools_named c name =
     (case rd_ListPoolsByName c name of
        Inl err \<Rightarrow> if isMissingIndexError err then rd_ListPools c else Inl err
      | Inr items \<Rightarrow> Inr items)"

definition resolveNamespacedPoolByName :: "'s pool_reader option \<Rightarrow> string \<Rightarrow> pool_error + 's GPUPool" where
  "resolveNamespacedPoolByName client rawName =
     (let name = TrimSpace rawName in
      if name = [] then Inl PoolNameEmpty
      else
        case client of None \<Rightarrow> Inl ClientMissing
        | Some c \<Rightarrow>
            (case list_pools_named c name of
               Inl err \<Rightarrow> Inl (ListFailed err)
             | Inr items \<Rightarrow>
                 (case filter (\<lambda>pool. gp_Name pool = name) items of
                    [] \<Rightarrow> Inl (PoolNotFound name)
                  | [pool] \<Rightarrow> Inr pool
                  | matches \<Rightarrow> Inl (PoolAmbiguous name (sort (filter (\<lambda>ns. ns \<noteq> []) (map gp_Namespace matches)))))))"

definition matchesDeviceSelector :: "GPUDevice \<Rightarrow> GPUPoolDeviceSelector option \<Rightarrow> bool" where
  "matchesDeviceSelector dev sel \<longleftrightarrow> length (FilterDevices [dev] sel) = 1"

definition validateAssignment :: "'s pool_reader option \<Rightarrow> GPUDevice \<Rightarrow> string \<Rightarrow> string \<Rightarrow> pool_error option" where
  "validateAssignment client device namespacedPool clusterPool =
     (case client of None \<Rightarrow> Some ClientMissing
      | Some c \<Rightarrow>
          if EqualFold (sget (gd_Labels device) ''gpu.deckhouse.io/ignore'') ''true'' then Some DeviceIgnored
          else if gd_State device \<noteq> GPUDeviceStateReady then Some (DeviceNotReady (gd_State device))
          else if TrimSpace (hw_UUID (gd_Hardware device)) = [] \<or> TrimSpace (pci_Address (hw_PCI (gd_Hardware device))) = []
          then Some InventoryIncomplete
          else if clusterPool \<noteq> []
          then case FetchObject (rd_GetClusterPool c clusterPool) of
                 Inl err \<Rightarrow> Some (CheckFailed err)
               | Inr None \<Rightarrow> Some (PoolNotFound clusterPool)
               | Inr (Some poolObj) \<Rightarrow>
                   if matchesDeviceSelector device (ps_DeviceSelector (gp_Spec poolObj)) then None
                   else Some (SelectorMismatch (gp_Name poolObj))
          else case resolveNamespacedPoolByName client namespacedPool of
                 Inl err \<Rightarrow> Some err
               | Inr poolObj \<Rightarrow>
                   if matchesDeviceSelector device (ps_DeviceSelector (gp_Spec poolObj)) then None
                   else Some (SelectorMismatch (gp_Name poolObj)))"

definition assignments :: "GPUDevice \<Rightarrow> string \<times> string" where
  "assignments device =
     (TrimSpace (sget (gd_Annotations device) NamespacedAssignmentAnnotation),
      TrimSpace (sget (gd_Annotations device) ClusterAssignmentAnnotation))"

definition validate_new_assignment :: "'s pool_reader option \<Rightarrow> GPUDevice \<Rightarrow> pool_error option" where
  "validate_new_assignment client device =
     (case assignments device of (namespacedPool, clusterPool) \<Rightarrow>
        if namespacedPool \<noteq> [] \<and> clusterPool \<noteq> [] then Some TwoAssignments
        else if namespacedPool = [] \<and> clusterPool = [] then None
        else validateAssignment client device namespacedPool clusterPool)"

definition Assignment_ValidateCreate :: "'s pool_reader option \<Rightarrow> GPUDevice \<Rightarrow> pool_error option" where
  "Assignment_ValidateCreate client device = validate_new_assignment client device"

definition Assignment_ValidateUpdate :: "'s pool_reader option \<Rightarrow> GPUDevice \<Rightarrow> GPUDevice \<Rightarrow> pool_error option" where
  "Assignment_ValidateUpdate client oldDevice newDevice =
     (if assignments oldDevice = assignments newDevice then None else validate_new_assignment client newDevice)"

end
