(* ===== verification/PoolAdmissionSafety.thy ===== *)
theory PoolAdmissionSafety
  imports PoolAdmission
begin

text \<open>
  What admission of pools guarantees: which specs pass (\<open>SyncPool_well_formed\<close>), that pool names stay unique in the cluster
  (\<open>pool_names_unique\<close>), and what an admitted assignment of a device says about device and pool.
\<close>

section \<open>Normal lists of names\<close>

definition normal_names :: "string list \<Rightarrow> bool" where
  "normal_names xs \<longleftrightarrow> sorted xs \<and> distinct xs \<and> list_all (\<lambda>x. x \<noteq> [] \<and> TrimSpace x = x) xs"

lemma dedup_loop_props:
  "distinct (dedup_loop xs seen) \<and> set (dedup_loop xs seen) \<inter> set seen = {}
     \<and> list_all (\<lambda>x. x \<noteq> [] \<and> TrimSpace x = x) (dedup_loop xs seen)"
  by (induction xs seen rule: dedup_loop.induct) (auto simp: Let_def)

lemma dedup_loop_normal:
  "distinct xs \<Longrightarrow> set xs \<inter> set seen = {} \<Longrightarrow> list_all (\<lambda>x. x \<noteq> [] \<and> TrimSpace x = x) xs \<Longrightarrow> dedup_loop xs seen = xs"
  by (induction xs seen rule: dedup_loop.induct) (auto simp: Let_def)

lemma dedupStrings_normal: "normal_names (dedupStrings xs)"
  using dedup_loop_props[of xs "[]"] by (auto simp: normal_names_def dedupStrings_def list_all_iff)

lemma dedupStrings_id: "normal_names xs \<Longrightarrow> dedupStrings xs = xs"
  by (simp add: normal_names_def dedupStrings_def dedup_loop_normal sort_key_id_if_sorted)

lemma dedupStrings_fix [simp]: "dedupStrings xs = xs \<longleftrightarrow> normal_names xs"
  using dedupStrings_normal[of xs] dedupStrings_id[of xs] by auto

section \<open>Well-formed pools\<close>

definition normal_rules :: "GPUPoolSelectorRules \<Rightarrow> bool" where
  "normal_rules r \<longleftrightarrow> normal_names (sr_InventoryIDs r) \<and> normal_names (sr_Products r) \<and> normal_names (sr_PCIVendors r)
     \<and> normal_names (sr_PCIDevices r) \<and> normal_names (sr_MIGProfiles r)
     \<and> list_all isHex4 (sr_PCIVendors r) \<and> list_all isHex4 (sr_PCIDevices r) \<and> list_all isValidMIGProfile (sr_MIGProfiles r)"

definition well_formed_resource :: "string \<Rightarrow> GPUPoolResourceSpec \<Rightarrow> bool" where
  "well_formed_resource backend r \<longleftrightarrow>
     (rs_Unit r = ''Card'' \<and> rs_MIGProfile r = [] \<or> rs_Unit r = ''MIG'' \<and> isValidMIGProfile (rs_MIGProfile r))
     \<and> 1 \<le> rs_SlicesPerUnit r \<and> rs_SlicesPerUnit r \<le> 64
     \<and> (backend = ''DRA'' \<longrightarrow> rs_Unit r = ''Card'' \<and> rs_SlicesPerUnit r = 1)"

definition trimmed_taint :: "GPUPoolTaintSpec \<Rightarrow> bool" where
  "trimmed_taint t \<longleftrightarrow> ta_Key t \<noteq> [] \<and> TrimSpace (ta_Key t) = ta_Key t \<and> TrimSpace (ta_Value t) = ta_Value t
     \<and> TrimSpace (ta_Effect t) = ta_Effect t"

definition well_formed_scheduling :: "GPUPoolSchedulingSpec \<Rightarrow> bool" where
  "well_formed_scheduling s \<longleftrightarrow>
     (sh_Strategy s = GPUPoolSchedulingBinPack \<or> sh_Strategy s = GPUPoolSchedulingSpread \<and> sh_TopologyKey s \<noteq> [])
     \<and> sh_TaintsEnabled s \<noteq> None \<and> list_all trimmed_taint (sh_Taints s)"

definition compiles :: "'s selector_compiler \<Rightarrow> 's option \<Rightarrow> bool" where
  "compiles L sel \<longleftrightarrow> compile_error L sel = None"

definition well_formed_pool :: "'s selector_compiler \<Rightarrow> 's GPUPool \<Rightarrow> bool" where
  "well_formed_pool L pool \<longleftrightarrow>
     (let spec = gp_Spec pool in
      TrimSpace (gp_Name pool) \<noteq> [] \<and> ps_Provider spec = ''Nvidia'' \<and> ps_Backend spec \<noteq> []
      \<and> well_formed_resource (ps_Backend spec) (ps_Resource spec)
      \<and> (case ps_DeviceSelector spec of None \<Rightarrow> False | Some s \<Rightarrow> normal_rules (ds_Include s) \<and> normal_rules (ds_Exclude s))
      \<and> compiles L (ps_NodeSelector spec) \<and> compiles L (as_AutoApproveSelector (ps_DeviceAssignment spec))
      \<and> well_formed_scheduling (ps_Scheduling spec))"

lemma isValidMIGProfile_ne: "isValidMIGProfile p \<Longrightarrow> p \<noteq> []"
  by (auto simp: isValidMIGProfile_def migProfileRE_def ToLower_def)

lemma Resource_validator_ok:
  "Resource_validator spec = Inr spec' \<longleftrightarrow> spec' = spec \<and> well_formed_resource (ps_Backend spec) (ps_Resource spec)"
  by (auto simp: Resource_validator_def check_unit_def well_formed_resource_def Let_def dest: isValidMIGProfile_ne)

lemma first_bad_none: "first_bad ok err xs = None \<longleftrightarrow> list_all ok xs"
  by (auto simp: first_bad_def find_None_iff list_all_iff)

lemma first_error_none: "(case a of Some e \<Rightarrow> Some e | None \<Rightarrow> b) = None \<longleftrightarrow> a = None \<and> b = None"
  by (simp split: option.splits)

lemma check_selector_ok:
  "check_selector s = None \<longleftrightarrow>
     list_all isHex4 (sr_PCIVendors (ds_Include s)) \<and> list_all isHex4 (sr_PCIVendors (ds_Exclude s))
     \<and> list_all isHex4 (sr_PCIDevices (ds_Include s)) \<and> list_all isHex4 (sr_PCIDevices (ds_Exclude s))
     \<and> list_all isValidMIGProfile (sr_MIGProfiles (ds_Include s)) \<and> list_all isValidMIGProfile (sr_MIGProfiles (ds_Exclude s))"
  by (auto simp: check_selector_def first_error_none first_bad_none)

lemma dedup_rules_normal:
  "normal_rules (dedup_rules r) \<longleftrightarrow>
     list_all isHex4 (sr_PCIVendors (dedup_rules r)) \<and> list_all isHex4 (sr_PCIDevices (dedup_rules r))
     \<and> list_all isValidMIGProfile (sr_MIGProfiles (dedup_rules r))"
  by (simp add: normal_rules_def dedup_rules_def dedupStrings_normal)

lemma dedup_rules_id: "normal_rules r \<Longrightarrow> dedup_rules r = r"
  by (cases r) (simp add: normal_rules_def dedup_rules_def)

lemma normal_selector_id:
  "normal_rules (ds_Include s) \<Longrightarrow> normal_rules (ds_Exclude s) \<Longrightarrow> normal_selector (Some s) = s"
  by (cases s) (simp add: normal_selector_def Let_def dedup_rules_id)

lemma Selectors_ok:
  "Selectors L spec = Inr spec' \<longleftrightarrow>
     spec' = spec\<lparr> ps_DeviceSelector := Some (normal_selector (ps_DeviceSelector spec)) \<rparr>
     \<and> normal_rules (ds_Include (normal_selector (ps_DeviceSelector spec)))
     \<and> normal_rules (ds_Exclude (normal_selector (ps_DeviceSelector spec)))
     \<and> compiles L (ps_NodeSelector spec) \<and> compiles L (as_AutoApproveSelector (ps_DeviceAssignment spec))"
proof -
  let ?s = "normal_selector (ps_DeviceSelector spec)"
  have rules: "\<exists>r. ds_Include ?s = dedup_rules r" "\<exists>r. ds_Exclude ?s = dedup_rules r"
    by (auto simp: normal_selector_def Let_def)
  have "check_selector ?s = None \<longleftrightarrow> normal_rules (ds_Include ?s) \<and> normal_rules (ds_Exclude ?s)"
    using rules by (auto simp: check_selector_ok dedup_rules_normal)
  then show ?thesis by (auto simp: Selectors_def Let_def compiles_def split: option.splits)
qed

lemma trim_taints_ok: "trim_taints i ts = Inr ts' \<Longrightarrow> list_all trimmed_taint ts'"
  by (induction i ts arbitrary: ts' rule: trim_taints.induct)
     (auto simp: trimmed_taint_def map_sum_def split: if_splits sum.splits)

lemma trim_taints_id: "list_all trimmed_taint ts \<Longrightarrow> trim_taints i ts = Inr ts"
  by (induction i ts rule: trim_taints.induct) (auto simp: trimmed_taint_def)

lemma Scheduling_ok:
  "Scheduling spec = Inr spec' \<Longrightarrow> sh_Strategy (ps_Scheduling spec) \<noteq> [] \<Longrightarrow> well_formed_scheduling (ps_Scheduling spec')"
  by (auto simp: Scheduling_def Let_def well_formed_scheduling_def dest: trim_taints_ok split: if_splits sum.splits option.splits)

lemma Scheduling_frame: "Scheduling spec = Inr spec' \<Longrightarrow> \<exists>s. spec' = spec\<lparr> ps_Scheduling := s \<rparr>"
  by (auto simp: Scheduling_def Let_def split: if_splits sum.splits)

lemma Scheduling_id: "well_formed_scheduling (ps_Scheduling spec) \<Longrightarrow> Scheduling spec = Inr spec"
  by (cases spec, cases "ps_Scheduling spec")
     (auto simp: Scheduling_def Let_def well_formed_scheduling_def trim_taints_id
       GPUPoolSchedulingBinPack_def GPUPoolSchedulingSpread_def)

lemma defaults_strategy: "sh_Strategy (ps_Scheduling (applyDefaults spec)) \<noteq> []"
  by (simp add: applyDefaults_def apply_scheduling_defaults_def Let_def GPUPoolSchedulingSpread_def)

lemma defaults_backend: "ps_Backend (applyDefaults spec) \<noteq> []"
  by (simp add: applyDefaults_def defaultBackend_def)

lemma applyDefaults_id:
  assumes "ps_Provider spec = ''Nvidia''" "ps_Backend spec \<noteq> []" "1 \<le> rs_SlicesPerUnit (ps_Resource spec)"
    "well_formed_scheduling (ps_Scheduling spec)"
  shows "applyDefaults spec = spec"
  using assms by (cases spec, cases "ps_Scheduling spec")
    (auto simp: applyDefaults_def apply_scheduling_defaults_def Let_def well_formed_scheduling_def
      GPUPoolSchedulingBinPack_def GPUPoolSchedulingSpread_def)

lemma SyncPool_result:
  assumes "SyncPool L pool = Inr pool'"
  shows "well_formed_pool L pool'" and "gp_Name pool' = gp_Name pool"
proof -
  let ?d = "applyDefaults (gp_Spec pool)"
  obtain spec where run: "run_validators [Provider defaultProvider, Resource_validator, Selectors L, Scheduling] ?d = Inr spec"
    and pool': "pool' = pool\<lparr> gp_Spec := spec \<rparr>" and name: "TrimSpace (gp_Name pool) \<noteq> []"
    using assms by (auto simp: SyncPool_def map_sum_def split: if_splits sum.splits)
  from run obtain s1 where ok: "ps_Provider ?d = defaultProvider" "Resource_validator ?d = Inr ?d"
      "Selectors L ?d = Inr s1" "Scheduling s1 = Inr spec"
    by (auto simp: run_validators_def Provider_def Resource_validator_ok split: if_splits sum.splits)
  note sel = ok(3)[unfolded Selectors_ok]
  from Scheduling_frame[OF ok(4)] obtain s where frame: "spec = s1\<lparr> ps_Scheduling := s \<rparr>" by blast
  have "well_formed_scheduling (ps_Scheduling spec)"
    using Scheduling_ok[OF ok(4)] sel defaults_strategy[of "gp_Spec pool"] by simp
  moreover have "well_formed_resource (ps_Backend ?d) (ps_Resource ?d)" using ok(2) by (simp add: Resource_validator_ok)
  ultimately show "well_formed_pool L pool'"
    using name sel frame ok(1) defaults_backend[of "gp_Spec pool"]
    by (simp add: well_formed_pool_def pool' Let_def defaultProvider_def)
  show "gp_Name pool' = gp_Name pool" by (simp add: pool')
qed

lemma SyncPool_id:
  assumes "well_formed_pool L pool"
  shows "SyncPool L pool = Inr pool"
proof -
  note wf = assms[unfolded well_formed_pool_def Let_def]
  obtain s where s: "ps_DeviceSelector (gp_Spec pool) = Some s" "normal_rules (ds_Include s)" "normal_rules (ds_Exclude s)"
    using wf by (auto split: option.splits)
  have "applyDefaults (gp_Spec pool) = gp_Spec pool"
    using wf by (intro applyDefaults_id) (auto simp: well_formed_resource_def)
  moreover have "Selectors L (gp_Spec pool) = Inr (gp_Spec pool)"
    using wf s by (cases "gp_Spec pool") (simp add: Selectors_ok normal_selector_id)
  moreover have "Resource_validator (gp_Spec pool) = Inr (gp_Spec pool)" using wf by (simp add: Resource_validator_ok)
  ultimately show ?thesis
    using wf by (simp add: SyncPool_def run_validators_def Provider_def defaultProvider_def Scheduling_id)
qed

text \<open>
  \<^bold>\<open>C39.\<close> Defaulting and validation of pools agree. A pool that passes \<open>SyncPool\<close> comes out well-formed: provider Nvidia, whole cards without
  profile or MIG with a valid profile, between 1 and 64 slices (one card per unit with DRA), normalised selectors with hexadecimal PCI ids
  and valid MIG profiles, selectors that compile, a known strategy with its topology key, and trimmed taints. The well-formed pools are
  exactly those that \<open>SyncPool\<close> leaves unchanged, so what the defaulting webhook wrote passes the validating one, and applying the defaults
  again changes nothing.
\<close>

theorem SyncPool_well_formed:
  "(SyncPool L pool = Inr pool \<longleftrightarrow> well_formed_pool L pool)
   \<and> (SyncPool L pool = Inr pool' \<longrightarrow> well_formed_pool L pool' \<and> SyncPool L pool' = Inr pool')"
  using SyncPool_id[of L] SyncPool_result[of L] by blast

definition ex_pool :: "unit GPUPool" where
  "ex_pool = \<lparr> gp_Kind = '''', gp_Name = ''a100'', gp_Namespace = ''team'', gp_Generation = 1, gp_Labels = [], gp_Annotations = [],
     gp_Spec = \<lparr> ps_Provider = '''', ps_Backend = '''',
       ps_Resource = \<lparr> rs_Unit = ''MIG'', rs_MIGProfile = ''1g.10gb'', rs_MaxDevicesPerNode = Some 1, rs_SlicesPerUnit = 0 \<rparr>,
       ps_NodeSelector = None,
       ps_DeviceSelector = Some \<lparr> ds_Include = empty_rules\<lparr> sr_PCIVendors := ['' 10de'', ''10de''] \<rparr>, ds_Exclude = empty_rules \<rparr>,
       ps_DeviceAssignment = \<lparr> as_RequireAnnotation = False, as_AutoApproveSelector = None \<rparr>,
       ps_Scheduling = \<lparr> sh_Strategy = '''', sh_TopologyKey = '''', sh_TaintsEnabled = None, sh_Taints = [] \<rparr> \<rparr>,
     gp_Status = \<lparr> st_Capacity = \<lparr> cp_Total = 0, cp_Available = 0, cp_Used = 0 \<rparr>, st_Conditions = [] \<rparr> \<rparr>"

definition synced_pool :: "unit GPUPool" where
  "synced_pool = (case SyncPool (\<lambda>_. Inr (\<lambda>_. True)) ex_pool of Inr p \<Rightarrow> p | Inl _ \<Rightarrow> ex_pool)"

lemma ex_pool_synced: "SyncPool (\<lambda>_. Inr (\<lambda>_. True)) ex_pool = Inr synced_pool"
  by code_simp

theorem SyncPool_well_formed_witness:
  "SyncPool (\<lambda>_. Inr (\<lambda>_. True)) ex_pool = Inr synced_pool \<and> SyncPool (\<lambda>_. Inr (\<lambda>_. True)) synced_pool = Inr synced_pool"
  using SyncPool_well_formed[of "\<lambda>_. Inr (\<lambda>_. True)" ex_pool synced_pool] ex_pool_synced by blast

section \<open>Pool names\<close>

text \<open>
  The pools of a cluster, and the changes the API server makes: it stores an object under its key (namespace and name) once the webhook
  has allowed it, reading the stored pools. Names are trimmed because the server only accepts DNS names.
\<close>

record 's pool_objects =
  po_Pools :: "'s GPUPool list"
  po_ClusterPools :: "'s ClusterGPUPool list"

definition reader_of :: "'s pool_objects \<Rightarrow> 's pool_reader" where
  "reader_of s = \<lparr>
     rd_GetClusterPool = (\<lambda>name. case find (\<lambda>p. gp_Name p = name) (po_ClusterPools s) of None \<Rightarrow> Inl ErrNotFound | Some p \<Rightarrow> Inr p),
     rd_ListPools = Inr (po_Pools s),
     rd_ListPoolsByName = (\<lambda>name. Inr (filter (\<lambda>p. List.member (IndexGPUPoolByName p) name) (po_Pools s))) \<rparr>"

definition same_key :: "'s GPUPool \<Rightarrow> 's GPUPool \<Rightarrow> bool" where
  "same_key p q \<longleftrightarrow> gp_Name p = gp_Name q \<and> gp_Namespace p = gp_Namespace q"

definition legal_name :: "string \<Rightarrow> bool" where
  "legal_name name \<longleftrightarrow> name \<noteq> [] \<and> TrimSpace name = name"

inductive pool_change :: "'s AdmissionHandler list \<Rightarrow> 's pool_objects \<Rightarrow> 's pool_objects \<Rightarrow> bool" for handlers where
  create: "\<lbrakk> legal_name (gp_Name pool); gp_Namespace pool \<noteq> []; \<not> list_ex (same_key pool) (po_Pools s);
     GPUPool_ValidateCreate (Some (reader_of s)) handlers req pool = None \<rbrakk>
   \<Longrightarrow> pool_change handlers s (s\<lparr> po_Pools := pool # po_Pools s \<rparr>)"
| create_cluster: "\<lbrakk> legal_name (gp_Name pool); gp_Namespace pool = []; \<not> list_ex (same_key pool) (po_ClusterPools s);
     ClusterGPUPool_ValidateCreate (Some (reader_of s)) handlers pool = None \<rbrakk>
   \<Longrightarrow> pool_change handlers s (s\<lparr> po_ClusterPools := pool # po_ClusterPools s \<rparr>)"
| update: "\<lbrakk> old \<in> set (po_Pools s); same_key old new; GPUPool_ValidateUpdate (Some (reader_of s)) handlers req old new = None \<rbrakk>
   \<Longrightarrow> pool_change handlers s (s\<lparr> po_Pools := map (\<lambda>p. if same_key p new then new else p) (po_Pools s) \<rparr>)"
| update_cluster: "\<lbrakk> old \<in> set (po_ClusterPools s); same_key old new;
     ClusterGPUPool_ValidateUpdate (Some (reader_of s)) handlers old new = None \<rbrakk>
   \<Longrightarrow> pool_change handlers s (s\<lparr> po_ClusterPools := map (\<lambda>p. if same_key p new then new else p) (po_ClusterPools s) \<rparr>)"
| delete: "pool_change handlers s (s\<lparr> po_Pools := filter (\<lambda>p. \<not> same_key p pool) (po_Pools s) \<rparr>)"
| delete_cluster: "pool_change handlers s (s\<lparr> po_ClusterPools := filter (\<lambda>p. \<not> same_key p pool) (po_ClusterPools s) \<rparr>)"

inductive_cases pool_changeE: "pool_change handlers s t"

inductive reachable_pools :: "'s AdmissionHandler list \<Rightarrow> 's pool_objects \<Rightarrow> bool" for handlers where
  empty: "reachable_pools handlers \<lparr> po_Pools = [], po_ClusterPools = [] \<rparr>"
| change: "reachable_pools handlers s \<Longrightarrow> pool_change handlers s t \<Longrightarrow> reachable_pools handlers t"

definition unique_names :: "'s pool_objects \<Rightarrow> bool" where
  "unique_names s \<longleftrightarrow> distinct (map gp_Name (po_Pools s)) \<and> set (map gp_Name (po_Pools s)) \<inter> set (map gp_Name (po_ClusterPools s)) = {}"

lemma find_name_none: "find (\<lambda>p. gp_Name p = name) ps = None \<longleftrightarrow> name \<notin> set (map gp_Name ps)"
  by (auto simp: find_None_iff)

lemma create_names:
  assumes "GPUPool_ValidateCreate (Some (reader_of s)) handlers req pool = None" "legal_name (gp_Name pool)" "gp_Namespace pool \<noteq> []"
    "\<not> list_ex (same_key pool) (po_Pools s)"
  shows "gp_Name pool \<notin> set (map gp_Name (po_Pools s))" and "gp_Name pool \<notin> set (map gp_Name (po_ClusterPools s))"
proof -
  from assms have u: "validateNamespacedPoolNameUnique (Some (reader_of s)) pool (admission_namespace req pool) = None"
    by (simp add: GPUPool_ValidateCreate_def split: option.splits)
  show "gp_Name pool \<notin> set (map gp_Name (po_ClusterPools s))"
    using u assms(2) find_name_none[of "gp_Name pool" "po_ClusterPools s"]
    by (auto simp: validateNamespacedPoolNameUnique_def reader_of_def legal_name_def Let_def split: option.splits)
  then have "filter (\<lambda>item. gp_Name item = gp_Name pool \<and> gp_Namespace item \<noteq> gp_Namespace pool) (po_Pools s) = []"
    using u assms(2,3) find_name_none[of "gp_Name pool" "po_ClusterPools s"]
    by (auto simp: validateNamespacedPoolNameUnique_def reader_of_def legal_name_def Let_def split: option.splits if_splits)
  with assms(4) show "gp_Name pool \<notin> set (map gp_Name (po_Pools s))"
    by (auto simp: filter_empty_conv same_key_def list_ex_iff)
qed

lemma create_cluster_names:
  assumes "ClusterGPUPool_ValidateCreate (Some (reader_of s)) handlers pool = None" "legal_name (gp_Name pool)"
  shows "gp_Name pool \<notin> set (map gp_Name (po_Pools s))"
  using assms
  by (auto simp: ClusterGPUPool_ValidateCreate_def validateClusterPoolNameUnique_def reader_of_def legal_name_def Let_def
      filter_empty_conv split: option.splits if_splits)

lemma replace_names: "map gp_Name (map (\<lambda>p. if same_key p new then new else p) ps) = map gp_Name ps"
  by (induction ps) (auto simp: same_key_def)

lemma replace_name_set: "(\<lambda>x. gp_Name (if same_key x new then new else x)) ` A = gp_Name ` A"
  by (rule image_cong) (auto simp: same_key_def)

lemma pool_change_unique: "pool_change handlers s t \<Longrightarrow> unique_names s \<Longrightarrow> unique_names t"
proof (induction rule: pool_change.induct)
  case (create pool s req)
  from create_names[OF create(4,1,2,3)] create(5) show ?case by (auto simp: unique_names_def)
next
  case (create_cluster pool s)
  from create_cluster_names[OF create_cluster(4,1)] create_cluster(5) show ?case by (auto simp: unique_names_def)
next
  case (update old s new req)
  then show ?case by (simp add: unique_names_def replace_names del: list.map_comp map_map set_map list.set_map)
next
  case (update_cluster old s new)
  then show ?case by (simp add: unique_names_def replace_names del: list.map_comp map_map set_map list.set_map)
qed (auto simp: unique_names_def distinct_map intro: inj_on_subset)

lemma filter_name_distinct:
  "distinct (map gp_Name ps) \<Longrightarrow>
     filter (\<lambda>p. gp_Name p = name) ps = (case find (\<lambda>p. gp_Name p = name) ps of None \<Rightarrow> [] | Some p \<Rightarrow> [p])"
proof (induction ps)
  case (Cons a ps)
  then have "gp_Name a = name \<Longrightarrow> find (\<lambda>p. gp_Name p = name) ps = None" unfolding find_name_none by auto
  with Cons show ?case by (cases "gp_Name a = name") auto
qed simp

lemma resolve_by_name:
  assumes "distinct (map gp_Name (po_Pools s))" "legal_name name"
  shows "resolveNamespacedPoolByName (Some (reader_of s)) name =
      (case find (\<lambda>p. gp_Name p = name) (po_Pools s) of None \<Rightarrow> Inl (PoolNotFound name) | Some p \<Rightarrow> Inr p)"
proof -
  have "filter (\<lambda>p. gp_Name p = name) (filter (\<lambda>p. List.member (IndexGPUPoolByName p) name) (po_Pools s)) =
      filter (\<lambda>p. gp_Name p = name) (po_Pools s)"
    using assms(2) by (auto simp: IndexGPUPoolByName_def legal_name_def intro: filter_cong)
  with assms show ?thesis
    by (simp add: resolveNamespacedPoolByName_def list_pools_named_def reader_of_def legal_name_def filter_name_distinct Let_def
        split: option.splits)
qed

text \<open>
  \<^bold>\<open>C40.\<close> Pool names are unique in the cluster: whatever sequence of creations, updates and deletions of pools of both kinds the webhooks
  let through, no two namespaced pools share a name, not even in different namespaces, and none has the name of a cluster pool. So an
  assignment annotation, which holds only a name, is never ambiguous: looking up a pool by name finds the one pool with the name, or
  reports that there is none. Changes are taken one after another, each webhook call reading the store as it is (\<^const>\<open>reader_of\<close>): two
  creations that overlap, or a read from a cache that lags behind, are not covered.
\<close>

theorem pool_names_unique:
  assumes "reachable_pools handlers s" and "legal_name name"
  shows "unique_names s \<and> resolveNamespacedPoolByName (Some (reader_of s)) name =
      (case find (\<lambda>p. gp_Name p = name) (po_Pools s) of None \<Rightarrow> Inl (PoolNotFound name) | Some p \<Rightarrow> Inr p)"
proof -
  from assms(1) have unique: "unique_names s"
    by (induction rule: reachable_pools.induct) (simp add: unique_names_def, rule pool_change_unique)
  then have "distinct (map gp_Name (po_Pools s))" by (simp add: unique_names_def)
  from resolve_by_name[OF this assms(2)] unique show ?thesis by blast
qed

definition one_pool :: "unit pool_objects" where
  "one_pool = \<lparr> po_Pools = [ex_pool], po_ClusterPools = [] \<rparr>"

lemma one_pool_reachable: "reachable_pools [SyncPool (\<lambda>_. Inr (\<lambda>_. True))] one_pool"
proof -
  let ?s = "\<lparr> po_Pools = [], po_ClusterPools = [] \<rparr> :: unit pool_objects"
  have "GPUPool_ValidateCreate (Some (reader_of ?s)) [SyncPool (\<lambda>_. Inr (\<lambda>_. True))] None ex_pool = None" by code_simp
  moreover have "legal_name (gp_Name ex_pool)" "gp_Namespace ex_pool \<noteq> []" by code_simp+
  ultimately have "pool_change [SyncPool (\<lambda>_. Inr (\<lambda>_. True))] ?s (?s\<lparr> po_Pools := ex_pool # po_Pools ?s \<rparr>)"
    by (intro pool_change.create) simp_all
  then show ?thesis by (auto simp: one_pool_def intro: reachable_pools.intros)
qed

theorem pool_names_unique_witness:
  "unique_names one_pool \<and> resolveNamespacedPoolByName (Some (reader_of one_pool)) ''a100'' = Inr ex_pool"
proof -
  have "legal_name ''a100''" by code_simp
  from pool_names_unique[OF one_pool_reachable this] show ?thesis by (simp add: one_pool_def ex_pool_def)
qed

section \<open>Assignments\<close>

text \<open>
  An assignment that the webhook lets through is for a device that is ready, not ignored, with a complete inventory, and that
  the selector of the pool accepts.
\<close>

lemma matchesDeviceSelector_selected: "matchesDeviceSelector dev sel \<longleftrightarrow> device_selected sel dev"
  by (simp add: matchesDeviceSelector_def FilterDevices_filter)

lemma validateAssignment_ok:
  assumes "validateAssignment client device namespacedPool clusterPool = None"
  obtains pool where "gd_State device = GPUDeviceStateReady" "\<not> IsDeviceIgnored device"
    "device_selected (ps_DeviceSelector (gp_Spec pool)) device"
    "clusterPool = [] \<Longrightarrow> resolveNamespacedPoolByName client namespacedPool = Inr pool"
proof (cases "clusterPool = []")
  case True
  with assms that show thesis
    by (auto simp: validateAssignment_def IsDeviceIgnored_def DeviceIgnoreKey_def matchesDeviceSelector_selected
        split: option.splits if_splits sum.splits)
next
  case False
  with assms that show thesis
    by (auto simp: validateAssignment_def IsDeviceIgnored_def DeviceIgnoreKey_def matchesDeviceSelector_selected
        split: option.splits if_splits sum.splits)
qed

text \<open>
  The webhook trims the annotation, the index that the pool controller uses does not: an annotation with surrounding blanks passes the
  webhook and is then found under no pool name.
\<close>

lemma padded_assignment_not_indexed:
  assumes "sget (gd_Annotations dev) NamespacedAssignmentAnnotation = '' a100''" "legal_name name"
  shows "fst (assignments dev) = ''a100'' \<and> name \<notin> set (IndexGPUDeviceByNamespacedAssignment dev)"
proof -
  have "TrimSpace '' a100'' = ''a100''" by code_simp
  moreover have "name \<noteq> '' a100''" using assms(2) calculation by (auto simp: legal_name_def)
  ultimately show ?thesis
    using assms(1) by (simp add: assignments_def IndexGPUDeviceByNamespacedAssignment_def index_annotation_def Let_def)
qed

end
