(* ===== verification/PoolDevices.thy ===== *)
theory PoolDevices
  imports PoolTypes
begin

text \<open>
  The controllers that write the state of devices: the selection handler of a pool
  (\<open>service/pool/selection/selection_sync.go\<close>), the validation handler (\<open>service/pool/dpvalidation\<close>), the marking of nodes
  (\<open>service/pool/nodemark\<close>) and the bootstrap handler that follows the readiness of a node
  (\<open>bootstrap/internal/handler/device_state_sync.go\<close>). The API client is a parameter over an arbitrary world; reads do not change it.
  A handler changes the pool it is given even when it fails, so it returns error, pool and world. \<open>sort.Slice\<close> is a parameter because it
  does not fix the order of equal keys, and so is \<open>retry.RetryOnConflict\<close>, which repeats an attempt while it ends in a conflict.
\<close>

section \<open>The client\<close>

datatype device_index = GPUDeviceNodeField | GPUDevicePoolRefNameField | GPUDeviceNamespacedAssignmentField | GPUDeviceClusterAssignmentField

definition index_values :: "device_index \<Rightarrow> GPUDevice \<Rightarrow> string list" where
  "index_values field =
     (case field of GPUDeviceNodeField \<Rightarrow> IndexGPUDeviceByNode
      | GPUDevicePoolRefNameField \<Rightarrow> IndexGPUDeviceByPoolRefName
      | GPUDeviceNamespacedAssignmentField \<Rightarrow> IndexGPUDeviceByNamespacedAssignment
      | GPUDeviceClusterAssignmentField \<Rightarrow> IndexGPUDeviceByClusterAssignment)"

record Taint =
  tn_Key :: string
  tn_Value :: string
  tn_Effect :: string

record ClusterNode =
  no_Name :: string
  no_Labels :: "(string, string) gomap"
  no_Taints :: "Taint list"

record ValidatorPod =
  vp_NodeName :: string
  vp_Conditions :: "(string \<times> string) list"

record 'w pool_client =
  pl_ListDevices :: "device_index \<Rightarrow> string \<Rightarrow> 'w \<Rightarrow> client_error + GPUDevice list"
  pl_GetDevice :: "string \<Rightarrow> 'w \<Rightarrow> client_error + GPUDevice"
  pl_PatchStatus :: "GPUDevice \<Rightarrow> GPUDevice \<Rightarrow> 'w \<Rightarrow> client_error option \<times> 'w"
  pl_GetNode :: "string \<Rightarrow> 'w \<Rightarrow> client_error + ClusterNode"
  pl_ListNodesByLabel :: "string \<Rightarrow> string \<Rightarrow> 'w \<Rightarrow> client_error + ClusterNode list"
  pl_ListNodesByTaint :: "string \<Rightarrow> 'w \<Rightarrow> client_error + ClusterNode list"
  pl_PatchNode :: "ClusterNode \<Rightarrow> ClusterNode \<Rightarrow> 'w \<Rightarrow> client_error option \<times> 'w"
  pl_ListPods :: "string \<Rightarrow> (string, string) gomap \<Rightarrow> 'w \<Rightarrow> client_error + ValidatorPod list"

type_synonym 'w attempt = "'w \<Rightarrow> client_error option \<times> 'w"
type_synonym 'w retrier = "'w attempt \<Rightarrow> 'w attempt"

definition IgnoreNotFound :: "client_error option \<times> 'w \<Rightarrow> client_error option \<times> 'w" where
  "IgnoreNotFound r = (case r of (err, w) \<Rightarrow> (if err = Some ErrNotFound then None else err, w))"

text \<open>\<open>for _, x := range xs { if err := f(x); err != nil { return err } }\<close>\<close>

fun each :: "('a \<Rightarrow> 'w attempt) \<Rightarrow> 'a list \<Rightarrow> 'w attempt" where
  "each f [] w = (None, w)"
| "each f (x # xs) w = (case f x w of (Some err, w') \<Rightarrow> (Some err, w') | (None, w') \<Rightarrow> each f xs w')"

section \<open>Selection\<close>

definition deviceSortKey :: "GPUDevice \<Rightarrow> string" where
  "deviceSortKey dev = (let key = TrimSpace (gd_InventoryID dev) in if key \<noteq> [] then key else gd_Name dev)"

definition profile_count :: "string \<Rightarrow> GPUMIGTypeCapacity list \<Rightarrow> int32" where
  "profile_count profile types = foldl (\<lambda>n t. if mt_Name t = profile then wrap32 (n + mt_Count t) else n) 0 types"

definition unitsForDevice :: "GPUDevice \<Rightarrow> GPUPoolResourceSpec \<Rightarrow> int32" where
  "unitsForDevice dev res =
     (if rs_Unit res = ''MIG'' then
        if rs_MIGProfile res = [] then 0
        else
          let profileCount = profile_count (rs_MIGProfile res) (mg_Types (hw_MIG (gd_Hardware dev))) in
          if profileCount = 0 then 0
          else if rs_SlicesPerUnit res > 0 then wrap32 (profileCount * rs_SlicesPerUnit res)
          else profileCount
      else if rs_SlicesPerUnit res > 0 then rs_SlicesPerUnit res
      else 1)"

definition needsAssignmentUpdate :: "GPUDevice \<Rightarrow> string \<Rightarrow> string \<Rightarrow> bool" where
  "needsAssignmentUpdate dev poolName poolNamespace =
     (case gd_PoolRef dev of None \<Rightarrow> True
      | Some ref \<Rightarrow>
          if pr_Name ref \<noteq> poolName then True
          else if TrimSpace poolNamespace = [] \<and> TrimSpace (pr_Namespace ref) \<noteq> [] then True
          else if TrimSpace poolNamespace \<noteq> [] \<and> TrimSpace (pr_Namespace ref) \<noteq> poolNamespace then True
          else gd_State dev = GPUDeviceStateReady)"

definition assigned_device :: "string \<Rightarrow> string \<Rightarrow> GPUDevice \<Rightarrow> GPUDevice" where
  "assigned_device poolName poolNamespace cur = cur
     \<lparr> gd_State := (if gd_State cur = GPUDeviceStateReady then GPUDeviceStatePendingAssignment else gd_State cur),
       gd_PoolRef := Some \<lparr> pr_Name = poolName, pr_Namespace = (if TrimSpace poolNamespace \<noteq> [] then poolNamespace else []) \<rparr> \<rparr>"

definition assign_attempt :: "'w pool_client \<Rightarrow> string \<Rightarrow> string \<Rightarrow> string \<Rightarrow> 'w attempt" where
  "assign_attempt C name poolName poolNamespace w =
     (case FetchObject (pl_GetDevice C name w) of
        Inl err \<Rightarrow> (Some err, w)
      | Inr None \<Rightarrow> (None, w)
      | Inr (Some cur) \<Rightarrow> IgnoreNotFound (pl_PatchStatus C cur (assigned_device poolName poolNamespace cur) w))"

definition assignDeviceWithRetry :: "'w retrier \<Rightarrow> 'w pool_client \<Rightarrow> string \<Rightarrow> string \<Rightarrow> string \<Rightarrow> 'w attempt" where
  "assignDeviceWithRetry retry C name poolName poolNamespace = retry (assign_attempt C name poolName poolNamespace)"

definition cleared_device :: "GPUDevice \<Rightarrow> GPUDevice" where
  "cleared_device cur = cur
     \<lparr> gd_State := (if gd_State cur = GPUDeviceStateAssigned \<or> gd_State cur = GPUDeviceStateReserved \<or>
                       gd_State cur = GPUDeviceStatePendingAssignment then GPUDeviceStateReady else gd_State cur),
       gd_PoolRef := None \<rparr>"

definition keeps_pool :: "string \<Rightarrow> string \<Rightarrow> string \<Rightarrow> GPUDevice \<Rightarrow> bool" where
  "keeps_pool poolName poolNamespace assignmentKey cur \<longleftrightarrow>
     sget (gd_Annotations cur) assignmentKey = poolName \<or>
     (case gd_PoolRef cur of None \<Rightarrow> True
      | Some ref \<Rightarrow>
          pr_Name ref \<noteq> poolName \<or>
          (if TrimSpace poolNamespace = [] then TrimSpace (pr_Namespace ref) \<noteq> []
           else TrimSpace (pr_Namespace ref) \<noteq> [] \<and> pr_Namespace ref \<noteq> poolNamespace))"

definition clear_attempt :: "'w pool_client \<Rightarrow> string \<Rightarrow> string \<Rightarrow> string \<Rightarrow> string \<Rightarrow> 'w attempt" where
  "clear_attempt C name poolName poolNamespace assignmentKey w =
     (case FetchObject (pl_GetDevice C name w) of
        Inl err \<Rightarrow> (Some err, w)
      | Inr None \<Rightarrow> (None, w)
      | Inr (Some cur) \<Rightarrow>
          if keeps_pool poolName poolNamespace assignmentKey cur then (None, w)
          else IgnoreNotFound (pl_PatchStatus C cur (cleared_device cur) w))"

definition clearDevicePool :: "'w retrier \<Rightarrow> 'w pool_client \<Rightarrow> string \<Rightarrow> string \<Rightarrow> string \<Rightarrow> string \<Rightarrow> 'w attempt" where
  "clearDevicePool retry C name poolName poolNamespace assignmentKey =
     retry (clear_attempt C name poolName poolNamespace assignmentKey)"

definition add_by_node :: "GPUDevice \<Rightarrow> (string, GPUDevice list) gomap \<Rightarrow> (string, GPUDevice list) gomap" where
  "add_by_node dev byNode =
     mput (DeviceNodeName dev) ((case mget byNode (DeviceNodeName dev) of None \<Rightarrow> [] | Some ds \<Rightarrow> ds) @ [dev]) byNode"

definition group_by_node :: "GPUDevice list \<Rightarrow> (string, GPUDevice list) gomap" where
  "group_by_node devs = fold add_by_node devs []"

fun eligible_nodes :: "'w pool_client \<Rightarrow> ((string, string) gomap \<Rightarrow> bool) \<Rightarrow> string list \<Rightarrow> 'w \<Rightarrow> client_error + string list" where
  "eligible_nodes C matches [] w = Inr []"
| "eligible_nodes C matches (nodeName # rest) w =
     (case FetchObject (pl_GetNode C nodeName w) of
        Inl err \<Rightarrow> Inl err
      | Inr None \<Rightarrow> eligible_nodes C matches rest w
      | Inr (Some node) \<Rightarrow>
          map_sum id (\<lambda>nodes. if matches (no_Labels node) then nodeName # nodes else nodes) (eligible_nodes C matches rest w))"

fun count_devices ::
    "'s GPUPool \<Rightarrow> GPUDevice list \<Rightarrow> int32 \<Rightarrow> int32 \<times> GPUDevice list \<Rightarrow> int32 \<times> GPUDevice list" where
  "count_devices pool [] taken acc = acc"
| "count_devices pool (dev # devs) taken (totalUnits, toUpdate) =
     (let upd = (if needsAssignmentUpdate dev (gp_Name pool) (gp_Namespace pool) then toUpdate @ [dev] else toUpdate);
          res = ps_Resource (gp_Spec pool);
          full = (case rs_MaxDevicesPerNode res of None \<Rightarrow> False | Some m \<Rightarrow> taken \<ge> m);
          units = unitsForDevice dev res
      in if full \<or> units \<le> 0 then count_devices pool devs taken (totalUnits, upd)
         else count_devices pool devs (wrap32 (taken + 1)) (wrap32 (totalUnits + units), upd))"

definition count_nodes :: "'s GPUPool \<Rightarrow> (string, GPUDevice list) gomap \<Rightarrow> int32 \<times> GPUDevice list" where
  "count_nodes pool byNode = fold (\<lambda>(_, devs). count_devices pool devs 0) byNode (0, [])"

definition assignment_field :: "'s GPUPool \<Rightarrow> device_index" where
  "assignment_field pool =
     (if AssignmentAnnotationKey pool = ClusterAssignmentAnnotation
      then GPUDeviceClusterAssignmentField else GPUDeviceNamespacedAssignmentField)"

definition set_total :: "int32 \<Rightarrow> 's GPUPool \<Rightarrow> 's GPUPool" where
  "set_total n pool = pool\<lparr> gp_Status := (gp_Status pool)\<lparr> st_Capacity := (st_Capacity (gp_Status pool))\<lparr> cp_Total := n \<rparr> \<rparr> \<rparr>"

definition candidates :: "'s GPUPool \<Rightarrow> GPUDevice list \<Rightarrow> GPUDevice list" where
  "candidates pool items =
     FilterDevices (filter (\<lambda>dev. \<not> IsDeviceIgnored dev \<and> DeviceNodeName dev \<noteq> []) items) (ps_DeviceSelector (gp_Spec pool))"

definition write_selection ::
    "'w retrier \<Rightarrow> 'w pool_client \<Rightarrow> 's GPUPool \<Rightarrow> GPUDevice list \<Rightarrow> (string, GPUDevice list) gomap \<Rightarrow> 'w
     \<Rightarrow> client_error option \<times> 's GPUPool \<times> 'w" where
  "write_selection retry C pool poolRefDevices byNode w =
     (let key = AssignmentAnnotationKey pool;
          (totalUnits, toUpdate) = count_nodes pool byNode;
          stale = filter (\<lambda>dev. sget (gd_Annotations dev) key \<noteq> gp_Name pool \<and> PoolRefMatchesPool pool (gd_PoolRef dev)) poolRefDevices
      in case each (\<lambda>dev. clearDevicePool retry C (gd_Name dev) (gp_Name pool) (gp_Namespace pool) key) stale w of
           (Some err, w1) \<Rightarrow> (Some err, pool, w1)
         | (None, w1) \<Rightarrow>
             (case each (\<lambda>dev. assignDeviceWithRetry retry C (gd_Name dev) (gp_Name pool) (gp_Namespace pool)) toUpdate w1 of
                (err, w2) \<Rightarrow> (err, set_total totalUnits pool, w2)))"

definition SelectionSync_HandlePool ::
    "('s \<Rightarrow> string + ((string, string) gomap \<Rightarrow> bool)) \<Rightarrow> (GPUDevice list \<Rightarrow> GPUDevice list) \<Rightarrow> 'w retrier \<Rightarrow> 'w pool_client
     \<Rightarrow> 's GPUPool \<Rightarrow> 'w \<Rightarrow> client_error option \<times> 's GPUPool \<times> 'w" where
  "SelectionSync_HandlePool L sorter retry C pool w =
     (case pl_ListDevices C (assignment_field pool) (gp_Name pool) w of
        Inl err \<Rightarrow> (Some err, pool, w)
      | Inr assignedDevices \<Rightarrow>
     (case pl_ListDevices C GPUDevicePoolRefNameField (gp_Name pool) w of
        Inl err \<Rightarrow> (Some err, pool, w)
      | Inr poolRefDevices \<Rightarrow>
     (case (case ps_NodeSelector (gp_Spec pool) of None \<Rightarrow> Inr None | Some sel \<Rightarrow> map_sum id Some (L sel)) of
        Inl _ \<Rightarrow> (Some (ErrOther ''invalid nodeSelector''), pool, w)
      | Inr nodeSelector \<Rightarrow>
          let byNode = map (\<lambda>(node, devs). (node, sorter devs)) (group_by_node (candidates pool assignedDevices)) in
          case nodeSelector of
            None \<Rightarrow> write_selection retry C pool poolRefDevices byNode w
          | Some matches \<Rightarrow>
              (case eligible_nodes C matches (mkeys byNode) w of
                 Inl err \<Rightarrow> (Some err, pool, w)
               | Inr nodes \<Rightarrow>
                   write_selection retry C pool poolRefDevices (filter (\<lambda>(node, _). List.member nodes node) byNode) w))))"

section \<open>Validation\<close>

definition isPodReady :: "ValidatorPod \<Rightarrow> bool" where
  "isPodReady pod = list_ex (\<lambda>(t, s). t = ''Ready'' \<and> s = ''True'') (vp_Conditions pod)"

definition ready_nodes :: "ValidatorPod list \<Rightarrow> string list" where
  "ready_nodes pods = map vp_NodeName (filter (\<lambda>p. vp_NodeName p \<noteq> [] \<and> isPodReady p) pods)"

definition validated_state :: "bool \<Rightarrow> GPUDeviceState \<Rightarrow> GPUDeviceState" where
  "validated_state ready state =
     (if state = GPUDeviceStatePendingAssignment then if ready then GPUDeviceStateAssigned else state
      else if state = GPUDeviceStateAssigned then if \<not> ready then GPUDeviceStatePendingAssignment else state
      else state)"

definition validate_device :: "'w pool_client \<Rightarrow> string list \<Rightarrow> GPUDevice \<Rightarrow> 'w attempt" where
  "validate_device C readyNodes dev w =
     (let node = DeviceNodeName dev in
      if node = [] then (None, w)
      else
        let target = validated_state (List.member readyNodes node) (gd_State dev) in
        if target = gd_State dev then (None, w)
        else pl_PatchStatus C dev (dev\<lparr> gd_State := target \<rparr>) w)"

definition dp_validator_labels :: "string \<Rightarrow> (string, string) gomap" where
  "dp_validator_labels poolName = [(''app'', ''nvidia-operator-validator''), (''pool'', poolName)]"

definition DPValidation_HandlePool :: "string \<Rightarrow> 'w pool_client option \<Rightarrow> 's GPUPool \<Rightarrow> 'w attempt" where
  "DPValidation_HandlePool ns client pool w =
     (case client of None \<Rightarrow> (None, w)
      | Some C \<Rightarrow>
          (case (case pl_ListPods C ns (dp_validator_labels (gp_Name pool)) w of
                   Inl ErrNotFound \<Rightarrow> Inr [] | r \<Rightarrow> r) of
             Inl err \<Rightarrow> (Some err, w)
           | Inr pods \<Rightarrow>
               (case pl_ListDevices C (assignment_field pool) (gp_Name pool) w of
                  Inl err \<Rightarrow> (Some err, w)
                | Inr devices \<Rightarrow> each (validate_device C (ready_nodes pods)) devices w)))"

section \<open>Readiness of the node\<close>

definition conditionDriverReady :: string where "conditionDriverReady = ''DriverReady''"
definition conditionToolkitReady :: string where "conditionToolkitReady = ''ToolkitReady''"
definition conditionMonitoringReady :: string where "conditionMonitoringReady = ''MonitoringReady''"

definition isConditionTrue :: "GPUNodeState \<Rightarrow> string \<Rightarrow> bool" where
  "isConditionTrue inventory condType =
     (case find (\<lambda>c. sc_Type c = condType) (gn_Conditions inventory) of None \<Rightarrow> False | Some c \<Rightarrow> sc_Status c = ConditionTrue)"

definition normalizeDeviceState :: "GPUDeviceState \<Rightarrow> GPUDeviceState" where
  "normalizeDeviceState state = (if state = StateUnset then GPUDeviceStateDiscovered else state)"

definition desiredDeviceState :: "GPUDeviceState \<Rightarrow> bool \<Rightarrow> bool \<Rightarrow> GPUDeviceState \<times> bool" where
  "desiredDeviceState current driverAndToolkitReady infraReady =
     (let state = normalizeDeviceState current in
      case state of
        GPUDeviceStateAssigned \<Rightarrow> (state, state \<noteq> current)
      | GPUDeviceStateReserved \<Rightarrow> (state, state \<noteq> current)
      | GPUDeviceStateInUse \<Rightarrow> (state, state \<noteq> current)
      | GPUDeviceStatePendingAssignment \<Rightarrow> (state, state \<noteq> current)
      | GPUDeviceStateReady \<Rightarrow> (state, state \<noteq> current)
      | GPUDeviceStateFaulted \<Rightarrow>
          if driverAndToolkitReady then (GPUDeviceStateValidating, True) else (state, state \<noteq> current)
      | GPUDeviceStateValidating \<Rightarrow>
          if infraReady then (GPUDeviceStateReady, True) else (state, state \<noteq> current)
      | _ \<Rightarrow>
          if infraReady then (GPUDeviceStateReady, True)
          else if driverAndToolkitReady then (GPUDeviceStateValidating, True)
          else (state, state \<noteq> current))"

fun sync_states :: "'w pool_client \<Rightarrow> bool \<Rightarrow> bool \<Rightarrow> GPUDevice list \<Rightarrow> 'w \<Rightarrow> client_error list \<times> 'w" where
  "sync_states C dt infra [] w = ([], w)"
| "sync_states C dt infra (device # rest) w =
     (case desiredDeviceState (gd_State device) dt infra of (target, mutate) \<Rightarrow>
        if \<not> mutate \<or> gd_State device = target then sync_states C dt infra rest w
        else
          case pl_PatchStatus C device (device\<lparr> gd_State := target \<rparr>) w of
            (Some err, w') \<Rightarrow> (case sync_states C dt infra rest w' of (errs, w'') \<Rightarrow> (err # errs, w''))
          | (None, w') \<Rightarrow> sync_states C dt infra rest w')"

definition DeviceStateSync_HandleNode :: "'w pool_client option \<Rightarrow> GPUNodeState \<Rightarrow> 'w \<Rightarrow> client_error list \<times> 'w" where
  "DeviceStateSync_HandleNode client inventory w =
     (case client of None \<Rightarrow> ([ErrOther ''device-state-sync handler: client is not configured''], w)
      | Some C \<Rightarrow>
          let nodeName = (if gn_NodeName inventory = [] then gn_Name inventory else gn_NodeName inventory) in
          if nodeName = [] then ([], w)
          else
            let driverReady = isConditionTrue inventory conditionDriverReady;
                toolkitReady = isConditionTrue inventory conditionToolkitReady;
                monitoringReady = isConditionTrue inventory conditionMonitoringReady
            in case pl_ListDevices C GPUDeviceNodeField nodeName w of
                 Inl err \<Rightarrow> ([err], w)
               | Inr devices \<Rightarrow>
                   sync_states C (driverReady \<and> toolkitReady) (driverReady \<and> toolkitReady \<and> monitoringReady) devices w)"

section \<open>Marking of nodes\<close>

definition ensureTaints :: "Taint list \<Rightarrow> Taint list \<Rightarrow> string \<Rightarrow> Taint list \<times> bool" where
  "ensureTaints current desired poolKey =
     (filter (\<lambda>t. tn_Key t \<noteq> poolKey) current @ desired, list_ex (\<lambda>t. tn_Key t = poolKey) current \<or> desired \<noteq> [])"

definition marked_node :: "string \<Rightarrow> bool \<Rightarrow> bool \<Rightarrow> ClusterNode \<Rightarrow> ClusterNode \<times> bool" where
  "marked_node poolKey hasDevices taintsEnabled node =
     (let poolValue = PoolValueFromKey poolKey;
          (labels, labelsChanged) =
            (if hasDevices then
               if sget (no_Labels node) poolKey \<noteq> poolValue then (mput poolKey poolValue (no_Labels node), True)
               else (no_Labels node, False)
             else if mget (no_Labels node) poolKey \<noteq> None then (mdel poolKey (no_Labels node), True)
             else (no_Labels node, False));
          desired = (if taintsEnabled \<and> hasDevices
                     then [\<lparr> tn_Key = poolKey, tn_Value = poolValue, tn_Effect = ''NoSchedule'' \<rparr>] else []);
          (taints, taintsChanged) = ensureTaints (no_Taints node) desired poolKey
      in (node\<lparr> no_Labels := labels, no_Taints := (if taintsChanged then taints else no_Taints node) \<rparr>, labelsChanged \<or> taintsChanged))"

definition sync_node_attempt :: "'w pool_client \<Rightarrow> string \<Rightarrow> string \<Rightarrow> bool \<Rightarrow> bool \<Rightarrow> 'w attempt" where
  "sync_node_attempt C nodeName poolKey hasDevices taintsEnabled w =
     (case FetchObject (pl_GetNode C nodeName w) of
        Inl err \<Rightarrow> (Some err, w)
      | Inr None \<Rightarrow> (None, w)
      | Inr (Some node) \<Rightarrow>
          (case marked_node poolKey hasDevices taintsEnabled node of (node', changed) \<Rightarrow>
             if \<not> changed then (None, w) else pl_PatchNode C node node' w))"

definition syncNode :: "'w retrier \<Rightarrow> 'w pool_client \<Rightarrow> string \<Rightarrow> string \<Rightarrow> bool \<Rightarrow> bool \<Rightarrow> 'w attempt" where
  "syncNode retry C nodeName poolKey hasDevices taintsEnabled =
     retry (sync_node_attempt C nodeName poolKey hasDevices taintsEnabled)"

definition nodes_with_devices :: "'s GPUPool \<Rightarrow> GPUDevice list \<Rightarrow> string list" where
  "nodes_with_devices pool devices =
     map DeviceNodeName (filter (\<lambda>dev. \<not> IsDeviceIgnored dev \<and> PoolRefMatchesPool pool (gd_PoolRef dev) \<and> DeviceNodeName dev \<noteq> []) devices)"

definition NodeMark_HandlePool :: "'w retrier \<Rightarrow> 'w pool_client option \<Rightarrow> 's GPUPool \<Rightarrow> 'w attempt" where
  "NodeMark_HandlePool retry client pool w =
     (case client of None \<Rightarrow> (Some (ErrOther ''client is required''), w)
      | Some C \<Rightarrow>
          let poolKey = PoolLabelKey pool;
              taintsEnabled = (sh_TaintsEnabled (ps_Scheduling (gp_Spec pool)) = Some True)
          in case pl_ListDevices C GPUDevicePoolRefNameField (gp_Name pool) w of
               Inl err \<Rightarrow> (Some err, w)
             | Inr devices \<Rightarrow>
             (case pl_ListNodesByLabel C poolKey (PoolValueFromKey poolKey) w of
                Inl err \<Rightarrow> (Some err, w)
              | Inr labelled \<Rightarrow>
             (case pl_ListNodesByTaint C poolKey w of
                Inl err \<Rightarrow> (Some err, w)
              | Inr tainted \<Rightarrow>
                  let used = nodes_with_devices pool devices;
                      nodesToSync = remdups (used @ map no_Name labelled @ map no_Name tainted)
                  in each (\<lambda>nodeName. syncNode retry C nodeName poolKey (List.member used nodeName) taintsEnabled) nodesToSync w)))"

end
