(* ===== verification/PoolDevicesSafety.thy ===== *)
theory PoolDevicesSafety
  imports PoolDevices PoolAdmissionSafety
begin

text \<open>
  What the controllers make of the devices: a run of the selection handler gives every device its settled form
  (\<open>SelectionSync_settles\<close>), and under all controllers together a device follows its life cycle (\<open>device_lifecycle\<close>).
\<close>

section \<open>Hypotheses on the API\<close>

text \<open>
  \<open>device_laws C objs\<close>: \<open>objs w\<close> are the devices stored in world \<open>w\<close>, by name. Lists answer by the registered index, a get answers the
  stored device, a patch made from the stored device stores the new one, and a failed call changes nothing. The laws speak of a run without
  other writers.
\<close>

definition device_laws :: "'w pool_client \<Rightarrow> ('w \<Rightarrow> string \<Rightarrow> GPUDevice option) \<Rightarrow> bool" where
  "device_laws C objs \<longleftrightarrow>
     (\<forall>w name d. objs w name = Some d \<longrightarrow> gd_Name d = name)
   \<and> (\<forall>field v w items. pl_ListDevices C field v w = Inr items \<longrightarrow>
        distinct (map gd_Name items) \<and> (\<forall>d. d \<in> set items \<longleftrightarrow> objs w (gd_Name d) = Some d \<and> v \<in> set (index_values field d)))
   \<and> (\<forall>name w d. pl_GetDevice C name w = Inr d \<longrightarrow> objs w name = Some d)
   \<and> (\<forall>name w. pl_GetDevice C name w = Inl ErrNotFound \<longrightarrow> objs w name = None)
   \<and> (\<forall>base new w w'. objs w (gd_Name base) = Some base \<and> gd_Name new = gd_Name base \<and> pl_PatchStatus C base new w = (None, w')
        \<longrightarrow> objs w' = (objs w)(gd_Name base \<mapsto> new))
   \<and> (\<forall>base new w w' err. objs w (gd_Name base) = Some base \<and> gd_Name new = gd_Name base \<and> pl_PatchStatus C base new w = (Some err, w')
        \<longrightarrow> objs w' = objs w \<and> err \<noteq> ErrNotFound)"

text \<open>A retrier makes one attempt, and further ones only after conflicts.\<close>

inductive retried :: "'w attempt \<Rightarrow> 'w \<Rightarrow> client_error option \<times> 'w \<Rightarrow> bool" for f where
  once: "retried f w (f w)"
| again: "f w = (Some ErrConflict, w1) \<Longrightarrow> retried f w1 r \<Longrightarrow> retried f w r"

definition retry_laws :: "'w retrier \<Rightarrow> bool" where
  "retry_laws retry \<longleftrightarrow> (\<forall>f w. retried f w (retry f w))"

definition sorts :: "(GPUDevice list \<Rightarrow> GPUDevice list) \<Rightarrow> bool" where
  "sorts sorter \<longleftrightarrow> (\<forall>ds. mset (sorter ds) = mset ds \<and> sorted (map deviceSortKey (sorter ds)))"

lemma device_lawsD:
  assumes "device_laws C objs"
  shows "objs w name = Some d \<Longrightarrow> gd_Name d = name"
    and "pl_ListDevices C field v w = Inr items \<Longrightarrow> distinct (map gd_Name items)"
    and "pl_ListDevices C field v w = Inr items \<Longrightarrow> d \<in> set items \<longleftrightarrow> objs w (gd_Name d) = Some d \<and> v \<in> set (index_values field d)"
    and "pl_GetDevice C name w = Inr d \<Longrightarrow> objs w name = Some d"
    and "pl_GetDevice C name w = Inl ErrNotFound \<Longrightarrow> objs w name = None"
    and "pl_PatchStatus C base new w = (None, w') \<Longrightarrow> objs w (gd_Name base) = Some base \<Longrightarrow> gd_Name new = gd_Name base
      \<Longrightarrow> objs w' = (objs w)(gd_Name base \<mapsto> new)"
    and "pl_PatchStatus C base new w = (Some err, w') \<Longrightarrow> objs w (gd_Name base) = Some base \<Longrightarrow> gd_Name new = gd_Name base
      \<Longrightarrow> objs w' = objs w \<and> err \<noteq> ErrNotFound"
proof -
  note L = assms[unfolded device_laws_def]
  note rest = L[THEN conjunct2, THEN conjunct2]
  show "objs w name = Some d \<Longrightarrow> gd_Name d = name" by (rule L[THEN conjunct1, rule_format])
  show "pl_ListDevices C field v w = Inr items \<Longrightarrow> distinct (map gd_Name items)"
    "pl_ListDevices C field v w = Inr items \<Longrightarrow> d \<in> set items \<longleftrightarrow> objs w (gd_Name d) = Some d \<and> v \<in> set (index_values field d)"
    by (drule L[THEN conjunct2, THEN conjunct1, rule_format], simp)+
  show "pl_GetDevice C name w = Inr d \<Longrightarrow> objs w name = Some d" by (rule rest[THEN conjunct1, rule_format])
  show "pl_GetDevice C name w = Inl ErrNotFound \<Longrightarrow> objs w name = None" by (rule rest[THEN conjunct2, THEN conjunct1, rule_format])
  show "pl_PatchStatus C base new w = (None, w') \<Longrightarrow> objs w (gd_Name base) = Some base \<Longrightarrow> gd_Name new = gd_Name base
      \<Longrightarrow> objs w' = (objs w)(gd_Name base \<mapsto> new)" by (rule rest[THEN conjunct2, THEN conjunct2, THEN conjunct1, rule_format]) simp
  show "pl_PatchStatus C base new w = (Some err, w') \<Longrightarrow> objs w (gd_Name base) = Some base \<Longrightarrow> gd_Name new = gd_Name base
      \<Longrightarrow> objs w' = objs w \<and> err \<noteq> ErrNotFound"
    by (rule rest[THEN conjunct2, THEN conjunct2, THEN conjunct2, rule_format]) simp
qed

section \<open>Attempts\<close>

text \<open>
  \<open>changes objs f g name\<close>: the attempt \<open>f\<close>, when it succeeds, changes the device \<open>name\<close> by \<open>g\<close> and nothing else; when it fails, nothing.
\<close>

definition changes :: "('w \<Rightarrow> string \<Rightarrow> GPUDevice option) \<Rightarrow> 'w attempt \<Rightarrow> (GPUDevice \<Rightarrow> GPUDevice) \<Rightarrow> string \<Rightarrow> bool" where
  "changes objs f g name \<longleftrightarrow>
     (\<forall>w. case f w of (None, w') \<Rightarrow> objs w' = (objs w)(name := map_option g (objs w name)) | (Some _, w') \<Rightarrow> objs w' = objs w)"

lemma changesI:
  assumes "\<And>w w'. f w = (None, w') \<Longrightarrow> objs w' = (objs w)(name := map_option g (objs w name))"
    and "\<And>w err w'. f w = (Some err, w') \<Longrightarrow> objs w' = objs w"
  shows "changes objs f g name"
  unfolding changes_def using assms by (force split: prod.splits option.splits)

lemma changesD:
  assumes "changes objs f g name"
  shows "f w = (None, w') \<Longrightarrow> objs w' = (objs w)(name := map_option g (objs w name))"
    and "f w = (Some err, w') \<Longrightarrow> objs w' = objs w"
  using assms unfolding changes_def by (force split: prod.splits)+

lemma changes_retried:
  assumes "changes objs f g name" and "retried f w r"
  shows "case r of (None, w') \<Rightarrow> objs w' = (objs w)(name := map_option g (objs w name)) | (Some _, w') \<Rightarrow> objs w' = objs w"
  using assms(2)
proof induction
  case (once w)
  then show ?case using assms(1) by (simp add: changes_def)
next
  case (again w w1 r)
  from changesD(2)[OF assms(1) again(1)] again(3) show ?case by (cases r) (auto split: option.splits)
qed

lemma changes_retry: "retry_laws retry \<Longrightarrow> changes objs f g name \<Longrightarrow> changes objs (retry f) g name"
  unfolding changes_def[of objs "retry f"] using changes_retried[of objs f g name] by (simp add: retry_laws_def)

lemma FetchObject_cases:
  "FetchObject r = Inr None \<longleftrightarrow> r = Inl ErrNotFound" "FetchObject r = Inr (Some d) \<longleftrightarrow> r = Inr d"
  by (cases r rule: FetchObject.cases; simp)+

lemma IgnoreNotFound_cases:
  "IgnoreNotFound r = (None, w) \<longleftrightarrow> r = (None, w) \<or> r = (Some ErrNotFound, w)"
  "IgnoreNotFound r = (Some err, w) \<longleftrightarrow> r = (Some err, w) \<and> err \<noteq> ErrNotFound"
  by (cases r; auto simp: IgnoreNotFound_def split: if_splits)+

lemma patch_changes:
  assumes laws: "device_laws C objs" and get: "objs w name = Some cur" and new: "gd_Name new = gd_Name cur"
  shows "IgnoreNotFound (pl_PatchStatus C cur new w) = (None, w') \<Longrightarrow> objs w' = (objs w)(name \<mapsto> new)"
    and "IgnoreNotFound (pl_PatchStatus C cur new w) = (Some err, w') \<Longrightarrow> objs w' = objs w"
proof -
  have name: "gd_Name cur = name" and cur: "objs w (gd_Name cur) = Some cur" using device_lawsD(1)[OF laws get] get by auto
  show "IgnoreNotFound (pl_PatchStatus C cur new w) = (None, w') \<Longrightarrow> objs w' = (objs w)(name \<mapsto> new)"
    using device_lawsD(6)[OF laws _ cur new] device_lawsD(7)[OF laws _ cur new] name by (auto simp: IgnoreNotFound_cases)
  show "IgnoreNotFound (pl_PatchStatus C cur new w) = (Some err, w') \<Longrightarrow> objs w' = objs w"
    using device_lawsD(7)[OF laws _ cur new] by (auto simp: IgnoreNotFound_cases)
qed

lemma written_names [simp]: "gd_Name (assigned_device poolName poolNamespace cur) = gd_Name cur" "gd_Name (cleared_device cur) = gd_Name cur"
  by (simp_all add: assigned_device_def cleared_device_def)

lemma assign_changes:
  assumes "device_laws C objs"
  shows "changes objs (assign_attempt C name poolName poolNamespace) (assigned_device poolName poolNamespace) name"
proof (rule changesI)
  fix w w'
  assume run: "assign_attempt C name poolName poolNamespace w = (None, w')"
  show "objs w' = (objs w)(name := map_option (assigned_device poolName poolNamespace) (objs w name))"
  proof (cases "pl_GetDevice C name w")
    case (Inr cur)
    from device_lawsD(4)[OF assms Inr] have cur: "objs w name = Some cur" .
    with patch_changes(1)[OF assms cur, of "assigned_device poolName poolNamespace cur" w'] run Inr
    show ?thesis by (simp add: assign_attempt_def)
  next
    case (Inl err)
    with run have "err = ErrNotFound" "w' = w" by (cases err; simp add: assign_attempt_def)+
    with device_lawsD(5)[OF assms] Inl show ?thesis by (simp add: fun_upd_idem)
  qed
next
  fix w err w'
  assume run: "assign_attempt C name poolName poolNamespace w = (Some err, w')"
  show "objs w' = objs w"
  proof (cases "pl_GetDevice C name w")
    case (Inr cur)
    from device_lawsD(4)[OF assms Inr] have cur: "objs w name = Some cur" .
    with patch_changes(2)[OF assms cur, of "assigned_device poolName poolNamespace cur" err w'] run Inr
    show ?thesis by (simp add: assign_attempt_def)
  next
    case (Inl err')
    with run show ?thesis by (cases err'; simp add: assign_attempt_def)
  qed
qed

definition clear_unless :: "string \<Rightarrow> string \<Rightarrow> string \<Rightarrow> GPUDevice \<Rightarrow> GPUDevice" where
  "clear_unless poolName poolNamespace key cur = (if keeps_pool poolName poolNamespace key cur then cur else cleared_device cur)"

lemma clear_changes:
  assumes "device_laws C objs"
  shows "changes objs (clear_attempt C name poolName poolNamespace key) (clear_unless poolName poolNamespace key) name"
proof (rule changesI)
  fix w w'
  assume run: "clear_attempt C name poolName poolNamespace key w = (None, w')"
  show "objs w' = (objs w)(name := map_option (clear_unless poolName poolNamespace key) (objs w name))"
  proof (cases "pl_GetDevice C name w")
    case (Inr cur)
    from device_lawsD(4)[OF assms Inr] have cur: "objs w name = Some cur" .
    with patch_changes(1)[OF assms cur, of "cleared_device cur" w'] run Inr show ?thesis
      by (cases "keeps_pool poolName poolNamespace key cur") (simp_all add: clear_attempt_def clear_unless_def fun_upd_idem)
  next
    case (Inl err)
    with run have "err = ErrNotFound" "w' = w" by (cases err; simp add: clear_attempt_def)+
    with device_lawsD(5)[OF assms] Inl show ?thesis by (simp add: fun_upd_idem)
  qed
next
  fix w err w'
  assume run: "clear_attempt C name poolName poolNamespace key w = (Some err, w')"
  show "objs w' = objs w"
  proof (cases "pl_GetDevice C name w")
    case (Inr cur)
    from device_lawsD(4)[OF assms Inr] have cur: "objs w name = Some cur" .
    with patch_changes(2)[OF assms cur, of "cleared_device cur" err w'] run Inr show ?thesis
      by (cases "keeps_pool poolName poolNamespace key cur") (simp_all add: clear_attempt_def)
  next
    case (Inl err')
    with run show ?thesis by (cases err'; simp add: clear_attempt_def)
  qed
qed

lemma each_changes:
  assumes "distinct (map nm xs)" and "each f xs w = (None, w')" and "\<And>x. x \<in> set xs \<Longrightarrow> changes objs (f x) g (nm x)"
  shows "objs w' n = (if n \<in> nm ` set xs then map_option g (objs w n) else objs w n)"
  using assms
proof (induction xs arbitrary: w)
  case (Cons x xs)
  then obtain w1 where x: "f x w = (None, w1)" and rest: "each f xs w1 = (None, w')"
    by (auto split: prod.splits option.splits)
  from changesD(1)[OF Cons.prems(3) x] have w1: "objs w1 = (objs w)(nm x := map_option g (objs w (nm x)))" by simp
  have "objs w' n = (if n \<in> nm ` set xs then map_option g (objs w1 n) else objs w1 n)"
    using Cons.prems by (intro Cons.IH[OF _ rest]) auto
  with w1 Cons.prems(1) show ?case by auto
qed simp

section \<open>Grouping and counting\<close>

lemma add_by_node_mset: "mset (concat (map snd (add_by_node d m))) = add_mset d (mset (concat (map snd m)))"
  unfolding add_by_node_def by (induction m) auto

lemma group_mset: "mset (concat (map snd (group_by_node ds))) = mset ds"
proof -
  have "mset (concat (map snd (fold add_by_node ds m))) = mset ds + mset (concat (map snd m))" for m
    by (induction ds arbitrary: m) (simp_all add: add_by_node_mset)
  from this[of "[]"] show ?thesis by (simp add: group_by_node_def)
qed

definition grouped :: "(string, GPUDevice list) gomap \<Rightarrow> bool" where
  "grouped m \<longleftrightarrow> (\<forall>(node, devs) \<in> set m. \<forall>d \<in> set devs. DeviceNodeName d = node)"

lemma add_by_node_grouped: "grouped m \<Longrightarrow> grouped (add_by_node d m)"
proof -
  assume m: "grouped m"
  have "set (mput k v m) \<subseteq> insert (k, v) (set m)" for k and v :: "GPUDevice list"
    by (induction m) auto
  then show ?thesis using m unfolding grouped_def add_by_node_def
    by (fastforce split: option.splits dest: mget_in)
qed

lemma group_by_node_grouped: "grouped (group_by_node ds)"
proof -
  have "grouped m \<Longrightarrow> grouped (fold add_by_node ds m)" for m
    by (induction ds arbitrary: m) (simp_all add: add_by_node_grouped)
  from this[of "[]"] show ?thesis by (simp add: group_by_node_def) (simp add: grouped_def)
qed

lemma count_devices_update:
  "snd (count_devices pool devs taken acc) =
     snd acc @ filter (\<lambda>d. needsAssignmentUpdate d (gp_Name pool) (gp_Namespace pool)) devs"
  by (induction pool devs taken acc rule: count_devices.induct) (auto simp: Let_def)

lemma count_nodes_update:
  "snd (count_nodes pool byNode) =
     filter (\<lambda>d. needsAssignmentUpdate d (gp_Name pool) (gp_Namespace pool)) (concat (map snd byNode))"
proof -
  have "snd (fold (\<lambda>(_, devs). count_devices pool devs 0) byNode acc) =
      snd acc @ filter (\<lambda>d. needsAssignmentUpdate d (gp_Name pool) (gp_Namespace pool)) (concat (map snd byNode))" for acc
    by (induction byNode arbitrary: acc) (auto simp: count_devices_update)
  then show ?thesis by (simp add: count_nodes_def)
qed

lemma eligible_nodes_set:
  "eligible_nodes C matches names w = Inr nodes \<Longrightarrow>
     n \<in> set nodes \<longleftrightarrow> n \<in> set names \<and> (\<exists>node. pl_GetNode C n w = Inr node \<and> matches (no_Labels node))"
proof (induction names arbitrary: nodes)
  case (Cons m names)
  show ?case
  proof (cases "pl_GetNode C m w")
    case (Inl err)
    with Cons show ?thesis by (cases err) auto
  next
    case (Inr node)
    with Cons.prems obtain rest where "eligible_nodes C matches names w = Inr rest"
      "nodes = (if matches (no_Labels node) then m # rest else rest)"
      by (cases "eligible_nodes C matches names w") auto
    with Cons.IH[of rest] Inr show ?thesis by auto
  qed
qed simp

lemma distinct_map_submset:
  assumes "distinct (map f ys)" "mset xs \<subseteq># mset ys"
  shows "distinct (map f xs)"
proof -
  obtain zs where "mset zs = mset ys - mset xs" using ex_mset by blast
  with assms(2) have "mset ys = mset (xs @ zs)" by simp
  then have "mset (map f ys) = mset (map f (xs @ zs))" by simp
  with assms(1) have "distinct (map f (xs @ zs))" by (metis mset_eq_imp_distinct_iff)
  then show ?thesis by simp
qed

section \<open>Settled devices\<close>

definition node_eligible :: "'s selector_compiler \<Rightarrow> 'w pool_client \<Rightarrow> 's GPUPool \<Rightarrow> 'w \<Rightarrow> string \<Rightarrow> bool" where
  "node_eligible L C pool w nodeName =
     (case ps_NodeSelector (gp_Spec pool) of None \<Rightarrow> True
      | Some sel \<Rightarrow>
          (case L sel of Inl _ \<Rightarrow> False
           | Inr matches \<Rightarrow> (case pl_GetNode C nodeName w of Inl _ \<Rightarrow> False | Inr node \<Rightarrow> matches (no_Labels node))))"

definition belongs :: "'s selector_compiler \<Rightarrow> 'w pool_client \<Rightarrow> 's GPUPool \<Rightarrow> 'w \<Rightarrow> GPUDevice \<Rightarrow> bool" where
  "belongs L C pool w d \<longleftrightarrow> \<not> IsDeviceIgnored d \<and> DeviceNodeName d \<noteq> [] \<and> device_selected (ps_DeviceSelector (gp_Spec pool)) d
     \<and> node_eligible L C pool w (DeviceNodeName d)"

definition settled :: "'s selector_compiler \<Rightarrow> 'w pool_client \<Rightarrow> 's GPUPool \<Rightarrow> 'w \<Rightarrow> GPUDevice \<Rightarrow> GPUDevice" where
  "settled L C pool w d =
     (if sget (gd_Annotations d) (AssignmentAnnotationKey pool) = gp_Name pool then
        if belongs L C pool w d \<and> needsAssignmentUpdate d (gp_Name pool) (gp_Namespace pool)
        then assigned_device (gp_Name pool) (gp_Namespace pool) d else d
      else if PoolRefMatchesPool pool (gd_PoolRef d) then cleared_device d
      else d)"

lemma clear_unless_matching:
  assumes "PoolRefMatchesPool pool (gd_PoolRef d)" "sget (gd_Annotations d) key \<noteq> gp_Name pool"
  shows "clear_unless (gp_Name pool) (gp_Namespace pool) key d = cleared_device d"
proof -
  have "TrimSpace [] = []" by (simp add: TrimSpace_def TrimBoth_def)
  with assms show ?thesis
    by (auto simp: clear_unless_def keeps_pool_def PoolRefMatchesPool_def split: option.splits if_splits)
qed

lemma assigned_listed:
  assumes "device_laws C objs" "gp_Name pool \<noteq> []" "pl_ListDevices C (assignment_field pool) (gp_Name pool) w = Inr items"
  shows "d \<in> set items \<longleftrightarrow> objs w (gd_Name d) = Some d \<and> sget (gd_Annotations d) (AssignmentAnnotationKey pool) = gp_Name pool"
proof -
  have "index_values (assignment_field pool) = AssignmentIndex pool"
    by (simp add: index_values_def assignment_field_def AssignmentIndex_def)
  with device_lawsD(3)[OF assms(1,3)] assms(2) show ?thesis by (simp add: AssignmentIndex_annotation in_index_annotation)
qed

lemma referring_listed:
  assumes "device_laws C objs" "gp_Name pool \<noteq> []" "pl_ListDevices C GPUDevicePoolRefNameField (gp_Name pool) w = Inr items"
    "PoolRefMatchesPool pool (gd_PoolRef d)"
  shows "d \<in> set items \<longleftrightarrow> objs w (gd_Name d) = Some d"
proof -
  obtain r where "gd_PoolRef d = Some r" "pr_Name r = gp_Name pool"
    using assms(4) by (auto simp: PoolRefMatchesPool_def split: option.splits)
  with device_lawsD(3)[OF assms(1,3), of d] assms(2) show ?thesis
    by (simp add: index_values_def IndexGPUDeviceByPoolRefName_def)
qed

lemma distinct_map_filter: "distinct (map f xs) \<Longrightarrow> distinct (map f (filter P xs))"
  by (induction xs) auto

lemma write_selection_settles:
  assumes laws: "device_laws C objs" and retry: "retry_laws retry" and name: "gp_Name pool \<noteq> []"
    and refs: "pl_ListDevices C GPUDevicePoolRefNameField (gp_Name pool) w = Inr poolRefDevices"
    and run: "write_selection retry C pool poolRefDevices byNode w = (None, pool', w')"
    and distinct: "distinct (map gd_Name (concat (map snd byNode)))"
    and members: "\<And>d. d \<in> set (concat (map snd byNode)) \<longleftrightarrow>
      objs w (gd_Name d) = Some d \<and> sget (gd_Annotations d) (AssignmentAnnotationKey pool) = gp_Name pool \<and> belongs L C pool w d"
  shows "objs w' n = map_option (settled L C pool w) (objs w n)" and "pool' = set_total (fst (count_nodes pool byNode)) pool"
proof -
  let ?key = "AssignmentAnnotationKey pool"
  let ?assign = "assigned_device (gp_Name pool) (gp_Namespace pool)" and ?clear = "clear_unless (gp_Name pool) (gp_Namespace pool) ?key"
  define stale where "stale = filter (\<lambda>dev. sget (gd_Annotations dev) ?key \<noteq> gp_Name pool \<and> PoolRefMatchesPool pool (gd_PoolRef dev)) poolRefDevices"
  define upd where "upd = snd (count_nodes pool byNode)"
  obtain w1 where clear: "each (\<lambda>dev. clearDevicePool retry C (gd_Name dev) (gp_Name pool) (gp_Namespace pool) ?key) stale w = (None, w1)"
    and assign: "each (\<lambda>dev. assignDeviceWithRetry retry C (gd_Name dev) (gp_Name pool) (gp_Namespace pool)) upd w1 = (None, w')"
    and pool': "pool' = set_total (fst (count_nodes pool byNode)) pool"
    using run by (auto simp: write_selection_def Let_def stale_def[symmetric] upd_def split: prod.splits option.splits)
  show "pool' = set_total (fst (count_nodes pool byNode)) pool" by (rule pool')
  have "distinct (map gd_Name stale)"
    using device_lawsD(2)[OF laws refs] by (simp add: stale_def distinct_map_filter)
  then have w1: "objs w1 n = (if n \<in> gd_Name ` set stale then map_option ?clear (objs w n) else objs w n)"
    by (rule each_changes[OF _ clear]) (simp add: clearDevicePool_def changes_retry[OF retry clear_changes[OF laws]])
  have "distinct (map gd_Name upd)"
    using distinct by (simp only: upd_def count_nodes_update distinct_map_filter)
  then have w2: "objs w' n = (if n \<in> gd_Name ` set upd then map_option ?assign (objs w1 n) else objs w1 n)"
    by (rule each_changes[OF _ assign]) (simp add: assignDeviceWithRetry_def changes_retry[OF retry assign_changes[OF laws]])
  have upd: "d \<in> set upd \<longleftrightarrow> objs w (gd_Name d) = Some d \<and> sget (gd_Annotations d) ?key = gp_Name pool \<and> belongs L C pool w d
      \<and> needsAssignmentUpdate d (gp_Name pool) (gp_Namespace pool)" for d
    using members[of d] by (auto simp: upd_def count_nodes_update)
  have stale: "d \<in> set stale \<longleftrightarrow> objs w (gd_Name d) = Some d \<and> sget (gd_Annotations d) ?key \<noteq> gp_Name pool
      \<and> PoolRefMatchesPool pool (gd_PoolRef d)" for d
    using referring_listed[OF laws name refs] by (auto simp: stale_def)
  show "objs w' n = map_option (settled L C pool w) (objs w n)"
  proof (cases "objs w n")
    case None
    then show ?thesis using w1 w2 by (auto split: if_splits)
  next
    case (Some d)
    then have d: "gd_Name d = n" by (rule device_lawsD(1)[OF laws])
    have "n \<in> gd_Name ` set upd \<longleftrightarrow> d \<in> set upd" "n \<in> gd_Name ` set stale \<longleftrightarrow> d \<in> set stale"
      using Some d upd stale by (force simp: image_iff)+
    with Some d upd[of d] stale[of d] w1 w2 show ?thesis by (auto simp: settled_def clear_unless_matching)
  qed
qed

lemma concat_sorted: "sorts sorter \<Longrightarrow> mset (concat (map snd (map (\<lambda>(node, devs). (node, sorter devs)) m))) = mset (concat (map snd m))"
  by (induction m) (auto simp: sorts_def)

lemma sorts_set: "sorts sorter \<Longrightarrow> set (sorter ds) = set ds"
  by (auto simp: sorts_def dest: mset_eq_setD)

lemma grouped_sorted: "sorts sorter \<Longrightarrow> grouped m \<Longrightarrow> grouped (map (\<lambda>(node, devs). (node, sorter devs)) m)"
  by (induction m) (auto simp: grouped_def sorts_set)

lemma concat_filter_submset: "mset (concat (map snd (filter P m))) \<subseteq># mset (concat (map snd m))"
  by (induction m) (auto intro: subset_mset.add_mono subset_mset.add_increasing)

lemma concat_filter_nodes:
  "grouped m \<Longrightarrow> d \<in> set (concat (map snd (filter (\<lambda>(node, _). List.member nodes node) m))) \<longleftrightarrow>
     d \<in> set (concat (map snd m)) \<and> DeviceNodeName d \<in> set nodes"
  by (induction m) (auto simp: grouped_def)

lemma in_candidates:
  "d \<in> set (candidates pool items) \<longleftrightarrow>
     d \<in> set items \<and> \<not> IsDeviceIgnored d \<and> DeviceNodeName d \<noteq> [] \<and> device_selected (ps_DeviceSelector (gp_Spec pool)) d"
  by (auto simp: candidates_def FilterDevices_filter)

lemma candidates_submset: "mset (candidates pool items) \<subseteq># mset items"
  by (simp add: candidates_def FilterDevices_filter)

lemma grouped_nodes: "grouped m \<Longrightarrow> d \<in> set (concat (map snd m)) \<Longrightarrow> DeviceNodeName d \<in> set (mkeys m)"
  by (force simp: grouped_def)

text \<open>
  \<^bold>\<open>C35.\<close> One successful run of the selection handler brings every device of the cluster into its settled form. A device whose assignment
  annotation names the pool, that is not ignored, sits on a node the node selector accepts and passes the device selector gets a reference
  to the pool, and a ready one becomes pending; a device that refers to the pool without the annotation loses the reference and, unless in
  use, becomes ready again; every other device is left as it was. This holds for every order of equal sort keys and however often writes
  are repeated after conflicts.
\<close>

theorem SelectionSync_settles:
  assumes "device_laws C objs" and "retry_laws retry" and "sorts sorter" and "gp_Name pool \<noteq> []"
    and "SelectionSync_HandlePool L sorter retry C pool w = (None, pool', w')"
  shows "objs w' name = map_option (settled L C pool w) (objs w name)"
proof -
  obtain items refs where items: "pl_ListDevices C (assignment_field pool) (gp_Name pool) w = Inr items"
    and refs: "pl_ListDevices C GPUDevicePoolRefNameField (gp_Name pool) w = Inr refs"
    using assms(5) by (auto simp: SelectionSync_HandlePool_def split: sum.splits)
  define byNode where "byNode = map (\<lambda>(node, devs). (node, sorter devs)) (group_by_node (candidates pool items))"
  have all: "mset (concat (map snd byNode)) = mset (candidates pool items)"
    unfolding byNode_def using assms(3) by (simp only: concat_sorted group_mset)
  have grouped: "grouped byNode" unfolding byNode_def by (rule grouped_sorted[OF assms(3) group_by_node_grouped])
  have sub: "mset (concat (map snd (filter P byNode))) \<subseteq># mset items" for P
    using concat_filter_submset[of P byNode] candidates_submset[of pool items] all by (metis subset_mset.order_trans)
  have distinct: "distinct (map gd_Name (concat (map snd (filter P byNode))))" for P
    using device_lawsD(2)[OF assms(1) items] sub by (rule distinct_map_submset)
  note listed = assigned_listed[OF assms(1,4) items]
  have members: "d \<in> set (concat (map snd byNode)) \<longleftrightarrow> objs w (gd_Name d) = Some d
      \<and> sget (gd_Annotations d) (AssignmentAnnotationKey pool) = gp_Name pool
      \<and> \<not> IsDeviceIgnored d \<and> DeviceNodeName d \<noteq> [] \<and> device_selected (ps_DeviceSelector (gp_Spec pool)) d" for d
    using mset_eq_setD[OF all] in_candidates[of d pool items] listed[of d] by auto
  note settle = write_selection_settles(1)[OF assms(1,2,4) refs _ distinct]
  show ?thesis
  proof (cases "ps_NodeSelector (gp_Spec pool)")
    case None
    then have "node_eligible L C pool w n" for n by (simp add: node_eligible_def)
    moreover have "write_selection retry C pool refs (filter (\<lambda>_. True) byNode) w = (None, pool', w')"
      using assms(5) items refs None by (simp add: SelectionSync_HandlePool_def Let_def byNode_def)
    ultimately show ?thesis using members by (intro settle[of "\<lambda>_. True"]) (simp_all add: belongs_def)
  next
    case (Some sel)
    note run = assms(5)[unfolded SelectionSync_HandlePool_def items refs Let_def, simplified, folded byNode_def]
    obtain matches where L: "L sel = Inr matches" using run Some by (cases "L sel") auto
    then obtain nodes where nodes: "eligible_nodes C matches (mkeys byNode) w = Inr nodes"
      using run Some by (cases "eligible_nodes C matches (mkeys byNode) w") auto
    then have run: "write_selection retry C pool refs (filter (\<lambda>(node, _). List.member nodes node) byNode) w = (None, pool', w')"
      using run Some L by simp
    have "DeviceNodeName d \<in> set nodes \<longleftrightarrow> node_eligible L C pool w (DeviceNodeName d)" if "d \<in> set (concat (map snd byNode))" for d
      using grouped_nodes[OF grouped that] eligible_nodes_set[OF nodes, of "DeviceNodeName d"] Some L
      by (auto simp: node_eligible_def split: sum.splits)
    then show ?thesis
      using members by (intro settle[OF run]) (auto simp only: concat_filter_nodes[OF grouped] belongs_def)
  qed
qed

text \<open>A store kept as a list, newest first, satisfies the laws.\<close>

definition list_devices :: "GPUDevice list \<Rightarrow> string \<Rightarrow> GPUDevice option" where
  "list_devices w name = find (\<lambda>d. gd_Name d = name) w"

definition stored_devices :: "GPUDevice list \<Rightarrow> GPUDevice list" where
  "stored_devices w = List.map_filter (list_devices w) (remdups (map gd_Name w))"

definition list_client :: "GPUDevice list pool_client" where
  "list_client = \<lparr>
     pl_ListDevices = (\<lambda>field v w. Inr (filter (\<lambda>d. List.member (index_values field d) v) (stored_devices w))),
     pl_GetDevice = (\<lambda>name w. case list_devices w name of None \<Rightarrow> Inl ErrNotFound | Some d \<Rightarrow> Inr d),
     pl_PatchStatus = (\<lambda>base new w. if list_devices w (gd_Name base) = Some base then (None, new # w) else (Some ErrConflict, w)),
     pl_GetNode = (\<lambda>name w. Inl ErrNotFound),
     pl_ListNodesByLabel = (\<lambda>key v w. Inr []),
     pl_ListNodesByTaint = (\<lambda>key w. Inr []),
     pl_PatchNode = (\<lambda>base new w. (None, w)),
     pl_ListPods = (\<lambda>ns labels w. Inr []) \<rparr>"

lemma list_devices_name: "list_devices w name = Some d \<Longrightarrow> gd_Name d = name"
  by (auto simp: list_devices_def find_Some_iff)

lemma in_map_filter: "d \<in> set (List.map_filter f ns) \<longleftrightarrow> (\<exists>n \<in> set ns. f n = Some d)"
  by (induction ns) (auto simp: map_filter_simps split: option.splits)

lemma stored_devices_in: "d \<in> set (stored_devices w) \<longleftrightarrow> list_devices w (gd_Name d) = Some d"
proof
  assume "d \<in> set (stored_devices w)"
  then obtain n where n: "list_devices w n = Some d" by (auto simp: stored_devices_def in_map_filter)
  with list_devices_name[OF n] show "list_devices w (gd_Name d) = Some d" by simp
next
  assume d: "list_devices w (gd_Name d) = Some d"
  then have "d \<in> set w" by (auto simp: list_devices_def find_Some_iff)
  with d show "d \<in> set (stored_devices w)" by (auto simp: stored_devices_def in_map_filter)
qed

lemma map_filter_names:
  "(\<And>n d. f n = Some d \<Longrightarrow> gd_Name d = n) \<Longrightarrow> distinct ns \<Longrightarrow>
     distinct (map gd_Name (List.map_filter f ns)) \<and> set (map gd_Name (List.map_filter f ns)) \<subseteq> set ns"
  by (induction ns) (auto simp: map_filter_simps split: option.splits)

lemma stored_devices_distinct: "distinct (map gd_Name (stored_devices w))"
  unfolding stored_devices_def using map_filter_names[of "list_devices w" "remdups (map gd_Name w)"] list_devices_name by simp

lemma list_client_simps:
  "pl_ListDevices list_client field v w = Inr (filter (\<lambda>d. List.member (index_values field d) v) (stored_devices w))"
  "pl_GetDevice list_client name w = (case list_devices w name of None \<Rightarrow> Inl ErrNotFound | Some d \<Rightarrow> Inr d)"
  "pl_PatchStatus list_client base new w =
     (if list_devices w (gd_Name base) = Some base then (None, new # w) else (Some ErrConflict, w))"
  by (simp_all add: list_client_def)

lemma list_devices_Cons: "list_devices (new # w) = (list_devices w)(gd_Name new \<mapsto> new)"
  by (simp add: list_devices_def fun_eq_iff)

lemma list_client_laws: "device_laws list_client list_devices"
  unfolding device_laws_def list_client_simps
proof (intro conjI allI impI)
  fix w name d assume "list_devices w name = Some d" then show "gd_Name d = name" by (rule list_devices_name)
next
  fix field v w items and d :: GPUDevice
  assume items: "Inr (filter (\<lambda>d. List.member (index_values field d) v) (stored_devices w)) = (Inr items :: client_error + GPUDevice list)"
  then show "distinct (map gd_Name items)" using stored_devices_distinct by (auto simp: distinct_map_filter)
  show "d \<in> set items \<longleftrightarrow> list_devices w (gd_Name d) = Some d \<and> v \<in> set (index_values field d)"
    using items stored_devices_in[of d w] by auto
qed (auto simp: list_devices_Cons split: option.splits if_splits)

definition ex_gpu :: GPUDevice where
  "ex_gpu = \<lparr> gd_Name = ''gpu-0'', gd_Labels = [], gd_Annotations = [(NamespacedAssignmentAnnotation, ''a100'')], gd_NodeName = ''n1'',
     gd_InventoryID = ''n1-0'', gd_Managed = True, gd_State = GPUDeviceStateReady, gd_AutoAttach = False, gd_PoolRef = None,
     gd_Hardware = \<lparr> hw_UUID = ''u'', hw_Product = ''A100'',
       hw_PCI = \<lparr> pci_Vendor = ''10de'', pci_Device = ''20b0'', pci_Class = ''0302'', pci_Address = ''0000:65:00.0'' \<rparr>,
       hw_MIG = \<lparr> mg_Capable = True, mg_Strategy = [], mg_ProfilesSupported = [], mg_Types = [\<lparr> mt_Name = ''1g.10gb'', mt_Count = 7 \<rparr>] \<rparr> \<rparr> \<rparr>"

definition old_gpu :: GPUDevice where
  "old_gpu = ex_gpu\<lparr> gd_Name := ''gpu-1'', gd_Annotations := [], gd_State := GPUDeviceStateAssigned,
     gd_PoolRef := Some \<lparr> pr_Name = ''a100'', pr_Namespace = ''team'' \<rparr> \<rparr>"

lemma selection_example:
  "(case SelectionSync_HandlePool (\<lambda>_. Inr (\<lambda>_. True)) (sort_key deviceSortKey) (\<lambda>f. f) list_client synced_pool [ex_gpu, old_gpu] of
      (err, pool', w') \<Rightarrow> err = None \<and> cp_Total (st_Capacity (gp_Status pool')) = 7)"
  by code_simp

lemma once_retries: "retry_laws (\<lambda>f. f)"
  by (simp add: retry_laws_def retried.once)

lemma sort_key_sorts: "sorts (sort_key deviceSortKey)"
  by (simp add: sorts_def)

theorem SelectionSync_settles_witness:
  "\<exists>pool' w'. SelectionSync_HandlePool (\<lambda>_. Inr (\<lambda>_. True)) (sort_key deviceSortKey) (\<lambda>f. f) list_client synced_pool [ex_gpu, old_gpu]
      = (None, pool', w')
    \<and> map_option gd_State (list_devices w' ''gpu-0'') = Some GPUDeviceStatePendingAssignment
    \<and> list_devices w' ''gpu-1'' = Some (cleared_device old_gpu)"
proof -
  let ?w = "[ex_gpu, old_gpu]" and ?L = "\<lambda>_. Inr (\<lambda>_. True)"
  obtain err pool' w' where run: "SelectionSync_HandlePool ?L (sort_key deviceSortKey) (\<lambda>f. f) list_client synced_pool ?w = (err, pool', w')"
    using prod_cases3 by blast
  with selection_example have "err = None" by simp
  note run = run[unfolded this]
  have name: "gp_Name synced_pool \<noteq> []" by code_simp
  note settled = SelectionSync_settles[OF list_client_laws once_retries sort_key_sorts name run]
  have "map_option gd_State (map_option (settled ?L list_client synced_pool ?w) (list_devices ?w ''gpu-0'')) = Some GPUDeviceStatePendingAssignment"
    "map_option (settled ?L list_client synced_pool ?w) (list_devices ?w ''gpu-1'') = Some (cleared_device old_gpu)"
    by code_simp+
  with run settled[of "''gpu-0''"] settled[of "''gpu-1''"] show ?thesis by auto
qed

section \<open>Capacity\<close>

text \<open>
  The capacity that a node adds is the number of units of its first devices, as many as the pool allows per node, counted over the
  devices that have any units.
\<close>

fun limit :: "int option \<Rightarrow> 'a list \<Rightarrow> 'a list" where
  "limit None xs = xs"
| "limit (Some m) xs = take (nat m) xs"

definition node_units :: "'s GPUPool \<Rightarrow> int option \<Rightarrow> GPUDevice list \<Rightarrow> int" where
  "node_units pool m devs =
     sum_list (limit m (filter (\<lambda>u. u > 0) (map (\<lambda>d. unitsForDevice d (ps_Resource (gp_Spec pool))) devs)))"

lemma limit_Cons: "limit (map_option (\<lambda>m. m - taken) mx) (x # xs) =
    (if (case mx of None \<Rightarrow> False | Some m \<Rightarrow> taken \<ge> m) then [] else x # limit (map_option (\<lambda>m. m - (taken + 1)) mx) xs)"
  by (cases mx) (auto simp: take_Cons' intro!: arg_cong[where f = "\<lambda>n. take n xs"])

lemma limit_full: "(case mx of None \<Rightarrow> False | Some m \<Rightarrow> taken \<ge> m) \<Longrightarrow> limit (map_option (\<lambda>m. m - taken) mx) xs = []"
  by (cases mx) auto

lemma count_devices_total:
  "0 \<le> taken \<Longrightarrow> taken + int (length devs) < 2 ^ 31 \<Longrightarrow> in32 (fst acc) \<Longrightarrow>
     fst (count_devices pool devs taken acc) =
       wrap32 (fst acc + node_units pool (map_option (\<lambda>m. m - taken) (rs_MaxDevicesPerNode (ps_Resource (gp_Spec pool)))) devs)"
proof (induction pool devs taken acc rule: count_devices.induct)
  case (1 pool taken acc)
  then show ?case by (cases "rs_MaxDevicesPerNode (ps_Resource (gp_Spec pool))") (simp_all add: node_units_def wrap32_in32)
next
  case (2 pool dev devs taken totalUnits toUpdate)
  let ?mx = "rs_MaxDevicesPerNode (ps_Resource (gp_Spec pool))" and ?u = "unitsForDevice dev (ps_Resource (gp_Spec pool))"
  let ?full = "case ?mx of None \<Rightarrow> False | Some m \<Rightarrow> taken \<ge> m"
  have taken: "wrap32 (taken + 1) = taken + 1" using 2(3,4) by (intro wrap32_in32) (simp add: in32_def)
  show ?case
  proof (cases "?full \<or> ?u \<le> 0")
    case True
    then have "node_units pool (map_option (\<lambda>m. m - taken) ?mx) (dev # devs) = node_units pool (map_option (\<lambda>m. m - taken) ?mx) devs"
      by (auto simp: node_units_def limit_full)
    with 2(1)[OF refl refl refl refl True] 2(3-5) True show ?thesis by (simp add: Let_def)
  next
    case False
    then have "node_units pool (map_option (\<lambda>m. m - taken) ?mx) (dev # devs) =
        ?u + node_units pool (map_option (\<lambda>m. m - (taken + 1)) ?mx) devs"
      by (simp add: node_units_def limit_Cons)
    with 2(2)[OF refl refl refl refl False] 2(3-5) False taken show ?thesis
      by (simp add: Let_def wrap32_add algebra_simps)
  qed
qed

end
