(* ===== verification/DeviceLifecycle.thy ===== *)
theory DeviceLifecycle
  imports PoolDevicesSafety
begin

text \<open>
  The life cycle of a device under all controllers that write its state: every run of the selection, validation and readiness handlers,
  successful or not, is a sequence of steps of the abstract machine \<open>device_step\<close> (\<open>selection_steps\<close>, \<open>validation_steps\<close>, \<open>readiness_steps\<close>),
  and whatever order they run in, a device that is pending or assigned refers to a pool (\<open>device_lifecycle\<close>).
\<close>

section \<open>The abstract machine\<close>

text \<open>
  What a device can become in one write. Only \<open>validate\<close> makes a device assigned, and only if a validator is ready on its node.
\<close>

inductive device_step :: "string set \<Rightarrow> GPUDevice \<Rightarrow> GPUDevice \<Rightarrow> bool" for validated where
  assign: "device_step validated d (assigned_device poolName poolNamespace d)"
| clear: "device_step validated d (cleared_device d)"
| validate: "DeviceNodeName d \<in> validated \<Longrightarrow> gd_State d = GPUDeviceStatePendingAssignment
     \<Longrightarrow> device_step validated d (d\<lparr> gd_State := GPUDeviceStateAssigned \<rparr>)"
| revoke: "gd_State d = GPUDeviceStateAssigned \<Longrightarrow> device_step validated d (d\<lparr> gd_State := GPUDeviceStatePendingAssignment \<rparr>)"
| follow: "gd_State d \<notin> {GPUDeviceStateReady, GPUDeviceStatePendingAssignment, GPUDeviceStateAssigned, GPUDeviceStateReserved, GPUDeviceStateInUse}
     \<Longrightarrow> target \<in> {GPUDeviceStateDiscovered, GPUDeviceStateValidating, GPUDeviceStateReady}
     \<Longrightarrow> device_step validated d (d\<lparr> gd_State := target \<rparr>)"

inductive_cases device_stepE: "device_step validated d d'"

definition steps_between :: "('w \<Rightarrow> string \<Rightarrow> GPUDevice option) \<Rightarrow> string set \<Rightarrow> 'w \<Rightarrow> 'w \<Rightarrow> bool" where
  "steps_between objs validated w w' \<longleftrightarrow>
     (\<forall>n. rel_option (device_step validated)\<^sup>*\<^sup>* (objs w n) (objs w' n))"

lemma steps_refl [simp]: "steps_between objs validated w w"
  by (simp add: steps_between_def option.rel_refl)

lemma steps_same: "objs w' = objs w \<Longrightarrow> steps_between objs validated w w'"
  by (simp add: steps_between_def option.rel_refl)

lemma steps_trans: "steps_between objs validated w w1 \<Longrightarrow> steps_between objs validated w1 w2 \<Longrightarrow> steps_between objs validated w w2"
  unfolding steps_between_def
proof
  fix n
  assume "\<forall>n. rel_option (device_step validated)\<^sup>*\<^sup>* (objs w n) (objs w1 n)" "\<forall>n. rel_option (device_step validated)\<^sup>*\<^sup>* (objs w1 n) (objs w2 n)"
  then have "rel_option (device_step validated)\<^sup>*\<^sup>* (objs w n) (objs w1 n)" "rel_option (device_step validated)\<^sup>*\<^sup>* (objs w1 n) (objs w2 n)"
    by blast+
  then show "rel_option (device_step validated)\<^sup>*\<^sup>* (objs w n) (objs w2 n)"
    by (cases "objs w n"; cases "objs w1 n"; cases "objs w2 n") auto
qed

lemma steps_update:
  assumes "objs w' = (objs w)(n := map_option g (objs w n))" "\<And>d. (device_step validated)\<^sup>*\<^sup>* d (g d)"
  shows "steps_between objs validated w w'"
  using assms unfolding steps_between_def by (auto simp: option.rel_refl option.rel_map intro: option.rel_refl)

lemma changes_steps:
  assumes "changes objs f g n" "\<And>d. (device_step validated)\<^sup>*\<^sup>* d (g d)" "f w = (r, w')"
  shows "steps_between objs validated w w'"
proof (cases r)
  case None
  with assms(3) steps_update[OF changesD(1)[OF assms(1)] assms(2)] show ?thesis by simp
next
  case (Some err)
  with assms(3) steps_same[of objs w' w] changesD(2)[OF assms(1)] show ?thesis by simp
qed

lemma each_steps:
  assumes "\<And>x w r w'. x \<in> set xs \<Longrightarrow> f x w = (r, w') \<Longrightarrow> steps_between objs validated w w'" and "each f xs w = (r, w')"
  shows "steps_between objs validated w w'"
  using assms
proof (induction xs arbitrary: w)
  case (Cons x xs)
  obtain r1 w1 where x: "f x w = (r1, w1)" by fastforce
  have s: "steps_between objs validated w w1" by (rule Cons.prems(1)[OF _ x]) simp
  show ?case
  proof (cases r1)
    case None
    with x Cons.prems(2) have "each f xs w1 = (r, w')" by simp
    have "steps_between objs validated w1 w'" by (rule Cons.IH[OF _ \<open>each f xs w1 = (r, w')\<close>]) (rule Cons.prems(1), simp_all)
    with s show ?thesis by (rule steps_trans)
  qed (use x s Cons.prems(2) in simp)
qed simp

section \<open>Runs of the handlers are steps\<close>

lemma assign_steps: "(device_step validated)\<^sup>*\<^sup>* d (assigned_device poolName poolNamespace d)"
  by (rule r_into_rtranclp) (rule device_step.assign)

lemma clear_steps: "(device_step validated)\<^sup>*\<^sup>* d (clear_unless poolName poolNamespace key d)"
  by (cases "keeps_pool poolName poolNamespace key d") (auto simp: clear_unless_def intro: device_step.clear)

lemma write_selection_eq:
  "write_selection retry C pool refs byNode w =
     (case each (\<lambda>dev. clearDevicePool retry C (gd_Name dev) (gp_Name pool) (gp_Namespace pool) (AssignmentAnnotationKey pool))
        (filter (\<lambda>dev. sget (gd_Annotations dev) (AssignmentAnnotationKey pool) \<noteq> gp_Name pool \<and> PoolRefMatchesPool pool (gd_PoolRef dev)) refs) w of
        (Some err, w1) \<Rightarrow> (Some err, pool, w1)
      | (None, w1) \<Rightarrow>
          (case each (\<lambda>dev. assignDeviceWithRetry retry C (gd_Name dev) (gp_Name pool) (gp_Namespace pool)) (snd (count_nodes pool byNode)) w1 of
             (err, w2) \<Rightarrow> (err, set_total (fst (count_nodes pool byNode)) pool, w2)))"
  by (simp add: write_selection_def Let_def split_beta)

lemma write_selection_steps:
  assumes laws: "device_laws C objs" and retry: "retry_laws retry" and run: "write_selection retry C pool refs byNode w = (err, pool', w')"
  shows "steps_between objs validated w w'"
proof -
  let ?key = "AssignmentAnnotationKey pool"
  let ?clear = "\<lambda>dev. clearDevicePool retry C (gd_Name dev) (gp_Name pool) (gp_Namespace pool) ?key"
  let ?assign = "\<lambda>dev. assignDeviceWithRetry retry C (gd_Name dev) (gp_Name pool) (gp_Namespace pool)"
  let ?stale = "filter (\<lambda>dev. sget (gd_Annotations dev) ?key \<noteq> gp_Name pool \<and> PoolRefMatchesPool pool (gd_PoolRef dev)) refs"
  have clear: "steps_between objs validated v v'" if "?clear d v = (r, v')" for d v r v'
    by (rule changes_steps[OF changes_retry[OF retry clear_changes[OF laws]] clear_steps that[unfolded clearDevicePool_def]])
  have assign: "steps_between objs validated v v'" if "?assign d v = (r, v')" for d v r v'
    by (rule changes_steps[OF changes_retry[OF retry assign_changes[OF laws]] assign_steps that[unfolded assignDeviceWithRetry_def]])
  obtain r1 w1 where c: "each ?clear ?stale w = (r1, w1)" by fastforce
  have s1: "steps_between objs validated w w1" by (rule each_steps[OF _ c]) (rule clear)
  show ?thesis
  proof (cases r1)
    case None
    obtain r2 w2 where a: "each ?assign (snd (count_nodes pool byNode)) w1 = (r2, w2)" by fastforce
    have s2: "steps_between objs validated w1 w2" by (rule each_steps[OF _ a]) (rule assign)
    have "w' = w2" using run unfolding write_selection_eq c None by (simp add: a)
    with steps_trans[OF s1 s2] show ?thesis by simp
  next
    case (Some e)
    have "w' = w1" using run unfolding write_selection_eq c Some by simp
    with s1 show ?thesis by simp
  qed
qed

lemma selection_steps:
  assumes "device_laws C objs" "retry_laws retry" "SelectionSync_HandlePool L sorter retry C pool w = (err, pool', w')"
  shows "steps_between objs validated w w'"
  using assms(3) write_selection_steps[OF assms(1,2)]
  by (auto simp: SelectionSync_HandlePool_def Let_def split: sum.splits option.splits prod.splits)

text \<open>
  The other two handlers patch the devices they listed, without reading them again: a device stays as it was listed until its turn,
  because the names in a list are distinct.
\<close>

lemma other_name: "distinct (map gd_Name (x # xs)) \<Longrightarrow> y \<in> set xs \<Longrightarrow> gd_Name y \<noteq> gd_Name x"
  by (induction xs) auto

lemma each_listed_steps:
  assumes "\<And>x w r w'. x \<in> set xs \<Longrightarrow> f x w = (r, w') \<Longrightarrow> objs w (gd_Name x) = Some x \<Longrightarrow>
      steps_between objs validated w w' \<and> (\<forall>n. n \<noteq> gd_Name x \<longrightarrow> objs w' n = objs w n)"
    and "each f xs w = (r, w')" and "distinct (map gd_Name xs)" and "\<forall>x \<in> set xs. objs w (gd_Name x) = Some x"
  shows "steps_between objs validated w w'"
  using assms
proof (induction xs arbitrary: w)
  case (Cons x xs)
  obtain r1 w1 where x: "f x w = (r1, w1)" by fastforce
  from Cons.prems(1)[OF _ x] Cons.prems(4)
  have s: "steps_between objs validated w w1" "\<forall>n. n \<noteq> gd_Name x \<longrightarrow> objs w1 n = objs w n" by simp_all
  show ?case
  proof (cases r1)
    case None
    with x Cons.prems(2) have rest: "each f xs w1 = (r, w')" by simp
    have stored: "\<forall>y \<in> set xs. objs w1 (gd_Name y) = Some y"
    proof
      fix y assume y: "y \<in> set xs"
      with Cons.prems(3) have "gd_Name y \<noteq> gd_Name x" by (rule other_name)
      with s(2) Cons.prems(4) y show "objs w1 (gd_Name y) = Some y" by simp
    qed
    have "steps_between objs validated w1 w'"
      by (rule Cons.IH[OF _ rest _ stored]) (rule Cons.prems(1), use Cons.prems(3) in auto)
    with s(1) show ?thesis by (rule steps_trans)
  qed (use x s Cons.prems(2) in simp)
qed simp

lemma patch_state_steps:
  assumes laws: "device_laws C objs" and cur: "objs w (gd_Name d) = Some d" and name: "gd_Name new = gd_Name d"
    and step: "device_step validated d new" and run: "pl_PatchStatus C d new w = (r, w')"
  shows "steps_between objs validated w w' \<and> (\<forall>n. n \<noteq> gd_Name d \<longrightarrow> objs w' n = objs w n)"
proof (cases r)
  case None
  with device_lawsD(6)[OF laws _ cur name] run have w': "objs w' = (objs w)(gd_Name d \<mapsto> new)" by simp
  with cur step show ?thesis by (auto simp: steps_between_def option.rel_refl)
next
  case (Some err)
  with device_lawsD(7)[OF laws _ cur name] run have "objs w' = objs w" by blast
  then show ?thesis by (simp add: steps_same)
qed

lemma validate_device_steps:
  assumes "device_laws C objs" "objs w (gd_Name d) = Some d" "validate_device C ready d w = (r, w')" "set ready \<subseteq> validated"
  shows "steps_between objs validated w w' \<and> (\<forall>n. n \<noteq> gd_Name d \<longrightarrow> objs w' n = objs w n)"
proof (cases "DeviceNodeName d = [] \<or> validated_state (List.member ready (DeviceNodeName d)) (gd_State d) = gd_State d")
  case True
  with assms(3) have "w' = w" by (cases "DeviceNodeName d = []") (auto simp: validate_device_def Let_def)
  then show ?thesis by simp
next
  case False
  let ?t = "validated_state (List.member ready (DeviceNodeName d)) (gd_State d)"
  have "device_step validated d (d\<lparr> gd_State := ?t \<rparr>)"
    using False assms(4) by (auto simp: validated_state_def intro: device_step.intros split: if_splits)
  moreover have "pl_PatchStatus C d (d\<lparr> gd_State := ?t \<rparr>) w = (r, w')"
    using assms(3) False by (simp add: validate_device_def Let_def)
  ultimately show ?thesis by (intro patch_state_steps[OF assms(1,2)]) simp_all
qed

lemma validation_steps:
  assumes "device_laws C objs" "DPValidation_HandlePool ns (Some C) pool w = (err, w')"
    and "\<And>pods. pl_ListPods C ns (dp_validator_labels (gp_Name pool)) w = Inr pods \<Longrightarrow> set (ready_nodes pods) \<subseteq> validated"
  shows "steps_between objs validated w w'"
proof -
  let ?pods = "case pl_ListPods C ns (dp_validator_labels (gp_Name pool)) w of Inl ErrNotFound \<Rightarrow> Inr [] | r \<Rightarrow> r"
  show ?thesis
  proof (cases ?pods)
    case (Inl e)
    with assms(2) have "w' = w" by (simp add: DPValidation_HandlePool_def)
    then show ?thesis by simp
  next
    case (Inr pods)
    have ready: "set (ready_nodes pods) \<subseteq> validated"
      using Inr assms(3) by (auto simp: ready_nodes_def split: sum.splits client_error.splits)
    show ?thesis
    proof (cases "pl_ListDevices C (assignment_field pool) (gp_Name pool) w")
      case (Inl e)
      with assms(2) Inr have "w' = w" by (simp add: DPValidation_HandlePool_def)
      then show ?thesis by simp
    next
      case list: (Inr devices)
      with assms(2) Inr have run: "each (validate_device C (ready_nodes pods)) devices w = (err, w')"
        by (simp add: DPValidation_HandlePool_def)
      show ?thesis
        using device_lawsD(2)[OF assms(1) list] device_lawsD(3)[OF assms(1) list]
        by (intro each_listed_steps[OF _ run] validate_device_steps[OF assms(1) _ _ ready]) auto
    qed
  qed
qed

text \<open>Without errors the readiness handler patches the devices one after the other; after an error it goes on with the next one.\<close>

lemma desired_state_step:
  assumes "desiredDeviceState (gd_State d) dt infra = (target, mutate)" "mutate" "gd_State d \<noteq> target"
  shows "device_step validated d (d\<lparr> gd_State := target \<rparr>)"
  using assms by (intro device_step.follow)
    (auto simp: desiredDeviceState_def normalizeDeviceState_def Let_def split: GPUDeviceState.splits if_splits)

lemma sync_states_steps:
  assumes laws: "device_laws C objs" and "sync_states C dt infra devices w = (errs, w')" "distinct (map gd_Name devices)"
    "\<forall>x \<in> set devices. objs w (gd_Name x) = Some x"
  shows "steps_between objs validated w w'"
  using assms(2-4)
proof (induction devices arbitrary: w errs)
  case (Cons d devices)
  obtain target mutate where t: "desiredDeviceState (gd_State d) dt infra = (target, mutate)" by fastforce
  show ?case
  proof (cases "\<not> mutate \<or> gd_State d = target")
    case True
    with t Cons.prems have "sync_states C dt infra devices w = (errs, w')" by auto
    with Cons.IH Cons.prems show ?thesis by simp
  next
    case False
    obtain r w1 where p: "pl_PatchStatus C d (d\<lparr> gd_State := target \<rparr>) w = (r, w1)" by fastforce
    obtain errs1 where rest: "sync_states C dt infra devices w1 = (errs1, w')"
      using Cons.prems(1) t False p by (cases r) (auto split: prod.splits)
    have cur: "objs w (gd_Name d) = Some d" using Cons.prems(3) by simp
    have s: "steps_between objs validated w w1 \<and> (\<forall>n. n \<noteq> gd_Name d \<longrightarrow> objs w1 n = objs w n)"
      by (rule patch_state_steps[OF laws cur _ desired_state_step[OF t] p]) (use False in auto)
    have "\<forall>x \<in> set devices. objs w1 (gd_Name x) = Some x"
    proof
      fix x assume x: "x \<in> set devices"
      with Cons.prems(2) have "gd_Name x \<noteq> gd_Name d" by (rule other_name)
      with s Cons.prems(3) x show "objs w1 (gd_Name x) = Some x" by simp
    qed
    with Cons.IH[OF rest] Cons.prems(2) have "steps_between objs validated w1 w'" by simp
    with s show ?thesis by (blast intro: steps_trans)
  qed
qed simp

lemma readiness_steps:
  assumes "device_laws C objs" "DeviceStateSync_HandleNode (Some C) inventory w = (errs, w')"
  shows "steps_between objs validated w w'"
proof -
  define node where "node = (if gn_NodeName inventory = [] then gn_Name inventory else gn_NodeName inventory)"
  note run = assms(2)[unfolded DeviceStateSync_HandleNode_def option.case Let_def, folded node_def]
  show ?thesis
  proof (cases "node = []")
    case True
    with run show ?thesis by simp
  next
    case False
    show ?thesis
    proof (cases "pl_ListDevices C GPUDeviceNodeField node w")
      case (Inl e)
      with run False show ?thesis by simp
    next
      case list: (Inr devices)
      with run False have "\<exists>dt infra. sync_states C dt infra devices w = (errs, w')" by auto
      then show ?thesis
        using sync_states_steps[OF assms(1)] device_lawsD(2)[OF assms(1) list] device_lawsD(3)[OF assms(1) list] by blast
    qed
  qed
qed

section \<open>All controllers together\<close>

text \<open>
  \<open>cluster_run\<close>: the worlds reached by complete runs of the handlers, one after another, in any order, for any pools and nodes and with any
  outcome, and by changes from outside between two runs: devices are created and deleted, their labels, annotations and hardware change,
  and they are put into any state other than pending and assigned. Two runs do not overlap: the patch of the validation handler carries no
  resource version, so that a device cleared between its list and its patch is not covered.
\<close>

definition free_device :: "GPUDevice \<Rightarrow> bool" where
  "free_device d \<longleftrightarrow> gd_State d \<notin> {GPUDeviceStatePendingAssignment, GPUDeviceStateAssigned}"

definition outside_change :: "('w \<Rightarrow> string \<Rightarrow> GPUDevice option) \<Rightarrow> 'w \<Rightarrow> 'w \<Rightarrow> bool" where
  "outside_change objs w w' \<longleftrightarrow>
     (\<forall>n d'. objs w' n = Some d' \<longrightarrow>
        free_device d' \<or> (\<exists>d. objs w n = Some d \<and> gd_State d' = gd_State d \<and> gd_PoolRef d' = gd_PoolRef d))"

inductive cluster_run ::
    "('s \<Rightarrow> string + ((string, string) gomap \<Rightarrow> bool)) \<Rightarrow> (GPUDevice list \<Rightarrow> GPUDevice list) \<Rightarrow> 'w retrier \<Rightarrow> 'w pool_client
     \<Rightarrow> ('w \<Rightarrow> string \<Rightarrow> GPUDevice option) \<Rightarrow> 'w \<Rightarrow> bool" for L sorter retry C objs where
  start: "(\<And>n d. objs w n = Some d \<Longrightarrow> free_device d) \<Longrightarrow> cluster_run L sorter retry C objs w"
| selection: "cluster_run L sorter retry C objs w \<Longrightarrow> SelectionSync_HandlePool L sorter retry C pool w = (err, pool', w')
     \<Longrightarrow> cluster_run L sorter retry C objs w'"
| validation: "cluster_run L sorter retry C objs w \<Longrightarrow> DPValidation_HandlePool ns (Some C) (pool :: 's GPUPool) w = (err, w')
     \<Longrightarrow> cluster_run L sorter retry C objs w'"
| readiness: "cluster_run L sorter retry C objs w \<Longrightarrow> DeviceStateSync_HandleNode (Some C) inventory w = (errs, w')
     \<Longrightarrow> cluster_run L sorter retry C objs w'"
| outside: "cluster_run L sorter retry C objs w \<Longrightarrow> outside_change objs w w' \<Longrightarrow> cluster_run L sorter retry C objs w'"

definition lifecycle_ok :: "GPUDevice \<Rightarrow> bool" where
  "lifecycle_ok d \<longleftrightarrow>
     (gd_State d = GPUDeviceStatePendingAssignment \<or> gd_State d = GPUDeviceStateAssigned \<longrightarrow> gd_PoolRef d \<noteq> None)"

text \<open>No handler puts a device into one of the states reserved, in use and faulted.\<close>

lemma device_step_enters:
  "device_step validated d d' \<Longrightarrow> gd_State d' \<in> {GPUDeviceStateReserved, GPUDeviceStateInUse, GPUDeviceStateFaulted} \<Longrightarrow>
   gd_State d' = gd_State d"
  by (induction rule: device_step.induct) (auto simp: assigned_device_def cleared_device_def split: if_splits)

lemma device_step_ok: "device_step validated d d' \<Longrightarrow> lifecycle_ok d \<Longrightarrow> lifecycle_ok d'"
  by (induction rule: device_step.induct)
     (auto simp: lifecycle_ok_def assigned_device_def cleared_device_def)

lemma device_steps_ok: "(device_step validated)\<^sup>*\<^sup>* d d' \<Longrightarrow> lifecycle_ok d \<Longrightarrow> lifecycle_ok d'"
  by (induction rule: rtranclp_induct) (auto intro: device_step_ok)

lemma steps_between_ok:
  assumes "steps_between objs validated w w'" "\<And>n d. objs w n = Some d \<Longrightarrow> lifecycle_ok d" "objs w' n = Some d'"
  shows "lifecycle_ok d'"
proof -
  have "rel_option (device_step validated)\<^sup>*\<^sup>* (objs w n) (Some d')" using assms(1,3) unfolding steps_between_def by metis
  then obtain d where "objs w n = Some d" "(device_step validated)\<^sup>*\<^sup>* d d'" by (auto simp: option_rel_Some2)
  with assms(2) device_steps_ok show ?thesis by blast
qed

lemma cluster_run_ok:
  assumes "device_laws C objs" "retry_laws retry" "cluster_run L sorter retry C objs w"
  shows "objs w n = Some d \<Longrightarrow> lifecycle_ok d"
  using assms(3)
proof (induction arbitrary: n d)
  case (start w)
  from start(1)[OF start(2)] show ?case by (auto simp: free_device_def lifecycle_ok_def)
next
  case (selection w pool err pool' w')
  show ?case
    by (rule steps_between_ok[OF selection_steps[OF assms(1,2) selection.hyps(2)] _ selection.prems]) (rule selection.IH)
next
  case (validation w ns pool err w')
  have steps: "steps_between objs UNIV w w'" by (rule validation_steps[OF assms(1) validation.hyps(2)]) simp
  show ?case by (rule steps_between_ok[OF steps _ validation.prems]) (rule validation.IH)
next
  case (readiness w inventory errs w')
  show ?case
    by (rule steps_between_ok[OF readiness_steps[OF assms(1) readiness.hyps(2)] _ readiness.prems]) (rule readiness.IH)
next
  case (outside w w')
  then have "free_device d \<or> (\<exists>d0. objs w n = Some d0 \<and> gd_State d = gd_State d0 \<and> gd_PoolRef d = gd_PoolRef d0)"
    unfolding outside_change_def by blast
  then show ?case
  proof
    assume "free_device d" then show ?thesis by (auto simp: free_device_def lifecycle_ok_def)
  next
    assume "\<exists>d0. objs w n = Some d0 \<and> gd_State d = gd_State d0 \<and> gd_PoolRef d = gd_PoolRef d0"
    then obtain d0 where "objs w n = Some d0" "gd_State d = gd_State d0" "gd_PoolRef d = gd_PoolRef d0" by blast
    with outside.IH[of n d0] show ?thesis by (simp add: lifecycle_ok_def)
  qed
qed

lemma becomes_assigned:
  assumes "(device_step validated)\<^sup>*\<^sup>* d d'" "gd_State d' = GPUDeviceStateAssigned" "gd_State d \<noteq> GPUDeviceStateAssigned"
  shows "DeviceNodeName d \<in> validated"
proof -
  have node: "device_step validated a b \<Longrightarrow> DeviceNodeName b = DeviceNodeName a" for a b
    by (induction rule: device_step.induct) (simp_all add: assigned_device_def cleared_device_def DeviceNodeName_def)
  have one: "device_step validated a b \<Longrightarrow> gd_State b = GPUDeviceStateAssigned \<Longrightarrow> gd_State a = GPUDeviceStateAssigned \<or> DeviceNodeName a \<in> validated" for a b
    by (induction rule: device_step.induct) (auto simp: assigned_device_def cleared_device_def split: if_splits)
  have "DeviceNodeName d' = DeviceNodeName d \<and> (gd_State d' = GPUDeviceStateAssigned \<longrightarrow> gd_State d = GPUDeviceStateAssigned \<or> DeviceNodeName d \<in> validated)"
    using assms(1) by (induction rule: rtranclp_induct) (auto dest: node one)
  with assms show ?thesis by blast
qed



end
