(* ===== verification/PodAdmission.thy ===== *)
theory PodAdmission
  imports PoolDevices
begin

text \<open>
  Pods that ask for GPUs of a pool: the webhooks for pods (\<open>pool/gpupool/internal/webhook/pod_*.go\<close>), which pin a pod to the nodes of its
  pool, and the accounting of used capacity (\<open>pool/usage\<close>). Quantities are integers, as \<open>Quantity.Value\<close> returns them. A map of resources is an
  association list; the module settings and the API client are parameters. Of an affinity the model keeps the match
  expressions of the required node terms; the code reads and changes no other part of it (\<open>matchFields\<close>, preferred terms).
\<close>

section \<open>Pods\<close>

record Toleration =
  tl_Key :: string
  tl_Operator :: string
  tl_Value :: string
  tl_Effect :: string

record NodeRequirement =
  nr_Key :: string
  nr_Operator :: string
  nr_Values :: "string list"

record SpreadConstraint =
  ts_MaxSkew :: int
  ts_TopologyKey :: string
  ts_WhenUnsatisfiable :: string
  ts_MatchLabels :: "(string, string) gomap option"

record Container =
  co_Limits :: "(string, int64) gomap"
  co_Requests :: "(string, int64) gomap"

text \<open>\<open>wp_Affinity\<close> is the list of required node selector terms, each with its match expressions; \<open>None\<close> if there is no requirement.\<close>

record WorkloadPod =
  wp_Name :: string
  wp_Namespace :: string
  wp_Labels :: "(string, string) gomap"
  wp_NodeName :: string
  wp_Phase :: string
  wp_NodeSelector :: "(string, string) gomap"
  wp_Tolerations :: "Toleration list"
  wp_Affinity :: "NodeRequirement list list option"
  wp_Spread :: "SpreadConstraint list"
  wp_Containers :: "Container list"
  wp_InitContainers :: "Container list"

datatype pod_error =
    MultiplePools "string list" | NamespaceEmpty | NamespaceError client_error | NamespaceMissing string | NamespaceDisabled string
  | PoolClientMissing string | PoolFetchError client_error | NoSuchClusterPool string | PoolNamespaceEmpty string
  | NoSuchPool string string | UnknownPrefix string
  | LabelConflict string string | NodeSelectorConflict string string
  | TolerationEffect string string | TolerationConflict string string | TolerationOperator string string
  | AffinityConflict string | SpreadConflict string string | NodesError client_error
  | NotConfigured string | CapacityExceeded int int

record poolRequest =
  pq_name :: string
  pq_keyPrefix :: string

definition localPoolResourcePrefix :: string where "localPoolResourcePrefix = ''gpu.deckhouse.io/''"
definition clusterPoolResourcePrefix :: string where "clusterPoolResourcePrefix = ''cluster.gpu.deckhouse.io/''"
definition gpuEnabledLabelKey :: string where "gpuEnabledLabelKey = ''gpu.deckhouse.io/enabled''"

section \<open>The pool of a pod\<close>

definition pool_of_resource :: "string \<Rightarrow> poolRequest option" where
  "pool_of_resource name =
     (if HasPrefix name localPoolResourcePrefix then
        let pool = drop (length localPoolResourcePrefix) name in
        if pool \<noteq> [] then Some \<lparr> pq_name = pool, pq_keyPrefix = localPoolResourcePrefix \<rparr> else None
      else if HasPrefix name clusterPoolResourcePrefix then
        let pool = drop (length clusterPoolResourcePrefix) name in
        if pool \<noteq> [] then Some \<lparr> pq_name = pool, pq_keyPrefix = clusterPoolResourcePrefix \<rparr> else None
      else None)"

definition pool_key :: "poolRequest \<Rightarrow> string" where
  "pool_key pool = pq_keyPrefix pool @ pq_name pool"

definition add_pool :: "string \<Rightarrow> (string, poolRequest) gomap \<Rightarrow> (string, poolRequest) gomap" where
  "add_pool name pools = (case pool_of_resource name of None \<Rightarrow> pools | Some p \<Rightarrow> mput (pool_key p) p pools)"

definition pod_resources :: "WorkloadPod \<Rightarrow> string list" where
  "pod_resources pod = concat (map (\<lambda>c. mkeys (co_Limits c) @ mkeys (co_Requests c)) (wp_Containers pod @ wp_InitContainers pod))"

definition collectPools :: "WorkloadPod \<Rightarrow> (string, poolRequest) gomap" where
  "collectPools pod = fold add_pool (pod_resources pod) []"

definition selectSinglePool :: "WorkloadPod \<Rightarrow> pod_error + poolRequest option" where
  "selectSinglePool pod =
     (case collectPools pod of
        [] \<Rightarrow> Inr None
      | [(_, p)] \<Rightarrow> Inr (Some p)
      | pools \<Rightarrow> Inl (MultiplePools (sort (map (\<lambda>(_, p). pool_key p) pools))))"

definition resource_value :: "string \<Rightarrow> Container \<Rightarrow> int64" where
  "resource_value name c =
     (case mget (co_Limits c) name of Some q \<Rightarrow> q
      | None \<Rightarrow> (case mget (co_Requests c) name of Some q \<Rightarrow> q | None \<Rightarrow> 0))"

definition requested_units :: "WorkloadPod \<Rightarrow> string \<Rightarrow> int64" where
  "requested_units pod name =
     (let sumContainers = foldl (\<lambda>n c. add64 n (resource_value name c)) 0 (wp_Containers pod);
          maxInit = foldl (\<lambda>m c. if resource_value name c > m then resource_value name c else m) 0 (wp_InitContainers pod)
      in if sumContainers > maxInit then sumContainers else maxInit)"

definition requestedResources :: "WorkloadPod \<Rightarrow> poolRequest \<Rightarrow> int64" where
  "requestedResources pod pool = requested_units pod (pool_key pool)"

section \<open>Changes of a pod\<close>

definition ensurePoolNodeSelector :: "string \<Rightarrow> string \<Rightarrow> WorkloadPod \<Rightarrow> pod_error + WorkloadPod" where
  "ensurePoolNodeSelector poolKey pool pod =
     (case mget (wp_NodeSelector pod) poolKey of
        Some existing \<Rightarrow>
          if existing \<noteq> pool then Inl (NodeSelectorConflict poolKey existing)
          else Inr (pod\<lparr> wp_NodeSelector := mput poolKey pool (wp_NodeSelector pod) \<rparr>)
      | None \<Rightarrow> Inr (pod\<lparr> wp_NodeSelector := mput poolKey pool (wp_NodeSelector pod) \<rparr>))"

definition ensure_label :: "string \<Rightarrow> string \<Rightarrow> WorkloadPod \<Rightarrow> pod_error + WorkloadPod" where
  "ensure_label key val pod =
     (case mget (wp_Labels pod) key of
        Some existing \<Rightarrow>
          if existing \<noteq> val then Inl (LabelConflict key existing) else Inr (pod\<lparr> wp_Labels := mput key val (wp_Labels pod) \<rparr>)
      | None \<Rightarrow> Inr (pod\<lparr> wp_Labels := mput key val (wp_Labels pod) \<rparr>))"

definition pool_scope :: "poolRequest \<Rightarrow> string" where
  "pool_scope pool = (if pq_keyPrefix pool = clusterPoolResourcePrefix then PoolScopeCluster else PoolScopeNamespaced)"

definition ensurePoolUsageLabels :: "poolRequest \<Rightarrow> WorkloadPod \<Rightarrow> pod_error + WorkloadPod" where
  "ensurePoolUsageLabels pool pod =
     (case ensure_label PoolNameKey (pq_name pool) pod of
        Inl e \<Rightarrow> Inl e
      | Inr pod1 \<Rightarrow> ensure_label PoolScopeKey (pool_scope pool) pod1)"

text \<open>The first toleration for the key decides: it is accepted, completed, or in conflict.\<close>

definition complete_toleration :: "string \<Rightarrow> Toleration \<Rightarrow> pod_error + Toleration" where
  "complete_toleration pool tol =
     (if tl_Operator tol = ''Exists'' then Inr tol
      else
        let tol1 = (if tl_Operator tol = [] then tol\<lparr> tl_Operator := ''Equal'' \<rparr> else tol);
            tol2 = (if tl_Effect tol1 = [] then tol1\<lparr> tl_Effect := ''NoSchedule'' \<rparr> else tol1)
        in if tl_Operator tol2 = ''Equal'' then
             if tl_Value tol2 = [] then Inr (tol2\<lparr> tl_Value := pool \<rparr>)
             else if tl_Value tol2 = pool \<and> tl_Effect tol2 = ''NoSchedule'' then Inr tol2
             else if tl_Effect tol2 \<noteq> ''NoSchedule'' then Inl (TolerationEffect (tl_Key tol) (tl_Effect tol2))
             else Inl (TolerationConflict (tl_Key tol) (tl_Value tol2))
           else Inl (TolerationOperator (tl_Key tol) (tl_Operator tol2)))"

fun ensure_toleration :: "string \<Rightarrow> string \<Rightarrow> Toleration list \<Rightarrow> pod_error + Toleration list" where
  "ensure_toleration poolKey pool [] =
     Inr [\<lparr> tl_Key = poolKey, tl_Operator = ''Equal'', tl_Value = pool, tl_Effect = ''NoSchedule'' \<rparr>]"
| "ensure_toleration poolKey pool (tol # tols) =
     (if tl_Key tol \<noteq> poolKey then map_sum id (\<lambda>rest. tol # rest) (ensure_toleration poolKey pool tols)
      else map_sum id (\<lambda>t. t # tols) (complete_toleration pool tol))"

definition ensurePoolToleration :: "string \<Rightarrow> string \<Rightarrow> WorkloadPod \<Rightarrow> pod_error + WorkloadPod" where
  "ensurePoolToleration poolKey pool pod =
     map_sum id (\<lambda>tols. pod\<lparr> wp_Tolerations := tols \<rparr>) (ensure_toleration poolKey pool (wp_Tolerations pod))"

definition pool_requirement :: "string \<Rightarrow> string \<Rightarrow> NodeRequirement" where
  "pool_requirement poolKey pool = \<lparr> nr_Key = poolKey, nr_Operator = ''In'', nr_Values = [pool] \<rparr>"

definition ensure_term :: "string \<Rightarrow> string \<Rightarrow> NodeRequirement list \<Rightarrow> pod_error + NodeRequirement list" where
  "ensure_term poolKey pool exprs =
     (case find (\<lambda>me. nr_Key me = poolKey) exprs of
        None \<Rightarrow> Inr (exprs @ [pool_requirement poolKey pool])
      | Some me \<Rightarrow>
          if nr_Operator me = ''In'' \<and> List.member (nr_Values me) pool then Inr exprs
          else Inl (AffinityConflict poolKey))"

definition ensurePoolAffinity :: "string \<Rightarrow> string \<Rightarrow> WorkloadPod \<Rightarrow> pod_error + WorkloadPod" where
  "ensurePoolAffinity poolKey pool pod =
     (case wp_Affinity pod of
        None \<Rightarrow> Inr (pod\<lparr> wp_Affinity := Some [[pool_requirement poolKey pool]] \<rparr>)
      | Some terms \<Rightarrow> map_sum id (\<lambda>ts. pod\<lparr> wp_Affinity := Some ts \<rparr>) (map_res (ensure_term poolKey pool) terms))"

definition hasToleration :: "Toleration list \<Rightarrow> string \<Rightarrow> bool" where
  "hasToleration tols key = list_ex (\<lambda>t. tl_Key t = key) tols"

definition add_custom :: "string \<Rightarrow> Toleration list \<Rightarrow> Toleration list" where
  "add_custom key tols =
     (if hasToleration tols key then tols
      else tols @ [\<lparr> tl_Key = key, tl_Operator = ''Exists'', tl_Value = [], tl_Effect = [] \<rparr>])"

definition ensureCustomTolerations :: "string list option \<Rightarrow> WorkloadPod \<Rightarrow> WorkloadPod" where
  "ensureCustomTolerations store pod =
     (case store of None \<Rightarrow> pod | Some keys \<Rightarrow> pod\<lparr> wp_Tolerations := fold add_custom keys (wp_Tolerations pod) \<rparr>)"

fun find_spread :: "string \<Rightarrow> string \<Rightarrow> SpreadConstraint list \<Rightarrow> string option" where
  "find_spread topologyKey poolKey [] = None"
| "find_spread topologyKey poolKey (t # ts) =
     (if ts_TopologyKey t \<noteq> topologyKey then find_spread topologyKey poolKey ts
      else case ts_MatchLabels t of None \<Rightarrow> find_spread topologyKey poolKey ts
           | Some labels \<Rightarrow> (case mget labels poolKey of Some v \<Rightarrow> Some v | None \<Rightarrow> find_spread topologyKey poolKey ts))"

definition ensureSpreadConstraint :: "string \<Rightarrow> string \<Rightarrow> string \<Rightarrow> WorkloadPod \<Rightarrow> pod_error + WorkloadPod" where
  "ensureSpreadConstraint poolKey pool topologyKey pod =
     (if topologyKey = [] then Inr pod
      else
        case find_spread topologyKey poolKey (wp_Spread pod) of
          Some v \<Rightarrow> if v = pool then Inr pod else Inl (SpreadConflict poolKey v)
        | None \<Rightarrow> Inr (pod\<lparr> wp_Spread := wp_Spread pod @
            [\<lparr> ts_MaxSkew = 1, ts_TopologyKey = topologyKey, ts_WhenUnsatisfiable = ''DoNotSchedule'',
               ts_MatchLabels = Some [(poolKey, pool)] \<rparr>] \<rparr>))"

section \<open>Taints of the nodes\<close>

definition toleration_covers :: "Taint \<Rightarrow> Toleration \<Rightarrow> bool" where
  "toleration_covers taint t \<longleftrightarrow>
     tl_Key t = tn_Key taint \<and> \<not> (tl_Effect t \<noteq> [] \<and> tn_Effect taint \<noteq> [] \<and> tl_Effect t \<noteq> tn_Effect taint) \<and>
     (tl_Operator t = ''Exists'' \<or> tl_Operator t = [] \<or> tl_Operator t = ''Equal'' \<and> (tl_Value t = [] \<or> tl_Value t = tn_Value taint))"

definition toleratesTaint :: "Toleration list \<Rightarrow> Taint \<Rightarrow> bool" where
  "toleratesTaint tolerations taint = list_ex (toleration_covers taint) tolerations"

definition toleration_for :: "Taint \<Rightarrow> Toleration" where
  "toleration_for taint =
     \<lparr> tl_Key = tn_Key taint, tl_Operator = (if tn_Value taint = [] then ''Exists'' else ''Equal''), tl_Value = tn_Value taint,
       tl_Effect = tn_Effect taint \<rparr>"

definition add_node_toleration :: "Taint \<Rightarrow> Toleration list \<Rightarrow> Toleration list" where
  "add_node_toleration taint tols = (if toleratesTaint tols taint then tols else tols @ [toleration_for taint])"

definition taint_key :: "Taint \<Rightarrow> string" where
  "taint_key t = tn_Key t @ ''|'' @ tn_Value t @ ''|'' @ tn_Effect t"

definition unique_taints :: "ClusterNode list \<Rightarrow> Taint list" where
  "unique_taints nodes = map snd (fold (\<lambda>t. mput (taint_key t) t) (concat (map no_Taints nodes)) [])"

record ('s, 'w) pod_client =
  pc_GetNamespace :: "string \<Rightarrow> 'w \<Rightarrow> client_error + (string, string) gomap"
  pc_GetClusterPool :: "string \<Rightarrow> 'w \<Rightarrow> client_error + 's ClusterGPUPool"
  pc_GetPool :: "string \<Rightarrow> string \<Rightarrow> 'w \<Rightarrow> client_error + 's GPUPool"
  pc_ListNodes :: "string \<Rightarrow> string \<Rightarrow> 'w \<Rightarrow> client_error + ClusterNode list"

definition collectPoolNodeTaints :: "('s, 'w) pod_client \<Rightarrow> 'w \<Rightarrow> 's GPUPool \<Rightarrow> pod_error + Taint list" where
  "collectPoolNodeTaints C w pool =
     (let prefix = (if gp_Namespace pool = [] then clusterPoolResourcePrefix else localPoolResourcePrefix) in
      case pc_ListNodes C (prefix @ gp_Name pool) (gp_Name pool) w of
        Inl err \<Rightarrow> Inl (NodesError err)
      | Inr nodes \<Rightarrow> Inr (unique_taints nodes))"

definition ensureNodeTolerations :: "('s, 'w) pod_client option \<Rightarrow> 'w \<Rightarrow> 's GPUPool option \<Rightarrow> WorkloadPod \<Rightarrow> pod_error + WorkloadPod" where
  "ensureNodeTolerations client w pool pod =
     (case (client, pool) of
        (Some C, Some p) \<Rightarrow>
          map_sum id (\<lambda>taints. pod\<lparr> wp_Tolerations := fold add_node_toleration taints (wp_Tolerations pod) \<rparr>) (collectPoolNodeTaints C w p)
      | _ \<Rightarrow> Inr pod)"

definition topologyLabelPresent :: "('s, 'w) pod_client \<Rightarrow> 'w \<Rightarrow> string \<Rightarrow> string \<Rightarrow> string \<Rightarrow> pod_error + bool" where
  "topologyLabelPresent C w poolKey poolName topologyKey =
     (if topologyKey = [] then Inr False
      else
        case pc_ListNodes C poolKey poolName w of
          Inl err \<Rightarrow> Inl (NodesError err)
        | Inr nodes \<Rightarrow> Inr (nodes = [] \<or> list_ex (\<lambda>n. mget (no_Labels n) topologyKey \<noteq> None) nodes))"

section \<open>The webhooks\<close>

definition effectiveNamespace :: "string option \<Rightarrow> string \<Rightarrow> string" where
  "effectiveNamespace req explicit =
     (if TrimSpace explicit \<noteq> [] then explicit else (case req of None \<Rightarrow> [] | Some ns \<Rightarrow> ns))"

definition requireGPUEnabledNamespace :: "('s, 'w) pod_client option \<Rightarrow> 'w \<Rightarrow> string \<Rightarrow> pod_error option" where
  "requireGPUEnabledNamespace client w namespace =
     (case client of None \<Rightarrow> None
      | Some C \<Rightarrow>
          if TrimSpace namespace = [] then Some NamespaceEmpty
          else
            case FetchObject (pc_GetNamespace C namespace w) of
              Inl err \<Rightarrow> Some (NamespaceError err)
            | Inr None \<Rightarrow> Some (NamespaceMissing namespace)
            | Inr (Some labels) \<Rightarrow>
                if sget labels gpuEnabledLabelKey \<noteq> ''true'' then Some (NamespaceDisabled namespace) else None)"

definition resolvePoolByRequest :: "('s, 'w) pod_client option \<Rightarrow> 'w \<Rightarrow> poolRequest \<Rightarrow> string \<Rightarrow> pod_error + 's GPUPool" where
  "resolvePoolByRequest client w req namespace =
     (case client of None \<Rightarrow> Inl (PoolClientMissing (pq_name req))
      | Some C \<Rightarrow>
          if pq_keyPrefix req = clusterPoolResourcePrefix then
            case FetchObject (pc_GetClusterPool C (pq_name req) w) of
              Inl err \<Rightarrow> Inl (PoolFetchError err)
            | Inr None \<Rightarrow> Inl (NoSuchClusterPool (pq_name req))
            | Inr (Some pool) \<Rightarrow> Inr pool
          else if pq_keyPrefix req = localPoolResourcePrefix then
            if TrimSpace namespace = [] then Inl (PoolNamespaceEmpty (pq_name req))
            else
              case FetchObject (pc_GetPool C namespace (pq_name req) w) of
                Inl err \<Rightarrow> Inl (PoolFetchError err)
              | Inr None \<Rightarrow> Inl (NoSuchPool (pq_name req) namespace)
              | Inr (Some pool) \<Rightarrow> Inr pool
          else Inl (UnknownPrefix (pq_keyPrefix req)))"

text \<open>The settings of the module that the webhook reads: default strategy and topology key, and keys of custom tolerations.\<close>

record module_settings =
  ms_DefaultStrategy :: string
  ms_TopologyKey :: string
  ms_CustomTolerationKeys :: "string list"

definition poolTaintsEnabled :: "'s GPUPool option \<Rightarrow> bool" where
  "poolTaintsEnabled pool =
     (case pool of None \<Rightarrow> True
      | Some p \<Rightarrow> (case sh_TaintsEnabled (ps_Scheduling (gp_Spec p)) of None \<Rightarrow> True | Some b \<Rightarrow> b))"

definition poolScheduling :: "module_settings option \<Rightarrow> 's GPUPool option \<Rightarrow> string \<times> string" where
  "poolScheduling store pool =
     (let (strategy, topologyKey) = (case pool of None \<Rightarrow> ([], [])
            | Some p \<Rightarrow> (sh_Strategy (ps_Scheduling (gp_Spec p)), sh_TopologyKey (ps_Scheduling (gp_Spec p))))
      in case store of
           Some s \<Rightarrow> if strategy = [] then (ms_DefaultStrategy s, ms_TopologyKey s) else (strategy, topologyKey)
         | None \<Rightarrow> (strategy, topologyKey))"

definition mutate_taints ::
    "('s, 'w) pod_client option \<Rightarrow> 'w \<Rightarrow> 's GPUPool option \<Rightarrow> poolRequest \<Rightarrow> WorkloadPod \<Rightarrow> pod_error + WorkloadPod" where
  "mutate_taints client w pool req pod =
     (if \<not> poolTaintsEnabled pool then Inr pod
      else
        case ensurePoolToleration (pool_key req) (pq_name req) pod of Inl e \<Rightarrow> Inl e
        | Inr pod1 \<Rightarrow>
            (case ensurePoolAffinity (pool_key req) (pq_name req) pod1 of Inl e \<Rightarrow> Inl e
             | Inr pod2 \<Rightarrow> ensureNodeTolerations client w pool pod2))"

definition mutate_spread ::
    "module_settings option \<Rightarrow> ('s, 'w) pod_client option \<Rightarrow> 'w \<Rightarrow> 's GPUPool option \<Rightarrow> poolRequest \<Rightarrow> WorkloadPod \<Rightarrow> pod_error + WorkloadPod" where
  "mutate_spread store client w pool req pod =
     (case poolScheduling store pool of (strategy, topologyKey) \<Rightarrow>
        if \<not> EqualFold strategy GPUPoolSchedulingSpread then Inr pod
        else
          case client of
            None \<Rightarrow> ensureSpreadConstraint (pool_key req) (pq_name req) topologyKey pod
          | Some C \<Rightarrow>
              (case topologyLabelPresent C w (pool_key req) (pq_name req) topologyKey of
                 Inl e \<Rightarrow> Inl e
               | Inr ok \<Rightarrow> if ok then ensureSpreadConstraint (pool_key req) (pq_name req) topologyKey pod else Inr pod))"

definition mutate_pod ::
    "module_settings option \<Rightarrow> ('s, 'w) pod_client option \<Rightarrow> 'w \<Rightarrow> 's GPUPool option \<Rightarrow> poolRequest \<Rightarrow> WorkloadPod \<Rightarrow> pod_error + WorkloadPod" where
  "mutate_pod store client w pool req pod =
     (case ensurePoolUsageLabels req pod of Inl e \<Rightarrow> Inl e
      | Inr pod1 \<Rightarrow>
     (case ensurePoolNodeSelector (pool_key req) (pq_name req) pod1 of Inl e \<Rightarrow> Inl e
      | Inr pod2 \<Rightarrow>
     (case mutate_taints client w pool req pod2 of Inl e \<Rightarrow> Inl e
      | Inr pod3 \<Rightarrow>
     (case mutate_spread store client w pool req pod3 of Inl e \<Rightarrow> Inl e
      | Inr pod4 \<Rightarrow> Inr (ensureCustomTolerations (map_option ms_CustomTolerationKeys store) pod4)))))"

definition PodDefaulter_Default ::
    "module_settings option \<Rightarrow> ('s, 'w) pod_client option \<Rightarrow> string option \<Rightarrow> 'w \<Rightarrow> WorkloadPod \<Rightarrow> pod_error + WorkloadPod" where
  "PodDefaulter_Default store client req w pod =
     (let namespace = effectiveNamespace req (wp_Namespace pod) in
      case selectSinglePool pod of
        Inl e \<Rightarrow> Inl e
      | Inr None \<Rightarrow> Inr pod
      | Inr (Some poolRef) \<Rightarrow>
          (case requireGPUEnabledNamespace client w namespace of
             Some e \<Rightarrow> Inl e
           | None \<Rightarrow>
               (case client of
                  None \<Rightarrow> mutate_pod store client w None poolRef pod
                | Some _ \<Rightarrow>
                    (case resolvePoolByRequest client w poolRef namespace of
                       Inl e \<Rightarrow> Inl e
                     | Inr pool \<Rightarrow> mutate_pod store client w (Some pool) poolRef pod))))"

definition PodValidator_validate :: "('s, 'w) pod_client option \<Rightarrow> string option \<Rightarrow> 'w \<Rightarrow> WorkloadPod \<Rightarrow> pod_error option" where
  "PodValidator_validate client req w pod =
     (let namespace = effectiveNamespace req (wp_Namespace pod) in
      case selectSinglePool pod of
        Inl e \<Rightarrow> Some e
      | Inr None \<Rightarrow> None
      | Inr (Some poolRef) \<Rightarrow>
          (case requireGPUEnabledNamespace client w namespace of
             Some e \<Rightarrow> Some e
           | None \<Rightarrow>
               let requested = requestedResources pod poolRef in
               if requested \<le> 0 then None
               else
                 case resolvePoolByRequest client w poolRef namespace of
                   Inl e \<Rightarrow> Some e
                 | Inr pool \<Rightarrow>
                     (case FindStatusCondition (st_Conditions (gp_Status pool)) ''Configured'' of
                        None \<Rightarrow> None
                      | Some cond \<Rightarrow>
                          if sc_Status cond = ConditionFalse then Some (NotConfigured (sc_Message cond))
                          else if sc_Status cond = ConditionTrue then
                            let total = cp_Total (st_Capacity (gp_Status pool)) in
                            if total > 0 \<and> requested > total then Some (CapacityExceeded requested total) else None
                          else None)))"

section \<open>Usage\<close>

definition PodCountsTowardsUsage :: "WorkloadPod \<Rightarrow> bool" where
  "PodCountsTowardsUsage pod \<longleftrightarrow>
     TrimSpace (wp_NodeName pod) \<noteq> [] \<and> wp_Phase pod \<noteq> ''Succeeded'' \<and> wp_Phase pod \<noteq> ''Failed''"

definition RequestedResources :: "WorkloadPod \<Rightarrow> string \<Rightarrow> int64" where
  "RequestedResources pod resource = requested_units pod resource"

definition ClampInt64ToInt32 :: "int64 \<Rightarrow> int32" where
  "ClampInt64ToInt32 v = (if v < 0 then 0 else if v > 2 ^ 31 - 1 then 2 ^ 31 - 1 else v)"

definition used_units :: "string \<Rightarrow> WorkloadPod list \<Rightarrow> int64" where
  "used_units resource pods =
     foldl (\<lambda>used pod. if PodCountsTowardsUsage pod then add64 used (RequestedResources pod resource) else used) 0 pods"

text \<open>
  The usage handlers; pods are listed by the labels that the webhook sets. A namespaced pool looks into its own namespace, a cluster pool
  into all (\<open>None\<close>).
\<close>

type_synonym 'w pod_lister = "string option \<Rightarrow> (string, string) gomap \<Rightarrow> 'w \<Rightarrow> client_error + WorkloadPod list"

definition gpuPoolUsage_Handle :: "'w pod_lister \<Rightarrow> 's GPUPool \<Rightarrow> 'w \<Rightarrow> client_error + int32" where
  "gpuPoolUsage_Handle list pool w =
     map_sum id (\<lambda>pods. ClampInt64ToInt32 (used_units (''gpu.deckhouse.io/'' @ gp_Name pool) pods))
       (list (Some (gp_Namespace pool)) [(PoolNameKey, gp_Name pool), (PoolScopeKey, PoolScopeNamespaced)] w)"

definition clusterGPUPoolUsage_Handle :: "'w pod_lister \<Rightarrow> 's ClusterGPUPool \<Rightarrow> 'w \<Rightarrow> client_error + int32" where
  "clusterGPUPoolUsage_Handle list pool w =
     map_sum id (\<lambda>pods. ClampInt64ToInt32 (used_units (''cluster.gpu.deckhouse.io/'' @ gp_Name pool) pods))
       (list None [(PoolNameKey, gp_Name pool), (PoolScopeKey, PoolScopeCluster)] w)"

definition with_usage :: "int32 \<Rightarrow> GPUPoolCapacityStatus \<Rightarrow> GPUPoolCapacityStatus" where
  "with_usage used c =
     (let available = wrap32 (cp_Total c - used) in c\<lparr> cp_Available := (if available < 0 then 0 else available), cp_Used := used \<rparr>)"

definition patch_status_attempt ::
    "('w \<Rightarrow> client_error + 's GPUPool) \<Rightarrow> ('s GPUPool \<Rightarrow> 's GPUPool \<Rightarrow> 'w attempt) \<Rightarrow> int32 \<Rightarrow> 'w attempt" where
  "patch_status_attempt get patch used w =
     (case get w of
        Inl err \<Rightarrow> IgnoreNotFound (Some err, w)
      | Inr current \<Rightarrow>
          let c = st_Capacity (gp_Status current); c' = with_usage used c in
          if cp_Used c = used \<and> cp_Available c = cp_Available c' then (None, w)
          else patch current (current\<lparr> gp_Status := (gp_Status current)\<lparr> st_Capacity := c' \<rparr> \<rparr>) w)"

definition MapPodToNamespacedPool :: "WorkloadPod \<Rightarrow> (string \<times> string) list" where
  "MapPodToNamespacedPool pod =
     (let poolName = TrimSpace (sget (wp_Labels pod) PoolNameKey) in
      if sget (wp_Labels pod) PoolScopeKey \<noteq> PoolScopeNamespaced \<or> poolName = [] then [] else [(wp_Namespace pod, poolName)])"

definition MapPodToClusterPool :: "WorkloadPod \<Rightarrow> (string \<times> string) list" where
  "MapPodToClusterPool pod =
     (let poolName = TrimSpace (sget (wp_Labels pod) PoolNameKey) in
      if sget (wp_Labels pod) PoolScopeKey \<noteq> PoolScopeCluster \<or> poolName = [] then [] else [([], poolName)])"

definition isGPUWorkloadPod :: "WorkloadPod \<Rightarrow> string \<Rightarrow> bool" where
  "isGPUWorkloadPod pod scope \<longleftrightarrow>
     TrimSpace (sget (wp_Labels pod) PoolNameKey) \<noteq> [] \<and> sget (wp_Labels pod) PoolScopeKey = scope"

end
