(* ===== verification/PodAdmissionSafety.thy ===== *)
theory PodAdmissionSafety
  imports PodAdmission
begin

text \<open>
  What the pod webhook guarantees: a pod that asks for a pool is pinned to the nodes of the pool and counted for it
  (\<open>PodDefaulter_pins\<close>), and calling the webhook again changes nothing (\<open>PodDefaulter_idempotent\<close>).
\<close>

section \<open>Single changes\<close>

lemma mput_same: "mget m k = Some v \<Longrightarrow> mput k v m = m"
  by (induction m) auto

lemma mget_mput_same: "mput k v (mput k v m) = mput k v m"
  by (rule mput_same) simp

text \<open>
  An affinity is pinned if each of its terms requires the label of the pool with a list of values that contains the pool. The list may hold
  further values, and a list without terms counts as pinned; Kubernetes accepts no node for the latter, and the node selector of the pod,
  which the webhook sets in any case, names the pool alone.
\<close>

definition pinned_term :: "string \<Rightarrow> string \<Rightarrow> NodeRequirement list \<Rightarrow> bool" where
  "pinned_term key name exprs \<longleftrightarrow> (\<exists>me \<in> set exprs. nr_Key me = key \<and> nr_Operator me = ''In'' \<and> name \<in> set (nr_Values me))"

definition pinned_affinity :: "string \<Rightarrow> string \<Rightarrow> NodeRequirement list list option \<Rightarrow> bool" where
  "pinned_affinity key name aff = (case aff of None \<Rightarrow> False | Some terms \<Rightarrow> list_all (pinned_term key name) terms)"

lemma find_append: "find P (xs @ ys) = (case find P xs of None \<Rightarrow> find P ys | Some x \<Rightarrow> Some x)"
  by (induction xs) auto

lemma ensure_term_ok:
  assumes "ensure_term key name exprs = Inr exprs'"
  shows "pinned_term key name exprs'" and "ensure_term key name exprs' = Inr exprs'"
proof -
  have "(find (\<lambda>me. nr_Key me = key) exprs = None \<and> exprs' = exprs @ [pool_requirement key name]) \<or>
      (\<exists>me. find (\<lambda>me. nr_Key me = key) exprs = Some me \<and> nr_Operator me = ''In'' \<and> name \<in> set (nr_Values me) \<and> exprs' = exprs)"
    using assms by (auto simp: ensure_term_def split: option.splits if_splits)
  then show "pinned_term key name exprs'" "ensure_term key name exprs' = Inr exprs'"
    by (force simp: pinned_term_def pool_requirement_def find_Some_iff)
      (use assms in \<open>auto simp: pool_requirement_def find_append ensure_term_def split: option.splits if_splits\<close>)
qed

lemma map_res_fixed:
  assumes "map_res f xs = Inr ys" "\<And>x y. f x = Inr y \<Longrightarrow> P y \<and> f y = Inr y"
  shows "list_all P ys \<and> map_res f ys = Inr ys"
  using assms(1) by (induction xs arbitrary: ys) (use assms(2) in \<open>auto split: sum.splits\<close>)

lemma ensurePoolAffinity_ok:
  assumes "ensurePoolAffinity key name pod = Inr pod'"
  shows "pinned_affinity key name (wp_Affinity pod')" and "ensurePoolAffinity key name pod' = Inr pod'"
    and "\<exists>a. pod' = pod\<lparr> wp_Affinity := a \<rparr>"
proof -
  have "pinned_affinity key name (wp_Affinity pod') \<and> ensurePoolAffinity key name pod' = Inr pod' \<and> (\<exists>a. pod' = pod\<lparr> wp_Affinity := a \<rparr>)"
  proof (cases "wp_Affinity pod")
    case None
    with assms have pod': "pod' = pod\<lparr> wp_Affinity := Some [[pool_requirement key name]] \<rparr>" by (simp add: ensurePoolAffinity_def)
    have "ensure_term key name [pool_requirement key name] = Inr [pool_requirement key name]" "pinned_term key name [pool_requirement key name]"
      by (simp_all add: ensure_term_def pool_requirement_def pinned_term_def)
    then show ?thesis by (auto simp: pod' ensurePoolAffinity_def pinned_affinity_def)
  next
    case (Some terms)
    with assms obtain ts where ts: "map_res (ensure_term key name) terms = Inr ts" "pod' = pod\<lparr> wp_Affinity := Some ts \<rparr>"
      by (auto simp: ensurePoolAffinity_def map_sum_def split: sum.splits)
    from map_res_fixed[OF ts(1), of "pinned_term key name"] ensure_term_ok
    have "list_all (pinned_term key name) ts" "map_res (ensure_term key name) ts = Inr ts" by blast+
    then show ?thesis by (auto simp: ts(2) ensurePoolAffinity_def pinned_affinity_def)
  qed
  then show "pinned_affinity key name (wp_Affinity pod')" "ensurePoolAffinity key name pod' = Inr pod'"
    "\<exists>a. pod' = pod\<lparr> wp_Affinity := a \<rparr>" by blast+
qed

section \<open>Tolerations\<close>

text \<open>
  \<open>plain_toleration\<close>: no toleration for the key of the pool leaves the value open and asks for an effect other than \<open>NoSchedule\<close>. For the
  others the webhook gives the same answer when it is called again.
\<close>

definition plain_toleration :: "string \<Rightarrow> Toleration \<Rightarrow> bool" where
  "plain_toleration key tol \<longleftrightarrow>
     \<not> (tl_Key tol = key \<and> tl_Operator tol \<noteq> ''Exists'' \<and> tl_Value tol = [] \<and> tl_Effect tol \<notin> {[], ''NoSchedule''})"

definition settled_toleration :: "string \<Rightarrow> string \<Rightarrow> Toleration list \<Rightarrow> bool" where
  "settled_toleration key name tols \<longleftrightarrow>
     (\<exists>t. find (\<lambda>t. tl_Key t = key) tols = Some t \<and>
        (tl_Operator t = ''Exists'' \<or> tl_Operator t = ''Equal'' \<and> tl_Value t = name \<and> tl_Effect t = ''NoSchedule''))"

lemma complete_toleration_ok:
  assumes "complete_toleration name tol = Inr tol'" "tl_Key tol = key \<Longrightarrow> plain_toleration key tol"
  shows "tl_Key tol' = tl_Key tol"
    and "tl_Key tol = key \<Longrightarrow> tl_Operator tol' = ''Exists'' \<or> tl_Operator tol' = ''Equal'' \<and> tl_Value tol' = name \<and> tl_Effect tol' = ''NoSchedule''"
  using assms by (auto simp: complete_toleration_def plain_toleration_def Let_def split: if_splits)

lemma ensure_toleration_settles:
  assumes "ensure_toleration key name tols = Inr tols'" "list_all (plain_toleration key) tols"
  shows "settled_toleration key name tols'"
  using assms
proof (induction tols arbitrary: tols')
  case Nil
  then show ?case by (auto simp: settled_toleration_def)
next
  case (Cons tol tols)
  show ?case
  proof (cases "tl_Key tol = key")
    case True
    with Cons.prems obtain t where t: "complete_toleration name tol = Inr t" "tols' = t # tols"
      by (auto simp: map_sum_def split: sum.splits)
    with complete_toleration_ok[OF t(1), of key] Cons.prems(2) True show ?thesis by (simp add: settled_toleration_def)
  next
    case False
    with Cons.prems obtain rest where "ensure_toleration key name tols = Inr rest" "tols' = tol # rest"
      by (auto simp: map_sum_def split: sum.splits)
    with Cons.IH[of rest] Cons.prems(2) False show ?thesis by (simp add: settled_toleration_def)
  qed
qed

lemma ensure_toleration_settled: "settled_toleration key name tols \<Longrightarrow> ensure_toleration key name tols = Inr tols"
proof (induction tols)
  case (Cons tol tols)
  then show ?case
    by (cases "tl_Key tol = key") (auto simp: settled_toleration_def complete_toleration_def Let_def)
qed (simp add: settled_toleration_def)

lemma settled_append: "settled_toleration key name tols \<Longrightarrow> settled_toleration key name (tols @ extra)"
  by (auto simp: settled_toleration_def find_append)

lemma add_node_tolerations_append: "\<exists>extra. fold add_node_toleration taints tols = tols @ extra"
proof (induction taints arbitrary: tols)
  case (Cons t taints)
  then show ?case by (simp add: add_node_toleration_def) (metis append.assoc)
qed simp

lemma add_custom_append: "\<exists>extra. fold add_custom keys tols = tols @ extra"
proof (induction keys arbitrary: tols)
  case (Cons t taints)
  then show ?case by (simp add: add_custom_def) (metis append.assoc)
qed simp

lemma tolerates_append: "toleratesTaint tols taint \<Longrightarrow> toleratesTaint (tols @ extra) taint"
  by (simp add: toleratesTaint_def)

lemma tolerates_added: "toleratesTaint (add_node_toleration taint tols) taint"
  by (simp add: add_node_toleration_def toleratesTaint_def toleration_covers_def toleration_for_def)

lemma node_tolerations_cover: "taint \<in> set taints \<Longrightarrow> toleratesTaint (fold add_node_toleration taints tols) taint"
proof (induction taints arbitrary: tols)
  case (Cons t taints)
  show ?case
  proof (cases "taint = t")
    case True
    obtain extra where "fold add_node_toleration taints (add_node_toleration t tols) = add_node_toleration t tols @ extra"
      using add_node_tolerations_append by blast
    with True show ?thesis by (simp add: tolerates_append tolerates_added)
  next
    case False
    with Cons show ?thesis by simp
  qed
qed simp

lemma node_tolerations_again: "\<forall>taint \<in> set taints. toleratesTaint tols taint \<Longrightarrow> fold add_node_toleration taints tols = tols"
  by (induction taints) (auto simp: add_node_toleration_def)

lemma custom_has: "key \<in> set keys \<Longrightarrow> hasToleration (fold add_custom keys tols) key"
proof (induction keys arbitrary: tols)
  case (Cons k keys)
  show ?case
  proof (cases "key = k")
    case True
    obtain extra where "fold add_custom keys (add_custom k tols) = add_custom k tols @ extra" using add_custom_append by blast
    moreover have "hasToleration (add_custom k tols) k" by (simp add: hasToleration_def add_custom_def)
    ultimately show ?thesis using True by (simp add: hasToleration_def)
  next
    case False
    with Cons show ?thesis by simp
  qed
qed simp

lemma custom_again: "\<forall>key \<in> set keys. hasToleration tols key \<Longrightarrow> fold add_custom keys tols = tols"
  by (induction keys) (auto simp: add_custom_def)

subsection \<open>Tolerations as Kubernetes reads them\<close>

text \<open>
  Kubernetes allows no \<open>|\<close> in keys and values of taints, so the key under which the webhook collects a taint identifies it, and no
  taint without effect.
\<close>

definition plain_taint :: "Taint \<Rightarrow> bool" where
  "plain_taint t \<longleftrightarrow> CHR ''|'' \<notin> set (tn_Key t) \<and> CHR ''|'' \<notin> set (tn_Value t) \<and> tn_Effect t \<noteq> []"

text \<open>
  \<open>kubernetes_tolerates\<close> is the rule of the scheduler: an empty effect or key matches all, an empty operator means \<open>Equal\<close>, and \<open>Equal\<close>
  compares the values. The webhook reads an empty operator as \<open>Exists\<close> and \<open>Equal\<close> with an empty value as a match of every value; for
  tolerations that are explicit in these two points both readings agree.
\<close>

definition kubernetes_tolerates :: "Toleration \<Rightarrow> Taint \<Rightarrow> bool" where
  "kubernetes_tolerates t taint \<longleftrightarrow>
     (tl_Effect t = [] \<or> tl_Effect t = tn_Effect taint) \<and> (tl_Key t = [] \<or> tl_Key t = tn_Key taint) \<and>
     (tl_Operator t = ''Exists'' \<or> tl_Operator t \<in> {[], ''Equal''} \<and> tl_Value t = tn_Value taint)"

definition explicit_toleration :: "Toleration \<Rightarrow> bool" where
  "explicit_toleration t \<longleftrightarrow> tl_Operator t \<noteq> [] \<and> (tl_Operator t = ''Equal'' \<longrightarrow> tl_Value t \<noteq> [])"

lemma covers_explicit:
  "toleratesTaint tols taint \<Longrightarrow> list_all explicit_toleration tols \<Longrightarrow> plain_taint taint \<Longrightarrow> list_ex (\<lambda>t. kubernetes_tolerates t taint) tols"
  by (auto simp: toleratesTaint_def toleration_covers_def kubernetes_tolerates_def explicit_toleration_def plain_taint_def list_all_iff list_ex_iff)

lemma ensure_toleration_explicit:
  "ensure_toleration key name tols = Inr tols' \<Longrightarrow> name \<noteq> [] \<Longrightarrow> list_all explicit_toleration tols \<Longrightarrow> list_all explicit_toleration tols'"
proof (induction tols arbitrary: tols')
  case Nil
  then show ?case by (auto simp: explicit_toleration_def)
next
  case (Cons tol tols)
  have completed: "complete_toleration name tol = Inr t \<Longrightarrow> explicit_toleration t" for t
    using Cons.prems(2,3) by (auto simp: complete_toleration_def explicit_toleration_def Let_def split: if_splits)
  show ?case
    using Cons.prems completed Cons.IH by (auto simp: map_sum_def split: sum.splits if_splits)
qed

lemma node_tolerations_explicit: "list_all explicit_toleration tols \<Longrightarrow> list_all explicit_toleration (fold add_node_toleration taints tols)"
  by (induction taints arbitrary: tols) (auto simp: add_node_toleration_def toleration_for_def explicit_toleration_def)

lemma custom_explicit: "list_all explicit_toleration tols \<Longrightarrow> list_all explicit_toleration (fold add_custom keys tols)"
  by (induction keys arbitrary: tols) (auto simp: add_custom_def explicit_toleration_def)

section \<open>Spread constraints\<close>

lemma find_spread_append:
  "find_spread tk key (xs @ ys) = (case find_spread tk key xs of None \<Rightarrow> find_spread tk key ys | Some v \<Rightarrow> Some v)"
  by (induction xs) (auto split: option.splits)

lemma ensureSpreadConstraint_ok:
  assumes "ensureSpreadConstraint key name tk pod = Inr pod'"
  shows "ensureSpreadConstraint key name tk pod' = Inr pod'" and "\<exists>s. pod' = pod\<lparr> wp_Spread := s \<rparr>"
    and "find_spread tk key (wp_Spread pod') = Some name \<or> tk = []"
proof -
  have "ensureSpreadConstraint key name tk pod' = Inr pod' \<and> (\<exists>s. pod' = pod\<lparr> wp_Spread := s \<rparr>)
      \<and> (find_spread tk key (wp_Spread pod') = Some name \<or> tk = [])"
    using assms
    by (cases pod) (auto simp: ensureSpreadConstraint_def find_spread_append split: if_splits option.splits)
  then show "ensureSpreadConstraint key name tk pod' = Inr pod'" "\<exists>s. pod' = pod\<lparr> wp_Spread := s \<rparr>"
    "find_spread tk key (wp_Spread pod') = Some name \<or> tk = []" by blast+
qed

section \<open>Labels and node selector\<close>

lemma ensure_label_ok:
  assumes "ensure_label key val pod = Inr pod'"
  shows "pod' = pod\<lparr> wp_Labels := mput key val (wp_Labels pod) \<rparr>" and "mget (wp_Labels pod') key = Some val"
  using assms by (auto simp: ensure_label_def split: option.splits if_splits)

lemma ensure_label_again: "mget (wp_Labels pod) key = Some val \<Longrightarrow> ensure_label key val pod = Inr pod"
  by (simp add: ensure_label_def mput_same)

lemma usage_keys_differ: "PoolNameKey \<noteq> PoolScopeKey"
  by (simp add: PoolNameKey_def PoolScopeKey_def)

lemma ensurePoolUsageLabels_ok:
  assumes "ensurePoolUsageLabels r pod = Inr pod'"
  shows "mget (wp_Labels pod') PoolNameKey = Some (pq_name r)" and "mget (wp_Labels pod') PoolScopeKey = Some (pool_scope r)"
    and "\<exists>l. pod' = pod\<lparr> wp_Labels := l \<rparr>"
proof -
  obtain p where p: "ensure_label PoolNameKey (pq_name r) pod = Inr p" "ensure_label PoolScopeKey (pool_scope r) p = Inr pod'"
    using assms by (auto simp: ensurePoolUsageLabels_def split: sum.splits)
  note ok = ensure_label_ok[OF p(1)] ensure_label_ok[OF p(2)]
  show "mget (wp_Labels pod') PoolScopeKey = Some (pool_scope r)" by (rule ok(4))
  show "mget (wp_Labels pod') PoolNameKey = Some (pq_name r)" using ok(1-3) usage_keys_differ by simp
  show "\<exists>l. pod' = pod\<lparr> wp_Labels := l \<rparr>" using ok(1,3) by auto
qed

lemma ensurePoolUsageLabels_again:
  "mget (wp_Labels pod) PoolNameKey = Some (pq_name r) \<Longrightarrow> mget (wp_Labels pod) PoolScopeKey = Some (pool_scope r) \<Longrightarrow>
   ensurePoolUsageLabels r pod = Inr pod"
  by (simp add: ensurePoolUsageLabels_def ensure_label_again)

lemma ensurePoolNodeSelector_ok:
  assumes "ensurePoolNodeSelector key name pod = Inr pod'"
  shows "pod' = pod\<lparr> wp_NodeSelector := mput key name (wp_NodeSelector pod) \<rparr>" and "mget (wp_NodeSelector pod') key = Some name"
  using assms by (auto simp: ensurePoolNodeSelector_def split: option.splits if_splits)

lemma ensurePoolNodeSelector_again: "mget (wp_NodeSelector pod) key = Some name \<Longrightarrow> ensurePoolNodeSelector key name pod = Inr pod"
  by (simp add: ensurePoolNodeSelector_def mput_same)

section \<open>Taints of the nodes of a pool\<close>

lemma separated_eq: "c \<notin> set xs \<Longrightarrow> c \<notin> set ys \<Longrightarrow> xs @ c # us = ys @ c # vs \<longleftrightarrow> xs = ys \<and> us = vs"
proof (induction xs arbitrary: ys)
  case Nil
  then show ?case by (cases ys) auto
next
  case (Cons x xs)
  then show ?case by (cases ys) auto
qed

lemma taint_key_inj: "plain_taint s \<Longrightarrow> plain_taint t \<Longrightarrow> taint_key s = taint_key t \<Longrightarrow> s = t"
  by (simp add: plain_taint_def taint_key_def separated_eq)

lemma collected_last: "inj_on f (set xs) \<Longrightarrow> x \<in> set xs \<Longrightarrow> mget (fold (\<lambda>t. mput (f t) t) xs m) (f x) = Some x"
proof (induction xs rule: rev_induct)
  case (snoc y xs)
  then show ?case
    by (cases "f x = f y") (auto simp: inj_on_def)
qed simp

lemma unique_taints_complete:
  assumes "\<forall>node \<in> set nodes. list_all plain_taint (no_Taints node)" "node \<in> set nodes" "taint \<in> set (no_Taints node)"
  shows "taint \<in> set (unique_taints nodes)"
proof -
  let ?ts = "concat (map no_Taints nodes)"
  have "inj_on taint_key (set ?ts)"
    using assms(1) by (auto simp: inj_on_def list_all_iff intro!: taint_key_inj)
  moreover have "taint \<in> set ?ts" using assms(2,3) by auto
  ultimately have "mget (fold (\<lambda>t. mput (taint_key t) t) ?ts []) (taint_key taint) = Some taint" by (rule collected_last)
  then have "(taint_key taint, taint) \<in> set (fold (\<lambda>t. mput (taint_key t) t) ?ts [])" by (rule map_of_SomeD)
  from imageI[OF this, of snd] show ?thesis by (simp only: unique_taints_def list.set_map snd_conv)
qed

section \<open>The changes together\<close>

lemma ensurePoolAffinity_again:
  "ensurePoolAffinity key name p = Inr p \<Longrightarrow> wp_Affinity q = wp_Affinity p \<Longrightarrow> ensurePoolAffinity key name q = Inr q"
  by (cases p; cases q) (auto simp: ensurePoolAffinity_def map_sum_def split: option.splits sum.splits)

lemma ensureSpreadConstraint_again:
  "ensureSpreadConstraint key name tk p = Inr p \<Longrightarrow> wp_Spread q = wp_Spread p \<Longrightarrow> ensureSpreadConstraint key name tk q = Inr q"
  by (cases p; cases q) (auto simp: ensureSpreadConstraint_def split: option.splits if_splits)

lemma ensureNodeTolerations_ok:
  assumes "ensureNodeTolerations client w pool pod = Inr pod'"
  shows "\<exists>extra. pod' = pod\<lparr> wp_Tolerations := wp_Tolerations pod @ extra \<rparr>"
    and "client = Some C \<Longrightarrow> pool = Some p \<Longrightarrow> \<exists>taints. collectPoolNodeTaints C w p = Inr taints \<and>
           (\<forall>taint \<in> set taints. toleratesTaint (wp_Tolerations pod') taint)"
proof -
  show "\<exists>extra. pod' = pod\<lparr> wp_Tolerations := wp_Tolerations pod @ extra \<rparr>"
  proof (cases "client = None \<or> pool = None")
    case True
    with assms have "pod' = pod" by (auto simp: ensureNodeTolerations_def split: option.splits)
    then have "pod' = pod\<lparr> wp_Tolerations := wp_Tolerations pod @ [] \<rparr>" by (cases pod) simp
    then show ?thesis by blast
  next
    case False
    with assms obtain taints where "pod' = pod\<lparr> wp_Tolerations := fold add_node_toleration taints (wp_Tolerations pod) \<rparr>"
      by (auto simp: ensureNodeTolerations_def map_sum_def split: option.splits sum.splits)
    then show ?thesis using add_node_tolerations_append[of taints "wp_Tolerations pod"] by auto
  qed
  show "\<exists>taints. collectPoolNodeTaints C w p = Inr taints \<and> (\<forall>taint \<in> set taints. toleratesTaint (wp_Tolerations pod') taint)"
    if "client = Some C" "pool = Some p"
    using assms that by (auto simp: ensureNodeTolerations_def map_sum_def node_tolerations_cover split: sum.splits)
qed

lemma ensureNodeTolerations_again:
  assumes "ensureNodeTolerations client w pool p = Inr p'" "wp_Tolerations q = wp_Tolerations p' @ extra"
  shows "ensureNodeTolerations client w pool q = Inr q"
proof (cases "client = None \<or> pool = None")
  case True
  then show ?thesis by (auto simp: ensureNodeTolerations_def split: option.splits)
next
  case False
  then obtain C g where C: "client = Some C" "pool = Some g" by auto
  obtain taints where t: "collectPoolNodeTaints C w g = Inr taints" "\<forall>taint \<in> set taints. toleratesTaint (wp_Tolerations p') taint"
    using ensureNodeTolerations_ok(2)[OF assms(1) C] by blast
  have "fold add_node_toleration taints (wp_Tolerations q) = wp_Tolerations q"
    by (rule node_tolerations_again) (use t(2) assms(2) in \<open>simp add: tolerates_append\<close>)
  then show ?thesis by (cases q) (simp add: ensureNodeTolerations_def C t(1))
qed

lemma ensurePoolToleration_again: "settled_toleration key name (wp_Tolerations q) \<Longrightarrow> ensurePoolToleration key name q = Inr q"
  by (cases q) (simp add: ensurePoolToleration_def ensure_toleration_settled)

lemma ensurePoolToleration_ok:
  assumes "ensurePoolToleration key name p = Inr p'"
  shows "\<exists>t. p' = p\<lparr> wp_Tolerations := t \<rparr>"
    and "list_all (plain_toleration key) (wp_Tolerations p) \<Longrightarrow> settled_toleration key name (wp_Tolerations p')"
  using assms by (auto simp: ensurePoolToleration_def map_sum_def intro: ensure_toleration_settles split: sum.splits)

text \<open>What a step of the webhook may change: the pods agree on everything but tolerations, affinity and spread constraints.\<close>

definition same_frame :: "WorkloadPod \<Rightarrow> WorkloadPod \<Rightarrow> bool" where
  "same_frame p q \<longleftrightarrow> wp_Name q = wp_Name p \<and> wp_Namespace q = wp_Namespace p \<and> wp_Labels q = wp_Labels p \<and> wp_NodeName q = wp_NodeName p
     \<and> wp_Phase q = wp_Phase p \<and> wp_NodeSelector q = wp_NodeSelector p \<and> wp_Containers q = wp_Containers p
     \<and> wp_InitContainers q = wp_InitContainers p"

lemma mutate_taints_ok:
  assumes "mutate_taints client w pool r pod = Inr pod'"
  shows "same_frame pod pod' \<and> wp_Spread pod' = wp_Spread pod"
    and "poolTaintsEnabled pool \<Longrightarrow> pinned_affinity (pool_key r) (pq_name r) (wp_Affinity pod')"
    and "poolTaintsEnabled pool \<Longrightarrow> client = Some C \<Longrightarrow> pool = Some g \<Longrightarrow> \<exists>taints. collectPoolNodeTaints C w g = Inr taints \<and>
           (\<forall>taint \<in> set taints. toleratesTaint (wp_Tolerations pod') taint)"
    and "list_all (plain_toleration (pool_key r)) (wp_Tolerations pod) \<Longrightarrow> wp_Affinity q = wp_Affinity pod' \<Longrightarrow>
           wp_Tolerations q = wp_Tolerations pod' @ extra \<Longrightarrow> mutate_taints client w pool r q = Inr q"
proof -
  have "same_frame pod pod' \<and> wp_Spread pod' = wp_Spread pod \<and>
    (poolTaintsEnabled pool \<longrightarrow> pinned_affinity (pool_key r) (pq_name r) (wp_Affinity pod')) \<and>
    (poolTaintsEnabled pool \<longrightarrow> (\<forall>C g. client = Some C \<longrightarrow> pool = Some g \<longrightarrow> (\<exists>taints. collectPoolNodeTaints C w g = Inr taints \<and>
       (\<forall>taint \<in> set taints. toleratesTaint (wp_Tolerations pod') taint)))) \<and>
    (list_all (plain_toleration (pool_key r)) (wp_Tolerations pod) \<longrightarrow> (\<forall>q extra. wp_Affinity q = wp_Affinity pod' \<longrightarrow>
       wp_Tolerations q = wp_Tolerations pod' @ extra \<longrightarrow> mutate_taints client w pool r q = Inr q))"
  proof (cases "poolTaintsEnabled pool")
    case False
    with assms show ?thesis by (simp add: mutate_taints_def same_frame_def)
  next
    case True
    with assms obtain p1 p2 where p: "ensurePoolToleration (pool_key r) (pq_name r) pod = Inr p1"
        "ensurePoolAffinity (pool_key r) (pq_name r) p1 = Inr p2" "ensureNodeTolerations client w pool p2 = Inr pod'"
      by (auto simp: mutate_taints_def split: sum.splits)
    obtain t where t: "p1 = pod\<lparr> wp_Tolerations := t \<rparr>" using ensurePoolToleration_ok(1)[OF p(1)] by blast
    obtain a where a: "p2 = p1\<lparr> wp_Affinity := a \<rparr>" using ensurePoolAffinity_ok(3)[OF p(2)] by blast
    obtain e where e: "pod' = p2\<lparr> wp_Tolerations := wp_Tolerations p2 @ e \<rparr>" using ensureNodeTolerations_ok(1)[OF p(3)] by blast
    have frame: "same_frame pod pod'" "wp_Spread pod' = wp_Spread pod" by (simp_all add: same_frame_def t a e)
    have pinned: "pinned_affinity (pool_key r) (pq_name r) (wp_Affinity pod')" using ensurePoolAffinity_ok(1)[OF p(2)] by (simp add: e)
    have again: "mutate_taints client w pool r q = Inr q"
      if "list_all (plain_toleration (pool_key r)) (wp_Tolerations pod)" "wp_Affinity q = wp_Affinity pod'"
        "wp_Tolerations q = wp_Tolerations pod' @ extra" for q extra
    proof -
      have "settled_toleration (pool_key r) (pq_name r) (wp_Tolerations q)"
        using ensurePoolToleration_ok(2)[OF p(1) that(1)] that(3) by (simp add: t a e settled_append)
      then have "ensurePoolToleration (pool_key r) (pq_name r) q = Inr q" by (rule ensurePoolToleration_again)
      moreover have "ensurePoolAffinity (pool_key r) (pq_name r) q = Inr q"
        by (rule ensurePoolAffinity_again[OF ensurePoolAffinity_ok(2)[OF p(2)]]) (simp add: that(2) e)
      moreover have "ensureNodeTolerations client w pool q = Inr q" by (rule ensureNodeTolerations_again[OF p(3) that(3)])
      ultimately show ?thesis by (simp add: mutate_taints_def)
    qed
    show ?thesis using frame pinned again ensureNodeTolerations_ok(2)[OF p(3)] by blast
  qed
  note all = this
  show "same_frame pod pod' \<and> wp_Spread pod' = wp_Spread pod" using all by blast
  show "poolTaintsEnabled pool \<Longrightarrow> pinned_affinity (pool_key r) (pq_name r) (wp_Affinity pod')" using all by blast
  show "poolTaintsEnabled pool \<Longrightarrow> client = Some C \<Longrightarrow> pool = Some g \<Longrightarrow> \<exists>taints. collectPoolNodeTaints C w g = Inr taints \<and>
           (\<forall>taint \<in> set taints. toleratesTaint (wp_Tolerations pod') taint)" using all by blast
  show "list_all (plain_toleration (pool_key r)) (wp_Tolerations pod) \<Longrightarrow> wp_Affinity q = wp_Affinity pod' \<Longrightarrow>
           wp_Tolerations q = wp_Tolerations pod' @ extra \<Longrightarrow> mutate_taints client w pool r q = Inr q" using all by blast
qed

lemma mutate_spread_ok:
  assumes "mutate_spread store client w pool r pod = Inr pod'"
  shows "same_frame pod pod' \<and> wp_Tolerations pod' = wp_Tolerations pod \<and> wp_Affinity pod' = wp_Affinity pod"
    and "wp_Spread q = wp_Spread pod' \<Longrightarrow> mutate_spread store client w pool r q = Inr q"
proof -
  obtain strategy tk where tk: "poolScheduling store pool = (strategy, tk)" by (cases "poolScheduling store pool")
  have "pod' = pod \<and> (\<forall>q. mutate_spread store client w pool r q = Inr q) \<or>
      ensureSpreadConstraint (pool_key r) (pq_name r) tk pod = Inr pod' \<and>
      (\<forall>q. mutate_spread store client w pool r q = ensureSpreadConstraint (pool_key r) (pq_name r) tk q)"
    using assms by (auto simp: mutate_spread_def tk split: if_splits option.splits sum.splits)
  then have *: "same_frame pod pod' \<and> wp_Tolerations pod' = wp_Tolerations pod \<and> wp_Affinity pod' = wp_Affinity pod \<and>
      (wp_Spread q = wp_Spread pod' \<longrightarrow> mutate_spread store client w pool r q = Inr q)"
  proof
    assume c: "ensureSpreadConstraint (pool_key r) (pq_name r) tk pod = Inr pod' \<and>
      (\<forall>q. mutate_spread store client w pool r q = ensureSpreadConstraint (pool_key r) (pq_name r) tk q)"
    note ok = ensureSpreadConstraint_ok(1,2)[OF conjunct1[OF c]]
    obtain sp where "pod' = pod\<lparr> wp_Spread := sp \<rparr>" using ok(2) by blast
    then show ?thesis using c ensureSpreadConstraint_again[OF ok(1), of q] by (simp add: same_frame_def)
  qed (simp add: same_frame_def)
  then show "same_frame pod pod' \<and> wp_Tolerations pod' = wp_Tolerations pod \<and> wp_Affinity pod' = wp_Affinity pod"
    "wp_Spread q = wp_Spread pod' \<Longrightarrow> mutate_spread store client w pool r q = Inr q" by simp_all
qed

lemma ensureCustomTolerations_ok:
  shows "\<exists>extra. ensureCustomTolerations keys pod = pod\<lparr> wp_Tolerations := wp_Tolerations pod @ extra \<rparr>"
    and "ensureCustomTolerations keys (ensureCustomTolerations keys pod) = ensureCustomTolerations keys pod"
proof -
  show "\<exists>extra. ensureCustomTolerations keys pod = pod\<lparr> wp_Tolerations := wp_Tolerations pod @ extra \<rparr>"
  proof (cases keys)
    case None
    then have "ensureCustomTolerations keys pod = pod\<lparr> wp_Tolerations := wp_Tolerations pod @ [] \<rparr>"
      by (cases pod) (simp add: ensureCustomTolerations_def)
    then show ?thesis by blast
  next
    case (Some ks)
    then show ?thesis using add_custom_append[of ks "wp_Tolerations pod"] by (auto simp: ensureCustomTolerations_def)
  qed
  show "ensureCustomTolerations keys (ensureCustomTolerations keys pod) = ensureCustomTolerations keys pod"
    by (cases keys) (simp_all add: ensureCustomTolerations_def custom_again custom_has)
qed

section \<open>The webhook\<close>

definition pinned_pod :: "poolRequest \<Rightarrow> WorkloadPod \<Rightarrow> bool" where
  "pinned_pod r pod \<longleftrightarrow> mget (wp_NodeSelector pod) (pool_key r) = Some (pq_name r) \<and>
     mget (wp_Labels pod) PoolNameKey = Some (pq_name r) \<and> mget (wp_Labels pod) PoolScopeKey = Some (pool_scope r)"

lemma mutate_pod_steps:
  assumes "mutate_pod store client w pool r pod = Inr pod'"
  obtains p1 p2 p3 p4 where "ensurePoolUsageLabels r pod = Inr p1" "ensurePoolNodeSelector (pool_key r) (pq_name r) p1 = Inr p2"
    "mutate_taints client w pool r p2 = Inr p3" "mutate_spread store client w pool r p3 = Inr p4"
    "pod' = ensureCustomTolerations (map_option ms_CustomTolerationKeys store) p4"
  using assms by (auto simp: mutate_pod_def split: sum.splits)

lemma mutate_pod_ok:
  assumes "mutate_pod store client w pool r pod = Inr pod'"
  shows "pinned_pod r pod'"
    and "wp_Namespace pod' = wp_Namespace pod" "wp_Containers pod' = wp_Containers pod" "wp_InitContainers pod' = wp_InitContainers pod"
    and "poolTaintsEnabled pool \<Longrightarrow> pinned_affinity (pool_key r) (pq_name r) (wp_Affinity pod')"
    and "poolTaintsEnabled pool \<Longrightarrow> client = Some C \<Longrightarrow> pool = Some g \<Longrightarrow> \<exists>taints. collectPoolNodeTaints C w g = Inr taints \<and>
           (\<forall>taint \<in> set taints. toleratesTaint (wp_Tolerations pod') taint)"
    and "list_all (plain_toleration (pool_key r)) (wp_Tolerations pod) \<Longrightarrow> mutate_pod store client w pool r pod' = Inr pod'"
proof -
  obtain p1 p2 p3 p4 where p: "ensurePoolUsageLabels r pod = Inr p1" "ensurePoolNodeSelector (pool_key r) (pq_name r) p1 = Inr p2"
    "mutate_taints client w pool r p2 = Inr p3" "mutate_spread store client w pool r p3 = Inr p4"
    "pod' = ensureCustomTolerations (map_option ms_CustomTolerationKeys store) p4"
    by (rule mutate_pod_steps[OF assms])
  obtain l where l: "p1 = pod\<lparr> wp_Labels := l \<rparr>" using ensurePoolUsageLabels_ok(3)[OF p(1)] by blast
  note sel = ensurePoolNodeSelector_ok[OF p(2)]
  note frames = mutate_taints_ok(1)[OF p(3)] mutate_spread_ok(1)[OF p(4)]
  obtain e where e: "pod' = p4\<lparr> wp_Tolerations := wp_Tolerations p4 @ e \<rparr>" using ensureCustomTolerations_ok(1) p(5) by blast
  show pinned: "pinned_pod r pod'"
    using ensurePoolUsageLabels_ok(1,2)[OF p(1)] sel frames by (simp add: pinned_pod_def same_frame_def e)
  show "wp_Namespace pod' = wp_Namespace pod" "wp_Containers pod' = wp_Containers pod" "wp_InitContainers pod' = wp_InitContainers pod"
    using sel frames by (simp_all add: same_frame_def e l)
  show "poolTaintsEnabled pool \<Longrightarrow> pinned_affinity (pool_key r) (pq_name r) (wp_Affinity pod')"
    using mutate_taints_ok(2)[OF p(3)] frames by (simp add: e)
  show "\<exists>taints. collectPoolNodeTaints C w g = Inr taints \<and> (\<forall>taint \<in> set taints. toleratesTaint (wp_Tolerations pod') taint)"
    if "poolTaintsEnabled pool" "client = Some C" "pool = Some g"
    using mutate_taints_ok(3)[OF p(3) that] frames by (auto simp: e intro: tolerates_append)
  show "mutate_pod store client w pool r pod' = Inr pod'" if plain: "list_all (plain_toleration (pool_key r)) (wp_Tolerations pod)"
  proof -
    have "ensurePoolUsageLabels r pod' = Inr pod'" "ensurePoolNodeSelector (pool_key r) (pq_name r) pod' = Inr pod'"
      using pinned by (simp_all add: pinned_pod_def ensurePoolUsageLabels_again ensurePoolNodeSelector_again)
    moreover have "mutate_taints client w pool r pod' = Inr pod'"
      by (rule mutate_taints_ok(4)[OF p(3)]) (use plain frames sel l e in simp_all)
    moreover have "mutate_spread store client w pool r pod' = Inr pod'"
      by (rule mutate_spread_ok(2)[OF p(4)]) (simp add: e)
    moreover have "ensureCustomTolerations (map_option ms_CustomTolerationKeys store) pod' = pod'"
      by (simp only: p(5) ensureCustomTolerations_ok(2))
    ultimately show ?thesis by (simp add: mutate_pod_def)
  qed
qed

lemma mutate_taints_explicit:
  assumes "mutate_taints client w pool r p = Inr p'" "pq_name r \<noteq> []" "list_all explicit_toleration (wp_Tolerations p)"
  shows "list_all explicit_toleration (wp_Tolerations p')"
proof (cases "poolTaintsEnabled pool")
  case True
  with assms(1) obtain p1 p2 where s: "ensurePoolToleration (pool_key r) (pq_name r) p = Inr p1"
      "ensurePoolAffinity (pool_key r) (pq_name r) p1 = Inr p2" "ensureNodeTolerations client w pool p2 = Inr p'"
    by (auto simp: mutate_taints_def split: sum.splits)
  have "list_all explicit_toleration (wp_Tolerations p1)"
    using s(1) assms(2,3) by (auto simp: ensurePoolToleration_def map_sum_def intro: ensure_toleration_explicit split: sum.splits)
  then have "list_all explicit_toleration (wp_Tolerations p2)" using ensurePoolAffinity_ok(3)[OF s(2)] by auto
  then show ?thesis
    using s(3) by (auto simp: ensureNodeTolerations_def map_sum_def intro: node_tolerations_explicit split: option.splits sum.splits)
qed (use assms in \<open>simp add: mutate_taints_def\<close>)

lemma mutate_pod_explicit:
  assumes "mutate_pod store client w pool r pod = Inr pod'" "pq_name r \<noteq> []" "list_all explicit_toleration (wp_Tolerations pod)"
  shows "list_all explicit_toleration (wp_Tolerations pod')"
proof -
  obtain p1 p2 p3 p4 where p: "ensurePoolUsageLabels r pod = Inr p1" "ensurePoolNodeSelector (pool_key r) (pq_name r) p1 = Inr p2"
    "mutate_taints client w pool r p2 = Inr p3" "mutate_spread store client w pool r p3 = Inr p4"
    "pod' = ensureCustomTolerations (map_option ms_CustomTolerationKeys store) p4"
    by (rule mutate_pod_steps[OF assms(1)])
  have "wp_Tolerations p2 = wp_Tolerations pod"
    using ensurePoolUsageLabels_ok(3)[OF p(1)] ensurePoolNodeSelector_ok(1)[OF p(2)] by auto
  with mutate_taints_explicit[OF p(3) assms(2)] assms(3) mutate_spread_ok(1)[OF p(4)] show ?thesis
    by (simp add: p(5) ensureCustomTolerations_def custom_explicit split: option.split)
qed

lemma mput_entries: "set (mput k v m) \<subseteq> insert (k, v) (set m)"
  by (induction m) auto

lemma selectSinglePool_named:
  assumes "selectSinglePool pod = Inr (Some r)"
  shows "pq_name r \<noteq> []"
proof -
  have "\<forall>(k, p) \<in> set (fold add_pool names pools). pq_name p \<noteq> []" if "\<forall>(k, p) \<in> set pools. pq_name p \<noteq> []" for names pools
    using that
  proof (induction names arbitrary: pools)
    case (Cons n names)
    have "\<forall>(k, p) \<in> set (add_pool n pools). pq_name p \<noteq> []"
      using Cons.prems
      by (fastforce simp: add_pool_def pool_of_resource_def Let_def split: option.splits if_splits dest: subsetD[OF mput_entries])
    with Cons.IH show ?case by simp
  qed simp
  from this[of "[]" "pod_resources pod"] assms show ?thesis
    by (auto simp: selectSinglePool_def collectPools_def split: list.splits)
qed

lemma FetchObject_found: "FetchObject x = Inr (Some v) \<Longrightarrow> x = Inr v"
  by (cases x rule: FetchObject.cases) simp_all

lemma selectSinglePool_frame:
  "wp_Containers p = wp_Containers q \<Longrightarrow> wp_InitContainers p = wp_InitContainers q \<Longrightarrow> selectSinglePool p = selectSinglePool q"
  by (simp add: selectSinglePool_def collectPools_def pod_resources_def)

lemma Default_pool:
  assumes "PodDefaulter_Default store client req w pod = Inr pod'" "selectSinglePool pod = Inr (Some r)"
  obtains pool where "mutate_pod store client w pool r pod = Inr pod'" "requireGPUEnabledNamespace client w (effectiveNamespace req (wp_Namespace pod)) = None"
    "case client of None \<Rightarrow> pool = None
     | Some C \<Rightarrow> \<exists>g. pool = Some g \<and> resolvePoolByRequest client w r (effectiveNamespace req (wp_Namespace pod)) = Inr g"
  using assms by (auto simp: PodDefaulter_Default_def Let_def split: option.splits sum.splits)

text \<open>
  \<^bold>\<open>C36.\<close> A pod that asks for GPUs of a pool cannot end up elsewhere. If the webhook lets such a pod pass, the pod selects
  the nodes that carry the label of the pool, it carries the labels under which the usage of the pool is counted, and its containers are unchanged; its
  namespace is enabled for GPUs and the pool exists. If the pool uses taints, every alternative of the required node affinity has a requirement
  that admits the pool (it may admit further values of the label, which the node selector excludes), and the pod tolerates, as
  Kubernetes reads tolerations, every taint of every node of the pool, provided its own tolerations name their operator and, for \<open>Equal\<close>, a
  value. A pod that asks for no pool passes unchanged.
\<close>

theorem PodDefaulter_pins:
  assumes "PodDefaulter_Default store (Some C) req w pod = Inr pod'"
  shows "case selectSinglePool pod of
      Inl e \<Rightarrow> False
    | Inr None \<Rightarrow> pod' = pod
    | Inr (Some r) \<Rightarrow>
        (\<exists>labels. pc_GetNamespace C (effectiveNamespace req (wp_Namespace pod)) w = Inr labels \<and> sget labels gpuEnabledLabelKey = ''true'') \<and>
        (\<exists>pool. resolvePoolByRequest (Some C) w r (effectiveNamespace req (wp_Namespace pod)) = Inr pool \<and>
        pinned_pod r pod' \<and> wp_Containers pod' = wp_Containers pod \<and> wp_InitContainers pod' = wp_InitContainers pod \<and>
        (poolTaintsEnabled (Some pool) \<longrightarrow>
           pinned_affinity (pool_key r) (pq_name r) (wp_Affinity pod') \<and>
           (\<exists>nodes. pc_ListNodes C ((if gp_Namespace pool = [] then clusterPoolResourcePrefix else localPoolResourcePrefix) @ gp_Name pool)
                (gp_Name pool) w = Inr nodes \<and>
              (list_all explicit_toleration (wp_Tolerations pod) \<and> (\<forall>node \<in> set nodes. list_all plain_taint (no_Taints node)) \<longrightarrow>
               (\<forall>node \<in> set nodes. \<forall>taint \<in> set (no_Taints node). list_ex (\<lambda>t. kubernetes_tolerates t taint) (wp_Tolerations pod'))))))"
proof (cases "selectSinglePool pod")
  case (Inl e)
  with assms show ?thesis by (simp add: PodDefaulter_Default_def Let_def)
next
  case (Inr sel)
  show ?thesis
  proof (cases sel)
    case None
    with Inr assms show ?thesis by (simp add: PodDefaulter_Default_def Let_def)
  next
    case (Some r)
    with Inr have sel: "selectSinglePool pod = Inr (Some r)" by simp
    obtain pool where pool: "mutate_pod store (Some C) w (Some pool) r pod = Inr pod'"
        "requireGPUEnabledNamespace (Some C) w (effectiveNamespace req (wp_Namespace pod)) = None"
        "resolvePoolByRequest (Some C) w r (effectiveNamespace req (wp_Namespace pod)) = Inr pool"
      by (rule Default_pool[OF assms sel]) auto
    note ok = mutate_pod_ok[OF pool(1)]
    have enabled: "\<exists>labels. pc_GetNamespace C (effectiveNamespace req (wp_Namespace pod)) w = Inr labels \<and> sget labels gpuEnabledLabelKey = ''true''"
      using pool(2) by (auto simp: requireGPUEnabledNamespace_def dest!: FetchObject_found split: if_splits sum.splits option.splits)
    have nodes: "\<exists>nodes. pc_ListNodes C ((if gp_Namespace pool = [] then clusterPoolResourcePrefix else localPoolResourcePrefix) @ gp_Name pool)
                (gp_Name pool) w = Inr nodes \<and>
              (list_all explicit_toleration (wp_Tolerations pod) \<and> (\<forall>node \<in> set nodes. list_all plain_taint (no_Taints node)) \<longrightarrow>
               (\<forall>node \<in> set nodes. \<forall>taint \<in> set (no_Taints node). list_ex (\<lambda>t. kubernetes_tolerates t taint) (wp_Tolerations pod')))"
      if on: "poolTaintsEnabled (Some pool)"
    proof -
      obtain nodes where n: "pc_ListNodes C ((if gp_Namespace pool = [] then clusterPoolResourcePrefix else localPoolResourcePrefix) @ gp_Name pool)
          (gp_Name pool) w = Inr nodes" "\<forall>taint \<in> set (unique_taints nodes). toleratesTaint (wp_Tolerations pod') taint"
        using ok(6)[OF on refl refl] by (auto simp: collectPoolNodeTaints_def Let_def split: sum.splits)
      have "list_ex (\<lambda>t. kubernetes_tolerates t taint) (wp_Tolerations pod')"
        if "list_all explicit_toleration (wp_Tolerations pod)" "\<forall>node \<in> set nodes. list_all plain_taint (no_Taints node)"
          "node \<in> set nodes" "taint \<in> set (no_Taints node)" for node taint
      proof (rule covers_explicit)
        show "toleratesTaint (wp_Tolerations pod') taint" using n(2) unique_taints_complete[OF that(2-4)] by blast
        show "list_all explicit_toleration (wp_Tolerations pod')"
          by (rule mutate_pod_explicit[OF pool(1) selectSinglePool_named[OF sel] that(1)])
        show "plain_taint taint" using that(2-4) by (auto simp: list_all_iff)
      qed
      with n(1) show ?thesis by blast
    qed
    show ?thesis using ok(1,3,4) ok(5) nodes enabled pool(3) by (simp add: sel)
  qed
qed

text \<open>
  Kubernetes may call a mutating webhook again after other webhooks; a second call must not change or refuse what the
  first one made. It does not, provided no toleration of the pod for the key of the pool leaves its value open and asks for an effect other than
  \<open>NoSchedule\<close>.
\<close>

theorem PodDefaulter_idempotent:
  assumes "PodDefaulter_Default store client req w pod = Inr pod'"
    and "\<And>r. selectSinglePool pod = Inr (Some r) \<Longrightarrow> list_all (plain_toleration (pool_key r)) (wp_Tolerations pod)"
  shows "PodDefaulter_Default store client req w pod' = Inr pod'"
proof (cases "\<exists>r. selectSinglePool pod = Inr (Some r)")
  case False
  with assms(1) have "pod' = pod" by (auto simp: PodDefaulter_Default_def Let_def split: sum.splits option.splits)
  with assms(1) show ?thesis by simp
next
  case True
  then obtain r where r: "selectSinglePool pod = Inr (Some r)" by blast
  obtain pool where pool: "mutate_pod store client w pool r pod = Inr pod'"
      "requireGPUEnabledNamespace client w (effectiveNamespace req (wp_Namespace pod)) = None"
      "case client of None \<Rightarrow> pool = None
       | Some C \<Rightarrow> \<exists>g. pool = Some g \<and> resolvePoolByRequest client w r (effectiveNamespace req (wp_Namespace pod)) = Inr g"
    by (rule Default_pool[OF assms(1) r])
  note ok = mutate_pod_ok[OF pool(1)]
  have "selectSinglePool pod' = Inr (Some r)" using selectSinglePool_frame[OF ok(3,4)] r by simp
  then show ?thesis using ok(7)[OF assms(2)[OF r]] pool(2,3) ok(2)
    by (auto simp: PodDefaulter_Default_def Let_def split: option.splits)
qed

section \<open>Examples\<close>

definition ex_pool :: "unit GPUPool" where
  "ex_pool =
     \<lparr> gp_Kind = ''GPUPool'', gp_Name = ''a100'', gp_Namespace = ''ml'', gp_Generation = 1, gp_Labels = [], gp_Annotations = [],
       gp_Spec =
         \<lparr> ps_Provider = ''Nvidia'', ps_Backend = ''DevicePlugin'',
           ps_Resource = \<lparr> rs_Unit = ''Card'', rs_MIGProfile = [], rs_MaxDevicesPerNode = None, rs_SlicesPerUnit = 1 \<rparr>,
           ps_NodeSelector = None, ps_DeviceSelector = None,
           ps_DeviceAssignment = \<lparr> as_RequireAnnotation = False, as_AutoApproveSelector = None \<rparr>,
           ps_Scheduling = \<lparr> sh_Strategy = ''Spread'', sh_TopologyKey = ''zone'', sh_TaintsEnabled = None, sh_Taints = [] \<rparr> \<rparr>,
       gp_Status = \<lparr> st_Capacity = \<lparr> cp_Total = 4, cp_Available = 4, cp_Used = 0 \<rparr>, st_Conditions = [] \<rparr> \<rparr>"

definition ex_nodes :: "ClusterNode list" where
  "ex_nodes =
     [\<lparr> no_Name = ''n1'', no_Labels = [(''zone'', ''a'')],
        no_Taints = [\<lparr> tn_Key = ''gpu.deckhouse.io/a100'', tn_Value = ''a100'', tn_Effect = ''NoSchedule'' \<rparr>,
                     \<lparr> tn_Key = ''drain'', tn_Value = [], tn_Effect = ''NoExecute'' \<rparr>] \<rparr>]"

definition ex_client :: "(unit, unit) pod_client" where
  "ex_client =
     \<lparr> pc_GetNamespace = (\<lambda>_ _. Inr [(gpuEnabledLabelKey, ''true'')]), pc_GetClusterPool = (\<lambda>_ _. Inl ErrNotFound),
       pc_GetPool = (\<lambda>_ _ _. Inr ex_pool), pc_ListNodes = (\<lambda>_ _ _. Inr ex_nodes) \<rparr>"

definition ex_request :: poolRequest where
  "ex_request = \<lparr> pq_name = ''a100'', pq_keyPrefix = localPoolResourcePrefix \<rparr>"

definition ex_pod :: "Toleration list \<Rightarrow> WorkloadPod" where
  "ex_pod tols =
     \<lparr> wp_Name = ''train'', wp_Namespace = ''ml'', wp_Labels = [], wp_NodeName = [], wp_Phase = ''Pending'', wp_NodeSelector = [],
       wp_Tolerations = tols, wp_Affinity = None, wp_Spread = [],
       wp_Containers = [\<lparr> co_Limits = [(''gpu.deckhouse.io/a100'', 2), (''cpu'', 4)], co_Requests = [] \<rparr>], wp_InitContainers = [] \<rparr>"

definition admitted :: "pod_error + WorkloadPod \<Rightarrow> WorkloadPod" where
  "admitted r = (case r of Inl _ \<Rightarrow> ex_pod [] | Inr pod \<Rightarrow> pod)"

abbreviation ex_admit :: "WorkloadPod \<Rightarrow> pod_error + WorkloadPod" where
  "ex_admit \<equiv> PodDefaulter_Default None (Some ex_client) (Some ''ml'') ()"

lemma ex_admitted: "ex_admit (ex_pod []) = Inr (admitted (ex_admit (ex_pod [])))"
  by code_simp

lemma ex_selected: "selectSinglePool (ex_pod tols) = Inr (Some ex_request)"
  by (simp add: selectSinglePool_def collectPools_def pod_resources_def ex_pod_def add_pool_def pool_of_resource_def ex_request_def
        localPoolResourcePrefix_def clusterPoolResourcePrefix_def pool_key_def HasPrefix_def)

lemma ex_taints: "poolTaintsEnabled (Some ex_pool)" "\<forall>node \<in> set ex_nodes. list_all plain_taint (no_Taints node)"
  by (simp_all add: poolTaintsEnabled_def ex_pool_def ex_nodes_def plain_taint_def)

lemma ex_resolved: "resolvePoolByRequest (Some ex_client) () ex_request (effectiveNamespace (Some ''ml'') (wp_Namespace (ex_pod []))) = Inr ex_pool"
  by code_simp

theorem PodDefaulter_pins_witness:
  "ex_admit (ex_pod []) = Inr (admitted (ex_admit (ex_pod []))) \<and>
   pinned_pod ex_request (admitted (ex_admit (ex_pod []))) \<and>
   pinned_affinity ''gpu.deckhouse.io/a100'' ''a100'' (wp_Affinity (admitted (ex_admit (ex_pod [])))) \<and>
   list_ex (\<lambda>t. kubernetes_tolerates t \<lparr> tn_Key = ''drain'', tn_Value = [], tn_Effect = ''NoExecute'' \<rparr>)
     (wp_Tolerations (admitted (ex_admit (ex_pod []))))"
proof -
  have tols: "wp_Tolerations (ex_pod []) = []" by (simp add: ex_pod_def)
  have nodes: "pc_ListNodes ex_client k v () = Inr ex_nodes" for k v by (simp add: ex_client_def)
  have drain: "\<exists>node \<in> set ex_nodes. \<lparr> tn_Key = ''drain'', tn_Value = [], tn_Effect = ''NoExecute'' \<rparr> \<in> set (no_Taints node)"
    by (simp add: ex_nodes_def)
  have key: "pool_key ex_request = ''gpu.deckhouse.io/a100''" "pq_name ex_request = ''a100''"
    by (simp_all add: pool_key_def ex_request_def localPoolResourcePrefix_def)
  show ?thesis
    using PodDefaulter_pins[OF ex_admitted] drain ex_admitted ex_taints by (auto simp: ex_selected ex_resolved nodes key tols)
qed

theorem PodDefaulter_idempotent_witness:
  "ex_admit (ex_pod []) = Inr (admitted (ex_admit (ex_pod []))) \<and>
   ex_admit (admitted (ex_admit (ex_pod []))) = Inr (admitted (ex_admit (ex_pod [])))"
  using PodDefaulter_idempotent[OF ex_admitted] ex_admitted by (simp add: ex_selected ex_pod_def)

text \<open>The condition of idempotence is needed: this pod passes the first call and is refused by the second.\<close>

lemma open_toleration_refused:
  "\<exists>pod'. ex_admit (ex_pod [\<lparr> tl_Key = ''gpu.deckhouse.io/a100'', tl_Operator = ''Equal'', tl_Value = [], tl_Effect = ''NoExecute'' \<rparr>]) = Inr pod' \<and>
     ex_admit pod' = Inl (TolerationEffect ''gpu.deckhouse.io/a100'' ''NoExecute'')"
proof -
  let ?r = "ex_admit (ex_pod [\<lparr> tl_Key = ''gpu.deckhouse.io/a100'', tl_Operator = ''Equal'', tl_Value = [], tl_Effect = ''NoExecute'' \<rparr>])"
  have "?r = Inr (admitted ?r)" "ex_admit (admitted ?r) = Inl (TolerationEffect ''gpu.deckhouse.io/a100'' ''NoExecute'')"
    by code_simp+
  then show ?thesis by blast
qed

text \<open>
  Kubernetes reads a toleration without operator as \<open>Equal\<close>, and \<open>Equal\<close> with an empty value matches only the empty value. The
  webhook takes both as a match of every value, and then adds no toleration for the taint.
\<close>

lemma toleration_misread:
  "\<exists>t taint. add_node_toleration taint [t] = [t] \<and> \<not> kubernetes_tolerates t taint"
proof -
  let ?t = "\<lparr> tl_Key = ''dedicated'', tl_Operator = ''Equal'', tl_Value = [], tl_Effect = [] \<rparr>"
  let ?taint = "\<lparr> tn_Key = ''dedicated'', tn_Value = ''gpu'', tn_Effect = ''NoSchedule'' \<rparr>"
  have "add_node_toleration ?taint [?t] = [?t]" "\<not> kubernetes_tolerates ?t ?taint"
    by (simp_all add: add_node_toleration_def toleratesTaint_def toleration_covers_def kubernetes_tolerates_def)
  then show ?thesis by blast
qed

lemma toleration_for_tolerates: "kubernetes_tolerates (toleration_for taint) taint"
  by (simp add: kubernetes_tolerates_def toleration_for_def)

end
