(* ===== verification/BinaryHeap.thy ===== *)
theory BinaryHeap
  imports Prelude
begin

text \<open>
  The algorithms of Go's \<open>container/heap\<close>, which the work queue of the control plane controller uses, on lists with a comparison \<open>lt\<close>: \<open>up\<close> and \<open>down\<close>
  move an element along the tree in which the parent of position \<open>i > 0\<close> is \<open>(i - 1) div 2\<close>. The comparison is only assumed to be a strict weak
  order.
\<close>

definition parent :: "nat \<Rightarrow> nat" where
  "parent i = (i - 1) div 2"

lemma parent_less [simp]: "0 < i \<Longrightarrow> parent i < i"
  by (simp add: parent_def)

lemma parent_le: "parent i \<le> i"
  by (simp add: parent_def)

lemma parent_zero [simp]: "parent 0 = 0"
  by (simp add: parent_def)

lemma parent_iff: "0 < k \<Longrightarrow> parent k = i \<longleftrightarrow> k = 2 * i + 1 \<or> k = 2 * i + 2"
  by (auto simp: parent_def)

definition swap_at :: "nat \<Rightarrow> nat \<Rightarrow> 'a list \<Rightarrow> 'a list" where
  "swap_at i j xs = xs[i := xs ! j, j := xs ! i]"

lemma length_swap_at [simp]: "length (swap_at i j xs) = length xs"
  by (simp add: swap_at_def)

lemma nth_swap_at:
  "i < length xs \<Longrightarrow> j < length xs \<Longrightarrow> swap_at i j xs ! k = (if k = j then xs ! i else if k = i then xs ! j else xs ! k)"
  by (cases "k < length xs") (auto simp: swap_at_def nth_list_update)

lemma mset_swap_at [simp]: "i < length xs \<Longrightarrow> j < length xs \<Longrightarrow> mset (swap_at i j xs) = mset xs"
  by (simp add: swap_at_def mset_swap)

fun heap_up :: "('a \<Rightarrow> 'a \<Rightarrow> bool) \<Rightarrow> nat \<Rightarrow> 'a list \<Rightarrow> 'a list" where
  "heap_up lt j h = (if j = 0 \<or> \<not> lt (h ! j) (h ! parent j) then h else heap_up lt (parent j) (swap_at (parent j) j h))"

text \<open>The smaller child of \<open>i\<close> among the first \<open>n\<close> elements.\<close>

definition child_of :: "('a \<Rightarrow> 'a \<Rightarrow> bool) \<Rightarrow> nat \<Rightarrow> nat \<Rightarrow> 'a list \<Rightarrow> nat" where
  "child_of lt i n h = (if 2 * i + 2 < n \<and> lt (h ! (2 * i + 2)) (h ! (2 * i + 1)) then 2 * i + 2 else 2 * i + 1)"

lemma child_of_bounds: "2 * i + 1 < n \<Longrightarrow> child_of lt i n h < n \<and> i < child_of lt i n h \<and> 0 < child_of lt i n h \<and> parent (child_of lt i n h) = i"
  by (auto simp: child_of_def parent_def)

function heap_down :: "('a \<Rightarrow> 'a \<Rightarrow> bool) \<Rightarrow> nat \<Rightarrow> nat \<Rightarrow> 'a list \<Rightarrow> 'a list" where
  "heap_down lt i n h =
     (if n \<le> 2 * i + 1 \<or> \<not> lt (h ! child_of lt i n h) (h ! i) then h
      else heap_down lt (child_of lt i n h) n (swap_at i (child_of lt i n h) h))"
  by pat_completeness auto
termination
proof (relation "measure (\<lambda>(lt, i, n, h). n - i)")
  show "((lt, child_of lt i n h, n, swap_at i (child_of lt i n h) h), lt, i, n, h) \<in> measure (\<lambda>(lt, i, n, h). n - i)"
    if "\<not> (n \<le> 2 * i + 1 \<or> \<not> lt (h ! child_of lt i n h) (h ! i))" for lt i n and h :: "'a list"
    using that child_of_bounds[of i n lt h] by auto
qed simp

declare heap_up.simps [simp del] heap_down.simps [simp del]

lemma heap_up_stop: "j = 0 \<or> \<not> lt (h ! j) (h ! parent j) \<Longrightarrow> heap_up lt j h = h"
  by (subst heap_up.simps) simp

lemma heap_down_stop: "n \<le> 2 * i + 1 \<or> \<not> lt (h ! child_of lt i n h) (h ! i) \<Longrightarrow> heap_down lt i n h = h"
  by (subst heap_down.simps) simp

lemma heap_up_length [simp]: "length (heap_up lt j h) = length h"
  by (induction lt j h rule: heap_up.induct) (simp add: heap_up.simps)

lemma heap_down_length [simp]: "length (heap_down lt i n h) = length h"
  by (induction lt i n h rule: heap_down.induct) (simp add: heap_down.simps)

lemma heap_up_mset [simp]: "j < length h \<Longrightarrow> mset (heap_up lt j h) = mset h"
proof (induction lt j h rule: heap_up.induct)
  case (1 lt j h)
  have "parent j < length h" using 1(2) parent_le[of j] by simp
  with 1 show ?case by (subst heap_up.simps) simp
qed

lemma heap_down_mset [simp]: "n \<le> length h \<Longrightarrow> mset (heap_down lt i n h) = mset h"
proof (induction lt i n h rule: heap_down.induct)
  case (1 lt i n h)
  then show ?case using child_of_bounds[of i n lt h] by (subst heap_down.simps) auto
qed

lemma heap_down_rest: "n \<le> length h \<Longrightarrow> n \<le> k \<Longrightarrow> heap_down lt i n h ! k = h ! k"
proof (induction lt i n h rule: heap_down.induct)
  case (1 lt i n h)
  then show ?case using child_of_bounds[of i n lt h] by (subst heap_down.simps) (auto simp: nth_swap_at)
qed

section \<open>Heap order\<close>

text \<open>\<open>heap_on lt n P h\<close>: among the first \<open>n\<close> elements none is less than its parent, for the positions in \<open>P\<close>.\<close>

definition heap_on :: "('a \<Rightarrow> 'a \<Rightarrow> bool) \<Rightarrow> nat \<Rightarrow> (nat \<Rightarrow> bool) \<Rightarrow> 'a list \<Rightarrow> bool" where
  "heap_on lt n P h \<longleftrightarrow> (\<forall>k. 0 < k \<and> k < n \<and> P k \<longrightarrow> \<not> lt (h ! k) (h ! parent k))"

abbreviation is_heap :: "('a \<Rightarrow> 'a \<Rightarrow> bool) \<Rightarrow> 'a list \<Rightarrow> bool" where
  "is_heap lt h \<equiv> heap_on lt (length h) (\<lambda>_. True) h"

definition bypasses :: "('a \<Rightarrow> 'a \<Rightarrow> bool) \<Rightarrow> nat \<Rightarrow> nat \<Rightarrow> 'a list \<Rightarrow> bool" where
  "bypasses lt n j h \<longleftrightarrow> (\<forall>k. 0 < j \<and> 0 < k \<and> k < n \<and> parent k = j \<longrightarrow> \<not> lt (h ! k) (h ! parent j))"

lemma heap_snoc:
  assumes "is_heap lt h"
  shows "heap_on lt (length (h @ [x])) (\<lambda>k. k \<noteq> length h) (h @ [x])" and "bypasses lt (length (h @ [x])) (length h) (h @ [x])"
proof -
  have "\<not> lt ((h @ [x]) ! k) ((h @ [x]) ! parent k)" if "0 < k" "k < Suc (length h)" "k \<noteq> length h" for k
  proof -
    have "k < length h" "parent k < length h" using that parent_less[OF that(1)] by simp_all
    with assms that(1) show ?thesis by (simp add: heap_on_def nth_append)
  qed
  then show "heap_on lt (length (h @ [x])) (\<lambda>k. k \<noteq> length h) (h @ [x])" by (simp add: heap_on_def)
  have "parent k \<noteq> length h" if "0 < k" "k < Suc (length h)" for k using that parent_less[OF that(1)] by simp
  then show "bypasses lt (length (h @ [x])) (length h) (h @ [x])" by (auto simp: bypasses_def)
qed

locale weak_order =
  fixes lt :: "'a \<Rightarrow> 'a \<Rightarrow> bool"
  assumes asym: "lt a b \<Longrightarrow> \<not> lt b a"
    and neg_trans: "\<not> lt a b \<Longrightarrow> \<not> lt b c \<Longrightarrow> \<not> lt a c"
begin

lemma lt_trans: "lt a b \<Longrightarrow> lt b c \<Longrightarrow> lt a c"
  using asym neg_trans by blast

lemma not_lt_trans: "\<not> lt a b \<Longrightarrow> lt c b \<Longrightarrow> \<not> lt a c"
  using lt_trans by blast

lemma heap_least: "heap_on lt n (\<lambda>_. True) h \<Longrightarrow> k < n \<Longrightarrow> \<not> lt (h ! k) (h ! 0)"
proof (induction k rule: less_induct)
  case (less k)
  show ?case
  proof (cases "k = 0")
    case True
    then show ?thesis using asym by blast
  next
    case False
    then have "\<not> lt (h ! parent k) (h ! 0)" "\<not> lt (h ! k) (h ! parent k)"
      using less by (auto simp: heap_on_def)
    then show ?thesis using neg_trans by blast
  qed
qed

lemma up_step:
  assumes "heap_on lt n (\<lambda>k. k \<noteq> j) h" "bypasses lt n j h" "0 < j" "j < n" "n \<le> length h" "lt (h ! j) (h ! parent j)"
  shows "heap_on lt n (\<lambda>k. k \<noteq> parent j) (swap_at (parent j) j h)" and "bypasses lt n (parent j) (swap_at (parent j) j h)"
proof -
  define i where "i = parent j"
  have i: "i < j" "i < length h" "j < length h" using assms parent_less[OF assms(3)] by (simp_all add: i_def)
  have old: "0 < k \<Longrightarrow> k < n \<Longrightarrow> k \<noteq> j \<Longrightarrow> \<not> lt (h ! k) (h ! parent k)" for k using assms(1) by (simp add: heap_on_def)
  have over: "0 < k \<Longrightarrow> k < n \<Longrightarrow> parent k = j \<Longrightarrow> \<not> lt (h ! k) (h ! i)" for k using assms(2,3) by (simp add: bypasses_def i_def)
  have less: "lt (h ! j) (h ! i)" using assms(6) by (simp add: i_def)
  have at: "swap_at i j h ! k = (if k = j then h ! i else if k = i then h ! j else h ! k)" for k using i nth_swap_at by blast
  have "\<not> lt (swap_at i j h ! k) (swap_at i j h ! parent k)" if k: "0 < k" "k < n" "k \<noteq> i" for k
  proof (cases "k = j")
    case True
    then show ?thesis using i less asym by (simp add: at i_def[symmetric])
  next
    case False
    note nk = old[OF k(1,2) False] parent_less[OF k(1)]
    show ?thesis using False k nk over[OF k(1,2)] not_lt_trans[OF nk(1)] less by (auto simp: at)
  qed
  then show "heap_on lt n (\<lambda>k. k \<noteq> parent j) (swap_at (parent j) j h)" by (simp add: heap_on_def i_def)
  have "\<not> lt (swap_at i j h ! k) (swap_at i j h ! parent i)" if k: "0 < i" "0 < k" "k < n" "parent k = i" for k
  proof -
    have i_ok: "\<not> lt (h ! i) (h ! parent i)" using old[of i] k(1) i(1) assms(4) by simp
    have "parent i < i" using k(1) by simp
    moreover have "k \<noteq> i" using k parent_less[OF k(2)] by auto
    moreover have "k \<noteq> j \<Longrightarrow> \<not> lt (h ! k) (h ! parent i)" using old[OF k(2,3)] k(4) i_ok neg_trans by metis
    ultimately show ?thesis using i i_ok by (auto simp: at)
  qed
  then show "bypasses lt n (parent j) (swap_at (parent j) j h)" by (simp add: bypasses_def i_def)
qed

lemma heap_up_heap:
  "heap_on lt n (\<lambda>k. k \<noteq> j) h \<Longrightarrow> bypasses lt n j h \<Longrightarrow> j < n \<Longrightarrow> n \<le> length h \<Longrightarrow> heap_on lt n (\<lambda>_. True) (heap_up lt j h)"
proof (induction j arbitrary: h rule: less_induct)
  case (less j)
  show ?case
  proof (cases "j = 0 \<or> \<not> lt (h ! j) (h ! parent j)")
    case True
    then show ?thesis using less.prems(1) by (subst heap_up.simps) (auto simp: heap_on_def)
  next
    case False
    then have j: "0 < j" "lt (h ! j) (h ! parent j)" by simp_all
    note step = up_step[OF less.prems(1,2) j(1) less.prems(3,4) j(2)]
    have "heap_on lt n (\<lambda>_. True) (heap_up lt (parent j) (swap_at (parent j) j h))"
      by (rule less.IH[OF _ step]) (use j less.prems parent_less[OF j(1)] in simp_all)
    then show ?thesis using False by (subst heap_up.simps) simp
  qed
qed

lemma child_least: "0 < k \<Longrightarrow> k < n \<Longrightarrow> parent k = i \<Longrightarrow> \<not> lt (h ! k) (h ! child_of lt i n h)"
  using asym[of "h ! k" "h ! k"] asym[of "h ! (2 * i + 2)" "h ! (2 * i + 1)"] parent_iff[of k i] by (auto simp: child_of_def)

lemma down_step:
  assumes "heap_on lt n (\<lambda>k. parent k \<noteq> i) h" "bypasses lt n i h" "2 * i + 1 < n" "n \<le> length h"
    and "c = child_of lt i n h" "lt (h ! c) (h ! i)"
  shows "heap_on lt n (\<lambda>k. parent k \<noteq> c) (swap_at i c h)" and "bypasses lt n c (swap_at i c h)"
proof -
  have c: "c < n" "i < c" "0 < c" "parent c = i" using child_of_bounds[OF assms(3), of lt h] assms(5) by simp_all
  have at: "swap_at i c h ! k = (if k = c then h ! i else if k = i then h ! c else h ! k)" for k
    using c assms(4) by (intro nth_swap_at) simp_all
  have old: "0 < k \<Longrightarrow> k < n \<Longrightarrow> parent k \<noteq> i \<Longrightarrow> \<not> lt (h ! k) (h ! parent k)" for k using assms(1) by (simp add: heap_on_def)
  have over: "0 < i \<Longrightarrow> 0 < k \<Longrightarrow> k < n \<Longrightarrow> parent k = i \<Longrightarrow> \<not> lt (h ! k) (h ! parent i)" for k using assms(2) by (simp add: bypasses_def)
  have sibling: "\<not> lt (h ! k) (h ! c)" if "0 < k" "k < n" "parent k = i" for k
    using child_least[OF that] by (simp add: assms(5))
  have "\<not> lt (swap_at i c h ! k) (swap_at i c h ! parent k)" if k: "0 < k" "k < n" "parent k \<noteq> c" for k
  proof (cases "parent k = i")
    case True
    then have "i < k" using parent_less[OF k(1)] by simp
    then show ?thesis using True sibling[OF k(1,2) True] c assms(6) asym by (auto simp: at)
  next
    case False
    show ?thesis
    proof (cases "k = i")
      case True
      then show ?thesis using over[of c] c k \<open>parent k \<noteq> i\<close> parent_less[of i] by (auto simp: at)
    next
      case False
      then show ?thesis using \<open>parent k \<noteq> i\<close> old[OF k(1,2)] c k by (auto simp: at)
    qed
  qed
  then show "heap_on lt n (\<lambda>k. parent k \<noteq> c) (swap_at i c h)" by (simp add: heap_on_def)
  have "\<not> lt (swap_at i c h ! k) (swap_at i c h ! parent c)" if k: "0 < k" "k < n" "parent k = c" for k
    using old[OF k(1,2)] k c parent_less[OF k(1)] by (auto simp: at)
  then show "bypasses lt n c (swap_at i c h)" by (simp add: bypasses_def)
qed

lemma heap_down_heap:
  "heap_on lt n (\<lambda>k. parent k \<noteq> i) h \<Longrightarrow> bypasses lt n i h \<Longrightarrow> n \<le> length h \<Longrightarrow> heap_on lt n (\<lambda>_. True) (heap_down lt i n h)"
proof (induction "n - i" arbitrary: i h rule: less_induct)
  case less
  show ?case
  proof (cases "n \<le> 2 * i + 1 \<or> \<not> lt (h ! child_of lt i n h) (h ! i)")
    case True
    have "\<not> lt (h ! k) (h ! i)" if k: "0 < k" "k < n" "parent k = i" for k
    proof -
      have "2 * i + 1 < n" using k parent_iff[OF k(1), of i] by auto
      with True have "\<not> lt (h ! child_of lt i n h) (h ! i)" by simp
      moreover have "\<not> lt (h ! k) (h ! child_of lt i n h)" by (rule child_least[OF k])
      ultimately show ?thesis using neg_trans by blast
    qed
    then have "heap_on lt n (\<lambda>_. True) h" using less.prems(1) by (auto simp: heap_on_def)
    with True show ?thesis by (subst heap_down.simps) simp
  next
    case False
    define c where "c = child_of lt i n h"
    have i: "2 * i + 1 < n" "lt (h ! c) (h ! i)" using False by (simp_all add: c_def)
    note step = down_step[OF less.prems(1,2) i(1) less.prems(3) c_def i(2)]
    have "heap_on lt n (\<lambda>_. True) (heap_down lt c n (swap_at i c h))"
      by (rule less.hyps[OF _ step]) (use child_of_bounds[OF i(1), of lt h] less.prems(3) in \<open>auto simp: c_def\<close>)
    then show ?thesis using False by (subst heap_down.simps) (simp add: c_def)
  qed
qed

lemma heap_pop:
  assumes "is_heap lt h" "h \<noteq> []"
  defines "r \<equiv> heap_down lt 0 (length h - 1) (swap_at 0 (length h - 1) h)"
  shows "last r = h ! 0" and "is_heap lt (butlast r)" and "mset r = mset h"
proof -
  let ?n = "length h - 1" and ?s = "swap_at 0 (length h - 1) h"
  have n: "?n < length h" "0 < length h" using assms(2) by simp_all
  note at = nth_swap_at[OF n(2,1), simplified]
  have "heap_on lt ?n (\<lambda>k. parent k \<noteq> 0) ?s"
    unfolding heap_on_def
  proof (intro allI impI)
    fix k assume k: "0 < k \<and> k < ?n \<and> parent k \<noteq> 0"
    then have "parent k < ?n" using parent_less[of k] by linarith
    with k have "?s ! k = h ! k" "?s ! parent k = h ! parent k" by (auto simp: at)
    moreover have "k < length h" using k by linarith
    ultimately show "\<not> lt (?s ! k) (?s ! parent k)" using k assms(1) by (simp add: heap_on_def)
  qed
  moreover have "bypasses lt ?n 0 ?s" by (simp add: bypasses_def)
  ultimately have heap: "heap_on lt ?n (\<lambda>_. True) r" unfolding r_def by (rule heap_down_heap) simp
  have len: "length r = length h" by (simp add: r_def)
  have "r ! ?n = ?s ! ?n" unfolding r_def by (rule heap_down_rest) simp_all
  also have "\<dots> = h ! 0" by (simp add: at)
  finally show "last r = h ! 0" using len assms(2) by (metis last_conv_nth length_0_conv)
  show "mset r = mset h" using n by (simp add: r_def)
  have "\<not> lt (butlast r ! k) (butlast r ! parent k)" if k: "0 < k" "k < ?n" for k
  proof -
    have "parent k < ?n" using parent_less[OF k(1)] k(2) by linarith
    with k heap show ?thesis by (simp add: heap_on_def nth_butlast len)
  qed
  then show "is_heap lt (butlast r)" by (simp add: heap_on_def len)
qed

text \<open>The element at \<open>i\<close> became smaller, so the order changed from \<open>lt\<close> to \<open>lt'\<close>: only the edge to its parent may be wrong.\<close>

lemma heap_raise:
  assumes "is_heap lt h" "distinct h" "i < length h"
    and others: "\<And>a b. a \<noteq> h ! i \<Longrightarrow> b \<noteq> h ! i \<Longrightarrow> lt' a b = lt a b"
    and raised: "\<And>b. \<not> lt b (h ! i) \<Longrightarrow> b \<noteq> h ! i \<Longrightarrow> \<not> lt' b (h ! i)"
  shows "heap_on lt' (length h) (\<lambda>k. k \<noteq> i) h" and "bypasses lt' (length h) i h"
    and "0 < k \<Longrightarrow> k < length h \<Longrightarrow> parent k = i \<Longrightarrow> \<not> lt' (h ! k) (h ! i)"
proof -
  have ne: "h ! k \<noteq> h ! i" if "k < length h" "k \<noteq> i" for k using that assms(2,3) by (simp add: nth_eq_iff_index_eq)
  have old: "\<not> lt (h ! k) (h ! parent k)" if "0 < k" "k < length h" for k using assms(1) that by (simp add: heap_on_def)
  show child: "\<not> lt' (h ! k) (h ! i)" if "0 < k" "k < length h" "parent k = i" for k
    using old[OF that(1,2)] that(3) parent_less[OF that(1)] by (intro raised ne) (use that in auto)
  show "heap_on lt' (length h) (\<lambda>k. k \<noteq> i) h"
    unfolding heap_on_def
  proof (intro allI impI)
    fix k assume k: "0 < k \<and> k < length h \<and> k \<noteq> i"
    then have less: "parent k < length h" using parent_less[of k] by linarith
    show "\<not> lt' (h ! k) (h ! parent k)"
    proof (cases "parent k = i")
      case True
      then show ?thesis using child k by blast
    next
      case False
      then have "lt' (h ! k) (h ! parent k) = lt (h ! k) (h ! parent k)" using k less by (intro others ne) auto
      then show ?thesis using old k by blast
    qed
  qed
  show "bypasses lt' (length h) i h"
    unfolding bypasses_def
  proof (intro allI impI)
    fix k assume k: "0 < i \<and> 0 < k \<and> k < length h \<and> parent k = i"
    have p: "parent i < i" "i < k" using k parent_less[of i] parent_less[of k] by auto
    have "\<not> lt (h ! k) (h ! i)" "\<not> lt (h ! i) (h ! parent i)" using old[of k] old[of i] k assms(3) by auto
    then have "\<not> lt (h ! k) (h ! parent i)" using neg_trans by blast
    moreover have "lt' (h ! k) (h ! parent i) = lt (h ! k) (h ! parent i)" using k p assms(3) by (intro others ne) auto
    ultimately show "\<not> lt' (h ! k) (h ! parent i)" by blast
  qed
qed

end

end
