(* ===== verification/WorkQueue.thy ===== *)
theory WorkQueue
  imports BinaryHeap
begin

text \<open>
  The priority work queue of the control plane controller (\<open>pkg/controller/reconciler/queue.go\<close>). The heap holds pointers to entries, the
  map \<open>pending\<close> points to the same entries, and each entry knows its position in the heap; so entries live in a store from addresses to
  entries. Every operation runs under the mutex of the queue and is one atomic step; \<open>Get\<close> on an empty queue blocks. Sequence numbers are
  64-bit. The delaying and rate limiting queues around it are third-party code: they call the operations of this queue, in any order.
\<close>

section \<open>The heap of entries\<close>

record 'a priorityItem =
  pi_value :: 'a
  pi_priority :: int
  pi_index :: int
  pi_seq :: nat

type_synonym 'a entry_store = "nat \<Rightarrow> 'a priorityItem"
type_synonym 'a priorityHeap = "'a entry_store \<times> nat list"

definition entry_less :: "'a entry_store \<Rightarrow> nat \<Rightarrow> nat \<Rightarrow> bool" where
  "entry_less objs a b =
     (if pi_priority (objs a) = pi_priority (objs b) then pi_seq (objs a) < pi_seq (objs b)
      else pi_priority (objs a) > pi_priority (objs b))"

definition heap_Less :: "nat \<Rightarrow> nat \<Rightarrow> 'a priorityHeap \<Rightarrow> bool" where
  "heap_Less i j H = (case H of (objs, h) \<Rightarrow> entry_less objs (h ! i) (h ! j))"

definition set_index :: "nat \<Rightarrow> int \<Rightarrow> 'a entry_store \<Rightarrow> 'a entry_store" where
  "set_index a i objs = objs(a := (objs a)\<lparr> pi_index := i \<rparr>)"

definition heap_Swap :: "nat \<Rightarrow> nat \<Rightarrow> 'a priorityHeap \<Rightarrow> 'a priorityHeap" where
  "heap_Swap i j H =
     (case H of (objs, h) \<Rightarrow>
        let h' = swap_at i j h in (set_index (h' ! j) (int j) (set_index (h' ! i) (int i) objs), h'))"

definition heap_Push :: "nat \<Rightarrow> 'a priorityHeap \<Rightarrow> 'a priorityHeap" where
  "heap_Push x H = (case H of (objs, h) \<Rightarrow> (set_index x (int (length h)) objs, h @ [x]))"

definition heap_Pop :: "'a priorityHeap \<Rightarrow> nat \<times> 'a priorityHeap" where
  "heap_Pop H = (case H of (objs, h) \<Rightarrow> (last h, (set_index (last h) (- 1) objs, butlast h)))"

text \<open>\<open>up\<close>, \<open>down\<close>, \<open>Push\<close>, \<open>Pop\<close> and \<open>Fix\<close> of \<open>container/heap\<close> over these operations.\<close>

function go_up :: "nat \<Rightarrow> 'a priorityHeap \<Rightarrow> 'a priorityHeap" where
  "go_up j H = (if j = 0 \<or> \<not> heap_Less j (parent j) H then H else go_up (parent j) (heap_Swap (parent j) j H))"
  by pat_completeness auto
termination by (relation "measure fst") auto

definition go_child :: "nat \<Rightarrow> nat \<Rightarrow> 'a priorityHeap \<Rightarrow> nat" where
  "go_child i n H = (if 2 * i + 2 < n \<and> heap_Less (2 * i + 2) (2 * i + 1) H then 2 * i + 2 else 2 * i + 1)"

function go_down :: "nat \<Rightarrow> nat \<Rightarrow> 'a priorityHeap \<Rightarrow> 'a priorityHeap" where
  "go_down i n H =
     (if n \<le> 2 * i + 1 \<or> \<not> heap_Less (go_child i n H) i H then H
      else go_down (go_child i n H) n (heap_Swap i (go_child i n H) H))"
  by pat_completeness auto
termination by (relation "measure (\<lambda>(i, n, H). n - i)") (auto simp: go_child_def)

definition go_moves :: "nat \<Rightarrow> nat \<Rightarrow> 'a priorityHeap \<Rightarrow> bool" where
  "go_moves i n H \<longleftrightarrow> \<not> (n \<le> 2 * i + 1 \<or> \<not> heap_Less (go_child i n H) i H)"

definition go_Push :: "nat \<Rightarrow> 'a priorityHeap \<Rightarrow> 'a priorityHeap" where
  "go_Push x H = go_up (length (snd H)) (heap_Push x H)"

definition go_Pop :: "'a priorityHeap \<Rightarrow> nat \<times> 'a priorityHeap" where
  "go_Pop H = (let n = length (snd H) - 1 in heap_Pop (go_down 0 n (heap_Swap 0 n H)))"

definition go_Fix :: "nat \<Rightarrow> 'a priorityHeap \<Rightarrow> 'a priorityHeap" where
  "go_Fix i H = (if go_moves i (length (snd H)) H then go_down i (length (snd H)) H else go_up i H)"

declare go_up.simps [simp del] go_down.simps [simp del]

section \<open>The queue\<close>

record 'a priorityQueue =
  q_objs :: "'a entry_store"
  q_next :: nat
  q_queue :: "nat list"
  q_dirty :: "'a set"
  q_processing :: "'a set"
  q_pending :: "('a, nat) gomap"
  q_priorities :: "('a, int) gomap"
  q_shuttingDown :: bool
  q_drain :: bool
  q_seq :: nat

definition nil_entry :: "'a priorityItem" where
  "nil_entry = \<lparr> pi_value = undefined, pi_priority = 0, pi_index = 0, pi_seq = 0 \<rparr>"

definition newPriorityQueue :: "'a priorityQueue" where
  "newPriorityQueue =
     \<lparr> q_objs = (\<lambda>_. nil_entry), q_next = 0, q_queue = [], q_dirty = {}, q_processing = {}, q_pending = [], q_priorities = [],
       q_shuttingDown = False, q_drain = False, q_seq = 0 \<rparr>"

definition priorityOf :: "'a priorityQueue \<Rightarrow> 'a \<Rightarrow> int" where
  "priorityOf q item = (case mget (q_priorities q) item of Some p \<Rightarrow> p | None \<Rightarrow> 0)"

definition nextSeq :: "'a priorityQueue \<Rightarrow> nat \<times> 'a priorityQueue" where
  "nextSeq q = (let s = (q_seq q + 1) mod 2 ^ 64 in (s, q\<lparr> q_seq := s \<rparr>))"

definition raise_pending :: "'a \<Rightarrow> int \<Rightarrow> 'a priorityQueue \<Rightarrow> 'a priorityQueue" where
  "raise_pending item p q =
     (case mget (q_pending q) item of
        None \<Rightarrow> q
      | Some a \<Rightarrow>
          if p > pi_priority (q_objs q a) then
            let objs = (q_objs q)(a := (q_objs q a)\<lparr> pi_priority := p \<rparr>);
                (objs', h) = go_Fix (nat (pi_index (objs a))) (objs, q_queue q)
            in q\<lparr> q_objs := objs', q_queue := h \<rparr>
          else q)"

definition ensurePriority :: "'a \<Rightarrow> int \<Rightarrow> 'a priorityQueue \<Rightarrow> 'a priorityQueue" where
  "ensurePriority item priority q =
     (let p = (if priority < 0 then 0 else priority) in
      case mget (q_priorities q) item of
        Some current \<Rightarrow>
          if current \<ge> p then q else raise_pending item p (q\<lparr> q_priorities := mput item p (q_priorities q) \<rparr>)
      | None \<Rightarrow> raise_pending item p (q\<lparr> q_priorities := mput item p (q_priorities q) \<rparr>))"

definition clearPriority :: "'a \<Rightarrow> 'a priorityQueue \<Rightarrow> 'a priorityQueue" where
  "clearPriority item q = q\<lparr> q_priorities := mdel item (q_priorities q) \<rparr>"

definition push_entry :: "'a \<Rightarrow> 'a priorityQueue \<Rightarrow> 'a priorityQueue" where
  "push_entry item q =
     (let p = priorityOf q item; (s, q1) = nextSeq q; a = q_next q1;
          objs = (q_objs q1)(a := \<lparr> pi_value = item, pi_priority = p, pi_index = 0, pi_seq = s \<rparr>);
          (objs', h) = go_Push a (objs, q_queue q1)
      in q1\<lparr> q_objs := objs', q_next := a + 1, q_queue := h, q_pending := mput item a (q_pending q1) \<rparr>)"

definition queue_Add :: "'a \<Rightarrow> 'a priorityQueue \<Rightarrow> 'a priorityQueue" where
  "queue_Add item q =
     (if q_shuttingDown q then q
      else if item \<in> q_dirty q then raise_pending item (priorityOf q item) q
      else
        let q1 = q\<lparr> q_dirty := insert item (q_dirty q) \<rparr> in
        if item \<in> q_processing q1 then q1 else push_entry item q1)"

definition queue_Len :: "'a priorityQueue \<Rightarrow> nat" where
  "queue_Len q = length (q_queue q)"

text \<open>\<open>Blocked\<close> stands for waiting on the condition variable: the call is repeated when it is signalled.\<close>

datatype 'a got = Blocked | Shutdown | Got 'a

definition queue_Get :: "'a priorityQueue \<Rightarrow> 'a got \<times> 'a priorityQueue" where
  "queue_Get q =
     (if q_queue q = [] then (if q_shuttingDown q then Shutdown else Blocked, q)
      else
        let (a, objs, h) = go_Pop (q_objs q, q_queue q); v = pi_value (objs a) in
        (Got v, q\<lparr> q_objs := objs, q_queue := h, q_pending := mdel v (q_pending q), q_dirty := q_dirty q - {v},
                    q_processing := insert v (q_processing q) \<rparr>))"

definition queue_Done :: "'a \<Rightarrow> 'a priorityQueue \<Rightarrow> 'a priorityQueue" where
  "queue_Done item q =
     (let q1 = q\<lparr> q_processing := q_processing q - {item} \<rparr> in
      if item \<in> q_dirty q1 then push_entry item q1 else q1)"

definition queue_ShutDown :: "'a priorityQueue \<Rightarrow> 'a priorityQueue" where
  "queue_ShutDown q = q\<lparr> q_shuttingDown := True \<rparr>"

text \<open>\<open>ShutDownWithDrain\<close> closes the queue and returns once \<open>drained\<close> holds.\<close>

definition ShutDownWithDrain :: "'a priorityQueue \<Rightarrow> 'a priorityQueue" where
  "ShutDownWithDrain q = q\<lparr> q_shuttingDown := True, q_drain := True \<rparr>"

definition drained :: "'a priorityQueue \<Rightarrow> bool" where
  "drained q \<longleftrightarrow> q_processing q = {} \<and> q_queue q = []"

section \<open>The rate limiting queue\<close>

text \<open>Delayed and rate limited additions keep the priority now and call \<open>queue_Add\<close> later.\<close>

definition rl_Add :: "'a \<Rightarrow> 'a priorityQueue \<Rightarrow> 'a priorityQueue" where
  "rl_Add item q = queue_Add item (ensurePriority item 0 q)"

definition rl_AddAfter :: "'a \<Rightarrow> 'a priorityQueue \<Rightarrow> 'a priorityQueue" where
  "rl_AddAfter item q = ensurePriority item 0 q"

definition rl_AddRateLimited :: "'a \<Rightarrow> 'a priorityQueue \<Rightarrow> 'a priorityQueue" where
  "rl_AddRateLimited item q = ensurePriority item 0 q"

definition AddWithPriority :: "'a \<Rightarrow> int \<Rightarrow> 'a priorityQueue \<Rightarrow> 'a priorityQueue" where
  "AddWithPriority item priority q = queue_Add item (ensurePriority item priority q)"

definition rl_Forget :: "'a \<Rightarrow> 'a priorityQueue \<Rightarrow> 'a priorityQueue" where
  "rl_Forget item q = clearPriority item q"

end
