(* ===== verification/WorkQueueSafety.thy ===== *)
theory WorkQueueSafety
  imports WorkQueue
begin

text \<open>
  The priority queue implements an abstract queue, a finite map from waiting items to priority and sequence number from which the best item
  is taken (\<open>queue_refines\<close>), and no request is lost or handed to two workers (\<open>queue_no_lost_work\<close>).
\<close>

section \<open>The Go heap is the heap on lists\<close>

text \<open>Moving entries in the heap changes only their positions.\<close>

definition same_keys :: "'a entry_store \<Rightarrow> 'a entry_store \<Rightarrow> bool" where
  "same_keys objs objs' \<longleftrightarrow>
     (\<forall>a. pi_value (objs' a) = pi_value (objs a) \<and> pi_priority (objs' a) = pi_priority (objs a) \<and> pi_seq (objs' a) = pi_seq (objs a))"

definition indexed :: "'a entry_store \<Rightarrow> nat list \<Rightarrow> bool" where
  "indexed objs h \<longleftrightarrow> (\<forall>i < length h. pi_index (objs (h ! i)) = int i)"

lemma same_keys_refl [simp]: "same_keys objs objs"
  by (simp add: same_keys_def)

lemma same_keys_trans: "same_keys a b \<Longrightarrow> same_keys b c \<Longrightarrow> same_keys a c"
  by (simp add: same_keys_def)

lemma same_keys_set_index: "same_keys objs (set_index a i objs)"
  by (simp add: same_keys_def set_index_def)

lemma entry_less_same: "same_keys objs objs' \<Longrightarrow> entry_less objs' = entry_less objs"
  by (simp add: same_keys_def entry_less_def fun_eq_iff)

interpretation entry: weak_order "entry_less objs" for objs :: "'a entry_store"
proof
  show "entry_less objs a b \<Longrightarrow> \<not> entry_less objs b a" for a b by (auto simp: entry_less_def split: if_splits)
  show "\<not> entry_less objs a b \<Longrightarrow> \<not> entry_less objs b c \<Longrightarrow> \<not> entry_less objs a c" for a b c
    by (auto simp: entry_less_def split: if_splits)
qed

lemma heap_Swap_ok:
  assumes "i < length h" "j < length h" "distinct h" "indexed objs h"
  obtains objs' where "heap_Swap i j (objs, h) = (objs', swap_at i j h)" "same_keys objs objs'" "indexed objs' (swap_at i j h)"
proof -
  let ?h = "swap_at i j h" and ?o = "set_index (swap_at i j h ! j) (int j) (set_index (swap_at i j h ! i) (int i) objs)"
  have "same_keys objs ?o" using same_keys_trans same_keys_set_index by blast
  moreover have "indexed ?o ?h"
    unfolding indexed_def
  proof (intro allI impI)
    fix k assume k: "k < length ?h"
    have "distinct ?h" using assms by (simp add: mset_eq_imp_distinct_iff[OF mset_swap_at])
    then have eq: "?h ! k = ?h ! m \<longleftrightarrow> k = m" if "m < length h" for m using k that by (simp add: nth_eq_iff_index_eq)
    show "pi_index (?o (?h ! k)) = int k"
    proof (cases "k = i \<or> k = j")
      case True
      then show ?thesis using eq[OF assms(1)] eq[OF assms(2)] by (auto simp: set_index_def)
    next
      case False
      then have "?h ! k = h ! k" using assms by (simp add: nth_swap_at)
      then show ?thesis using False eq[OF assms(1)] eq[OF assms(2)] assms(4) k by (auto simp: set_index_def indexed_def)
    qed
  qed
  ultimately show thesis using that[of ?o] by (simp add: heap_Swap_def Let_def)
qed

lemma distinct_swap_at: "i < length h \<Longrightarrow> j < length h \<Longrightarrow> distinct h \<Longrightarrow> distinct (swap_at i j h)"
  by (simp add: mset_eq_imp_distinct_iff[OF mset_swap_at])

lemma go_up_heap_up:
  "j < length h \<Longrightarrow> distinct h \<Longrightarrow> indexed objs h \<Longrightarrow>
   \<exists>objs'. go_up j (objs, h) = (objs', heap_up (entry_less objs) j h) \<and> same_keys objs objs' \<and> indexed objs' (heap_up (entry_less objs) j h)"
proof (induction j arbitrary: objs h rule: less_induct)
  case (less j)
  show ?case
  proof (cases "j = 0 \<or> \<not> entry_less objs (h ! j) (h ! parent j)")
    case True
    have "go_up j (objs, h) = (objs, h)" using True by (subst go_up.simps) (simp add: heap_Less_def)
    with less.prems show ?thesis by (auto simp: heap_up_stop[where lt = "entry_less objs", OF True])
  next
    case False
    have p: "parent j < j" "parent j < length h" using False less.prems(1) parent_less[of j] by (simp_all, linarith?)
    obtain objs1 where swap: "heap_Swap (parent j) j (objs, h) = (objs1, swap_at (parent j) j h)" "same_keys objs objs1"
      "indexed objs1 (swap_at (parent j) j h)"
      using heap_Swap_ok[OF p(2) less.prems] by blast
    have "\<exists>objs'. go_up (parent j) (objs1, swap_at (parent j) j h) = (objs', heap_up (entry_less objs1) (parent j) (swap_at (parent j) j h)) \<and>
        same_keys objs1 objs' \<and> indexed objs' (heap_up (entry_less objs1) (parent j) (swap_at (parent j) j h))"
      by (rule less.IH[OF p(1)]) (use p less.prems swap in \<open>simp_all add: distinct_swap_at\<close>)
    moreover have "go_up j (objs, h) = go_up (parent j) (objs1, swap_at (parent j) j h)"
      using False swap(1) by (subst go_up.simps) (simp add: heap_Less_def)
    moreover have "heap_up (entry_less objs) j h = heap_up (entry_less objs) (parent j) (swap_at (parent j) j h)"
      using False by (subst heap_up.simps) simp
    ultimately show ?thesis using swap(2) entry_less_same[OF swap(2)] same_keys_trans by metis
  qed
qed

lemma go_child_eq: "go_child i n (objs, h) = child_of (entry_less objs) i n h"
  by (simp add: go_child_def child_of_def heap_Less_def)

lemma go_down_heap_down:
  "n \<le> length h \<Longrightarrow> distinct h \<Longrightarrow> indexed objs h \<Longrightarrow>
   \<exists>objs'. go_down i n (objs, h) = (objs', heap_down (entry_less objs) i n h) \<and> same_keys objs objs' \<and>
     indexed objs' (heap_down (entry_less objs) i n h)"
proof (induction "n - i" arbitrary: i objs h rule: less_induct)
  case less
  show ?case
  proof (cases "n \<le> 2 * i + 1 \<or> \<not> entry_less objs (h ! child_of (entry_less objs) i n h) (h ! i)")
    case True
    have "go_down i n (objs, h) = (objs, h)" using True by (subst go_down.simps) (simp add: heap_Less_def go_child_eq)
    with less.prems show ?thesis by (auto simp: heap_down_stop[where lt = "entry_less objs", OF True])
  next
    case False
    define c where "c = child_of (entry_less objs) i n h"
    have c: "c < n" "i < c" using False child_of_bounds[of i n "entry_less objs" h] by (simp_all add: c_def)
    have i: "i < length h" "c < length h" using c less.prems(1) by simp_all
    obtain objs1 where swap: "heap_Swap i c (objs, h) = (objs1, swap_at i c h)" "same_keys objs objs1" "indexed objs1 (swap_at i c h)"
      using heap_Swap_ok[OF i less.prems(2,3)] by blast
    have "\<exists>objs'. go_down c n (objs1, swap_at i c h) = (objs', heap_down (entry_less objs1) c n (swap_at i c h)) \<and>
        same_keys objs1 objs' \<and> indexed objs' (heap_down (entry_less objs1) c n (swap_at i c h))"
      by (rule less.hyps) (use c i less.prems swap in \<open>simp_all add: distinct_swap_at\<close>)
    moreover have "go_down i n (objs, h) = go_down c n (objs1, swap_at i c h)"
      using False swap(1) by (subst go_down.simps) (simp add: heap_Less_def go_child_eq c_def)
    moreover have "heap_down (entry_less objs) i n h = heap_down (entry_less objs) c n (swap_at i c h)"
      using False by (subst heap_down.simps) (simp add: c_def)
    ultimately show ?thesis using swap(2) entry_less_same[OF swap(2)] same_keys_trans by metis
  qed
qed

section \<open>Push, Pop and Fix\<close>

text \<open>A good heap: no entry twice, positions right, heap order.\<close>

definition good_heap :: "'a entry_store \<Rightarrow> nat list \<Rightarrow> bool" where
  "good_heap objs h \<longleftrightarrow> distinct h \<and> indexed objs h \<and> is_heap (entry_less objs) h"

lemma good_heap_cong:
  assumes "good_heap objs h" "\<And>b. b \<in> set h \<Longrightarrow> objs' b = objs b"
  shows "good_heap objs' h"
proof -
  have "\<not> entry_less objs' (h ! k) (h ! parent k)" if "0 < k" "k < length h" for k
  proof -
    have "parent k < length h" using that parent_less[OF that(1)] by linarith
    then have "entry_less objs' (h ! k) (h ! parent k) = entry_less objs (h ! k) (h ! parent k)"
      using that(2) by (simp add: entry_less_def assms(2))
    with assms(1) that show ?thesis by (simp add: good_heap_def heap_on_def)
  qed
  with assms show ?thesis by (simp add: good_heap_def heap_on_def indexed_def)
qed

lemma go_Push_ok:
  assumes "good_heap objs h" "x \<notin> set h"
  obtains objs' h' where "go_Push x (objs, h) = (objs', h')" "same_keys objs objs'" "good_heap objs' h'" "set h' = insert x (set h)"
proof -
  let ?o = "set_index x (int (length h)) objs" and ?h = "h @ [x]"
  have keys: "same_keys objs ?o" by (rule same_keys_set_index)
  have less: "entry_less ?o = entry_less objs" by (rule entry_less_same[OF keys])
  have "indexed ?o ?h"
    using assms by (auto simp: indexed_def good_heap_def set_index_def nth_append less_Suc_eq)
  moreover have "distinct ?h" "length h < length ?h" using assms by (simp_all add: good_heap_def)
  ultimately obtain objs' where up: "go_up (length h) (?o, ?h) = (objs', heap_up (entry_less ?o) (length h) ?h)" "same_keys ?o objs'"
      "indexed objs' (heap_up (entry_less ?o) (length h) ?h)"
    using go_up_heap_up by blast
  let ?r = "heap_up (entry_less ?o) (length h) ?h"
  have "is_heap (entry_less ?o) h" using assms(1) by (simp add: good_heap_def less)
  note pre = heap_snoc[OF this, of x]
  have "heap_on (entry_less ?o) (length ?h) (\<lambda>_. True) ?r" by (rule entry.heap_up_heap[OF pre]) simp_all
  then have heap: "is_heap (entry_less objs') ?r" using entry_less_same[OF up(2)] by simp
  have mset: "mset ?r = mset ?h" by simp
  have "distinct ?r" using \<open>distinct ?h\<close> mset_eq_imp_distinct_iff[OF mset] by blast
  moreover have "set ?r = insert x (set h)" using mset_eq_setD[OF mset] by simp
  moreover have "same_keys objs objs'" using keys up(2) same_keys_trans by blast
  moreover have "go_Push x (objs, h) = (objs', ?r)" using up(1) by (simp add: go_Push_def heap_Push_def)
  ultimately show thesis using that[of objs' ?r] up(3) heap by (simp add: good_heap_def)
qed

lemma go_Pop_ok:
  assumes "good_heap objs h" "h \<noteq> []"
  obtains objs' h' where "go_Pop (objs, h) = (h ! 0, objs', h')" "same_keys objs objs'" "good_heap objs' h'" "set h' = set h - {h ! 0}"
proof -
  let ?n = "length h - 1"
  have h: "distinct h" "indexed objs h" "is_heap (entry_less objs) h" using assms(1) by (simp_all add: good_heap_def)
  have n: "0 < length h" "?n < length h" using assms(2) by simp_all
  obtain o1 where swap: "heap_Swap 0 ?n (objs, h) = (o1, swap_at 0 ?n h)" "same_keys objs o1" "indexed o1 (swap_at 0 ?n h)"
    using heap_Swap_ok[OF n h(1,2)] by blast
  have "distinct (swap_at 0 ?n h)" by (rule distinct_swap_at[OF n h(1)])
  then obtain o2 where down: "go_down 0 ?n (o1, swap_at 0 ?n h) = (o2, heap_down (entry_less o1) 0 ?n (swap_at 0 ?n h))" "same_keys o1 o2"
      "indexed o2 (heap_down (entry_less o1) 0 ?n (swap_at 0 ?n h))"
    using go_down_heap_down[of ?n "swap_at 0 ?n h" o1 0] swap(3) by auto
  define r where "r = heap_down (entry_less objs) 0 ?n (swap_at 0 ?n h)"
  have r: "last r = h ! 0" "is_heap (entry_less objs) (butlast r)" "mset r = mset h"
    unfolding r_def by (rule entry.heap_pop[OF h(3) assms(2)])+
  have "r \<noteq> []" using r(3) assms(2) by auto
  then have split: "r = butlast r @ [h ! 0]" using r(1) by (metis append_butlast_last_id)
  have dist: "distinct (butlast r @ [h ! 0])" using h(1) mset_eq_imp_distinct_iff[OF r(3)] split by simp
  have "set r = set h" using mset_eq_setD[OF r(3)] .
  then have "set h = set (butlast r @ [h ! 0])" using split by simp
  then have set: "set (butlast r) = set h - {h ! 0}" using dist by auto
  let ?o = "set_index (h ! 0) (- 1) o2"
  have keys: "same_keys objs ?o" using swap(2) down(2) same_keys_set_index same_keys_trans by blast
  have "indexed o2 r" using down(3) entry_less_same[OF swap(2)] by (simp add: r_def)
  then have "indexed ?o (butlast r)"
    using dist by (auto simp: indexed_def set_index_def nth_butlast)
      (metis in_set_conv_nth length_butlast nth_butlast One_nat_def)
  moreover have "is_heap (entry_less ?o) (butlast r)" using r(2) entry_less_same[OF keys] by simp
  moreover have "go_Pop (objs, h) = (h ! 0, ?o, butlast r)"
    using swap(1) down(1) entry_less_same[OF swap(2)] r(1) by (simp add: go_Pop_def heap_Pop_def r_def Let_def)
  ultimately show thesis using that[of ?o "butlast r"] keys set dist by (simp add: good_heap_def)
qed

text \<open>Raising the priority of an entry, then \<open>Fix\<close>.\<close>

lemma go_Fix_ok:
  assumes "good_heap objs h" "i < length h" "pi_priority (objs (h ! i)) < p"
  defines "objs1 \<equiv> objs(h ! i := (objs (h ! i))\<lparr> pi_priority := p \<rparr>)"
  obtains objs' h' where "go_Fix i (objs1, h) = (objs', h')" "same_keys objs1 objs'" "good_heap objs' h'" "set h' = set h"
proof -
  have h: "distinct h" "indexed objs h" "is_heap (entry_less objs) h" using assms(1) by (simp_all add: good_heap_def)
  have idx: "indexed objs1 h" using h(2) by (auto simp: indexed_def objs1_def)
  have others: "entry_less objs1 a b = entry_less objs a b" if "a \<noteq> h ! i" "b \<noteq> h ! i" for a b using that by (simp add: entry_less_def objs1_def)
  have raised: "\<not> entry_less objs1 b (h ! i)" if "\<not> entry_less objs b (h ! i)" "b \<noteq> h ! i" for b
    using that assms(3) by (auto simp: entry_less_def objs1_def split: if_splits)
  note pre = entry.heap_raise[OF h(3,1) assms(2), of "entry_less objs1", OF others raised]
  have still: "\<not> go_moves i (length h) (objs1, h)"
    using child_of_bounds[of i "length h" "entry_less objs1" h] pre(3)[of "child_of (entry_less objs1) i (length h) h"]
    by (auto simp: go_moves_def heap_Less_def go_child_eq)
  obtain o2 where up: "go_up i (objs1, h) = (o2, heap_up (entry_less objs1) i h)" "same_keys objs1 o2" "indexed o2 (heap_up (entry_less objs1) i h)"
    using go_up_heap_up[OF assms(2) h(1) idx] by blast
  let ?r = "heap_up (entry_less objs1) i h"
  have "heap_on (entry_less objs1) (length h) (\<lambda>_. True) ?r" by (rule entry.heap_up_heap[OF pre(1,2)]) (use assms(2) in simp_all)
  then have heap: "is_heap (entry_less o2) ?r" using entry_less_same[OF up(2)] by simp
  have mset: "mset ?r = mset h" using assms(2) by simp
  have "go_Fix i (objs1, h) = (o2, ?r)" using still up(1) by (simp add: go_Fix_def)
  moreover have "distinct ?r" using h(1) mset_eq_imp_distinct_iff[OF mset] by simp
  ultimately show thesis using that[of o2 ?r] up(2,3) heap mset_eq_setD[OF mset] by (simp add: good_heap_def)
qed

section \<open>The abstract queue\<close>

text \<open>
  What the queue promises: a map from waiting items to priority and sequence number, the items that are to be processed (\<open>dirty\<close>) and
  those being processed. \<open>best\<close> says which item is to be handed out next: the highest priority, then the lowest sequence number.
\<close>

record 'a work =
  wk_waiting :: "'a \<Rightarrow> (int \<times> nat) option"
  wk_dirty :: "'a set"
  wk_processing :: "'a set"
  wk_priorities :: "'a \<Rightarrow> int option"
  wk_closed :: bool
  wk_seq :: nat

definition best :: "'a work \<Rightarrow> 'a \<Rightarrow> bool" where
  "best s item \<longleftrightarrow> (\<exists>p n. wk_waiting s item = Some (p, n) \<and>
     (\<forall>other p' n'. wk_waiting s other = Some (p', n') \<longrightarrow> p' < p \<or> p' = p \<and> n \<le> n'))"

definition spec_wait :: "'a \<Rightarrow> 'a work \<Rightarrow> 'a work" where
  "spec_wait item s =
     (let n = (wk_seq s + 1) mod 2 ^ 64; p = (case wk_priorities s item of None \<Rightarrow> 0 | Some p \<Rightarrow> p) in
      s\<lparr> wk_waiting := (wk_waiting s)(item \<mapsto> (p, n)), wk_seq := n \<rparr>)"

definition spec_raise :: "'a \<Rightarrow> int \<Rightarrow> 'a work \<Rightarrow> 'a work" where
  "spec_raise item p s =
     (case wk_waiting s item of
        None \<Rightarrow> s
      | Some (p0, n) \<Rightarrow> if p > p0 then s\<lparr> wk_waiting := (wk_waiting s)(item \<mapsto> (p, n)) \<rparr> else s)"

definition spec_ensure :: "'a \<Rightarrow> int \<Rightarrow> 'a work \<Rightarrow> 'a work" where
  "spec_ensure item priority s =
     (let p = max 0 priority in
      if (\<exists>c. wk_priorities s item = Some c \<and> c \<ge> p) then s
      else spec_raise item p (s\<lparr> wk_priorities := (wk_priorities s)(item \<mapsto> p) \<rparr>))"

definition spec_Add :: "'a \<Rightarrow> 'a work \<Rightarrow> 'a work" where
  "spec_Add item s =
     (if wk_closed s then s
      else if item \<in> wk_dirty s then spec_raise item (case wk_priorities s item of None \<Rightarrow> 0 | Some p \<Rightarrow> p) s
      else
        let s1 = s\<lparr> wk_dirty := insert item (wk_dirty s) \<rparr> in
        if item \<in> wk_processing s then s1 else spec_wait item s1)"

definition spec_take :: "'a \<Rightarrow> 'a work \<Rightarrow> 'a work" where
  "spec_take item s = s\<lparr> wk_waiting := (wk_waiting s)(item := None), wk_dirty := wk_dirty s - {item}, wk_processing := insert item (wk_processing s) \<rparr>"

definition spec_Done :: "'a \<Rightarrow> 'a work \<Rightarrow> 'a work" where
  "spec_Done item s =
     (let s1 = s\<lparr> wk_processing := wk_processing s - {item} \<rparr> in if item \<in> wk_dirty s then spec_wait item s1 else s1)"

text \<open>What waits is to be processed and not in process; what is to be processed waits or is in process.\<close>

definition work_inv :: "'a work \<Rightarrow> bool" where
  "work_inv s \<longleftrightarrow> (\<forall>item. (wk_waiting s item \<noteq> None \<longrightarrow> item \<in> wk_dirty s \<and> item \<notin> wk_processing s)
     \<and> (item \<in> wk_dirty s \<longrightarrow> wk_waiting s item \<noteq> None \<or> item \<in> wk_processing s))"

lemmas work_defs = spec_wait_def spec_raise_def spec_ensure_def spec_Add_def spec_take_def spec_Done_def Let_def

lemma work_inv_raise: "work_inv s \<Longrightarrow> work_inv (spec_raise item p s)"
  by (auto simp: work_inv_def spec_raise_def split: option.splits)

lemma work_inv_ops:
  assumes "work_inv s"
  shows "work_inv (spec_ensure item p s)" "work_inv (spec_Add item s)" "work_inv (s\<lparr> wk_priorities := f \<rparr>)" "work_inv (s\<lparr> wk_closed := c \<rparr>)"
    and "item \<in> wk_processing s \<Longrightarrow> work_inv (spec_Done item s)"
    and "wk_waiting s item \<noteq> None \<Longrightarrow> work_inv (spec_take item s)"
proof -
  show frame: "work_inv (s\<lparr> wk_priorities := f \<rparr>)" "work_inv (s\<lparr> wk_closed := c \<rparr>)" for f c using assms by (simp_all add: work_inv_def)
  show "work_inv (spec_ensure item p s)" using assms frame by (simp add: spec_ensure_def Let_def work_inv_raise)
  show "work_inv (spec_Add item s)"
    using assms work_inv_raise[OF assms] by (auto simp: spec_Add_def spec_wait_def Let_def work_inv_def)
  show "item \<in> wk_processing s \<Longrightarrow> work_inv (spec_Done item s)"
    using assms by (auto simp: spec_Done_def spec_wait_def Let_def work_inv_def)
  show "wk_waiting s item \<noteq> None \<Longrightarrow> work_inv (spec_take item s)"
    using assms by (auto simp: spec_take_def work_inv_def)
qed

section \<open>Refinement\<close>

definition key_of :: "'a entry_store \<Rightarrow> nat \<Rightarrow> int \<times> nat" where
  "key_of objs a = (pi_priority (objs a), pi_seq (objs a))"

definition work_of :: "'a priorityQueue \<Rightarrow> 'a work" where
  "work_of q =
     \<lparr> wk_waiting = (\<lambda>item. map_option (key_of (q_objs q)) (mget (q_pending q) item)),
       wk_dirty = q_dirty q, wk_processing = q_processing q, wk_priorities = mget (q_priorities q), wk_closed = q_shuttingDown q, wk_seq = q_seq q \<rparr>"

text \<open>The store: a good heap of allocated entries, to which \<open>pending\<close> points.\<close>

definition store_inv :: "'a priorityQueue \<Rightarrow> bool" where
  "store_inv q \<longleftrightarrow> good_heap (q_objs q) (q_queue q) \<and> (\<forall>a \<in> set (q_queue q). a < q_next q) \<and>
     (\<forall>item a. mget (q_pending q) item = Some a \<longleftrightarrow> a \<in> set (q_queue q) \<and> pi_value (q_objs q a) = item)"

lemma store_invD:
  assumes "store_inv q"
  shows "good_heap (q_objs q) (q_queue q)" "a \<in> set (q_queue q) \<Longrightarrow> a < q_next q"
    "mget (q_pending q) item = Some a \<longleftrightarrow> a \<in> set (q_queue q) \<and> pi_value (q_objs q a) = item"
  using assms by (auto simp: store_inv_def)

lemma same_keysD:
  assumes "same_keys objs objs'"
  shows "pi_value (objs' a) = pi_value (objs a)" "pi_priority (objs' a) = pi_priority (objs a)" "pi_seq (objs' a) = pi_seq (objs a)"
  using assms by (simp_all add: same_keys_def)

lemma raise_pending_ok:
  assumes "store_inv q"
  shows "store_inv (raise_pending item p q) \<and> work_of (raise_pending item p q) = spec_raise item p (work_of q)"
proof (cases "mget (q_pending q) item")
  case None
  then show ?thesis using assms by (simp add: raise_pending_def spec_raise_def work_of_def)
next
  case (Some a)
  show ?thesis
  proof (cases "p > pi_priority (q_objs q a)")
    case False
    then show ?thesis using assms Some by (simp add: raise_pending_def spec_raise_def work_of_def key_of_def)
  next
    case True
    have a: "a \<in> set (q_queue q)" "pi_value (q_objs q a) = item" using store_invD(3)[OF assms] Some by simp_all
    obtain i where i: "i < length (q_queue q)" "q_queue q ! i = a" using a(1) by (auto simp: in_set_conv_nth)
    have idx: "pi_index (q_objs q a) = int i" using store_invD(1)[OF assms] i by (auto simp: good_heap_def indexed_def)
    let ?o = "(q_objs q)(a := (q_objs q a)\<lparr> pi_priority := p \<rparr>)"
    obtain o2 h2 where fixed: "go_Fix i (?o, q_queue q) = (o2, h2)" "same_keys ?o o2" "good_heap o2 h2" "set h2 = set (q_queue q)"
      using go_Fix_ok[OF store_invD(1)[OF assms] i(1), of p] True i(2) by auto
    note keys = same_keysD[OF fixed(2)]
    have res: "raise_pending item p q = q\<lparr> q_objs := o2, q_queue := h2 \<rparr>" using Some True fixed(1) idx by (simp add: raise_pending_def)
    have "store_inv (raise_pending item p q)" using assms fixed(3,4) keys by (simp add: res store_inv_def)
    moreover have "map_option (key_of o2) (mget (q_pending q) x) =
        (if x = item then Some (p, pi_seq (q_objs q a)) else map_option (key_of (q_objs q)) (mget (q_pending q) x))" for x
    proof (cases "mget (q_pending q) x")
      case (Some b)
      have "x = item" if "b = a" using that Some store_invD(3)[OF assms, of x b] a(2) by simp
      moreover have "b = a" if "x = item" using that Some \<open>mget (q_pending q) item = Some a\<close> by simp
      ultimately have "b = a \<longleftrightarrow> x = item" by blast
      with Some keys show ?thesis by (auto simp: key_of_def)
    qed (use Some in auto)
    then have "work_of (raise_pending item p q) = spec_raise item p (work_of q)"
      using Some True by (simp add: res work_of_def spec_raise_def key_of_def fun_eq_iff)
    ultimately show ?thesis by blast
  qed
qed

lemma push_entry_ok:
  assumes "store_inv q" "mget (q_pending q) item = None"
  shows "store_inv (push_entry item q) \<and> work_of (push_entry item q) = spec_wait item (work_of q)"
proof -
  let ?s = "(q_seq q + 1) mod 2 ^ 64" and ?a = "q_next q"
  let ?o = "(q_objs q)(?a := \<lparr> pi_value = item, pi_priority = priorityOf q item, pi_index = 0, pi_seq = ?s \<rparr>)"
  have new: "?a \<notin> set (q_queue q)" using store_invD(2)[OF assms(1)] by blast
  have same: "?o b = q_objs q b" if "b \<in> set (q_queue q)" for b using new that by auto
  have "good_heap ?o (q_queue q)" by (rule good_heap_cong[OF store_invD(1)[OF assms(1)] same])
  then obtain o2 h2 where push: "go_Push ?a (?o, q_queue q) = (o2, h2)" "same_keys ?o o2" "good_heap o2 h2" "set h2 = insert ?a (set (q_queue q))"
    using go_Push_ok[OF _ new] by blast
  note keys = same_keysD[OF push(2)]
  have res: "push_entry item q = q\<lparr> q_seq := ?s, q_objs := o2, q_next := ?a + 1, q_queue := h2, q_pending := mput item ?a (q_pending q) \<rparr>"
    using push(1) by (simp add: push_entry_def nextSeq_def Let_def)
  have "mget (mput item ?a (q_pending q)) x = Some b \<longleftrightarrow> b \<in> set h2 \<and> pi_value (o2 b) = x" for x b
    using store_invD(3)[OF assms(1), of x b] store_invD(3)[OF assms(1), of item b] assms(2) new keys(1)[of b] push(4) by auto
  moreover have "\<forall>b \<in> set h2. b < ?a + 1" using store_invD(2)[OF assms(1)] push(4) by fastforce
  ultimately have "store_inv (push_entry item q)" using push(3) by (simp add: res store_inv_def)
  moreover have "map_option (key_of o2) (mget (mput item ?a (q_pending q)) x) =
      (if x = item then Some (priorityOf q item, ?s) else map_option (key_of (q_objs q)) (mget (q_pending q) x))" for x
  proof (cases "x = item \<or> mget (q_pending q) x = None")
    case True
    then show ?thesis using keys by (auto simp: key_of_def)
  next
    case False
    then obtain b where b: "mget (q_pending q) x = Some b" "x \<noteq> item" by auto
    then have "b \<noteq> ?a" using store_invD(3)[OF assms(1), of x b] new by auto
    then show ?thesis using b keys by (simp add: key_of_def)
  qed
  then have "work_of (push_entry item q) = spec_wait item (work_of q)"
    by (simp add: res work_of_def spec_wait_def priorityOf_def Let_def fun_eq_iff split: option.splits)
  ultimately show ?thesis by blast
qed

lemma queue_Get_ok:
  assumes "store_inv q" "q_queue q \<noteq> []"
  shows "\<exists>item q'. queue_Get q = (Got item, q') \<and> store_inv q' \<and> best (work_of q) item \<and> work_of q' = spec_take item (work_of q)"
proof -
  let ?a = "q_queue q ! 0" and ?v = "pi_value (q_objs q (q_queue q ! 0))"
  note inv = store_invD[OF assms(1)]
  obtain o2 h2 where pop: "go_Pop (q_objs q, q_queue q) = (?a, o2, h2)" "same_keys (q_objs q) o2" "good_heap o2 h2" "set h2 = set (q_queue q) - {?a}"
    using go_Pop_ok[OF inv(1) assms(2)] by blast
  note keys = same_keysD[OF pop(2)]
  let ?q = "q\<lparr> q_objs := o2, q_queue := h2, q_pending := mdel ?v (q_pending q), q_dirty := q_dirty q - {?v}, q_processing := insert ?v (q_processing q) \<rparr>"
  have get: "queue_Get q = (Got ?v, ?q)" using pop(1) assms(2) keys by (simp add: queue_Get_def Let_def)
  have a: "mget (q_pending q) ?v = Some ?a" using inv(3)[of ?v ?a] assms(2) by simp
  have iff: "b = ?a \<longleftrightarrow> x = ?v" if "mget (q_pending q) x = Some b" for x b
  proof
    show "x = ?v" if "b = ?a" using that \<open>mget (q_pending q) x = Some b\<close> inv(3)[of x b] by simp
    show "b = ?a" if "x = ?v" using that \<open>mget (q_pending q) x = Some b\<close> a by simp
  qed
  have "mget (mdel ?v (q_pending q)) x = Some b \<longleftrightarrow> b \<in> set h2 \<and> pi_value (o2 b) = x" for x b
    using inv(3)[of x b] iff[of x b] keys(1)[of b] pop(4) by (auto simp: mget_mdel)
  then have store: "store_inv ?q" using pop(3,4) inv(2) by (simp add: store_inv_def)
  have "best (work_of q) ?v"
    unfolding best_def
  proof (intro exI conjI allI impI)
    show "wk_waiting (work_of q) ?v = Some (pi_priority (q_objs q ?a), pi_seq (q_objs q ?a))" using a by (simp add: work_of_def key_of_def)
    fix other p' n' assume "wk_waiting (work_of q) other = Some (p', n')"
    then obtain b where b: "b \<in> set (q_queue q)" "key_of (q_objs q) b = (p', n')" using inv(3) by (auto simp: work_of_def)
    then obtain k where k: "k < length (q_queue q)" "q_queue q ! k = b" by (auto simp: in_set_conv_nth)
    have "\<not> entry_less (q_objs q) b ?a" using entry.heap_least[OF _ k(1)] inv(1) k(2) by (auto simp: good_heap_def)
    then show "p' < pi_priority (q_objs q ?a) \<or> p' = pi_priority (q_objs q ?a) \<and> pi_seq (q_objs q ?a) \<le> n'"
      using b(2) by (auto simp: entry_less_def key_of_def split: if_splits)
  qed
  moreover have "map_option (key_of o2) (mget (mdel ?v (q_pending q)) x) =
      (if x = ?v then None else map_option (key_of (q_objs q)) (mget (q_pending q) x))" for x
    using keys by (auto simp: mget_mdel key_of_def intro!: option.map_cong0)
  then have "work_of ?q = spec_take ?v (work_of q)" by (simp add: work_of_def spec_take_def fun_eq_iff)
  ultimately show ?thesis using get store by blast
qed

lemma queue_ops_ok:
  assumes "store_inv q" "work_inv (work_of q)"
  shows "store_inv (ensurePriority item p q) \<and> work_of (ensurePriority item p q) = spec_ensure item p (work_of q)"
    and "store_inv (clearPriority item q) \<and> work_of (clearPriority item q) = (work_of q)\<lparr> wk_priorities := (wk_priorities (work_of q))(item := None) \<rparr>"
    and "store_inv (queue_Add item q) \<and> work_of (queue_Add item q) = spec_Add item (work_of q)"
    and "item \<in> q_processing q \<Longrightarrow> store_inv (queue_Done item q) \<and> work_of (queue_Done item q) = spec_Done item (work_of q)"
    and "store_inv (queue_ShutDown q) \<and> work_of (queue_ShutDown q) = (work_of q)\<lparr> wk_closed := True \<rparr>"
    and "store_inv (ShutDownWithDrain q) \<and> work_of (ShutDownWithDrain q) = (work_of q)\<lparr> wk_closed := True \<rparr>"
proof -
  have raise: "store_inv (raise_pending item p (q\<lparr> q_priorities := m \<rparr>)) \<and>
      work_of (raise_pending item p (q\<lparr> q_priorities := m \<rparr>)) = spec_raise item p (work_of (q\<lparr> q_priorities := m \<rparr>))" for p m
    by (rule raise_pending_ok) (use assms(1) in \<open>simp add: store_inv_def\<close>)
  have priorities: "work_of (q\<lparr> q_priorities := m \<rparr>) = (work_of q)\<lparr> wk_priorities := mget m \<rparr>" for m by (simp add: work_of_def)
  have waits: "mget (q_pending q) item = None \<longleftrightarrow> wk_waiting (work_of q) item = None" by (simp add: work_of_def)
  have sets: "wk_dirty (work_of q) = q_dirty q" "wk_processing (work_of q) = q_processing q" "wk_closed (work_of q) = q_shuttingDown q"
    "wk_priorities (work_of q) = mget (q_priorities q)" by (simp_all add: work_of_def)
  have "max 0 p = (if p < 0 then 0 else p)" by simp
  then show "store_inv (ensurePriority item p q) \<and> work_of (ensurePriority item p q) = spec_ensure item p (work_of q)"
    using assms(1) raise priorities
    by (auto simp: ensurePriority_def spec_ensure_def Let_def sets fun_upd_def split: option.splits)
  show "store_inv (clearPriority item q) \<and> work_of (clearPriority item q) = (work_of q)\<lparr> wk_priorities := (wk_priorities (work_of q))(item := None) \<rparr>"
    using assms(1) by (simp add: clearPriority_def store_inv_def work_of_def fun_eq_iff mget_mdel)
  show "store_inv (queue_Add item q) \<and> work_of (queue_Add item q) = spec_Add item (work_of q)"
  proof (cases "q_shuttingDown q \<or> item \<in> q_dirty q")
    case True
    then show ?thesis using assms(1) raise_pending_ok[OF assms(1)] by (auto simp: queue_Add_def spec_Add_def sets priorityOf_def)
  next
    case False
    let ?q = "q\<lparr> q_dirty := insert item (q_dirty q) \<rparr>"
    have none: "mget (q_pending ?q) item = None" using assms(2) False waits by (auto simp: work_inv_def sets)
    have store: "store_inv ?q" using assms(1) by (simp add: store_inv_def)
    have dirty: "work_of ?q = (work_of q)\<lparr> wk_dirty := insert item (wk_dirty (work_of q)) \<rparr>" by (simp add: work_of_def)
    show ?thesis using False store push_entry_ok[OF store none] dirty by (simp add: queue_Add_def spec_Add_def sets Let_def)
  qed
  show "store_inv (queue_Done item q) \<and> work_of (queue_Done item q) = spec_Done item (work_of q)" if "item \<in> q_processing q"
  proof -
    let ?q = "q\<lparr> q_processing := q_processing q - {item} \<rparr>"
    have none: "mget (q_pending ?q) item = None" using assms(2) that waits by (auto simp: work_inv_def sets)
    have store: "store_inv ?q" using assms(1) by (simp add: store_inv_def)
    have proc: "work_of ?q = (work_of q)\<lparr> wk_processing := wk_processing (work_of q) - {item} \<rparr>" by (simp add: work_of_def)
    show ?thesis using store push_entry_ok[OF store none] proc by (simp add: queue_Done_def spec_Done_def sets Let_def)
  qed
  show "store_inv (queue_ShutDown q) \<and> work_of (queue_ShutDown q) = (work_of q)\<lparr> wk_closed := True \<rparr>"
    "store_inv (ShutDownWithDrain q) \<and> work_of (ShutDownWithDrain q) = (work_of q)\<lparr> wk_closed := True \<rparr>"
    using assms(1) by (simp_all add: queue_ShutDown_def ShutDownWithDrain_def store_inv_def work_of_def)
qed

section \<open>Runs\<close>

text \<open>
  Producers and workers use the queue in any order; a worker calls \<open>Done\<close> only for an item it was handed. The operations of the rate
  limiting queue are sequences of these events.
\<close>

datatype 'a queue_event = Adding 'a | Ensuring 'a int | Clearing 'a | Getting 'a | Finishing 'a | Closing | Draining

inductive queue_step :: "'a priorityQueue \<Rightarrow> 'a queue_event \<Rightarrow> 'a priorityQueue \<Rightarrow> bool" where
  step_Add: "queue_step q (Adding item) (queue_Add item q)"
| step_Ensure: "queue_step q (Ensuring item p) (ensurePriority item p q)"
| step_Clear: "queue_step q (Clearing item) (clearPriority item q)"
| step_Get: "queue_Get q = (Got item, q') \<Longrightarrow> queue_step q (Getting item) q'"
| step_Done: "item \<in> q_processing q \<Longrightarrow> queue_step q (Finishing item) (queue_Done item q)"
| step_ShutDown: "queue_step q Closing (queue_ShutDown q)"
| step_Drain: "queue_step q Draining (ShutDownWithDrain q)"

inductive queue_run :: "'a priorityQueue \<Rightarrow> 'a queue_event list \<Rightarrow> 'a priorityQueue \<Rightarrow> bool" where
  run_none: "queue_run q [] q"
| run_more: "queue_run q es q' \<Longrightarrow> queue_step q' e q'' \<Longrightarrow> queue_run q (es @ [e]) q''"

definition queue_inv :: "'a priorityQueue \<Rightarrow> bool" where
  "queue_inv q \<longleftrightarrow> store_inv q \<and> work_inv (work_of q)"

lemma queue_inv_new: "queue_inv newPriorityQueue"
  by (simp add: queue_inv_def store_inv_def work_inv_def work_of_def newPriorityQueue_def good_heap_def indexed_def heap_on_def)

lemma queue_Get_cases:
  assumes "queue_inv q"
  shows "case queue_Get q of
      (Blocked, q') \<Rightarrow> q' = q \<and> wk_waiting (work_of q) = (\<lambda>_. None) \<and> \<not> q_shuttingDown q
    | (Shutdown, q') \<Rightarrow> q' = q \<and> wk_waiting (work_of q) = (\<lambda>_. None) \<and> q_shuttingDown q
    | (Got item, q') \<Rightarrow> store_inv q' \<and> best (work_of q) item \<and> work_of q' = spec_take item (work_of q)"
proof (cases "q_queue q = []")
  case True
  then have "mget (q_pending q) x = None" for x using store_invD(3)[of q x] assms by (cases "mget (q_pending q) x") (auto simp: queue_inv_def)
  then show ?thesis using True by (simp add: queue_Get_def work_of_def)
next
  case False
  have "store_inv q" using assms by (simp add: queue_inv_def)
  from queue_Get_ok[OF this False] show ?thesis by auto
qed

lemma queue_step_inv: "queue_step q e q' \<Longrightarrow> queue_inv q \<Longrightarrow> queue_inv q'"
proof (induction rule: queue_step.induct)
  case (step_Get q item q')
  then show ?case using queue_Get_cases[of q] work_inv_ops(6)[of "work_of q" item] by (auto simp: queue_inv_def best_def)
next
  case (step_Done item q)
  then show ?case using queue_ops_ok(4)[of q item] work_inv_ops(5)[of "work_of q" item] by (auto simp: queue_inv_def work_of_def)
qed (simp_all add: queue_inv_def queue_ops_ok work_inv_ops)

lemma queue_run_inv: "queue_run q es q' \<Longrightarrow> queue_inv q \<Longrightarrow> queue_inv q'"
  by (induction rule: queue_run.induct) (auto intro: queue_step_inv)

lemma spec_raise_frame: "wk_dirty (spec_raise item p s) = wk_dirty s"
  by (simp add: spec_raise_def split: option.splits)

lemma spec_wait_frame: "wk_dirty (spec_wait item s) = wk_dirty s"
  by (simp add: spec_wait_def Let_def)

lemma work_of_dirty: "wk_dirty (work_of q) = q_dirty q" "wk_processing (work_of q) = q_processing q"
  by (simp_all add: work_of_def)

lemma step_stays_dirty:
  assumes "queue_step q e q'" "queue_inv q" "e \<noteq> Getting item" "item \<in> q_dirty q"
  shows "item \<in> q_dirty q'"
proof -
  have inv: "store_inv q" "work_inv (work_of q)" using assms(2) by (simp_all add: queue_inv_def)
  note ops = queue_ops_ok[OF inv]
  have "item \<in> wk_dirty (work_of q')"
    using assms(1)
  proof cases
    case (step_Get x)
    with queue_Get_cases[OF assms(2)] assms(3,4) show ?thesis by (simp add: spec_take_def work_of_dirty)
  qed (use assms(4) ops in \<open>auto simp: spec_Add_def spec_ensure_def spec_Done_def Let_def spec_raise_frame spec_wait_frame work_of_dirty\<close>)
  then show ?thesis by (simp add: work_of_dirty)
qed

lemma run_stays_dirty:
  "queue_run q es q' \<Longrightarrow> queue_inv q \<Longrightarrow> item \<in> q_dirty q \<Longrightarrow> Getting item \<notin> set es \<Longrightarrow> item \<in> q_dirty q'"
proof (induction rule: queue_run.induct)
  case (run_more q es q' e q'')
  then have "queue_inv q'" "item \<in> q_dirty q'" using queue_run_inv by auto
  with run_more.hyps(2) run_more.prems(3) show ?case by (intro step_stays_dirty[of q' e q'']) auto
qed simp

section \<open>Properties\<close>

text \<open>
  \<^bold>\<open>C37.\<close> However producers and workers interleave, the heap of entries with its pointers and positions behaves as the abstract queue: each
  operation has the abstract effect; \<open>Get\<close> hands out the waiting item with the highest priority, among these the one with the lowest sequence number, never an item that is still being
  processed, and it blocks or reports the shut down exactly when nothing waits.
\<close>

theorem queue_refines:
  assumes "queue_run newPriorityQueue es q"
  shows "work_of (queue_Add item q) = spec_Add item (work_of q)
    \<and> work_of (ensurePriority item p q) = spec_ensure item p (work_of q)
    \<and> work_of (clearPriority item q) = (work_of q)\<lparr> wk_priorities := (wk_priorities (work_of q))(item := None) \<rparr>
    \<and> (item \<in> q_processing q \<longrightarrow> work_of (queue_Done item q) = spec_Done item (work_of q))
    \<and> (case queue_Get q of
        (Blocked, q') \<Rightarrow> q' = q \<and> wk_waiting (work_of q) = (\<lambda>_. None) \<and> \<not> q_shuttingDown q
      | (Shutdown, q') \<Rightarrow> q' = q \<and> wk_waiting (work_of q) = (\<lambda>_. None) \<and> q_shuttingDown q
      | (Got x, q') \<Rightarrow> best (work_of q) x \<and> x \<notin> q_processing q \<and> work_of q' = spec_take x (work_of q))"
proof -
  have inv: "queue_inv q" by (rule queue_run_inv[OF assms queue_inv_new])
  then have both: "store_inv q" "work_inv (work_of q)" by (simp_all add: queue_inv_def)
  have idle: "x \<notin> q_processing q" if "best (work_of q) x" for x
    using that both(2) by (auto simp: best_def work_inv_def work_of_dirty)
  have "case queue_Get q of
        (Blocked, q') \<Rightarrow> q' = q \<and> wk_waiting (work_of q) = (\<lambda>_. None) \<and> \<not> q_shuttingDown q
      | (Shutdown, q') \<Rightarrow> q' = q \<and> wk_waiting (work_of q) = (\<lambda>_. None) \<and> q_shuttingDown q
      | (Got x, q') \<Rightarrow> best (work_of q) x \<and> x \<notin> q_processing q \<and> work_of q' = spec_take x (work_of q)"
    using queue_Get_cases[OF inv] idle by (auto split: prod.splits got.splits)
  then show ?thesis using queue_ops_ok[OF both] by blast
qed

text \<open>
  \<^bold>\<open>C38.\<close> No request is lost. Once an item was added to an open queue, it stays marked until a worker gets it, whatever else happens,
  the shut down of the queue included; until then it is waiting, so that \<open>Get\<close> does not block, or it is being processed and will wait again when it
  is done.
\<close>

theorem queue_no_lost_work:
  assumes "queue_run newPriorityQueue es q" and "\<not> q_shuttingDown q"
    and "queue_run (queue_Add item q) es' q'" and "Getting item \<notin> set es'"
  shows "item \<in> q_dirty q' \<and>
    (if item \<in> q_processing q' then wk_waiting (work_of (queue_Done item q')) item \<noteq> None
     else wk_waiting (work_of q') item \<noteq> None \<and> (\<exists>x q''. queue_Get q' = (Got x, q'')))"
proof -
  have inv: "queue_inv q" by (rule queue_run_inv[OF assms(1) queue_inv_new])
  then have both: "store_inv q" "work_inv (work_of q)" by (simp_all add: queue_inv_def)
  have inv1: "queue_inv (queue_Add item q)" by (rule queue_step_inv[OF step_Add inv])
  have "item \<in> wk_dirty (work_of (queue_Add item q))"
    using queue_ops_ok(3)[OF both, of item] assms(2)
    by (auto simp: spec_Add_def Let_def spec_raise_frame spec_wait_frame work_of_def)
  then have "item \<in> q_dirty (queue_Add item q)" by (simp add: work_of_dirty)
  then have dirty: "item \<in> q_dirty q'" by (rule run_stays_dirty[OF assms(3) inv1 _ assms(4)])
  have inv': "queue_inv q'" by (rule queue_run_inv[OF assms(3) inv1])
  then have both': "store_inv q'" "work_inv (work_of q')" by (simp_all add: queue_inv_def)
  have wait: "wk_waiting (work_of q') item \<noteq> None" if "item \<notin> q_processing q'"
    using both'(2) dirty that by (auto simp: work_inv_def work_of_dirty)
  have "\<exists>x q''. queue_Get q' = (Got x, q'')" if "item \<notin> q_processing q'"
    using queue_Get_cases[OF inv'] wait[OF that] by (cases "queue_Get q'"; cases "fst (queue_Get q')") auto
  moreover have "wk_waiting (work_of (queue_Done item q')) item \<noteq> None" if "item \<in> q_processing q'"
    using queue_ops_ok(4)[OF both' that] dirty by (simp add: spec_Done_def spec_wait_def Let_def work_of_dirty)
  ultimately show ?thesis using dirty wait by simp
qed

section \<open>Examples\<close>

text \<open>The abstract queue also evaluates examples: the effect of the operations on the abstract state.\<close>

lemma abstract_AddWithPriority:
  "queue_inv q \<Longrightarrow> queue_inv (AddWithPriority i p q) \<and> work_of (AddWithPriority i p q) = spec_Add i (spec_ensure i p (work_of q))"
  by (simp add: AddWithPriority_def queue_inv_def queue_ops_ok work_inv_ops)

lemma abstract_rl_Add: "rl_Add i q = AddWithPriority i 0 q"
  by (simp add: rl_Add_def AddWithPriority_def)

lemma abstract_Forget:
  "queue_inv q \<Longrightarrow> queue_inv (rl_Forget i q) \<and> work_of (rl_Forget i q) = (work_of q)\<lparr> wk_priorities := (wk_priorities (work_of q))(i := None) \<rparr>"
  by (simp add: rl_Forget_def queue_inv_def queue_ops_ok work_inv_ops)

lemma abstract_Done:
  "queue_inv q \<Longrightarrow> i \<in> wk_processing (work_of q) \<Longrightarrow> queue_inv (queue_Done i q) \<and> work_of (queue_Done i q) = spec_Done i (work_of q)"
  using queue_ops_ok(4)[of q i] work_inv_ops(5)[of "work_of q" i] by (simp add: queue_inv_def work_of_dirty)

lemma best_unique:
  assumes "wk_waiting s i = Some (p, n)" "\<And>x p' n'. x \<noteq> i \<Longrightarrow> wk_waiting s x = Some (p', n') \<Longrightarrow> p' < p \<or> p' = p \<and> n < n'" "best s x"
  shows "x = i"
proof (rule ccontr)
  assume "x \<noteq> i"
  obtain p' n' where x: "wk_waiting s x = Some (p', n')" "p < p' \<or> p = p' \<and> n' \<le> n"
    using assms(1,3) by (auto simp: best_def)
  with assms(2)[OF \<open>x \<noteq> i\<close> x(1)] show False by auto
qed

lemma abstract_Get:
  assumes "queue_inv q" "wk_waiting (work_of q) i = Some (p, n)"
    and "\<And>x p' n'. x \<noteq> i \<Longrightarrow> wk_waiting (work_of q) x = Some (p', n') \<Longrightarrow> p' < p \<or> p' = p \<and> n < n'"
  shows "\<exists>q'. queue_Get q = (Got i, q') \<and> queue_inv q' \<and> work_of q' = spec_take i (work_of q)"
proof -
  obtain g q' where get: "queue_Get q = (g, q')" by fastforce
  note cases = queue_Get_cases[OF assms(1), unfolded get]
  from cases assms(2) obtain x where g: "g = Got x" by (cases g) auto
  have got: "best (work_of q) x" "store_inv q'" "work_of q' = spec_take x (work_of q)" using cases g by auto
  have "x = i" by (rule best_unique[OF assms(2) assms(3) got(1)])
  with got have x: "x = i" "store_inv q'" "work_of q' = spec_take i (work_of q)" by simp_all
  then have "queue_inv q'" using work_inv_ops(6)[of "work_of q" i] assms(1,2) by (simp add: queue_inv_def)
  with get g x show ?thesis by blast
qed

lemma work_of_new: "work_of newPriorityQueue =
    \<lparr> wk_waiting = (\<lambda>_. None), wk_dirty = {}, wk_processing = {}, wk_priorities = (\<lambda>_. None), wk_closed = False, wk_seq = 0 \<rparr>"
  by (simp add: work_of_def newPriorityQueue_def)

definition ex_queue :: "nat priorityQueue" where
  "ex_queue = AddWithPriority 7 50 (AddWithPriority 6 10 (rl_Add 5 newPriorityQueue))"

lemma ex_queue_run: "queue_run newPriorityQueue [Ensuring 5 0, Adding 5, Ensuring 6 10, Adding 6, Ensuring 7 50, Adding 7] ex_queue"
proof -
  have step: "queue_run q es q' \<Longrightarrow> queue_run q (es @ [Ensuring i p, Adding i]) (queue_Add i (ensurePriority i p q'))"
    for q q' :: "nat priorityQueue" and es i p
    using run_more[OF run_more[OF _ step_Ensure] step_Add, of q es q' i p i] by simp
  from step[OF step[OF step[OF run_none]], of newPriorityQueue 5 0 6 10 7 50] show ?thesis
    by (simp add: ex_queue_def rl_Add_def AddWithPriority_def)
qed

lemma ex_queue_work: "wk_waiting (work_of ex_queue) = [5 \<mapsto> (0, 1), 6 \<mapsto> (10, 2), 7 \<mapsto> (50, 3)]" "\<not> q_shuttingDown ex_queue"
proof -
  note q1 = abstract_AddWithPriority[OF queue_inv_new, of "5 :: nat" 0]
  note q2 = abstract_AddWithPriority[OF conjunct1[OF q1], of 6 10]
  note q3 = abstract_AddWithPriority[OF conjunct1[OF q2], of 7 50]
  have "work_of ex_queue = spec_Add 7 (spec_ensure 7 50 (spec_Add 6 (spec_ensure 6 10 (spec_Add 5 (spec_ensure 5 0 (work_of newPriorityQueue))))))"
    using q1 q2 q3 by (simp add: ex_queue_def abstract_rl_Add)
  then have work: "wk_waiting (work_of ex_queue) = [5 \<mapsto> (0, 1), 6 \<mapsto> (10, 2), 7 \<mapsto> (50, 3)]" "wk_closed (work_of ex_queue) = False"
    by (simp_all add: work_defs work_of_new numeral_2_eq_2[symmetric])
  show "wk_waiting (work_of ex_queue) = [5 \<mapsto> (0, 1), 6 \<mapsto> (10, 2), 7 \<mapsto> (50, 3)]" by (rule work(1))
  show "\<not> q_shuttingDown ex_queue" using work(2) by (simp add: work_of_def)
qed

theorem queue_refines_witness:
  "queue_run newPriorityQueue [Ensuring 5 0, Adding 5, Ensuring 6 10, Adding 6, Ensuring 7 50, Adding 7] ex_queue \<and>
   fst (queue_Get ex_queue) = Got 7"
proof -
  have best: "x = 7" if "best (work_of ex_queue) x" for x
    by (rule best_unique[OF _ _ that, of _ 50 3]) (auto simp: ex_queue_work(1) split: if_splits)
  have waits: "wk_waiting (work_of ex_queue) \<noteq> (\<lambda>_. None)" using fun_cong[of _ _ 7] by (fastforce simp: ex_queue_work(1))
  obtain g q' where get: "queue_Get ex_queue = (g, q')" by fastforce
  have "g = Got 7"
    using queue_refines[OF ex_queue_run, of 0 0] best waits by (cases g) (auto simp: get)
  then show ?thesis using ex_queue_run get by simp
qed

theorem queue_no_lost_work_witness:
  "\<not> q_shuttingDown ex_queue \<and> queue_run (queue_Add 6 ex_queue) [Closing] (queue_ShutDown (queue_Add 6 ex_queue)) \<and>
   6 \<in> q_dirty (queue_ShutDown (queue_Add 6 ex_queue))"
proof -
  have run: "queue_run (queue_Add 6 ex_queue) [Closing] (queue_ShutDown (queue_Add 6 ex_queue))"
    using run_more[OF run_none step_ShutDown] by simp
  show ?thesis using queue_no_lost_work[OF ex_queue_run ex_queue_work(2) run] run ex_queue_work(2) by simp
qed

text \<open>
  A priority given to an item while it is being processed is lost when the worker forgets the item before it is done, which workers do after
  a success: the item then waits with priority 0, behind one with priority 50, although it was added with 100.
\<close>

lemma forget_loses_priority:
  "\<exists>q1 q2. queue_Get (rl_Add 5 (newPriorityQueue :: nat priorityQueue)) = (Got 5, q1) \<and>
     queue_Get (queue_Done 5 (rl_Forget 5 (AddWithPriority 6 50 (AddWithPriority 5 100 q1)))) = (Got 6, q2)"
proof -
  let ?q0 = "AddWithPriority 5 0 (newPriorityQueue :: nat priorityQueue)"
  note q0 = abstract_AddWithPriority[OF queue_inv_new, of "5 :: nat" 0]
  have w0: "work_of ?q0 = \<lparr> wk_waiting = [5 \<mapsto> (0, 1)], wk_dirty = {5}, wk_processing = {}, wk_priorities = [5 \<mapsto> 0], wk_closed = False, wk_seq = 1 \<rparr>"
    using q0 by (simp add: work_defs work_of_new)
  obtain q1 where q1: "queue_Get ?q0 = (Got 5, q1)" "queue_inv q1" "work_of q1 = spec_take 5 (work_of ?q0)"
    using abstract_Get[OF conjunct1[OF q0], of 5 0 1] by (auto simp: w0 split: if_splits)
  note q2 = abstract_AddWithPriority[OF q1(2), of 5 100]
  note q3 = abstract_AddWithPriority[OF conjunct1[OF q2], of 6 50]
  note q4 = abstract_Forget[OF conjunct1[OF q3], of 5]
  let ?q4 = "rl_Forget 5 (AddWithPriority 6 50 (AddWithPriority 5 100 q1))"
  have w4: "work_of ?q4 = \<lparr> wk_waiting = [6 \<mapsto> (50, 2)], wk_dirty = {6, 5}, wk_processing = {5},
      wk_priorities = [6 \<mapsto> 50], wk_closed = False, wk_seq = 2 \<rparr>"
    using q4 q3 q2 q1(3) by (simp add: work_defs w0 fun_eq_iff)
  then have q5: "queue_inv (queue_Done 5 ?q4)" "work_of (queue_Done 5 ?q4) = spec_Done 5 (work_of ?q4)"
    using abstract_Done[OF conjunct1[OF q4], of 5] by simp_all
  have "\<exists>q'. queue_Get (queue_Done 5 ?q4) = (Got 6, q') \<and> queue_inv q' \<and> work_of q' = spec_take 6 (work_of (queue_Done 5 ?q4))"
    by (rule abstract_Get[OF q5(1), of _ 50 2]) (auto simp: q5(2) w4 work_defs split: if_splits)
  then show ?thesis using q1(1) by (auto simp: abstract_rl_Add)
qed

end
