(* ===== verification/Spec2Isabelle.thy ===== *)
theory Spec2Isabelle
  imports DraController ResourceSlices ConfigApi NodeLock MigSafety KubeletSafety FeatureGates SyncLoop Admission VfioSafety MigInstances NodeAgentSafety PhysicalGpuController SharingSafety RequestRewriter PoolAdmissionSafety DeviceLifecycle PodAdmissionSafety WorkQueueSafety
begin

text \<open>
  \<^bold>\<open>Verification of the GPU control plane\<close>

  The repository (\<open>src/\<close>) hands out NVIDIA GPUs to workloads of a Kubernetes cluster. It has two generations of
  controllers and a proxy:

  \<^item> \<open>images/gpu-artifact\<close> uses dynamic resource allocation (DRA). On each node a \<^emph>\<open>node agent\<close> keeps one \<open>PhysicalGPU\<close>
    object per GPU on the PCI bus, and a \<^emph>\<open>GPU agent\<close> (\<open>gpuhandler\<close>) reads the GPUs through NVML and publishes whole
    GPUs and MIG partitions as resource slices. A cluster-wide \<^emph>\<open>controller\<close> sets the driver condition of the GPUs from validator
    pods, checks device configurations on admission, and allocates devices to resource claims. The \<^emph>\<open>kubelet plugin\<close>
    of a node prepares an allocated claim: it creates MIG instances, moves GPUs to the VFIO driver, starts MPS daemons, sets time
    slices, writes CDI files, and keeps a checkpoint file that makes this repeatable and undoable.
  \<^item> \<open>images/gpu-control-plane-artifact\<close> groups devices in \<^emph>\<open>pools\<close>: webhooks validate pools, assignments and pods, and
    controllers select the devices of a pool, follow their life cycle, mark the nodes and account for usage. Its controllers take
    work from a priority queue.
  \<^item> \<open>images/kube-api-rewriter\<close> is a proxy between vendor components and the API server that renames groups, resources, labels and paths.

  \<^bold>\<open>How the code is modelled.\<close> A struct is a record, a method a function with the same name (prefixed by the type where names
  would clash: \<open>Locker_Lock\<close> for \<open>Locker.Lock\<close>); an auxiliary definition that cuts a long function in pieces has a lower-case name.
  Errors are values of sums, nil pointers are options, 64- and 32-bit integers are \<open>int\<close> with every wrap-around written out, Go maps
  are association lists whose order is the order of iteration (\<open>Prelude\<close>). What is outside the repository is a parameter over an
  arbitrary world: the API client, NVML, system calls, program execution, CEL, quantities, decoders, clocks and \<open>sort.Slice\<close>; where a theorem relies
  on such a parameter, it names the laws as a hypothesis (\<open>quantity_ok\<close>, \<open>sorts_devices\<close>, \<open>mig_laws\<close>, \<open>sysfs_laws\<close>, \<open>store_laws\<close>,
  \<open>device_laws\<close>, \<open>retry_laws\<close>), and its witness instantiates the parameter with a concrete function that has them.

  \<^bold>\<open>Allocation\<close> (\<open>pkg/dra/services/allocator\<close>, \<open>pkg/dra/adapters/k8s\<close>, \<open>pkg/controller/dra\<close>).
  \<^item> \<open>Allocatable\<close> (device offers, names), \<open>Capacity\<close> and \<open>Counters\<close> (the two kinds of shared resources), \<open>AllocatorTypes\<close> (grouping by GPU),
    \<open>NodeAllocation\<close> (\<open>allocateOnNode\<close> with its loops), \<open>AllocatorService\<close> (choice of the node).
  \<^item> \<open>Ledger\<close> states the contract of a chargeable resource as the locale \<open>resource_ledger\<close>; \<open>Counters\<close> and \<open>Capacity\<close>
    interpret it, and \<open>NodeSafety\<close> proves from it that a successful allocation overcommits neither counters nor capacities, hands
    out exclusive devices once, never a whole GPU next to its MIG partitions, and answers every request in full.
  \<^item> \<open>Render\<close> and \<open>ResourceSlices\<close> publish the inventory (layouts, features) and read it back; \<open>K8sAllocator\<close> and \<open>PoolFilter\<close> turn
    API objects into the input of the allocator; \<open>Reconciler\<close>, \<open>ResourceUpdate\<close> and \<open>DraController\<close> are the framework and the claim
    controller. Theorems: nothing is lost in publication, what is read back is what the features show, held devices are not handed out twice,
    and a reconciliation writes at most the allocation it computed.

  \<^bold>\<open>Preparation on the node\<close> (\<open>pkg/dra/services/prepare\<close>, \<open>pkg/dra/driver\<close>, \<open>pkg/dra/adapters\<close>, \<open>pkg/dra/configapi\<close>).
  \<^item> \<open>PrepareTypes\<close> has the ports, the step runner and a small calculus of valid steps and runs; \<open>PrepareSteps\<close> and \<open>PrepareService\<close>
    have one definition per step and the two pipelines. \<open>PrepareEffects\<close>, \<open>PrepareSafety\<close> and \<open>UnprepareSafety\<close> prove them against the
    locales \<open>checkpoint_store\<close> and \<open>prepare_node\<close>; \<open>CheckpointFile\<close> (JSON) and \<open>NodeStore\<close> (atomic replacement under failing system calls)
    interpret them on the real file, and \<open>NodeLock\<close> the locale \<open>node_lock\<close> for the file lock.
  \<^item> \<open>ConfigApi\<close>: device configurations. \<open>KubeletDriver\<close>, \<open>KubeletSafety\<close>: the kubelet entry points. \<open>Admission\<close>: the webhook for
    configurations, and that it agrees with the node.
  \<^item> \<open>MigInstances\<close>, \<open>VfioManager\<close> with \<open>VfioSafety\<close>, \<open>Sharing\<close> with \<open>SharingSafety\<close>: the managers behind the ports.
  \<^item> Theorems: what is on disk after success and failure, idempotence, atomicity, mutual exclusion, what teardown gives back, which
    instances a failed preparation can leave, that drivers are restored, that the MPS log stands for a configured daemon.

  \<^bold>\<open>Agents\<close> (\<open>pkg/gpuhandler\<close>, \<open>pkg/nodeagent\<close>, \<open>pkg/controller/physicalgpu\<close>).
  \<^item> \<open>Inventory\<close> (offers and counters of a node) and \<open>MigSafety\<close> (MIG placements from offer to preparation stay disjoint);
    \<open>GpuAgent\<close> with \<open>GpuAgentSafety\<close> (one sync), \<open>FeatureGates\<close>, \<open>SyncLoop\<close> (the event loop as a step relation);
    \<open>NodeAgent\<close> with \<open>NodeAgentSafety\<close>; \<open>PhysicalGpuController\<close>.
  \<^item> Theorems: exactly the healthy GPUs are published, reacting to rejected features ends, no wake-up is lost, the objects of a node
    follow its bus, the driver condition follows the validator pods.

  \<^bold>\<open>Pools\<close> (\<open>images/gpu-control-plane-artifact/pkg/controller\<close>).
  \<^item> \<open>PoolTypes\<close>; \<open>PoolAdmission\<close> with \<open>PoolAdmissionSafety\<close> (specifications, unique names); \<open>PoolDevices\<close> with \<open>PoolDevicesSafety\<close> (one run of
    the selection) and \<open>DeviceLifecycle\<close> (all handlers together refine the step relation \<open>device_step\<close>); \<open>PodAdmission\<close> with
    \<open>PodAdmissionSafety\<close> (pods are pinned to their pool).
  \<^item> \<open>BinaryHeap\<close> (the algorithms of \<open>container/heap\<close> under the locale \<open>weak_order\<close>), \<open>WorkQueue\<close> and \<open>WorkQueueSafety\<close>: the
    queue with its shared entries refines an abstract priority queue and loses no work.

  \<^bold>\<open>API proxy\<close> (\<open>images/kube-api-rewriter/pkg/rewriter\<close>): \<open>NameRewriter\<close>, where the locale \<open>renaming\<close> says that what a client reads and writes back is what
  the server had, with interpretations for labels, groups and prefixes, and \<open>RequestRewriter\<close> (rules, paths, queries, payload decisions).

  \<open>Prelude\<close>, \<open>GoStrings\<close> and \<open>GoPaths\<close> hold the parts of Go's library that are shared.

  \<^bold>\<open>Loops and termination.\<close> Loops over slices and maps are structural recursions, so they end. No fuel is used. The lock loop may wait for ever and is
  a \<open>partial_function (option)\<close>, with the exact condition under which it returns; the sync loop and the work queue are step relations; retries of the API
  machinery are parameters. Concurrency appears where the code has it: producers and workers of the work queue and events of the sync loop
  interleave freely, the controller of the GPUs is proved under concurrent writers, and the handlers of pools run one after another in any order.

  \<^bold>\<open>Not modelled.\<close> JSON rewriting in the proxy (third-party packages); detection of GPUs, conditions and rendering of workloads in the
  bootstrap and inventory controllers of the pool generation; watches, caches and their staleness; start-up, command lines, logging and
  metrics; Deckhouse hooks; generated code. Texts of error messages are kept where code compares
  or stores them and abbreviated elsewhere.
\<close>

end
